(* ===== verification/Enums.thy ===== *)
theory Enums
  imports Main
begin

text \<open>
  The enumerations of the A-Flow schemas (\<open>aflow/schemas/v1\<close>) that the code branches on, one
  datatype each with the schema's values as constructors, and the JSON string of each value.
\<close>

datatype priority = Blocking | Major | Minor

datatype dimension =
    Correctness | Completeness | Usability | Consistency | Reliability
  | EvidenceQuality | ConstraintCompliance

datatype authority_status = Allowed | RequiresConfirmation | Prohibited | UnknownAuthority

datatype prerequisite_status = Satisfied | Unsatisfied | Deferred | UnknownPrerequisite

datatype activation_type =
    Automatic | PhaseEntry | ExplicitUserAuthorization | ExternalEvent | NotRequired

datatype dependency_status = DepResolved | DepUnresolved | DepNotRequired

datatype assumption_status = Substantiated | Unsubstantiated | AssumptionRejected

datatype risk_status = RiskResolved | RiskUnresolved | NoneIdentified

datatype evidence_status =
    Verified | UserSupplied | Inferred | Proposed | UnknownStatus | Stale | ContradictedStatus

datatype visibility = AnalysisInput | ClosureInput | BuildResultInput

datatype drift_class = Relevant | ProtectedPath | Unrelated | UnknownClass

datatype gap_type =
    StructuralMissing | StructuralInvalid | BrokenReference | CoverageGap | DependencyGap
  | UnsupportedAssumption | TerminologyDrift | InterpretationDrift | CapabilityGap
  | SystemBoundaryGap | SimilarityOverlapGap | SequenceActivationGap | ValidationEvidenceGap
  | OutputEnvironmentGap | AuthorityAmbiguity | Contradiction | RelevantDrift | OtherMaterial

datatype closure_code =
    AddRequiredField | CorrectInvalidValue | RepairReference | CoverRequirement
  | ResolveDependency | SubstantiateOrRemoveAssumption | AlignTerminology
  | CorrectInterpretation | AssignValidCapability | RestoreSystemBoundary | ResolveOverlap
  | CorrectSequenceOrActivation | AddSufficientValidation | ExerciseRequiredEnvironment
  | ResolveAuthorityOwnership | ResolveContradiction | RevalidateAfterDrift | OtherBounded

datatype origin = Deterministic | Semantic

datatype finding_status = FindingOpen | FindingClosed | FindingRejected | FindingInvalidated

datatype decision_kind =
    NoMaterialGap | MaterialGapFound | MissingEvidence | ContradictedPlan
  | DriftRevalidationRequired

datatype closure_status = Closed | PartiallyClosed | StillOpen | Invalidated

datatype build_status = Completed | Failed | Partial

datatype validation_status = Passed | FailedValidation | NotRun | Inconclusive

datatype quality_status = QPass | QPartial | QFail | QUnproven | QNotApplicable

datatype verdict = Proven | PartiallyProven | Unproven | Contradicted | InvalidatedByDrift

datatype change_type = Added | Modified | Deleted | AuthorityChanged | BaselineUnverifiable

datatype drift_kind =
    NoDrift | NonblockingDriftRecorded | ScopedRevalidationRequired
  | FullReanalysisRequired | DriftUnverifiable

fun priority_str :: "priority \<Rightarrow> string" where
  "priority_str Blocking = ''blocking''"
| "priority_str Major = ''major''"
| "priority_str Minor = ''minor''"

fun dimension_str :: "dimension \<Rightarrow> string" where
  "dimension_str Correctness = ''correctness''"
| "dimension_str Completeness = ''completeness''"
| "dimension_str Usability = ''usability''"
| "dimension_str Consistency = ''consistency''"
| "dimension_str Reliability = ''reliability''"
| "dimension_str EvidenceQuality = ''evidence_quality''"
| "dimension_str ConstraintCompliance = ''constraint_compliance''"

fun authority_status_str :: "authority_status \<Rightarrow> string" where
  "authority_status_str Allowed = ''allowed''"
| "authority_status_str RequiresConfirmation = ''requires_confirmation''"
| "authority_status_str Prohibited = ''prohibited''"
| "authority_status_str UnknownAuthority = ''unknown''"

fun prerequisite_status_str :: "prerequisite_status \<Rightarrow> string" where
  "prerequisite_status_str Satisfied = ''satisfied''"
| "prerequisite_status_str Unsatisfied = ''unsatisfied''"
| "prerequisite_status_str Deferred = ''deferred''"
| "prerequisite_status_str UnknownPrerequisite = ''unknown''"

fun activation_type_str :: "activation_type \<Rightarrow> string" where
  "activation_type_str Automatic = ''automatic''"
| "activation_type_str PhaseEntry = ''phase_entry''"
| "activation_type_str ExplicitUserAuthorization = ''explicit_user_authorization''"
| "activation_type_str ExternalEvent = ''external_event''"
| "activation_type_str NotRequired = ''not_required''"

fun dependency_status_str :: "dependency_status \<Rightarrow> string" where
  "dependency_status_str DepResolved = ''resolved''"
| "dependency_status_str DepUnresolved = ''unresolved''"
| "dependency_status_str DepNotRequired = ''not_required''"

fun assumption_status_str :: "assumption_status \<Rightarrow> string" where
  "assumption_status_str Substantiated = ''substantiated''"
| "assumption_status_str Unsubstantiated = ''unsubstantiated''"
| "assumption_status_str AssumptionRejected = ''rejected''"

fun risk_status_str :: "risk_status \<Rightarrow> string" where
  "risk_status_str RiskResolved = ''resolved''"
| "risk_status_str RiskUnresolved = ''unresolved''"
| "risk_status_str NoneIdentified = ''none_identified''"

fun evidence_status_str :: "evidence_status \<Rightarrow> string" where
  "evidence_status_str Verified = ''verified''"
| "evidence_status_str UserSupplied = ''user_supplied''"
| "evidence_status_str Inferred = ''inferred''"
| "evidence_status_str Proposed = ''proposed''"
| "evidence_status_str UnknownStatus = ''unknown''"
| "evidence_status_str Stale = ''stale''"
| "evidence_status_str ContradictedStatus = ''contradicted''"

fun visibility_str :: "visibility \<Rightarrow> string" where
  "visibility_str AnalysisInput = ''analysis_input''"
| "visibility_str ClosureInput = ''closure_input''"
| "visibility_str BuildResultInput = ''build_result_input''"

fun drift_class_str :: "drift_class \<Rightarrow> string" where
  "drift_class_str Relevant = ''relevant''"
| "drift_class_str ProtectedPath = ''protected''"
| "drift_class_str Unrelated = ''unrelated''"
| "drift_class_str UnknownClass = ''unknown''"

fun gap_type_str :: "gap_type \<Rightarrow> string" where
  "gap_type_str StructuralMissing = ''structural_missing''"
| "gap_type_str StructuralInvalid = ''structural_invalid''"
| "gap_type_str BrokenReference = ''broken_reference''"
| "gap_type_str CoverageGap = ''coverage_gap''"
| "gap_type_str DependencyGap = ''dependency_gap''"
| "gap_type_str UnsupportedAssumption = ''unsupported_assumption''"
| "gap_type_str TerminologyDrift = ''terminology_drift''"
| "gap_type_str InterpretationDrift = ''interpretation_drift''"
| "gap_type_str CapabilityGap = ''capability_gap''"
| "gap_type_str SystemBoundaryGap = ''system_boundary_gap''"
| "gap_type_str SimilarityOverlapGap = ''similarity_overlap_gap''"
| "gap_type_str SequenceActivationGap = ''sequence_activation_gap''"
| "gap_type_str ValidationEvidenceGap = ''validation_evidence_gap''"
| "gap_type_str OutputEnvironmentGap = ''output_environment_gap''"
| "gap_type_str AuthorityAmbiguity = ''authority_ambiguity''"
| "gap_type_str Contradiction = ''contradiction''"
| "gap_type_str RelevantDrift = ''relevant_drift''"
| "gap_type_str OtherMaterial = ''other_material''"

fun closure_code_str :: "closure_code \<Rightarrow> string" where
  "closure_code_str AddRequiredField = ''add_required_field''"
| "closure_code_str CorrectInvalidValue = ''correct_invalid_value''"
| "closure_code_str RepairReference = ''repair_reference''"
| "closure_code_str CoverRequirement = ''cover_requirement''"
| "closure_code_str ResolveDependency = ''resolve_dependency''"
| "closure_code_str SubstantiateOrRemoveAssumption = ''substantiate_or_remove_assumption''"
| "closure_code_str AlignTerminology = ''align_terminology''"
| "closure_code_str CorrectInterpretation = ''correct_interpretation''"
| "closure_code_str AssignValidCapability = ''assign_valid_capability''"
| "closure_code_str RestoreSystemBoundary = ''restore_system_boundary''"
| "closure_code_str ResolveOverlap = ''resolve_overlap''"
| "closure_code_str CorrectSequenceOrActivation = ''correct_sequence_or_activation''"
| "closure_code_str AddSufficientValidation = ''add_sufficient_validation''"
| "closure_code_str ExerciseRequiredEnvironment = ''exercise_required_environment''"
| "closure_code_str ResolveAuthorityOwnership = ''resolve_authority_ownership''"
| "closure_code_str ResolveContradiction = ''resolve_contradiction''"
| "closure_code_str RevalidateAfterDrift = ''revalidate_after_drift''"
| "closure_code_str OtherBounded = ''other_bounded''"

fun origin_str :: "origin \<Rightarrow> string" where
  "origin_str Deterministic = ''deterministic''"
| "origin_str Semantic = ''semantic''"

fun finding_status_str :: "finding_status \<Rightarrow> string" where
  "finding_status_str FindingOpen = ''open''"
| "finding_status_str FindingClosed = ''closed''"
| "finding_status_str FindingRejected = ''rejected''"
| "finding_status_str FindingInvalidated = ''invalidated''"

fun decision_kind_str :: "decision_kind \<Rightarrow> string" where
  "decision_kind_str NoMaterialGap = ''no_material_gap''"
| "decision_kind_str MaterialGapFound = ''material_gap_found''"
| "decision_kind_str MissingEvidence = ''missing_evidence''"
| "decision_kind_str ContradictedPlan = ''contradicted''"
| "decision_kind_str DriftRevalidationRequired = ''drift_revalidation_required''"

fun closure_status_str :: "closure_status \<Rightarrow> string" where
  "closure_status_str Closed = ''closed''"
| "closure_status_str PartiallyClosed = ''partially_closed''"
| "closure_status_str StillOpen = ''open''"
| "closure_status_str Invalidated = ''invalidated''"

fun build_status_str :: "build_status \<Rightarrow> string" where
  "build_status_str Completed = ''completed''"
| "build_status_str Failed = ''failed''"
| "build_status_str Partial = ''partial''"

fun validation_status_str :: "validation_status \<Rightarrow> string" where
  "validation_status_str Passed = ''passed''"
| "validation_status_str FailedValidation = ''failed''"
| "validation_status_str NotRun = ''not_run''"
| "validation_status_str Inconclusive = ''inconclusive''"

fun quality_status_str :: "quality_status \<Rightarrow> string" where
  "quality_status_str QPass = ''pass''"
| "quality_status_str QPartial = ''partial''"
| "quality_status_str QFail = ''fail''"
| "quality_status_str QUnproven = ''unproven''"
| "quality_status_str QNotApplicable = ''not_applicable''"

fun verdict_str :: "verdict \<Rightarrow> string" where
  "verdict_str Proven = ''proven''"
| "verdict_str PartiallyProven = ''partially_proven''"
| "verdict_str Unproven = ''unproven''"
| "verdict_str Contradicted = ''contradicted''"
| "verdict_str InvalidatedByDrift = ''invalidated_by_drift''"

fun change_type_str :: "change_type \<Rightarrow> string" where
  "change_type_str Added = ''added''"
| "change_type_str Modified = ''modified''"
| "change_type_str Deleted = ''deleted''"
| "change_type_str AuthorityChanged = ''authority_changed''"
| "change_type_str BaselineUnverifiable = ''baseline_unverifiable''"

fun drift_kind_str :: "drift_kind \<Rightarrow> string" where
  "drift_kind_str NoDrift = ''no_drift''"
| "drift_kind_str NonblockingDriftRecorded = ''nonblocking_drift_recorded''"
| "drift_kind_str ScopedRevalidationRequired = ''scoped_revalidation_required''"
| "drift_kind_str FullReanalysisRequired = ''full_reanalysis_required''"
| "drift_kind_str DriftUnverifiable = ''baseline_unverifiable''"

end
