(* ===== verification/Prelude.thy ===== *)
theory Prelude
  imports Main "HOL-Library.AList" "HOL-Library.List_Lexorder" "HOL-Library.Char_ord"
    "HOL-Library.Sublist"
begin

text \<open>
  The shared base of the development: Python exceptions as values of a result type with its
  bind and guard, Python dictionaries as association lists that keep the position of the first
  insertion and the value of the last one, the string operations the sources call, and the
  generic facts on lists and sets that the component theories use.  Strings are lists of bytes
  (a Python string is represented by its UTF-8 encoding); \<open>py_len\<close> counts code points.
\<close>

named_theorems result_simps \<open>inversion facts about results that succeed\<close>
named_theorems dict_simps \<open>look-up facts about dictionaries built from lists\<close>

section \<open>Exceptions as values\<close>

text \<open>The exception classes that the modelled code raises or catches.\<close>

datatype py_error =
    KeyError string
  | IndexError
  | TypeError string
  | AttributeError string
  | ValueError string
  | RuntimeError string
  | DomainInvariantError string
  | SchemaValidationError string
  | OutputBoundaryError string
  | InvalidTransition string
  | NameError string
  | RecursionError
  | FileNotFoundError string
  | FileExistsError string
  | SameFileError string

type_synonym 'a result = "py_error + 'a"

definition rbind :: "'a result \<Rightarrow> ('a \<Rightarrow> 'b result) \<Rightarrow> 'b result" where
  "rbind m f = (case m of Inl e \<Rightarrow> Inl e | Inr x \<Rightarrow> f x)"

definition require :: "bool \<Rightarrow> py_error \<Rightarrow> unit result" where
  "require c e = (if c then Inr () else Inl e)"

fun run_all :: "unit result list \<Rightarrow> unit result" where
  "run_all [] = Inr ()"
| "run_all (m # ms) = rbind m (\<lambda>_. run_all ms)"

lemma rbind_Inl [simp]: "rbind (Inl e) f = Inl e"
  by (simp add: rbind_def)

lemma rbind_Inr [simp]: "rbind (Inr x) f = f x"
  by (simp add: rbind_def)

lemma rbind_eq_Inr [result_simps]:
  "rbind m f = Inr y \<longleftrightarrow> (\<exists>x. m = Inr x \<and> f x = Inr y)"
  by (cases m) auto

lemma rbind_eq_Inl [result_simps]:
  "rbind m f = Inl e \<longleftrightarrow> m = Inl e \<or> (\<exists>x. m = Inr x \<and> f x = Inl e)"
  by (cases m) auto

lemma rbind_InrE:
  assumes "rbind m f = Inr y"
  obtains x where "m = Inr x" and "f x = Inr y"
  using assms by (auto simp: rbind_eq_Inr)

lemma require_eq_Inr [result_simps, simp]: "require c e = Inr u \<longleftrightarrow> c"
  by (cases u) (simp add: require_def)

lemma require_eq_Inl [result_simps]: "require c e = Inl e' \<longleftrightarrow> \<not> c \<and> e' = e"
  by (auto simp: require_def)

lemma require_True [simp]: "require True e = Inr ()"
  by (simp add: require_def)

lemma require_False [simp]: "require False e = Inl e"
  by (simp add: require_def)

lemma run_all_eq_Inr [result_simps]:
  "run_all ms = Inr u \<longleftrightarrow> (\<forall>m \<in> set ms. m = Inr ())"
  by (induction ms) (auto simp: rbind_eq_Inr)

lemma run_all_append [simp]: "run_all (xs @ ys) = rbind (run_all xs) (\<lambda>_. run_all ys)"
proof (induction xs)
  case (Cons x xs)
  then show ?case by (cases x) auto
qed simp

section \<open>Dictionaries\<close>

text \<open>
  A Python dictionary is an association list with distinct keys in insertion order.  Assigning
  an existing key keeps its position and replaces the value, which is \<open>AList.update\<close>.
\<close>

type_synonym ('k, 'v) dict = "('k \<times> 'v) list"

definition dict_of :: "('k \<times> 'v) list \<Rightarrow> ('k, 'v) dict" where
  "dict_of kvs = foldl (\<lambda>d kv. AList.update (fst kv) (snd kv) d) [] kvs"

definition key_by :: "('a \<Rightarrow> 'k) \<Rightarrow> 'a list \<Rightarrow> ('k, 'a) dict" where
  "key_by f xs = dict_of (map (\<lambda>x. (f x, x)) xs)"

lemma foldl_update_map_of:
  "map_of (foldl (\<lambda>d kv. AList.update (fst kv) (snd kv) d) d kvs) k =
    (case map_of (rev kvs) k of None \<Rightarrow> map_of d k | Some v \<Rightarrow> Some v)"
proof (induction kvs arbitrary: d)
  case (Cons kv kvs)
  then show ?case
    by (cases "map_of (rev kvs) k") (auto simp: AList.update_conv' map_add_def)
qed simp

lemma map_of_dict_of [dict_simps]: "map_of (dict_of kvs) k = map_of (rev kvs) k"
  by (simp add: dict_of_def foldl_update_map_of split: option.split)

lemma foldl_update_keys:
  "fst ` set (foldl (\<lambda>d kv. AList.update (fst kv) (snd kv) d) d kvs) = fst ` set d \<union> fst ` set kvs"
proof (induction kvs arbitrary: d)
  case (Cons kv kvs)
  have "fst ` set (AList.update (fst kv) (snd kv) d) = insert (fst kv) (fst ` set d)"
    by (simp add: AList.dom_update)
  then show ?case by (simp only: foldl.simps Cons.IH) simp
qed simp

lemma keys_dict_of [dict_simps]: "fst ` set (dict_of kvs) = fst ` set kvs"
  by (simp add: dict_of_def foldl_update_keys)

lemma distinct_dict_of: "distinct (map fst (dict_of kvs))"
proof -
  have "distinct (map fst d) \<Longrightarrow>
    distinct (map fst (foldl (\<lambda>d kv. AList.update (fst kv) (snd kv) d) d kvs))" for d
    by (induction kvs arbitrary: d) (auto simp: AList.distinct_update)
  then show ?thesis by (simp add: dict_of_def)
qed

lemma update_notin_append:
  "k \<notin> fst ` set d \<Longrightarrow> AList.update k v d = d @ [(k, v)]"
  by (induction d) auto

lemma dict_of_distinct: "distinct (map fst kvs) \<Longrightarrow> dict_of kvs = kvs"
proof -
  have "distinct (map fst (d @ kvs)) \<Longrightarrow>
    foldl (\<lambda>d kv. AList.update (fst kv) (snd kv) d) d kvs = d @ kvs" for d
  proof (induction kvs arbitrary: d)
    case (Cons kv kvs)
    then have "AList.update (fst kv) (snd kv) d = d @ [kv]"
      by (subst update_notin_append) auto
    with Cons show ?case by simp
  qed simp
  moreover assume "distinct (map fst kvs)"
  ultimately show ?thesis by (simp add: dict_of_def)
qed

lemma key_by_Some_D: "map_of (key_by f xs) k = Some x \<Longrightarrow> x \<in> set xs \<and> f x = k"
  by (auto simp: key_by_def map_of_dict_of dest!: map_of_SomeD)

lemma key_by_None [dict_simps]: "map_of (key_by f xs) k = None \<longleftrightarrow> k \<notin> f ` set xs"
  by (auto simp: key_by_def map_of_dict_of map_of_eq_None_iff image_iff)

lemma key_by_keys [dict_simps]: "fst ` set (key_by f xs) = f ` set xs"
  by (auto simp: key_by_def keys_dict_of image_iff)

lemma key_by_in_keys: "map_of (key_by f xs) k \<noteq> None \<longleftrightarrow> k \<in> f ` set xs"
  by (simp add: key_by_None)

lemma key_by_unique: "distinct (map f xs) \<Longrightarrow> key_by f xs = map (\<lambda>x. (f x, x)) xs"
  by (simp add: key_by_def dict_of_distinct comp_def)

lemma key_by_lookup:
  assumes "distinct (map f xs)" and "x \<in> set xs"
  shows "map_of (key_by f xs) (f x) = Some x"
  using assms by (auto simp: key_by_unique comp_def intro!: map_of_is_SomeI)

lemma key_by_present: "(\<exists>x \<in> A. map_of (key_by f xs) x = None) \<longleftrightarrow> \<not> A \<subseteq> f ` set xs"
  by (auto simp: key_by_None)

lemma key_by_snd: "distinct (map f xs) \<Longrightarrow> map snd (key_by f xs) = xs"
  by (simp add: key_by_unique comp_def)

text \<open>Looking up an identifier among items with distinct identifiers.\<close>

lemma key_by_case:
  assumes "distinct (map f xs)"
  shows "(case map_of (key_by f xs) k of None \<Rightarrow> False | Some x \<Rightarrow> P x) \<longleftrightarrow> (\<exists>x \<in> set xs. f x = k \<and> P x)"
proof (cases "map_of (key_by f xs) k")
  case None
  then have "k \<notin> f ` set xs" by (simp add: key_by_None)
  with None show ?thesis by auto
next
  case (Some x)
  then have "x \<in> set xs" "f x = k" by (auto dest: key_by_Some_D)
  moreover have "y = x" if "y \<in> set xs" "f y = k" for y
    using key_by_lookup [OF assms that(1)] unfolding that(2) Some by (rule option.inject [THEN iffD1, symmetric])
  ultimately show ?thesis unfolding Some option.case by blast
qed

section \<open>Strings\<close>

definition digit_char :: "nat \<Rightarrow> char" where
  "digit_char d = char_of (48 + d)"

fun str_of_nat :: "nat \<Rightarrow> string" where
  "str_of_nat n = (if n < 10 then [digit_char n] else str_of_nat (n div 10) @ [digit_char (n mod 10)])"

declare str_of_nat.simps [simp del]

definition str_of_int :: "int \<Rightarrow> string" where
  "str_of_int i = (if i < 0 then CHR ''-'' # str_of_nat (nat (- i)) else str_of_nat (nat i))"

definition is_digit :: "char \<Rightarrow> bool" where
  "is_digit c \<longleftrightarrow> 48 \<le> (of_char c :: nat) \<and> (of_char c :: nat) \<le> 57"

definition digits_val :: "string \<Rightarrow> nat" where
  "digits_val s = foldl (\<lambda>acc c. 10 * acc + (of_char c - 48)) 0 s"

definition is_space :: "char \<Rightarrow> bool" where
  "is_space c \<longleftrightarrow> (of_char c :: nat) \<in> {9, 10, 11, 12, 13, 28, 29, 30, 31, 32}"

definition lower_char :: "char \<Rightarrow> char" where
  "lower_char c = (if 65 \<le> (of_char c :: nat) \<and> (of_char c :: nat) \<le> 90 then char_of ((of_char c :: nat) + 32) else c)"

definition lower :: "string \<Rightarrow> string" where
  "lower s = map lower_char s"

definition strip :: "string \<Rightarrow> string" where
  "strip s = rev (dropWhile is_space (rev (dropWhile is_space s)))"

text \<open>The number of code points of a UTF-8 string: continuation bytes do not count.\<close>

definition py_len :: "string \<Rightarrow> nat" where
  "py_len s = length (filter (\<lambda>c. \<not> (128 \<le> (of_char c :: nat) \<and> (of_char c :: nat) < 192)) s)"

fun join :: "string \<Rightarrow> string list \<Rightarrow> string" where
  "join sep [] = []"
| "join sep [x] = x"
| "join sep (x # y # xs) = x @ sep @ join sep (y # xs)"

text \<open>\<open>s.split(c)\<close> for a one-character separator: never empty.\<close>

fun split_on :: "char \<Rightarrow> string \<Rightarrow> string list" where
  "split_on c [] = [[]]"
| "split_on c (x # xs) =
    (if x = c then [] # split_on c xs
     else (case split_on c xs of [] \<Rightarrow> [[x]] | w # ws \<Rightarrow> (x # w) # ws))"

definition startswith :: "string \<Rightarrow> string \<Rightarrow> bool" where
  "startswith s p \<longleftrightarrow> take (length p) s = p"

definition removeprefix :: "string \<Rightarrow> string \<Rightarrow> string" where
  "removeprefix p s = (if startswith s p then drop (length p) s else s)"

definition lstrip_char :: "char \<Rightarrow> string \<Rightarrow> string" where
  "lstrip_char c s = dropWhile (\<lambda>x. x = c) s"

text \<open>\<open>s.replace(pat, new)\<close> for a non-empty pattern, scanning left to right.\<close>

fun replace_fuel :: "nat \<Rightarrow> string \<Rightarrow> string \<Rightarrow> string \<Rightarrow> string" where
  "replace_fuel 0 pat new s = s"
| "replace_fuel (Suc n) pat new [] = []"
| "replace_fuel (Suc n) pat new (c # s) =
    (if startswith (c # s) pat then new @ replace_fuel n pat new (drop (length pat) (c # s))
     else c # replace_fuel n pat new s)"

definition replace :: "string \<Rightarrow> string \<Rightarrow> string \<Rightarrow> string" where
  "replace pat new s = replace_fuel (Suc (length s)) pat new s"

definition is_substring :: "string \<Rightarrow> string \<Rightarrow> bool" where
  "is_substring w s \<longleftrightarrow> list_ex (\<lambda>t. startswith t w) (suffixes s)"

text \<open>\<open>repr\<close> of a list of strings that hold no quotes or escapes.\<close>

definition repr_str_list :: "string list \<Rightarrow> string" where
  "repr_str_list xs = ''['' @ join '', '' (map (\<lambda>x. [CHR 0x27] @ x @ [CHR 0x27]) xs) @ '']''"

text \<open>\<open>sorted(set(xs))\<close>: each value once, ascending.\<close>

definition sorted_set :: "string list \<Rightarrow> string list" where
  "sorted_set xs = sort (remdups xs)"

lemma set_sorted_set [simp]: "set (sorted_set xs) = set xs"
  by (simp add: sorted_set_def)

lemma sorted_sorted_set: "sorted (sorted_set xs)"
  by (simp add: sorted_set_def)

lemma distinct_sorted_set: "distinct (sorted_set xs)"
  by (simp add: sorted_set_def)

lemma sorted_set_Nil [simp]: "sorted_set [] = []"
  by (simp add: sorted_set_def)

lemma sorted_set_eq_Nil [simp]: "sorted_set xs = [] \<longleftrightarrow> xs = []"
  by (metis set_empty set_sorted_set)

subsection \<open>Decimal numbers\<close>

lemma of_char_digit_char: "d < 10 \<Longrightarrow> of_char (digit_char d) = (48 + d :: nat)"
  by (simp add: digit_char_def)

lemma str_of_nat_not_Nil [simp]: "str_of_nat n \<noteq> []"
  by (subst str_of_nat.simps) simp

lemma str_of_nat_digits: "c \<in> set (str_of_nat n) \<Longrightarrow> is_digit c"
proof (induction n rule: str_of_nat.induct)
  case (1 n)
  show ?case
  proof (cases "n < 10")
    case True
    with 1 show ?thesis by (simp add: str_of_nat.simps [of n] is_digit_def of_char_digit_char)
  next
    case False
    with 1 show ?thesis
      by (auto simp: str_of_nat.simps [of n] is_digit_def of_char_digit_char)
  qed
qed

lemma digits_val_str_of_nat [simp]: "digits_val (str_of_nat n) = n"
proof (induction n rule: str_of_nat.induct)
  case (1 n)
  show ?case
  proof (cases "n < 10")
    case True
    then show ?thesis by (simp add: str_of_nat.simps [of n] digits_val_def of_char_digit_char)
  next
    case False
    with 1 have "digits_val (str_of_nat (n div 10)) = n div 10" by simp
    with False show ?thesis
      by (simp add: str_of_nat.simps [of n] digits_val_def of_char_digit_char)
  qed
qed

lemma str_of_nat_inject [simp]: "str_of_nat m = str_of_nat n \<longleftrightarrow> m = n"
  by (metis digits_val_str_of_nat)

section \<open>Loops that append\<close>

text \<open>
  A loop that appends to an output list: \<open>for_each\<close> is \<open>for x in xs\<close>, \<open>for_enum\<close> is
  \<open>for i, x in enumerate(xs)\<close>, and \<open>emit c y\<close> appends \<open>y\<close> if the condition \<open>c\<close> holds.
\<close>

definition emit :: "bool \<Rightarrow> 'b \<Rightarrow> 'b list" where
  "emit c y = (if c then [y] else [])"

definition for_each :: "'a list \<Rightarrow> ('a \<Rightarrow> 'b list) \<Rightarrow> 'b list" where
  "for_each xs f = concat (map f xs)"

definition for_enum :: "'a list \<Rightarrow> (nat \<Rightarrow> 'a \<Rightarrow> 'b list) \<Rightarrow> 'b list" where
  "for_enum xs f = concat (map (\<lambda>p. f (fst p) (snd p)) (enumerate 0 xs))"

lemma emit_eq_Nil [simp]: "emit c y = [] \<longleftrightarrow> \<not> c"
  by (simp add: emit_def)

lemma set_emit [simp]: "set (emit c y) = (if c then {y} else {})"
  by (simp add: emit_def)

lemma in_emit: "x \<in> set (emit c y) \<longleftrightarrow> c \<and> x = y"
  by (auto simp: emit_def)

lemma emit_simps [simp]: "emit True y = [y]" "emit False y = []"
  by (simp_all add: emit_def)

lemma map_emit [simp]: "map f (emit c y) = emit c (f y)"
  by (simp add: emit_def)

lemma for_each_Nil [simp]: "for_each [] f = []"
  by (simp add: for_each_def)

lemma for_each_Cons [simp]: "for_each (x # xs) f = f x @ for_each xs f"
  by (simp add: for_each_def)

lemma for_each_eq_Nil [simp]: "for_each xs f = [] \<longleftrightarrow> (\<forall>x \<in> set xs. f x = [])"
  by (simp add: for_each_def)

lemma set_for_each [simp]: "set (for_each xs f) = (\<Union>x \<in> set xs. set (f x))"
  by (simp add: for_each_def)

lemma for_enum_Nil [simp]: "for_enum [] f = []"
  by (simp add: for_enum_def)

lemma for_enum_snoc: "for_enum (xs @ [x]) f = for_enum xs f @ f (length xs) x"
  by (simp add: for_enum_def enumerate_append_eq)

lemma for_enum_Cons: "for_enum (x # xs) f = f 0 x @ for_enum xs (\<lambda>i. f (Suc i))"
proof -
  have "map (\<lambda>p. f (fst p) (snd p)) (enumerate (Suc n) xs)
      = map (\<lambda>p. f (Suc (fst p)) (snd p)) (enumerate n xs)" for n
    by (induction xs arbitrary: n) auto
  then show ?thesis by (simp add: for_enum_def)
qed

lemma for_enum_eq_Nil: "for_enum xs f = [] \<longleftrightarrow> (\<forall>i < length xs. f i (xs ! i) = [])"
proof (induction xs arbitrary: f)
  case (Cons x xs)
  then show ?case by (auto simp: for_enum_Cons less_Suc_eq_0_disj)
qed simp

lemma for_enum_eq_Nil_iff [simp]:
  "(\<And>i x. f i x = [] \<longleftrightarrow> P x) \<Longrightarrow> for_enum xs f = [] \<longleftrightarrow> (\<forall>x \<in> set xs. P x)"
  by (simp add: for_enum_eq_Nil all_set_conv_all_nth)

lemma set_for_enum: "set (for_enum xs f) = (\<Union>i \<in> {..<length xs}. set (f i (xs ! i)))"
proof (induction xs arbitrary: f)
  case (Cons x xs)
  have "{..<length (x # xs)} = insert 0 (Suc ` {..<length xs})"
    by (auto simp: less_Suc_eq_0_disj)
  then show ?case by (simp add: for_enum_Cons Cons.IH image_image)
qed simp

lemma in_set_for_enum: "y \<in> set (for_enum xs f) \<longleftrightarrow> (\<exists>i < length xs. y \<in> set (f i (xs ! i)))"
  by (auto simp: set_for_enum)

lemma image_for_enum:
  assumes "\<And>i x. x \<in> set xs \<Longrightarrow> g ` set (f i x) = S x"
  shows "g ` set (for_enum xs f) = (\<Union>x \<in> set xs. S x)"
proof -
  have "g ` set (for_enum xs f) = (\<Union>i \<in> {..<length xs}. S (xs ! i))"
    using assms by (auto simp: set_for_enum image_UN)
  also have "\<dots> = (\<Union>x \<in> set xs. S x)"
    by (force simp: in_set_conv_nth)
  finally show ?thesis .
qed

lemma in_for_enumE:
  assumes "y \<in> set (for_enum xs f)"
  obtains i x where "x \<in> set xs" and "y \<in> set (f i x)"
proof -
  from assms obtain i where "i < length xs" "y \<in> set (f i (xs ! i))" by (auto simp: in_set_for_enum)
  with that [of "xs ! i" i] show thesis by simp
qed

section \<open>Lists\<close>

lemma distinct_map_filter_fst:
  "distinct (map f xs) \<Longrightarrow> distinct (map f (filter P xs))"
  by (rule distinct_map_filter)

lemma concat_map_eq_Nil: "concat (map f xs) = [] \<longleftrightarrow> (\<forall>x \<in> set xs. f x = [])"
  by simp

lemma set_enumerate_0: "(i, x) \<in> set (enumerate 0 xs) \<longleftrightarrow> i < length xs \<and> xs ! i = x"
  by (auto simp: in_set_enumerate_eq)

lemma ball_enumerate_snd:
  "(\<forall>p \<in> set (enumerate n xs). P (snd p)) \<longleftrightarrow> (\<forall>x \<in> set xs. P x)"
  by (induction xs arbitrary: n) auto

lemma sort_key_eq_Nil [simp]: "sort_key f xs = [] \<longleftrightarrow> xs = []"
  by (metis length_0_conv length_sort)

lemma nonempty_filter_iff: "filter P xs \<noteq> [] \<longleftrightarrow> (\<exists>x \<in> set xs. P x)"
  by (auto simp: filter_empty_conv)

end
