(* ===== verification/Sha256.thy ===== *)
theory Sha256
  imports Prelude "HOL-Library.Word"
begin

text \<open>
  SHA-256 (FIPS 180-4) over byte strings: the \<open>hashlib.sha256(...).hexdigest()\<close> of Python's
  standard library, which the hashing code of the repository calls.  Words are 32 bits wide and
  addition wraps.
\<close>

unbundle bit_operations_syntax

type_synonym w32 = "32 word"

text \<open>The 32 leading fractional bits of the cube roots of the first 64 primes, in decimal.\<close>

definition round_constants :: "w32 list" where
  "round_constants = [
    1116352408, 1899447441, 3049323471, 3921009573, 961987163, 1508970993, 2453635748, 2870763221,
    3624381080, 310598401, 607225278, 1426881987, 1925078388, 2162078206, 2614888103, 3248222580,
    3835390401, 4022224774, 264347078, 604807628, 770255983, 1249150122, 1555081692, 1996064986,
    2554220882, 2821834349, 2952996808, 3210313671, 3336571891, 3584528711, 113926993, 338241895,
    666307205, 773529912, 1294757372, 1396182291, 1695183700, 1986661051, 2177026350, 2456956037,
    2730485921, 2820302411, 3259730800, 3345764771, 3516065817, 3600352804, 4094571909, 275423344,
    430227734, 506948616, 659060556, 883997877, 958139571, 1322822218, 1537002063, 1747873779,
    1955562222, 2024104815, 2227730452, 2361852424, 2428436474, 2756734187, 3204031479, 3329325298]"

text \<open>The same bits of the square roots of the first eight primes.\<close>

definition initial_hash :: "w32 list" where
  "initial_hash = [
    1779033703, 3144134277, 1013904242, 2773480762, 1359893119, 2600822924, 528734635, 1541459225]"

definition small_sigma0 :: "w32 \<Rightarrow> w32" where
  "small_sigma0 x = word_rotr 7 x XOR word_rotr 18 x XOR drop_bit 3 x"

definition small_sigma1 :: "w32 \<Rightarrow> w32" where
  "small_sigma1 x = word_rotr 17 x XOR word_rotr 19 x XOR drop_bit 10 x"

definition big_sigma0 :: "w32 \<Rightarrow> w32" where
  "big_sigma0 x = word_rotr 2 x XOR word_rotr 13 x XOR word_rotr 22 x"

definition big_sigma1 :: "w32 \<Rightarrow> w32" where
  "big_sigma1 x = word_rotr 6 x XOR word_rotr 11 x XOR word_rotr 25 x"

definition select_bits :: "w32 \<Rightarrow> w32 \<Rightarrow> w32 \<Rightarrow> w32" where
  "select_bits e f g = (e AND f) XOR ((NOT e) AND g)"

definition majority :: "w32 \<Rightarrow> w32 \<Rightarrow> w32 \<Rightarrow> w32" where
  "majority a b c = (a AND b) XOR (a AND c) XOR (b AND c)"

text \<open>The message schedule, kept newest word first.\<close>

fun extend_schedule :: "nat \<Rightarrow> w32 list \<Rightarrow> w32 list" where
  "extend_schedule 0 ws = ws"
| "extend_schedule (Suc n) ws =
    extend_schedule n ((small_sigma1 (ws ! 1) + ws ! 6 + small_sigma0 (ws ! 14) + ws ! 15) # ws)"

fun compress_round :: "w32 list \<Rightarrow> w32 \<times> w32 \<Rightarrow> w32 list" where
  "compress_round [a, b, c, d, e, f, g, h] (k, w) =
    (let t1 = h + big_sigma1 e + select_bits e f g + k + w;
         t2 = big_sigma0 a + majority a b c
     in [t1 + t2, a, b, c, d + t1, e, f, g])"
| "compress_round hs kw = hs"

definition compress_block :: "w32 list \<Rightarrow> w32 list \<Rightarrow> w32 list" where
  "compress_block hs block =
    (let ws = rev (extend_schedule 48 (rev block))
     in map2 (+) hs (foldl compress_round hs (zip round_constants ws)))"

definition length_bytes :: "nat \<Rightarrow> nat list" where
  "length_bytes n = map (\<lambda>i. (8 * n) div 256 ^ i mod 256) [7, 6, 5, 4, 3, 2, 1, 0]"

definition pad_message :: "nat list \<Rightarrow> nat list" where
  "pad_message bs =
    bs @ [128] @ replicate ((119 - length bs mod 64) mod 64) 0 @ length_bytes (length bs)"

fun words_of_bytes :: "nat list \<Rightarrow> w32 list" where
  "words_of_bytes (a # b # c # d # bs) =
    word_of_nat (((a * 256 + b) * 256 + c) * 256 + d) # words_of_bytes bs"
| "words_of_bytes bs = []"

fun blocks_fuel :: "nat \<Rightarrow> w32 list \<Rightarrow> w32 list list" where
  "blocks_fuel 0 ws = []"
| "blocks_fuel (Suc n) ws = (if ws = [] then [] else take 16 ws # blocks_fuel n (drop 16 ws))"

definition sha256_words :: "string \<Rightarrow> w32 list" where
  "sha256_words s =
    (let ws = words_of_bytes (pad_message (map of_char s))
     in foldl compress_block initial_hash (blocks_fuel (length ws) ws))"

definition hex_digit :: "nat \<Rightarrow> char" where
  "hex_digit n = (if n < 10 then char_of (48 + n) else char_of (87 + n))"

definition hex_word :: "w32 \<Rightarrow> string" where
  "hex_word w = map (\<lambda>i. hex_digit (unat w div 16 ^ i mod 16)) [7, 6, 5, 4, 3, 2, 1, 0]"

definition sha256_hex :: "string \<Rightarrow> string" where
  "sha256_hex s = concat (map hex_word (sha256_words s))"

lemma pad_arith: "(n + (9 + (119 - n mod 64) mod 64)) mod 64 = (0 :: nat)"
proof -
  let ?m = "n mod 64"
  have "(119 - ?m) mod 64 = (if ?m \<le> 55 then 55 - ?m else 119 - ?m)"
  proof (cases "?m \<le> 55")
    case True
    then have "119 - ?m = (55 - ?m) + 64" by simp
    then have "(119 - ?m) mod 64 = (55 - ?m) mod 64" by (simp only: mod_add_self2)
    with True show ?thesis by simp
  next
    case False
    have "?m < 64" by simp
    with False show ?thesis by simp
  qed
  moreover have "?m < 64" by simp
  ultimately have "?m + (9 + (119 - ?m) mod 64) = (if ?m \<le> 55 then 64 else 128)"
    by auto
  then have "(?m + (9 + (119 - ?m) mod 64)) mod 64 = 0" by simp
  then show ?thesis by (metis mod_add_left_eq)
qed

lemma length_pad_message: "length (pad_message bs) mod 64 = 0"
  using pad_arith [of "length bs"] by (simp add: pad_message_def length_bytes_def add_ac)

lemma length_compress_round: "length hs = 8 \<Longrightarrow> length (compress_round hs kw) = 8"
  by (induction hs kw rule: compress_round.induct) (auto simp: Let_def)

lemma length_compress_block: "length hs = 8 \<Longrightarrow> length (compress_block hs b) = 8"
proof -
  assume "length hs = 8"
  then have "length (foldl compress_round hs kws) = 8" for kws
    by (induction kws arbitrary: hs) (auto simp: length_compress_round)
  with \<open>length hs = 8\<close> show ?thesis by (simp add: compress_block_def Let_def)
qed

lemma length_sha256_words: "length (sha256_words s) = 8"
proof -
  have "length hs = 8 \<Longrightarrow> length (foldl compress_block hs bs) = 8" for hs bs
    by (induction bs arbitrary: hs) (auto simp: length_compress_block)
  then show ?thesis by (simp add: sha256_words_def Let_def initial_hash_def)
qed

lemma length_sha256_hex: "length (sha256_hex s) = 64"
proof -
  have "length (concat (map hex_word ws)) = 8 * length ws" for ws
    by (induction ws) (auto simp: hex_word_def)
  then show ?thesis by (simp add: sha256_hex_def length_sha256_words)
qed

end
