(* ===== verification/Artifacts.thy ===== *)
theory Artifacts
  imports Enums Json
begin

text \<open>
  The artifacts of A-Flow: one record per object of the JSON schemas under
  \<open>aflow/schemas/v1\<close> and the JSON document of each record.  Every object of the schemas is
  closed, so a schema-valid document and its record carry the same data; an optional property is
  an \<open>option\<close>, absent from the document when it is \<open>None\<close>.
\<close>

definition opt_field :: "string \<Rightarrow> ('a \<Rightarrow> json) \<Rightarrow> 'a option \<Rightarrow> (string \<times> json) list" where
  "opt_field k f v = (case v of None \<Rightarrow> [] | Some x \<Rightarrow> [(k, f x)])"

definition json_strs :: "string list \<Rightarrow> json" where
  "json_strs xs = JList (map JStr xs)"

definition json_objs :: "('a \<Rightarrow> json) \<Rightarrow> 'a list \<Rightarrow> json" where
  "json_objs f xs = JList (map f xs)"

definition json_nullable :: "string option \<Rightarrow> json" where
  "json_nullable v = (case v of None \<Rightarrow> JNull | Some s \<Rightarrow> JStr s)"

section \<open>Common references\<close>

record artifact_reference =
  ar_id :: string
  ar_schema :: string
  ar_version :: string
  ar_hash :: string

record evidence_reference =
  er_id :: string
  er_hash :: string

record source_reference =
  sr_type :: string
  sr_id :: string
  sr_location :: string
  sr_status :: evidence_status
  sr_hash :: "string option"

definition artifact_reference_json :: "artifact_reference \<Rightarrow> json" where
  "artifact_reference_json r = JObj [
    (''artifact_id'', JStr (ar_id r)), (''schema_id'', JStr (ar_schema r)),
    (''version'', JStr (ar_version r)), (''content_hash'', JStr (ar_hash r))]"

definition evidence_reference_json :: "evidence_reference \<Rightarrow> json" where
  "evidence_reference_json r = JObj [
    (''evidence_id'', JStr (er_id r)), (''content_hash'', JStr (er_hash r))]"

definition source_reference_json :: "source_reference \<Rightarrow> json" where
  "source_reference_json r = JObj ([
    (''source_type'', JStr (sr_type r)), (''source_id'', JStr (sr_id r)),
    (''location'', JStr (sr_location r)),
    (''evidence_status'', JStr (evidence_status_str (sr_status r)))]
    @ opt_field ''content_hash'' JStr (sr_hash r))"

section \<open>Evidence\<close>

record locator =
  lo_kind :: string
  lo_value :: string

record evidence_item =
  ev_schema_version :: string
  ev_id :: string
  ev_type :: string
  ev_claim :: string
  ev_source :: source_reference
  ev_collected_by :: string
  ev_collected_at :: string
  ev_visibility :: visibility
  ev_locator :: locator
  ev_payload_summary :: "string option"
  ev_raw_artifact :: "artifact_reference option"
  ev_hash :: string

definition locator_json :: "locator \<Rightarrow> json" where
  "locator_json l = JObj [(''kind'', JStr (lo_kind l)), (''value'', JStr (lo_value l))]"

definition evidence_json :: "evidence_item \<Rightarrow> json" where
  "evidence_json e = JObj ([
    (''schema_version'', JStr (ev_schema_version e)), (''evidence_id'', JStr (ev_id e)),
    (''evidence_type'', JStr (ev_type e)), (''claim'', JStr (ev_claim e)),
    (''source'', source_reference_json (ev_source e)),
    (''collected_by'', JStr (ev_collected_by e)), (''collected_at'', JStr (ev_collected_at e)),
    (''visibility'', JStr (visibility_str (ev_visibility e))),
    (''locator'', locator_json (ev_locator e))]
    @ opt_field ''payload_summary'' JStr (ev_payload_summary e)
    @ opt_field ''raw_artifact_ref'' artifact_reference_json (ev_raw_artifact e)
    @ [(''content_hash'', JStr (ev_hash e))])"

section \<open>Success definition\<close>

record actor =
  at_id :: string
  at_role :: string
  at_capability :: string

record requirement =
  rq_id :: string
  rq_statement :: string
  rq_outcome :: string
  rq_dimensions :: "dimension list"
  rq_priority :: priority
  rq_sources :: "source_reference list"

record prohibited_outcome =
  po_id :: string
  po_statement :: string
  po_blocking :: bool

record non_goal =
  ng_id :: string
  ng_statement :: string

record proof_obligation =
  pf_id :: string
  pf_requirement_ids :: "string list"
  pf_type :: string
  pf_executor :: string
  pf_procedure :: string
  pf_pass_condition :: string
  pf_fail_condition :: string
  pf_environment :: "string option"
  pf_evidence_types :: "string list option"

record confirmation =
  cf_by :: string
  cf_at :: string
  cf_hash :: string

record success_definition =
  sd_schema_version :: string
  sd_id :: string
  sd_version :: string
  sd_statement :: string
  sd_actors :: "actor list"
  sd_requirements :: "requirement list"
  sd_prohibited :: "prohibited_outcome list"
  sd_non_goals :: "non_goal list"
  sd_proofs :: "proof_obligation list"
  sd_confirmation :: confirmation

definition actor_json :: "actor \<Rightarrow> json" where
  "actor_json a = JObj [
    (''actor_id'', JStr (at_id a)), (''role'', JStr (at_role a)),
    (''expected_capability'', JStr (at_capability a))]"

definition requirement_json :: "requirement \<Rightarrow> json" where
  "requirement_json r = JObj [
    (''requirement_id'', JStr (rq_id r)), (''statement'', JStr (rq_statement r)),
    (''observable_outcome'', JStr (rq_outcome r)),
    (''quality_dimensions'', json_strs (map dimension_str (rq_dimensions r))),
    (''priority'', JStr (priority_str (rq_priority r))),
    (''source_references'', json_objs source_reference_json (rq_sources r))]"

definition prohibited_outcome_json :: "prohibited_outcome \<Rightarrow> json" where
  "prohibited_outcome_json p = JObj [
    (''outcome_id'', JStr (po_id p)), (''statement'', JStr (po_statement p)),
    (''blocking'', JBool (po_blocking p))]"

definition non_goal_json :: "non_goal \<Rightarrow> json" where
  "non_goal_json n = JObj [(''non_goal_id'', JStr (ng_id n)), (''statement'', JStr (ng_statement n))]"

definition proof_obligation_json :: "proof_obligation \<Rightarrow> json" where
  "proof_obligation_json p = JObj ([
    (''proof_id'', JStr (pf_id p)), (''requirement_ids'', json_strs (pf_requirement_ids p)),
    (''proof_type'', JStr (pf_type p)), (''executor'', JStr (pf_executor p)),
    (''procedure'', JStr (pf_procedure p)), (''pass_condition'', JStr (pf_pass_condition p)),
    (''fail_condition'', JStr (pf_fail_condition p))]
    @ opt_field ''required_environment'' JStr (pf_environment p)
    @ opt_field ''required_evidence_types'' json_strs (pf_evidence_types p))"

definition confirmation_json :: "confirmation \<Rightarrow> json" where
  "confirmation_json c = JObj [
    (''confirmed_by'', JStr (cf_by c)), (''confirmed_at'', JStr (cf_at c)),
    (''content_hash'', JStr (cf_hash c))]"

definition success_definition_json :: "success_definition \<Rightarrow> json" where
  "success_definition_json s = JObj [
    (''schema_version'', JStr (sd_schema_version s)), (''success_definition_id'', JStr (sd_id s)),
    (''version'', JStr (sd_version s)), (''success_statement'', JStr (sd_statement s)),
    (''actors'', json_objs actor_json (sd_actors s)),
    (''requirements'', json_objs requirement_json (sd_requirements s)),
    (''prohibited_outcomes'', json_objs prohibited_outcome_json (sd_prohibited s)),
    (''non_goals'', json_objs non_goal_json (sd_non_goals s)),
    (''proof_obligations'', json_objs proof_obligation_json (sd_proofs s)),
    (''confirmation'', confirmation_json (sd_confirmation s))]"

section \<open>Plan\<close>

record path_scope =
  ps_path :: string
  ps_reason :: string
  ps_status :: authority_status

record coverage_row =
  cr_requirement_id :: string
  cr_action_ids :: "string list"
  cr_validation_ids :: "string list"

record prerequisite =
  pq_id :: string
  pq_condition :: string
  pq_status :: prerequisite_status
  pq_evidence_refs :: "evidence_reference list option"

record action_activation =
  aa_type :: activation_type
  aa_source :: "string option"
  aa_authorized :: bool

record expected_output =
  eo_id :: string
  eo_description :: string
  eo_path :: "string option"

record action =
  ac_id :: string
  ac_objective :: string
  ac_requirement_ids :: "string list"
  ac_capability_id :: string
  ac_owner :: string
  ac_phase :: string
  ac_target_paths :: "string list"
  ac_depends_on :: "string list"
  ac_prerequisites :: "prerequisite list"
  ac_activation :: action_activation
  ac_outputs :: "expected_output list"

record validation =
  va_id :: string
  va_requirement_ids :: "string list"
  va_action_ids :: "string list"
  va_proof_id :: string
  va_proof_type :: string
  va_executor :: string
  va_procedure :: string
  va_pass_condition :: string
  va_fail_condition :: string
  va_environment :: "string option"
  va_evidence_expected :: "string list"

record dependency =
  dp_id :: string
  dp_description :: string
  dp_source :: source_reference
  dp_status :: dependency_status

record assumption =
  as_id :: string
  as_statement :: string
  as_status :: assumption_status
  as_evidence_refs :: "evidence_reference list option"

record authority_risk =
  rk_id :: string
  rk_description :: string
  rk_status :: risk_status
  rk_evidence_refs :: "evidence_reference list option"

record failure_rule =
  fl_id :: string
  fl_condition :: string
  fl_action :: string
  fl_recovery :: string

record stop_condition =
  st_id :: string
  st_condition :: string
  st_effect :: string
  st_resume :: string

record plan =
  pl_schema_version :: string
  pl_id :: string
  pl_version :: string
  pl_created_by :: string
  pl_success_ref :: artifact_reference
  pl_objective :: string
  pl_interpretation :: string
  pl_baseline_ref :: artifact_reference
  pl_authority_ref :: artifact_reference
  pl_target_paths :: "path_scope list"
  pl_excluded_paths :: "path_scope list"
  pl_coverage :: "coverage_row list"
  pl_actions :: "action list"
  pl_validations :: "validation list"
  pl_dependencies :: "dependency list"
  pl_assumptions :: "assumption list"
  pl_risks :: "authority_risk list"
  pl_failures :: "failure_rule list"
  pl_stops :: "stop_condition list"

definition path_scope_json :: "path_scope \<Rightarrow> json" where
  "path_scope_json p = JObj [
    (''path'', JStr (ps_path p)), (''reason'', JStr (ps_reason p)),
    (''authority_status'', JStr (authority_status_str (ps_status p)))]"

definition coverage_row_json :: "coverage_row \<Rightarrow> json" where
  "coverage_row_json c = JObj [
    (''requirement_id'', JStr (cr_requirement_id c)), (''action_ids'', json_strs (cr_action_ids c)),
    (''validation_ids'', json_strs (cr_validation_ids c))]"

definition prerequisite_json :: "prerequisite \<Rightarrow> json" where
  "prerequisite_json p = JObj ([
    (''prerequisite_id'', JStr (pq_id p)), (''condition'', JStr (pq_condition p)),
    (''status'', JStr (prerequisite_status_str (pq_status p)))]
    @ opt_field ''evidence_refs'' (json_objs evidence_reference_json) (pq_evidence_refs p))"

definition action_activation_json :: "action_activation \<Rightarrow> json" where
  "action_activation_json a = JObj (
    [(''activation_type'', JStr (activation_type_str (aa_type a)))]
    @ opt_field ''activation_source'' JStr (aa_source a)
    @ [(''currently_authorized'', JBool (aa_authorized a))])"

definition expected_output_json :: "expected_output \<Rightarrow> json" where
  "expected_output_json e = JObj (
    [(''output_id'', JStr (eo_id e)), (''description'', JStr (eo_description e))]
    @ opt_field ''artifact_path'' JStr (eo_path e))"

definition action_json :: "action \<Rightarrow> json" where
  "action_json a = JObj [
    (''action_id'', JStr (ac_id a)), (''objective'', JStr (ac_objective a)),
    (''requirement_ids'', json_strs (ac_requirement_ids a)),
    (''capability_id'', JStr (ac_capability_id a)), (''owner'', JStr (ac_owner a)),
    (''phase'', JStr (ac_phase a)), (''target_paths'', json_strs (ac_target_paths a)),
    (''depends_on'', json_strs (ac_depends_on a)),
    (''prerequisites'', json_objs prerequisite_json (ac_prerequisites a)),
    (''activation'', action_activation_json (ac_activation a)),
    (''expected_outputs'', json_objs expected_output_json (ac_outputs a))]"

definition validation_json :: "validation \<Rightarrow> json" where
  "validation_json v = JObj ([
    (''validation_id'', JStr (va_id v)), (''requirement_ids'', json_strs (va_requirement_ids v)),
    (''action_ids'', json_strs (va_action_ids v)), (''proof_id'', JStr (va_proof_id v)),
    (''proof_type'', JStr (va_proof_type v)), (''executor'', JStr (va_executor v)),
    (''procedure'', JStr (va_procedure v)), (''pass_condition'', JStr (va_pass_condition v)),
    (''fail_condition'', JStr (va_fail_condition v))]
    @ opt_field ''required_environment'' JStr (va_environment v)
    @ [(''evidence_expected'', json_strs (va_evidence_expected v))])"

definition dependency_json :: "dependency \<Rightarrow> json" where
  "dependency_json d = JObj [
    (''dependency_id'', JStr (dp_id d)), (''description'', JStr (dp_description d)),
    (''source'', source_reference_json (dp_source d)),
    (''status'', JStr (dependency_status_str (dp_status d)))]"

definition assumption_json :: "assumption \<Rightarrow> json" where
  "assumption_json a = JObj ([
    (''assumption_id'', JStr (as_id a)), (''statement'', JStr (as_statement a)),
    (''status'', JStr (assumption_status_str (as_status a)))]
    @ opt_field ''evidence_refs'' (json_objs evidence_reference_json) (as_evidence_refs a))"

definition authority_risk_json :: "authority_risk \<Rightarrow> json" where
  "authority_risk_json r = JObj ([
    (''risk_id'', JStr (rk_id r)), (''description'', JStr (rk_description r)),
    (''status'', JStr (risk_status_str (rk_status r)))]
    @ opt_field ''evidence_refs'' (json_objs evidence_reference_json) (rk_evidence_refs r))"

definition failure_rule_json :: "failure_rule \<Rightarrow> json" where
  "failure_rule_json f = JObj [
    (''failure_id'', JStr (fl_id f)), (''condition'', JStr (fl_condition f)),
    (''action'', JStr (fl_action f)), (''recovery_condition'', JStr (fl_recovery f))]"

definition stop_condition_json :: "stop_condition \<Rightarrow> json" where
  "stop_condition_json s = JObj [
    (''stop_id'', JStr (st_id s)), (''condition'', JStr (st_condition s)),
    (''effect'', JStr (st_effect s)), (''resume_condition'', JStr (st_resume s))]"

definition plan_json :: "plan \<Rightarrow> json" where
  "plan_json p = JObj [
    (''schema_version'', JStr (pl_schema_version p)), (''plan_id'', JStr (pl_id p)),
    (''version'', JStr (pl_version p)), (''created_by'', JStr (pl_created_by p)),
    (''success_definition_reference'', artifact_reference_json (pl_success_ref p)),
    (''objective'', JStr (pl_objective p)), (''interpretation'', JStr (pl_interpretation p)),
    (''repository_baseline_reference'', artifact_reference_json (pl_baseline_ref p)),
    (''authority_bundle_reference'', artifact_reference_json (pl_authority_ref p)),
    (''target_paths'', json_objs path_scope_json (pl_target_paths p)),
    (''excluded_paths'', json_objs path_scope_json (pl_excluded_paths p)),
    (''requirements_coverage'', json_objs coverage_row_json (pl_coverage p)),
    (''actions'', json_objs action_json (pl_actions p)),
    (''validations'', json_objs validation_json (pl_validations p)),
    (''dependencies'', json_objs dependency_json (pl_dependencies p)),
    (''assumptions'', json_objs assumption_json (pl_assumptions p)),
    (''authority_risks'', json_objs authority_risk_json (pl_risks p)),
    (''failure_handling'', json_objs failure_rule_json (pl_failures p)),
    (''stop_conditions'', json_objs stop_condition_json (pl_stops p))]"

end
