(* ===== verification/Bundles.thy ===== *)
theory Bundles
  imports Artifacts
begin

text \<open>
  The remaining artifacts of A-Flow: authority evidence, repository evidence, baselines and the
  analysis request; findings and decisions; closure, lock, drift, build and evaluation artifacts,
  each with its JSON document.
\<close>

section \<open>Authority evidence\<close>

record authority_source =
  au_id :: string
  au_type :: string
  au_path :: string
  au_scope :: string
  au_precedence :: int
  au_hash :: string
  au_status :: evidence_status

record capability_activation =
  ca_type :: activation_type
  ca_phase :: "string option"
  ca_authorized :: bool
  ca_source :: "string option"
  ca_prerequisites :: "string list option"

record capability =
  cp_id :: string
  cp_description :: string
  cp_owner :: string
  cp_available :: bool
  cp_activation :: capability_activation

record authority_evidence =
  ae_schema_version :: string
  ae_id :: string
  ae_root :: string
  ae_sources :: "authority_source list"
  ae_capabilities :: "capability list"
  ae_hash :: string

definition authority_source_json :: "authority_source \<Rightarrow> json" where
  "authority_source_json a = JObj [
    (''authority_id'', JStr (au_id a)), (''authority_type'', JStr (au_type a)),
    (''path'', JStr (au_path a)), (''scope'', JStr (au_scope a)),
    (''precedence'', JInt (au_precedence a)), (''content_hash'', JStr (au_hash a)),
    (''evidence_status'', JStr (evidence_status_str (au_status a)))]"

definition capability_activation_json :: "capability_activation \<Rightarrow> json" where
  "capability_activation_json c = JObj (
    [(''activation_type'', JStr (activation_type_str (ca_type c)))]
    @ opt_field ''required_phase'' JStr (ca_phase c)
    @ [(''currently_authorized'', JBool (ca_authorized c))]
    @ opt_field ''source_authority_id'' JStr (ca_source c)
    @ opt_field ''prerequisites'' json_strs (ca_prerequisites c))"

definition capability_json :: "capability \<Rightarrow> json" where
  "capability_json c = JObj [
    (''capability_id'', JStr (cp_id c)), (''description'', JStr (cp_description c)),
    (''owner'', JStr (cp_owner c)), (''available'', JBool (cp_available c)),
    (''activation'', capability_activation_json (cp_activation c))]"

definition authority_evidence_json :: "authority_evidence \<Rightarrow> json" where
  "authority_evidence_json a = JObj [
    (''schema_version'', JStr (ae_schema_version a)), (''authority_bundle_id'', JStr (ae_id a)),
    (''repository_root'', JStr (ae_root a)),
    (''sources'', json_objs authority_source_json (ae_sources a)),
    (''capabilities'', json_objs capability_json (ae_capabilities a)),
    (''content_hash'', JStr (ae_hash a))]"

section \<open>Repository evidence and baselines\<close>

record repository_state =
  rs_git_head :: "string option option"
  rs_git_state :: string
  rs_dirty_state :: string

record repository_entry =
  rp_path :: string
  rp_type :: string
  rp_active :: string
  rp_hash :: string
  rp_status :: evidence_status
  rp_symbols :: "string list option"
  rp_summary :: "string option"

record repository_evidence =
  rv_schema_version :: string
  rv_id :: string
  rv_root :: string
  rv_kind :: string
  rv_state :: repository_state
  rv_entries :: "repository_entry list"
  rv_hash :: string
  rv_captured_at :: string

record baseline_scope =
  bs_mode :: string
  bs_relevant :: "string list"
  bs_protected :: "string list"

record baseline_entry =
  be_path :: string
  be_hash :: string
  be_class :: drift_class

record authority_hash =
  ah_id :: string
  ah_hash :: string

record baseline =
  bl_schema_version :: string
  bl_id :: string
  bl_root :: string
  bl_kind :: string
  bl_git_head :: "string option option"
  bl_git_state :: string
  bl_dirty_state :: string
  bl_scope :: baseline_scope
  bl_entries :: "baseline_entry list"
  bl_authority :: "authority_hash list"
  bl_captured_at :: string
  bl_hash :: string

definition repository_state_json :: "repository_state \<Rightarrow> json" where
  "repository_state_json s = JObj (
    opt_field ''git_head'' json_nullable (rs_git_head s)
    @ [(''git_state'', JStr (rs_git_state s)), (''dirty_state'', JStr (rs_dirty_state s))])"

definition repository_entry_json :: "repository_entry \<Rightarrow> json" where
  "repository_entry_json e = JObj ([
    (''path'', JStr (rp_path e)), (''entry_type'', JStr (rp_type e)),
    (''active_status'', JStr (rp_active e)), (''content_hash'', JStr (rp_hash e)),
    (''evidence_status'', JStr (evidence_status_str (rp_status e)))]
    @ opt_field ''symbols'' json_strs (rp_symbols e)
    @ opt_field ''summary'' JStr (rp_summary e))"

definition repository_evidence_json :: "repository_evidence \<Rightarrow> json" where
  "repository_evidence_json r = JObj [
    (''schema_version'', JStr (rv_schema_version r)), (''repository_evidence_id'', JStr (rv_id r)),
    (''repository_root'', JStr (rv_root r)), (''repository_kind'', JStr (rv_kind r)),
    (''state'', repository_state_json (rv_state r)),
    (''entries'', json_objs repository_entry_json (rv_entries r)),
    (''content_hash'', JStr (rv_hash r)), (''captured_at'', JStr (rv_captured_at r))]"

definition baseline_scope_json :: "baseline_scope \<Rightarrow> json" where
  "baseline_scope_json s = JObj [
    (''mode'', JStr (bs_mode s)), (''relevant_paths'', json_strs (bs_relevant s)),
    (''protected_paths'', json_strs (bs_protected s))]"

definition baseline_entry_json :: "baseline_entry \<Rightarrow> json" where
  "baseline_entry_json e = JObj [
    (''path'', JStr (be_path e)), (''content_hash'', JStr (be_hash e)),
    (''classification'', JStr (drift_class_str (be_class e)))]"

definition authority_hash_json :: "authority_hash \<Rightarrow> json" where
  "authority_hash_json a = JObj [
    (''authority_id'', JStr (ah_id a)), (''content_hash'', JStr (ah_hash a))]"

definition baseline_json :: "baseline \<Rightarrow> json" where
  "baseline_json b = JObj ([
    (''schema_version'', JStr (bl_schema_version b)), (''baseline_id'', JStr (bl_id b)),
    (''repository_root'', JStr (bl_root b)), (''repository_kind'', JStr (bl_kind b))]
    @ opt_field ''git_head'' json_nullable (bl_git_head b)
    @ [(''git_state'', JStr (bl_git_state b)), (''dirty_state'', JStr (bl_dirty_state b)),
    (''scope'', baseline_scope_json (bl_scope b)),
    (''entries'', json_objs baseline_entry_json (bl_entries b)),
    (''authority_hashes'', json_objs authority_hash_json (bl_authority b)),
    (''captured_at'', JStr (bl_captured_at b)), (''content_hash'', JStr (bl_hash b))])"

section \<open>Analysis request\<close>

record request =
  aq_schema_version :: string
  aq_id :: string
  aq_success :: success_definition
  aq_plan :: plan
  aq_authority :: authority_evidence
  aq_repository :: repository_evidence
  aq_baseline :: baseline
  aq_evidence :: "evidence_item list"

definition request_json :: "request \<Rightarrow> json" where
  "request_json r = JObj [
    (''schema_version'', JStr (aq_schema_version r)), (''analysis_id'', JStr (aq_id r)),
    (''success_definition'', success_definition_json (aq_success r)),
    (''plan'', plan_json (aq_plan r)),
    (''authority_evidence'', authority_evidence_json (aq_authority r)),
    (''repository_evidence'', repository_evidence_json (aq_repository r)),
    (''baseline'', baseline_json (aq_baseline r)),
    (''evidence'', json_objs evidence_json (aq_evidence r))]"

section \<open>Findings and decisions\<close>

record required_closure =
  rc_code :: closure_code
  rc_description :: string
  rc_predicates :: "string list"

record finding =
  fd_schema_version :: string
  fd_id :: string
  fd_gap :: gap_type
  fd_origin :: origin
  fd_severity :: priority
  fd_blocking :: bool
  fd_requirements :: "string list"
  fd_locations :: "string list"
  fd_claim :: string
  fd_evidence :: "evidence_reference list"
  fd_reasoning :: string
  fd_why :: string
  fd_closure :: required_closure
  fd_status :: finding_status

record rejected_finding =
  rj_id :: string
  rj_reason :: string
  rj_evidence :: "evidence_reference list"

record decision =
  dc_schema_version :: string
  dc_id :: string
  dc_success_ref :: artifact_reference
  dc_plan_ref :: artifact_reference
  dc_kind :: decision_kind
  dc_blocking :: bool
  dc_ready :: bool
  dc_findings :: "finding list"
  dc_rejected :: "rejected_finding list"
  dc_decided_at :: string
  dc_hash :: string

record review =
  rw_schema_version :: string
  rw_id :: string
  rw_analysis_id :: string
  rw_adapter :: string
  rw_agent :: string
  rw_candidates :: "finding list"
  rw_summary :: string

definition required_closure_json :: "required_closure \<Rightarrow> json" where
  "required_closure_json c = JObj [
    (''closure_code'', JStr (closure_code_str (rc_code c))),
    (''description'', JStr (rc_description c)),
    (''acceptance_predicates'', json_strs (rc_predicates c))]"

definition finding_json :: "finding \<Rightarrow> json" where
  "finding_json f = JObj [
    (''schema_version'', JStr (fd_schema_version f)), (''finding_id'', JStr (fd_id f)),
    (''gap_type'', JStr (gap_type_str (fd_gap f))), (''origin'', JStr (origin_str (fd_origin f))),
    (''severity'', JStr (priority_str (fd_severity f))), (''blocking'', JBool (fd_blocking f)),
    (''requirement_references'', json_strs (fd_requirements f)),
    (''plan_locations'', json_strs (fd_locations f)), (''specific_claim'', JStr (fd_claim f)),
    (''evidence_references'', json_objs evidence_reference_json (fd_evidence f)),
    (''reasoning'', JStr (fd_reasoning f)), (''why_it_matters'', JStr (fd_why f)),
    (''required_closure'', required_closure_json (fd_closure f)),
    (''status'', JStr (finding_status_str (fd_status f)))]"

definition rejected_finding_json :: "rejected_finding \<Rightarrow> json" where
  "rejected_finding_json r = JObj [
    (''finding_id'', JStr (rj_id r)), (''reason'', JStr (rj_reason r)),
    (''evidence_references'', json_objs evidence_reference_json (rj_evidence r))]"

definition decision_json :: "decision \<Rightarrow> json" where
  "decision_json d = JObj [
    (''schema_version'', JStr (dc_schema_version d)), (''analysis_id'', JStr (dc_id d)),
    (''success_definition_reference'', artifact_reference_json (dc_success_ref d)),
    (''plan_reference'', artifact_reference_json (dc_plan_ref d)),
    (''decision'', JStr (decision_kind_str (dc_kind d))), (''blocking'', JBool (dc_blocking d)),
    (''execution_ready'', JBool (dc_ready d)),
    (''findings'', json_objs finding_json (dc_findings d)),
    (''rejected_findings'', json_objs rejected_finding_json (dc_rejected d)),
    (''decided_at'', JStr (dc_decided_at d)), (''content_hash'', JStr (dc_hash d))]"

definition review_json :: "review \<Rightarrow> json" where
  "review_json r = JObj [
    (''schema_version'', JStr (rw_schema_version r)), (''review_id'', JStr (rw_id r)),
    (''analysis_id'', JStr (rw_analysis_id r)),
    (''reviewer'', JObj [(''adapter_id'', JStr (rw_adapter r)), (''model_or_agent_id'', JStr (rw_agent r))]),
    (''candidate_findings'', json_objs finding_json (rw_candidates r)),
    (''review_summary'', JStr (rw_summary r))]"

section \<open>Closure, lock and drift\<close>

record closure_request =
  cq_schema_version :: string
  cq_id :: string
  cq_prior_ref :: artifact_reference
  cq_original_ref :: artifact_reference
  cq_revised_plan :: plan
  cq_added_evidence :: "evidence_item list"

record finding_result =
  fr_id :: string
  fr_status :: closure_status
  fr_evidence :: "evidence_reference list"
  fr_reason :: string

record closure_result =
  cl_schema_version :: string
  cl_id :: string
  cl_prior_ref :: artifact_reference
  cl_revised_ref :: artifact_reference
  cl_results :: "finding_result list"
  cl_decision :: decision
  cl_hash :: string

record locked_plan =
  lp_schema_version :: string
  lp_id :: string
  lp_decision_ref :: artifact_reference
  lp_plan_ref :: artifact_reference
  lp_success_ref :: artifact_reference
  lp_authority_ref :: artifact_reference
  lp_baseline_ref :: artifact_reference
  lp_locked_by :: string
  lp_locked_at :: string
  lp_hash :: string

record drift_change =
  ch_path :: string
  ch_type :: change_type
  ch_class :: drift_class
  ch_before :: "string option"
  ch_after :: "string option"

record drift_event =
  de_schema_version :: string
  de_id :: string
  de_baseline_ref :: artifact_reference
  de_current :: baseline
  de_changes :: "drift_change list"
  de_observed_at :: string

record drift_decision =
  dd_schema_version :: string
  dd_event_ref :: artifact_reference
  dd_kind :: drift_kind
  dd_blocking :: bool
  dd_requirements :: "string list"
  dd_locations :: "string list"
  dd_reason :: string

definition closure_request_json :: "closure_request \<Rightarrow> json" where
  "closure_request_json c = JObj [
    (''schema_version'', JStr (cq_schema_version c)), (''closure_id'', JStr (cq_id c)),
    (''prior_decision_reference'', artifact_reference_json (cq_prior_ref c)),
    (''original_plan_reference'', artifact_reference_json (cq_original_ref c)),
    (''revised_plan'', plan_json (cq_revised_plan c)),
    (''added_evidence'', json_objs evidence_json (cq_added_evidence c))]"

definition finding_result_json :: "finding_result \<Rightarrow> json" where
  "finding_result_json r = JObj [
    (''finding_id'', JStr (fr_id r)), (''status'', JStr (closure_status_str (fr_status r))),
    (''evidence_references'', json_objs evidence_reference_json (fr_evidence r)),
    (''reason'', JStr (fr_reason r))]"

definition closure_result_json :: "closure_result \<Rightarrow> json" where
  "closure_result_json c = JObj [
    (''schema_version'', JStr (cl_schema_version c)), (''closure_id'', JStr (cl_id c)),
    (''prior_decision_reference'', artifact_reference_json (cl_prior_ref c)),
    (''revised_plan_reference'', artifact_reference_json (cl_revised_ref c)),
    (''finding_results'', json_objs finding_result_json (cl_results c)),
    (''new_decision'', decision_json (cl_decision c)), (''content_hash'', JStr (cl_hash c))]"

definition locked_plan_json :: "locked_plan \<Rightarrow> json" where
  "locked_plan_json l = JObj [
    (''schema_version'', JStr (lp_schema_version l)), (''lock_id'', JStr (lp_id l)),
    (''analysis_decision_reference'', artifact_reference_json (lp_decision_ref l)),
    (''plan_reference'', artifact_reference_json (lp_plan_ref l)),
    (''success_definition_reference'', artifact_reference_json (lp_success_ref l)),
    (''authority_bundle_reference'', artifact_reference_json (lp_authority_ref l)),
    (''baseline_reference'', artifact_reference_json (lp_baseline_ref l)),
    (''locked_by'', JStr (lp_locked_by l)), (''locked_at'', JStr (lp_locked_at l)),
    (''lock_hash'', JStr (lp_hash l))]"

definition drift_change_json :: "drift_change \<Rightarrow> json" where
  "drift_change_json c = JObj [
    (''path'', JStr (ch_path c)), (''change_type'', JStr (change_type_str (ch_type c))),
    (''classification'', JStr (drift_class_str (ch_class c))),
    (''before_hash'', json_nullable (ch_before c)), (''after_hash'', json_nullable (ch_after c))]"

definition drift_event_json :: "drift_event \<Rightarrow> json" where
  "drift_event_json e = JObj [
    (''schema_version'', JStr (de_schema_version e)), (''drift_event_id'', JStr (de_id e)),
    (''baseline_reference'', artifact_reference_json (de_baseline_ref e)),
    (''current_baseline'', baseline_json (de_current e)),
    (''changes'', json_objs drift_change_json (de_changes e)),
    (''observed_at'', JStr (de_observed_at e))]"

definition drift_decision_json :: "drift_decision \<Rightarrow> json" where
  "drift_decision_json d = JObj [
    (''schema_version'', JStr (dd_schema_version d)),
    (''drift_event_reference'', artifact_reference_json (dd_event_ref d)),
    (''decision'', JStr (drift_kind_str (dd_kind d))), (''blocking'', JBool (dd_blocking d)),
    (''affected_requirements'', json_strs (dd_requirements d)),
    (''affected_plan_locations'', json_strs (dd_locations d)), (''reason'', JStr (dd_reason d))]"

section \<open>Build results and evaluation\<close>

record observed_environment =
  oe_id :: string
  oe_description :: string
  oe_matches :: "bool option"

record build_output =
  bo_id :: string
  bo_requirement_ids :: "string list"
  bo_description :: string
  bo_artifacts :: "artifact_reference list option"
  bo_evidence :: "evidence_reference list"

record validation_result =
  vr_id :: string
  vr_status :: validation_status
  vr_evidence :: "evidence_reference list"

record outcome_check =
  oc_id :: string
  oc_present :: bool
  oc_evidence :: "evidence_reference list"

record build_result =
  br_schema_version :: string
  br_id :: string
  br_locked_ref :: artifact_reference
  br_produced_by :: string
  br_started_at :: string
  br_finished_at :: string
  br_status :: build_status
  br_environment :: observed_environment
  br_outputs :: "build_output list"
  br_validations :: "validation_result list"
  br_checks :: "outcome_check list"
  br_baseline_ref :: artifact_reference
  br_hash :: string

record quality_result =
  qr_dimension :: dimension
  qr_status :: quality_status
  qr_reason :: string
  qr_evidence :: "evidence_reference list"

record trace_entry =
  te_requirement_id :: string
  te_outcome :: string
  te_evidence :: "evidence_reference list"
  te_quality :: "quality_result list"
  te_status :: verdict
  te_rationale :: string

record trace =
  tr_schema_version :: string
  tr_id :: string
  tr_locked_ref :: artifact_reference
  tr_build_ref :: artifact_reference
  tr_entries :: "trace_entry list"
  tr_hash :: string

record blocking_failure =
  bf_id :: string
  bf_requirements :: "string list"
  bf_reason :: string
  bf_evidence :: "evidence_reference list"

record evaluation =
  fe_schema_version :: string
  fe_id :: string
  fe_locked_ref :: artifact_reference
  fe_build_ref :: artifact_reference
  fe_trace_ref :: artifact_reference
  fe_decision :: verdict
  fe_blocking :: bool
  fe_quality :: "quality_result list"
  fe_failures :: "blocking_failure list"
  fe_prohibited :: "string list"
  fe_decided_at :: string
  fe_hash :: string

definition observed_environment_json :: "observed_environment \<Rightarrow> json" where
  "observed_environment_json e = JObj ([
    (''environment_id'', JStr (oe_id e)), (''description'', JStr (oe_description e))]
    @ opt_field ''matches_required_environment'' JBool (oe_matches e))"

definition build_output_json :: "build_output \<Rightarrow> json" where
  "build_output_json b = JObj ([
    (''output_id'', JStr (bo_id b)), (''requirement_ids'', json_strs (bo_requirement_ids b)),
    (''description'', JStr (bo_description b))]
    @ opt_field ''artifact_references'' (json_objs artifact_reference_json) (bo_artifacts b)
    @ [(''evidence_references'', json_objs evidence_reference_json (bo_evidence b))])"

definition validation_result_json :: "validation_result \<Rightarrow> json" where
  "validation_result_json v = JObj [
    (''validation_id'', JStr (vr_id v)), (''status'', JStr (validation_status_str (vr_status v))),
    (''evidence_references'', json_objs evidence_reference_json (vr_evidence v))]"

definition outcome_check_json :: "outcome_check \<Rightarrow> json" where
  "outcome_check_json c = JObj [
    (''outcome_id'', JStr (oc_id c)), (''present'', JBool (oc_present c)),
    (''evidence_references'', json_objs evidence_reference_json (oc_evidence c))]"

definition build_result_json :: "build_result \<Rightarrow> json" where
  "build_result_json b = JObj [
    (''schema_version'', JStr (br_schema_version b)), (''build_result_id'', JStr (br_id b)),
    (''locked_plan_reference'', artifact_reference_json (br_locked_ref b)),
    (''produced_by'', JStr (br_produced_by b)), (''started_at'', JStr (br_started_at b)),
    (''finished_at'', JStr (br_finished_at b)), (''status'', JStr (build_status_str (br_status b))),
    (''observed_environment'', observed_environment_json (br_environment b)),
    (''outputs'', json_objs build_output_json (br_outputs b)),
    (''validation_results'', json_objs validation_result_json (br_validations b)),
    (''prohibited_outcome_checks'', json_objs outcome_check_json (br_checks b)),
    (''post_build_baseline_reference'', artifact_reference_json (br_baseline_ref b)),
    (''content_hash'', JStr (br_hash b))]"

definition quality_result_json :: "quality_result \<Rightarrow> json" where
  "quality_result_json q = JObj [
    (''dimension'', JStr (dimension_str (qr_dimension q))),
    (''status'', JStr (quality_status_str (qr_status q))), (''reason'', JStr (qr_reason q)),
    (''evidence_references'', json_objs evidence_reference_json (qr_evidence q))]"

definition trace_entry_json :: "trace_entry \<Rightarrow> json" where
  "trace_entry_json e = JObj [
    (''requirement_id'', JStr (te_requirement_id e)),
    (''expected_observable_outcome'', JStr (te_outcome e)),
    (''evidence_references'', json_objs evidence_reference_json (te_evidence e)),
    (''quality_results'', json_objs quality_result_json (te_quality e)),
    (''status'', JStr (verdict_str (te_status e))), (''rationale'', JStr (te_rationale e))]"

definition trace_json :: "trace \<Rightarrow> json" where
  "trace_json t = JObj [
    (''schema_version'', JStr (tr_schema_version t)), (''trace_id'', JStr (tr_id t)),
    (''locked_plan_reference'', artifact_reference_json (tr_locked_ref t)),
    (''build_result_reference'', artifact_reference_json (tr_build_ref t)),
    (''entries'', json_objs trace_entry_json (tr_entries t)), (''content_hash'', JStr (tr_hash t))]"

definition blocking_failure_json :: "blocking_failure \<Rightarrow> json" where
  "blocking_failure_json f = JObj [
    (''failure_id'', JStr (bf_id f)), (''requirement_ids'', json_strs (bf_requirements f)),
    (''reason'', JStr (bf_reason f)),
    (''evidence_references'', json_objs evidence_reference_json (bf_evidence f))]"

definition evaluation_json :: "evaluation \<Rightarrow> json" where
  "evaluation_json e = JObj [
    (''schema_version'', JStr (fe_schema_version e)), (''evaluation_id'', JStr (fe_id e)),
    (''locked_plan_reference'', artifact_reference_json (fe_locked_ref e)),
    (''build_result_reference'', artifact_reference_json (fe_build_ref e)),
    (''trace_reference'', artifact_reference_json (fe_trace_ref e)),
    (''decision'', JStr (verdict_str (fe_decision e))), (''blocking'', JBool (fe_blocking e)),
    (''quality_summary'', json_objs quality_result_json (fe_quality e)),
    (''blocking_failures'', json_objs blocking_failure_json (fe_failures e)),
    (''prohibited_outcomes_present'', json_strs (fe_prohibited e)),
    (''decided_at'', JStr (fe_decided_at e)), (''content_hash'', JStr (fe_hash e))]"

end
