(* ===== verification/Canonical.thy ===== *)
theory Canonical
  imports Json
begin

text \<open>
  The canonical serialisation is unambiguous.  \<open>render\<close> is a prefix code: from its output
  followed by text that does not continue a number, the document and the rest can be read back.
  Hence two documents with equal canonical bytes have the same scrubbed, key-sorted form, and two
  documents with the same canonical hash either have that form or exhibit a SHA-256 collision.
\<close>

section \<open>Escapes\<close>

lemma hex_digit_inject: "m < 16 \<Longrightarrow> n < 16 \<Longrightarrow> hex_digit m = hex_digit n \<Longrightarrow> m = n"
  by (auto simp: hex_digit_def split: if_splits)

lemma hex_escape_inject:
  assumes "of_char c < (32 :: nat)" and "of_char d < (32 :: nat)"
    and "hex_digit (of_char c div 16) = hex_digit (of_char d div 16)"
    and "hex_digit (of_char c mod 16) = hex_digit (of_char d mod 16)"
  shows "c = d"
proof -
  have "of_char c div 16 = (of_char d div 16 :: nat)"
    using assms by (intro hex_digit_inject) auto
  moreover have "of_char c mod 16 = (of_char d mod 16 :: nat)"
    using assms by (intro hex_digit_inject) auto
  ultimately have "of_char c = (of_char d :: nat)" by (metis div_mult_mod_eq)
  then show ?thesis by simp
qed

lemma escape_char_prefix:
  "escape_char c @ x = escape_char d @ y \<Longrightarrow> c = d \<and> x = y"
  by (auto simp: escape_char_def dest: hex_escape_inject split: if_splits)

lemma escape_char_no_quote: "escape_char c @ x \<noteq> CHR 0x22 # y"
  by (auto simp: escape_char_def split: if_splits)

lemma escapes_prefix:
  "concat (map escape_char s) @ CHR 0x22 # x = concat (map escape_char t) @ CHR 0x22 # y
    \<Longrightarrow> s = t \<and> x = y"
proof (induction s arbitrary: t)
  case Nil
  then show ?case
    by (cases t) (auto dest: sym escape_char_no_quote [THEN notE])
next
  case (Cons c s)
  show ?case
  proof (cases t)
    case Nil
    with Cons.prems show ?thesis using escape_char_no_quote by fastforce
  next
    case (Cons d t')
    with Cons.prems have "escape_char c @ concat (map escape_char s) @ CHR 0x22 # x
        = escape_char d @ concat (map escape_char t') @ CHR 0x22 # y"
      by simp
    from escape_char_prefix [OF this] Cons.IH [of t'] Cons show ?thesis by blast
  qed
qed

lemma quote_prefix: "quote s @ x = quote t @ y \<Longrightarrow> s = t \<and> x = y"
  by (auto simp: quote_def dest: escapes_prefix)

section \<open>Numbers\<close>

definition stops :: "string \<Rightarrow> bool" where
  "stops r \<longleftrightarrow> (case r of [] \<Rightarrow> True | c # _ \<Rightarrow> \<not> is_digit c)"

lemma takeWhile_nat_stops: "stops r \<Longrightarrow> takeWhile is_digit (str_of_nat n @ r) = str_of_nat n"
  by (cases r) (auto simp: stops_def takeWhile_append2 str_of_nat_digits)

lemma str_of_nat_prefix:
  assumes "str_of_nat m @ x = str_of_nat n @ y" "stops x" "stops y"
  shows "m = n \<and> x = y"
proof -
  from assms have "str_of_nat m = str_of_nat n" by (metis takeWhile_nat_stops)
  with assms(1) show ?thesis by simp
qed

lemma hd_str_of_nat: "is_digit (hd (str_of_nat n))"
  using str_of_nat_digits [of "hd (str_of_nat n)" n] by simp

lemma str_of_nat_no_minus: "str_of_nat n @ x \<noteq> CHR ''-'' # y"
proof
  assume "str_of_nat n @ x = CHR ''-'' # y"
  then have "hd (str_of_nat n) = CHR ''-''" by (metis hd_append2 list.sel(1) str_of_nat_not_Nil)
  with hd_str_of_nat [of n] show False by (simp add: is_digit_def)
qed

lemma str_of_int_prefix:
  assumes eq: "str_of_int i @ x = str_of_int k @ y" and "stops x" "stops y"
  shows "i = k \<and> x = y"
proof (cases "i < 0"; cases "k < 0")
  assume "i < 0" "k < 0"
  with assms show ?thesis
    by (auto simp: str_of_int_def dest!: str_of_nat_prefix)
next
  assume "\<not> i < 0" "\<not> k < 0"
  with assms show ?thesis
    by (auto simp: str_of_int_def dest!: str_of_nat_prefix)
next
  assume "i < 0" "\<not> k < 0"
  with eq show ?thesis
    using str_of_nat_no_minus by (metis append_Cons str_of_int_def)
next
  assume "\<not> i < 0" "k < 0"
  with eq show ?thesis
    using str_of_nat_no_minus by (metis append_Cons str_of_int_def)
qed

section \<open>Documents\<close>

text \<open>The first character tells the kind of document, and is never a closing bracket.\<close>

definition kind_char :: "json \<Rightarrow> char \<Rightarrow> bool" where
  "kind_char j c \<longleftrightarrow>
    (case j of
       JNull \<Rightarrow> c = CHR ''n''
     | JBool b \<Rightarrow> c = (if b then CHR ''t'' else CHR ''f'')
     | JInt i \<Rightarrow> is_digit c \<or> c = CHR ''-''
     | JStr s \<Rightarrow> c = CHR 0x22
     | JList xs \<Rightarrow> c = CHR ''[''
     | JObj kvs \<Rightarrow> c = CHR ''{'')"

lemma render_kind: "\<exists>c cs. render j = c # cs \<and> kind_char j c"
proof (cases j)
  case (JInt i)
  obtain c cs where "str_of_nat (nat i) = c # cs" by (metis list.exhaust str_of_nat_not_Nil)
  moreover from this have "is_digit c" by (metis hd_str_of_nat list.sel(1))
  ultimately show ?thesis using JInt
    by (auto simp: kind_char_def str_of_int_def)
qed (auto simp: kind_char_def quote_def)

lemma render_no_close: "render j @ x \<noteq> CHR '']'' # y"
  using render_kind [of j]
  by (cases j) (auto simp: kind_char_def is_digit_def)

lemma render_same_kind:
  assumes "render j @ x = render k @ y"
  shows "\<exists>c. kind_char j c \<and> kind_char k c"
  using render_kind [of j] render_kind [of k] assms by auto

lemma stops_simps [simp]:
  "stops []" "stops (CHR '','' # x)" "stops (CHR '']'' # x)" "stops (CHR ''}'' # x)"
  by (simp_all add: stops_def is_digit_def)

lemma render_list_prefix:
  assumes "\<And>x k r s. x \<in> set xs \<Longrightarrow> render x @ r = render k @ s \<Longrightarrow> stops r \<Longrightarrow> stops s \<Longrightarrow> x = k \<and> r = s"
    and "join '','' (map render xs) @ CHR '']'' # r = join '','' (map render ys) @ CHR '']'' # s"
  shows "xs = ys \<and> r = s"
  using assms
proof (induction xs arbitrary: ys)
  case Nil
  then show ?case
  proof (cases ys)
    case (Cons y ys')
    with Nil.prems(2) have "CHR '']'' # r = render y @
        (if ys' = [] then CHR '']'' # s else '','' @ join '','' (map render ys') @ CHR '']'' # s)"
      by (cases ys') auto
    then show ?thesis using render_no_close by metis
  qed simp
next
  case (Cons x xs)
  let ?rest = "\<lambda>zs q. if zs = [] then CHR '']'' # q else CHR '','' # join '','' (map render zs) @ CHR '']'' # q"
  have split: "join '','' (map render (z # zs)) @ CHR '']'' # q = render z @ ?rest zs q" for z zs q
    by (cases zs) auto
  show ?case
  proof (cases ys)
    case Nil
    with Cons.prems(2) show ?thesis using render_no_close by (simp only: split) simp
  next
    case (Cons y ys')
    with Cons.prems(2) have "render x @ ?rest xs r = render y @ ?rest ys' s"
      by (simp only: split)
    with Cons.prems(1) [of x "?rest xs r" y "?rest ys' s"] have "x = y" "?rest xs r = ?rest ys' s"
      by auto
    moreover from this(2) have "join '','' (map render xs) @ CHR '']'' # r = join '','' (map render ys') @ CHR '']'' # s"
      by (auto split: if_splits)
    ultimately show ?thesis using Cons.IH [of ys'] Cons.prems(1) Cons by auto
  qed
qed

abbreviation render_entry :: "string \<times> json \<Rightarrow> string" where
  "render_entry \<equiv> \<lambda>(k, v). quote k @ '':'' @ render v"

lemma render_obj_prefix:
  assumes "\<And>k v w r s. (k, v) \<in> set xs \<Longrightarrow> render v @ r = render w @ s \<Longrightarrow> stops r \<Longrightarrow> stops s \<Longrightarrow> v = w \<and> r = s"
    and "join '','' (map render_entry xs) @ CHR ''}'' # r = join '','' (map render_entry ys) @ CHR ''}'' # s"
  shows "xs = ys \<and> r = s"
  using assms
proof (induction xs arbitrary: ys)
  case Nil
  then show ?case
  proof (cases ys)
    case (Cons y ys')
    with Nil.prems(2) show ?thesis
      by (cases y; cases ys') (auto simp: quote_def)
  qed simp
next
  case (Cons x xs)
  let ?rest = "\<lambda>zs q. if zs = [] then CHR ''}'' # q else CHR '','' # join '','' (map render_entry zs) @ CHR ''}'' # q"
  have split: "join '','' (map render_entry (z # zs)) @ CHR ''}'' # q = render_entry z @ ?rest zs q" for z zs q
    by (cases zs) auto
  obtain k v where x: "x = (k, v)" by (cases x)
  show ?case
  proof (cases ys)
    case Nil
    with Cons.prems(2) show ?thesis by (simp only: split x) (simp add: quote_def)
  next
    case (Cons y ys')
    obtain l w where y: "y = (l, w)" by (cases y)
    from Cons.prems(2) Cons x y have "quote k @ '':'' @ render v @ ?rest xs r = quote l @ '':'' @ render w @ ?rest ys' s"
      by (simp only: split) simp
    then have "k = l" and "render v @ ?rest xs r = render w @ ?rest ys' s"
      by (auto dest: quote_prefix)
    with Cons.prems(1) [of k v "?rest xs r" w "?rest ys' s"] have "v = w" and rest: "?rest xs r = ?rest ys' s"
      by (auto simp: x)
    from rest have tail: "join '','' (map render_entry xs) @ CHR ''}'' # r = join '','' (map render_entry ys') @ CHR ''}'' # s"
      by (auto split: if_splits)
    have "xs = ys' \<and> r = s"
    proof (rule Cons.IH)
      show "v = w \<and> r = s" if "(k, v) \<in> set xs" "render v @ r = render w @ s" "stops r" "stops s" for k v w r s
        using that Cons.prems(1) [of k v r w s] by simp
    qed (fact tail)
    then show ?thesis using Cons x y \<open>k = l\<close> \<open>v = w\<close> by simp
  qed
qed

lemma render_prefix:
  "render j @ x = render k @ y \<Longrightarrow> stops x \<Longrightarrow> stops y \<Longrightarrow> j = k \<and> x = y"
proof (induction j arbitrary: k x y rule: render.induct)
  case 1
  with render_same_kind [OF 1(1)] show ?case
    by (cases k) (auto simp: kind_char_def is_digit_def split: if_splits)
next
  case (2 b)
  with render_same_kind [OF 2(1)] show ?case
    by (cases k) (auto simp: kind_char_def is_digit_def split: if_splits)
next
  case (3 i)
  with render_same_kind [OF 3(1)] show ?case
    by (cases k) (auto simp: kind_char_def is_digit_def dest: str_of_int_prefix split: if_splits)
next
  case (4 s)
  with render_same_kind [OF 4(1)] show ?case
    by (cases k) (auto simp: kind_char_def is_digit_def dest: quote_prefix split: if_splits)
next
  case (5 xs)
  from render_same_kind [OF 5(2)] obtain ys where k: "k = JList ys"
    by (cases k) (auto simp: kind_char_def is_digit_def split: if_splits)
  with 5(2) have "join '','' (map render xs) @ CHR '']'' # x = join '','' (map render ys) @ CHR '']'' # y"
    by simp
  from render_list_prefix [OF _ this] 5(1) k show ?case by blast
next
  case (6 kvs)
  from render_same_kind [OF 6(2)] obtain kws where k: "k = JObj kws"
    by (cases k) (auto simp: kind_char_def is_digit_def split: if_splits)
  with 6(2) have "join '','' (map render_entry kvs) @ CHR ''}'' # x = join '','' (map render_entry kws) @ CHR ''}'' # y"
    by simp
  from render_obj_prefix [OF _ this] 6(1) k show ?case by blast
qed

lemma render_inject: "render j = render k \<longleftrightarrow> j = k"
  using render_prefix [of j "[]" k "[]"] by auto

text \<open>
  The canonical serialisation of \<open>aflow/storage/hashing.py\<close> is unambiguous: two documents
  have the same canonical bytes exactly if they are the same document after dropping the hash
  fields and sorting all object keys.
\<close>

lemma canonical_bytes_unambiguous:
  "canonical_bytes fs a = canonical_bytes fs b \<longleftrightarrow> copy_value (scrub fs a) = copy_value (scrub fs b)"
  by (simp add: canonical_bytes_def render_inject)

lemma canonical_hash_eq_cases:
  assumes "canonical_hash a = canonical_hash b"
  shows "copy_value (scrub hash_fields a) = copy_value (scrub hash_fields b)
    \<or> (let x = canonical_bytes hash_fields a; y = canonical_bytes hash_fields b
        in x \<noteq> y \<and> sha256_hex x = sha256_hex y)"
  using assms by (auto simp: canonical_hash_def Let_def canonical_bytes_def render_inject)

end
