(* ===== verification/Hashing.thy ===== *)
theory Hashing
  imports Bundles Canonical
begin

text \<open>
  Sealing and verification of artifacts (\<open>aflow/storage/hashing.py\<close>): \<open>seal\<close>, \<open>verify_hash\<close> and
  \<open>artifact_ref\<close> on documents, the same operations on the records, and the contract between
  them as the locale \<open>sealable\<close>, interpreted for every artifact that carries its own hash.
\<close>

section \<open>Documents\<close>

definition obj_get :: "string \<Rightarrow> json \<Rightarrow> json option" where
  "obj_get f j = (case j of JObj kvs \<Rightarrow> map_of kvs f | _ \<Rightarrow> None)"

definition obj_set :: "string \<Rightarrow> json \<Rightarrow> json \<Rightarrow> json" where
  "obj_set f v j = (case j of JObj kvs \<Rightarrow> JObj (AList.update f v kvs) | _ \<Rightarrow> j)"

definition seal_json :: "string \<Rightarrow> json \<Rightarrow> json" where
  "seal_json f value = obj_set f (JStr (canonical_hash value)) value"

definition verify_json :: "string \<Rightarrow> json \<Rightarrow> bool" where
  "verify_json f value \<longleftrightarrow> obj_get f value = Some (JStr (canonical_hash value))"

text \<open>A string property that is present and non-empty: what \<open>or\<close> takes as true.\<close>

definition truthy_str :: "json option \<Rightarrow> string option" where
  "truthy_str v = (case v of Some (JStr s) \<Rightarrow> if s = [] then None else Some s | _ \<Rightarrow> None)"

definition plain_str :: "json option \<Rightarrow> string option" where
  "plain_str v = (case v of Some (JStr s) \<Rightarrow> Some s | _ \<Rightarrow> None)"

definition schema_base :: string where
  "schema_base = ''https://theoneshot.dev/schemas/aflow/v1/''"

text \<open>
  \<open>artifact_ref\<close>.  The identifier \<open>artifact[id_field]\<close>, a mandatory property of every schema, is
  passed as its value.
\<close>

definition artifact_ref :: "json \<Rightarrow> string \<Rightarrow> string \<Rightarrow> artifact_reference" where
  "artifact_ref artifact schema_name ident =
    (let version =
           (case plain_str (obj_get ''version'' artifact) of
              Some v \<Rightarrow> v
            | None \<Rightarrow> (case plain_str (obj_get ''schema_version'' artifact) of
                         Some v \<Rightarrow> v | None \<Rightarrow> ''1.0.0''));
         content_hash =
           (case truthy_str (obj_get ''content_hash'' artifact) of
              Some h \<Rightarrow> h
            | None \<Rightarrow> (case truthy_str (obj_get ''lock_hash'' artifact) of
                         Some h \<Rightarrow> h | None \<Rightarrow> canonical_hash artifact))
     in \<lparr>ar_id = ident, ar_schema = schema_base @ schema_name, ar_version = version,
         ar_hash = content_hash\<rparr>)"

lemma update_filter_other:
  assumes "\<And>w. \<not> P (k, w)"
  shows "filter P (AList.update k v kvs) = filter P kvs"
proof (induction kvs)
  case (Cons kv kvs)
  obtain k' w where kv: "kv = (k', w)" by (cases kv)
  show ?case
  proof (cases "k' = k")
    case True
    have "\<not> P (k, v)" "\<not> P (k, w)" by (rule assms)+
    then show ?thesis
      by (simp only: kv True update.simps fst_conv if_True refl filter.simps if_False)
  next
    case False
    then show ?thesis
      by (simp only: kv update.simps fst_conv if_False filter.simps Cons.IH)
  qed
qed (simp add: assms)

lemma canonical_hash_obj_set:
  assumes "f \<in> set hash_fields"
  shows "canonical_hash (obj_set f v j) = canonical_hash j"
proof (cases j)
  case (JObj kvs)
  have "filter (\<lambda>kv. fst kv \<notin> set hash_fields) (AList.update f v kvs)
      = filter (\<lambda>kv. fst kv \<notin> set hash_fields) kvs"
    by (rule update_filter_other) (simp add: assms)
  then have "canonical_hash (JObj (AList.update f v kvs)) = canonical_hash (JObj kvs)"
    by (rule canonical_hash_cong)
  then show ?thesis by (simp add: obj_set_def JObj)
qed (simp_all add: obj_set_def)

lemma verify_seal_json:
  assumes "f \<in> set hash_fields" and "j = JObj kvs"
  shows "verify_json f (seal_json f j)"
proof -
  have "map_of (AList.update f v kvs) f = Some v" for v
    by (simp add: AList.update_conv')
  then have "obj_get f (seal_json f j) = Some (JStr (canonical_hash j))"
    using assms by (simp add: seal_json_def obj_get_def obj_set_def)
  then show ?thesis
    using assms by (simp add: verify_json_def seal_json_def canonical_hash_obj_set)
qed

section \<open>The contract of a sealed artifact\<close>

definition seal_with :: "(string \<Rightarrow> 'a \<Rightarrow> 'a) \<Rightarrow> ('a \<Rightarrow> json) \<Rightarrow> 'a \<Rightarrow> 'a" where
  "seal_with set_hash to_json x = set_hash (canonical_hash (to_json x)) x"

definition verify_with :: "('a \<Rightarrow> string) \<Rightarrow> ('a \<Rightarrow> json) \<Rightarrow> 'a \<Rightarrow> bool" where
  "verify_with get_hash to_json x \<longleftrightarrow> get_hash x = canonical_hash (to_json x)"

locale sealable =
  fixes to_json :: "'a \<Rightarrow> json"
    and get_hash :: "'a \<Rightarrow> string"
    and set_hash :: "string \<Rightarrow> 'a \<Rightarrow> 'a"
    and fld :: string
  assumes hash_field: "fld \<in> set hash_fields"
    and get_set: "get_hash (set_hash h x) = h"
    and set_set: "set_hash h (set_hash h' x) = set_hash h x"
    and set_get: "set_hash (get_hash x) x = x"
    and doc_get: "obj_get fld (to_json x) = Some (JStr (get_hash x))"
    and doc_set: "to_json (set_hash h x) = obj_set fld (JStr h) (to_json x)"
begin

lemma hash_ignores_field [simp]: "canonical_hash (to_json (set_hash h x)) = canonical_hash (to_json x)"
  by (simp add: doc_set canonical_hash_obj_set hash_field)

lemma seal_document: "to_json (seal_with set_hash to_json x) = seal_json fld (to_json x)"
  by (simp add: seal_with_def seal_json_def doc_set)

lemma verify_document: "verify_with get_hash to_json x \<longleftrightarrow> verify_json fld (to_json x)"
  by (simp add: verify_with_def verify_json_def doc_get)

lemma verify_seal: "verify_with get_hash to_json (seal_with set_hash to_json x)"
  by (simp add: verify_with_def seal_with_def get_set)

lemma seal_idem: "seal_with set_hash to_json (seal_with set_hash to_json x) = seal_with set_hash to_json x"
  by (simp add: seal_with_def set_set)

lemma verify_iff_sealed: "verify_with get_hash to_json x \<longleftrightarrow> seal_with set_hash to_json x = x"
  by (metis get_set seal_with_def set_get verify_with_def)

lemma tampering:
  assumes "verify_with get_hash to_json x" and "verify_with get_hash to_json y"
    and "get_hash x = get_hash y"
  shows "copy_value (scrub hash_fields (to_json x)) = copy_value (scrub hash_fields (to_json y))
    \<or> (let a = canonical_bytes hash_fields (to_json x); b = canonical_bytes hash_fields (to_json y)
        in a \<noteq> b \<and> sha256_hex a = sha256_hex b)"
  using assms by (intro canonical_hash_eq_cases) (simp add: verify_with_def)

end

lemmas document_simps = obj_get_def obj_set_def opt_field_def

definition set_evidence_hash :: "string \<Rightarrow> evidence_item \<Rightarrow> evidence_item" where
  "set_evidence_hash h e = e\<lparr>ev_hash := h\<rparr>"

definition set_authority_hash :: "string \<Rightarrow> authority_evidence \<Rightarrow> authority_evidence" where
  "set_authority_hash h a = a\<lparr>ae_hash := h\<rparr>"

definition set_repository_hash :: "string \<Rightarrow> repository_evidence \<Rightarrow> repository_evidence" where
  "set_repository_hash h r = r\<lparr>rv_hash := h\<rparr>"

definition set_baseline_hash :: "string \<Rightarrow> baseline \<Rightarrow> baseline" where
  "set_baseline_hash h b = b\<lparr>bl_hash := h\<rparr>"

definition set_decision_hash :: "string \<Rightarrow> decision \<Rightarrow> decision" where
  "set_decision_hash h d = d\<lparr>dc_hash := h\<rparr>"

definition set_closure_hash :: "string \<Rightarrow> closure_result \<Rightarrow> closure_result" where
  "set_closure_hash h c = c\<lparr>cl_hash := h\<rparr>"

definition set_lock_hash :: "string \<Rightarrow> locked_plan \<Rightarrow> locked_plan" where
  "set_lock_hash h l = l\<lparr>lp_hash := h\<rparr>"

definition set_build_hash :: "string \<Rightarrow> build_result \<Rightarrow> build_result" where
  "set_build_hash h b = b\<lparr>br_hash := h\<rparr>"

definition set_trace_hash :: "string \<Rightarrow> trace \<Rightarrow> trace" where
  "set_trace_hash h t = t\<lparr>tr_hash := h\<rparr>"

definition set_evaluation_hash :: "string \<Rightarrow> evaluation \<Rightarrow> evaluation" where
  "set_evaluation_hash h e = e\<lparr>fe_hash := h\<rparr>"

interpretation evidence_seal: sealable evidence_json ev_hash set_evidence_hash "''content_hash''"
  by unfold_locales
    (auto simp: hash_fields_def set_evidence_hash_def evidence_json_def document_simps split: option.splits)

interpretation authority_seal: sealable authority_evidence_json ae_hash set_authority_hash "''content_hash''"
  by unfold_locales
    (auto simp: hash_fields_def set_authority_hash_def authority_evidence_json_def document_simps)

interpretation repository_seal: sealable repository_evidence_json rv_hash set_repository_hash "''content_hash''"
  by unfold_locales
    (auto simp: hash_fields_def set_repository_hash_def repository_evidence_json_def document_simps)

interpretation baseline_seal: sealable baseline_json bl_hash set_baseline_hash "''content_hash''"
  by unfold_locales
    (auto simp: hash_fields_def set_baseline_hash_def baseline_json_def document_simps split: option.splits)

interpretation decision_seal: sealable decision_json dc_hash set_decision_hash "''content_hash''"
  by unfold_locales
    (auto simp: hash_fields_def set_decision_hash_def decision_json_def document_simps)

interpretation closure_seal: sealable closure_result_json cl_hash set_closure_hash "''content_hash''"
  by unfold_locales
    (auto simp: hash_fields_def set_closure_hash_def closure_result_json_def document_simps)

interpretation lock_seal: sealable locked_plan_json lp_hash set_lock_hash "''lock_hash''"
  by unfold_locales
    (auto simp: hash_fields_def set_lock_hash_def locked_plan_json_def document_simps)

interpretation build_seal: sealable build_result_json br_hash set_build_hash "''content_hash''"
  by unfold_locales
    (auto simp: hash_fields_def set_build_hash_def build_result_json_def document_simps)

interpretation trace_seal: sealable trace_json tr_hash set_trace_hash "''content_hash''"
  by unfold_locales
    (auto simp: hash_fields_def set_trace_hash_def trace_json_def document_simps)

interpretation evaluation_seal: sealable evaluation_json fe_hash set_evaluation_hash "''content_hash''"
  by unfold_locales
    (auto simp: hash_fields_def set_evaluation_hash_def evaluation_json_def document_simps)

section \<open>The confirmation of a success definition\<close>

text \<open>
  A success definition keeps its hash in \<open>confirmation.content_hash\<close>; the hash does not depend on
  that property, so a confirmed definition verifies.
\<close>

definition confirm_hash :: "string \<Rightarrow> success_definition \<Rightarrow> success_definition" where
  "confirm_hash h s = s\<lparr>sd_confirmation := (sd_confirmation s)\<lparr>cf_hash := h\<rparr>\<rparr>"

lemma success_hash_ignores:
  "canonical_hash (success_definition_json (confirm_hash h s)) = canonical_hash (success_definition_json s)"
proof -
  let ?g = "\<lambda>(k, v). (k, copy_value v)"
  let ?drop = "\<lambda>(k, v). if k = ''confirmation''
              then (k, case v of JObj c \<Rightarrow> JObj (pop_field ''content_hash'' c) | _ \<Rightarrow> v) else (k, v)"
  let ?P = "\<lambda>kv. fst kv \<notin> set hash_fields"
  have scrubbed: "scrub hash_fields (JObj kvs) = JObj (filter ?P (sort_key fst (map ?drop (map ?g kvs))))"
    if id: "''success_definition_id'' \<in> fst ` set kvs" for kvs
  proof -
    from id obtain v where "(''success_definition_id'', v) \<in> set kvs" by auto
    then have "(''success_definition_id'', copy_value v) \<in> set (filter ?P (sort_key fst (map ?g kvs)))"
      by (force simp: hash_fields_def)
    then have "map_of (filter ?P (sort_key fst (map ?g kvs))) ''success_definition_id'' \<noteq> None"
      using weak_map_of_SomeI by fastforce
    then have "scrub hash_fields (JObj kvs) = JObj (map ?drop (filter ?P (sort_key fst (map ?g kvs))))"
      by (simp add: scrub_def foldr_pop_field pop_confirmation_def)
    also have "map ?drop (filter ?P xs) = filter ?P (map ?drop xs)" for xs
      by (induction xs) (auto split: if_splits)
    also have "map ?drop (sort_key fst (map ?g kvs)) = sort_key fst (map ?drop (map ?g kvs))"
      by (rule sort_key_map_fst [symmetric]) simp
    finally show ?thesis .
  qed
  obtain kvs kvs' where docs: "success_definition_json s = JObj kvs" "success_definition_json (confirm_hash h s) = JObj kvs'"
    by (simp add: success_definition_json_def)
  have same: "map ?drop (map ?g kvs) = map ?drop (map ?g kvs')"
    using docs
    by (auto simp: success_definition_json_def confirm_hash_def confirmation_json_def pop_field_def filter_sort_key_fst)
  have ids: "''success_definition_id'' \<in> fst ` set kvs" "''success_definition_id'' \<in> fst ` set kvs'"
    using docs by (auto simp: success_definition_json_def)
  have "scrub hash_fields (JObj kvs') = scrub hash_fields (JObj kvs)"
    unfolding scrubbed [OF ids(1)] scrubbed [OF ids(2)] same ..
  then show ?thesis unfolding docs canonical_hash_def canonical_bytes_def by (simp only:)
qed

definition confirm :: "success_definition \<Rightarrow> success_definition" where
  "confirm s = confirm_hash (canonical_hash (success_definition_json s)) s"

lemma confirm_verified: "cf_hash (sd_confirmation (confirm s)) = canonical_hash (success_definition_json (confirm s))"
  by (simp add: confirm_def success_hash_ignores) (simp add: confirm_hash_def)

end
