(* ===== verification/Pointer.thy ===== *)
theory Pointer
  imports Json
begin

text \<open>
  JSON pointers as the code resolves them: \<open>_resolve_pointer\<close> of \<open>analysis/substantiation.py\<close>
  and \<open>_pointer_value\<close> of \<open>lifecycle/closure.py\<close>.  Both walk a Python value with \<open>[]\<close>, so a
  list index goes through \<open>int(token)\<close> (signs, blanks and underscores included) and a negative
  index counts from the end.
\<close>

section \<open>Python's int and indexing\<close>

definition int_body :: "string \<Rightarrow> nat option" where
  "int_body s =
    (let groups = split_on CHR ''_'' s
     in if list_all (\<lambda>w. w \<noteq> [] \<and> list_all is_digit w) groups
        then Some (digits_val (concat groups)) else None)"

definition py_int :: "string \<Rightarrow> int option" where
  "py_int s =
    (case strip s of
       [] \<Rightarrow> None
     | c # r \<Rightarrow>
         if c = CHR ''-'' then map_option (\<lambda>n. - int n) (int_body r)
         else if c = CHR ''+'' then map_option int (int_body r)
         else map_option int (int_body (c # r)))"

fun get_item :: "json \<Rightarrow> string \<Rightarrow> json result" where
  "get_item (JList xs) token =
    (case py_int token of
       None \<Rightarrow> Inl (ValueError token)
     | Some i \<Rightarrow>
         (let n = int (length xs); j = (if i < 0 then i + n else i)
          in if 0 \<le> j \<and> j < n then Inr (xs ! nat j) else Inl IndexError))"
| "get_item (JObj kvs) token =
    (case map_of kvs token of None \<Rightarrow> Inl (KeyError token) | Some v \<Rightarrow> Inr v)"
| "get_item j token = Inl (TypeError token)"

section \<open>Walking a pointer\<close>

definition unescape_token :: "string \<Rightarrow> string" where
  "unescape_token raw = replace ''~0'' ''~'' (replace ''~1'' ''/'' raw)"

definition escape_token :: "string \<Rightarrow> string" where
  "escape_token part = replace ''/'' ''~1'' (replace ''~'' ''~0'' part)"

fun walk :: "json \<Rightarrow> string list \<Rightarrow> json result" where
  "walk root [] = Inr root"
| "walk root (t # ts) = rbind (get_item root t) (\<lambda>next. walk next ts)"

definition pointer_tokens :: "string \<Rightarrow> string list" where
  "pointer_tokens p = map unescape_token (split_on CHR ''/'' (lstrip_char CHR ''/'' p))"

definition resolve_pointer :: "json \<Rightarrow> string \<Rightarrow> bool" where
  "resolve_pointer root pointer =
    (if pointer = [] then True
     else case walk root (pointer_tokens pointer) of Inl _ \<Rightarrow> False | Inr _ \<Rightarrow> True)"

definition scope_to_plan :: "string \<Rightarrow> string" where
  "scope_to_plan pointer =
    (if startswith pointer ''/plan'' then removeprefix ''/plan'' pointer else pointer)"

definition pointer_value :: "json \<Rightarrow> string \<Rightarrow> json result" where
  "pointer_value root pointer =
    (let scoped = scope_to_plan pointer
     in if scoped = [] then Inr root else walk root (pointer_tokens scoped))"

text \<open>\<open>json_pointer\<close> of \<open>schemas/validator.py\<close>: the pointer of a path of keys and indices.\<close>

definition json_pointer :: "string list \<Rightarrow> string" where
  "json_pointer parts =
    (let escaped = map escape_token parts
     in if escaped = [] then [] else CHR ''/'' # join ''/'' escaped)"

lemma walk_append: "walk root (xs @ ys) = rbind (walk root xs) (\<lambda>v. walk v ys)"
proof (induction xs arbitrary: root)
  case (Cons x xs)
  then show ?case by (cases "get_item root x") auto
qed simp

lemma resolve_pointer_value:
  "resolve_pointer root (scope_to_plan p) \<longleftrightarrow> (\<exists>v. pointer_value root p = Inr v)"
  by (auto simp: resolve_pointer_def pointer_value_def Let_def split: sum.splits)

subsection \<open>Escaping round trip\<close>

text \<open>
  Replacing one character is a map, so both replacements of \<open>escape_token\<close> act character by
  character.
\<close>

lemma replace_fuel_single:
  "length s \<le> n \<Longrightarrow> replace_fuel n [p] new s = concat (map (\<lambda>c. if c = p then new else [c]) s)"
proof (induction n arbitrary: s)
  case (Suc n)
  then show ?case by (cases s) (auto simp: startswith_def)
qed simp

lemma replace_single: "replace [p] new s = concat (map (\<lambda>c. if c = p then new else [c]) s)"
  by (simp add: replace_def replace_fuel_single)

fun escape_code :: "char \<Rightarrow> string" where
  "escape_code c =
    (if c = CHR ''~'' then ''~0'' else if c = CHR ''/'' then ''~1'' else [c])"

lemma escape_token_codes: "escape_token s = concat (map escape_code s)"
proof -
  have "concat (map (\<lambda>c. if c = CHR ''/'' then ''~1'' else [c]) (concat (map (\<lambda>c. if c = CHR ''~'' then ''~0'' else [c]) s)))
    = concat (map escape_code s)"
    by (induction s) auto
  then show ?thesis by (simp add: escape_token_def replace_single)
qed

definition half_escape :: "char \<Rightarrow> string" where
  "half_escape c = (if c = CHR ''~'' then ''~0'' else [c])"

lemma replace_fuel_tilde1:
  "length (concat (map escape_code s)) \<le> n \<Longrightarrow>
    replace_fuel n ''~1'' ''/'' (concat (map escape_code s)) = concat (map half_escape s)"
proof (induction s arbitrary: n)
  case Nil
  then show ?case by (cases n) auto
next
  case (Cons c s)
  then obtain m where n: "n = Suc m" by (cases n) (auto split: if_splits)
  consider (tilde) "c = CHR ''~''" | (slash) "c = CHR ''/''" | (other) "c \<noteq> CHR ''~''" "c \<noteq> CHR ''/''"
    by blast
  then show ?case
  proof cases
    case tilde
    from Cons.prems n tilde obtain l where m: "m = Suc l" by (cases m) auto
    from Cons.IH [of l] Cons.prems n m tilde show ?thesis
      by (simp add: startswith_def half_escape_def)
  next
    case slash
    from Cons.IH [of m] Cons.prems n slash show ?thesis
      by (simp add: startswith_def half_escape_def)
  next
    case other
    from Cons.IH [of m] Cons.prems n other show ?thesis
      by (simp add: startswith_def half_escape_def)
  qed
qed

lemma replace_fuel_tilde0:
  "length (concat (map half_escape s)) \<le> n \<Longrightarrow>
    replace_fuel n ''~0'' ''~'' (concat (map half_escape s)) = s"
proof (induction s arbitrary: n)
  case Nil
  then show ?case by (cases n) auto
next
  case (Cons c s)
  then obtain m where n: "n = Suc m" by (cases n) (auto simp: half_escape_def split: if_splits)
  from Cons.IH [of m] Cons.prems n show ?case
    by (simp add: startswith_def half_escape_def split: if_splits)
qed

lemma unescape_escape [simp]: "unescape_token (escape_token s) = s"
  by (simp add: unescape_token_def escape_token_codes replace_def replace_fuel_tilde1 replace_fuel_tilde0
      le_SucI)

lemma escape_token_no_slash: "CHR ''/'' \<notin> set (escape_token s)"
  by (auto simp: escape_token_codes split: if_splits)

lemma split_on_no_sep: "c \<notin> set s \<Longrightarrow> split_on c s = [s]"
  by (induction s) auto

lemma split_on_append_sep: "c \<notin> set s \<Longrightarrow> split_on c (s @ c # t) = s # split_on c t"
  by (induction s) auto

lemma split_on_join:
  "\<forall>w \<in> set ws. c \<notin> set w \<Longrightarrow> ws \<noteq> [] \<Longrightarrow> split_on c (join [c] ws) = ws"
proof (induction ws rule: induct_list012)
  case (3 x y zs)
  then show ?case by (simp add: split_on_append_sep)
qed (auto simp: split_on_no_sep)

lemma pointer_tokens_json_pointer:
  assumes "parts \<noteq> []" and "hd parts \<noteq> []"
  shows "pointer_tokens (json_pointer parts) = parts"
proof -
  let ?es = "map escape_token parts"
  from assms obtain p ps where parts: "parts = p # ps" by (cases parts) auto
  with assms(2) obtain q qs where "p = q # qs" by (cases p) auto
  then have "escape_token p \<noteq> []" by (simp add: escape_token_codes)
  then obtain c cs where "escape_token p = c # cs" by (meson neq_Nil_conv)
  moreover from this have "c \<noteq> CHR ''/''" using escape_token_no_slash [of p] by auto
  ultimately have "lstrip_char CHR ''/'' (json_pointer parts) = join ''/'' ?es"
    by (cases ps) (auto simp: json_pointer_def lstrip_char_def parts)
  moreover have "split_on CHR ''/'' (join ''/'' ?es) = ?es"
    using assms(1) escape_token_no_slash by (intro split_on_join) auto
  ultimately show ?thesis by (simp add: pointer_tokens_def comp_def)
qed

text \<open>
  Pointers round trip: resolving the pointer that the schema validator prints for a path
  walks exactly that path, escaped slashes and tildes included.  (A path whose first key is empty
  is excepted: the code strips every leading slash.)
\<close>

lemma pointer_roundtrip:
  assumes "parts \<noteq> []" and "hd parts \<noteq> []"
  shows "resolve_pointer root (json_pointer parts) \<longleftrightarrow> (\<exists>v. walk root parts = Inr v)"
proof -
  have "json_pointer parts \<noteq> []" using assms by (simp add: json_pointer_def)
  then show ?thesis
    using pointer_tokens_json_pointer [OF assms] by (auto simp: resolve_pointer_def split: sum.splits)
qed

theorem pointer_roundtrip_witness:
  "resolve_pointer (JObj [(''a/b'', JList [JInt 1, JStr ''x''])]) (json_pointer [''a/b'', ''-1''])
    \<longleftrightarrow> (\<exists>v. walk (JObj [(''a/b'', JList [JInt 1, JStr ''x''])]) [''a/b'', ''-1''] = Inr v)"
  by (rule pointer_roundtrip) simp_all

end
