(* ===== verification/Validator.thy ===== *)
theory Validator
  imports Pointer "HOL-Library.Product_Lexorder"
begin

text \<open>
  Schema validation (\<open>aflow/schemas/validator.py\<close>) and admission
  (\<open>aflow/analysis/schema_admission.py\<close>).  The errors that the \<open>jsonschema\<close> package reports for a
  document, a third-party computation, are the parameter \<open>iter_errors\<close> of the model; everything
  the repository does with them (ordering, pointers, summary, admission records) is defined here.
\<close>

section \<open>Reported errors\<close>

text \<open>
  A path mixes object keys and list indices.  Two paths of one document have the same kind of
  part at the first place where they differ, so how a key compares with an index is immaterial.
\<close>

datatype path_part = Index nat | Key string

instantiation path_part :: linorder
begin

fun less_eq_path_part :: "path_part \<Rightarrow> path_part \<Rightarrow> bool" where
  "less_eq_path_part (Index i) (Index j) \<longleftrightarrow> i \<le> j"
| "less_eq_path_part (Index i) (Key k) \<longleftrightarrow> True"
| "less_eq_path_part (Key k) (Index i) \<longleftrightarrow> False"
| "less_eq_path_part (Key k) (Key l) \<longleftrightarrow> k \<le> l"

definition less_path_part :: "path_part \<Rightarrow> path_part \<Rightarrow> bool" where
  "less_path_part x y \<longleftrightarrow> x \<le> y \<and> \<not> y \<le> x"

instance
proof
  fix x y z :: path_part
  show "x < y \<longleftrightarrow> x \<le> y \<and> \<not> y \<le> x" by (rule less_path_part_def)
  show "x \<le> x" by (cases x) auto
  show "x \<le> y \<Longrightarrow> y \<le> z \<Longrightarrow> x \<le> z" by (cases x; cases y; cases z) auto
  show "x \<le> y \<Longrightarrow> y \<le> x \<Longrightarrow> x = y" by (cases x; cases y) auto
  show "x \<le> y \<or> y \<le> x" by (cases x; cases y) auto
qed

end

record validation_error =
  ve_validator :: string
  ve_path :: "path_part list"
  ve_schema_path :: "path_part list"
  ve_message :: string

type_synonym iter_errors = "string \<Rightarrow> json \<Rightarrow> validation_error list"

record validation_issue =
  vi_keyword :: string
  vi_instance_path :: string
  vi_schema_path :: string
  vi_message :: string

section \<open>Issues and validation\<close>

fun part_str :: "path_part \<Rightarrow> string" where
  "part_str (Index i) = str_of_nat i"
| "part_str (Key k) = k"

definition path_pointer :: "path_part list \<Rightarrow> string" where
  "path_pointer parts = json_pointer (map part_str parts)"

definition issues_for :: "iter_errors \<Rightarrow> json \<Rightarrow> string \<Rightarrow> validation_issue list" where
  "issues_for iter value schema_name =
    (let errors = sort_key (\<lambda>e. (ve_path e, ve_message e)) (iter schema_name value)
     in map (\<lambda>e. \<lparr>vi_keyword = ve_validator e, vi_instance_path = path_pointer (ve_path e),
          vi_schema_path = path_pointer (ve_schema_path e), vi_message = ve_message e\<rparr>) errors)"

definition issue_summary :: "string \<Rightarrow> validation_issue list \<Rightarrow> string" where
  "issue_summary schema_name issues =
    schema_name @ '' validation failed: '' @
    join ''; '' (map (\<lambda>i. (if vi_instance_path i = [] then ''/'' else vi_instance_path i) @ '': '' @ vi_message i) issues)"

definition validate :: "iter_errors \<Rightarrow> json \<Rightarrow> string \<Rightarrow> unit result" where
  "validate iter value schema_name =
    (let issues = issues_for iter value schema_name
     in if issues \<noteq> [] then Inl (SchemaValidationError (issue_summary schema_name issues)) else Inr ())"

lemma issues_for_Nil [simp]: "issues_for iter value name = [] \<longleftrightarrow> iter name value = []"
  by (simp add: issues_for_def Let_def)

lemma validate_eq_Inr [result_simps, simp]: "validate iter value name = Inr u \<longleftrightarrow> iter name value = []"
  by (cases u) (simp add: validate_def Let_def)

lemma validate_not_domain [simp]: "validate iter value name \<noteq> Inl (DomainInvariantError e)"
  by (simp add: validate_def Let_def)

text \<open>The validator that accepts every document, used to exercise the code behind admission.\<close>

definition accept_all :: iter_errors where
  "accept_all name value = []"

section \<open>Admission\<close>

text \<open>The pattern \<open>^'([^']+)' is a required property$\<close>; its dollar sign admits a final newline.\<close>

definition missing_token :: "string \<Rightarrow> string option" where
  "missing_token message =
    (case message of
       [] \<Rightarrow> None
     | c # r \<Rightarrow>
         (let token = takeWhile (\<lambda>x. x \<noteq> CHR 0x27) r;
              rest = dropWhile (\<lambda>x. x \<noteq> CHR 0x27) r;
              tail = CHR 0x27 # '' is a required property''
          in if c = CHR 0x27 \<and> token \<noteq> [] \<and> (rest = tail \<or> rest = tail @ [CHR 0x0A])
             then Some token else None))"

record admission_error =
  ad_id :: string
  ad_keyword :: string
  ad_instance_path :: string
  ad_schema_path :: string
  ad_message :: string
  ad_blocking :: bool

record admission =
  am_schema_version :: string
  am_id :: json
  am_valid :: bool
  am_errors :: "admission_error list"

definition admission_path :: "validation_issue \<Rightarrow> string" where
  "admission_path issue =
    (case missing_token (vi_message issue) of
       None \<Rightarrow> vi_instance_path issue
     | Some tok \<Rightarrow>
         (let token = escape_token tok
          in if vi_instance_path issue \<noteq> [] then vi_instance_path issue @ ''/'' @ token
             else ''/'' @ token))"

definition admit :: "iter_errors \<Rightarrow> json \<Rightarrow> admission" where
  "admit iter request =
    (let analysis_id = (case request of
           JObj kvs \<Rightarrow> (case map_of kvs ''analysis_id'' of Some v \<Rightarrow> v | None \<Rightarrow> JStr ''analysis.invalid'')
         | _ \<Rightarrow> JStr ''analysis.invalid'');
         errors = map (\<lambda>(index, issue).
             \<lparr>ad_id = ''schema.error.'' @ str_of_nat index, ad_keyword = vi_keyword issue,
              ad_instance_path = admission_path issue, ad_schema_path = vi_schema_path issue,
              ad_message = vi_message issue, ad_blocking = True\<rparr>)
           (enumerate 1 (issues_for iter request ''analysis-request.schema.json''))
     in \<lparr>am_schema_version = ''1.0.0'', am_id = analysis_id, am_valid = (errors = []), am_errors = errors\<rparr>)"

lemma admit_valid [simp]: "am_valid (admit iter request) \<longleftrightarrow> iter ''analysis-request.schema.json'' request = []"
proof -
  have "enumerate n xs = [] \<longleftrightarrow> xs = []" for n and xs :: "validation_issue list"
    by (cases xs) auto
  then show ?thesis by (simp add: admit_def Let_def)
qed

lemma admit_errors_Nil: "am_errors (admit iter request) = [] \<longleftrightarrow> am_valid (admit iter request)"
  by (simp add: admit_def Let_def)

end
