(* ===== verification/Domain.thy ===== *)
theory Domain
  imports Hashing Validator
begin

text \<open>
  The non-bypassable invariants of \<open>aflow/domain/models.py\<close>: \<open>validate_domain_invariants\<close> with one
  equation per artifact kind, in the order of the source's branches.
\<close>

datatype artifact =
    ASuccess success_definition
  | APlan plan
  | ADecision decision
  | AEvaluation evaluation
  | ALocked locked_plan
  | ABaseline baseline
  | AAuthority authority_evidence
  | ARepository repository_evidence
  | AEvidence evidence_item
  | ABuild build_result
  | ATrace trace
  | AClosure closure_result
  | AClosureRequest closure_request
  | ARequest request
  | ADriftEvent drift_event
  | ADriftDecision drift_decision

fun artifact_json :: "artifact \<Rightarrow> json" where
  "artifact_json (ASuccess s) = success_definition_json s"
| "artifact_json (APlan p) = plan_json p"
| "artifact_json (ADecision d) = decision_json d"
| "artifact_json (AEvaluation e) = evaluation_json e"
| "artifact_json (ALocked l) = locked_plan_json l"
| "artifact_json (ABaseline b) = baseline_json b"
| "artifact_json (AAuthority a) = authority_evidence_json a"
| "artifact_json (ARepository r) = repository_evidence_json r"
| "artifact_json (AEvidence e) = evidence_json e"
| "artifact_json (ABuild b) = build_result_json b"
| "artifact_json (ATrace t) = trace_json t"
| "artifact_json (AClosure c) = closure_result_json c"
| "artifact_json (AClosureRequest c) = closure_request_json c"
| "artifact_json (ARequest r) = request_json r"
| "artifact_json (ADriftEvent e) = drift_event_json e"
| "artifact_json (ADriftDecision d) = drift_decision_json d"

fun schema_by_kind :: "artifact \<Rightarrow> string" where
  "schema_by_kind (ASuccess _) = ''success-definition.schema.json''"
| "schema_by_kind (APlan _) = ''plan.schema.json''"
| "schema_by_kind (ADecision _) = ''analysis-decision.schema.json''"
| "schema_by_kind (AEvaluation _) = ''final-evaluation.schema.json''"
| "schema_by_kind (ALocked _) = ''locked-plan.schema.json''"
| "schema_by_kind (ABaseline _) = ''baseline.schema.json''"
| "schema_by_kind (AAuthority _) = ''authority-evidence.schema.json''"
| "schema_by_kind (ARepository _) = ''repository-evidence.schema.json''"
| "schema_by_kind (AEvidence _) = ''evidence.schema.json''"
| "schema_by_kind (ABuild _) = ''build-result.schema.json''"
| "schema_by_kind (ATrace _) = ''requirement-evidence-trace.schema.json''"
| "schema_by_kind (AClosure _) = ''closure-result.schema.json''"
| "schema_by_kind (AClosureRequest _) = ''closure-request.schema.json''"
| "schema_by_kind (ARequest _) = ''analysis-request.schema.json''"
| "schema_by_kind (ADriftEvent _) = ''drift-event.schema.json''"
| "schema_by_kind (ADriftDecision _) = ''drift-decision.schema.json''"

definition unique_ids :: "string list \<Rightarrow> string \<Rightarrow> unit result" where
  "unique_ids ids scope =
    (let duplicates = sorted_set (filter (\<lambda>v. count_list ids v > 1) ids)
     in require (duplicates = [])
          (DomainInvariantError (''duplicate '' @ scope @ '' IDs: '' @ join '', '' duplicates)))"

lemma count_list_le_1_distinct: "(\<forall>v \<in> set xs. count_list xs v \<le> 1) \<longleftrightarrow> distinct xs"
proof (induction xs)
  case (Cons x xs)
  have "(\<forall>v \<in> set (x # xs). count_list (x # xs) v \<le> 1) \<longleftrightarrow>
      x \<notin> set xs \<and> (\<forall>v \<in> set xs. count_list xs v \<le> 1)"
    by (auto simp: count_list_0_iff)
  with Cons show ?case by simp
qed simp

lemma unique_ids_eq_Inr [simp, result_simps]: "unique_ids ids scope = Inr u \<longleftrightarrow> distinct ids"
  using count_list_le_1_distinct [of ids]
  by (auto simp: unique_ids_def Let_def filter_empty_conv not_less)

abbreviation invariant_error :: "string \<Rightarrow> py_error" where
  "invariant_error \<equiv> DomainInvariantError"

fun domain_checks :: "artifact \<Rightarrow> unit result list" where
  "domain_checks (ASuccess s) = [
    unique_ids (map at_id (sd_actors s)) ''actor'',
    unique_ids (map rq_id (sd_requirements s)) ''requirement'',
    unique_ids (map po_id (sd_prohibited s)) ''prohibited outcome'',
    unique_ids (map ng_id (sd_non_goals s)) ''non-goal'',
    unique_ids (map pf_id (sd_proofs s)) ''proof'',
    require (cf_hash (sd_confirmation s) = canonical_hash (success_definition_json s))
      (invariant_error ''success-definition confirmation hash mismatch'')]"
| "domain_checks (APlan p) = [
    unique_ids (map cr_requirement_id (pl_coverage p)) ''requirement coverage'',
    unique_ids (map ac_id (pl_actions p)) ''action'',
    unique_ids (map va_id (pl_validations p)) ''validation'',
    unique_ids (map dp_id (pl_dependencies p)) ''dependency'',
    unique_ids (map as_id (pl_assumptions p)) ''assumption'',
    unique_ids (map rk_id (pl_risks p)) ''authority risk'',
    unique_ids (map fl_id (pl_failures p)) ''failure'',
    unique_ids (map st_id (pl_stops p)) ''stop condition'',
    unique_ids [eo_id out. a \<leftarrow> pl_actions p, out \<leftarrow> ac_outputs a] ''expected output'']"
| "domain_checks (ADecision d) =
    (let clean = (dc_kind d = NoMaterialGap) in [
    unique_ids (map fd_id (dc_findings d)) ''finding'',
    unique_ids (map rj_id (dc_rejected d)) ''rejected finding'',
    require (clean = (\<not> dc_blocking d \<and> dc_ready d \<and> dc_findings d = []))
      (invariant_error ''analysis decision invariant violated''),
    require (\<not> (\<not> clean \<and> (\<not> dc_blocking d \<or> dc_ready d \<or> dc_findings d = [])))
      (invariant_error ''blocking analysis decision invariant violated''),
    require (verify_json ''content_hash'' (decision_json d))
      (invariant_error ''analysis decision content hash mismatch'')])"
| "domain_checks (AEvaluation e) =
    (let proven = (fe_decision e = Proven) in [
    unique_ids (map (\<lambda>q. dimension_str (qr_dimension q)) (fe_quality e)) ''quality dimension'',
    unique_ids (map bf_id (fe_failures e)) ''blocking failure'',
    require (\<not> (proven \<and> (fe_blocking e \<or> fe_failures e \<noteq> [] \<or> fe_prohibited e \<noteq> [])))
      (invariant_error ''proven final decision invariant violated''),
    require (\<not> (fe_decision e \<in> {Unproven, Contradicted, InvalidatedByDrift}
        \<and> (\<not> fe_blocking e \<or> fe_failures e = [])))
      (invariant_error ''blocking final decision invariant violated''),
    require (\<not> (proven \<and> (\<exists>q \<in> set (fe_quality e). qr_status q \<notin> {QPass, QNotApplicable})))
      (invariant_error ''proven final decision contains an unproven quality dimension''),
    require (verify_json ''content_hash'' (evaluation_json e))
      (invariant_error ''final evaluation content hash mismatch'')])"
| "domain_checks (ALocked l) = [
    require (verify_json ''lock_hash'' (locked_plan_json l)) (invariant_error ''locked-plan hash mismatch'')]"
| "domain_checks (ABaseline b) = [
    unique_ids (map be_path (bl_entries b)) ''baseline path'',
    unique_ids (map ah_id (bl_authority b)) ''baseline authority'',
    require (verify_json ''content_hash'' (baseline_json b))
      (invariant_error ''baseline content hash mismatch'')]"
| "domain_checks (AAuthority a) = [
    unique_ids (map au_id (ae_sources a)) ''authority source'',
    unique_ids (map cp_id (ae_capabilities a)) ''capability'',
    require (verify_json ''content_hash'' (authority_evidence_json a))
      (invariant_error ''authority evidence content hash mismatch'')]"
| "domain_checks (ARepository r) = [
    unique_ids (map rp_path (rv_entries r)) ''repository evidence path'',
    require (verify_json ''content_hash'' (repository_evidence_json r))
      (invariant_error ''repository evidence content hash mismatch'')]"
| "domain_checks (AEvidence e) = [
    require (verify_json ''content_hash'' (evidence_json e))
      (invariant_error ''evidence content hash mismatch'')]"
| "domain_checks (ABuild b) = [
    unique_ids (map bo_id (br_outputs b)) ''build output'',
    unique_ids (map vr_id (br_validations b)) ''validation result'',
    unique_ids (map oc_id (br_checks b)) ''prohibited outcome check'',
    require (verify_json ''content_hash'' (build_result_json b))
      (invariant_error ''build result content hash mismatch'')]"
| "domain_checks (ATrace t) =
    unique_ids (map te_requirement_id (tr_entries t)) ''trace requirement''
    # map (\<lambda>e. unique_ids (map (\<lambda>q. dimension_str (qr_dimension q)) (te_quality e))
              (''trace quality for '' @ te_requirement_id e)) (tr_entries t)
    @ [require (verify_json ''content_hash'' (trace_json t))
        (invariant_error ''requirement trace content hash mismatch'')]"
| "domain_checks (AClosure c) =
    (let unresolved = (\<exists>r \<in> set (cl_results c). fr_status r \<in> {StillOpen, PartiallyClosed}) in [
    unique_ids (map fr_id (cl_results c)) ''closure finding'',
    require (\<not> (unresolved \<and> dc_kind (cl_decision c) = NoMaterialGap))
      (invariant_error ''closure cannot be clean while an original finding remains unresolved''),
    require (verify_json ''content_hash'' (closure_result_json c))
      (invariant_error ''closure result content hash mismatch'')])"
| "domain_checks (AClosureRequest _) = []"
| "domain_checks (ARequest _) = []"
| "domain_checks (ADriftEvent _) = []"
| "domain_checks (ADriftDecision _) = []"

definition validate_domain_invariants :: "iter_errors \<Rightarrow> artifact \<Rightarrow> unit result" where
  "validate_domain_invariants iter a =
    rbind (validate iter (artifact_json a) (schema_by_kind a)) (\<lambda>_. run_all (domain_checks a))"

text \<open>The invariants as one predicate, for the properties.\<close>

definition domain_ok :: "artifact \<Rightarrow> bool" where
  "domain_ok a \<longleftrightarrow> (\<forall>c \<in> set (domain_checks a). c = Inr ())"

lemma validate_domain_invariants_eq_Inr [result_simps]:
  "validate_domain_invariants iter a = Inr u \<longleftrightarrow>
    iter (schema_by_kind a) (artifact_json a) = [] \<and> domain_ok a"
  by (cases u) (auto simp: validate_domain_invariants_def result_simps domain_ok_def)

lemma domain_ok_success:
  "domain_ok (ASuccess s) \<longleftrightarrow>
    distinct (map at_id (sd_actors s)) \<and> distinct (map rq_id (sd_requirements s)) \<and>
    distinct (map po_id (sd_prohibited s)) \<and> distinct (map ng_id (sd_non_goals s)) \<and>
    distinct (map pf_id (sd_proofs s)) \<and>
    cf_hash (sd_confirmation s) = canonical_hash (success_definition_json s)"
  by (simp add: domain_ok_def)

lemma domain_ok_plan:
  "domain_ok (APlan p) \<longleftrightarrow>
    distinct (map cr_requirement_id (pl_coverage p)) \<and> distinct (map ac_id (pl_actions p)) \<and>
    distinct (map va_id (pl_validations p)) \<and> distinct (map dp_id (pl_dependencies p)) \<and>
    distinct (map as_id (pl_assumptions p)) \<and> distinct (map rk_id (pl_risks p)) \<and>
    distinct (map fl_id (pl_failures p)) \<and> distinct (map st_id (pl_stops p)) \<and>
    distinct [eo_id out. a \<leftarrow> pl_actions p, out \<leftarrow> ac_outputs a]"
  by (simp add: domain_ok_def)

lemma domain_ok_decision:
  "domain_ok (ADecision d) \<longleftrightarrow>
    distinct (map fd_id (dc_findings d)) \<and> distinct (map rj_id (dc_rejected d)) \<and>
    (if dc_kind d = NoMaterialGap then \<not> dc_blocking d \<and> dc_ready d \<and> dc_findings d = []
     else dc_blocking d \<and> \<not> dc_ready d \<and> dc_findings d \<noteq> []) \<and>
    verify_json ''content_hash'' (decision_json d)"
  by (auto simp: domain_ok_def Let_def)

end
