(* ===== verification/Findings.thy ===== *)
theory Findings
  imports Domain
begin

text \<open>
  Construction of findings and the evidence checks (\<open>aflow/analysis/evidence_checks.py\<close>).
  A checker returns the list of its findings in the order the code appends them.
\<close>

section \<open>Making findings\<close>

fun gap_to_closure :: "gap_type \<Rightarrow> closure_code option" where
  "gap_to_closure StructuralMissing = Some AddRequiredField"
| "gap_to_closure StructuralInvalid = Some CorrectInvalidValue"
| "gap_to_closure BrokenReference = Some RepairReference"
| "gap_to_closure CoverageGap = Some CoverRequirement"
| "gap_to_closure DependencyGap = Some ResolveDependency"
| "gap_to_closure UnsupportedAssumption = Some SubstantiateOrRemoveAssumption"
| "gap_to_closure CapabilityGap = Some AssignValidCapability"
| "gap_to_closure SystemBoundaryGap = Some RestoreSystemBoundary"
| "gap_to_closure SequenceActivationGap = Some CorrectSequenceOrActivation"
| "gap_to_closure ValidationEvidenceGap = Some AddSufficientValidation"
| "gap_to_closure OutputEnvironmentGap = Some ExerciseRequiredEnvironment"
| "gap_to_closure AuthorityAmbiguity = Some ResolveAuthorityOwnership"
| "gap_to_closure Contradiction = Some ResolveContradiction"
| "gap_to_closure RelevantDrift = Some RevalidateAfterDrift"
| "gap_to_closure _ = None"

definition evidence_ref :: "string \<Rightarrow> json \<Rightarrow> evidence_reference" where
  "evidence_ref ident value =
    \<lparr>er_id = ident,
     er_hash = (case truthy_str (obj_get ''content_hash'' value) of
        Some h \<Rightarrow> h | None \<Rightarrow> canonical_hash value)\<rparr>"

definition request_evidence_ref :: "request \<Rightarrow> string option \<Rightarrow> evidence_reference" where
  "request_evidence_ref r preferred =
    (let chosen = (case preferred of
           None \<Rightarrow> None
         | Some p \<Rightarrow> if p = [] then None else find (\<lambda>item. ev_id item = p) (aq_evidence r))
     in case chosen of
          Some item \<Rightarrow> evidence_ref (ev_id item) (evidence_json item)
        | None \<Rightarrow>
            (case aq_evidence r of
               item # _ \<Rightarrow> evidence_ref (ev_id item) (evidence_json item)
             | [] \<Rightarrow> evidence_ref (rv_id (aq_repository r)) (repository_evidence_json (aq_repository r))))"

definition or_default :: "'a list option \<Rightarrow> 'a list \<Rightarrow> 'a list" where
  "or_default v d = (case v of None \<Rightarrow> d | Some xs \<Rightarrow> if xs = [] then d else xs)"

definition make_finding ::
  "string \<Rightarrow> gap_type \<Rightarrow> origin \<Rightarrow> string list \<Rightarrow> string \<Rightarrow> evidence_reference list
    \<Rightarrow> string list option \<Rightarrow> string option \<Rightarrow> string list option \<Rightarrow> finding" where
  "make_finding fid gap org locations claim refs requirements reasoning predicates =
    (let code = (case gap_to_closure gap of Some c \<Rightarrow> c | None \<Rightarrow> OtherBounded)
     in \<lparr>fd_schema_version = ''1.0.0'', fd_id = fid, fd_gap = gap, fd_origin = org,
         fd_severity = Blocking, fd_blocking = True,
         fd_requirements = or_default requirements [],
         fd_locations = (if locations = [] then [[]] else locations),
         fd_claim = claim, fd_evidence = refs, fd_reasoning = or_default reasoning claim,
         fd_why = ''The accepted plan could not reliably prove the locked success definition.'',
         fd_closure = \<lparr>rc_code = code,
            rc_description = ''Resolve the bounded '' @ gap_type_str gap @ '' at the challenged plan location.'',
            rc_predicates = or_default predicates [''The '' @ gap_type_str gap @ '' condition is no longer present.'']\<rparr>,
         fd_status = FindingOpen\<rparr>)"

lemma make_finding_fields [simp]:
  "fd_id (make_finding fid gap org locs claim refs reqs reas preds) = fid"
  "fd_gap (make_finding fid gap org locs claim refs reqs reas preds) = gap"
  "fd_origin (make_finding fid gap org locs claim refs reqs reas preds) = org"
  "fd_severity (make_finding fid gap org locs claim refs reqs reas preds) = Blocking"
  "fd_blocking (make_finding fid gap org locs claim refs reqs reas preds)"
  "fd_evidence (make_finding fid gap org locs claim refs reqs reas preds) = refs"
  "fd_locations (make_finding fid gap org locs claim refs reqs reas preds) = (if locs = [] then [[]] else locs)"
  "fd_requirements (make_finding fid gap org locs claim refs reqs reas preds) = or_default reqs []"
  "fd_status (make_finding fid gap org locs claim refs reqs reas preds) = FindingOpen"
  "fd_claim (make_finding fid gap org locs claim refs reqs reas preds) = claim"
  by (simp_all add: make_finding_def Let_def)

lemma make_finding_closure_code:
  "rc_code (fd_closure (make_finding fid gap org locs claim refs reqs reas preds)) =
    (case gap_to_closure gap of Some c \<Rightarrow> c | None \<Rightarrow> OtherBounded)"
  by (simp add: make_finding_def Let_def)

section \<open>Evidence checks\<close>

text \<open>Findings of the evidence checks share their gap, origin and evidence.\<close>

definition evidence_finding :: "request \<Rightarrow> string \<Rightarrow> string \<Rightarrow> string \<Rightarrow> finding" where
  "evidence_finding r fid location claim =
    make_finding fid BrokenReference Deterministic [location] claim [request_evidence_ref r None] None None None"

definition duplicate_evidence_ids :: "request \<Rightarrow> string list" where
  "duplicate_evidence_ids r =
    (let ids = map ev_id (aq_evidence r) in sorted_set (filter (\<lambda>i. count_list ids i > 1) ids))"

definition hashed_artifacts :: "request \<Rightarrow> (json \<times> string \<times> string) list" where
  "hashed_artifacts r = [
    (authority_evidence_json (aq_authority r), ''/authority_evidence/content_hash'', ''authority evidence''),
    (repository_evidence_json (aq_repository r), ''/repository_evidence/content_hash'', ''repository evidence''),
    (baseline_json (aq_baseline r), ''/baseline/content_hash'', ''repository baseline'')]"

definition plan_evidence_references :: "plan \<Rightarrow> (string \<times> evidence_reference) list" where
  "plan_evidence_references p =
    for_enum (pl_actions p) (\<lambda>i a. for_enum (ac_prerequisites a) (\<lambda>j q.
      map (\<lambda>ref. (''/plan/actions/'' @ str_of_nat i @ ''/prerequisites/'' @ str_of_nat j @ ''/evidence_refs'', ref))
        (or_default (pq_evidence_refs q) [])))
    @ for_enum (pl_assumptions p) (\<lambda>i a.
        map (\<lambda>ref. (''/plan/assumptions/'' @ str_of_nat i @ ''/evidence_refs'', ref))
          (or_default (as_evidence_refs a) []))
    @ for_enum (pl_risks p) (\<lambda>i k.
        map (\<lambda>ref. (''/plan/authority_risks/'' @ str_of_nat i @ ''/evidence_refs'', ref))
          (or_default (rk_evidence_refs k) []))"

definition reference_resolves :: "request \<Rightarrow> evidence_reference \<Rightarrow> bool" where
  "reference_resolves r ref =
    (case map_of (key_by ev_id (aq_evidence r)) (er_id ref) of
       None \<Rightarrow> False | Some actual \<Rightarrow> ev_hash actual = er_hash ref)"

definition evidence_check :: "request \<Rightarrow> finding list" where
  "evidence_check r =
    for_each (duplicate_evidence_ids r) (\<lambda>d.
      [evidence_finding r (''evidence.duplicate.'' @ d) ''/evidence''
        (''Evidence ID '' @ d @ '' is duplicated in the bounded input.'')])
    @ for_each (hashed_artifacts r) (\<lambda>(artifact, location, label).
        emit (\<not> verify_json ''content_hash'' artifact)
          (evidence_finding r (''hash.'' @ replace '' '' ''-'' label) location
            (''The supplied '' @ label @ '' content hash does not match canonical content.'')))
    @ for_enum (aq_evidence r) (\<lambda>i item.
        emit (\<not> verify_json ''content_hash'' (evidence_json item))
          (evidence_finding r (''hash.evidence.'' @ str_of_nat i)
            (''/evidence/'' @ str_of_nat i @ ''/content_hash'')
            (''Evidence '' @ ev_id item @ '' has a content-hash mismatch.'')))
    @ for_enum (plan_evidence_references (aq_plan r)) (\<lambda>i (location, ref).
        emit (\<not> reference_resolves r ref)
          (evidence_finding r (''evidence.reference.'' @ str_of_nat i) location
            (''Evidence reference '' @ er_id ref @ '' is absent or hash-mismatched.'')))"

subsection \<open>What the evidence checks establish\<close>

definition plan_references :: "plan \<Rightarrow> evidence_reference set" where
  "plan_references p =
    {ref. \<exists>a \<in> set (pl_actions p). \<exists>q \<in> set (ac_prerequisites a). ref \<in> set (or_default (pq_evidence_refs q) [])}
    \<union> {ref. \<exists>a \<in> set (pl_assumptions p). ref \<in> set (or_default (as_evidence_refs a) [])}
    \<union> {ref. \<exists>k \<in> set (pl_risks p). ref \<in> set (or_default (rk_evidence_refs k) [])}"

lemma snd_plan_evidence_references:
  "snd ` set (plan_evidence_references p) = plan_references p"
proof -
  have prerequisites: "snd ` set (for_enum (ac_prerequisites a) (\<lambda>j q. map (\<lambda>ref. (f j, ref)) (or_default (pq_evidence_refs q) [])))
      = (\<Union>q \<in> set (ac_prerequisites a). set (or_default (pq_evidence_refs q) []))" for a f
    by (rule image_for_enum) (simp add: image_image)
  have assumptions: "snd ` set (for_enum (pl_assumptions p) (\<lambda>j a. map (\<lambda>ref. (f j, ref)) (or_default (as_evidence_refs a) [])))
      = (\<Union>a \<in> set (pl_assumptions p). set (or_default (as_evidence_refs a) []))" for f
    by (rule image_for_enum) (simp add: image_image)
  have risks: "snd ` set (for_enum (pl_risks p) (\<lambda>j k. map (\<lambda>ref. (f j, ref)) (or_default (rk_evidence_refs k) [])))
      = (\<Union>k \<in> set (pl_risks p). set (or_default (rk_evidence_refs k) []))" for f
    by (rule image_for_enum) (simp add: image_image)
  have actions: "snd ` set (for_enum (pl_actions p) (\<lambda>i a. for_enum (ac_prerequisites a) (\<lambda>j q. map (\<lambda>ref. (f i j, ref)) (or_default (pq_evidence_refs q) []))))
      = (\<Union>a \<in> set (pl_actions p). \<Union>q \<in> set (ac_prerequisites a). set (or_default (pq_evidence_refs q) []))" for f
    by (rule image_for_enum) (rule prerequisites)
  show ?thesis
    unfolding plan_evidence_references_def set_append image_Un actions assumptions risks
      plan_references_def by auto
qed

lemma duplicate_evidence_ids_Nil: "duplicate_evidence_ids r = [] \<longleftrightarrow> distinct (map ev_id (aq_evidence r))"
  using count_list_le_1_distinct [of "map ev_id (aq_evidence r)"]
  by (auto simp: duplicate_evidence_ids_def Let_def filter_empty_conv not_less)

definition evidence_sound :: "request \<Rightarrow> bool" where
  "evidence_sound r \<longleftrightarrow>
    distinct (map ev_id (aq_evidence r)) \<and>
    verify_json ''content_hash'' (authority_evidence_json (aq_authority r)) \<and>
    verify_json ''content_hash'' (repository_evidence_json (aq_repository r)) \<and>
    verify_json ''content_hash'' (baseline_json (aq_baseline r)) \<and>
    (\<forall>item \<in> set (aq_evidence r). verify_json ''content_hash'' (evidence_json item)) \<and>
    (\<forall>ref \<in> plan_references (aq_plan r). \<exists>item \<in> set (aq_evidence r). ev_id item = er_id ref \<and> ev_hash item = er_hash ref)"

lemma reference_resolves_iff:
  assumes "distinct (map ev_id (aq_evidence r))"
  shows "reference_resolves r ref \<longleftrightarrow>
    (\<exists>item \<in> set (aq_evidence r). ev_id item = er_id ref \<and> ev_hash item = er_hash ref)"
    (is "?lhs \<longleftrightarrow> ?rhs")
proof
  assume ?lhs
  then show ?rhs
    by (auto simp: reference_resolves_def split: option.splits dest: key_by_Some_D)
next
  assume ?rhs
  then obtain item where "item \<in> set (aq_evidence r)" "ev_id item = er_id ref" "ev_hash item = er_hash ref"
    by blast
  with key_by_lookup [OF assms, of item] show ?lhs by (simp add: reference_resolves_def)
qed

lemma evidence_check_Nil: "evidence_check r = [] \<longleftrightarrow> evidence_sound r"
proof -
  have references: "(\<forall>p \<in> set (plan_evidence_references (aq_plan r)). reference_resolves r (snd p))
      \<longleftrightarrow> (\<forall>ref \<in> plan_references (aq_plan r). reference_resolves r ref)"
    by (simp flip: snd_plan_evidence_references)
  have "evidence_check r = [] \<longleftrightarrow>
    distinct (map ev_id (aq_evidence r)) \<and>
    (\<forall>p \<in> set (hashed_artifacts r). verify_json ''content_hash'' (fst p)) \<and>
    (\<forall>item \<in> set (aq_evidence r). verify_json ''content_hash'' (evidence_json item)) \<and>
    (\<forall>ref \<in> plan_references (aq_plan r). reference_resolves r ref)"
    by (simp add: evidence_check_def case_prod_beta references flip: duplicate_evidence_ids_Nil)
  also have "\<dots> \<longleftrightarrow> evidence_sound r"
    unfolding evidence_sound_def hashed_artifacts_def
    by (cases "distinct (map ev_id (aq_evidence r))") (simp_all add: reference_resolves_iff)
  finally show ?thesis .
qed

end
