(* ===== verification/Coverage.thy ===== *)
theory Coverage
  imports Findings
begin

text \<open>
  The reference checks (\<open>aflow/analysis/reference_checks.py\<close>) and the coverage checks
  (\<open>aflow/analysis/coverage_checks.py\<close>), and what an empty list of their findings establishes.
\<close>

section \<open>Reference checks\<close>

definition success_ref :: "success_definition \<Rightarrow> artifact_reference" where
  "success_ref s = artifact_ref (success_definition_json s) ''success-definition.schema.json'' (sd_id s)"

definition baseline_ref :: "baseline \<Rightarrow> artifact_reference" where
  "baseline_ref b = artifact_ref (baseline_json b) ''baseline.schema.json'' (bl_id b)"

definition authority_ref :: "authority_evidence \<Rightarrow> artifact_reference" where
  "authority_ref a = artifact_ref (authority_evidence_json a) ''authority-evidence.schema.json'' (ae_id a)"

text \<open>The items of a reference, in the order \<open>artifact_ref\<close> builds them.\<close>

definition ref_items :: "artifact_reference \<Rightarrow> (string \<times> string) list" where
  "ref_items r = [(''artifact_id'', ar_id r), (''schema_id'', ar_schema r),
    (''version'', ar_version r), (''content_hash'', ar_hash r)]"

definition success_reference_findings :: "request \<Rightarrow> finding list" where
  "success_reference_findings r =
    for_each (zip (ref_items (pl_success_ref (aq_plan r))) (ref_items (success_ref (aq_success r))))
      (\<lambda>((field, actual), (_, expected)).
        emit (actual \<noteq> expected)
          (make_finding (''reference.success.'' @ field) BrokenReference Deterministic
            [''/plan/success_definition_reference/'' @ field]
            (''Plan success-definition '' @ field @ '' does not match the separately confirmed artifact.'')
            [request_evidence_ref r None] None None
            (Some [''success_definition_reference.'' @ field @ '' equals '' @ expected])))"

definition reference_check :: "request \<Rightarrow> finding list" where
  "reference_check r =
    success_reference_findings r
    @ for_each
        [(''repository_baseline_reference'', pl_baseline_ref (aq_plan r), baseline_ref (aq_baseline r)),
         (''authority_bundle_reference'', pl_authority_ref (aq_plan r), authority_ref (aq_authority r))]
        (\<lambda>(field, ref, expected).
          emit (ref \<noteq> expected)
            (make_finding (''reference.'' @ field) BrokenReference Deterministic [''/plan/'' @ field]
              (''Plan '' @ field @ '' does not exactly bind the supplied artifact ID, schema ID, version, and content hash.'')
              [request_evidence_ref r None] None None None))"

definition references_bound :: "request \<Rightarrow> bool" where
  "references_bound r \<longleftrightarrow>
    pl_success_ref (aq_plan r) = success_ref (aq_success r) \<and>
    pl_baseline_ref (aq_plan r) = baseline_ref (aq_baseline r) \<and>
    pl_authority_ref (aq_plan r) = authority_ref (aq_authority r)"

lemma reference_eq_iff:
  "(a :: artifact_reference) = b \<longleftrightarrow>
    ar_id a = ar_id b \<and> ar_schema a = ar_schema b \<and> ar_version a = ar_version b \<and> ar_hash a = ar_hash b"
  by (cases a; cases b) simp

lemma success_reference_findings_Nil:
  "success_reference_findings r = [] \<longleftrightarrow> pl_success_ref (aq_plan r) = success_ref (aq_success r)"
  by (simp add: success_reference_findings_def ref_items_def reference_eq_iff)

lemma reference_check_Nil: "reference_check r = [] \<longleftrightarrow> references_bound r"
  by (simp add: reference_check_def references_bound_def success_reference_findings_Nil)

section \<open>Coverage checks\<close>

definition coverage_finding ::
  "request \<Rightarrow> string \<Rightarrow> gap_type \<Rightarrow> string \<Rightarrow> string \<Rightarrow> string list option \<Rightarrow> finding" where
  "coverage_finding r fid gap location claim reqs =
    make_finding fid gap Deterministic [location] claim [request_evidence_ref r None] reqs None None"

definition requirement_ids :: "request \<Rightarrow> string list" where
  "requirement_ids r = map rq_id (sd_requirements (aq_success r))"

definition blocking_requirement_ids :: "request \<Rightarrow> string list" where
  "blocking_requirement_ids r =
    map rq_id (filter (\<lambda>q. rq_priority q = Blocking) (sd_requirements (aq_success r)))"

definition all_requirement_refs :: "plan \<Rightarrow> (string \<times> string) list" where
  "all_requirement_refs p =
    for_enum (pl_coverage p) (\<lambda>i row.
      [(cr_requirement_id row, ''/plan/requirements_coverage/'' @ str_of_nat i @ ''/requirement_id'')])
    @ for_enum (pl_actions p) (\<lambda>i a.
        map (\<lambda>req. (req, ''/plan/actions/'' @ str_of_nat i @ ''/requirement_ids'')) (ac_requirement_ids a))
    @ for_enum (pl_validations p) (\<lambda>i v.
        map (\<lambda>req. (req, ''/plan/validations/'' @ str_of_nat i @ ''/requirement_ids'')) (va_requirement_ids v))"

text \<open>The loop that numbers its findings by the length of the list so far.\<close>

definition unknown_requirement_findings :: "request \<Rightarrow> finding list" where
  "unknown_requirement_findings r =
    foldl (\<lambda>findings (req, location).
        if req \<notin> set (requirement_ids r) then
          findings @ [coverage_finding r (''coverage.unknown.'' @ str_of_nat (length findings + 1))
            BrokenReference location (''Unknown requirement reference '' @ req @ ''.'') None]
        else findings)
      [] (all_requirement_refs (aq_plan r))"

definition proof_requirement_findings :: "request \<Rightarrow> finding list" where
  "proof_requirement_findings r =
    for_enum (sd_proofs (aq_success r)) (\<lambda>i prf.
      for_enum (pf_requirement_ids prf) (\<lambda>j req.
        emit (req \<notin> set (requirement_ids r))
          (coverage_finding r (''proof.requirement.'' @ pf_id prf @ ''.'' @ str_of_nat j) BrokenReference
            (''/success_definition/proof_obligations/'' @ str_of_nat i @ ''/requirement_ids/'' @ str_of_nat j)
            (''Proof '' @ pf_id prf @ '' references unknown requirement '' @ req @ ''.'') None)))"

definition blocking_coverage_findings :: "request \<Rightarrow> finding list" where
  "blocking_coverage_findings r =
    (let p = aq_plan r;
         actions = key_by ac_id (pl_actions p);
         validations = key_by va_id (pl_validations p);
         coverage = key_by cr_requirement_id (pl_coverage p);
         location = ''/plan/requirements_coverage''
     in for_each (sorted_set (blocking_requirement_ids r)) (\<lambda>req.
          case map_of coverage req of
            None \<Rightarrow> [coverage_finding r (''coverage.missing.'' @ req) CoverageGap location
                (''Blocking requirement '' @ req @ '' has no coverage row.'') (Some [req])]
          | Some row \<Rightarrow>
              emit (\<exists>a \<in> set (cr_action_ids row). map_of actions a = None)
                (coverage_finding r (''coverage.action.'' @ req) BrokenReference location
                  (''Coverage for '' @ req @ '' references an unknown action.'') (Some [req]))
              @ emit (\<exists>v \<in> set (cr_validation_ids row). map_of validations v = None)
                (coverage_finding r (''coverage.validation.'' @ req) BrokenReference location
                  (''Coverage for '' @ req @ '' references an unknown validation.'') (Some [req]))
              @ emit (filter (\<lambda>a. req \<in> set (ac_requirement_ids a)) (map snd actions) = []
                      \<or> filter (\<lambda>v. req \<in> set (va_requirement_ids v)) (map snd validations) = [])
                (coverage_finding r (''coverage.empty.'' @ req) CoverageGap location
                  (''Blocking requirement '' @ req @ '' needs at least one action and validation.'') (Some [req]))))"

definition validation_coverage_findings :: "request \<Rightarrow> finding list" where
  "validation_coverage_findings r =
    (let p = aq_plan r;
         proofs = key_by pf_id (sd_proofs (aq_success r));
         actions = key_by ac_id (pl_actions p)
     in for_enum (pl_validations p) (\<lambda>i v.
          case map_of proofs (va_proof_id v) of
            None \<Rightarrow> [coverage_finding r (''proof.unknown.'' @ va_id v) BrokenReference
                (''/plan/validations/'' @ str_of_nat i @ ''/proof_id'')
                (''Validation '' @ va_id v @ '' references unknown proof '' @ va_proof_id v @ ''.'') None]
          | Some prf \<Rightarrow>
              emit (\<not> set (va_requirement_ids v) \<subseteq> set (pf_requirement_ids prf))
                (coverage_finding r (''proof.coverage.'' @ va_id v) CoverageGap
                  (''/plan/validations/'' @ str_of_nat i @ ''/requirement_ids'')
                  ''Validation requirements are not covered by its proof obligation.''
                  (Some (va_requirement_ids v)))
              @ for_each (va_action_ids v) (\<lambda>a.
                  emit (map_of actions a = None)
                    (coverage_finding r (''validation.action.'' @ va_id v) BrokenReference
                      (''/plan/validations/'' @ str_of_nat i @ ''/action_ids'')
                      (''Validation references unknown action '' @ a @ ''.'') None))))"

definition coverage_check :: "request \<Rightarrow> finding list" where
  "coverage_check r =
    unknown_requirement_findings r @ proof_requirement_findings r
    @ blocking_coverage_findings r @ validation_coverage_findings r"

subsection \<open>What the coverage checks establish\<close>

definition plan_requirement_ids :: "plan \<Rightarrow> string set" where
  "plan_requirement_ids p =
    cr_requirement_id ` set (pl_coverage p)
    \<union> (\<Union>a \<in> set (pl_actions p). set (ac_requirement_ids a))
    \<union> (\<Union>v \<in> set (pl_validations p). set (va_requirement_ids v))"

definition blocking_covered :: "plan \<Rightarrow> string \<Rightarrow> bool" where
  "blocking_covered p req \<longleftrightarrow>
    (\<exists>row \<in> set (pl_coverage p). cr_requirement_id row = req \<and>
      set (cr_action_ids row) \<subseteq> ac_id ` set (pl_actions p) \<and>
      set (cr_validation_ids row) \<subseteq> va_id ` set (pl_validations p)) \<and>
    (\<exists>a \<in> set (pl_actions p). req \<in> set (ac_requirement_ids a)) \<and>
    (\<exists>v \<in> set (pl_validations p). req \<in> set (va_requirement_ids v))"

definition validation_proved :: "request \<Rightarrow> validation \<Rightarrow> bool" where
  "validation_proved r v \<longleftrightarrow>
    (\<exists>prf \<in> set (sd_proofs (aq_success r)). pf_id prf = va_proof_id v \<and>
      set (va_requirement_ids v) \<subseteq> set (pf_requirement_ids prf)) \<and>
    set (va_action_ids v) \<subseteq> ac_id ` set (pl_actions (aq_plan r))"

definition coverage_sound :: "request \<Rightarrow> bool" where
  "coverage_sound r \<longleftrightarrow>
    plan_requirement_ids (aq_plan r) \<subseteq> set (requirement_ids r) \<and>
    (\<forall>prf \<in> set (sd_proofs (aq_success r)). set (pf_requirement_ids prf) \<subseteq> set (requirement_ids r)) \<and>
    (\<forall>req \<in> set (blocking_requirement_ids r). blocking_covered (aq_plan r) req) \<and>
    (\<forall>v \<in> set (pl_validations (aq_plan r)). validation_proved r v)"

lemma foldl_conditional_append_Nil:
  assumes "\<And>acc x. f acc x = (if P x then acc @ [g acc x] else acc)"
  shows "foldl f acc xs = [] \<longleftrightarrow> acc = [] \<and> (\<forall>x \<in> set xs. \<not> P x)"
  by (induction xs arbitrary: acc) (auto simp: assms)

lemma fst_all_requirement_refs: "fst ` set (all_requirement_refs p) = plan_requirement_ids p"
proof -
  have rows: "fst ` set (for_enum (pl_coverage p) (\<lambda>i row. [(cr_requirement_id row, f i)]))
      = (\<Union>row \<in> set (pl_coverage p). {cr_requirement_id row})" for f :: "nat \<Rightarrow> string"
    by (rule image_for_enum) simp
  have actions: "fst ` set (for_enum (pl_actions p) (\<lambda>i a. map (\<lambda>req. (req, f i)) (ac_requirement_ids a)))
      = (\<Union>a \<in> set (pl_actions p). set (ac_requirement_ids a))" for f :: "nat \<Rightarrow> string"
    by (rule image_for_enum) (simp add: image_image)
  have validations: "fst ` set (for_enum (pl_validations p) (\<lambda>i v. map (\<lambda>req. (req, f i)) (va_requirement_ids v)))
      = (\<Union>v \<in> set (pl_validations p). set (va_requirement_ids v))" for f :: "nat \<Rightarrow> string"
    by (rule image_for_enum) (simp add: image_image)
  show ?thesis
    unfolding all_requirement_refs_def set_append image_Un rows actions validations plan_requirement_ids_def
    by auto
qed

lemma unknown_requirement_findings_Nil:
  "unknown_requirement_findings r = [] \<longleftrightarrow> plan_requirement_ids (aq_plan r) \<subseteq> set (requirement_ids r)"
proof -
  have "unknown_requirement_findings r = [] \<longleftrightarrow>
      [] = ([] :: finding list) \<and> (\<forall>x \<in> set (all_requirement_refs (aq_plan r)). \<not> fst x \<notin> set (requirement_ids r))"
    unfolding unknown_requirement_findings_def
    by (rule foldl_conditional_append_Nil) (simp add: case_prod_beta)
  then show ?thesis by (simp add: image_subset_iff flip: fst_all_requirement_refs)
qed

lemma proof_requirement_findings_Nil:
  "proof_requirement_findings r = [] \<longleftrightarrow>
    (\<forall>prf \<in> set (sd_proofs (aq_success r)). set (pf_requirement_ids prf) \<subseteq> set (requirement_ids r))"
  by (simp add: proof_requirement_findings_def subset_iff Ball_def)

lemma blocking_coverage_findings_Nil:
  assumes "distinct (map ac_id (pl_actions (aq_plan r)))"
    and "distinct (map va_id (pl_validations (aq_plan r)))"
    and "distinct (map cr_requirement_id (pl_coverage (aq_plan r)))"
  shows "blocking_coverage_findings r = [] \<longleftrightarrow>
    (\<forall>req \<in> set (blocking_requirement_ids r). blocking_covered (aq_plan r) req)"
proof -
  let ?p = "aq_plan r"
  have "blocking_coverage_findings r = [] \<longleftrightarrow>
    (\<forall>req \<in> set (blocking_requirement_ids r).
      case map_of (key_by cr_requirement_id (pl_coverage ?p)) req of None \<Rightarrow> False
      | Some row \<Rightarrow> set (cr_action_ids row) \<subseteq> ac_id ` set (pl_actions ?p)
          \<and> set (cr_validation_ids row) \<subseteq> va_id ` set (pl_validations ?p)
          \<and> (\<exists>a \<in> set (pl_actions ?p). req \<in> set (ac_requirement_ids a))
          \<and> (\<exists>v \<in> set (pl_validations ?p). req \<in> set (va_requirement_ids v)))"
    unfolding blocking_coverage_findings_def Let_def for_each_eq_Nil set_sorted_set
    by (intro ball_cong refl)
      (simp add: key_by_present key_by_snd assms filter_empty_conv split: option.split)
  also have "\<dots> \<longleftrightarrow> (\<forall>req \<in> set (blocking_requirement_ids r). blocking_covered ?p req)"
    unfolding key_by_case [OF assms(3)] blocking_covered_def by (intro ball_cong refl) blast
  finally show ?thesis .
qed

lemma validation_coverage_findings_Nil:
  assumes "distinct (map pf_id (sd_proofs (aq_success r)))"
  shows "validation_coverage_findings r = [] \<longleftrightarrow>
    (\<forall>v \<in> set (pl_validations (aq_plan r)). validation_proved r v)"
proof -
  have "validation_coverage_findings r = [] \<longleftrightarrow>
    (\<forall>v \<in> set (pl_validations (aq_plan r)).
      case map_of (key_by pf_id (sd_proofs (aq_success r))) (va_proof_id v) of None \<Rightarrow> False
      | Some prf \<Rightarrow> set (va_requirement_ids v) \<subseteq> set (pf_requirement_ids prf)
          \<and> set (va_action_ids v) \<subseteq> ac_id ` set (pl_actions (aq_plan r)))"
    unfolding validation_coverage_findings_def Let_def
    by (rule for_enum_eq_Nil_iff) (auto simp: key_by_None [of ac_id] split: option.splits)
  also have "\<dots> \<longleftrightarrow> (\<forall>v \<in> set (pl_validations (aq_plan r)). validation_proved r v)"
    unfolding key_by_case [OF assms] validation_proved_def by (intro ball_cong refl) blast
  finally show ?thesis .
qed

lemma coverage_check_Nil:
  assumes "domain_ok (APlan (aq_plan r))" and "domain_ok (ASuccess (aq_success r))"
  shows "coverage_check r = [] \<longleftrightarrow> coverage_sound r"
  using assms unfolding domain_ok_plan domain_ok_success
  by (simp add: coverage_check_def coverage_sound_def unknown_requirement_findings_Nil
      proof_requirement_findings_Nil blocking_coverage_findings_Nil validation_coverage_findings_Nil)

end
