(* ===== verification/Dependencies.thy ===== *)
theory Dependencies
  imports Findings
begin

text \<open>
  The dependency checks (\<open>aflow/analysis/dependency_checks.py\<close>): unknown dependencies, the
  depth-first search for cycles with its visiting and visited sets, and unresolved external
  dependencies.  The search reports a cycle exactly when the dependency graph of the known
  actions has one.
\<close>

section \<open>The depth-first search\<close>

type_synonym actions = "(string, action) dict"

text \<open>The variables that the closure \<open>visit\<close> updates.\<close>

record search =
  visiting :: "string set"
  visited :: "string set"
  found :: "finding list"

definition cycle_finding :: "request \<Rightarrow> nat \<Rightarrow> string list \<Rightarrow> finding" where
  "cycle_finding r n nodes =
    make_finding (''dependency.cycle.'' @ str_of_nat n) DependencyGap Deterministic [''/plan/actions'']
      (''Action dependency cycle detected: '' @ join '' -> '' nodes @ ''.'')
      [request_evidence_ref r None] None None None"

function (domintros) visit :: "request \<Rightarrow> actions \<Rightarrow> string \<Rightarrow> string list \<Rightarrow> search \<Rightarrow> search"
  and visit_each :: "request \<Rightarrow> actions \<Rightarrow> string list \<Rightarrow> string list \<Rightarrow> search \<Rightarrow> search" where
  "visit r A a chain s =
    (if a \<in> visiting s then
       s\<lparr>found := found s @ [cycle_finding r (length (found s) + 1) (dropWhile (\<lambda>x. x \<noteq> a) chain @ [a])]\<rparr>
     else if a \<in> visited s then s
     else (case map_of A a of
         None \<Rightarrow> s
       | Some act \<Rightarrow>
           (let s' = visit_each r A (ac_depends_on act) chain (s\<lparr>visiting := insert a (visiting s)\<rparr>)
            in s'\<lparr>visiting := visiting s' - {a}, visited := insert a (visited s')\<rparr>)))"
| "visit_each r A [] chain s = s"
| "visit_each r A (d # ds) chain s = visit_each r A ds chain (visit r A d (chain @ [d]) s)"
  by pat_completeness auto

lemma visit_visiting_partial:
  "visit_visit_each_dom (Inl (r, A, a, chain, s)) \<Longrightarrow> visiting (visit r A a chain s) = visiting s"
  "visit_visit_each_dom (Inr (r, A, ds, chain, s)) \<Longrightarrow> visiting (visit_each r A ds chain s) = visiting s"
proof (induction rule: visit_visit_each.pinduct)
  case (1 r A a chain s)
  then show ?case by (auto simp: visit.psimps Let_def split: option.split)
next
  case (2 r A chain s)
  then show ?case by (simp add: visit_each.psimps)
next
  case (3 r A d ds chain s)
  then show ?case by (simp add: visit_each.psimps)
qed

definition unvisited :: "actions \<Rightarrow> search \<Rightarrow> string set" where
  "unvisited A s = fst ` set A - visiting s"

lemma unvisited_insert:
  assumes "a \<notin> visiting s" and "map_of A a = Some act"
  shows "card (unvisited A (s\<lparr>visiting := insert a (visiting s)\<rparr>)) < card (unvisited A s)"
proof (rule psubset_card_mono)
  have "a \<in> fst ` set A" using assms(2) by (metis map_of_eq_None_iff option.distinct(1))
  then show "unvisited A (s\<lparr>visiting := insert a (visiting s)\<rparr>) \<subset> unvisited A s"
    using assms(1) by (auto simp: unvisited_def)
qed (simp add: unvisited_def)

termination visit
proof (relation "inv_image (less_than <*lex*> less_than)
    (\<lambda>x. case x of Inl (r, A, a, chain, s) \<Rightarrow> (card (unvisited A s), 0 :: nat)
       | Inr (r, A, ds, chain, s) \<Rightarrow> (card (unvisited A s), Suc (length ds)))")
  fix r :: request and A :: actions and a and chain and s :: search and act
  assume "a \<notin> visiting s" and "map_of A a = Some act"
  then show "(Inr (r, A, ac_depends_on act, chain, s\<lparr>visiting := insert a (visiting s)\<rparr>), Inl (r, A, a, chain, s))
    \<in> inv_image (less_than <*lex*> less_than)
      (\<lambda>x. case x of Inl (r, A, a, chain, s) \<Rightarrow> (card (unvisited A s), 0 :: nat)
         | Inr (r, A, ds, chain, s) \<Rightarrow> (card (unvisited A s), Suc (length ds)))"
    by (simp add: unvisited_insert)
qed (simp_all add: visit_visiting_partial unvisited_def wf_inv_image wf_lex_prod)

declare visit.simps [simp del]

lemma visit_visiting [simp]:
  "visiting (visit r A a chain s) = visiting s"
  "visiting (visit_each r A ds chain s) = visiting s"
proof (induction r A a chain s and r A ds chain s rule: visit_visit_each.induct)
  case (1 r A a chain s)
  then show ?case by (subst visit.simps) (auto simp: Let_def split: option.split)
qed simp_all

definition search_all :: "request \<Rightarrow> actions \<Rightarrow> search \<Rightarrow> search" where
  "search_all r A s = foldl (\<lambda>s a. visit r A a [a] s) s (map fst A)"

section \<open>The check\<close>

definition missing_dependency_findings :: "request \<Rightarrow> finding list" where
  "missing_dependency_findings r =
    (let actions = key_by ac_id (pl_actions (aq_plan r))
     in for_enum (pl_actions (aq_plan r)) (\<lambda>i a. for_each (ac_depends_on a) (\<lambda>d.
          emit (map_of actions d = None)
            (make_finding (''dependency.missing.'' @ ac_id a) DependencyGap Deterministic
              [''/plan/actions/'' @ str_of_nat i @ ''/depends_on'']
              (''Action '' @ ac_id a @ '' depends on unknown action '' @ d @ ''.'')
              [request_evidence_ref r None] (Some (ac_requirement_ids a)) None None))))"

definition unresolved_dependency_findings :: "request \<Rightarrow> finding list" where
  "unresolved_dependency_findings r =
    for_enum (pl_dependencies (aq_plan r)) (\<lambda>i d.
      emit (dp_status d = DepUnresolved)
        (make_finding (''dependency.unresolved.'' @ dp_id d) DependencyGap Deterministic
          [''/plan/dependencies/'' @ str_of_nat i @ ''/status'']
          (''Dependency '' @ dp_id d @ '' is unresolved.'') [request_evidence_ref r None] None None None))"

definition dependency_check :: "request \<Rightarrow> finding list" where
  "dependency_check r =
    (let actions = key_by ac_id (pl_actions (aq_plan r));
         searched = search_all r actions
           \<lparr>visiting = {}, visited = {}, found = missing_dependency_findings r\<rparr>
     in found searched @ unresolved_dependency_findings r)"

section \<open>Correctness of the search\<close>

text \<open>The dependency graph between known actions.\<close>

definition edges :: "actions \<Rightarrow> (string \<times> string) set" where
  "edges A = {(a, d). \<exists>act. map_of A a = Some act \<and> d \<in> set (ac_depends_on act) \<and> map_of A d \<noteq> None}"

lemma edgesI: "map_of A a = Some act \<Longrightarrow> d \<in> set (ac_depends_on act) \<Longrightarrow> map_of A d \<noteq> None \<Longrightarrow> (a, d) \<in> edges A"
  by (auto simp: edges_def)

lemma edges_target: "(a, d) \<in> edges A \<Longrightarrow> map_of A d \<noteq> None"
  by (auto simp: edges_def)

lemma found_extends:
  "prefix (found s) (found (visit r A a chain s))"
  "prefix (found s) (found (visit_each r A ds chain s))"
proof (induction r A a chain s and r A ds chain s rule: visit_visit_each.induct)
  case (1 r A a chain s)
  then show ?case by (subst visit.simps) (auto simp: Let_def split: option.split)
next
  case (3 r A d ds chain s)
  then show ?case by (auto intro: prefix_order.trans)
qed simp

text \<open>Soundness: without a cycle in the graph nothing is reported.\<close>

lemma acyclic_silent:
  "acyclic (edges A) \<Longrightarrow> \<forall>v \<in> visiting s. map_of A a \<noteq> None \<longrightarrow> (v, a) \<in> (edges A)\<^sup>+
    \<Longrightarrow> visiting s \<subseteq> fst ` set A \<Longrightarrow> found (visit r A a chain s) = found s"
  "acyclic (edges A) \<Longrightarrow> (\<forall>d \<in> set ds. \<forall>v \<in> visiting s. map_of A d \<noteq> None \<longrightarrow> (v, d) \<in> (edges A)\<^sup>+)
    \<Longrightarrow> visiting s \<subseteq> fst ` set A \<Longrightarrow> found (visit_each r A ds chain s) = found s"
proof (induction r A a chain s and r A ds chain s rule: visit_visit_each.induct)
  case (1 r A a chain s)
  have fresh: "a \<notin> visiting s"
  proof
    assume "a \<in> visiting s"
    moreover from this 1(4) have "map_of A a \<noteq> None" by (auto simp: map_of_eq_None_iff)
    ultimately have "(a, a) \<in> (edges A)\<^sup>+" using 1(3) by blast
    with 1(2) show False by (simp add: acyclic_def)
  qed
  show ?case
  proof (cases "map_of A a")
    case None
    with fresh show ?thesis by (simp add: visit.simps [of r A a])
  next
    case (Some act)
    show ?thesis
    proof (cases "a \<in> visited s")
      case True
      with fresh show ?thesis by (simp add: visit.simps [of r A a])
    next
      case False
      have "(v, d) \<in> (edges A)\<^sup>+" if "d \<in> set (ac_depends_on act)" "map_of A d \<noteq> None" "v \<in> insert a (visiting s)" for d v
        using that 1(3) Some edgesI [OF Some that(1,2)] by (auto intro: trancl_into_trancl)
      moreover have "a \<in> fst ` set A" using Some by (metis map_of_eq_None_iff option.distinct(1))
      ultimately have "found (visit_each r A (ac_depends_on act) chain (s\<lparr>visiting := insert a (visiting s)\<rparr>)) = found s"
        using 1(1) [OF fresh False Some] 1(2,4) by simp
      with fresh False Some show ?thesis by (simp add: visit.simps [of r A a] Let_def)
    qed
  qed
next
  case (3 r A d ds chain s)
  then show ?case by simp
qed simp

text \<open>Completeness: what has been visited without a report is closed and free of cycles.\<close>

definition settled :: "actions \<Rightarrow> search \<Rightarrow> bool" where
  "settled A s \<longleftrightarrow> visited s \<inter> visiting s = {} \<and> edges A `` visited s \<subseteq> visited s
    \<and> (\<forall>v \<in> visited s. (v, v) \<notin> (edges A)\<^sup>+)"

lemma closed_trancl: "(a, b) \<in> E\<^sup>+ \<Longrightarrow> E `` V \<subseteq> V \<Longrightarrow> a \<in> V \<Longrightarrow> b \<in> V"
  by (induction rule: trancl_induct) auto

lemma settled_finish:
  assumes "settled A s" and "a \<in> visiting s" and "edges A `` {a} \<subseteq> visited s"
  shows "settled A (s\<lparr>visiting := visiting s - {a}, visited := insert a (visited s)\<rparr>)"
proof -
  have closed: "edges A `` visited s \<subseteq> visited s" and "a \<notin> visited s"
    using assms(1,2) by (auto simp: settled_def)
  have "(a, a) \<notin> (edges A)\<^sup>+"
  proof
    assume "(a, a) \<in> (edges A)\<^sup>+"
    then obtain b where b: "(a, b) \<in> edges A" "b = a \<or> (b, a) \<in> (edges A)\<^sup>+"
      by (meson tranclD rtranclD)
    then have "b \<in> visited s" using assms(3) by auto
    with b(2) closed_trancl [OF _ closed] \<open>a \<notin> visited s\<close> show False by blast
  qed
  with assms show ?thesis by (auto simp: settled_def)
qed

lemma settled_visiting:
  "settled A s \<Longrightarrow> a \<notin> visited s \<Longrightarrow> settled A (s\<lparr>visiting := insert a (visiting s)\<rparr>)"
  by (auto simp: settled_def)

lemma silent_settles:
  "settled A s \<Longrightarrow> found (visit r A a chain s) = found s \<Longrightarrow>
    settled A (visit r A a chain s) \<and> visited s \<subseteq> visited (visit r A a chain s)
    \<and> (map_of A a \<noteq> None \<longrightarrow> a \<in> visited (visit r A a chain s))"
  "settled A s \<Longrightarrow> found (visit_each r A ds chain s) = found s \<Longrightarrow>
    settled A (visit_each r A ds chain s) \<and> visited s \<subseteq> visited (visit_each r A ds chain s)
    \<and> (\<forall>d \<in> set ds. map_of A d \<noteq> None \<longrightarrow> d \<in> visited (visit_each r A ds chain s))"
proof (induction r A a chain s and r A ds chain s rule: visit_visit_each.induct)
  case (1 r A a chain s)
  show ?case
  proof (cases "a \<in> visited s \<or> map_of A a = None")
    case True
    with 1(2,3) show ?thesis
      by (auto simp: visit.simps [of r A a] split: if_splits)
  next
    case False
    then obtain act where fresh: "a \<notin> visited s" and act: "map_of A a = Some act" by auto
    have idle: "a \<notin> visiting s" using 1(3) by (auto simp: visit.simps [of r A a])
    let ?s = "visit_each r A (ac_depends_on act) chain (s\<lparr>visiting := insert a (visiting s)\<rparr>)"
    have step: "visit r A a chain s = ?s\<lparr>visiting := visiting ?s - {a}, visited := insert a (visited ?s)\<rparr>"
      using fresh act idle by (simp add: visit.simps [of r A a] Let_def)
    have "found ?s = found s" using 1(3) by (simp add: step)
    then have inner: "settled A ?s" "visited s \<subseteq> visited ?s"
        "\<forall>d \<in> set (ac_depends_on act). map_of A d \<noteq> None \<longrightarrow> d \<in> visited ?s"
      using 1(1) [OF idle fresh act settled_visiting [OF 1(2) fresh]] by simp_all
    have "settled A (visit r A a chain s)"
      unfolding step
    proof (rule settled_finish [OF inner(1)])
      show "edges A `` {a} \<subseteq> visited ?s" using inner(3) act by (auto simp: edges_def)
    qed simp
    with inner(2) show ?thesis by (auto simp: step)
  qed
next
  case (3 r A d ds chain s)
  let ?m = "visit r A d (chain @ [d]) s"
  have "found ?m = found s"
    using 3(4) found_extends(1) [of s r A d "chain @ [d]"] found_extends(2) [of ?m r A ds chain]
    by (metis prefix_order.antisym visit_each.simps(2))
  moreover from this have "found (visit_each r A ds chain ?m) = found ?m" using 3(4) by simp
  ultimately show ?case using 3 by auto
qed simp

lemma search_all_found:
  assumes "visiting s = {}"
  shows "prefix (found s) (found (foldl (\<lambda>s a. visit r A a [a] s) s as))"
proof (induction as arbitrary: s)
  case (Cons a as)
  then show ?case by (auto intro: prefix_order.trans found_extends(1))
qed simp

lemma search_acyclic:
  assumes "acyclic (edges A)" and "visiting s = {}"
  shows "found (foldl (\<lambda>s a. visit r A a [a] s) s as) = found s"
  using assms(2)
proof (induction as arbitrary: s)
  case (Cons a as)
  then show ?case by (simp add: acyclic_silent(1) [OF assms(1)])
qed simp

lemma search_settles:
  assumes "settled A s" and "visiting s = {}"
    and "found (foldl (\<lambda>s a. visit r A a [a] s) s as) = found s"
  shows "settled A (foldl (\<lambda>s a. visit r A a [a] s) s as)
    \<and> visited s \<subseteq> visited (foldl (\<lambda>s a. visit r A a [a] s) s as)
    \<and> (\<forall>a \<in> set as. map_of A a \<noteq> None \<longrightarrow> a \<in> visited (foldl (\<lambda>s a. visit r A a [a] s) s as))"
  using assms
proof (induction as arbitrary: s)
  case (Cons a as)
  let ?m = "visit r A a [a] s"
  have rest: "prefix (found ?m) (found (foldl (\<lambda>s a. visit r A a [a] s) ?m as))"
    by (rule search_all_found) (simp add: Cons.prems)
  then have "found ?m = found s"
    using Cons.prems(3) found_extends(1) [of s r A a "[a]"] by (simp add: prefix_order.antisym)
  moreover have "settled A ?m" "visited s \<subseteq> visited ?m" "map_of A a \<noteq> None \<longrightarrow> a \<in> visited ?m"
    using silent_settles(1) [OF Cons.prems(1)] \<open>found ?m = found s\<close> by blast+
  ultimately show ?case using Cons.IH [of ?m] Cons.prems by auto
qed simp

lemma search_all_iff:
  "found (search_all r A \<lparr>visiting = {}, visited = {}, found = fs\<rparr>) = fs \<longleftrightarrow> acyclic (edges A)"
proof
  assume "acyclic (edges A)"
  then show "found (search_all r A \<lparr>visiting = {}, visited = {}, found = fs\<rparr>) = fs"
    by (simp add: search_all_def search_acyclic)
next
  let ?s = "\<lparr>visiting = {}, visited = {}, found = fs\<rparr>"
  assume "found (search_all r A ?s) = fs"
  moreover have "settled A ?s" by (simp add: settled_def)
  ultimately have end_state: "settled A (search_all r A ?s)"
      "\<forall>a \<in> fst ` set A. map_of A a \<noteq> None \<longrightarrow> a \<in> visited (search_all r A ?s)"
    using search_settles [of A ?s r "map fst A"] by (simp_all add: search_all_def)
  show "acyclic (edges A)"
    unfolding acyclic_def
  proof (intro allI notI)
    fix v assume cyc: "(v, v) \<in> (edges A)\<^sup>+"
    then have "map_of A v \<noteq> None" by (meson tranclD2 edges_target)
    then have "v \<in> visited (search_all r A ?s)"
      using end_state(2) by (metis map_of_eq_None_iff)
    with end_state(1) cyc show False by (simp add: settled_def)
  qed
qed

definition dependencies_sound :: "plan \<Rightarrow> bool" where
  "dependencies_sound p \<longleftrightarrow>
    (\<forall>a \<in> set (pl_actions p). set (ac_depends_on a) \<subseteq> ac_id ` set (pl_actions p)) \<and>
    acyclic (edges (key_by ac_id (pl_actions p))) \<and>
    (\<forall>d \<in> set (pl_dependencies p). dp_status d \<noteq> DepUnresolved)"

lemma missing_dependency_findings_Nil:
  "missing_dependency_findings r = [] \<longleftrightarrow>
    (\<forall>a \<in> set (pl_actions (aq_plan r)). set (ac_depends_on a) \<subseteq> ac_id ` set (pl_actions (aq_plan r)))"
  by (simp add: missing_dependency_findings_def key_by_None subset_iff Ball_def)

lemma found_Nil_start: "found (search_all r A s) = [] \<Longrightarrow> visiting s = {} \<Longrightarrow> found s = []"
  using search_all_found [of s r A "map fst A"] by (simp add: search_all_def)

lemma dependency_check_Nil: "dependency_check r = [] \<longleftrightarrow> dependencies_sound (aq_plan r)"
proof -
  let ?A = "key_by ac_id (pl_actions (aq_plan r))"
  have unresolved: "unresolved_dependency_findings r = [] \<longleftrightarrow>
      (\<forall>d \<in> set (pl_dependencies (aq_plan r)). dp_status d \<noteq> DepUnresolved)"
    by (simp add: unresolved_dependency_findings_def)
  have searched: "found (search_all r ?A \<lparr>visiting = {}, visited = {}, found = missing_dependency_findings r\<rparr>) = []
      \<longleftrightarrow> missing_dependency_findings r = [] \<and> acyclic (edges ?A)"
  proof (cases "missing_dependency_findings r = []")
    case True
    then show ?thesis using search_all_iff [of r ?A "[]"] by (simp only: True refl simp_thms)
  next
    case False
    have "found (search_all r ?A \<lparr>visiting = {}, visited = {}, found = missing_dependency_findings r\<rparr>) \<noteq> []"
    proof
      assume "found (search_all r ?A \<lparr>visiting = {}, visited = {}, found = missing_dependency_findings r\<rparr>) = []"
      from found_Nil_start [OF this] False show False by (simp only: search.select_convs refl simp_thms True_implies_equals)
    qed
    with False show ?thesis by (simp only: simp_thms)
  qed
  show ?thesis
    unfolding dependency_check_def Let_def append_is_Nil_conv searched unresolved
      missing_dependency_findings_Nil dependencies_sound_def by blast
qed

end
