(* ===== verification/Authority.thy ===== *)
theory Authority
  imports Findings
begin

text \<open>
  The authority checks (\<open>aflow/analysis/authority_checks.py\<close>) with the part of
  \<open>pathlib.PurePosixPath\<close> they rest on, and the activation checks
  (\<open>aflow/analysis/activation_checks.py\<close>).
\<close>

section \<open>Pure paths\<close>

text \<open>
  A pure POSIX path is its root (none, one slash, or exactly two) and its parts.  Empty parts and
  single dots are dropped; double dots are kept as ordinary parts.
\<close>

record posix_path =
  path_root :: string
  path_parts :: "string list"

definition leading_slashes :: "string \<Rightarrow> nat" where
  "leading_slashes s = length (takeWhile (\<lambda>c. c = CHR ''/'') s)"

definition pure_path :: "string \<Rightarrow> posix_path" where
  "pure_path s =
    \<lparr>path_root = (if leading_slashes s = 0 then [] else if leading_slashes s = 2 then ''//'' else ''/''),
     path_parts = filter (\<lambda>p. p \<noteq> [] \<and> p \<noteq> ''.'') (split_on (CHR ''/'') s)\<rparr>"

definition path_parents :: "posix_path \<Rightarrow> posix_path list" where
  "path_parents p =
    map (\<lambda>k. \<lparr>path_root = path_root p, path_parts = take k (path_parts p)\<rparr>) (rev [0..<length (path_parts p)])"

definition overlaps :: "string \<Rightarrow> string \<Rightarrow> bool" where
  "overlaps left right =
    (let a = pure_path left; b = pure_path right
     in a = b \<or> a \<in> set (path_parents b) \<or> b \<in> set (path_parents a))"

definition within :: "string \<Rightarrow> string \<Rightarrow> bool" where
  "within path allowed_root =
    (let child = pure_path path; parent = pure_path allowed_root
     in child = parent \<or> parent \<in> set (path_parents child))"

definition path_prefix :: "posix_path \<Rightarrow> posix_path \<Rightarrow> bool" where
  "path_prefix a b \<longleftrightarrow> path_root a = path_root b \<and> prefix (path_parts a) (path_parts b)"

lemma in_path_parents:
  "a \<in> set (path_parents b) \<longleftrightarrow> path_root a = path_root b \<and> strict_prefix (path_parts a) (path_parts b)"
proof
  assume "a \<in> set (path_parents b)"
  then obtain k where "k < length (path_parts b)" "a = \<lparr>path_root = path_root b, path_parts = take k (path_parts b)\<rparr>"
    by (auto simp: path_parents_def)
  then show "path_root a = path_root b \<and> strict_prefix (path_parts a) (path_parts b)"
    by (auto simp: strict_prefix_def take_is_prefix)
next
  assume *: "path_root a = path_root b \<and> strict_prefix (path_parts a) (path_parts b)"
  then have "length (path_parts a) < length (path_parts b)"
    by (auto intro: prefix_length_less)
  moreover have "take (length (path_parts a)) (path_parts b) = path_parts a"
    using * by (auto simp: strict_prefix_def prefix_def)
  ultimately show "a \<in> set (path_parents b)"
    using * by (cases a) (auto simp: path_parents_def intro!: image_eqI [of _ _ "length (path_parts a)"])
qed

lemma path_prefix_cases: "path_prefix a b \<longleftrightarrow> b = a \<or> a \<in> set (path_parents b)"
  by (cases a; cases b) (auto simp: path_prefix_def in_path_parents strict_prefix_def)

lemma within_iff: "within p r \<longleftrightarrow> path_prefix (pure_path r) (pure_path p)"
  by (auto simp: within_def Let_def path_prefix_cases)

lemma overlaps_iff:
  "overlaps p r \<longleftrightarrow> path_prefix (pure_path r) (pure_path p) \<or> path_prefix (pure_path p) (pure_path r)"
  by (auto simp: overlaps_def Let_def path_prefix_cases)

lemma path_prefix_trans: "path_prefix a b \<Longrightarrow> path_prefix b c \<Longrightarrow> path_prefix a c"
  by (auto simp: path_prefix_def intro: prefix_order.trans)

lemma path_prefix_comparable: "path_prefix a c \<Longrightarrow> path_prefix b c \<Longrightarrow> path_prefix a b \<or> path_prefix b a"
  by (auto simp: path_prefix_def dest: prefix_same_cases)

lemma within_refl [simp]: "within p p"
  by (simp add: within_def)

lemma within_trans: "within p q \<Longrightarrow> within q r \<Longrightarrow> within p r"
  by (auto simp: within_iff intro: path_prefix_trans)

lemma overlaps_sym: "overlaps p q \<longleftrightarrow> overlaps q p"
  by (auto simp: overlaps_iff)

text \<open>A path below a root that avoids an excluded path avoids it as well.\<close>

lemma within_overlaps: "within p r \<Longrightarrow> overlaps p e \<Longrightarrow> overlaps r e"
  unfolding within_iff overlaps_iff using path_prefix_trans path_prefix_comparable by blast

section \<open>Authority checks\<close>

definition authority_finding ::
  "request \<Rightarrow> string \<Rightarrow> string list \<Rightarrow> string \<Rightarrow> string list option \<Rightarrow> finding" where
  "authority_finding r fid locations claim reqs =
    make_finding fid AuthorityAmbiguity Deterministic locations claim [request_evidence_ref r None] reqs None None"

definition target_allows :: "plan \<Rightarrow> string \<Rightarrow> bool" where
  "target_allows p path \<longleftrightarrow> (\<exists>t \<in> set (pl_target_paths p). ps_status t = Allowed \<and> within path (ps_path t))"

definition path_excluded :: "plan \<Rightarrow> string \<Rightarrow> bool" where
  "path_excluded p path \<longleftrightarrow> (\<exists>e \<in> set (pl_excluded_paths p). overlaps path (ps_path e))"

definition target_findings :: "request \<Rightarrow> finding list" where
  "target_findings r =
    for_enum (pl_target_paths (aq_plan r)) (\<lambda>i t.
      emit (ps_status t \<noteq> Allowed)
        (authority_finding r (''authority.target.'' @ str_of_nat i)
          [''/plan/target_paths/'' @ str_of_nat i @ ''/authority_status'']
          (''Target '' @ ps_path t @ '' is not explicitly allowed.'') None)
      @ for_enum (pl_excluded_paths (aq_plan r)) (\<lambda>j e.
          emit (overlaps (ps_path t) (ps_path e))
            (authority_finding r (''authority.conflict.'' @ str_of_nat i @ ''.'' @ str_of_nat j)
              [''/plan/target_paths/'' @ str_of_nat i @ ''/path'',
               ''/plan/excluded_paths/'' @ str_of_nat j @ ''/path'']
              (''Target '' @ ps_path t @ '' overlaps excluded path '' @ ps_path e @ ''.'') None)))"

definition action_path_findings :: "request \<Rightarrow> nat \<Rightarrow> action \<Rightarrow> finding list" where
  "action_path_findings r i a =
    for_enum (ac_target_paths a) (\<lambda>j path.
      emit (\<not> target_allows (aq_plan r) path \<or> path_excluded (aq_plan r) path)
        (authority_finding r (''authority.action-target.'' @ str_of_nat i @ ''.'' @ str_of_nat j)
          [''/plan/actions/'' @ str_of_nat i @ ''/target_paths/'' @ str_of_nat j]
          (''Action target '' @ path @ '' is outside allowed plan targets or overlaps an excluded path.'')
          (Some (ac_requirement_ids a))))"

definition action_output_findings :: "request \<Rightarrow> nat \<Rightarrow> action \<Rightarrow> finding list" where
  "action_output_findings r i a =
    for_enum (ac_outputs a) (\<lambda>j out.
      case eo_path out of
        None \<Rightarrow> []
      | Some path \<Rightarrow>
          emit (\<not> target_allows (aq_plan r) path
              \<or> \<not> (\<exists>action_path \<in> set (ac_target_paths a). within path action_path)
              \<or> path_excluded (aq_plan r) path)
            (authority_finding r (''authority.output-target.'' @ str_of_nat i @ ''.'' @ str_of_nat j)
              [''/plan/actions/'' @ str_of_nat i @ ''/expected_outputs/'' @ str_of_nat j @ ''/artifact_path'']
              (''Expected output path '' @ path @ '' is outside its action and approved target containment boundaries.'')
              (Some (ac_requirement_ids a))))"

definition risk_findings :: "request \<Rightarrow> finding list" where
  "risk_findings r =
    for_enum (pl_risks (aq_plan r)) (\<lambda>i k.
      emit (rk_status k = RiskUnresolved)
        (authority_finding r (''authority.risk.'' @ rk_id k)
          [''/plan/authority_risks/'' @ str_of_nat i @ ''/status'']
          (''Authority risk '' @ rk_id k @ '' remains unresolved.'') None))"

definition authority_check :: "request \<Rightarrow> finding list" where
  "authority_check r =
    target_findings r
    @ for_enum (pl_actions (aq_plan r)) (\<lambda>i a. action_path_findings r i a @ action_output_findings r i a)
    @ risk_findings r"

definition contained :: "plan \<Rightarrow> string \<Rightarrow> bool" where
  "contained p path \<longleftrightarrow> target_allows p path \<and> \<not> path_excluded p path"

definition authority_sound :: "plan \<Rightarrow> bool" where
  "authority_sound p \<longleftrightarrow>
    (\<forall>t \<in> set (pl_target_paths p). ps_status t = Allowed \<and> \<not> path_excluded p (ps_path t)) \<and>
    (\<forall>a \<in> set (pl_actions p). (\<forall>path \<in> set (ac_target_paths a). contained p path) \<and>
      (\<forall>out \<in> set (ac_outputs a). \<forall>path. eo_path out = Some path \<longrightarrow>
        contained p path \<and> (\<exists>action_path \<in> set (ac_target_paths a). within path action_path))) \<and>
    (\<forall>k \<in> set (pl_risks p). rk_status k \<noteq> RiskUnresolved)"

lemma target_findings_Nil:
  "target_findings r = [] \<longleftrightarrow>
    (\<forall>t \<in> set (pl_target_paths (aq_plan r)). ps_status t = Allowed \<and> \<not> path_excluded (aq_plan r) (ps_path t))"
  by (simp add: target_findings_def path_excluded_def)

lemma action_path_findings_Nil:
  "action_path_findings r i a = [] \<longleftrightarrow> (\<forall>path \<in> set (ac_target_paths a). contained (aq_plan r) path)"
  by (simp add: action_path_findings_def contained_def)

lemma action_output_findings_Nil:
  "action_output_findings r i a = [] \<longleftrightarrow> (\<forall>out \<in> set (ac_outputs a). \<forall>path. eo_path out = Some path \<longrightarrow>
    contained (aq_plan r) path \<and> (\<exists>action_path \<in> set (ac_target_paths a). within path action_path))"
  unfolding action_output_findings_def
  by (rule for_enum_eq_Nil_iff) (auto simp: contained_def split: option.split)

lemma authority_check_Nil: "authority_check r = [] \<longleftrightarrow> authority_sound (aq_plan r)"
  by (simp add: authority_check_def authority_sound_def target_findings_Nil action_path_findings_Nil
      action_output_findings_Nil risk_findings_def)

section \<open>Activation checks\<close>

text \<open>An optional string that \<open>get\<close> finds and that is not empty.\<close>

definition truthy :: "string option \<Rightarrow> bool" where
  "truthy v \<longleftrightarrow> v \<noteq> None \<and> v \<noteq> Some []"

definition shown :: "string option \<Rightarrow> string" where
  "shown v = (case v of Some s \<Rightarrow> s | None \<Rightarrow> ''None'')"

definition authority_ids :: "request \<Rightarrow> string list" where
  "authority_ids r = map au_id (ae_sources (aq_authority r))"

definition self_activating :: "activation_type \<Rightarrow> bool" where
  "self_activating t \<longleftrightarrow> t = Automatic \<or> t = NotRequired"

definition capability_owner :: "capability \<Rightarrow> string" where
  "capability_owner c = (if cp_owner c = ''aflow'' then ''deterministic_local'' else cp_owner c)"

definition phase_entry_action :: "action \<Rightarrow> bool" where
  "phase_entry_action a \<longleftrightarrow> aa_type (ac_activation a) = PhaseEntry \<and> truthy (aa_source (ac_activation a))"

definition capability_problems :: "request \<Rightarrow> action \<Rightarrow> capability \<Rightarrow> string list" where
  "capability_problems r a c =
    (let act = cp_activation c;
         deferred = ca_type act = PhaseEntry \<and> ca_phase act = Some (ac_phase a) \<and> phase_entry_action a
     in emit (\<not> cp_available c) ''capability is unavailable''
        @ emit (capability_owner c \<noteq> ac_owner a)
            (''capability owner is '' @ cp_owner c @ '', not '' @ ac_owner a)
        @ emit (\<not> self_activating (ca_type act) \<and> \<not> truthy (ca_source act))
            ''capability activation has no source authority''
        @ emit (truthy (ca_source act) \<and> (\<forall>i \<in> set (authority_ids r). ca_source act \<noteq> Some i))
            (''activation source authority '' @ shown (ca_source act) @ '' does not resolve'')
        @ emit (truthy (ca_phase act) \<and> ca_phase act \<noteq> Some (ac_phase a))
            (''required phase is '' @ shown (ca_phase act) @ '', not '' @ ac_phase a)
        @ emit (\<not> ca_authorized act \<and> \<not> self_activating (ca_type act) \<and> \<not> deferred)
            ''capability is not currently authorized and has no compatible phase-entry activation'')"

definition prerequisite_ids :: "prerequisite_status list \<Rightarrow> action \<Rightarrow> string list" where
  "prerequisite_ids wanted a = map pq_id (filter (\<lambda>q. pq_status q \<in> set wanted) (ac_prerequisites a))"

definition deferred_action :: "action \<Rightarrow> capability option \<Rightarrow> bool" where
  "deferred_action a c \<longleftrightarrow> phase_entry_action a \<and>
    (case c of None \<Rightarrow> False | Some cap \<Rightarrow> ca_phase (cp_activation cap) = Some (ac_phase a))"

definition activation_problems :: "request \<Rightarrow> action \<Rightarrow> string list" where
  "activation_problems r a =
    (let capability = map_of (key_by cp_id (ae_capabilities (aq_authority r))) (ac_capability_id a);
         act = ac_activation a;
         deferred = deferred_action a capability;
         unsatisfied = prerequisite_ids [Unsatisfied, UnknownPrerequisite] a;
         deferred_prerequisites = prerequisite_ids [Deferred] a
     in (case capability of
           None \<Rightarrow> [''capability is absent from the authority bundle'']
         | Some c \<Rightarrow> capability_problems r a c)
        @ emit (truthy (aa_source act) \<and> (\<forall>i \<in> set (authority_ids r). aa_source act \<noteq> Some i))
            (''action activation source '' @ shown (aa_source act) @ '' does not resolve'')
        @ emit (aa_type act \<noteq> NotRequired \<and> \<not> truthy (aa_source act))
            ''action activation has no explicit source''
        @ emit (\<not> aa_authorized act \<and> \<not> deferred)
            ''action activation is neither authorized nor an explicit compatible phase-entry deferral''
        @ emit (unsatisfied \<noteq> []) (''unsatisfied prerequisites: '' @ join '', '' unsatisfied)
        @ emit (deferred_prerequisites \<noteq> [] \<and> \<not> deferred)
            (''deferred prerequisites lack compatible phase-entry activation: '' @ join '', '' deferred_prerequisites))"

definition activation_check :: "request \<Rightarrow> finding list" where
  "activation_check r =
    for_enum (pl_actions (aq_plan r)) (\<lambda>i a.
      emit (activation_problems r a \<noteq> [])
        (make_finding (''activation.'' @ ac_id a) SequenceActivationGap Deterministic
          [''/plan/actions/'' @ str_of_nat i]
          (''Action '' @ ac_id a @ '' cannot run in its declared phase: '' @ join ''; '' (activation_problems r a) @ ''.'')
          [request_evidence_ref r None] (Some (ac_requirement_ids a)) None
          (Some [''The action capability, owner, phase, prerequisites, and activation all agree with authority evidence.''])))"

definition source_resolves :: "request \<Rightarrow> string option \<Rightarrow> bool" where
  "source_resolves r s \<longleftrightarrow> (truthy s \<longrightarrow> (\<exists>src \<in> set (ae_sources (aq_authority r)). s = Some (au_id src)))"

definition capability_fits :: "request \<Rightarrow> action \<Rightarrow> capability \<Rightarrow> bool" where
  "capability_fits r a c \<longleftrightarrow>
    cp_available c \<and> capability_owner c = ac_owner a \<and>
    source_resolves r (ca_source (cp_activation c)) \<and>
    (truthy (ca_phase (cp_activation c)) \<longrightarrow> ca_phase (cp_activation c) = Some (ac_phase a)) \<and>
    (self_activating (ca_type (cp_activation c)) \<or>
      truthy (ca_source (cp_activation c)) \<and>
      (ca_authorized (cp_activation c) \<or>
        ca_type (cp_activation c) = PhaseEntry \<and> ca_phase (cp_activation c) = Some (ac_phase a)
        \<and> phase_entry_action a))"

definition action_ready :: "request \<Rightarrow> action \<Rightarrow> bool" where
  "action_ready r a \<longleftrightarrow>
    (\<exists>c \<in> set (ae_capabilities (aq_authority r)). cp_id c = ac_capability_id a \<and> capability_fits r a c \<and>
      (aa_authorized (ac_activation a) \<or> deferred_action a (Some c)) \<and>
      (\<forall>q \<in> set (ac_prerequisites a).
        pq_status q = Satisfied \<or> pq_status q = Deferred \<and> deferred_action a (Some c))) \<and>
    source_resolves r (aa_source (ac_activation a)) \<and>
    (aa_type (ac_activation a) = NotRequired \<or> truthy (aa_source (ac_activation a)))"

lemma source_resolves_iff:
  "source_resolves r s \<longleftrightarrow> \<not> (truthy s \<and> (\<forall>i \<in> set (authority_ids r). s \<noteq> Some i))"
  by (auto simp: source_resolves_def authority_ids_def)

lemma capability_problems_Nil: "capability_problems r a c = [] \<longleftrightarrow> capability_fits r a c"
  by (simp only: capability_problems_def Let_def append_is_Nil_conv emit_eq_Nil capability_fits_def source_resolves_iff)
     blast

lemma prerequisite_ids_Nil:
  "prerequisite_ids wanted a = [] \<longleftrightarrow> (\<forall>q \<in> set (ac_prerequisites a). pq_status q \<notin> set wanted)"
  by (auto simp: prerequisite_ids_def filter_empty_conv)

lemma prerequisite_status_cases:
  "s \<notin> set [Unsatisfied, UnknownPrerequisite] \<and> (s \<notin> set [Deferred] \<or> P) \<longleftrightarrow> s = Satisfied \<or> s = Deferred \<and> P"
  by (cases s) auto

lemma action_prerequisites_met:
  "prerequisite_ids [Unsatisfied, UnknownPrerequisite] a = [] \<and> (prerequisite_ids [Deferred] a = [] \<or> P) \<longleftrightarrow>
    (\<forall>q \<in> set (ac_prerequisites a). pq_status q = Satisfied \<or> pq_status q = Deferred \<and> P)"
  unfolding prerequisite_ids_Nil prerequisite_status_cases [symmetric] by blast

lemma activation_problems_Nil:
  assumes "distinct (map cp_id (ae_capabilities (aq_authority r)))"
  shows "activation_problems r a = [] \<longleftrightarrow> action_ready r a"
proof -
  let ?caps = "ae_capabilities (aq_authority r)"
  let ?found = "map_of (key_by cp_id ?caps) (ac_capability_id a)"
  show ?thesis
    unfolding action_ready_def key_by_case [OF assms, symmetric] activation_problems_def Let_def append_is_Nil_conv emit_eq_Nil
      source_resolves_iff action_prerequisites_met [symmetric]
    by (cases ?found) (auto simp: capability_problems_Nil)
qed

lemma activation_check_Nil:
  assumes "distinct (map cp_id (ae_capabilities (aq_authority r)))"
  shows "activation_check r = [] \<longleftrightarrow> (\<forall>a \<in> set (pl_actions (aq_plan r)). action_ready r a)"
  by (simp add: activation_check_def activation_problems_Nil assms)

end
