(* ===== verification/Substantiation.thy ===== *)
theory Substantiation
  imports Authority
begin

text \<open>
  The structured semantic rules (\<open>aflow/analysis/semantic_checks.py\<close>) and the substantiation of
  candidate findings (\<open>aflow/analysis/substantiation.py\<close>).
\<close>

section \<open>Structured semantic candidates\<close>

definition environment_words :: "string list" where
  "environment_words = [''mock'', ''substitute'', ''same process'', ''environment'']"

definition assumption_candidates :: "request \<Rightarrow> finding list" where
  "assumption_candidates r =
    for_enum (pl_assumptions (aq_plan r)) (\<lambda>i a.
      emit (as_status a = Unsubstantiated)
        (make_finding (''semantic.assumption.'' @ as_id a) UnsupportedAssumption Semantic
          [''/plan/assumptions/'' @ str_of_nat i]
          (''Assumption '' @ as_id a @ '' is explicitly unsubstantiated: '' @ as_statement a)
          (or_default (as_evidence_refs a) [request_evidence_ref r None]) None
          (Some ''The plan labels this premise unsubstantiated and provides no verified basis for depending on it.'')
          (Some [''The assumption is either removed or supported by bounded matching evidence.''])))"

definition environment_evidence :: "request \<Rightarrow> evidence_item option" where
  "environment_evidence r =
    find (\<lambda>item. list_ex (\<lambda>w. is_substring w (lower (ev_claim item))) environment_words) (aq_evidence r)"

definition environment_candidates :: "request \<Rightarrow> nat \<Rightarrow> validation \<Rightarrow> proof_obligation \<Rightarrow> finding list" where
  "environment_candidates r i v prf =
    emit (truthy (pf_environment prf) \<and> va_environment v \<noteq> pf_environment prf)
      (make_finding (''semantic.environment.'' @ va_id v) OutputEnvironmentGap Semantic
        [''/plan/validations/'' @ str_of_nat i @ ''/required_environment'']
        (''Validation '' @ va_id v @ '' uses ''
          @ (if truthy (va_environment v) then shown (va_environment v) else ''an unspecified environment'')
          @ '' while proof '' @ va_proof_id v @ '' requires '' @ shown (pf_environment prf) @ ''.'')
        [request_evidence_ref r (map_option ev_id (environment_evidence r))]
        (Some (va_requirement_ids v))
        (Some (''The visible validation boundary differs materially from the proof obligation'' @ [CHR 0x27]
          @ ''s required environment.''))
        (Some [''Validation evidence is collected in the required environment: '' @ shown (pf_environment prf) @ ''.'']))"

definition evidence_candidates :: "request \<Rightarrow> nat \<Rightarrow> validation \<Rightarrow> proof_obligation \<Rightarrow> finding list" where
  "evidence_candidates r i v prf =
    (let required_types = or_default (pf_evidence_types prf) [];
         actual_types = va_evidence_expected v;
         proof_mismatch = (va_proof_type v \<noteq> pf_type prf \<or> va_executor v \<noteq> pf_executor prf);
         differences = sorted_set (filter (\<lambda>t. t \<notin> set actual_types) required_types);
         detail = (if differences \<noteq> [] then ''omits required evidence types '' @ repr_str_list differences
                   else ''changes the proof type or executor boundary'')
     in emit (required_types \<noteq> [] \<and> \<not> set required_types \<subseteq> set actual_types \<or> proof_mismatch)
          (make_finding (''semantic.evidence.'' @ va_id v) ValidationEvidenceGap Semantic
            [''/plan/validations/'' @ str_of_nat i @ ''/evidence_expected'']
            (''Validation '' @ va_id v @ '' '' @ detail @ '' relative to proof '' @ va_proof_id v @ ''.'')
            [request_evidence_ref r None] (Some (va_requirement_ids v))
            (Some ''Its planned evidence cannot satisfy the independently defined proof obligation.'') None))"

definition candidates :: "request \<Rightarrow> finding list" where
  "candidates r =
    assumption_candidates r
    @ for_enum (pl_validations (aq_plan r)) (\<lambda>i v.
        case map_of (key_by pf_id (sd_proofs (aq_success r))) (va_proof_id v) of
          None \<Rightarrow> []
        | Some prf \<Rightarrow> environment_candidates r i v prf @ evidence_candidates r i v prf)"

text \<open>Every built-in candidate has the reserved prefix and cites evidence.\<close>

definition built_in_shape :: "finding \<Rightarrow> bool" where
  "built_in_shape f \<longleftrightarrow> fd_origin f = Semantic \<and> startswith (fd_id f) ''semantic.''
    \<and> fd_locations f \<noteq> [] \<and> fd_blocking f"

lemma startswith_append [simp]: "startswith (p @ s) p"
  by (simp add: startswith_def)

lemma make_finding_shape:
  "startswith fid ''semantic.'' \<Longrightarrow> locs \<noteq> [] \<Longrightarrow>
    built_in_shape (make_finding fid gap Semantic locs claim refs reqs reas preds)"
  by (simp add: built_in_shape_def make_finding_def Let_def)

lemma semantic_prefix:
  "startswith (''semantic.assumption.'' @ s) ''semantic.''"
  "startswith (''semantic.environment.'' @ s) ''semantic.''"
  "startswith (''semantic.evidence.'' @ s) ''semantic.''"
  by (simp_all add: startswith_def)

lemma assumption_candidates_shape: "f \<in> set (assumption_candidates r) \<Longrightarrow> built_in_shape f"
  unfolding assumption_candidates_def
  by (erule in_for_enumE) (unfold in_emit, elim conjE, hypsubst,
      rule make_finding_shape [OF semantic_prefix(1) list.distinct(2)])

lemma validation_candidates_shape:
  "f \<in> set (environment_candidates r i v prf) \<Longrightarrow> built_in_shape f"
  "f \<in> set (evidence_candidates r i v prf) \<Longrightarrow> built_in_shape f"
  unfolding environment_candidates_def evidence_candidates_def Let_def in_emit
  by (elim conjE, hypsubst, rule make_finding_shape [OF semantic_prefix(2) list.distinct(2)])
    (elim conjE, hypsubst, rule make_finding_shape [OF semantic_prefix(3) list.distinct(2)])

lemma candidates_shape:
  assumes "f \<in> set (candidates r)"
  shows "built_in_shape f"
proof (cases "f \<in> set (assumption_candidates r)")
  case False
  with assms obtain i v where "f \<in> set (case map_of (key_by pf_id (sd_proofs (aq_success r))) (va_proof_id v) of
      None \<Rightarrow> [] | Some prf \<Rightarrow> environment_candidates r i v prf @ evidence_candidates r i v prf)"
    unfolding candidates_def set_append by (blast elim: in_for_enumE)
  then show ?thesis by (auto split: option.splits dest: validation_candidates_shape)
qed (rule assumption_candidates_shape)

section \<open>Tokens of a text\<close>

definition is_word :: "char \<Rightarrow> bool" where
  "is_word c \<longleftrightarrow> is_digit c \<or> (97 \<le> (of_char c :: nat) \<and> (of_char c :: nat) \<le> 122)"

text \<open>\<open>re.findall(r"[a-z0-9]+", s)\<close>: the maximal runs, left to right.\<close>

function word_runs :: "string \<Rightarrow> string list" where
  "word_runs [] = []"
| "word_runs (c # s) =
    (if is_word c then (c # takeWhile is_word s) # word_runs (dropWhile is_word s) else word_runs s)"
  by pat_completeness auto
termination
  by (relation "measure length") (auto simp: le_imp_less_Suc length_dropWhile_le)

definition stopwords :: "string list" where
  "stopwords = [''this'', ''that'', ''with'', ''from'', ''into'', ''only'', ''plan'', ''validation'', ''finding'',
    ''might'', ''could'', ''would'', ''required'', ''evidence'']"

definition vague :: "string list" where
  "vague = [''validation might be incomplete'', ''there may be a problem'', ''consider adding more tests'',
    ''this could fail'']"

definition tokens :: "string \<Rightarrow> string list" where
  "tokens text = filter (\<lambda>t. length t \<ge> 4 \<and> t \<notin> set stopwords) (word_runs (lower text))"

definition common_tokens :: "string \<Rightarrow> string \<Rightarrow> nat" where
  "common_tokens a b = card (set (tokens a) \<inter> set (tokens b))"

section \<open>Substantiation\<close>

definition evidence_hashes :: "request \<Rightarrow> (string, string) dict" where
  "evidence_hashes r = dict_of (map (\<lambda>e. (ev_id e, ev_hash e)) (aq_evidence r))"

definition ref_holds :: "request \<Rightarrow> evidence_reference \<Rightarrow> bool" where
  "ref_holds r ref \<longleftrightarrow> map_of (evidence_hashes r) (er_id ref) = Some (er_hash ref)"

definition is_vague :: "string \<Rightarrow> bool" where
  "is_vague claim \<longleftrightarrow> lower (strip claim) \<in> set vague \<or> py_len claim < 16"

definition cited_evidence :: "request \<Rightarrow> finding \<Rightarrow> evidence_item list" where
  "cited_evidence r c =
    filter (\<lambda>item. \<exists>ref \<in> set (fd_evidence c). er_id ref = ev_id item \<and> er_hash ref = ev_hash item) (aq_evidence r)"

definition finding_text :: "finding \<Rightarrow> string" where
  "finding_text c = join '' '' [fd_claim c, fd_reasoning c, fd_why c]"

definition evidence_text :: "evidence_item \<Rightarrow> string" where
  "evidence_text item = ev_claim item @ '' '' @ (case ev_payload_summary item of Some s \<Rightarrow> s | None \<Rightarrow> [])"

definition item_supports :: "finding \<Rightarrow> evidence_item \<Rightarrow> bool" where
  "item_supports c item \<longleftrightarrow>
    common_tokens (finding_text c) (evidence_text item) \<ge> 2
    \<or> lo_kind (ev_locator item) = ''json_pointer'' \<and> lo_value (ev_locator item) \<in> set (fd_locations c)"

definition supported :: "request \<Rightarrow> finding \<Rightarrow> bool" where
  "supported r c \<longleftrightarrow> (\<exists>item \<in> set (cited_evidence r c). item_supports c item)"

definition schema_reasons :: "unit result \<Rightarrow> string list" where
  "schema_reasons v = (case v of Inl (SchemaValidationError m) \<Rightarrow> [m] | _ \<Rightarrow> [])"

definition rejection_reasons :: "iter_errors \<Rightarrow> request \<Rightarrow> bool \<Rightarrow> finding \<Rightarrow> string list" where
  "rejection_reasons iter r plan_locations_are_evidence c =
    schema_reasons (validate iter (finding_json c) ''finding.schema.json'')
    @ emit (fd_origin c \<noteq> Semantic) ''semantic adapter may only propose semantic findings''
    @ emit (is_vague (fd_claim c)) ''claim is vague or insufficiently specific''
    @ emit (\<exists>req \<in> set (fd_requirements c). req \<notin> rq_id ` set (sd_requirements (aq_success r)))
        ''finding references a requirement outside the locked success definition''
    @ for_each (fd_locations c) (\<lambda>l.
        emit (\<not> resolve_pointer (plan_json (aq_plan r)) (scope_to_plan l))
          (''plan location does not resolve: '' @ l))
    @ for_each (fd_evidence c) (\<lambda>ref.
        emit (\<not> ref_holds r ref) (''evidence reference is absent or hash-mismatched: '' @ er_id ref))
    @ (if fd_evidence c = [] then [''finding has no bounded evidence'']
       else emit (\<not> supported r c \<and> \<not> (plan_locations_are_evidence \<and> fd_locations c \<noteq> []))
              ''cited evidence does not materially support the finding claim'')"

text \<open>\<open>dict.fromkeys(xs)\<close>: each value once, at its first place.\<close>

definition unique_in_order :: "'a list \<Rightarrow> 'a list" where
  "unique_in_order xs = map fst (dict_of (map (\<lambda>x. (x, ())) xs))"

definition reject :: "request \<Rightarrow> finding \<Rightarrow> string list \<Rightarrow> rejected_finding" where
  "reject r c reasons =
    \<lparr>rj_id = fd_id c, rj_reason = join ''; '' (unique_in_order reasons),
     rj_evidence = filter (ref_holds r) (fd_evidence c)\<rparr>"

definition substantiate :: "iter_errors \<Rightarrow> finding list \<Rightarrow> request \<Rightarrow> bool \<Rightarrow> finding list \<times> rejected_finding list" where
  "substantiate iter cs r plan_locations_are_evidence =
    foldl (\<lambda>(accepted, rejected) c.
        let reasons = rejection_reasons iter r plan_locations_are_evidence c
        in if reasons \<noteq> [] then (accepted, rejected @ [reject r c reasons]) else (accepted @ [c], rejected))
      ([], []) cs"

subsection \<open>What acceptance means\<close>

text \<open>The order of the candidates is kept, and each one is either accepted or rejected.\<close>

lemma substantiate_eq:
  "substantiate iter cs r flag =
    (filter (\<lambda>c. rejection_reasons iter r flag c = []) cs,
     map (\<lambda>c. reject r c (rejection_reasons iter r flag c)) (filter (\<lambda>c. rejection_reasons iter r flag c \<noteq> []) cs))"
proof -
  have "foldl (\<lambda>(accepted, rejected) c.
          let reasons = rejection_reasons iter r flag c
          in if reasons \<noteq> [] then (accepted, rejected @ [reject r c reasons]) else (accepted @ [c], rejected))
        (as, rs) cs =
      (as @ filter (\<lambda>c. rejection_reasons iter r flag c = []) cs,
       rs @ map (\<lambda>c. reject r c (rejection_reasons iter r flag c)) (filter (\<lambda>c. rejection_reasons iter r flag c \<noteq> []) cs))"
    for as rs
    by (induction cs arbitrary: as rs) (simp_all add: Let_def)
  from this [of "[]" "[]"] show ?thesis by (simp add: substantiate_def)
qed

definition substantiated :: "iter_errors \<Rightarrow> request \<Rightarrow> finding \<Rightarrow> bool" where
  "substantiated iter r c \<longleftrightarrow>
    iter ''finding.schema.json'' (finding_json c) = [] \<and>
    fd_origin c = Semantic \<and> \<not> is_vague (fd_claim c) \<and>
    set (fd_requirements c) \<subseteq> rq_id ` set (sd_requirements (aq_success r)) \<and>
    (\<forall>l \<in> set (fd_locations c). \<exists>v. pointer_value (plan_json (aq_plan r)) l = Inr v) \<and>
    fd_evidence c \<noteq> [] \<and> (\<forall>ref \<in> set (fd_evidence c). ref_holds r ref)"

lemma schema_reasons_Nil [simp]:
  "schema_reasons (validate iter value name) = [] \<longleftrightarrow> iter name value = []"
  by (simp add: schema_reasons_def validate_def Let_def)

lemma rejection_reasons_Nil:
  "rejection_reasons iter r flag c = [] \<longleftrightarrow>
    substantiated iter r c \<and> (supported r c \<or> flag \<and> fd_locations c \<noteq> [])"
  by (cases "fd_evidence c = []")
    (auto simp: rejection_reasons_def substantiated_def resolve_pointer_value)

lemma accepted_iff:
  "c \<in> set (fst (substantiate iter cs r flag)) \<longleftrightarrow>
    c \<in> set cs \<and> substantiated iter r c \<and> (supported r c \<or> flag \<and> fd_locations c \<noteq> [])"
  by (simp add: substantiate_eq rejection_reasons_Nil)

lemma rejected_ids:
  "map rj_id (snd (substantiate iter cs r flag)) =
    map fd_id (filter (\<lambda>c. rejection_reasons iter r flag c \<noteq> []) cs)"
  by (simp add: substantiate_eq comp_def reject_def)

text \<open>A reference that holds names an evidence item of the request with that hash.\<close>

lemma ref_holds_D: "ref_holds r ref \<Longrightarrow> \<exists>item \<in> set (aq_evidence r). ev_id item = er_id ref \<and> ev_hash item = er_hash ref"
  by (force simp: ref_holds_def evidence_hashes_def map_of_dict_of dest!: map_of_SomeD)

end
