(* ===== verification/Decision.thy ===== *)
theory Decision
  imports Coverage Dependencies Substantiation
begin

text \<open>
  The decision engine (\<open>aflow/analysis/decision_engine.py\<close>) and the reviewer adapters
  (\<open>aflow/adapters/semantic_reviewer.py\<close>).  A request is either a document of the shape the schema
  prescribes, given as a record, or any other JSON document; the latter is only handled by the
  branch for requests that fail admission.  The clock is the timestamp it yields.
\<close>

datatype request_doc = Shaped request | Unshaped json

fun doc_json :: "request_doc \<Rightarrow> json" where
  "doc_json (Shaped r) = request_json r"
| "doc_json (Unshaped j) = j"

section \<open>Reviewers\<close>

type_synonym reviewer = "request \<Rightarrow> review"

definition null_review :: reviewer where
  "null_review r =
    \<lparr>rw_schema_version = ''1.0.0'', rw_id = ''review.'' @ aq_id r, rw_analysis_id = aq_id r,
     rw_adapter = ''adapter.null'', rw_agent = ''deterministic-null'', rw_candidates = [],
     rw_summary = ''No semantic candidates proposed by the neutral deterministic adapter.''\<rparr>"

definition static_review :: "finding list \<Rightarrow> string \<Rightarrow> reviewer" where
  "static_review cs adapter_id r =
    \<lparr>rw_schema_version = ''1.0.0'', rw_id = ''review.'' @ aq_id r, rw_analysis_id = aq_id r,
     rw_adapter = adapter_id, rw_agent = ''deterministic-static'', rw_candidates = cs,
     rw_summary = ''Static candidates for deterministic substantiation.''\<rparr>"

section \<open>Requests that fail admission\<close>

definition admission_error_json :: "admission_error \<Rightarrow> json" where
  "admission_error_json e = JObj [
    (''error_id'', JStr (ad_id e)), (''keyword'', JStr (ad_keyword e)),
    (''instance_path'', JStr (ad_instance_path e)), (''schema_path'', JStr (ad_schema_path e)),
    (''message'', JStr (ad_message e)), (''blocking'', JBool (ad_blocking e))]"

definition schema_findings :: "admission \<Rightarrow> finding list" where
  "schema_findings a =
    map (\<lambda>e.
      let gap = (if ad_keyword e = ''required'' then StructuralMissing else StructuralInvalid);
          location = (if ad_instance_path e = [] then ''/'' else ad_instance_path e)
      in make_finding (''finding.'' @ ad_id e) gap Deterministic [ad_instance_path e]
          (''Schema admission failed at '' @ location @ '': '' @ ad_message e)
          [evidence_ref (ad_id e) (admission_error_json e)] None
          (Some (''JSON Schema keyword '' @ ad_keyword e @ '' failed at schema location '' @ ad_schema_path e @ ''.''))
          (Some [''The value at '' @ location @ '' satisfies '' @ ad_schema_path e @ ''.'']))
      (am_errors a)"

text \<open>\<open>value.get(field, fallback)\<close>, which raises on a value that is no dictionary.\<close>

definition dict_get :: "string \<Rightarrow> json \<Rightarrow> json \<Rightarrow> json result" where
  "dict_get field fallback j =
    (case j of JObj kvs \<Rightarrow> Inr (case map_of kvs field of Some v \<Rightarrow> v | None \<Rightarrow> fallback)
     | _ \<Rightarrow> Inl (AttributeError ''get''))"

definition reference_json :: "json \<Rightarrow> string \<Rightarrow> json \<Rightarrow> json \<Rightarrow> json" where
  "reference_json ident schema_name version h = JObj [
    (''artifact_id'', ident), (''schema_id'', JStr (schema_base @ schema_name)),
    (''version'', version), (''content_hash'', h)]"

text \<open>The reference of a document whose four properties are strings.\<close>

definition reference_of :: "json \<Rightarrow> artifact_reference option" where
  "reference_of j =
    (case (plain_str (obj_get ''artifact_id'' j), plain_str (obj_get ''schema_id'' j),
           plain_str (obj_get ''version'' j), plain_str (obj_get ''content_hash'' j)) of
       (Some i, Some s, Some v, Some h) \<Rightarrow> Some \<lparr>ar_id = i, ar_schema = s, ar_version = v, ar_hash = h\<rparr>
     | _ \<Rightarrow> None)"

definition rejected_json :: "json \<Rightarrow> json \<Rightarrow> json \<Rightarrow> finding list \<Rightarrow> string \<Rightarrow> json" where
  "rejected_json ident success_reference plan_reference findings now = JObj [
    (''schema_version'', JStr ''1.0.0''), (''analysis_id'', ident),
    (''success_definition_reference'', success_reference), (''plan_reference'', plan_reference),
    (''decision'', JStr ''material_gap_found''), (''blocking'', JBool True),
    (''execution_ready'', JBool False), (''findings'', json_objs finding_json findings),
    (''rejected_findings'', JList []), (''decided_at'', JStr now)]"

definition rejected_decision ::
  "json \<Rightarrow> json \<Rightarrow> json \<Rightarrow> finding list \<Rightarrow> string \<Rightarrow> decision option" where
  "rejected_decision ident success_reference plan_reference findings now =
    (case (ident, reference_of success_reference, reference_of plan_reference) of
       (JStr i, Some s, Some p) \<Rightarrow> Some \<lparr>dc_schema_version = ''1.0.0'', dc_id = i, dc_success_ref = s,
          dc_plan_ref = p, dc_kind = MaterialGapFound, dc_blocking = True, dc_ready = False,
          dc_findings = findings, dc_rejected = [], dc_decided_at = now, dc_hash = []\<rparr>
     | _ \<Rightarrow> None)"

text \<open>
  The document is validated first; a document that the schema accepts has string identifiers and
  so a record, on which the domain invariants are checked.
\<close>

definition analyze_inadmissible :: "iter_errors \<Rightarrow> json \<Rightarrow> admission \<Rightarrow> string \<Rightarrow> decision result" where
  "analyze_inadmissible iter request adm now =
    rbind (dict_get ''plan'' (JObj [(''plan_id'', JStr ''plan.invalid''), (''version'', JStr ''1.0.0'')]) request) (\<lambda>plan.
    rbind (dict_get ''success_definition'' (JObj [(''success_definition_id'', JStr ''success.invalid''),
        (''version'', JStr ''1.0.0''),
        (''confirmation'', JObj [(''content_hash'', JStr (canonical_hash (JObj [])))])]) request) (\<lambda>success.
    rbind (dict_get ''analysis_id'' (JStr ''analysis.invalid'') request) (\<lambda>ident.
    rbind (dict_get ''success_definition_id'' (JStr ''success.invalid'') success) (\<lambda>success_id.
    rbind (dict_get ''version'' (JStr ''1.0.0'') success) (\<lambda>success_version.
    rbind (dict_get ''confirmation'' (JObj []) success) (\<lambda>confirm.
    rbind (dict_get ''content_hash'' (JStr (canonical_hash success)) confirm) (\<lambda>success_hash.
    rbind (dict_get ''plan_id'' (JStr ''plan.invalid'') plan) (\<lambda>plan_id.
    rbind (dict_get ''version'' (JStr ''1.0.0'') plan) (\<lambda>plan_version.
      let findings = schema_findings adm;
          sref = reference_json success_id ''success-definition.schema.json'' success_version success_hash;
          pref = reference_json plan_id ''plan.schema.json'' plan_version (JStr (canonical_hash plan));
          document = rejected_json ident sref pref findings now;
          sealed = seal_json ''content_hash'' document
      in rbind (validate iter sealed ''analysis-decision.schema.json'') (\<lambda>_.
         case rejected_decision ident sref pref findings now of
           None \<Rightarrow> Inl (TypeError ''analysis_decision'')
         | Some d \<Rightarrow>
             (let result = set_decision_hash (canonical_hash document) d
              in rbind (run_all (domain_checks (ADecision result))) (\<lambda>_. Inr result))))))))))))"

section \<open>Requests that pass admission\<close>

definition domain_finding :: "string \<Rightarrow> string \<Rightarrow> string \<Rightarrow> finding" where
  "domain_finding field location message =
    make_finding (''domain.'' @ field) StructuralInvalid Deterministic [location]
      (field @ '' violates a mandatory domain invariant: '' @ message)
      [evidence_ref (''domain.'' @ field) (JObj [(''error'', JStr message), (''location'', JStr location)])]
      None
      (Some ''The schema-valid artifact still violates a non-bypassable A-Flow domain invariant.'')
      (Some [''The artifact at '' @ location @ '' satisfies all ID, hash, and decision invariants.''])"

text \<open>Only a \<open>DomainInvariantError\<close> is caught and becomes a finding.\<close>

definition domain_finding_of :: "string \<Rightarrow> string \<Rightarrow> unit result \<Rightarrow> finding list result" where
  "domain_finding_of field location outcome =
    (case outcome of
       Inr _ \<Rightarrow> Inr []
     | Inl (DomainInvariantError m) \<Rightarrow> Inr [domain_finding field location m]
     | Inl e \<Rightarrow> Inl e)"

definition domain_findings :: "iter_errors \<Rightarrow> request \<Rightarrow> finding list result" where
  "domain_findings iter r =
    rbind (domain_finding_of ''success_definition'' ''/success_definition''
        (validate_domain_invariants iter (ASuccess (aq_success r)))) (\<lambda>a.
    rbind (domain_finding_of ''plan'' ''/plan'' (validate_domain_invariants iter (APlan (aq_plan r)))) (\<lambda>b.
      Inr (a @ b)))"

definition run_checkers :: "request \<Rightarrow> finding list" where
  "run_checkers r = evidence_check r @ reference_check r @ coverage_check r @ dependency_check r
    @ authority_check r @ activation_check r"

definition deterministic_findings :: "iter_errors \<Rightarrow> request \<Rightarrow> finding list result" where
  "deterministic_findings iter r =
    rbind (domain_findings iter r) (\<lambda>domain. Inr (if domain = [] then run_checkers r else domain))"

definition reserved :: "finding \<Rightarrow> bool" where
  "reserved c \<longleftrightarrow> startswith (fd_id c) ''semantic.''"

definition reserved_rejection :: "finding \<Rightarrow> rejected_finding" where
  "reserved_rejection c =
    \<lparr>rj_id = fd_id c, rj_reason = ''semantic.* is reserved for deterministic local semantic rules'',
     rj_evidence = fd_evidence c\<rparr>"

definition semantic_findings ::
  "iter_errors \<Rightarrow> request \<Rightarrow> reviewer \<Rightarrow> (finding list \<times> rejected_finding list) result" where
  "semantic_findings iter r reviewer =
    (let review = reviewer r
     in rbind (validate iter (review_json review) ''semantic-review.schema.json'') (\<lambda>_.
        let external = filter (\<lambda>c. \<not> reserved c) (rw_candidates review);
            rejected = map reserved_rejection (filter reserved (rw_candidates review));
            (accepted_built_in, rejected_built_in) = substantiate iter (candidates r) r True;
            (accepted_external, rejected_external) = substantiate iter external r False
        in Inr (accepted_built_in @ accepted_external, rejected @ rejected_built_in @ rejected_external)))"

definition decision_type :: "finding list \<Rightarrow> decision_kind" where
  "decision_type findings =
    (let gaps = set (map fd_gap findings)
     in if Contradiction \<in> gaps then ContradictedPlan
        else if RelevantDrift \<in> gaps then DriftRevalidationRequired
        else if gaps \<inter> {UnsupportedAssumption, ValidationEvidenceGap, OutputEnvironmentGap} \<noteq> {}
        then MissingEvidence else MaterialGapFound)"

definition plan_ref :: "plan \<Rightarrow> artifact_reference" where
  "plan_ref p = artifact_ref (plan_json p) ''plan.schema.json'' (pl_id p)"

definition make_decision :: "request \<Rightarrow> finding list \<Rightarrow> rejected_finding list \<Rightarrow> string \<Rightarrow> decision" where
  "make_decision r findings rejected now =
    (let clean = (findings = [])
     in seal_with set_decision_hash decision_json
        \<lparr>dc_schema_version = ''1.0.0'', dc_id = aq_id r, dc_success_ref = success_ref (aq_success r),
         dc_plan_ref = plan_ref (aq_plan r),
         dc_kind = (if clean then NoMaterialGap else decision_type findings),
         dc_blocking = (\<not> clean), dc_ready = clean, dc_findings = findings, dc_rejected = rejected,
         dc_decided_at = now, dc_hash = []\<rparr>)"

definition analyze_admitted :: "iter_errors \<Rightarrow> request \<Rightarrow> reviewer \<Rightarrow> string \<Rightarrow> decision result" where
  "analyze_admitted iter r reviewer now =
    rbind (deterministic_findings iter r) (\<lambda>deterministic.
    rbind (if deterministic = [] then semantic_findings iter r reviewer else Inr ([], [])) (\<lambda>(accepted, rejected).
      let d = make_decision r (deterministic @ accepted) rejected now
      in rbind (validate_domain_invariants iter (ADecision d)) (\<lambda>_. Inr d)))"

definition analyze :: "iter_errors \<Rightarrow> request_doc \<Rightarrow> reviewer option \<Rightarrow> string \<Rightarrow> decision result" where
  "analyze iter doc reviewer now =
    (let adm = admit iter (doc_json doc)
     in if \<not> am_valid adm then analyze_inadmissible iter (doc_json doc) adm now
        else case doc of
            Unshaped j \<Rightarrow> Inl (TypeError ''analysis_request'')
          | Shaped r \<Rightarrow> analyze_admitted iter r (case reviewer of None \<Rightarrow> null_review | Some v \<Rightarrow> v) now)"

section \<open>What a decision establishes\<close>

lemma make_decision_fields [simp]:
  "dc_findings (make_decision r fs rs now) = fs"
  "dc_rejected (make_decision r fs rs now) = rs"
  "dc_ready (make_decision r fs rs now) \<longleftrightarrow> fs = []"
  "dc_blocking (make_decision r fs rs now) \<longleftrightarrow> fs \<noteq> []"
  "dc_kind (make_decision r fs rs now) = (if fs = [] then NoMaterialGap else decision_type fs)"
  "dc_plan_ref (make_decision r fs rs now) = plan_ref (aq_plan r)"
  "dc_success_ref (make_decision r fs rs now) = success_ref (aq_success r)"
  "dc_id (make_decision r fs rs now) = aq_id r"
  by (simp_all add: make_decision_def seal_with_def set_decision_hash_def Let_def)

lemma decision_type_not_clean [simp]: "decision_type fs \<noteq> NoMaterialGap"
  by (simp add: decision_type_def Let_def)

lemma verify_make_decision: "verify_json ''content_hash'' (decision_json (make_decision r fs rs now))"
  using decision_seal.verify_seal decision_seal.verify_document
  by (metis make_decision_def)

lemma domain_ok_make_decision:
  "domain_ok (ADecision (make_decision r fs rs now)) \<longleftrightarrow>
    distinct (map fd_id fs) \<and> distinct (map rj_id rs)"
  by (simp add: domain_ok_decision verify_make_decision)

lemma analyze_Shaped:
  "analyze iter (Shaped r) reviewer now = Inr d \<Longrightarrow> iter ''analysis-request.schema.json'' (request_json r) = [] \<Longrightarrow>
    analyze_admitted iter r (case reviewer of None \<Rightarrow> null_review | Some v \<Rightarrow> v) now = Inr d"
  by (simp add: analyze_def Let_def)

lemma analyze_admitted_eq_Inr:
  "analyze_admitted iter r reviewer now = Inr d \<longleftrightarrow>
    (\<exists>det acc rej. deterministic_findings iter r = Inr det \<and>
      (if det = [] then semantic_findings iter r reviewer = Inr (acc, rej) else acc = [] \<and> rej = []) \<and>
      d = make_decision r (det @ acc) rej now \<and>
      iter ''analysis-decision.schema.json'' (decision_json d) = [] \<and>
      distinct (map fd_id (det @ acc)) \<and> distinct (map rj_id rej))"
proof -
  have "analyze_admitted iter r reviewer now = Inr d \<longleftrightarrow>
    (\<exists>det. deterministic_findings iter r = Inr det \<and> (\<exists>acc rej.
      (if det = [] then semantic_findings iter r reviewer else Inr ([], [])) = Inr (acc, rej) \<and>
      (\<exists>u. validate_domain_invariants iter (ADecision (make_decision r (det @ acc) rej now)) = Inr u \<and>
        Inr (make_decision r (det @ acc) rej now) = (Inr d :: decision result))))"
    unfolding analyze_admitted_def Let_def rbind_eq_Inr split_paired_Ex prod.case ..
  also have "\<dots> \<longleftrightarrow> (\<exists>det acc rej. deterministic_findings iter r = Inr det \<and>
      (if det = [] then semantic_findings iter r reviewer = Inr (acc, rej) else acc = [] \<and> rej = []) \<and>
      d = make_decision r (det @ acc) rej now \<and>
      iter ''analysis-decision.schema.json'' (decision_json d) = [] \<and>
      distinct (map fd_id (det @ acc)) \<and> distinct (map rj_id rej))"
    unfolding validate_domain_invariants_eq_Inr domain_ok_make_decision sum.inject prod.inject
      schema_by_kind.simps artifact_json.simps
    by (intro arg_cong [where f = Ex] ext) (auto split: if_split)
  finally show ?thesis .
qed

lemma domain_finding_of_eq_Nil [result_simps]:
  "domain_finding_of field location outcome = Inr [] \<longleftrightarrow> outcome = Inr ()"
  by (auto simp: domain_finding_of_def split: sum.split py_error.split)

lemma domain_findings_Nil:
  "domain_findings iter r = Inr [] \<longleftrightarrow>
    validate_domain_invariants iter (ASuccess (aq_success r)) = Inr () \<and>
    validate_domain_invariants iter (APlan (aq_plan r)) = Inr ()"
  by (auto simp: domain_findings_def result_simps simp del: validate_domain_invariants_eq_Inr
      intro: domain_finding_of_eq_Nil [THEN iffD2] dest: domain_finding_of_eq_Nil [THEN iffD1])

text \<open>The plan meets every deterministic check.\<close>

definition plan_sound :: "request \<Rightarrow> bool" where
  "plan_sound r \<longleftrightarrow>
    domain_ok (ASuccess (aq_success r)) \<and> domain_ok (APlan (aq_plan r)) \<and>
    evidence_sound r \<and> references_bound r \<and> coverage_sound r \<and> dependencies_sound (aq_plan r) \<and>
    authority_sound (aq_plan r) \<and> (\<forall>a \<in> set (pl_actions (aq_plan r)). activation_problems r a = [])"

definition schemas_accept :: "iter_errors \<Rightarrow> request \<Rightarrow> bool" where
  "schemas_accept iter r \<longleftrightarrow>
    iter ''success-definition.schema.json'' (success_definition_json (aq_success r)) = [] \<and>
    iter ''plan.schema.json'' (plan_json (aq_plan r)) = []"

lemma run_checkers_Nil:
  assumes "domain_ok (APlan (aq_plan r))" and "domain_ok (ASuccess (aq_success r))"
  shows "run_checkers r = [] \<longleftrightarrow> plan_sound r"
  using assms
  by (simp add: run_checkers_def plan_sound_def evidence_check_Nil reference_check_Nil coverage_check_Nil
      dependency_check_Nil authority_check_Nil activation_check_def)

lemma deterministic_findings_Nil:
  "deterministic_findings iter r = Inr [] \<longleftrightarrow> schemas_accept iter r \<and> plan_sound r"
proof -
  have "deterministic_findings iter r = Inr [] \<longleftrightarrow> domain_findings iter r = Inr [] \<and> run_checkers r = []"
    by (auto simp: deterministic_findings_def result_simps)
  also have "\<dots> \<longleftrightarrow> schemas_accept iter r \<and> domain_ok (ASuccess (aq_success r)) \<and> domain_ok (APlan (aq_plan r))
      \<and> run_checkers r = []"
    by (auto simp: domain_findings_Nil validate_domain_invariants_eq_Inr schemas_accept_def)
  also have "\<dots> \<longleftrightarrow> schemas_accept iter r \<and> plan_sound r"
    using run_checkers_Nil by (auto simp: plan_sound_def)
  finally show ?thesis .
qed

text \<open>The findings of every checker and of the domain are deterministic.\<close>

lemma semantic_findings_eq_Inr:
  "semantic_findings iter r reviewer = Inr (acc, rej) \<longleftrightarrow>
    iter ''semantic-review.schema.json'' (review_json (reviewer r)) = [] \<and>
    acc = fst (substantiate iter (candidates r) r True)
        @ fst (substantiate iter (filter (\<lambda>c. \<not> reserved c) (rw_candidates (reviewer r))) r False) \<and>
    rej = map reserved_rejection (filter reserved (rw_candidates (reviewer r)))
        @ snd (substantiate iter (candidates r) r True)
        @ snd (substantiate iter (filter (\<lambda>c. \<not> reserved c) (rw_candidates (reviewer r))) r False)"
  by (auto simp: semantic_findings_def Let_def result_simps split: prod.splits)

text \<open>What a reviewer adds to the built-in findings.\<close>

definition accepted_external :: "iter_errors \<Rightarrow> request \<Rightarrow> reviewer \<Rightarrow> finding list" where
  "accepted_external iter r reviewer =
    fst (substantiate iter (filter (\<lambda>c. \<not> reserved c) (rw_candidates (reviewer r))) r False)"

definition accepted_built_in :: "iter_errors \<Rightarrow> request \<Rightarrow> finding list" where
  "accepted_built_in iter r = fst (substantiate iter (candidates r) r True)"

lemma accepted_external_D:
  "c \<in> set (accepted_external iter r reviewer) \<Longrightarrow>
    c \<in> set (rw_candidates (reviewer r)) \<and> \<not> reserved c \<and> substantiated iter r c \<and> supported r c"
  by (auto simp: accepted_external_def accepted_iff)

lemma accepted_built_in_D:
  "c \<in> set (accepted_built_in iter r) \<Longrightarrow> c \<in> set (candidates r) \<and> reserved c \<and> substantiated iter r c"
  using candidates_shape by (auto simp: accepted_built_in_def accepted_iff built_in_shape_def reserved_def)

lemma analyze_admitted_findings:
  assumes "analyze_admitted iter r reviewer now = Inr d"
  shows "(deterministic_findings iter r = Inr [] \<and>
        dc_findings d = accepted_built_in iter r @ accepted_external iter r reviewer)
    \<or> (dc_findings d \<noteq> [] \<and> deterministic_findings iter r = Inr (dc_findings d))"
proof -
  from assms obtain det acc rej where det: "deterministic_findings iter r = Inr det"
    and sem: "if det = [] then semantic_findings iter r reviewer = Inr (acc, rej) else acc = [] \<and> rej = []"
    and d: "dc_findings d = det @ acc"
    unfolding analyze_admitted_eq_Inr by fastforce
  show ?thesis
  proof (cases "det = []")
    case True
    with sem have "acc = accepted_built_in iter r @ accepted_external iter r reviewer"
      by (simp add: semantic_findings_eq_Inr accepted_built_in_def accepted_external_def)
    with True det d show ?thesis by simp
  next
    case False
    with sem det d show ?thesis by simp
  qed
qed

lemma analyze_admitted_ready:
  assumes "analyze_admitted iter r reviewer now = Inr d"
  shows "dc_ready d \<longleftrightarrow> schemas_accept iter r \<and> plan_sound r
    \<and> accepted_built_in iter r = [] \<and> accepted_external iter r reviewer = []"
proof -
  have "dc_ready d \<longleftrightarrow> dc_findings d = []"
    using assms by (auto simp: analyze_admitted_eq_Inr)
  also have "\<dots> \<longleftrightarrow> deterministic_findings iter r = Inr []
      \<and> accepted_built_in iter r = [] \<and> accepted_external iter r reviewer = []"
    using analyze_admitted_findings [OF assms] by auto
  finally show ?thesis by (simp add: deterministic_findings_Nil)
qed

lemma analyze_inadmissible_D:
  assumes "analyze_inadmissible iter request adm now = Inr d"
  shows "domain_ok (ADecision d) \<and> dc_findings d = schema_findings adm"
proof -
  from assms obtain ident sref pref h where *:
    "(case rejected_decision ident sref pref (schema_findings adm) now of
       None \<Rightarrow> Inl (TypeError ''analysis_decision'')
     | Some d \<Rightarrow> rbind (run_all (domain_checks (ADecision (set_decision_hash h d))))
         (\<lambda>_. Inr (set_decision_hash h d))) = Inr d"
    unfolding analyze_inadmissible_def Let_def by (elim rbind_InrE) blast
  then obtain e where e: "rejected_decision ident sref pref (schema_findings adm) now = Some e"
    and run: "rbind (run_all (domain_checks (ADecision (set_decision_hash h e)))) (\<lambda>_. Inr (set_decision_hash h e)) = Inr d"
    by (cases "rejected_decision ident sref pref (schema_findings adm) now") simp_all
  from run have "run_all (domain_checks (ADecision d)) = Inr ()" and d: "d = set_decision_hash h e"
    by (auto elim!: rbind_InrE simp del: domain_checks.simps)
  moreover have "dc_findings e = schema_findings adm"
    using e by (auto simp: rejected_decision_def split: json.splits option.splits)
  ultimately show ?thesis
    by (simp add: domain_ok_def run_all_eq_Inr set_decision_hash_def del: domain_checks.simps)
qed

lemma analyze_domain_ok:
  assumes "analyze iter doc reviewer now = Inr d"
  shows "domain_ok (ADecision d)"
proof (cases "am_valid (admit iter (doc_json doc))")
  case True
  with assms obtain r where "doc = Shaped r" by (cases doc) (auto simp: analyze_def Let_def)
  with assms True show ?thesis
    by (auto simp: analyze_def Let_def analyze_admitted_eq_Inr domain_ok_make_decision)
next
  case False
  with assms show ?thesis
    by (simp add: analyze_def Let_def analyze_inadmissible_D)
qed

end
