(* ===== verification/Fixtures.thy ===== *)
theory Fixtures
  imports Decision
begin

text \<open>
  The fixture bundle that the repository generates for its own behavioural evaluation
  (\<open>aflow/fixtures/factory.py\<close>): a concrete request that passes every check, and the variants the
  factory derives from it.  They are the inputs on which the properties of the analysis are
  exercised; hashes stay symbolic.
\<close>

section \<open>The artifacts of the bundle\<close>

definition fixed_time :: string where
  "fixed_time = ''2026-01-01T00:00:00Z''"

definition all_quality :: "dimension list" where
  "all_quality = [Correctness, Completeness, Usability, Consistency, Reliability, EvidenceQuality, ConstraintCompliance]"

definition fixture_source :: "string \<Rightarrow> evidence_status \<Rightarrow> source_reference" where
  "fixture_source source_id status =
    \<lparr>sr_type = ''user_intent'', sr_id = source_id, sr_location = ''fixture'', sr_status = status, sr_hash = None\<rparr>"

definition fixture_evidence ::
  "string \<Rightarrow> string \<Rightarrow> string \<Rightarrow> visibility \<Rightarrow> string \<Rightarrow> evidence_status \<Rightarrow> evidence_item" where
  "fixture_evidence ident kind claim vis summary status =
    seal_with set_evidence_hash evidence_json
      \<lparr>ev_schema_version = ''1.0.0'', ev_id = ident, ev_type = kind, ev_claim = claim,
       ev_source = fixture_source (''source.'' @ ident) status, ev_collected_by = ''deterministic_local'',
       ev_collected_at = fixed_time, ev_visibility = vis,
       ev_locator = \<lparr>lo_kind = ''artifact_id'', lo_value = ident\<rparr>, ev_payload_summary = Some summary,
       ev_raw_artifact = None, ev_hash = []\<rparr>"

definition fixture_requirement :: requirement where
  "fixture_requirement =
    \<lparr>rq_id = ''requirement.durable-output'',
     rq_statement = ''Produce durable output with the required observable behavior.'',
     rq_outcome = ''The output survives restart and behaves correctly at the production host boundary.'',
     rq_dimensions = all_quality, rq_priority = Blocking,
     rq_sources = [fixture_source ''source.user'' Verified]\<rparr>"

definition fixture_proof :: proof_obligation where
  "fixture_proof =
    \<lparr>pf_id = ''proof.production-observation'', pf_requirement_ids = [''requirement.durable-output''],
     pf_type = ''artifact'', pf_executor = ''codex'',
     pf_procedure = ''Observe the produced artifact and restart behavior at the production host boundary.'',
     pf_pass_condition = ''Artifact and restart evidence prove every declared quality dimension.'',
     pf_fail_condition = ''The artifact is absent, substituted, contradicted, or quality evidence is incomplete.'',
     pf_environment = Some ''production-host'', pf_evidence_types = Some [''artifact'', ''test_result'']\<rparr>"

definition fixture_success :: success_definition where
  "fixture_success = confirm
    \<lparr>sd_schema_version = ''1.0.0'', sd_id = ''success.fixture'', sd_version = ''1.0.0'',
     sd_statement = ''The requested durable output exists and is independently proven in its required environment.'',
     sd_actors = [\<lparr>at_id = ''actor.codex'', at_role = ''builder'', at_capability = ''Implement the approved plan.''\<rparr>],
     sd_requirements = [fixture_requirement],
     sd_prohibited = [\<lparr>po_id = ''outcome.data-loss'', po_statement = ''Existing user data is deleted.'', po_blocking = True\<rparr>],
     sd_non_goals = [\<lparr>ng_id = ''nongoal.container'', ng_statement = ''Container execution is outside A-Flow.''\<rparr>],
     sd_proofs = [fixture_proof],
     sd_confirmation = \<lparr>cf_by = ''user'', cf_at = fixed_time, cf_hash = []\<rparr>\<rparr>"

definition fixture_root :: string where
  "fixture_root = ''C:'' @ [CHR 0x5C] @ ''fixture-repository''"

definition fixture_baseline :: "string \<Rightarrow> string \<Rightarrow> baseline" where
  "fixture_baseline git_state dirty_state =
    seal_with set_baseline_hash baseline_json
      \<lparr>bl_schema_version = ''1.0.0'', bl_id = ''baseline.fixture'', bl_root = fixture_root,
       bl_kind = ''filesystem'', bl_git_head = Some None, bl_git_state = git_state, bl_dirty_state = dirty_state,
       bl_scope = \<lparr>bs_mode = ''scoped'', bs_relevant = [''src''], bs_protected = [''AGENTS.md'']\<rparr>,
       bl_entries = [\<lparr>be_path = ''src/output.txt'', be_hash = canonical_hash (JStr ''initial''), be_class = Relevant\<rparr>],
       bl_authority = [\<lparr>ah_id = ''authority.user'', ah_hash = canonical_hash (JStr ''authority'')\<rparr>],
       bl_captured_at = fixed_time, bl_hash = []\<rparr>"

definition fixture_capability :: capability where
  "fixture_capability =
    \<lparr>cp_id = ''capability.codex-write'', cp_description = ''Codex may implement files in the target.'',
     cp_owner = ''codex'', cp_available = True,
     cp_activation = \<lparr>ca_type = PhaseEntry, ca_phase = Some ''implementation'', ca_authorized = True,
       ca_source = Some ''authority.user'', ca_prerequisites = Some [''plan accepted'']\<rparr>\<rparr>"

definition fixture_authority :: authority_evidence where
  "fixture_authority =
    seal_with set_authority_hash authority_evidence_json
      \<lparr>ae_schema_version = ''1.0.0'', ae_id = ''authority.fixture'', ae_root = fixture_root,
       ae_sources = [\<lparr>au_id = ''authority.user'', au_type = ''user_instruction'', au_path = ''fixture:user'',
         au_scope = ''src/**'', au_precedence = 0, au_hash = canonical_hash (JStr ''authority''), au_status = Verified\<rparr>],
       ae_capabilities = [fixture_capability], ae_hash = []\<rparr>"

definition fixture_repository :: repository_evidence where
  "fixture_repository =
    seal_with set_repository_hash repository_evidence_json
      \<lparr>rv_schema_version = ''1.0.0'', rv_id = ''repository.fixture'', rv_root = fixture_root,
       rv_kind = ''filesystem'',
       rv_state = \<lparr>rs_git_head = Some None, rs_git_state = ''unborn'', rs_dirty_state = ''untracked''\<rparr>,
       rv_entries = [\<lparr>rp_path = ''src/output.txt'', rp_type = ''file'', rp_active = ''active'',
         rp_hash = canonical_hash (JStr ''initial''), rp_status = Verified, rp_symbols = None,
         rp_summary = Some ''Simulated fixture output path.''\<rparr>],
       rv_hash = [], rv_captured_at = fixed_time\<rparr>"

definition fixture_action :: action where
  "fixture_action =
    \<lparr>ac_id = ''action.write-output'', ac_objective = ''Create durable output.'',
     ac_requirement_ids = [''requirement.durable-output''], ac_capability_id = ''capability.codex-write'',
     ac_owner = ''codex'', ac_phase = ''implementation'', ac_target_paths = [''src/output.txt''], ac_depends_on = [],
     ac_prerequisites = [\<lparr>pq_id = ''prerequisite.accepted'', pq_condition = ''Plan is accepted.'',
       pq_status = Satisfied, pq_evidence_refs = None\<rparr>],
     ac_activation = \<lparr>aa_type = PhaseEntry, aa_source = Some ''authority.user'', aa_authorized = True\<rparr>,
     ac_outputs = [\<lparr>eo_id = ''output.durable'', eo_description = ''Durable production output.'',
       eo_path = Some ''src/output.txt''\<rparr>]\<rparr>"

definition fixture_validation :: validation where
  "fixture_validation =
    \<lparr>va_id = ''validation.production'', va_requirement_ids = [''requirement.durable-output''],
     va_action_ids = [''action.write-output''], va_proof_id = ''proof.production-observation'',
     va_proof_type = ''artifact'', va_executor = ''codex'',
     va_procedure = ''Inspect artifact and restart behavior at the production host boundary.'',
     va_pass_condition = ''Output remains visible and correct after restart.'',
     va_fail_condition = ''Output is absent or only substitute behavior was tested.'',
     va_environment = Some ''production-host'', va_evidence_expected = [''artifact'', ''test_result'']\<rparr>"

definition fixture_plan :: "success_definition \<Rightarrow> baseline \<Rightarrow> authority_evidence \<Rightarrow> plan" where
  "fixture_plan success base auth =
    \<lparr>pl_schema_version = ''1.0.0'', pl_id = ''plan.fixture'', pl_version = ''1.0.0'', pl_created_by = ''codex'',
     pl_success_ref = success_ref success, pl_objective = ''Produce and prove the locked durable output.'',
     pl_interpretation = ''Implement only the bounded target and prove the production-host observable outcome.'',
     pl_baseline_ref = baseline_ref base, pl_authority_ref = authority_ref auth,
     pl_target_paths = [\<lparr>ps_path = ''src/output.txt'', ps_reason = ''Approved output'', ps_status = Allowed\<rparr>],
     pl_excluded_paths = [\<lparr>ps_path = ''private'', ps_reason = ''Outside scope'', ps_status = Prohibited\<rparr>],
     pl_coverage = [\<lparr>cr_requirement_id = ''requirement.durable-output'', cr_action_ids = [''action.write-output''],
       cr_validation_ids = [''validation.production'']\<rparr>],
     pl_actions = [fixture_action], pl_validations = [fixture_validation],
     pl_dependencies = [\<lparr>dp_id = ''dependency.none'', dp_description = ''No external dependency is required.'',
       dp_source = fixture_source ''source.user'' Verified, dp_status = DepNotRequired\<rparr>],
     pl_assumptions = [],
     pl_risks = [\<lparr>rk_id = ''risk.none'', rk_description = ''No unresolved authority risk.'',
       rk_status = NoneIdentified, rk_evidence_refs = None\<rparr>],
     pl_failures = [\<lparr>fl_id = ''failure.proof'', fl_condition = ''Required proof is absent.'',
       fl_action = ''return_to_codex'', fl_recovery = ''Matching proof is supplied.''\<rparr>],
     pl_stops = [\<lparr>st_id = ''stop.authority'', st_condition = ''Authority changes.'', st_effect = ''stop_execution'',
       st_resume = ''Reanalysis succeeds.''\<rparr>]\<rparr>"

definition analysis_evidence :: "string \<Rightarrow> evidence_item list" where
  "analysis_evidence environment_claim =
    [fixture_evidence ''evidence.analysis'' ''authority_document'' environment_claim AnalysisInput [] Verified]"

definition request_bundle :: request where
  "request_bundle =
    (let success = fixture_success; base = fixture_baseline ''unborn'' ''untracked'';
         auth = fixture_authority; repo = fixture_repository
     in \<lparr>aq_schema_version = ''1.0.0'', aq_id = ''analysis.fixture'', aq_success = success,
         aq_plan = fixture_plan success base auth, aq_authority = auth, aq_repository = repo, aq_baseline = base,
         aq_evidence = analysis_evidence ''Production-host evidence is available.''\<rparr>)"

section \<open>The bundle passes every check\<close>

lemma fixture_success_fields [simp]:
  "sd_id fixture_success = ''success.fixture''"
  "sd_requirements fixture_success = [fixture_requirement]"
  "sd_proofs fixture_success = [fixture_proof]"
  by (simp_all add: fixture_success_def confirm_def confirm_hash_def)

lemma fixture_success_ok: "domain_ok (ASuccess fixture_success)"
  using confirm_verified
  by (simp add: domain_ok_success fixture_success_def) (simp add: confirm_def confirm_hash_def)

lemma fixture_plan_ok: "domain_ok (APlan (fixture_plan success base auth))"
  by (simp add: domain_ok_plan fixture_plan_def fixture_action_def)

lemma fixture_evidence_fields [simp]:
  "ev_id (fixture_evidence ident kind claim vis summary status) = ident"
  "ev_type (fixture_evidence ident kind claim vis summary status) = kind"
  "ev_claim (fixture_evidence ident kind claim vis summary status) = claim"
  "ev_visibility (fixture_evidence ident kind claim vis summary status) = vis"
  "ev_collected_by (fixture_evidence ident kind claim vis summary status) = ''deterministic_local''"
  "sr_status (ev_source (fixture_evidence ident kind claim vis summary status)) = status"
  "ev_payload_summary (fixture_evidence ident kind claim vis summary status) = Some summary"
  "lo_kind (ev_locator (fixture_evidence ident kind claim vis summary status)) = ''artifact_id''"
  by (simp_all add: fixture_evidence_def seal_with_def set_evidence_hash_def fixture_source_def)

lemma fixture_evidence_verified: "verify_json ''content_hash'' (evidence_json (fixture_evidence ident kind claim vis summary status))"
  unfolding fixture_evidence_def by (rule evidence_seal.verify_document [THEN iffD1, OF evidence_seal.verify_seal])

lemma fixture_seals:
  "verify_json ''content_hash'' (authority_evidence_json fixture_authority)"
  "verify_json ''content_hash'' (repository_evidence_json fixture_repository)"
  "verify_json ''content_hash'' (baseline_json (fixture_baseline g d))"
  unfolding fixture_authority_def fixture_repository_def fixture_baseline_def
  by (rule authority_seal.verify_document [THEN iffD1, OF authority_seal.verify_seal]
      repository_seal.verify_document [THEN iffD1, OF repository_seal.verify_seal]
      baseline_seal.verify_document [THEN iffD1, OF baseline_seal.verify_seal])+

lemma fixture_authority_fields [simp]:
  "map au_id (ae_sources fixture_authority) = [''authority.user'']"
  "ae_capabilities fixture_authority = [fixture_capability]"
  by (simp_all add: fixture_authority_def seal_with_def set_authority_hash_def)

lemma request_bundle_fields [simp]:
  "aq_success request_bundle = fixture_success"
  "aq_plan request_bundle = fixture_plan fixture_success (fixture_baseline ''unborn'' ''untracked'') fixture_authority"
  "aq_authority request_bundle = fixture_authority"
  "aq_baseline request_bundle = fixture_baseline ''unborn'' ''untracked''"
  "aq_repository request_bundle = fixture_repository"
  "aq_evidence request_bundle = analysis_evidence ''Production-host evidence is available.''"
  "aq_id request_bundle = ''analysis.fixture''"
  by (simp_all add: request_bundle_def Let_def)

lemma fixture_plan_references [simp]: "plan_references (fixture_plan s b a) = {}"
  by (simp add: plan_references_def fixture_plan_def fixture_action_def or_default_def)

lemma fixture_paths:
  "overlaps ''src/output.txt'' ''private'' = False"
  by (simp add: overlaps_iff path_prefix_def pure_path_def leading_slashes_def)

lemma fixture_coverage:
  "aq_success r = fixture_success \<Longrightarrow> aq_plan r = fixture_plan s b a \<Longrightarrow> coverage_sound r"
  by (simp add: coverage_sound_def plan_requirement_ids_def blocking_covered_def validation_proved_def
      requirement_ids_def blocking_requirement_ids_def fixture_plan_def fixture_action_def
      fixture_validation_def fixture_requirement_def fixture_proof_def)

lemma fixture_dependencies: "dependencies_sound (fixture_plan s b a)"
proof -
  have "edges (key_by ac_id (pl_actions (fixture_plan s b a))) = {}"
    by (simp add: edges_def key_by_def dict_of_def fixture_plan_def fixture_action_def)
  then show ?thesis
    by (simp add: dependencies_sound_def fixture_plan_def fixture_action_def acyclic_def)
qed

lemma fixture_authority_sound: "authority_sound (fixture_plan s b a)"
  by (simp add: authority_sound_def contained_def target_allows_def path_excluded_def fixture_paths
      fixture_plan_def fixture_action_def)

lemma fixture_activation:
  "aq_authority r = fixture_authority \<Longrightarrow> activation_problems r fixture_action = []"
  by (simp add: activation_problems_def capability_problems_def Let_def key_by_def dict_of_def
      fixture_capability_def fixture_action_def authority_ids_def truthy_def capability_owner_def
      self_activating_def deferred_action_def phase_entry_action_def prerequisite_ids_def)

lemma bundle_plan_sound: "plan_sound request_bundle"
proof -
  have "evidence_sound request_bundle"
    by (simp add: evidence_sound_def fixture_seals fixture_evidence_verified analysis_evidence_def)
  moreover have "references_bound request_bundle"
    by (simp add: references_bound_def fixture_plan_def)
  moreover have "pl_actions (aq_plan request_bundle) = [fixture_action]"
    by (simp add: fixture_plan_def)
  ultimately show ?thesis
    by (simp add: plan_sound_def fixture_success_ok fixture_plan_ok fixture_coverage fixture_dependencies
        fixture_authority_sound fixture_activation)
qed

lemma bundle_candidates: "candidates request_bundle = []"
  by (simp add: candidates_def assumption_candidates_def environment_candidates_def evidence_candidates_def
      fixture_plan_def fixture_validation_def fixture_proof_def or_default_def for_enum_Cons key_by_def
      dict_of_def Let_def)

lemma bundle_schemas: "schemas_accept accept_all request_bundle"
  by (simp add: schemas_accept_def accept_all_def)

lemma substantiate_Nil [simp]: "substantiate iter [] r flag = ([], [])"
  by (simp add: substantiate_def)

lemma bundle_analysis:
  "analyze accept_all (Shaped request_bundle) None now = Inr (make_decision request_bundle [] [] now)"
proof -
  have "deterministic_findings accept_all request_bundle = Inr []"
    by (simp add: deterministic_findings_Nil bundle_schemas bundle_plan_sound)
  moreover have "semantic_findings accept_all request_bundle null_review = Inr ([], [])"
    by (simp add: semantic_findings_eq_Inr bundle_candidates null_review_def accept_all_def)
  ultimately have "analyze_admitted accept_all request_bundle null_review now = Inr (make_decision request_bundle [] [] now)"
    unfolding analyze_admitted_eq_Inr by (auto simp: accept_all_def)
  then show ?thesis by (simp add: analyze_def Let_def accept_all_def)
qed

end
