(* ===== verification/Analysis_Properties.thy ===== *)
theory Analysis_Properties
  imports Fixtures
begin

text \<open>
  The properties of the plan analysis: what each group of checks establishes, what a decision
  means, what a reviewer can and cannot change, and which errors can surface.
\<close>

section \<open>The checkers\<close>

text \<open>
  The evidence checks report nothing exactly when evidence identifiers are unique, every
  supplied content hash matches its canonical content, and every evidence reference in the plan
  names a supplied item with the same hash.
\<close>

lemma evidence_check_exact: "evidence_check r = [] \<longleftrightarrow> evidence_sound r"
  by (rule evidence_check_Nil)

text \<open>
  The coverage checks, on a plan and success definition with unique identifiers, report
  nothing exactly when no reference names an unknown requirement, every blocking requirement has a
  coverage row with known actions and validations and at least one of each claims it, and every
  validation is backed by a proof obligation that covers it.
\<close>

lemma coverage_check_exact:
  assumes "domain_ok (APlan (aq_plan r))" and "domain_ok (ASuccess (aq_success r))"
  shows "coverage_check r = [] \<longleftrightarrow> coverage_sound r"
  using assms by (rule coverage_check_Nil)

lemma coverage_check_exact_witness: "coverage_check request_bundle = [] \<longleftrightarrow> coverage_sound request_bundle"
  by (rule coverage_check_exact) (simp_all add: fixture_plan_ok fixture_success_ok)

text \<open>
  C3: The depth-first search is sound and complete: the dependency checks report nothing exactly
  when all dependencies name known actions, the dependency graph has no cycle, and no external
  dependency is unresolved.
\<close>

theorem dependency_check_exact: "dependency_check r = [] \<longleftrightarrow> dependencies_sound (aq_plan r)"
  by (rule dependency_check_Nil)


text \<open>
  The activation checks accept an action exactly when its capability exists, is available,
  owned and activated as the action declares, its activation source resolves, and its
  prerequisites are satisfied or deferred by a compatible phase entry.
\<close>

lemma activation_check_exact:
  assumes "distinct (map cp_id (ae_capabilities (aq_authority r)))"
  shows "activation_check r = [] \<longleftrightarrow> (\<forall>a \<in> set (pl_actions (aq_plan r)). action_ready r a)"
  using assms by (rule activation_check_Nil)

lemma activation_check_exact_witness:
  "activation_check request_bundle = [] \<longleftrightarrow>
    (\<forall>a \<in> set (pl_actions (aq_plan request_bundle)). action_ready request_bundle a)"
  by (rule activation_check_exact) simp

text \<open>
  Double dots are not resolved: a path that leaves an allowed directory through a double dot
  still counts as lying within it, and it is not seen to overlap the excluded directory it names.
\<close>

lemma double_dot_escapes_containment:
  "within ''src/../secrets/key'' ''src'' \<and> \<not> overlaps ''src/../secrets/key'' ''secrets''"
  by (simp add: within_iff overlaps_iff path_prefix_def pure_path_def leading_slashes_def)

section \<open>The decision\<close>

text \<open>
  C2: Every decision the engine returns is consistent: it is clean exactly when it is ready, not
  blocking and without findings; finding identifiers are unique and the content hash verifies.
\<close>

theorem analyze_consistent:
  assumes "analyze iter doc reviewer now = Inr d"
  shows "(dc_kind d = NoMaterialGap \<longleftrightarrow> dc_findings d = []) \<and> (dc_ready d \<longleftrightarrow> dc_findings d = []) \<and>
    (dc_blocking d \<longleftrightarrow> dc_findings d \<noteq> []) \<and> distinct (map fd_id (dc_findings d)) \<and>
    verify_with dc_hash decision_json d"
  using analyze_domain_ok [OF assms] unfolding domain_ok_decision decision_seal.verify_document
  by (auto split: if_splits)

theorem analyze_consistent_witness:
  "dc_kind (make_decision request_bundle [] [] fixed_time) = NoMaterialGap \<longleftrightarrow>
    dc_findings (make_decision request_bundle [] [] fixed_time) = []"
  using analyze_consistent [OF bundle_analysis [of fixed_time]] by blast

text \<open>
  C1: A schema-valid request is ready for execution exactly when its artifacts meet the domain
  invariants, all six deterministic checkers find it sound, and neither a built-in semantic rule
  nor the reviewer has an accepted finding.
\<close>

theorem analyze_ready_iff:
  assumes "iter ''analysis-request.schema.json'' (request_json r) = []"
    and "analyze iter (Shaped r) (Some reviewer) now = Inr d"
  shows "dc_ready d \<longleftrightarrow> schemas_accept iter r \<and> plan_sound r
    \<and> accepted_built_in iter r = [] \<and> accepted_external iter r reviewer = []"
  using analyze_Shaped [OF assms(2,1)] by (simp add: analyze_admitted_ready)

theorem analyze_ready_iff_witness:
  "dc_ready (make_decision request_bundle [] [] fixed_time) \<longleftrightarrow>
    schemas_accept accept_all request_bundle \<and> plan_sound request_bundle
    \<and> accepted_built_in accept_all request_bundle = []
    \<and> accepted_external accept_all request_bundle null_review = []"
proof (rule analyze_ready_iff)
  show "analyze accept_all (Shaped request_bundle) (Some null_review) fixed_time
      = Inr (make_decision request_bundle [] [] fixed_time)"
    using bundle_analysis [of fixed_time] by (simp add: analyze_def Let_def accept_all_def)
qed (simp add: accept_all_def)

text \<open>
  A reviewer can only add findings: what the analysis finds without a reviewer it also finds
  with one, and a plan that is ready under some reviewer is ready without.
\<close>

lemma reviewer_cannot_approve:
  assumes "iter ''analysis-request.schema.json'' (request_json r) = []"
    and "analyze iter (Shaped r) (Some reviewer) now = Inr d"
    and "analyze iter (Shaped r) None now = Inr d'"
  shows "set (dc_findings d') \<subseteq> set (dc_findings d) \<and> (dc_ready d \<longrightarrow> dc_ready d')"
proof -
  have d: "analyze_admitted iter r reviewer now = Inr d"
    and d': "analyze_admitted iter r null_review now = Inr d'"
    using analyze_Shaped [OF assms(2,1)] analyze_Shaped [OF assms(3,1)] by simp_all
  have "accepted_external iter r null_review = []"
    by (simp add: accepted_external_def null_review_def)
  with analyze_admitted_findings [OF d] analyze_admitted_findings [OF d']
  have "set (dc_findings d') \<subseteq> set (dc_findings d)" by auto
  moreover have "dc_ready d \<longrightarrow> dc_ready d'"
    using analyze_admitted_ready [OF d] analyze_admitted_ready [OF d']
      \<open>accepted_external iter r null_review = []\<close> by simp
  ultimately show ?thesis ..
qed

theorem reviewer_cannot_approve_witness:
  "set (dc_findings (make_decision request_bundle [] [] fixed_time))
      \<subseteq> set (dc_findings (make_decision request_bundle [] [] fixed_time))"
proof (rule reviewer_cannot_approve [THEN conjunct1])
  show "analyze accept_all (Shaped request_bundle) (Some null_review) fixed_time
      = Inr (make_decision request_bundle [] [] fixed_time)"
    using bundle_analysis [of fixed_time] by (simp add: analyze_def Let_def accept_all_def)
  show "analyze accept_all (Shaped request_bundle) None fixed_time
      = Inr (make_decision request_bundle [] [] fixed_time)"
    by (rule bundle_analysis)
qed (simp add: accept_all_def)

section \<open>Variants of the bundle\<close>

definition bundle_plan :: plan where
  "bundle_plan = fixture_plan fixture_success (fixture_baseline ''unborn'' ''untracked'') fixture_authority"

definition with_action :: "action \<Rightarrow> request" where
  "with_action a = request_bundle\<lparr>aq_plan := bundle_plan\<lparr>pl_actions := [a]\<rparr>\<rparr>"

text \<open>The factory's fixture \<open>wrong-phase\<close>: the action declares the design phase.\<close>

definition wrong_phase :: request where
  "wrong_phase = with_action (fixture_action\<lparr>ac_phase := ''design''\<rparr>)"

text \<open>An action with two dependencies on actions that do not exist.\<close>

definition two_unknown_dependencies :: request where
  "two_unknown_dependencies = with_action (fixture_action\<lparr>ac_depends_on := [''action.one'', ''action.two'']\<rparr>)"

lemma with_action_fields [simp]:
  "aq_success (with_action a) = fixture_success"
  "aq_plan (with_action a) = bundle_plan\<lparr>pl_actions := [a]\<rparr>"
  "aq_authority (with_action a) = fixture_authority"
  "aq_baseline (with_action a) = fixture_baseline ''unborn'' ''untracked''"
  "aq_repository (with_action a) = fixture_repository"
  "aq_evidence (with_action a) = analysis_evidence ''Production-host evidence is available.''"
  by (simp_all add: with_action_def)

lemma with_action_deterministic:
  assumes "ac_id a = ac_id fixture_action" and "ac_requirement_ids a = ac_requirement_ids fixture_action"
    and "ac_target_paths a = ac_target_paths fixture_action" and "ac_outputs a = ac_outputs fixture_action"
    and "ac_prerequisites a = ac_prerequisites fixture_action"
  shows "deterministic_findings accept_all (with_action a) =
    Inr (dependency_check (with_action a) @ activation_check (with_action a))"
proof -
  let ?r = "with_action a"
  have plan_ok: "domain_ok (APlan (aq_plan ?r))"
    using assms by (simp add: domain_ok_plan bundle_plan_def fixture_plan_def fixture_action_def)
  have success_ok: "domain_ok (ASuccess (aq_success ?r))"
    by (simp add: fixture_success_ok)
  have "evidence_sound ?r"
    using assms
    by (simp add: evidence_sound_def fixture_seals fixture_evidence_verified analysis_evidence_def
        plan_references_def bundle_plan_def fixture_plan_def fixture_action_def or_default_def)
  moreover have "references_bound ?r"
    by (simp add: references_bound_def bundle_plan_def fixture_plan_def)
  moreover have "coverage_sound ?r"
    using assms
    by (simp add: coverage_sound_def plan_requirement_ids_def blocking_covered_def validation_proved_def
        requirement_ids_def blocking_requirement_ids_def bundle_plan_def fixture_plan_def fixture_action_def
        fixture_validation_def fixture_requirement_def fixture_proof_def)
  moreover have "authority_sound (aq_plan ?r)"
    using assms
    by (simp add: authority_sound_def contained_def target_allows_def path_excluded_def fixture_paths
        bundle_plan_def fixture_plan_def fixture_action_def)
  moreover have "domain_findings accept_all ?r = Inr []"
    using plan_ok success_ok by (simp add: domain_findings_Nil validate_domain_invariants_eq_Inr accept_all_def)
  ultimately show ?thesis
    using evidence_check_Nil [of ?r] reference_check_Nil [of ?r] coverage_check_Nil [OF plan_ok success_ok]
      authority_check_Nil [of ?r]
    by (simp add: deterministic_findings_def run_checkers_def)
qed

lemma wrong_phase_deterministic:
  "\<exists>f. deterministic_findings accept_all wrong_phase = Inr [f] \<and> fd_gap f = SequenceActivationGap"
proof -
  let ?a = "fixture_action\<lparr>ac_phase := ''design''\<rparr>"
  have keys: "key_by ac_id [?a] = [(''action.write-output'', ?a)]"
    by (simp add: key_by_def dict_of_def fixture_action_def)
  have "found (search_all wrong_phase [(''action.write-output'', ?a)] s) = found s" if "visiting s = {}" "visited s = {}" for s
    using that by (simp add: search_all_def visit.simps fixture_action_def)
  then have "dependency_check wrong_phase = []"
    by (simp add: dependency_check_def wrong_phase_def keys missing_dependency_findings_def
        unresolved_dependency_findings_def Let_def for_enum_Cons)
      (simp add: bundle_plan_def fixture_plan_def fixture_action_def for_enum_Cons)
  moreover have "\<exists>f. activation_check wrong_phase = [f] \<and> fd_gap f = SequenceActivationGap"
    by (simp add: activation_check_def wrong_phase_def activation_problems_def capability_problems_def for_enum_Cons
        Let_def key_by_def dict_of_def fixture_capability_def fixture_action_def authority_ids_def truthy_def
        capability_owner_def self_activating_def deferred_action_def phase_entry_action_def prerequisite_ids_def)
  ultimately show ?thesis
    using with_action_deterministic [of ?a] by (simp add: wrong_phase_def)
qed

text \<open>
  A deterministic finding settles the decision: no reviewer is consulted, so any two reviewers
  give the same result.
\<close>

lemma deterministic_gap_ignores_reviewer:
  assumes "deterministic_findings iter r = Inr fs" and "fs \<noteq> []"
  shows "analyze iter (Shaped r) v now = analyze iter (Shaped r) w now"
  using assms by (simp add: analyze_def analyze_admitted_def Let_def)

lemma deterministic_gap_ignores_reviewer_witness:
  "analyze accept_all (Shaped wrong_phase) None fixed_time
    = analyze accept_all (Shaped wrong_phase) (Some (static_review [] ''adapter.static'')) fixed_time"
  using wrong_phase_deterministic deterministic_gap_ignores_reviewer by (metis list.distinct(2))

text \<open>
  One action with two unknown dependencies makes the analysis raise instead of returning a
  decision: both findings get the same identifier, which the decision's own invariant refuses.
\<close>

lemma two_unknown_dependencies_raise:
  "analyze accept_all (Shaped two_unknown_dependencies) None now =
    Inl (DomainInvariantError ''duplicate finding IDs: dependency.missing.action.write-output'')"
proof -
  let ?a = "fixture_action\<lparr>ac_depends_on := [''action.one'', ''action.two'']\<rparr>"
  let ?r = two_unknown_dependencies
  have dep: "map fd_id (dependency_check ?r) =
      [''dependency.missing.action.write-output'', ''dependency.missing.action.write-output'']"
  proof -
    have keys: "key_by ac_id [?a] = [(''action.write-output'', ?a)]"
      by (simp add: key_by_def dict_of_def fixture_action_def)
    have "found (search_all ?r [(''action.write-output'', ?a)] s) = found s" if "visiting s = {}" "visited s = {}" for s
      using that by (simp add: search_all_def visit.simps)
    then show ?thesis
      by (simp add: dependency_check_def two_unknown_dependencies_def keys missing_dependency_findings_def
          unresolved_dependency_findings_def Let_def for_enum_Cons)
        (simp add: bundle_plan_def fixture_plan_def fixture_action_def for_enum_Cons)
  qed
  have act: "activation_check ?r = []"
    by (simp add: activation_check_def two_unknown_dependencies_def activation_problems_def capability_problems_def
        Let_def key_by_def dict_of_def fixture_capability_def fixture_action_def authority_ids_def truthy_def
        capability_owner_def self_activating_def deferred_action_def phase_entry_action_def prerequisite_ids_def)
  have det: "deterministic_findings accept_all ?r = Inr (dependency_check ?r)"
    using with_action_deterministic [of ?a] act by (simp add: two_unknown_dependencies_def)
  let ?d = "make_decision ?r (dependency_check ?r) [] now"
  have "validate_domain_invariants accept_all (ADecision ?d) =
      Inl (DomainInvariantError ''duplicate finding IDs: dependency.missing.action.write-output'')"
    by (simp add: validate_domain_invariants_def validate_def accept_all_def Let_def dep unique_ids_def
        issues_for_def sorted_set_def require_def)
  moreover have "dependency_check ?r \<noteq> []" using dep by auto
  ultimately show ?thesis
    using det by (simp add: analyze_def analyze_admitted_def Let_def accept_all_def)
qed

end
