(* ===== verification/Drift.thy ===== *)
theory Drift
  imports Decision
begin

text \<open>
  Baselines and drift (\<open>aflow/drift/capture.py\<close>, \<open>compare.py\<close>, \<open>classification.py\<close>): which changes a
  comparison reports and when their classification lets work go on.
\<close>

section \<open>Capture\<close>

text \<open>
  \<open>_files\<close> walks the file system; the files it finds below the given paths, with their hashes and
  by relative path, are the parameter \<open>files\<close>.  Later sources of one path win, as in \<open>{**a, **b}\<close>.
\<close>

type_synonym file_walk = "string list \<Rightarrow> (string, string) dict"

definition captured_entries :: "file_walk \<Rightarrow> string list \<Rightarrow> string list \<Rightarrow> baseline_entry list" where
  "captured_entries files relevant_paths protected_paths =
    (let relevant = files relevant_paths; protected = files protected_paths
     in map (\<lambda>(path, h). \<lparr>be_path = path, be_hash = h,
              be_class = (if map_of protected path \<noteq> None then ProtectedPath else Relevant)\<rparr>)
          (sort_key fst (dict_of (relevant @ protected))))"

definition capture_baseline ::
  "iter_errors \<Rightarrow> file_walk \<Rightarrow> string \<Rightarrow> string \<Rightarrow> string list \<Rightarrow> string list \<Rightarrow> authority_hash list
    \<Rightarrow> string \<Rightarrow> string option \<Rightarrow> string \<Rightarrow> string \<Rightarrow> string \<Rightarrow> baseline result" where
  "capture_baseline iter files root ident relevant_paths protected_paths authority_hashes kind head state dirty now =
    (let value = seal_with set_baseline_hash baseline_json
         \<lparr>bl_schema_version = ''1.0.0'', bl_id = ident, bl_root = root, bl_kind = kind, bl_git_head = Some head,
          bl_git_state = state, bl_dirty_state = dirty,
          bl_scope = \<lparr>bs_mode = ''scoped'', bs_relevant = relevant_paths, bs_protected = protected_paths\<rparr>,
          bl_entries = captured_entries files relevant_paths protected_paths,
          bl_authority = authority_hashes, bl_captured_at = now, bl_hash = []\<rparr>
     in rbind (validate_domain_invariants iter (ABaseline value)) (\<lambda>_. Inr value))"

section \<open>Comparison\<close>

definition conservative_classification :: "baseline_entry option \<Rightarrow> baseline_entry option \<Rightarrow> drift_class" where
  "conservative_classification old new =
    (let classes = {map_option be_class old, map_option be_class new}
     in if Some ProtectedPath \<in> classes then ProtectedPath
        else if Some UnknownClass \<in> classes then UnknownClass
        else if Some Relevant \<in> classes then Relevant
        else Unrelated)"

definition unverifiable :: "string \<Rightarrow> string option \<Rightarrow> string option \<Rightarrow> drift_change" where
  "unverifiable path before after =
    \<lparr>ch_path = path, ch_type = BaselineUnverifiable, ch_class = UnknownClass, ch_before = before, ch_after = after\<rparr>"

definition path_change :: "string \<Rightarrow> baseline_entry option \<Rightarrow> baseline_entry option \<Rightarrow> drift_change list" where
  "path_change path old new =
    (if old \<noteq> None \<and> new \<noteq> None \<and> map_option be_hash old = map_option be_hash new
        \<and> map_option be_class old = map_option be_class new then []
     else if old \<noteq> None \<and> new \<noteq> None \<and> map_option be_hash old = map_option be_hash new
     then [unverifiable path (map_option be_hash old) (map_option be_hash new)]
     else [\<lparr>ch_path = path,
            ch_type = (if old = None then Added else if new = None then Deleted else Modified),
            ch_class = conservative_classification old new,
            ch_before = map_option be_hash old, ch_after = map_option be_hash new\<rparr>])"

definition authority_map :: "baseline \<Rightarrow> (string, string) dict" where
  "authority_map b = dict_of (map (\<lambda>a. (ah_id a, ah_hash a)) (bl_authority b))"

definition baseline_changes :: "baseline \<Rightarrow> baseline \<Rightarrow> drift_change list" where
  "baseline_changes locked current =
    (let before = key_by be_path (bl_entries locked);
         after = key_by be_path (bl_entries current);
         old_authority = authority_map locked;
         new_authority = authority_map current
     in emit (bl_root locked \<noteq> bl_root current) (unverifiable ''repository-root'' None None)
        @ emit (bl_scope locked \<noteq> bl_scope current) (unverifiable ''baseline-scope'' None None)
        @ for_each (sorted_set (map fst before @ map fst after)) (\<lambda>path.
            path_change path (map_of before path) (map_of after path))
        @ for_each (sorted_set (map fst old_authority @ map fst new_authority)) (\<lambda>a.
            emit (map_of old_authority a \<noteq> map_of new_authority a)
              \<lparr>ch_path = ''authority/'' @ a, ch_type = AuthorityChanged, ch_class = ProtectedPath,
               ch_before = map_of old_authority a, ch_after = map_of new_authority a\<rparr>))"

definition compare_baselines :: "iter_errors \<Rightarrow> baseline \<Rightarrow> baseline \<Rightarrow> string \<Rightarrow> drift_event result" where
  "compare_baselines iter locked current now =
    rbind (validate_domain_invariants iter (ABaseline locked)) (\<lambda>_.
    rbind (validate_domain_invariants iter (ABaseline current)) (\<lambda>_.
    Inr \<lparr>de_schema_version = ''1.0.0'', de_id = ''drift.'' @ bl_id current,
      de_baseline_ref = baseline_ref locked, de_current = current,
      de_changes = baseline_changes locked current, de_observed_at = now\<rparr>))"

section \<open>Classification\<close>

definition drift_event_ref :: "drift_event \<Rightarrow> artifact_reference" where
  "drift_event_ref e = artifact_ref (drift_event_json e) ''drift-event.schema.json'' (de_id e)"

definition drift_outcome :: "drift_change list \<Rightarrow> drift_kind \<times> bool \<times> string" where
  "drift_outcome changes =
    (let classes = ch_class ` set changes; kinds = ch_type ` set changes
     in if changes = [] then (NoDrift, False, ''Locked and current baselines are identical.'')
        else if UnknownClass \<in> classes \<or> BaselineUnverifiable \<in> kinds
        then (DriftUnverifiable, True, ''Drift relevance cannot be determined safely.'')
        else if ProtectedPath \<in> classes
        then (FullReanalysisRequired, True, ''Protected authority or configuration changed.'')
        else if Relevant \<in> classes
        then (ScopedRevalidationRequired, True, ''A locked target, dependency, validation, or proof path changed.'')
        else (NonblockingDriftRecorded, False, ''Only certainly unrelated out-of-scope paths changed.''))"

definition classify :: "drift_event \<Rightarrow> string list \<Rightarrow> drift_decision" where
  "classify event affected_requirements =
    (let (decision, blocking, reason) = drift_outcome (de_changes event)
     in \<lparr>dd_schema_version = ''1.0.0'', dd_event_ref = drift_event_ref event, dd_kind = decision,
         dd_blocking = blocking, dd_requirements = affected_requirements,
         dd_locations = (if blocking then [''/repository_baseline_reference''] else []), dd_reason = reason\<rparr>)"

section \<open>What a comparison reports\<close>

lemma path_change_Nil:
  "path_change path old new = [] \<longleftrightarrow>
    (\<exists>x y. old = Some x \<and> new = Some y \<and> be_hash x = be_hash y \<and> be_class x = be_class y)"
  by (cases old; cases new) (auto simp: path_change_def)

lemma path_change_singleton: "path_change path old new = [] \<or> (\<exists>c. path_change path old new = [c])"
  by (auto simp: path_change_def)

text \<open>A reported change of a path is at least as serious as the path's own classification.\<close>

lemma path_change_class:
  assumes "c \<in> set (path_change path old new)" and "old = Some e \<or> new = Some e" and "ch_class c = Unrelated"
  shows "be_class e = Unrelated"
proof (rule ccontr)
  assume "be_class e \<noteq> Unrelated"
  with assms show False
    by (cases "be_class e") (auto simp: path_change_def conservative_classification_def unverifiable_def Let_def split: if_splits)
qed

text \<open>The entries of the two baselines that concern a path agree.\<close>

definition entry_unchanged :: "baseline \<Rightarrow> baseline \<Rightarrow> string \<Rightarrow> bool" where
  "entry_unchanged a b path \<longleftrightarrow>
    (\<exists>x \<in> set (bl_entries a). \<exists>y \<in> set (bl_entries b).
      be_path x = path \<and> be_path y = path \<and> be_hash x = be_hash y \<and> be_class x = be_class y)"

definition authority_unchanged :: "baseline \<Rightarrow> baseline \<Rightarrow> bool" where
  "authority_unchanged a b \<longleftrightarrow> map_of (authority_map a) = map_of (authority_map b)"

lemma drift_outcome_blocking:
  "fst (snd (drift_outcome changes)) \<longleftrightarrow>
    (\<exists>c \<in> set changes. ch_class c \<noteq> Unrelated \<or> ch_type c = BaselineUnverifiable)"
proof -
  have serious: "x \<noteq> Unrelated \<longleftrightarrow> x = UnknownClass \<or> x = ProtectedPath \<or> x = Relevant" for x
    by (cases x) auto
  have image: "(\<exists>c \<in> set changes. g c = v) \<longleftrightarrow> v \<in> g ` set changes" for g :: "drift_change \<Rightarrow> 'b" and v
    by auto
  have "(\<exists>c \<in> set changes. ch_class c \<noteq> Unrelated \<or> ch_type c = BaselineUnverifiable) \<longleftrightarrow>
      UnknownClass \<in> ch_class ` set changes \<or> BaselineUnverifiable \<in> ch_type ` set changes \<or>
      ProtectedPath \<in> ch_class ` set changes \<or> Relevant \<in> ch_class ` set changes"
    unfolding serious bex_disj_distrib image by blast
  then show ?thesis
    unfolding drift_outcome_def Let_def by (cases "changes = []") simp_all
qed

lemma classify_fields [simp]:
  "dd_blocking (classify e reqs) \<longleftrightarrow> fst (snd (drift_outcome (de_changes e)))"
  "dd_kind (classify e reqs) = fst (drift_outcome (de_changes e))"
  "dd_reason (classify e reqs) = snd (snd (drift_outcome (de_changes e)))"
  by (simp_all add: classify_def split: prod.split)

lemma drift_outcome_none: "fst (drift_outcome changes) = NoDrift \<longleftrightarrow> changes = []"
  by (auto simp: drift_outcome_def Let_def)

lemma map_of_eq_on_keys:
  assumes "\<And>i. i \<in> fst ` set xs \<or> i \<in> fst ` set ys \<Longrightarrow> map_of xs i = map_of ys i"
  shows "map_of xs = map_of ys"
proof
  fix i
  show "map_of xs i = map_of ys i"
  proof (cases "i \<in> fst ` set xs \<or> i \<in> fst ` set ys")
    case False
    then have "map_of xs i = None" "map_of ys i = None" by (simp_all add: map_of_eq_None_iff)
    then show ?thesis by simp
  qed (rule assms)
qed

lemma key_by_map_eq:
  assumes "distinct (map f xs)"
  shows "map_of (key_by f xs) k = Some x \<longleftrightarrow> x \<in> set xs \<and> f x = k"
  using key_by_lookup [OF assms] key_by_Some_D by fastforce

lemma path_change_entry:
  assumes "distinct (map be_path (bl_entries a))" and "distinct (map be_path (bl_entries b))"
  shows "path_change path (map_of (key_by be_path (bl_entries a)) path)
      (map_of (key_by be_path (bl_entries b)) path) = [] \<longleftrightarrow> entry_unchanged a b path"
  unfolding path_change_Nil entry_unchanged_def key_by_map_eq [OF assms(1)] key_by_map_eq [OF assms(2)] by blast

text \<open>When classification does not block, everything that matters is as it was locked.\<close>

lemma nonblocking_changes:
  assumes "\<forall>c \<in> set (baseline_changes a b). ch_class c = Unrelated \<and> ch_type c \<noteq> BaselineUnverifiable"
  shows "bl_root a = bl_root b" and "bl_scope a = bl_scope b"
    and "authority_unchanged a b"
    and "\<And>path. (\<exists>c \<in> set (path_change path (map_of (key_by be_path (bl_entries a)) path)
        (map_of (key_by be_path (bl_entries b)) path)). ch_class c \<noteq> Unrelated) \<Longrightarrow>
      path \<notin> be_path ` set (bl_entries a) \<union> be_path ` set (bl_entries b)"
proof -
  show "bl_root a = bl_root b" "bl_scope a = bl_scope b"
    using assms by (auto simp: baseline_changes_def Let_def unverifiable_def split: if_splits)
  show "authority_unchanged a b"
    unfolding authority_unchanged_def
  proof (rule map_of_eq_on_keys, rule ccontr)
    fix i
    let ?c = "\<lparr>ch_path = ''authority/'' @ i, ch_type = AuthorityChanged, ch_class = ProtectedPath,
      ch_before = map_of (authority_map a) i, ch_after = map_of (authority_map b) i\<rparr>"
    assume key: "i \<in> fst ` set (authority_map a) \<or> i \<in> fst ` set (authority_map b)"
      and differs: "map_of (authority_map a) i \<noteq> map_of (authority_map b) i"
    have "i \<in> set (sorted_set (map fst (authority_map a) @ map fst (authority_map b)))"
      using key by simp
    moreover have "?c \<in> set (emit (map_of (authority_map a) i \<noteq> map_of (authority_map b) i) ?c)"
      using differs by simp
    ultimately have "?c \<in> set (baseline_changes a b)"
      unfolding baseline_changes_def Let_def set_append set_for_each by blast
    with assms show False by fastforce
  qed
next
  fix path
  assume *: "\<exists>c \<in> set (path_change path (map_of (key_by be_path (bl_entries a)) path)
      (map_of (key_by be_path (bl_entries b)) path)). ch_class c \<noteq> Unrelated"
  show "path \<notin> be_path ` set (bl_entries a) \<union> be_path ` set (bl_entries b)"
  proof
    assume "path \<in> be_path ` set (bl_entries a) \<union> be_path ` set (bl_entries b)"
    then have "path \<in> set (sorted_set (map fst (key_by be_path (bl_entries a)) @ map fst (key_by be_path (bl_entries b))))"
      by (simp add: key_by_keys)
    with * have "\<exists>c \<in> set (baseline_changes a b). ch_class c \<noteq> Unrelated"
      unfolding baseline_changes_def Let_def set_append set_for_each by blast
    with assms show False by blast
  qed
qed

lemma baseline_unchanged_entry:
  assumes "domain_ok (ABaseline a)" and "domain_ok (ABaseline b)"
    and "\<forall>c \<in> set (baseline_changes a b). ch_class c = Unrelated \<and> ch_type c \<noteq> BaselineUnverifiable"
    and "e \<in> set (bl_entries a) \<union> set (bl_entries b)" and "be_class e \<noteq> Unrelated"
  shows "entry_unchanged a b (be_path e)"
proof -
  have distinct: "distinct (map be_path (bl_entries a))" "distinct (map be_path (bl_entries b))"
    using assms(1,2) by (simp_all add: domain_ok_def)
  let ?old = "map_of (key_by be_path (bl_entries a)) (be_path e)"
  let ?new = "map_of (key_by be_path (bl_entries b)) (be_path e)"
  have e: "?old = Some e \<or> ?new = Some e"
    using assms(4) key_by_lookup [OF distinct(1)] key_by_lookup [OF distinct(2)] by blast
  have "path_change (be_path e) ?old ?new = []"
  proof (rule ccontr)
    assume "path_change (be_path e) ?old ?new \<noteq> []"
    then obtain c where c: "c \<in> set (path_change (be_path e) ?old ?new)"
      using last_in_set by blast
    with path_change_class [OF c e] assms(5) have "ch_class c \<noteq> Unrelated" by blast
    with c nonblocking_changes(4) [OF assms(3), of "be_path e"] assms(4) show False by blast
  qed
  then show ?thesis by (simp only: path_change_entry [OF distinct])
qed

text \<open>Without a reported change the baselines agree entry by entry.\<close>

lemma no_changes_iff:
  assumes "domain_ok (ABaseline a)" and "domain_ok (ABaseline b)"
  shows "baseline_changes a b = [] \<longleftrightarrow>
    bl_root a = bl_root b \<and> bl_scope a = bl_scope b \<and> authority_unchanged a b \<and>
    (\<forall>path \<in> be_path ` set (bl_entries a) \<union> be_path ` set (bl_entries b). entry_unchanged a b path)"
proof -
  have distinct: "distinct (map be_path (bl_entries a))" "distinct (map be_path (bl_entries b))"
    using assms by (simp_all add: domain_ok_def)
  have authority: "(\<forall>i \<in> fst ` set (authority_map a) \<union> fst ` set (authority_map b).
      map_of (authority_map a) i = map_of (authority_map b) i) \<longleftrightarrow> authority_unchanged a b"
    unfolding authority_unchanged_def
  proof
    assume *: "\<forall>i \<in> fst ` set (authority_map a) \<union> fst ` set (authority_map b).
      map_of (authority_map a) i = map_of (authority_map b) i"
    show "map_of (authority_map a) = map_of (authority_map b)"
      by (rule map_of_eq_on_keys, rule * [THEN bspec], unfold Un_iff)
  qed simp
  have "baseline_changes a b = [] \<longleftrightarrow> bl_root a = bl_root b \<and> bl_scope a = bl_scope b \<and>
    (\<forall>path \<in> be_path ` set (bl_entries a) \<union> be_path ` set (bl_entries b). entry_unchanged a b path) \<and>
    (\<forall>i \<in> fst ` set (authority_map a) \<union> fst ` set (authority_map b).
      map_of (authority_map a) i = map_of (authority_map b) i)"
    unfolding baseline_changes_def Let_def append_is_Nil_conv emit_eq_Nil for_each_eq_Nil set_sorted_set
      set_append set_map key_by_keys path_change_entry [OF distinct] not_not ..
  then show ?thesis unfolding authority by blast
qed

lemma compare_baselines_eq_Inr:
  "compare_baselines iter a b now = Inr e \<Longrightarrow> domain_ok (ABaseline a) \<and> domain_ok (ABaseline b)
    \<and> de_changes e = baseline_changes a b"
  by (auto simp: compare_baselines_def rbind_eq_Inr validate_domain_invariants_eq_Inr)

end
