(* ===== verification/Quality.thy ===== *)
theory Quality
  imports Drift
begin

text \<open>
  Output quality (\<open>aflow/evaluation/quality.py\<close>): the ranked quality statuses as a linear order, the
  statuses that evidence states explicitly, trusted evidence, and the summary over all requirements.
\<close>

section \<open>The order of statuses\<close>

fun rank :: "quality_status \<Rightarrow> nat" where
  "rank QFail = 0"
| "rank QUnproven = 1"
| "rank QPartial = 2"
| "rank QPass = 3"
| "rank QNotApplicable = 4"

lemma rank_inject: "rank p = rank q \<longleftrightarrow> p = q"
  by (cases p; cases q) simp_all

instantiation quality_status :: linorder
begin

definition less_eq_quality_status :: "quality_status \<Rightarrow> quality_status \<Rightarrow> bool" where
  "p \<le> q \<longleftrightarrow> rank p \<le> rank q"

definition less_quality_status :: "quality_status \<Rightarrow> quality_status \<Rightarrow> bool" where
  "p < q \<longleftrightarrow> rank p < rank q"

instance
  by standard (auto simp: less_eq_quality_status_def less_quality_status_def rank_inject)

end

text \<open>\<open>min(xs, key=f)\<close> of a non-empty list: the first element with the least key.\<close>

fun first_min :: "('a \<Rightarrow> quality_status) \<Rightarrow> 'a \<Rightarrow> 'a list \<Rightarrow> 'a" where
  "first_min f best [] = best"
| "first_min f best (x # xs) = first_min f (if f x < f best then x else best) xs"

lemma first_min_in: "first_min f x xs \<in> set (x # xs)"
proof (induction xs arbitrary: x)
  case (Cons z zs)
  have "first_min f x (z # zs) \<in> set ((if f z < f x then z else x) # zs)"
    unfolding first_min.simps by (rule Cons.IH)
  then show ?case by (simp split: if_splits) blast+
qed simp

lemma first_min_le: "y \<in> set (x # xs) \<Longrightarrow> f (first_min f x xs) \<le> f y"
proof (induction xs arbitrary: x y)
  case (Cons z zs)
  let ?b = "if f z < f x then z else x"
  have "f (first_min f ?b zs) \<le> f ?b" by (rule Cons.IH) simp
  then have "f (first_min f ?b zs) \<le> f x" "f (first_min f ?b zs) \<le> f z"
    by (auto split: if_splits)
  moreover have "y \<in> set zs \<Longrightarrow> f (first_min f ?b zs) \<le> f y"
    using Cons.IH by simp
  ultimately show ?case using Cons.prems by auto
qed simp

section \<open>Explicit quality statements\<close>

text \<open>
  The expression \<open>(?:quality:)?dimension\s*=\s*(pass|partial|fail|unproven)\<close>, ignoring case, at the
  start of a text in lower case, and its leftmost match.
\<close>

definition status_prefix :: "string \<Rightarrow> quality_status option" where
  "status_prefix s =
    (if startswith s ''pass'' then Some QPass
     else if startswith s ''partial'' then Some QPartial
     else if startswith s ''fail'' then Some QFail
     else if startswith s ''unproven'' then Some QUnproven
     else None)"

definition match_statement :: "string \<Rightarrow> string \<Rightarrow> quality_status option" where
  "match_statement dim s =
    (if startswith s dim then
       (case dropWhile is_space (drop (length dim) s) of
          [] \<Rightarrow> None
        | c # rest \<Rightarrow> if c = CHR ''='' then status_prefix (dropWhile is_space rest) else None)
     else None)"

definition match_quality :: "string \<Rightarrow> string \<Rightarrow> quality_status option" where
  "match_quality dim s =
    (if startswith s ''quality:'' then
       (case match_statement dim (drop 8 s) of Some q \<Rightarrow> Some q | None \<Rightarrow> match_statement dim s)
     else match_statement dim s)"

fun search_quality :: "string \<Rightarrow> string \<Rightarrow> quality_status option" where
  "search_quality dim [] = match_quality dim []"
| "search_quality dim (c # s) =
    (case match_quality dim (c # s) of Some q \<Rightarrow> Some q | None \<Rightarrow> search_quality dim s)"

definition stated_quality :: "dimension \<Rightarrow> evidence_item \<Rightarrow> quality_status option" where
  "stated_quality d item = search_quality (dimension_str d) (lower (evidence_text item))"

definition explicit_quality :: "evidence_item list \<Rightarrow> dimension \<Rightarrow> quality_status option" where
  "explicit_quality evidence d =
    (case List.map_filter (stated_quality d) evidence of [] \<Rightarrow> None | q # qs \<Rightarrow> Some (first_min id q qs))"

definition is_trusted_evidence :: "evidence_item \<Rightarrow> bool" where
  "is_trusted_evidence item \<longleftrightarrow>
    sr_status (ev_source item) = Verified \<and>
    ev_collected_by item \<in> {''deterministic_local'', ''external_harness'', ''human''} \<and>
    ev_visibility item = BuildResultInput"

text \<open>The worst statement wins, and it is one that some item makes.\<close>

lemma set_map_filter_Some: "q \<in> set (List.map_filter f xs) \<longleftrightarrow> (\<exists>x \<in> set xs. f x = Some q)"
  by (induction xs) (auto simp: List.map_filter_simps split: option.splits)

lemma explicit_quality_None:
  "explicit_quality evidence d = None \<longleftrightarrow> (\<forall>item \<in> set evidence. stated_quality d item = None)"
proof -
  have "explicit_quality evidence d = None \<longleftrightarrow> set (List.map_filter (stated_quality d) evidence) = {}"
    by (simp add: explicit_quality_def split: list.split)
  also have "\<dots> \<longleftrightarrow> (\<forall>q. q \<notin> set (List.map_filter (stated_quality d) evidence))" using equals0I by auto
  also have "\<dots> \<longleftrightarrow> (\<forall>item \<in> set evidence. stated_quality d item = None)"
    unfolding set_map_filter_Some by (metis not_None_eq)
  finally show ?thesis .
qed

lemma explicit_quality_Some:
  assumes "explicit_quality evidence d = Some q"
  shows "(\<exists>item \<in> set evidence. stated_quality d item = Some q) \<and>
    (\<forall>item \<in> set evidence. \<forall>p. stated_quality d item = Some p \<longrightarrow> q \<le> p)"
proof -
  from assms obtain p ps where ps: "List.map_filter (stated_quality d) evidence = p # ps" "q = first_min id p ps"
    by (auto simp: explicit_quality_def split: list.splits)
  have "q \<in> set (p # ps)" using first_min_in [of id p ps] ps(2) by simp
  then have "\<exists>item \<in> set evidence. stated_quality d item = Some q"
    using set_map_filter_Some [of q "stated_quality d" evidence] by (simp only: ps(1))
  moreover have "q \<le> p'" if "item \<in> set evidence" "stated_quality d item = Some p'" for item p'
  proof -
    have "p' \<in> set (p # ps)"
      using that set_map_filter_Some [of p' "stated_quality d" evidence] by (auto simp only: ps(1))
    then show ?thesis using first_min_le [of p' p ps id] ps(2) by simp
  qed
  ultimately show ?thesis by blast
qed

section \<open>The summary\<close>

definition dimensions :: "dimension list" where
  "dimensions = [Correctness, Completeness, Usability, Consistency, Reliability, EvidenceQuality, ConstraintCompliance]"

definition summarise_dimension :: "trace_entry list \<Rightarrow> dimension \<Rightarrow> quality_result" where
  "summarise_dimension entries d =
    (let rows = [q. entry \<leftarrow> entries, q \<leftarrow> te_quality entry, qr_dimension q = d];
         applicable = filter (\<lambda>row. qr_status row \<noteq> QNotApplicable) rows
     in case applicable of
          [] \<Rightarrow> \<lparr>qr_dimension = d, qr_status = QNotApplicable,
             qr_reason = ''No locked requirement declared this dimension applicable.'', qr_evidence = []\<rparr>
        | row # rest \<Rightarrow>
            (let worst = first_min qr_status row rest
             in \<lparr>qr_dimension = d, qr_status = qr_status worst, qr_reason = qr_reason worst,
                 qr_evidence = qr_evidence worst\<rparr>))"

definition aggregate_quality :: "trace_entry list \<Rightarrow> quality_result list" where
  "aggregate_quality entries = map (summarise_dimension entries) dimensions"

definition dimension_rows :: "trace_entry list \<Rightarrow> dimension \<Rightarrow> quality_result set" where
  "dimension_rows entries d = {q. \<exists>entry \<in> set entries. q \<in> set (te_quality entry) \<and> qr_dimension q = d}"

lemma dimensions_all: "d \<in> set dimensions"
  by (cases d) (simp_all add: dimensions_def)

lemma aggregate_dimensions: "map qr_dimension (aggregate_quality entries) = dimensions"
proof -
  have "qr_dimension (summarise_dimension entries d) = d" for d
    by (simp add: summarise_dimension_def Let_def split: list.split)
  then show ?thesis by (simp add: aggregate_quality_def comp_def)
qed

lemma dimension_str_inject [simp]: "dimension_str d = dimension_str e \<longleftrightarrow> d = e"
  by (cases d; cases e) simp_all

lemma aggregate_distinct: "distinct (map (\<lambda>q. dimension_str (qr_dimension q)) (aggregate_quality entries))"
proof -
  have "map (\<lambda>q. dimension_str (qr_dimension q)) (aggregate_quality entries)
      = map dimension_str (map qr_dimension (aggregate_quality entries))"
    by simp
  then show ?thesis unfolding aggregate_dimensions by (simp add: dimensions_def)
qed

lemma summarise_dimension_worst:
  assumes "q \<in> dimension_rows entries d"
  shows "qr_status (summarise_dimension entries d) \<le> qr_status q"
proof -
  define rows where "rows = [q. entry \<leftarrow> entries, q \<leftarrow> te_quality entry, qr_dimension q = d]"
  have q: "q \<in> set rows" using assms by (auto simp: rows_def dimension_rows_def)
  have top: "p \<le> QNotApplicable" for p by (cases p) (simp_all add: less_eq_quality_status_def)
  show ?thesis
  proof (cases "filter (\<lambda>row. qr_status row \<noteq> QNotApplicable) rows")
    case Nil
    with q have "qr_status q = QNotApplicable" by (auto simp: filter_empty_conv)
    then show ?thesis by (simp add: top)
  next
    case (Cons row rest)
    have s: "qr_status (summarise_dimension entries d) = qr_status (first_min qr_status row rest)"
      using Cons by (simp add: summarise_dimension_def Let_def flip: rows_def)
    show ?thesis
    proof (cases "qr_status q = QNotApplicable")
      case False
      with q have "q \<in> set (row # rest)" unfolding Cons [symmetric] by simp
      then show ?thesis unfolding s by (rule first_min_le)
    qed (simp add: top)
  qed
qed

lemma summarise_dimension_witnessed:
  assumes "qr_status (summarise_dimension entries d) \<noteq> QNotApplicable"
  shows "\<exists>q \<in> dimension_rows entries d. qr_status q = qr_status (summarise_dimension entries d)"
proof -
  define rows where "rows = [q. entry \<leftarrow> entries, q \<leftarrow> te_quality entry, qr_dimension q = d]"
  show ?thesis
  proof (cases "filter (\<lambda>row. qr_status row \<noteq> QNotApplicable) rows")
    case Nil
    with assms show ?thesis by (simp add: summarise_dimension_def Let_def flip: rows_def)
  next
    case (Cons row rest)
    have "first_min qr_status row rest \<in> set (filter (\<lambda>row. qr_status row \<noteq> QNotApplicable) rows)"
      unfolding Cons by (rule first_min_in)
    then have "first_min qr_status row rest \<in> dimension_rows entries d"
      by (auto simp: rows_def dimension_rows_def)
    moreover have "qr_status (summarise_dimension entries d) = qr_status (first_min qr_status row rest)"
      using Cons by (simp add: summarise_dimension_def Let_def flip: rows_def)
    ultimately show ?thesis by (auto intro: bexI)
  qed
qed

end
