(* ===== verification/Lifecycle.thy ===== *)
theory Lifecycle
  imports Drift
begin

text \<open>
  The lifecycle of a plan (\<open>aflow/lifecycle/transitions.py\<close>), its locking (\<open>locking.py\<close>) and the
  closure of findings by a revision (\<open>closure.py\<close>).
\<close>

section \<open>Transitions\<close>

datatype lifecycle_state =
    Draft | Analyzed | RevisionRequired | Accepted | Locked | HandedOff | BuildReturned | Evaluated
  | StateInvalidated

fun state_str :: "lifecycle_state \<Rightarrow> string" where
  "state_str Draft = ''draft''"
| "state_str Analyzed = ''analyzed''"
| "state_str RevisionRequired = ''revision_required''"
| "state_str Accepted = ''accepted''"
| "state_str Locked = ''locked''"
| "state_str HandedOff = ''handed_off''"
| "state_str BuildReturned = ''build_returned''"
| "state_str Evaluated = ''evaluated''"
| "state_str StateInvalidated = ''invalidated''"

fun allowed :: "lifecycle_state \<Rightarrow> lifecycle_state list" where
  "allowed Draft = [Analyzed]"
| "allowed Analyzed = [RevisionRequired, Accepted]"
| "allowed RevisionRequired = [Analyzed]"
| "allowed Accepted = [Locked]"
| "allowed Locked = [HandedOff, StateInvalidated]"
| "allowed HandedOff = [BuildReturned, StateInvalidated]"
| "allowed BuildReturned = [Evaluated, StateInvalidated]"
| "allowed Evaluated = []"
| "allowed StateInvalidated = [Analyzed]"

definition transition :: "lifecycle_state \<Rightarrow> lifecycle_state \<Rightarrow> lifecycle_state result" where
  "transition current target =
    (if target \<notin> set (allowed current)
     then Inl (ValueError (''invalid A-Flow lifecycle transition: '' @ state_str current @ '' -> '' @ state_str target))
     else Inr target)"

text \<open>The histories of a plan: the states it went through by accepted transitions, latest first.\<close>

inductive history :: "lifecycle_state list \<Rightarrow> bool" where
  start: "history [Draft]"
| step: "history (s # ss) \<Longrightarrow> transition s t = Inr u \<Longrightarrow> history (u # s # ss)"

inductive_simps history_step: "history (u # s # ss)"
inductive_cases history_singleE: "history [s]"

lemma transition_Inr: "transition s t = Inr u \<longleftrightarrow> u = t \<and> t \<in> set (allowed s)"
  by (auto simp: transition_def)

text \<open>
  The order in which a plan advances: a state at a later stage has passed through every earlier
  stage since the plan was last sent back to analysis.
\<close>

fun stage :: "lifecycle_state \<Rightarrow> lifecycle_state list" where
  "stage Draft = []"
| "stage Analyzed = []"
| "stage RevisionRequired = [Analyzed]"
| "stage Accepted = [Analyzed]"
| "stage Locked = [Accepted, Analyzed]"
| "stage HandedOff = [Locked, Accepted, Analyzed]"
| "stage BuildReturned = [HandedOff, Locked, Accepted, Analyzed]"
| "stage Evaluated = [BuildReturned, HandedOff, Locked, Accepted, Analyzed]"
| "stage StateInvalidated = []"

lemma history_stage: "history ss \<Longrightarrow> prefix (stage (hd ss)) (tl ss)"
proof (induction rule: history.induct)
  case (step s ss t u)
  then have "u \<in> set (allowed s)" by (simp add: transition_Inr)
  with step.IH show ?case by (cases s) (auto simp: prefix_def)
qed simp

lemma history_invalidated:
  assumes "history (StateInvalidated # ss)"
  shows "Locked \<in> set ss"
proof (cases ss)
  case Nil
  with assms show ?thesis by (auto elim: history_singleE)
next
  case (Cons s rest)
  with assms have "history (s # rest)" and "StateInvalidated \<in> set (allowed s)"
    by (auto simp: history_step transition_Inr)
  moreover from this(2) have "s = Locked \<or> s = HandedOff \<or> s = BuildReturned" by (cases s) auto
  ultimately show ?thesis using history_stage [of "s # rest"] Cons by (auto simp: prefix_def)
qed

section \<open>Locking\<close>

definition decision_ref :: "decision \<Rightarrow> artifact_reference" where
  "decision_ref d = artifact_ref (decision_json d) ''analysis-decision.schema.json'' (dc_id d)"

definition make_lock :: "request \<Rightarrow> decision \<Rightarrow> string \<Rightarrow> locked_plan" where
  "make_lock r d now =
    seal_with set_lock_hash locked_plan_json
      \<lparr>lp_schema_version = ''1.0.0'', lp_id = ''lock.'' @ pl_id (aq_plan r) @ ''.'' @ pl_version (aq_plan r),
       lp_decision_ref = decision_ref d, lp_plan_ref = plan_ref (aq_plan r),
       lp_success_ref = success_ref (aq_success r), lp_authority_ref = authority_ref (aq_authority r),
       lp_baseline_ref = baseline_ref (aq_baseline r), lp_locked_by = ''aflow'', lp_locked_at = now, lp_hash = []\<rparr>"

definition lock_plan :: "iter_errors \<Rightarrow> request \<Rightarrow> decision \<Rightarrow> string \<Rightarrow> locked_plan result" where
  "lock_plan iter r d now =
    rbind (validate_domain_invariants iter (ASuccess (aq_success r))) (\<lambda>_.
    rbind (validate_domain_invariants iter (APlan (aq_plan r))) (\<lambda>_.
    rbind (validate_domain_invariants iter (ADecision d)) (\<lambda>_.
    rbind (require (\<not> (dc_kind d \<noteq> NoMaterialGap \<or> \<not> dc_ready d))
      (DomainInvariantError ''only a no_material_gap, execution-ready plan can be locked'')) (\<lambda>_.
    rbind (require (\<not> (dc_plan_ref d \<noteq> plan_ref (aq_plan r) \<or> dc_success_ref d \<noteq> success_ref (aq_success r)))
      (DomainInvariantError ''decision references do not exactly bind the accepted artifacts'')) (\<lambda>_.
      let locked = make_lock r d now
      in rbind (validate_domain_invariants iter (ALocked locked)) (\<lambda>_. Inr locked))))))"

lemma make_lock_fields [simp]:
  "lp_plan_ref (make_lock r d now) = plan_ref (aq_plan r)"
  "lp_success_ref (make_lock r d now) = success_ref (aq_success r)"
  "lp_decision_ref (make_lock r d now) = decision_ref d"
  "lp_authority_ref (make_lock r d now) = authority_ref (aq_authority r)"
  "lp_baseline_ref (make_lock r d now) = baseline_ref (aq_baseline r)"
  "lp_id (make_lock r d now) = ''lock.'' @ pl_id (aq_plan r) @ ''.'' @ pl_version (aq_plan r)"
  by (simp_all add: make_lock_def seal_with_def set_lock_hash_def)

lemma make_lock_ok: "domain_ok (ALocked (make_lock r d now))"
  using lock_seal.verify_document lock_seal.verify_seal by (simp add: domain_ok_def make_lock_def)

lemma lock_plan_eq_Inr:
  "lock_plan iter r d now = Inr l \<longleftrightarrow>
    schemas_accept iter r \<and> iter ''analysis-decision.schema.json'' (decision_json d) = [] \<and>
    iter ''locked-plan.schema.json'' (locked_plan_json l) = [] \<and>
    domain_ok (ASuccess (aq_success r)) \<and> domain_ok (APlan (aq_plan r)) \<and> domain_ok (ADecision d) \<and>
    dc_kind d = NoMaterialGap \<and> dc_ready d \<and> dc_plan_ref d = plan_ref (aq_plan r) \<and>
    dc_success_ref d = success_ref (aq_success r) \<and> l = make_lock r d now"
proof -
  have ok: "domain_ok (ALocked (make_lock r d now))" by (rule make_lock_ok)
  show ?thesis
    unfolding lock_plan_def rbind_eq_Inr require_eq_Inr validate_domain_invariants_eq_Inr Let_def
      schemas_accept_def schema_by_kind.simps artifact_json.simps
    using ok by auto
qed

section \<open>Closing findings\<close>

definition evidence_codes :: "closure_code list" where
  "evidence_codes = [SubstantiateOrRemoveAssumption, AddSufficientValidation, ResolveContradiction, RevalidateAfterDrift]"

definition change_codes :: "closure_code list" where
  "change_codes = [AddRequiredField, CorrectInvalidValue, RepairReference, CoverRequirement, ResolveDependency,
    AlignTerminology, CorrectInterpretation, AssignValidCapability, RestoreSystemBoundary, ResolveOverlap,
    CorrectSequenceOrActivation, ResolveAuthorityOwnership, OtherBounded]"

definition environment_exercised :: "request \<Rightarrow> finding \<Rightarrow> bool" where
  "environment_exercised r f \<longleftrightarrow>
    (\<exists>v \<in> set (filter (\<lambda>v. set (va_requirement_ids v) \<inter> set (fd_requirements f) \<noteq> {}) (pl_validations (aq_plan r))).
      va_environment v =
        (case map_of (key_by pf_id (sd_proofs (aq_success r))) (va_proof_id v) of
           None \<Rightarrow> None | Some prf \<Rightarrow> pf_environment prf))"

definition evaluated_message :: "finding \<Rightarrow> string \<Rightarrow> string" where
  "evaluated_message f rest =
    ''Evaluated '' @ str_of_nat (length (rc_predicates (fd_closure f))) @ '' original predicate(s) against '' @ rest"

definition predicate_gate :: "finding \<Rightarrow> bool \<Rightarrow> bool \<Rightarrow> request \<Rightarrow> bool \<Rightarrow> bool \<times> string" where
  "predicate_gate f changed added_evidence r replayed =
    (let code = rc_code (fd_closure f)
     in if fd_origin f = Semantic \<and> \<not> (replayed \<or> startswith (fd_id f) ''semantic.'')
        then (False, ''The original external semantic reviewer was not replayed, so its predicates remain unverified.'')
        else if code = ExerciseRequiredEnvironment
        then (environment_exercised r f \<and> (changed \<or> added_evidence),
              evaluated_message f ''proof environment and bounded revision evidence.'')
        else if code \<in> set evidence_codes
        then (changed \<or> added_evidence, evaluated_message f ''changed structure and added evidence.'')
        else if code \<in> set change_codes
        then (changed, evaluated_message f ''the challenged plan location.'')
        else (False, ''No deterministic evaluator exists for the original closure predicate code.''))"

text \<open>
  The comparison of one challenged location; a location that fails to resolve in either plan
  counts as changed.
\<close>

definition location_changed :: "plan \<Rightarrow> plan \<Rightarrow> string \<Rightarrow> bool" where
  "location_changed original revised location =
    (case (pointer_value (plan_json original) location, pointer_value (plan_json revised) location) of
       (Inr a, Inr b) \<Rightarrow> copy_value a \<noteq> copy_value b | _ \<Rightarrow> True)"

definition locations_changed :: "plan \<Rightarrow> plan \<Rightarrow> string list \<Rightarrow> bool" where
  "locations_changed original revised locations =
    foldl (\<lambda>changed location. changed \<or> location_changed original revised location) False locations"

definition gap_remains :: "finding \<Rightarrow> finding list \<Rightarrow> bool" where
  "gap_remains f found_now \<longleftrightarrow>
    (\<exists>c \<in> set found_now. fd_gap c = fd_gap f \<and>
      (set (fd_locations c) \<inter> set (fd_locations f) \<noteq> {} \<or> set (fd_requirements c) \<inter> set (fd_requirements f) \<noteq> {}))"

definition close_finding ::
  "plan \<Rightarrow> plan \<Rightarrow> request \<Rightarrow> bool \<Rightarrow> evidence_reference list \<Rightarrow> decision \<Rightarrow> finding \<Rightarrow> finding_result" where
  "close_finding original revised r replayed added_refs new_decision f =
    (let changed = locations_changed original revised (fd_locations f);
         remains = gap_remains f (dc_findings new_decision);
         (satisfied, predicate_reason) = predicate_gate f changed (added_refs \<noteq> []) r replayed;
         (status, reason) =
           (if \<not> remains \<and> satisfied \<and> dc_kind new_decision = NoMaterialGap
            then (Closed, predicate_reason @ '' The original gap is absent and reanalysis found no new blocking gap.'')
            else if \<not> remains \<and> satisfied
            then (PartiallyClosed, predicate_reason @ '' The original gap is absent, but reanalysis found a different blocking gap.'')
            else if \<not> remains
            then (StillOpen, ''The finding was not reproduced, but closure remains open: '' @ predicate_reason)
            else (StillOpen, ''The original gap remains after evaluating its original acceptance predicates.''))
     in \<lparr>fr_id = fd_id f, fr_status = status, fr_evidence = added_refs, fr_reason = reason\<rparr>)"

definition closure_guards :: "closure_request \<Rightarrow> decision \<Rightarrow> plan \<Rightarrow> request \<Rightarrow> (bool \<times> string) list" where
  "closure_guards c prior original r = [
    (cq_revised_plan c = aq_plan r, ''closure revised_plan must equal the plan submitted for reanalysis''),
    (cq_prior_ref c = decision_ref prior, ''closure request does not exactly bind the supplied prior decision''),
    (cq_original_ref c = plan_ref original, ''closure request does not exactly bind the supplied original plan''),
    (dc_plan_ref prior = cq_original_ref c, ''closure request does not bind the prior decision'' @ [CHR 0x27] @ ''s original plan''),
    (dc_success_ref prior = success_ref (aq_success r), ''revision changed or weakened the locked success definition''),
    (pl_success_ref (cq_revised_plan c) = dc_success_ref prior, ''revised plan no longer binds the original success definition''),
    (\<forall>e \<in> set (cq_added_evidence c). ev_visibility e = ClosureInput, ''added closure evidence must have closure_input visibility''),
    (\<forall>(i, e) \<in> set (key_by ev_id (cq_added_evidence c)). map_of (key_by ev_id (aq_evidence r)) i = Some e,
     ''every added closure evidence artifact must be present unchanged in revised analysis input'')]"

definition check_guards :: "(bool \<times> string) list \<Rightarrow> unit result" where
  "check_guards guards = run_all (map (\<lambda>(c, m). require c (ValueError m)) guards)"

definition close_findings ::
  "iter_errors \<Rightarrow> closure_request \<Rightarrow> decision \<Rightarrow> plan \<Rightarrow> request \<Rightarrow> reviewer option \<Rightarrow> string \<Rightarrow> closure_result result" where
  "close_findings iter c prior original r reviewer now =
    rbind (validate_domain_invariants iter (AClosureRequest c)) (\<lambda>_.
    rbind (validate_domain_invariants iter (ADecision prior)) (\<lambda>_.
    rbind (validate_domain_invariants iter (APlan original)) (\<lambda>_.
    rbind (check_guards (closure_guards c prior original r)) (\<lambda>_.
    rbind (analyze iter (Shaped r) reviewer now) (\<lambda>new_decision.
      let added_refs = map (\<lambda>e. \<lparr>er_id = ev_id e, er_hash = ev_hash e\<rparr>) (cq_added_evidence c);
          results = map (close_finding original (cq_revised_plan c) r (reviewer \<noteq> None) added_refs new_decision)
            (dc_findings prior);
          result = seal_with set_closure_hash closure_result_json
            \<lparr>cl_schema_version = ''1.0.0'', cl_id = cq_id c, cl_prior_ref = cq_prior_ref c,
             cl_revised_ref = plan_ref (cq_revised_plan c), cl_results = results, cl_decision = new_decision,
             cl_hash = []\<rparr>
      in rbind (validate_domain_invariants iter (AClosure result)) (\<lambda>_. Inr result))))))"

subsection \<open>What closure establishes\<close>

lemma locations_changed_iff:
  "locations_changed original revised ls \<longleftrightarrow> (\<exists>l \<in> set ls. location_changed original revised l)"
proof -
  have "foldl (\<lambda>changed location. changed \<or> location_changed original revised location) b ls
      \<longleftrightarrow> b \<or> (\<exists>l \<in> set ls. location_changed original revised l)" for b
    by (induction ls arbitrary: b) auto
  then show ?thesis by (simp add: locations_changed_def)
qed

lemma location_changed_same [simp]:
  "location_changed p p l \<longleftrightarrow> (\<nexists>v. pointer_value (plan_json p) l = Inr v)"
  by (cases "pointer_value (plan_json p) l") (auto simp: location_changed_def)

lemma predicate_gate_needs_revision:
  "fst (predicate_gate f changed added r replayed) \<Longrightarrow> changed \<or> added"
  by (auto simp: predicate_gate_def Let_def split: if_splits)

lemma predicate_gate_replay:
  "fst (predicate_gate f changed added r replayed) \<Longrightarrow>
    fd_origin f = Deterministic \<or> replayed \<or> startswith (fd_id f) ''semantic.''"
  by (cases "fd_origin f") (auto simp: predicate_gate_def Let_def split: if_splits)

lemma close_finding_status:
  "fr_status (close_finding original revised r replayed refs d f) =
    (if gap_remains f (dc_findings d) \<or>
        \<not> fst (predicate_gate f (locations_changed original revised (fd_locations f)) (refs \<noteq> []) r replayed)
     then StillOpen else if dc_kind d = NoMaterialGap then Closed else PartiallyClosed)"
  by (auto simp: close_finding_def Let_def split: prod.splits)

lemma close_finding_id [simp]: "fr_id (close_finding original revised r replayed refs d f) = fd_id f"
  by (simp add: close_finding_def Let_def split: prod.splits)

lemma check_guards_Inr: "check_guards gs = Inr u \<longleftrightarrow> (\<forall>g \<in> set gs. fst g)"
  by (auto simp: check_guards_def run_all_eq_Inr split: prod.splits)

lemma close_findings_D:
  assumes "close_findings iter c prior original r reviewer now = Inr res"
  obtains d where "analyze iter (Shaped r) reviewer now = Inr d" and "cl_decision res = d"
    and "domain_ok (ADecision prior)" and "domain_ok (AClosure res)"
    and "\<forall>g \<in> set (closure_guards c prior original r). fst g"
    and "cl_results res = map (close_finding original (cq_revised_plan c) r (reviewer \<noteq> None)
      (map (\<lambda>e. \<lparr>er_id = ev_id e, er_hash = ev_hash e\<rparr>) (cq_added_evidence c)) d) (dc_findings prior)"
proof -
  from assms show thesis
    unfolding close_findings_def Let_def
  proof (elim rbind_InrE, goal_cases)
    case (1 a b c' d e f)
    have res: "res = seal_with set_closure_hash closure_result_json
            \<lparr>cl_schema_version = ''1.0.0'', cl_id = cq_id c, cl_prior_ref = cq_prior_ref c,
             cl_revised_ref = plan_ref (cq_revised_plan c),
             cl_results = map (close_finding original (cq_revised_plan c) r (reviewer \<noteq> None)
                (map (\<lambda>e. \<lparr>er_id = ev_id e, er_hash = ev_hash e\<rparr>) (cq_added_evidence c)) e) (dc_findings prior),
             cl_decision = e, cl_hash = []\<rparr>"
      using 1(7) by (simp only: sum.inject)
    show thesis
    proof (rule that)
      show "analyze iter (Shaped r) reviewer now = Inr e" by (rule 1(5))
      show "cl_decision res = e" unfolding res by (simp add: seal_with_def set_closure_hash_def)
      show "domain_ok (ADecision prior)" using 1(2) unfolding validate_domain_invariants_eq_Inr by blast
      show "domain_ok (AClosure res)" using 1(6) unfolding validate_domain_invariants_eq_Inr res by blast
      show "\<forall>g \<in> set (closure_guards c prior original r). fst g" using 1(4) unfolding check_guards_Inr .
      show "cl_results res = map (close_finding original (cq_revised_plan c) r (reviewer \<noteq> None)
          (map (\<lambda>e. \<lparr>er_id = ev_id e, er_hash = ev_hash e\<rparr>) (cq_added_evidence c)) e) (dc_findings prior)"
        unfolding res by (simp add: seal_with_def set_closure_hash_def)
    qed
  qed
qed

end
