(* ===== verification/Evaluation.thy ===== *)
theory Evaluation
  imports Quality Lifecycle
begin

text \<open>
  The trace from requirements to evidence (\<open>aflow/evaluation/requirement_trace.py\<close>) and the final
  evaluation of a build result (\<open>final_decision.py\<close>).
\<close>

section \<open>The requirement trace\<close>

definition evidence_index :: "evidence_item list \<Rightarrow> (string, evidence_item) dict" where
  "evidence_index evidence = key_by ev_id evidence"

definition visible_item :: "evidence_item list \<Rightarrow> evidence_reference \<Rightarrow> evidence_item option" where
  "visible_item evidence ref =
    (case map_of (evidence_index evidence) (er_id ref) of
       None \<Rightarrow> None | Some item \<Rightarrow> if ev_hash item = er_hash ref then Some item else None)"

definition prohibited_present :: "build_result \<Rightarrow> bool" where
  "prohibited_present b \<longleftrightarrow> (\<exists>c \<in> set (br_checks b). oc_present c)"

definition absence_evidenced :: "success_definition \<Rightarrow> build_result \<Rightarrow> evidence_item list \<Rightarrow> bool" where
  "absence_evidenced s b evidence \<longleftrightarrow>
    po_id ` set (sd_prohibited s) = oc_id ` set (br_checks b) \<and>
    (\<forall>c \<in> set (br_checks b). \<forall>ref \<in> set (oc_evidence c).
      case map_of (evidence_index evidence) (er_id ref) of
        None \<Rightarrow> False | Some item \<Rightarrow> ev_hash item = er_hash ref \<and> is_trusted_evidence item)"

text \<open>What the loop body computes for one requirement before it judges the dimensions.\<close>

definition requirement_outputs :: "build_result \<Rightarrow> requirement \<Rightarrow> build_output list" where
  "requirement_outputs b rq = filter (\<lambda>out. rq_id rq \<in> set (bo_requirement_ids out)) (br_outputs b)"

definition requirement_plans :: "plan \<Rightarrow> requirement \<Rightarrow> validation list" where
  "requirement_plans p rq = filter (\<lambda>v. rq_id rq \<in> set (va_requirement_ids v)) (pl_validations p)"

definition requirement_results :: "plan \<Rightarrow> build_result \<Rightarrow> requirement \<Rightarrow> validation_result option list" where
  "requirement_results p b rq =
    map (\<lambda>v. map_of (key_by vr_id (br_validations b)) (va_id v)) (requirement_plans p rq)"

definition requirement_refs :: "plan \<Rightarrow> build_result \<Rightarrow> requirement \<Rightarrow> evidence_reference list" where
  "requirement_refs p b rq =
    unique_in_order
      (concat (map bo_evidence (requirement_outputs b rq))
       @ concat (map (\<lambda>res. case res of None \<Rightarrow> [] | Some v \<Rightarrow> vr_evidence v) (requirement_results p b rq)))"

definition visible_evidence :: "plan \<Rightarrow> build_result \<Rightarrow> evidence_item list \<Rightarrow> requirement \<Rightarrow> evidence_item list" where
  "visible_evidence p b evidence rq = List.map_filter (visible_item evidence) (requirement_refs p b rq)"

definition trusted_evidence :: "plan \<Rightarrow> build_result \<Rightarrow> evidence_item list \<Rightarrow> requirement \<Rightarrow> evidence_item list" where
  "trusted_evidence p b evidence rq = filter is_trusted_evidence (visible_evidence p b evidence rq)"

definition refs_valid :: "plan \<Rightarrow> build_result \<Rightarrow> evidence_item list \<Rightarrow> requirement \<Rightarrow> bool" where
  "refs_valid p b evidence rq \<longleftrightarrow>
    length (visible_evidence p b evidence rq) = length (requirement_refs p b rq) \<and> requirement_refs p b rq \<noteq> []"

definition validations_pass :: "plan \<Rightarrow> build_result \<Rightarrow> requirement \<Rightarrow> bool" where
  "validations_pass p b rq \<longleftrightarrow> requirement_plans p rq \<noteq> [] \<and>
    (\<forall>res \<in> set (requirement_results p b rq). case res of None \<Rightarrow> False | Some v \<Rightarrow> vr_status v = Passed)"

definition required_types :: "success_definition \<Rightarrow> requirement \<Rightarrow> string set" where
  "required_types s rq =
    (\<Union>prf \<in> {prf \<in> set (sd_proofs s). rq_id rq \<in> set (pf_requirement_ids prf)}. set (or_default (pf_evidence_types prf) []))"

definition types_match :: "success_definition \<Rightarrow> plan \<Rightarrow> build_result \<Rightarrow> evidence_item list \<Rightarrow> requirement \<Rightarrow> bool" where
  "types_match s p b evidence rq \<longleftrightarrow> required_types s rq \<subseteq> ev_type ` set (trusted_evidence p b evidence rq)"

definition environment_matches :: "build_result \<Rightarrow> bool" where
  "environment_matches b \<longleftrightarrow> oe_matches (br_environment b) = Some True"

definition contradicted :: "plan \<Rightarrow> build_result \<Rightarrow> evidence_item list \<Rightarrow> requirement \<Rightarrow> bool" where
  "contradicted p b evidence rq \<longleftrightarrow> br_status b = Failed
    \<or> (\<exists>item \<in> set (visible_evidence p b evidence rq). sr_status (ev_source item) = ContradictedStatus)"

definition base_proven :: "success_definition \<Rightarrow> plan \<Rightarrow> build_result \<Rightarrow> evidence_item list \<Rightarrow> requirement \<Rightarrow> bool" where
  "base_proven s p b evidence rq \<longleftrightarrow>
    requirement_outputs b rq \<noteq> [] \<and> validations_pass p b rq \<and> refs_valid p b evidence rq \<and>
    environment_matches b \<and> types_match s p b evidence rq \<and> \<not> prohibited_present b \<and> absence_evidenced s b evidence"

definition dimension_status ::
  "success_definition \<Rightarrow> plan \<Rightarrow> build_result \<Rightarrow> evidence_item list \<Rightarrow> requirement \<Rightarrow> dimension \<Rightarrow> quality_status" where
  "dimension_status s p b evidence rq d =
    (let applicable = (d \<in> set (rq_dimensions rq));
         stated = explicit_quality (trusted_evidence p b evidence rq) d
     in if d = ConstraintCompliance \<and> applicable \<and> prohibited_present b then QFail
        else if d = EvidenceQuality \<and> applicable \<and> stated = None
        then (if refs_valid p b evidence rq \<and> types_match s p b evidence rq then QPass else QUnproven)
        else if d = ConstraintCompliance \<and> applicable \<and> stated = None
        then (if absence_evidenced s b evidence \<and> br_status b = Completed then QPass else QUnproven)
        else if applicable \<and> stated = None
        then (if base_proven s p b evidence rq \<and> d \<in> {Correctness, Completeness} then QPass else QUnproven)
        else if \<not> applicable then QNotApplicable
        else (case stated of Some q \<Rightarrow> q | None \<Rightarrow> QUnproven))"

fun status_reason :: "quality_status \<Rightarrow> string" where
  "status_reason QPass = ''Visible evidence explicitly supports this quality dimension.''"
| "status_reason QNotApplicable = ''This dimension is not applicable to the locked requirement.''"
| "status_reason QUnproven = ''Visible evidence does not prove this required quality dimension.''"
| "status_reason QPartial = ''Visible evidence does not prove this required quality dimension.''"
| "status_reason QFail = ''Visible evidence contradicts or fails this required quality dimension.''"

definition quality_results ::
  "success_definition \<Rightarrow> plan \<Rightarrow> build_result \<Rightarrow> evidence_item list \<Rightarrow> requirement \<Rightarrow> quality_result list" where
  "quality_results s p b evidence rq =
    map (\<lambda>d. let status = dimension_status s p b evidence rq d
             in \<lparr>qr_dimension = d, qr_status = status, qr_reason = status_reason status,
                 qr_evidence = requirement_refs p b rq\<rparr>) dimensions"

definition requirement_status ::
  "success_definition \<Rightarrow> plan \<Rightarrow> build_result \<Rightarrow> evidence_item list \<Rightarrow> requirement \<Rightarrow> verdict" where
  "requirement_status s p b evidence rq =
    (let required = map qr_status (filter (\<lambda>q. qr_dimension q \<in> set (rq_dimensions rq)) (quality_results s p b evidence rq))
     in if contradicted p b evidence rq \<or> QFail \<in> set required then Contradicted
        else if base_proven s p b evidence rq \<and> (\<forall>q \<in> set required. q = QPass) then Proven
        else if (\<exists>q \<in> set required. q \<in> {QPass, QPartial}) \<and> requirement_outputs b rq \<noteq> [] then PartiallyProven
        else Unproven)"

definition trace_entry_for ::
  "success_definition \<Rightarrow> plan \<Rightarrow> build_result \<Rightarrow> evidence_item list \<Rightarrow> requirement \<Rightarrow> trace_entry" where
  "trace_entry_for s p b evidence rq =
    \<lparr>te_requirement_id = rq_id rq, te_outcome = rq_outcome rq, te_evidence = requirement_refs p b rq,
     te_quality = quality_results s p b evidence rq, te_status = requirement_status s p b evidence rq,
     te_rationale =
       (if requirement_status s p b evidence rq = Proven
        then ''All required observable, validation, environment, evidence-type, and quality predicates passed.''
        else ''The returned build evidence does not satisfy every locked proof and quality predicate.'')\<rparr>"

definition locked_ref :: "locked_plan \<Rightarrow> artifact_reference" where
  "locked_ref l = artifact_ref (locked_plan_json l) ''locked-plan.schema.json'' (lp_id l)"

definition build_ref :: "build_result \<Rightarrow> artifact_reference" where
  "build_ref b = artifact_ref (build_result_json b) ''build-result.schema.json'' (br_id b)"

definition trace_ref :: "trace \<Rightarrow> artifact_reference" where
  "trace_ref t = artifact_ref (trace_json t) ''requirement-evidence-trace.schema.json'' (tr_id t)"

definition build_trace ::
  "locked_plan \<Rightarrow> success_definition \<Rightarrow> plan \<Rightarrow> build_result \<Rightarrow> evidence_item list \<Rightarrow> trace" where
  "build_trace locked s p b evidence =
    seal_with set_trace_hash trace_json
      \<lparr>tr_schema_version = ''1.0.0'', tr_id = ''trace.'' @ br_id b, tr_locked_ref = locked_ref locked,
       tr_build_ref = build_ref b, tr_entries = map (trace_entry_for s p b evidence) (sd_requirements s),
       tr_hash = []\<rparr>"

section \<open>The final evaluation\<close>

text \<open>The loop over the build evidence: each item is validated, then its identifier is checked.\<close>

fun check_evidence :: "iter_errors \<Rightarrow> string set \<Rightarrow> evidence_item list \<Rightarrow> unit result" where
  "check_evidence iter seen [] = Inr ()"
| "check_evidence iter seen (item # items) =
    rbind (validate_domain_invariants iter (AEvidence item)) (\<lambda>_.
    rbind (require (ev_id item \<notin> seen) (ValueError (''duplicate build evidence ID: '' @ ev_id item))) (\<lambda>_.
      check_evidence iter (insert (ev_id item) seen) items))"

definition result_guards ::
  "locked_plan \<Rightarrow> baseline \<Rightarrow> baseline \<Rightarrow> success_definition \<Rightarrow> plan \<Rightarrow> build_result \<Rightarrow> (bool \<times> string) list" where
  "result_guards locked locked_baseline post s p b = [
    (br_locked_ref b = locked_ref locked, ''build result does not bind the supplied locked plan''),
    (lp_plan_ref locked = plan_ref p, ''locked plan does not bind the supplied plan''),
    (lp_success_ref locked = success_ref s, ''locked plan does not bind the supplied success definition''),
    (lp_baseline_ref locked = baseline_ref locked_baseline, ''locked plan does not bind the supplied locked baseline''),
    (br_baseline_ref b = baseline_ref post, ''build result does not bind the supplied post-build baseline''),
    (\<forall>out \<in> set (br_outputs b). set (bo_requirement_ids out) \<subseteq> rq_id ` set (sd_requirements s),
     ''build output references a requirement outside the locked success definition''),
    (\<forall>v \<in> set (br_validations b). vr_id v \<in> va_id ` set (pl_validations p),
     ''build result references an unknown locked validation''),
    (\<forall>c \<in> set (br_checks b). oc_id c \<in> po_id ` set (sd_prohibited s),
     ''build result references an unknown prohibited outcome'')]"

definition invalidate_entry :: "trace_entry \<Rightarrow> trace_entry" where
  "invalidate_entry e = e\<lparr>te_status := InvalidatedByDrift,
    te_rationale := ''Relevant, protected, or unknown drift invalidated the locked analysis.''\<rparr>"

definition invalidate_trace :: "trace \<Rightarrow> trace" where
  "invalidate_trace t = seal_with set_trace_hash trace_json (t\<lparr>tr_entries := map invalidate_entry (tr_entries t)\<rparr>)"

definition entry_priority :: "success_definition \<Rightarrow> trace_entry \<Rightarrow> priority option" where
  "entry_priority s e =
    map_of (dict_of (map (\<lambda>rq. (rq_id rq, rq_priority rq)) (sd_requirements s))) (te_requirement_id e)"

definition blocking_entries :: "success_definition \<Rightarrow> trace \<Rightarrow> trace_entry list" where
  "blocking_entries s t = filter (\<lambda>e. entry_priority s e = Some Blocking) (tr_entries t)"

definition requirement_failure :: "trace_entry \<Rightarrow> blocking_failure" where
  "requirement_failure e =
    \<lparr>bf_id = ''failure.'' @ te_requirement_id e, bf_requirements = [te_requirement_id e],
     bf_reason = ''Blocking requirement is '' @ verdict_str (te_status e) @ ''.'', bf_evidence = te_evidence e\<rparr>"

definition requirement_failures :: "success_definition \<Rightarrow> trace \<Rightarrow> blocking_failure list" where
  "requirement_failures s t = for_each (blocking_entries s t) (\<lambda>e. emit (te_status e \<noteq> Proven) (requirement_failure e))"

definition prohibited_ids :: "build_result \<Rightarrow> string list" where
  "prohibited_ids b = map oc_id (filter oc_present (br_checks b))"

text \<open>The trace, the failures and the verdict that are settled before the record is built.\<close>

definition judge ::
  "success_definition \<Rightarrow> build_result \<Rightarrow> drift_decision \<Rightarrow> trace \<Rightarrow> trace \<times> blocking_failure list \<times> verdict" where
  "judge s b drift t =
    (let prohibited = prohibited_ids b;
         blocking = blocking_entries s t;
         failures = requirement_failures s t
     in if dd_blocking drift then
          (invalidate_trace t,
           failures @ [\<lparr>bf_id = ''failure.relevant-drift'', bf_requirements = map te_requirement_id blocking,
             bf_reason = dd_reason drift, bf_evidence = []\<rparr>],
           InvalidatedByDrift)
        else if prohibited \<noteq> [] \<or> (\<exists>e \<in> set blocking. te_status e = Contradicted) then
          (t,
           (if prohibited \<noteq> [] \<and> failures = []
            then failures @ [\<lparr>bf_id = ''failure.prohibited-outcome'', bf_requirements = [],
              bf_reason = ''A prohibited outcome is present.'', bf_evidence = []\<rparr>]
            else failures),
           Contradicted)
        else if failures = [] \<and> (\<forall>e \<in> set (tr_entries t). te_status e = Proven) then (t, failures, Proven)
        else if failures \<noteq> [] then (t, failures, Unproven)
        else (t, failures, PartiallyProven))"

definition blocking_verdict :: "verdict \<Rightarrow> bool" where
  "blocking_verdict v \<longleftrightarrow> v \<in> {Unproven, Contradicted, InvalidatedByDrift}"

definition make_evaluation ::
  "locked_plan \<Rightarrow> build_result \<Rightarrow> trace \<Rightarrow> blocking_failure list \<Rightarrow> verdict \<Rightarrow> string \<Rightarrow> evaluation" where
  "make_evaluation locked b t failures decision now =
    seal_with set_evaluation_hash evaluation_json
      \<lparr>fe_schema_version = ''1.0.0'', fe_id = ''evaluation.'' @ br_id b, fe_locked_ref = locked_ref locked,
       fe_build_ref = build_ref b, fe_trace_ref = trace_ref t, fe_decision = decision,
       fe_blocking = blocking_verdict decision, fe_quality = aggregate_quality (tr_entries t),
       fe_failures =
         (if blocking_verdict decision \<and> failures = []
          then failures @ [\<lparr>bf_id = ''failure.output'', bf_requirements = [],
            bf_reason = ''Returned output is not proven.'', bf_evidence = []\<rparr>]
          else failures),
       fe_prohibited = prohibited_ids b, fe_decided_at = now, fe_hash = []\<rparr>"

definition evaluate_result ::
  "iter_errors \<Rightarrow> locked_plan \<Rightarrow> baseline \<Rightarrow> baseline \<Rightarrow> success_definition \<Rightarrow> plan \<Rightarrow> build_result
    \<Rightarrow> evidence_item list \<Rightarrow> string \<Rightarrow> (trace \<times> evaluation) result" where
  "evaluate_result iter locked locked_baseline post s p b evidence now =
    rbind (validate_domain_invariants iter (ALocked locked)) (\<lambda>_.
    rbind (validate_domain_invariants iter (ASuccess s)) (\<lambda>_.
    rbind (validate_domain_invariants iter (APlan p)) (\<lambda>_.
    rbind (validate_domain_invariants iter (ABuild b)) (\<lambda>_.
    rbind (validate_domain_invariants iter (ABaseline locked_baseline)) (\<lambda>_.
    rbind (validate_domain_invariants iter (ABaseline post)) (\<lambda>_.
    rbind (check_evidence iter {} evidence) (\<lambda>_.
    rbind (check_guards (result_guards locked locked_baseline post s p b)) (\<lambda>_.
    rbind (compare_baselines iter locked_baseline post now) (\<lambda>event.
    rbind (validate iter (drift_event_json event) ''drift-event.schema.json'') (\<lambda>_.
      let drift = classify event (if de_changes event \<noteq> [] then sorted_set (map rq_id (sd_requirements s)) else [])
      in rbind (validate iter (drift_decision_json drift) ''drift-decision.schema.json'') (\<lambda>_.
         let (t, failures, decision) = judge s b drift (build_trace locked s p b evidence);
             evaluation = make_evaluation locked b t failures decision now
         in rbind (validate_domain_invariants iter (ATrace t)) (\<lambda>_.
            rbind (validate_domain_invariants iter (AEvaluation evaluation)) (\<lambda>_. Inr (t, evaluation))))))))))))))"

end
