(* ===== verification/Verdicts.thy ===== *)
theory Verdicts
  imports Evaluation
begin

text \<open>
  What a final evaluation establishes: the trace keeps its own invariants, a proven verdict rests
  on every requirement, and the evaluation never violates the invariants it is validated against.
\<close>

section \<open>The trace\<close>

lemma build_trace_fields [simp]:
  "tr_entries (build_trace locked s p b evidence) = map (trace_entry_for s p b evidence) (sd_requirements s)"
  by (simp add: build_trace_def seal_with_def set_trace_hash_def)

lemma trace_entry_fields [simp]:
  "te_requirement_id (trace_entry_for s p b evidence rq) = rq_id rq"
  "te_status (trace_entry_for s p b evidence rq) = requirement_status s p b evidence rq"
  "te_quality (trace_entry_for s p b evidence rq) = quality_results s p b evidence rq"
  by (simp_all add: trace_entry_for_def)

lemma quality_results_dimensions: "map qr_dimension (quality_results s p b evidence rq) = dimensions"
  by (simp add: quality_results_def comp_def Let_def)

lemma quality_results_distinct:
  "distinct (map (\<lambda>q. dimension_str (qr_dimension q)) (quality_results s p b evidence rq))"
proof -
  have "map (\<lambda>q. dimension_str (qr_dimension q)) (quality_results s p b evidence rq)
      = map dimension_str (map qr_dimension (quality_results s p b evidence rq))"
    by simp
  then show ?thesis unfolding quality_results_dimensions by (simp add: dimensions_def)
qed

lemma quality_results_status:
  "q \<in> set (quality_results s p b evidence rq) \<Longrightarrow> qr_status q = dimension_status s p b evidence rq (qr_dimension q)"
  by (auto simp: quality_results_def Let_def)

lemma trace_verified: "verify_json ''content_hash'' (trace_json (seal_with set_trace_hash trace_json t))"
  by (rule trace_seal.verify_document [THEN iffD1, OF trace_seal.verify_seal])

lemma domain_ok_trace:
  "domain_ok (ATrace t) \<longleftrightarrow> distinct (map te_requirement_id (tr_entries t)) \<and>
    (\<forall>e \<in> set (tr_entries t). distinct (map (\<lambda>q. dimension_str (qr_dimension q)) (te_quality e))) \<and>
    verify_json ''content_hash'' (trace_json t)"
  by (auto simp: domain_ok_def)

lemma build_trace_ok:
  assumes "distinct (map rq_id (sd_requirements s))"
  shows "domain_ok (ATrace (build_trace locked s p b evidence))"
  unfolding domain_ok_trace
proof (intro conjI)
  show "verify_json ''content_hash'' (trace_json (build_trace locked s p b evidence))"
    unfolding build_trace_def by (rule trace_verified)
qed (use assms in \<open>simp_all add: comp_def quality_results_distinct\<close>)

lemma invalidate_trace_fields [simp]: "tr_entries (invalidate_trace t) = map invalidate_entry (tr_entries t)"
  by (simp add: invalidate_trace_def seal_with_def set_trace_hash_def)

lemma invalidate_entry_fields [simp]:
  "te_requirement_id (invalidate_entry e) = te_requirement_id e"
  "te_quality (invalidate_entry e) = te_quality e"
  "te_status (invalidate_entry e) = InvalidatedByDrift"
  by (simp_all add: invalidate_entry_def)

lemma invalidate_trace_ok:
  assumes "domain_ok (ATrace t)"
  shows "domain_ok (ATrace (invalidate_trace t))"
proof -
  have "verify_json ''content_hash'' (trace_json (invalidate_trace t))"
    unfolding invalidate_trace_def by (rule trace_verified)
  with assms show ?thesis unfolding domain_ok_trace by (simp add: comp_def)
qed

section \<open>What a proven requirement means\<close>

definition requirement_met ::
  "success_definition \<Rightarrow> plan \<Rightarrow> build_result \<Rightarrow> evidence_item list \<Rightarrow> requirement \<Rightarrow> bool" where
  "requirement_met s p b evidence rq \<longleftrightarrow>
    base_proven s p b evidence rq \<and> \<not> contradicted p b evidence rq \<and>
    (\<forall>d \<in> set (rq_dimensions rq). dimension_status s p b evidence rq d = QPass)"

lemma required_statuses:
  "set (map qr_status (filter (\<lambda>q. qr_dimension q \<in> set (rq_dimensions rq)) (quality_results s p b evidence rq)))
    = dimension_status s p b evidence rq ` set (rq_dimensions rq)"
  using dimensions_all by (force simp: quality_results_def Let_def image_iff)

lemma requirement_proven_iff:
  "requirement_status s p b evidence rq = Proven \<longleftrightarrow> requirement_met s p b evidence rq"
proof -
  have "(\<forall>q \<in> dimension_status s p b evidence rq ` set (rq_dimensions rq). q = QPass)
      \<longleftrightarrow> (\<forall>d \<in> set (rq_dimensions rq). dimension_status s p b evidence rq d = QPass)"
    by simp
  moreover from this have "(\<forall>q \<in> dimension_status s p b evidence rq ` set (rq_dimensions rq). q = QPass) \<Longrightarrow>
      QFail \<notin> dimension_status s p b evidence rq ` set (rq_dimensions rq)"
    by auto
  ultimately show ?thesis
    unfolding requirement_status_def Let_def required_statuses requirement_met_def by auto
qed

lemma dimension_status_inapplicable:
  "d \<notin> set (rq_dimensions rq) \<Longrightarrow> dimension_status s p b evidence rq d = QNotApplicable"
  by (simp add: dimension_status_def Let_def)

lemma requirement_met_quality:
  assumes "requirement_met s p b evidence rq" and "q \<in> set (quality_results s p b evidence rq)"
  shows "qr_status q \<in> {QPass, QNotApplicable}"
  using assms dimension_status_inapplicable
  by (cases "qr_dimension q \<in> set (rq_dimensions rq)") (auto simp: quality_results_status requirement_met_def)

section \<open>The verdict\<close>

lemma blocking_entries_proven:
  "(\<forall>e \<in> set (tr_entries t). te_status e = Proven) \<Longrightarrow> requirement_failures s t = []"
  by (simp add: requirement_failures_def blocking_entries_def)

lemma requirement_failures_Nil:
  "requirement_failures s t = [] \<longleftrightarrow> (\<forall>e \<in> set (blocking_entries s t). te_status e = Proven)"
  by (simp add: requirement_failures_def)

lemma judge_Proven:
  "judge s b drift t = (t', fs, Proven) \<longleftrightarrow>
    t' = t \<and> fs = [] \<and> \<not> dd_blocking drift \<and> prohibited_ids b = [] \<and>
    (\<forall>e \<in> set (tr_entries t). te_status e = Proven)"
proof
  assume "judge s b drift t = (t', fs, Proven)"
  then show "t' = t \<and> fs = [] \<and> \<not> dd_blocking drift \<and> prohibited_ids b = [] \<and>
    (\<forall>e \<in> set (tr_entries t). te_status e = Proven)"
    by (auto simp: judge_def Let_def split: if_splits)
next
  assume *: "t' = t \<and> fs = [] \<and> \<not> dd_blocking drift \<and> prohibited_ids b = [] \<and>
    (\<forall>e \<in> set (tr_entries t). te_status e = Proven)"
  then have "requirement_failures s t = []" by (simp add: blocking_entries_proven)
  moreover from * have "\<forall>e \<in> set (blocking_entries s t). te_status e \<noteq> Contradicted"
    by (simp add: blocking_entries_def)
  ultimately show "judge s b drift t = (t', fs, Proven)" using * by (simp add: judge_def Let_def)
qed

lemma judge_blocking_failures:
  assumes "judge s b drift t = (t', fs, v)" and "blocking_verdict v"
  shows "fs \<noteq> []"
proof -
  have "requirement_failures s t \<noteq> []" if "e \<in> set (blocking_entries s t)" "te_status e = Contradicted" for e
    unfolding requirement_failures_Nil using that by force
  with assms show ?thesis
    by (auto simp: judge_def Let_def blocking_verdict_def split: if_splits)
qed

lemma judge_failure_ids:
  assumes "judge s b drift t = (t', fs, v)" and "distinct (map te_requirement_id (tr_entries t))"
    and "''relevant-drift'' \<notin> te_requirement_id ` set (tr_entries t)"
  shows "distinct (map bf_id fs)"
proof -
  have ids: "map bf_id (requirement_failures s t) =
      map (\<lambda>e. ''failure.'' @ te_requirement_id e) (filter (\<lambda>e. te_status e \<noteq> Proven) (blocking_entries s t))"
  proof -
    have "map bf_id (for_each es (\<lambda>e. emit (te_status e \<noteq> Proven) (requirement_failure e)))
        = map (\<lambda>e. ''failure.'' @ te_requirement_id e) (filter (\<lambda>e. te_status e \<noteq> Proven) es)" for es
      by (induction es) (simp_all add: requirement_failure_def emit_def)
    then show ?thesis by (simp add: requirement_failures_def)
  qed
  have "distinct (map te_requirement_id (filter (\<lambda>e. te_status e \<noteq> Proven) (blocking_entries s t)))"
    unfolding blocking_entries_def by (intro distinct_map_filter assms(2))
  then have "distinct (map (\<lambda>e. ''failure.'' @ te_requirement_id e) (filter (\<lambda>e. te_status e \<noteq> Proven) (blocking_entries s t)))"
    by (simp add: distinct_map inj_on_def)
  with ids have base: "distinct (map bf_id (requirement_failures s t))" by simp
  have fresh: "''failure.relevant-drift'' \<notin> set (map bf_id (requirement_failures s t))"
    unfolding ids using assms(3) by (auto simp: blocking_entries_def)
  from assms(1) base fresh show ?thesis
    by (auto simp: judge_def Let_def split: if_splits)
qed

lemma judge_trace_ok:
  assumes "judge s b drift t = (t', fs, v)" and "domain_ok (ATrace t)"
  shows "domain_ok (ATrace t')"
  using assms invalidate_trace_ok by (auto simp: judge_def Let_def split: if_splits)

lemma make_evaluation_fields [simp]:
  "fe_decision (make_evaluation locked b t fs v now) = v"
  "fe_blocking (make_evaluation locked b t fs v now) = blocking_verdict v"
  "fe_prohibited (make_evaluation locked b t fs v now) = prohibited_ids b"
  "fe_quality (make_evaluation locked b t fs v now) = aggregate_quality (tr_entries t)"
  by (simp_all add: make_evaluation_def seal_with_def set_evaluation_hash_def)

lemma make_evaluation_failures:
  "blocking_verdict v \<longrightarrow> fs \<noteq> [] \<Longrightarrow> fe_failures (make_evaluation locked b t fs v now) = fs"
  by (auto simp: make_evaluation_def seal_with_def set_evaluation_hash_def)

lemma make_evaluation_verified:
  "verify_json ''content_hash'' (evaluation_json (make_evaluation locked b t fs v now))"
  unfolding make_evaluation_def by (rule evaluation_seal.verify_document [THEN iffD1, OF evaluation_seal.verify_seal])

lemma proven_quality:
  assumes "\<forall>e \<in> set entries. \<forall>q \<in> set (te_quality e). qr_status q \<in> {QPass, QNotApplicable}"
    and "q \<in> set (aggregate_quality entries)"
  shows "qr_status q \<in> {QPass, QNotApplicable}"
proof -
  from assms(2) obtain d where q: "q = summarise_dimension entries d" by (auto simp: aggregate_quality_def)
  show ?thesis
  proof (cases "qr_status q = QNotApplicable")
    case False
    then obtain r where "r \<in> dimension_rows entries d" "qr_status r = qr_status q"
      using summarise_dimension_witnessed q by blast
    with assms(1) show ?thesis by (force simp: dimension_rows_def)
  qed simp
qed

text \<open>The evaluation that is built from a judged trace always satisfies the evaluation invariants.\<close>

lemma judged_evaluation_ok:
  assumes judged: "judge s b drift (build_trace locked s p b evidence) = (t, fs, v)"
    and requirements: "distinct (map rq_id (sd_requirements s))" "''relevant-drift'' \<notin> rq_id ` set (sd_requirements s)"
  shows "domain_ok (AEvaluation (make_evaluation locked b t fs v now))"
proof -
  let ?e = "make_evaluation locked b t fs v now"
  have some: "blocking_verdict v \<longrightarrow> fs \<noteq> []" using judge_blocking_failures [OF judged] by blast
  have failures: "fe_failures ?e = fs" using make_evaluation_failures [OF some] .
  have ids: "distinct (map bf_id fs)"
    using judge_failure_ids [OF judged] requirements by (simp add: comp_def image_image)
  have proven: "fs = [] \<and> prohibited_ids b = [] \<and> (\<forall>q \<in> set (aggregate_quality (tr_entries t)). qr_status q \<in> {QPass, QNotApplicable})"
    if "v = Proven"
  proof -
    from judged that have *: "t = build_trace locked s p b evidence" "fs = []" "prohibited_ids b = []"
      "\<forall>e \<in> set (tr_entries (build_trace locked s p b evidence)). te_status e = Proven"
      by (simp_all add: judge_Proven)
    then have "\<forall>rq \<in> set (sd_requirements s). requirement_met s p b evidence rq"
      by (simp add: requirement_proven_iff)
    then have "qr_status q \<in> {QPass, QNotApplicable}" if "e \<in> set (tr_entries t)" "q \<in> set (te_quality e)" for e q
      using that requirement_met_quality [of s p b evidence _ q] unfolding *(1) build_trace_fields set_map
      by (elim imageE) (simp only: trace_entry_fields, blast)
    with * proven_quality [of "tr_entries t"] show ?thesis by blast
  qed
  have "v \<in> {Unproven, Contradicted, InvalidatedByDrift} \<longleftrightarrow> blocking_verdict v"
    by (simp add: blocking_verdict_def)
  moreover have "\<not> blocking_verdict Proven" by (simp add: blocking_verdict_def)
  ultimately show ?thesis
    using some ids proven make_evaluation_verified aggregate_distinct
    by (auto simp: domain_ok_def Let_def failures)
qed

section \<open>The evaluation as a whole\<close>

lemma check_evidence_Inr:
  "check_evidence iter seen items = Inr u \<longleftrightarrow>
    (\<forall>item \<in> set items. validate_domain_invariants iter (AEvidence item) = Inr ()) \<and>
    distinct (map ev_id items) \<and> ev_id ` set items \<inter> seen = {}"
proof (induction items arbitrary: seen)
  case (Cons item items)
  have "check_evidence iter seen (item # items) = Inr u \<longleftrightarrow>
      validate_domain_invariants iter (AEvidence item) = Inr () \<and> ev_id item \<notin> seen \<and>
      check_evidence iter (insert (ev_id item) seen) items = Inr u"
    by (simp add: rbind_eq_Inr)
  then show ?case unfolding Cons.IH by auto
qed simp

text \<open>The inputs of an evaluation pass every check that precedes the judgement.\<close>

definition admissible_result ::
  "iter_errors \<Rightarrow> locked_plan \<Rightarrow> baseline \<Rightarrow> baseline \<Rightarrow> success_definition \<Rightarrow> plan \<Rightarrow> build_result \<Rightarrow> evidence_item list \<Rightarrow> bool" where
  "admissible_result iter locked locked_baseline post s p b evidence \<longleftrightarrow>
    (\<forall>a \<in> {ALocked locked, ASuccess s, APlan p, ABuild b, ABaseline locked_baseline, ABaseline post}
        \<union> AEvidence ` set evidence. validate_domain_invariants iter a = Inr ()) \<and>
    distinct (map ev_id evidence) \<and>
    (\<forall>g \<in> set (result_guards locked locked_baseline post s p b). fst g)"

definition drift_of :: "success_definition \<Rightarrow> baseline \<Rightarrow> baseline \<Rightarrow> string \<Rightarrow> drift_decision" where
  "drift_of s locked_baseline post now =
    classify \<lparr>de_schema_version = ''1.0.0'', de_id = ''drift.'' @ bl_id post,
        de_baseline_ref = baseline_ref locked_baseline, de_current = post,
        de_changes = baseline_changes locked_baseline post, de_observed_at = now\<rparr>
      (if baseline_changes locked_baseline post \<noteq> [] then sorted_set (map rq_id (sd_requirements s)) else [])"

lemma evaluate_result_eq_Inr:
  "evaluate_result iter locked locked_baseline post s p b evidence now = Inr (t, e) \<Longrightarrow>
    admissible_result iter locked locked_baseline post s p b evidence \<and>
    (\<exists>fs v. judge s b (drift_of s locked_baseline post now) (build_trace locked s p b evidence) = (t, fs, v) \<and>
      e = make_evaluation locked b t fs v now \<and> domain_ok (AEvaluation e) \<and> domain_ok (ATrace t))"
proof -
  assume "evaluate_result iter locked locked_baseline post s p b evidence now = Inr (t, e)"
  then show ?thesis
    unfolding evaluate_result_def Let_def
  proof (elim rbind_InrE, goal_cases)
    case (1 l s' p' b' lb po ev g event x drift)
    obtain t' fs v where j: "judge s b (drift_of s locked_baseline post now) (build_trace locked s p b evidence) = (t', fs, v)"
      by (metis prod.collapse)
    have event: "event = \<lparr>de_schema_version = ''1.0.0'', de_id = ''drift.'' @ bl_id post,
        de_baseline_ref = baseline_ref locked_baseline, de_current = post,
        de_changes = baseline_changes locked_baseline post, de_observed_at = now\<rparr>"
      using 1(9) unfolding compare_baselines_def by (elim rbind_InrE) (simp only: sum.inject)
    from 1(12) j have last: "rbind (validate_domain_invariants iter (ATrace t')) (\<lambda>_.
        rbind (validate_domain_invariants iter (AEvaluation (make_evaluation locked b t' fs v now))) (\<lambda>_.
          Inr (t', make_evaluation locked b t' fs v now))) = Inr (t, e)"
      unfolding drift_of_def event by (simp only: drift_event.select_convs prod.case)
    then have te: "t' = t" "e = make_evaluation locked b t fs v now" "domain_ok (ATrace t)" "domain_ok (AEvaluation e)"
      by (auto elim!: rbind_InrE simp: validate_domain_invariants_eq_Inr)
    have "admissible_result iter locked locked_baseline post s p b evidence"
      unfolding admissible_result_def using 1(1-6) 1(7) [unfolded check_evidence_Inr] 1(8) [unfolded check_guards_Inr]
      by auto
    with j te show ?case by blast
  qed
qed

text \<open>
  With admissible inputs the evaluation returns, unless a requirement carries the identifier that
  the code reserves for the drift failure.
\<close>

lemma validate_accept_all [simp]: "validate accept_all value name = Inr ()"
  by (simp add: accept_all_def)

lemma evaluate_result_total:
  assumes admissible: "admissible_result accept_all locked locked_baseline post s p b evidence"
    and fresh: "''relevant-drift'' \<notin> rq_id ` set (sd_requirements s)"
    and judged: "judge s b (drift_of s locked_baseline post now) (build_trace locked s p b evidence) = (t, fs, v)"
  shows "evaluate_result accept_all locked locked_baseline post s p b evidence now
    = Inr (t, make_evaluation locked b t fs v now)"
proof -
  have valid: "validate_domain_invariants accept_all a = Inr ()"
    if "a \<in> {ALocked locked, ASuccess s, APlan p, ABuild b, ABaseline locked_baseline, ABaseline post}" for a
    using admissible that unfolding admissible_result_def by blast
  have evidence: "check_evidence accept_all {} evidence = Inr ()"
    using admissible unfolding admissible_result_def check_evidence_Inr by blast
  have guards: "check_guards (result_guards locked locked_baseline post s p b) = Inr ()"
    using admissible unfolding admissible_result_def check_guards_Inr by blast
  have ids: "distinct (map rq_id (sd_requirements s))"
    using valid [of "ASuccess s"] by (simp add: validate_domain_invariants_eq_Inr domain_ok_success)
  have trace: "validate_domain_invariants accept_all (ATrace t) = Inr ()"
    using judge_trace_ok [OF judged build_trace_ok [OF ids]]
    by (simp add: validate_domain_invariants_eq_Inr accept_all_def)
  have evaluation: "validate_domain_invariants accept_all (AEvaluation (make_evaluation locked b t fs v now)) = Inr ()"
    using judged_evaluation_ok [OF judged ids fresh] by (simp add: validate_domain_invariants_eq_Inr accept_all_def)
  have compare: "compare_baselines accept_all locked_baseline post now = Inr \<lparr>de_schema_version = ''1.0.0'',
      de_id = ''drift.'' @ bl_id post, de_baseline_ref = baseline_ref locked_baseline, de_current = post,
      de_changes = baseline_changes locked_baseline post, de_observed_at = now\<rparr>"
    by (simp add: compare_baselines_def valid)
  note judged' = judged [unfolded drift_of_def]
  show ?thesis
    unfolding evaluate_result_def
    by (simp only: valid insertI1 insertI2 insert_iff evidence guards compare rbind_Inr validate_accept_all Let_def
        drift_event.select_convs judged' prod.case trace evaluation simp_thms)
qed

end
