(* ===== verification/Build_Fixtures.thy ===== *)
theory Build_Fixtures
  imports Verdicts Fixtures
begin

text \<open>
  The build results and build evidence of the fixture factory (\<open>aflow/fixtures/factory.py\<close>), and the
  evaluation of the fixtures \<open>fully-proven\<close> and \<open>prohibited-outcome\<close>.
\<close>

section \<open>Build evidence and build results\<close>

definition quality_summary :: "(dimension \<times> quality_status) list \<Rightarrow> string" where
  "quality_summary quality =
    join '' '' (map (\<lambda>d. ''quality:'' @ dimension_str d @ ''='' @
      quality_status_str (case map_of quality d of Some q \<Rightarrow> q | None \<Rightarrow> QPass)) all_quality)"

definition artifact_evidence :: "(dimension \<times> quality_status) list \<Rightarrow> bool \<Rightarrow> evidence_item" where
  "artifact_evidence quality is_contradicted =
    fixture_evidence ''evidence.artifact'' ''artifact'' ''The production artifact is directly visible after restart.''
      BuildResultInput (quality_summary quality) (if is_contradicted then ContradictedStatus else Verified)"

definition test_evidence :: evidence_item where
  "test_evidence = fixture_evidence ''evidence.test'' ''test_result'' ''Production-host validation completed.''
    BuildResultInput ''production-host boundary exercised'' Verified"

definition final_evidence :: "(dimension \<times> quality_status) list \<Rightarrow> bool \<Rightarrow> evidence_item list" where
  "final_evidence quality is_contradicted = [artifact_evidence quality is_contradicted, test_evidence]"

definition item_ref :: "evidence_item \<Rightarrow> evidence_reference" where
  "item_ref item = \<lparr>er_id = ev_id item, er_hash = ev_hash item\<rparr>"

text \<open>The factory picks the artifact and the test item out of the list; here they are two arguments.\<close>

definition fixture_build ::
  "locked_plan \<Rightarrow> baseline \<Rightarrow> evidence_item \<Rightarrow> evidence_item \<Rightarrow> bool \<Rightarrow> bool \<Rightarrow> build_status \<Rightarrow> build_result" where
  "fixture_build locked base artifact_ev test_ev matches prohibited status =
    seal_with set_build_hash build_result_json
      \<lparr>br_schema_version = ''1.0.0'', br_id = ''build.fixture'', br_locked_ref = locked_ref locked,
       br_produced_by = ''codex'', br_started_at = ''2026-01-01T00:00:00Z'', br_finished_at = ''2026-01-01T00:01:00Z'',
       br_status = status,
       br_environment = \<lparr>oe_id = (if matches then ''environment.production'' else ''environment.mock''),
         oe_description = (if matches then ''Production host'' else ''Mocked substitute runtime''),
         oe_matches = Some matches\<rparr>,
       br_outputs = [\<lparr>bo_id = ''output.durable'', bo_requirement_ids = [''requirement.durable-output''],
         bo_description = ''Observed durable output.'', bo_artifacts = None, bo_evidence = [item_ref artifact_ev]\<rparr>],
       br_validations = [\<lparr>vr_id = ''validation.production'',
         vr_status = (if status = Failed then FailedValidation else Passed), vr_evidence = [item_ref test_ev]\<rparr>],
       br_checks = [\<lparr>oc_id = ''outcome.data-loss'', oc_present = prohibited, oc_evidence = [item_ref artifact_ev]\<rparr>],
       br_baseline_ref = baseline_ref base, br_hash = []\<rparr>"

text \<open>The lock that the factory obtains for the accepted bundle.\<close>

definition proven_lock :: locked_plan where
  "proven_lock = make_lock request_bundle (make_decision request_bundle [] [] fixed_time) fixed_time"

definition bundle_base :: baseline where
  "bundle_base = fixture_baseline ''unborn'' ''untracked''"

definition fixture_plan_of_bundle :: plan where
  "fixture_plan_of_bundle = fixture_plan fixture_success bundle_base fixture_authority"

definition proven_build :: "bool \<Rightarrow> build_result" where
  "proven_build prohibited =
    fixture_build proven_lock bundle_base (artifact_evidence [] False) test_evidence True prohibited Completed"

section \<open>The bundle is accepted and locked\<close>

lemma bundle_locked: "lock_plan accept_all request_bundle (make_decision request_bundle [] [] fixed_time) fixed_time = Inr proven_lock"
  unfolding lock_plan_eq_Inr proven_lock_def
  using bundle_plan_sound bundle_schemas domain_ok_make_decision [of request_bundle "[]" "[]" fixed_time]
  by (simp add: plan_sound_def accept_all_def)

section \<open>The inputs are admissible\<close>

lemma fixture_build_fields [simp]:
  "br_outputs (fixture_build l base a t m p st) = [\<lparr>bo_id = ''output.durable'', bo_requirement_ids = [''requirement.durable-output''],
         bo_description = ''Observed durable output.'', bo_artifacts = None, bo_evidence = [item_ref a]\<rparr>]"
  "br_validations (fixture_build l base a t m p st) = [\<lparr>vr_id = ''validation.production'',
         vr_status = (if st = Failed then FailedValidation else Passed), vr_evidence = [item_ref t]\<rparr>]"
  "br_checks (fixture_build l base a t m p st) = [\<lparr>oc_id = ''outcome.data-loss'', oc_present = p, oc_evidence = [item_ref a]\<rparr>]"
  "br_status (fixture_build l base a t m p st) = st"
  "br_locked_ref (fixture_build l base a t m p st) = locked_ref l"
  "br_baseline_ref (fixture_build l base a t m p st) = baseline_ref base"
  "oe_matches (br_environment (fixture_build l base a t m p st)) = Some m"
  by (simp_all add: fixture_build_def seal_with_def set_build_hash_def)

lemma fixture_build_ok: "domain_ok (ABuild (fixture_build l base a t m p st))"
proof -
  have "verify_json ''content_hash'' (build_result_json (fixture_build l base a t m p st))"
    unfolding fixture_build_def by (rule build_seal.verify_document [THEN iffD1, OF build_seal.verify_seal])
  then show ?thesis by (simp add: domain_ok_def)
qed

lemma fixture_baseline_ok: "domain_ok (ABaseline (fixture_baseline g d))"
  using fixture_seals(3) [of g d]
  by (simp add: domain_ok_def) (simp add: fixture_baseline_def seal_with_def set_baseline_hash_def)

lemma fixture_evidence_ok: "domain_ok (AEvidence (fixture_evidence ident kind claim vis summary status))"
  by (simp add: domain_ok_def fixture_evidence_verified)

lemma accept_all_domain: "validate_domain_invariants accept_all a = Inr () \<longleftrightarrow> domain_ok a"
  by (simp add: validate_domain_invariants_eq_Inr accept_all_def)

lemma proven_inputs_admissible:
  "admissible_result accept_all proven_lock bundle_base bundle_base fixture_success fixture_plan_of_bundle
    (proven_build prohibited) (final_evidence [] False)"
proof -
  have "domain_ok (ALocked proven_lock)" unfolding proven_lock_def by (rule make_lock_ok)
  moreover have "domain_ok (ABaseline bundle_base)" unfolding bundle_base_def by (rule fixture_baseline_ok)
  moreover have "domain_ok (APlan fixture_plan_of_bundle)" unfolding fixture_plan_of_bundle_def by (rule fixture_plan_ok)
  moreover have "domain_ok (ABuild (proven_build prohibited))" unfolding proven_build_def by (rule fixture_build_ok)
  moreover have "domain_ok (AEvidence (artifact_evidence [] False))" "domain_ok (AEvidence test_evidence)"
    unfolding artifact_evidence_def test_evidence_def by (rule fixture_evidence_ok)+
  moreover have "\<forall>g \<in> set (result_guards proven_lock bundle_base bundle_base fixture_success fixture_plan_of_bundle (proven_build prohibited)). fst g"
    by (simp add: result_guards_def proven_build_def proven_lock_def fixture_plan_of_bundle_def bundle_base_def)
      (simp add: fixture_plan_def fixture_validation_def fixture_requirement_def fixture_success_def confirm_def confirm_hash_def)
  ultimately show ?thesis
    unfolding admissible_result_def accept_all_domain
    by (simp add: final_evidence_def fixture_success_ok) (simp add: artifact_evidence_def test_evidence_def)
qed

section \<open>The fixture \<open>fully-proven\<close>\<close>

lemma artifact_text: "lower (evidence_text (artifact_evidence [] False)) =
  ''the production artifact is directly visible after restart. quality:correctness=pass quality:completeness=pass quality:usability=pass quality:consistency=pass quality:reliability=pass quality:evidence_quality=pass quality:constraint_compliance=pass''"
  by (simp add: evidence_text_def artifact_evidence_def quality_summary_def all_quality_def lower_def lower_char_def)
    code_simp

lemma test_text: "lower (evidence_text test_evidence) =
  ''production-host validation completed. production-host boundary exercised''"
  by (simp add: evidence_text_def test_evidence_def lower_def lower_char_def) code_simp

lemmas quality_search = match_quality_def match_statement_def startswith_def status_prefix_def is_space_def

lemma artifact_quality: "stated_quality d (artifact_evidence [] False) = Some QPass"
  unfolding stated_quality_def artifact_text by (cases d) (simp_all add: quality_search)

lemma test_quality: "stated_quality d test_evidence = None"
  unfolding stated_quality_def test_text by (cases d) (simp_all add: quality_search)

lemma final_evidence_ids: "map ev_id (final_evidence [] False) = [''evidence.artifact'', ''evidence.test'']"
  by (simp add: final_evidence_def artifact_evidence_def test_evidence_def)

lemma final_evidence_visible:
  "visible_item (final_evidence [] False) (item_ref (artifact_evidence [] False)) = Some (artifact_evidence [] False)"
  "visible_item (final_evidence [] False) (item_ref test_evidence) = Some test_evidence"
proof -
  have distinct: "distinct (map ev_id (final_evidence [] False))"
    unfolding final_evidence_ids by simp
  have "map_of (evidence_index (final_evidence [] False)) (ev_id item) = Some item"
    if "item \<in> set (final_evidence [] False)" for item
    unfolding evidence_index_def by (rule key_by_lookup [OF distinct that])
  then show
    "visible_item (final_evidence [] False) (item_ref (artifact_evidence [] False)) = Some (artifact_evidence [] False)"
    "visible_item (final_evidence [] False) (item_ref test_evidence) = Some test_evidence"
    by (simp_all add: visible_item_def item_ref_def final_evidence_def)
qed

lemma final_evidence_trusted: "is_trusted_evidence (artifact_evidence [] False)" "is_trusted_evidence test_evidence"
  by (simp_all add: is_trusted_evidence_def artifact_evidence_def test_evidence_def)

lemma fixture_refs:
  "requirement_refs fixture_plan_of_bundle (proven_build prohibited) fixture_requirement =
    [item_ref (artifact_evidence [] False), item_ref test_evidence]"
proof -
  have "item_ref (artifact_evidence [] False) \<noteq> item_ref test_evidence"
    by (simp add: item_ref_def artifact_evidence_def test_evidence_def)
  then show ?thesis
    by (simp add: requirement_refs_def requirement_outputs_def requirement_results_def requirement_plans_def
        proven_build_def fixture_plan_of_bundle_def fixture_requirement_def unique_in_order_def dict_of_def key_by_def)
      (simp add: fixture_plan_def fixture_validation_def)
qed

lemma fixture_visible:
  "visible_evidence fixture_plan_of_bundle (proven_build prohibited) (final_evidence [] False) fixture_requirement =
    final_evidence [] False"
  unfolding visible_evidence_def fixture_refs
  by (simp add: List.map_filter_simps final_evidence_visible) (simp add: final_evidence_def)

lemma fixture_trusted:
  "trusted_evidence fixture_plan_of_bundle (proven_build prohibited) (final_evidence [] False) fixture_requirement =
    final_evidence [] False"
  unfolding trusted_evidence_def fixture_visible by (simp add: final_evidence_def final_evidence_trusted)

lemma fixture_quality: "explicit_quality (final_evidence [] False) d = Some QPass"
  by (simp add: explicit_quality_def final_evidence_def List.map_filter_simps artifact_quality test_quality)

lemma fixture_refs_valid:
  "refs_valid fixture_plan_of_bundle (proven_build prohibited) (final_evidence [] False) fixture_requirement"
  unfolding refs_valid_def fixture_visible fixture_refs by (simp add: final_evidence_def)

lemma fixture_types_match:
  "types_match fixture_success fixture_plan_of_bundle (proven_build prohibited) (final_evidence [] False) fixture_requirement"
  unfolding types_match_def fixture_trusted
  by (auto simp: required_types_def final_evidence_def or_default_def fixture_proof_def)
    (simp_all add: artifact_evidence_def test_evidence_def)

lemma fixture_base_proven:
  "base_proven fixture_success fixture_plan_of_bundle (proven_build False) (final_evidence [] False) fixture_requirement"
proof -
  have "requirement_outputs (proven_build False) fixture_requirement \<noteq> []"
    by (simp add: requirement_outputs_def proven_build_def fixture_requirement_def)
  moreover have "validations_pass fixture_plan_of_bundle (proven_build False) fixture_requirement"
    by (simp add: validations_pass_def requirement_results_def requirement_plans_def proven_build_def
        fixture_plan_of_bundle_def fixture_plan_def fixture_validation_def fixture_requirement_def key_by_def dict_of_def)
  moreover have "environment_matches (proven_build False)" "\<not> prohibited_present (proven_build False)"
    by (simp_all add: environment_matches_def prohibited_present_def proven_build_def)
  moreover have "absence_evidenced fixture_success (proven_build False) (final_evidence [] False)"
  proof -
    have "map_of (evidence_index (final_evidence [] False)) (er_id (item_ref (artifact_evidence [] False)))
        = Some (artifact_evidence [] False)"
      using final_evidence_visible(1) by (auto simp: visible_item_def split: option.splits if_splits)
    then show ?thesis
      by (simp add: absence_evidenced_def proven_build_def final_evidence_trusted)
        (simp add: item_ref_def fixture_success_def confirm_def confirm_hash_def)
  qed
  ultimately show ?thesis
    unfolding base_proven_def using fixture_refs_valid fixture_types_match by blast
qed

lemma fixture_requirement_met:
  "requirement_met fixture_success fixture_plan_of_bundle (proven_build False) (final_evidence [] False) fixture_requirement"
proof -
  have "\<not> prohibited_present (proven_build False)"
    using fixture_base_proven by (simp add: base_proven_def)
  then have "dimension_status fixture_success fixture_plan_of_bundle (proven_build False) (final_evidence [] False)
      fixture_requirement d = QPass" if "d \<in> set (rq_dimensions fixture_requirement)" for d
    using that by (simp add: dimension_status_def Let_def fixture_trusted fixture_quality)
  moreover have "\<not> contradicted fixture_plan_of_bundle (proven_build False) (final_evidence [] False) fixture_requirement"
    unfolding contradicted_def fixture_visible
    by (simp add: final_evidence_def proven_build_def) (simp add: artifact_evidence_def test_evidence_def)
  ultimately show ?thesis unfolding requirement_met_def using fixture_base_proven by blast
qed

lemma no_drift_same:
  assumes "domain_ok (ABaseline a)"
  shows "\<not> dd_blocking (drift_of s a a now)"
proof -
  have "baseline_changes a a = []"
    unfolding no_changes_iff [OF assms assms] by (auto simp: entry_unchanged_def authority_unchanged_def)
  then show ?thesis by (simp add: drift_of_def classify_def drift_outcome_def)
qed

lemma fixture_judged:
  "judge fixture_success (proven_build False) (drift_of fixture_success bundle_base bundle_base now)
    (build_trace proven_lock fixture_success fixture_plan_of_bundle (proven_build False) (final_evidence [] False))
    = (build_trace proven_lock fixture_success fixture_plan_of_bundle (proven_build False) (final_evidence [] False), [], Proven)"
  unfolding judge_Proven
  by (simp add: no_drift_same fixture_baseline_ok bundle_base_def requirement_proven_iff fixture_requirement_met [unfolded bundle_base_def]) (simp add: prohibited_ids_def proven_build_def)

lemma fixture_evaluated:
  "\<exists>t e. evaluate_result accept_all proven_lock bundle_base bundle_base fixture_success fixture_plan_of_bundle
    (proven_build False) (final_evidence [] False) now = Inr (t, e) \<and> fe_decision e = Proven"
proof -
  have "''relevant-drift'' \<notin> rq_id ` set (sd_requirements fixture_success)"
    by (simp add: fixture_requirement_def)
  from evaluate_result_total [OF proven_inputs_admissible this fixture_judged] show ?thesis by auto
qed

end
