(* ===== verification/Lifecycle_Properties.thy ===== *)
theory Lifecycle_Properties
  imports Build_Fixtures
begin

text \<open>
  The properties of drift, locking, the closure of findings and the final evaluation.
\<close>

section \<open>Lifecycle and locking\<close>

text \<open>
  C5: A plan reaches a state only through the earlier ones: since its last analysis its history
  has every earlier stage in order, and it can be invalidated only after it was locked.
\<close>

theorem history_in_order:
  assumes "history (s # ss)"
  shows "prefix (stage s) ss \<and> (s = StateInvalidated \<longrightarrow> Locked \<in> set ss)"
  using history_stage [OF assms] history_invalidated [of ss] assms by auto

theorem history_in_order_witness: "prefix [Accepted, Analyzed] [Accepted, Analyzed, Draft]"
proof -
  have "history [Locked, Accepted, Analyzed, Draft]"
    by (simp add: history_step transition_Inr history.start)
  from history_in_order [OF this] show ?thesis by simp
qed


text \<open>
  Analysis and locking fit together: a clean decision that the analysis returns for a request
  always locks that request, provided the schema of locks accepts the document.
\<close>

lemma accepted_plan_locks:
  assumes "iter ''analysis-request.schema.json'' (request_json r) = []"
    and "analyze iter (Shaped r) (Some reviewer) now = Inr d" and "dc_kind d = NoMaterialGap"
    and "iter ''locked-plan.schema.json'' (locked_plan_json (make_lock r d later)) = []"
  shows "lock_plan iter r d later = Inr (make_lock r d later)"
proof -
  have admitted: "analyze_admitted iter r reviewer now = Inr d"
    using analyze_Shaped [OF assms(2,1)] by simp
  then obtain det acc rej where d: "d = make_decision r (det @ acc) rej now"
    and schema: "iter ''analysis-decision.schema.json'' (decision_json d) = []"
    unfolding analyze_admitted_eq_Inr by blast
  from d assms(3) have "det @ acc = []" by (auto split: if_splits)
  then have "dc_ready d" and refs: "dc_plan_ref d = plan_ref (aq_plan r)" "dc_success_ref d = success_ref (aq_success r)"
    using d by simp_all
  with analyze_admitted_ready [OF admitted] have "schemas_accept iter r" "plan_sound r" by simp_all
  then show ?thesis
    unfolding lock_plan_eq_Inr
    using schema assms(3,4) refs \<open>dc_ready d\<close> analyze_domain_ok [OF assms(2)] by (simp add: plan_sound_def)
qed

theorem accepted_plan_locks_witness:
  "lock_plan accept_all request_bundle (make_decision request_bundle [] [] fixed_time) fixed_time = Inr proven_lock"
  unfolding proven_lock_def
proof (rule accepted_plan_locks)
  show "analyze accept_all (Shaped request_bundle) (Some null_review) fixed_time
      = Inr (make_decision request_bundle [] [] fixed_time)"
    using bundle_analysis [of fixed_time] by (simp add: analyze_def Let_def accept_all_def)
qed (simp_all add: accept_all_def)

section \<open>Drift\<close>

text \<open>
  C7: When a comparison is classified as not blocking, the repository root, the scope and the
  authority hashes are the locked ones, and so is every entry that either baseline classifies as
  more than unrelated.
\<close>

theorem nonblocking_drift_is_unrelated:
  assumes "compare_baselines iter locked current now = Inr event"
    and "\<not> dd_blocking (classify event requirements)"
  shows "bl_root locked = bl_root current \<and> bl_scope locked = bl_scope current \<and>
    authority_unchanged locked current \<and>
    (\<forall>e \<in> set (bl_entries locked) \<union> set (bl_entries current).
      be_class e \<noteq> Unrelated \<longrightarrow> entry_unchanged locked current (be_path e))"
proof -
  have ok: "domain_ok (ABaseline locked)" "domain_ok (ABaseline current)"
    and "de_changes event = baseline_changes locked current"
    using compare_baselines_eq_Inr [OF assms(1)] by simp_all
  with assms(2) have *: "\<forall>c \<in> set (baseline_changes locked current). ch_class c = Unrelated \<and> ch_type c \<noteq> BaselineUnverifiable"
    by (simp add: drift_outcome_blocking)
  show ?thesis
    using nonblocking_changes(1-3) [OF *] baseline_unchanged_entry [OF ok *] by blast
qed

theorem nonblocking_drift_is_unrelated_witness:
  "bl_root bundle_base = bl_root bundle_base \<and> authority_unchanged bundle_base bundle_base"
proof -
  have ok: "domain_ok (ABaseline bundle_base)" unfolding bundle_base_def by (rule fixture_baseline_ok)
  then have "validate_domain_invariants accept_all (ABaseline bundle_base) = Inr ()" by (simp only: accept_all_domain)
  then obtain event where event: "compare_baselines accept_all bundle_base bundle_base fixed_time = Inr event"
    by (simp add: compare_baselines_def)
  moreover have "baseline_changes bundle_base bundle_base = []"
    unfolding no_changes_iff [OF ok ok] by (auto simp: entry_unchanged_def authority_unchanged_def)
  ultimately have "\<not> dd_blocking (classify event [])"
    using compare_baselines_eq_Inr [OF event] by (simp add: drift_outcome_def)
  from nonblocking_drift_is_unrelated [OF event this] show ?thesis by blast
qed

text \<open>
  Two valid baselines compare without any change exactly when root, scope, authority hashes
  and every entry agree.
\<close>

lemma no_drift_iff_same:
  assumes "domain_ok (ABaseline a)" and "domain_ok (ABaseline b)"
  shows "fst (drift_outcome (baseline_changes a b)) = NoDrift \<longleftrightarrow>
    bl_root a = bl_root b \<and> bl_scope a = bl_scope b \<and> authority_unchanged a b \<and>
    (\<forall>path \<in> be_path ` set (bl_entries a) \<union> be_path ` set (bl_entries b). entry_unchanged a b path)"
  unfolding drift_outcome_none no_changes_iff [OF assms] ..

theorem no_drift_iff_same_witness:
  "fst (drift_outcome (baseline_changes (fixture_baseline ''unborn'' ''untracked'')
    (fixture_baseline ''available'' ''clean''))) = NoDrift"
  unfolding no_drift_iff_same [OF fixture_baseline_ok fixture_baseline_ok]
  by (simp add: entry_unchanged_def authority_unchanged_def authority_map_def)
    (simp add: fixture_baseline_def seal_with_def set_baseline_hash_def)

end
