(* ===== verification/Evaluation_Properties.thy ===== *)
theory Evaluation_Properties
  imports Build_Fixtures
begin

text \<open>
  The properties of the closure of findings and of the final evaluation.
\<close>

section \<open>Closing findings\<close>

text \<open>
  A revision of the fixture plan: the plan of the bundle supersedes version 0.9.0, against which one
  finding was open.
\<close>

definition earlier_plan :: plan where
  "earlier_plan = fixture_plan_of_bundle\<lparr>pl_version := ''0.9.0''\<rparr>"

definition prior_of :: "finding \<Rightarrow> decision" where
  "prior_of f = make_decision (request_bundle\<lparr>aq_plan := earlier_plan\<rparr>) [f] [] fixed_time"

definition closure_of :: "finding \<Rightarrow> closure_request" where
  "closure_of f = \<lparr>cq_schema_version = ''1.0.0'', cq_id = ''closure.fixture'', cq_prior_ref = decision_ref (prior_of f),
    cq_original_ref = plan_ref earlier_plan, cq_revised_plan = fixture_plan_of_bundle, cq_added_evidence = []\<rparr>"

definition version_finding :: "origin \<Rightarrow> finding" where
  "version_finding org = make_finding ''review.version'' BrokenReference org [''/plan/version'']
    ''The plan version is not the reviewed one.'' [] None None None"

lemma earlier_plan_ok: "domain_ok (APlan earlier_plan)"
  using fixture_plan_ok [of fixture_success bundle_base fixture_authority]
  by (simp add: domain_ok_plan earlier_plan_def fixture_plan_of_bundle_def)

lemma bundle_plan_fields: "aq_plan request_bundle = fixture_plan_of_bundle"
  by (simp add: fixture_plan_of_bundle_def bundle_base_def)

lemma bundle_plan_success: "pl_success_ref fixture_plan_of_bundle = success_ref fixture_success"
  unfolding fixture_plan_of_bundle_def by (simp add: fixture_plan_def)

lemma version_changed: "locations_changed earlier_plan fixture_plan_of_bundle [''/plan/version'']"
  by (simp add: locations_changed_iff location_changed_def pointer_value_def scope_to_plan_def startswith_def
      removeprefix_def pointer_tokens_def lstrip_char_def unescape_token_def replace_def plan_json_def earlier_plan_def)
    (simp add: fixture_plan_of_bundle_def fixture_plan_def)

lemma version_gate:
  "fst (predicate_gate (version_finding org) True added r replayed) \<longleftrightarrow> org = Deterministic \<or> replayed"
  by (cases org) (simp_all add: predicate_gate_def version_finding_def make_finding_def Let_def
      evidence_codes_def change_codes_def startswith_def)

lemma version_status:
  "fr_status (close_finding earlier_plan fixture_plan_of_bundle request_bundle replayed []
      (make_decision request_bundle [] [] now) (version_finding org))
    = (if org = Deterministic \<or> replayed then Closed else StillOpen)"
  unfolding close_finding_status
  by (simp add: version_finding_def version_changed gap_remains_def) (simp add: version_gate flip: version_finding_def)

lemma closure_guards_hold: "\<forall>g \<in> set (closure_guards (closure_of f) (prior_of f) earlier_plan request_bundle). fst g"
  unfolding closure_guards_def closure_of_def prior_of_def bundle_plan_fields
  by (simp add: bundle_plan_success key_by_def dict_of_def)

definition closed_of :: "finding \<Rightarrow> string \<Rightarrow> closure_result" where
  "closed_of f now = seal_with set_closure_hash closure_result_json
    \<lparr>cl_schema_version = ''1.0.0'', cl_id = ''closure.fixture'', cl_prior_ref = decision_ref (prior_of f),
     cl_revised_ref = plan_ref fixture_plan_of_bundle,
     cl_results = [close_finding earlier_plan fixture_plan_of_bundle request_bundle False []
       (make_decision request_bundle [] [] now) f],
     cl_decision = make_decision request_bundle [] [] now, cl_hash = []\<rparr>"

lemma closed_of_fields [simp]:
  "cl_results (closed_of f now) = [close_finding earlier_plan fixture_plan_of_bundle request_bundle False []
       (make_decision request_bundle [] [] now) f]"
  "cl_decision (closed_of f now) = make_decision request_bundle [] [] now"
  by (simp_all add: closed_of_def seal_with_def set_closure_hash_def)

lemma closed_of_verified: "verify_json ''content_hash'' (closure_result_json (closed_of f now))"
  unfolding closed_of_def by (rule closure_seal.verify_document [THEN iffD1, OF closure_seal.verify_seal])

lemma closure_run:
  "close_findings accept_all (closure_of f) (prior_of f) earlier_plan request_bundle None now =
    rbind (validate_domain_invariants accept_all (AClosure (closed_of f now))) (\<lambda>_. Inr (closed_of f now))"
proof -
  have request: "validate_domain_invariants accept_all (AClosureRequest (closure_of f)) = Inr ()"
    by (simp only: accept_all_domain) (simp add: domain_ok_def)
  have prior: "validate_domain_invariants accept_all (ADecision (prior_of f)) = Inr ()"
    by (simp only: accept_all_domain prior_of_def domain_ok_make_decision) simp
  have original: "validate_domain_invariants accept_all (APlan earlier_plan) = Inr ()"
    using earlier_plan_ok by (simp only: accept_all_domain)
  have guards: "check_guards (closure_guards (closure_of f) (prior_of f) earlier_plan request_bundle) = Inr ()"
    using closure_guards_hold [of f] by (simp only: check_guards_Inr)
  have fields: "cq_added_evidence (closure_of f) = []" "cq_revised_plan (closure_of f) = fixture_plan_of_bundle"
    "cq_id (closure_of f) = ''closure.fixture''" "cq_prior_ref (closure_of f) = decision_ref (prior_of f)"
    "dc_findings (prior_of f) = [f]"
    by (simp_all add: closure_of_def prior_of_def)
  show ?thesis
    unfolding close_findings_def request prior original guards bundle_analysis rbind_Inr Let_def fields closed_of_def
    by simp
qed

lemma closed_of_domain:
  "validate_domain_invariants accept_all (AClosure (closed_of (version_finding org) now)) =
    (if org = Deterministic then Inr ()
     else Inl (DomainInvariantError ''closure cannot be clean while an original finding remains unresolved''))"
proof -
  have "unique_ids (map fr_id (cl_results (closed_of (version_finding org) now))) ''closure finding'' = Inr ()"
    by simp
  moreover have "(\<exists>r \<in> set (cl_results (closed_of (version_finding org) now)). fr_status r \<in> {StillOpen, PartiallyClosed})
      \<longleftrightarrow> org \<noteq> Deterministic"
    by (simp add: version_status)
  ultimately show ?thesis
    unfolding validate_domain_invariants_def validate_accept_all rbind_Inr domain_checks.simps Let_def
    by (simp only: run_all.simps closed_of_verified closed_of_fields make_decision_fields) simp
qed

lemma version_closed:
  "close_findings accept_all (closure_of (version_finding Deterministic)) (prior_of (version_finding Deterministic))
    earlier_plan request_bundle None now = Inr (closed_of (version_finding Deterministic) now)"
  unfolding closure_run closed_of_domain by simp

text \<open>
  C8: Closure reports on exactly the prior findings, in their order.  A finding it calls closed is
  not found again by the reanalysis, which is clean; the plan changed at a challenged location or
  evidence was added; and an external reviewer's finding was replayed by a reviewer.
\<close>

theorem closed_finding_is_resolved:
  assumes "close_findings iter c prior original r reviewer now = Inr res"
  shows "map fr_id (cl_results res) = map fd_id (dc_findings prior) \<and>
    (\<forall>f \<in> set (dc_findings prior). \<forall>x \<in> set (cl_results res). fr_id x = fd_id f \<and> fr_status x = Closed \<longrightarrow>
      \<not> gap_remains f (dc_findings (cl_decision res)) \<and> dc_kind (cl_decision res) = NoMaterialGap \<and>
      (locations_changed original (cq_revised_plan c) (fd_locations f) \<or> cq_added_evidence c \<noteq> []) \<and>
      (fd_origin f = Deterministic \<or> reviewer \<noteq> None \<or> startswith (fd_id f) ''semantic.''))"
proof -
  define refs where "refs = map (\<lambda>e. \<lparr>er_id = ev_id e, er_hash = ev_hash e\<rparr>) (cq_added_evidence c)"
  from assms obtain d where d: "cl_decision res = d" "domain_ok (ADecision prior)"
    and results: "cl_results res = map (close_finding original (cq_revised_plan c) r (reviewer \<noteq> None) refs d) (dc_findings prior)"
    unfolding refs_def by (elim close_findings_D)
  have "distinct (map fd_id (dc_findings prior))" using d(2) by (simp add: domain_ok_decision)
  then have same: "x = close_finding original (cq_revised_plan c) r (reviewer \<noteq> None) refs d f"
    if "f \<in> set (dc_findings prior)" "x \<in> set (cl_results res)" "fr_id x = fd_id f" for f x
    using that unfolding results by (auto dest: inj_onD [OF distinct_map [THEN iffD1, THEN conjunct2]])
  have "\<not> gap_remains f (dc_findings d) \<and> dc_kind d = NoMaterialGap \<and>
      (locations_changed original (cq_revised_plan c) (fd_locations f) \<or> cq_added_evidence c \<noteq> []) \<and>
      (fd_origin f = Deterministic \<or> reviewer \<noteq> None \<or> startswith (fd_id f) ''semantic.'')"
    if "fr_status (close_finding original (cq_revised_plan c) r (reviewer \<noteq> None) refs d f) = Closed" for f
  proof -
    have gate: "fst (predicate_gate f (locations_changed original (cq_revised_plan c) (fd_locations f)) (refs \<noteq> []) r (reviewer \<noteq> None))"
      and "\<not> gap_remains f (dc_findings d)" "dc_kind d = NoMaterialGap"
      using that unfolding close_finding_status by (simp_all split: if_splits)
    moreover have "refs \<noteq> [] \<longleftrightarrow> cq_added_evidence c \<noteq> []" by (simp add: refs_def)
    ultimately show ?thesis using predicate_gate_needs_revision [OF gate] predicate_gate_replay [OF gate] by blast
  qed
  moreover have "map fr_id (cl_results res) = map fd_id (dc_findings prior)" by (simp add: results comp_def)
  ultimately show ?thesis using same unfolding d(1) by blast
qed

theorem closed_finding_is_resolved_witness:
  "\<exists>res. close_findings accept_all (closure_of (version_finding Deterministic)) (prior_of (version_finding Deterministic))
      earlier_plan request_bundle None fixed_time = Inr res \<and>
    map fr_status (cl_results res) = [Closed] \<and> map fr_id (cl_results res) = [''review.version'']"
  using closed_finding_is_resolved [OF version_closed [of fixed_time], THEN conjunct1] version_closed [of fixed_time]
  by (intro exI conjI) (assumption, simp add: version_status, simp add: prior_of_def version_finding_def)

text \<open>
  A clean reanalysis does not end in a report when a finding's reviewer is not replayed: the
  branch that leaves such a finding open builds a result that the closure invariant refuses, so
  the call raises.
\<close>

lemma unreplayed_closure_raises:
  "close_findings accept_all (closure_of (version_finding Semantic)) (prior_of (version_finding Semantic))
    earlier_plan request_bundle None now =
      Inl (DomainInvariantError ''closure cannot be clean while an original finding remains unresolved'')"
  unfolding closure_run closed_of_domain by simp

section \<open>The final evaluation\<close>

text \<open>
  C9: An evaluation is proven exactly when no drift blocks, no prohibited outcome was observed and
  every requirement is met: outputs, passing validations, resolvable evidence of the required
  types, the required environment, evidenced absence of prohibited outcomes, and every declared
  quality dimension.
\<close>

theorem evaluation_proven_iff:
  assumes "evaluate_result iter locked locked_baseline post s p b evidence now = Inr (t, e)"
  shows "fe_decision e = Proven \<longleftrightarrow>
    \<not> dd_blocking (drift_of s locked_baseline post now) \<and> prohibited_ids b = [] \<and>
    (\<forall>rq \<in> set (sd_requirements s). requirement_met s p b evidence rq)"
proof -
  from evaluate_result_eq_Inr [OF assms] obtain fs v where
    judged: "judge s b (drift_of s locked_baseline post now) (build_trace locked s p b evidence) = (t, fs, v)"
    and e: "fe_decision e = v" by auto
  show ?thesis
  proof
    assume "fe_decision e = Proven"
    with judged e show "\<not> dd_blocking (drift_of s locked_baseline post now) \<and> prohibited_ids b = [] \<and>
        (\<forall>rq \<in> set (sd_requirements s). requirement_met s p b evidence rq)"
      by (simp add: judge_Proven requirement_proven_iff)
  next
    assume "\<not> dd_blocking (drift_of s locked_baseline post now) \<and> prohibited_ids b = [] \<and>
        (\<forall>rq \<in> set (sd_requirements s). requirement_met s p b evidence rq)"
    then have "judge s b (drift_of s locked_baseline post now) (build_trace locked s p b evidence)
        = (build_trace locked s p b evidence, [], Proven)"
      by (simp add: judge_Proven requirement_proven_iff)
    with judged e show "fe_decision e = Proven" by simp
  qed
qed

theorem evaluation_proven_iff_witness:
  "requirement_met fixture_success fixture_plan_of_bundle (proven_build False) (final_evidence [] False) fixture_requirement"
proof -
  obtain t e where run: "evaluate_result accept_all proven_lock bundle_base bundle_base fixture_success
      fixture_plan_of_bundle (proven_build False) (final_evidence [] False) fixed_time = Inr (t, e)"
    and "fe_decision e = Proven"
    using fixture_evaluated by blast
  with evaluation_proven_iff [OF run] have "\<forall>rq \<in> set (sd_requirements fixture_success).
      requirement_met fixture_success fixture_plan_of_bundle (proven_build False) (final_evidence [] False) rq"
    by blast
  moreover have "fixture_requirement \<in> set (sd_requirements fixture_success)" by simp
  ultimately show ?thesis by blast
qed

text \<open>
  With admissible inputs the evaluation returns a trace and an evaluation, whatever the
  evidence shows, unless a requirement carries the identifier that the code uses for the failure
  of drift.
\<close>

lemma evaluation_returns:
  assumes "admissible_result accept_all locked locked_baseline post s p b evidence"
    and "''relevant-drift'' \<notin> rq_id ` set (sd_requirements s)"
  shows "\<exists>t e. evaluate_result accept_all locked locked_baseline post s p b evidence now = Inr (t, e)"
proof -
  obtain t fs v where "judge s b (drift_of s locked_baseline post now) (build_trace locked s p b evidence) = (t, fs, v)"
    by (metis prod.collapse)
  from evaluate_result_total [OF assms this] show ?thesis by blast
qed

lemma evaluation_returns_witness:
  "\<exists>t e. evaluate_result accept_all proven_lock bundle_base bundle_base fixture_success fixture_plan_of_bundle
    (proven_build True) (final_evidence [] False) fixed_time = Inr (t, e)"
  by (rule evaluation_returns [OF proven_inputs_admissible]) (simp add: fixture_requirement_def)

text \<open>
  An observed prohibited outcome is never overlooked: an evaluation of a build that reports one
  blocks, with at least one failure, and lists it.
\<close>

lemma prohibited_outcome_blocks:
  assumes "evaluate_result iter locked locked_baseline post s p b evidence now = Inr (t, e)"
    and "oc \<in> set (br_checks b)" and "oc_present oc"
  shows "fe_blocking e \<and> fe_decision e \<in> {Contradicted, InvalidatedByDrift} \<and> fe_failures e \<noteq> [] \<and>
    oc_id oc \<in> set (fe_prohibited e)"
proof -
  from evaluate_result_eq_Inr [OF assms(1)] obtain fs v where
    judged: "judge s b (drift_of s locked_baseline post now) (build_trace locked s p b evidence) = (t, fs, v)"
    and e: "e = make_evaluation locked b t fs v now" by blast
  have "oc_id oc \<in> set (prohibited_ids b)" using assms(2,3) by (auto simp: prohibited_ids_def)
  moreover from this judged have v: "v \<in> {Contradicted, InvalidatedByDrift}"
    by (auto simp: judge_def Let_def split: if_splits)
  moreover from v have blocking: "blocking_verdict v" by (auto simp: blocking_verdict_def)
  moreover have "fe_failures e = fs" "fs \<noteq> []"
    using judge_blocking_failures [OF judged blocking] make_evaluation_failures [of v fs] by (simp_all add: e)
  ultimately show ?thesis by (simp add: e)
qed

lemma prohibited_outcome_blocks_witness:
  "\<exists>t e. evaluate_result accept_all proven_lock bundle_base bundle_base fixture_success fixture_plan_of_bundle
    (proven_build True) (final_evidence [] False) fixed_time = Inr (t, e) \<and> ''outcome.data-loss'' \<in> set (fe_prohibited e)"
proof -
  obtain t fs v where "judge fixture_success (proven_build True) (drift_of fixture_success bundle_base bundle_base fixed_time)
      (build_trace proven_lock fixture_success fixture_plan_of_bundle (proven_build True) (final_evidence [] False)) = (t, fs, v)"
    by (metis prod.collapse)
  then obtain t e where run: "evaluate_result accept_all proven_lock bundle_base bundle_base fixture_success
      fixture_plan_of_bundle (proven_build True) (final_evidence [] False) fixed_time = Inr (t, e)"
    using evaluate_result_total [OF proven_inputs_admissible] by (force simp: fixture_requirement_def)
  have "\<lparr>oc_id = ''outcome.data-loss'', oc_present = True, oc_evidence = [item_ref (artifact_evidence [] False)]\<rparr>
      \<in> set (br_checks (proven_build True))"
    by (simp add: proven_build_def)
  from prohibited_outcome_blocks [OF run this] run show ?thesis by auto
qed

text \<open>
  The quality summary reports for each dimension the worst status of any requirement, and a
  status it reports is one that some requirement has.
\<close>

lemma quality_summary_is_worst:
  assumes "entry \<in> set entries" and "q \<in> set (te_quality entry)" and "x \<in> set (aggregate_quality entries)"
    and "qr_dimension x = qr_dimension q"
  shows "qr_status x \<le> qr_status q \<and>
    (qr_status x = QNotApplicable \<or> (\<exists>y \<in> dimension_rows entries (qr_dimension x). qr_status y = qr_status x))"
proof -
  from assms(3) obtain d where x: "x = summarise_dimension entries d" by (auto simp: aggregate_quality_def)
  moreover have d: "qr_dimension (summarise_dimension entries d) = d"
    by (simp add: summarise_dimension_def Let_def split: list.split)
  ultimately have "q \<in> dimension_rows entries d" using assms by (auto simp: dimension_rows_def)
  with summarise_dimension_worst summarise_dimension_witnessed [of entries d] x d show ?thesis by fastforce
qed

definition failed_usability :: trace_entry where
  "failed_usability = \<lparr>te_requirement_id = ''r'', te_outcome = [], te_evidence = [],
    te_quality = [\<lparr>qr_dimension = Usability, qr_status = QFail, qr_reason = [], qr_evidence = []\<rparr>],
    te_status = Unproven, te_rationale = []\<rparr>"

lemma quality_summary_is_worst_witness:
  "qr_status (summarise_dimension [failed_usability] Usability) \<le> QFail"
proof -
  let ?q = "hd (te_quality failed_usability)"
  have "summarise_dimension [failed_usability] Usability \<in> set (aggregate_quality [failed_usability])"
    by (simp add: aggregate_quality_def dimensions_all)
  moreover have "?q \<in> set (te_quality failed_usability)"
    and "qr_dimension (summarise_dimension [failed_usability] Usability) = qr_dimension ?q"
    by (simp_all add: failed_usability_def summarise_dimension_def)
  ultimately have "qr_status (summarise_dimension [failed_usability] Usability) \<le> qr_status ?q"
    using quality_summary_is_worst [THEN conjunct1, of failed_usability "[failed_usability]"] by simp
  then show ?thesis by (simp add: failed_usability_def)
qed

text \<open>
  The quality that the evidence states for a dimension is the worst statement that any item
  makes about it, and none when no item makes one.
\<close>

lemma stated_quality_is_worst:
  "case explicit_quality evidence d of
     None \<Rightarrow> (\<nexists>item q. item \<in> set evidence \<and> stated_quality d item = Some q)
   | Some q \<Rightarrow> Some q \<in> stated_quality d ` set evidence \<and>
       q = Min {p. Some p \<in> stated_quality d ` set evidence}"
proof (cases "explicit_quality evidence d")
  case None
  moreover from None have "\<forall>item \<in> set evidence. stated_quality d item = None" by (simp only: explicit_quality_None)
  ultimately show ?thesis by simp
next
  case (Some q)
  let ?said = "{p. Some p \<in> stated_quality d ` set evidence}"
  have "Some ` ?said \<subseteq> stated_quality d ` set evidence" by auto
  then have "finite ?said" by (meson finite_imageD finite_subset finite_imageI List.finite_set inj_Some)
  moreover have said: "Some q \<in> stated_quality d ` set evidence"
    using explicit_quality_Some [OF Some] by (metis imageI)
  moreover have "q \<le> p" if "p \<in> ?said" for p
    using that explicit_quality_Some [OF Some] by (metis imageE mem_Collect_eq)
  ultimately have "q = Min ?said" by (intro Min_eqI [symmetric]) simp_all
  with said Some show ?thesis by simp
qed

end
