(* ===== verification/Json_Text.thy ===== *)
theory Json_Text
  imports Json
begin

text \<open>
  What the operation controller uses of Python's \<open>json\<close> module and of dictionaries that hold JSON
  values: \<open>json.dumps\<close> with its default separators and \<open>ensure_ascii=True\<close>, \<open>dict.get\<close> with a
  default, and the truth value of a document.
\<close>

section \<open>Escaping to ASCII\<close>

text \<open>
  \<open>json.dumps\<close> leaves the printable ASCII characters and writes every other code point as \<open>\u\<close>
  and four hexadecimal digits, those above \<open>U+FFFF\<close> as a surrogate pair.  Outside of strings the
  output is ASCII, so the escape can be applied to the whole text.
\<close>

definition hex4 :: "nat \<Rightarrow> string" where
  "hex4 n = [hex_digit (n div 4096 mod 16), hex_digit (n div 256 mod 16), hex_digit (n div 16 mod 16), hex_digit (n mod 16)]"

definition unicode_escape :: "nat \<Rightarrow> string" where
  "unicode_escape n =
    (if n < 65536 then CHR 0x5C # CHR ''u'' # hex4 n
     else (let v = n - 65536
           in CHR 0x5C # CHR ''u'' # hex4 (55296 + v div 1024) @ CHR 0x5C # CHR ''u'' # hex4 (56320 + v mod 1024)))"

definition byte6 :: "char \<Rightarrow> nat" where
  "byte6 c = of_char c mod 64"

fun ensure_ascii :: "string \<Rightarrow> string" where
  "ensure_ascii [] = []"
| "ensure_ascii (a # s) =
    (if (of_char a :: nat) < 127 then a # ensure_ascii s
     else if (of_char a :: nat) = 127 then unicode_escape 127 @ ensure_ascii s
     else (case s of
         [] \<Rightarrow> [a]
       | b # s1 \<Rightarrow>
           if (of_char a :: nat) < 224
           then unicode_escape (of_char a mod 32 * 64 + byte6 b) @ ensure_ascii s1
           else (case s1 of
               [] \<Rightarrow> [a, b]
             | c # s2 \<Rightarrow>
                 if (of_char a :: nat) < 240
                 then unicode_escape (of_char a mod 16 * 4096 + byte6 b * 64 + byte6 c) @ ensure_ascii s2
                 else (case s2 of
                     [] \<Rightarrow> [a, b, c]
                   | d # s3 \<Rightarrow>
                       unicode_escape (of_char a mod 8 * 262144 + byte6 b * 4096 + byte6 c * 64 + byte6 d)
                       @ ensure_ascii s3))))"

lemma ensure_ascii_ascii: "(\<And>c. c \<in> set s \<Longrightarrow> (of_char c :: nat) < 127) \<Longrightarrow> ensure_ascii s = s"
  by (induction s) auto

section \<open>Text of a document\<close>

fun spaced :: "json \<Rightarrow> string" where
  "spaced (JList xs) = ''['' @ join '', '' (map spaced xs) @ '']''"
| "spaced (JObj kvs) = ''{'' @ join '', '' (map (\<lambda>(k, v). quote k @ '': '' @ spaced v) kvs) @ ''}''"
| "spaced j = render j"

text \<open>\<open>json.dumps(value)\<close> and \<open>json.dumps(value, sort_keys=True, separators=(",", ":"))\<close>.\<close>

definition json_dumps :: "json \<Rightarrow> string" where
  "json_dumps value = ensure_ascii (spaced value)"

definition json_dumps_canonical :: "json \<Rightarrow> string" where
  "json_dumps_canonical value = ensure_ascii (render (copy_value value))"

section \<open>Dictionaries of JSON values\<close>

type_synonym jdict = "(string, json) dict"

definition dget :: "string \<Rightarrow> json \<Rightarrow> jdict \<Rightarrow> json" where
  "dget k fallback d = (case map_of d k of None \<Rightarrow> fallback | Some v \<Rightarrow> v)"

fun truth :: "json \<Rightarrow> bool" where
  "truth JNull = False"
| "truth (JBool b) = b"
| "truth (JInt i) = (i \<noteq> 0)"
| "truth (JStr s) = (s \<noteq> [])"
| "truth (JList xs) = (xs \<noteq> [])"
| "truth (JObj kvs) = (kvs \<noteq> [])"

text \<open>
  Equality of Python values: the order of keys does not matter, and \<open>True\<close> equals \<open>1\<close>.
\<close>

fun bools_as_ints :: "json \<Rightarrow> json" where
  "bools_as_ints (JBool b) = JInt (if b then 1 else 0)"
| "bools_as_ints (JList xs) = JList (map bools_as_ints xs)"
| "bools_as_ints (JObj kvs) = JObj (map (\<lambda>(k, v). (k, bools_as_ints v)) kvs)"
| "bools_as_ints j = j"

definition py_eq :: "json \<Rightarrow> json \<Rightarrow> bool" where
  "py_eq a b \<longleftrightarrow> bools_as_ints (copy_value a) = bools_as_ints (copy_value b)"

lemma py_eq_refl [simp]: "py_eq a a"
  by (simp add: py_eq_def)

lemma py_eq_str [simp]: "py_eq (JStr s) v \<longleftrightarrow> v = JStr s" "py_eq v (JStr s) \<longleftrightarrow> v = JStr s"
  by (cases v; auto simp: py_eq_def)+

text \<open>
  \<open>str(value)\<close>, with \<open>repr\<close> of the strings inside of lists and dictionaries; code points beyond
  ASCII count as printable.
\<close>

definition repr_char :: "char \<Rightarrow> char \<Rightarrow> string" where
  "repr_char q c =
    (if c = q \<or> c = CHR 0x5C then [CHR 0x5C, c]
     else if c = CHR 0x0A then [CHR 0x5C, CHR ''n'']
     else if c = CHR 0x0D then [CHR 0x5C, CHR ''r'']
     else if c = CHR 0x09 then [CHR 0x5C, CHR ''t'']
     else if (of_char c :: nat) < 32 \<or> of_char c = (127 :: nat)
       then [CHR 0x5C, CHR ''x'', hex_digit (of_char c div 16), hex_digit (of_char c mod 16)]
     else [c])"

definition py_repr_str :: "string \<Rightarrow> string" where
  "py_repr_str s =
    (let q = (if CHR 0x27 \<in> set s \<and> CHR 0x22 \<notin> set s then CHR 0x22 else CHR 0x27)
     in q # concat (map (repr_char q) s) @ [q])"

fun py_repr :: "json \<Rightarrow> string" where
  "py_repr JNull = ''None''"
| "py_repr (JBool b) = (if b then ''True'' else ''False'')"
| "py_repr (JInt i) = str_of_int i"
| "py_repr (JStr s) = py_repr_str s"
| "py_repr (JList xs) = ''['' @ join '', '' (map py_repr xs) @ '']''"
| "py_repr (JObj kvs) = ''{'' @ join '', '' (map (\<lambda>(k, v). py_repr_str k @ '': '' @ py_repr v) kvs) @ ''}''"

definition py_str :: "json \<Rightarrow> string" where
  "py_str v = (case v of JStr s \<Rightarrow> s | _ \<Rightarrow> py_repr v)"

text \<open>\<open>.get\<close> on a value that the code takes for a dictionary; anything else raises.\<close>

fun jget :: "string \<Rightarrow> json \<Rightarrow> json \<Rightarrow> json result" where
  "jget k fallback (JObj d) = Inr (dget k fallback d)"
| "jget k fallback v = Inl (AttributeError ''get'')"

lemma map_of_update [simp]: "map_of (AList.update k v d) i = (if i = k then Some v else map_of d i)"
  by (simp add: AList.update_conv')

lemma dget_update [simp]: "dget i x (AList.update k v d) = (if i = k then v else dget i x d)"
  by (simp add: dget_def)

lemma dget_Nil [simp]: "dget k x [] = x"
  by (simp add: dget_def)

lemma dget_Cons [simp]: "dget k x ((i, v) # d) = (if i = k then v else dget k x d)"
  by (simp add: dget_def)

text \<open>What a \<open>for\<close> loop runs over; the characters of a string are its bytes here.\<close>

fun list_items :: "json \<Rightarrow> json list result" where
  "list_items (JList xs) = Inr xs"
| "list_items (JObj kvs) = Inr (map (\<lambda>kv. JStr (fst kv)) kvs)"
| "list_items (JStr s) = Inr (map (\<lambda>c. JStr [c]) s)"
| "list_items _ = Inl (TypeError ''object is not iterable'')"

text \<open>\<open>type(value).__name__\<close>.\<close>

fun type_name :: "json \<Rightarrow> string" where
  "type_name JNull = ''NoneType''"
| "type_name (JBool b) = ''bool''"
| "type_name (JInt i) = ''int''"
| "type_name (JStr s) = ''str''"
| "type_name (JList xs) = ''list''"
| "type_name (JObj d) = ''dict''"

section \<open>Keys of a stored document\<close>

lemma map_of_filter_hd: "map_of xs k = (case filter (\<lambda>x. fst x = k) xs of [] \<Rightarrow> None | x # _ \<Rightarrow> Some (snd x))"
  by (induction xs) auto

lemma map_of_sort_key: "map_of (sort_key fst xs) k = map_of xs k"
  by (simp add: map_of_filter_hd [of "sort_key fst xs"] map_of_filter_hd [of xs] sort_key_stable)

lemma map_of_copies: "map_of (map (\<lambda>(k, v). (k, copy_value v)) kvs) k = map_option copy_value (map_of kvs k)"
  by (induction kvs) auto

definition stored_keys :: "jdict \<Rightarrow> jdict" where
  "stored_keys d = sort_key fst (map (\<lambda>(k, v). (k, copy_value v)) d)"

lemma copy_object: "copy_value (JObj d) = JObj (stored_keys d)"
  by (simp add: stored_keys_def)

lemma map_of_stored: "map_of (stored_keys d) k = map_option copy_value (map_of d k)"
  by (simp add: stored_keys_def map_of_sort_key map_of_copies)

end
