(* ===== verification/Fulfilment.thy ===== *)
theory Fulfilment
  imports Json_Text
begin

text \<open>
  The fulfilment coordinator of A-Flow (\<open>fulfilment/registry.py\<close> and \<open>fulfilment/coordinator.py\<close>):
  participants, the registry that routes findings to them, and the summary of a cycle.  Findings,
  plans and contexts are dictionaries of JSON values.
\<close>

section \<open>Participants\<close>

record fulfilment_result =
  fr_finding :: json
  fr_status :: string
  fr_correction :: json
  fr_evidence :: jdict
  fr_revised :: "string option"
  fr_participant :: string

text \<open>A participant is a protocol in the code; both of its methods may raise.\<close>

record participant =
  pt_id :: string
  pt_can :: "jdict \<Rightarrow> jdict \<Rightarrow> bool result"
  pt_fulfil :: "jdict \<Rightarrow> jdict \<Rightarrow> jdict \<Rightarrow> fulfilment_result result"

definition finding_class :: "string \<Rightarrow> jdict \<Rightarrow> json" where
  "finding_class fallback f = dget ''class'' (dget ''type'' (JStr fallback) f) f"

definition finding_name :: "jdict \<Rightarrow> json" where
  "finding_name f = dget ''id'' (dget ''gap_id'' (JStr ''unknown'') f) f"

definition revision_classes :: "string list" where
  "revision_classes = [''plan_structure_defect'', ''missing_section'', ''objective-missing'',
    ''success-criteria-missing'', ''validation-missing'', ''fixture-missing'']"

definition evidence_classes :: "string list" where
  "evidence_classes = [''evidence_gap'', ''evidence_required'', ''information_gap'', ''missing_evidence'']"

definition decision_classes :: "string list" where
  "decision_classes = [''design_decision_required'', ''decision_required'', ''human_judgment'', ''architecture_decision'']"

text \<open>\<open>value in (...)\<close> compares with each string of the tuple.\<close>

definition one_of :: "string list \<Rightarrow> json \<Rightarrow> bool" where
  "one_of names v \<longleftrightarrow> v \<in> JStr ` set names"

definition can_fulfil_one_of :: "string list \<Rightarrow> jdict \<Rightarrow> jdict \<Rightarrow> bool result" where
  "can_fulfil_one_of names f ctx = Inr (one_of names (finding_class [] f))"

definition plan_revision :: participant where
  "plan_revision = \<lparr>pt_id = ''builtin.plan_revision'', pt_can = can_fulfil_one_of revision_classes,
    pt_fulfil = (\<lambda>f plan ctx.
      let name = finding_name f; correction = dget ''correction'' (dget ''reason'' (JStr []) f) f
      in Inr \<lparr>fr_finding = name, fr_status = ''fulfilled'',
           fr_correction = (if truth correction then correction else JStr (''Plan section added for '' @ py_str name)),
           fr_evidence = [(''source'', JStr ''plan_content_analysis'')], fr_revised = None,
           fr_participant = ''builtin.plan_revision''\<rparr>)\<rparr>"

definition evidence_request :: participant where
  "evidence_request = \<lparr>pt_id = ''builtin.evidence_request'', pt_can = can_fulfil_one_of evidence_classes,
    pt_fulfil = (\<lambda>f plan ctx.
      Inr \<lparr>fr_finding = finding_name f, fr_status = ''needs_external_tool'', fr_correction = JNull,
        fr_evidence = [(''request_type'', JStr ''evidence_collection''),
          (''target'', dget ''missing_information'' (JStr []) f), (''tool'', JStr ''audisor_toolkit'')],
        fr_revised = None, fr_participant = ''builtin.evidence_request''\<rparr>)\<rparr>"

definition decision_request :: participant where
  "decision_request = \<lparr>pt_id = ''builtin.decision_request'', pt_can = can_fulfil_one_of decision_classes,
    pt_fulfil = (\<lambda>f plan ctx.
      Inr \<lparr>fr_finding = finding_name f, fr_status = ''needs_human_decision'', fr_correction = JNull,
        fr_evidence = [(''decision_description'', dget ''reason'' (JStr []) f), (''options'', dget ''options'' (JList []) f)],
        fr_revised = None, fr_participant = ''builtin.decision_request''\<rparr>)\<rparr>"

section \<open>The registry\<close>

record registry =
  rg_routes :: "(string, participant) dict"
  rg_defaults :: "participant list"

definition empty_registry :: registry where
  "empty_registry = \<lparr>rg_routes = [], rg_defaults = []\<rparr>"

definition register_participant :: "string \<Rightarrow> participant \<Rightarrow> registry \<Rightarrow> registry" where
  "register_participant cls p g = g\<lparr>rg_routes := AList.update cls p (rg_routes g)\<rparr>"

definition register_fallback :: "participant \<Rightarrow> registry \<Rightarrow> registry" where
  "register_fallback p g = g\<lparr>rg_defaults := rg_defaults g @ [p]\<rparr>"

text \<open>\<open>dict.get\<close> on any value: lists and dictionaries are not hashable, other values than strings are no keys.\<close>

definition route :: "registry \<Rightarrow> json \<Rightarrow> participant option result" where
  "route g cls =
    (case cls of
       JStr s \<Rightarrow> Inr (map_of (rg_routes g) s)
     | JList _ \<Rightarrow> Inl (TypeError ''unhashable type: list'')
     | JObj _ \<Rightarrow> Inl (TypeError ''unhashable type: dict'')
     | _ \<Rightarrow> Inr None)"

fun first_able :: "jdict \<Rightarrow> jdict \<Rightarrow> participant list \<Rightarrow> participant option result" where
  "first_able f ctx [] = Inr None"
| "first_able f ctx (p # ps) = rbind (pt_can p f ctx) (\<lambda>able. if able then Inr (Some p) else first_able f ctx ps)"

definition resolve_for_finding :: "registry \<Rightarrow> jdict \<Rightarrow> jdict \<Rightarrow> participant option result" where
  "resolve_for_finding g f ctx =
    rbind (route g (finding_class ''unknown'' f)) (\<lambda>found.
      rbind (case found of None \<Rightarrow> Inr False | Some p \<Rightarrow> pt_can p f ctx) (\<lambda>able.
        if able then Inr found else first_able f ctx (rg_defaults g)))"

definition registered_classes :: "registry \<Rightarrow> string list" where
  "registered_classes g = map fst (rg_routes g)"

section \<open>The coordinator\<close>

record fulfilment_summary =
  fs_total :: nat
  fs_fulfilled :: nat
  fs_human :: nat
  fs_external :: nat
  fs_unfulfillable :: nat
  fs_results :: "fulfilment_result list"

definition all_resolved :: "fulfilment_summary \<Rightarrow> bool" where
  "all_resolved s \<longleftrightarrow> fs_fulfilled s = fs_total s"

definition execution_ready :: "fulfilment_summary \<Rightarrow> bool" where
  "execution_ready s \<longleftrightarrow> fs_human s = 0 \<and> fs_unfulfillable s = 0"

definition default_registry :: registry where
  "default_registry =
    register_fallback plan_revision
      (fold (\<lambda>cls. register_participant cls decision_request) decision_classes
      (fold (\<lambda>cls. register_participant cls evidence_request) evidence_classes
      (fold (\<lambda>cls. register_participant cls plan_revision) revision_classes empty_registry)))"

definition classify_finding :: "jdict \<Rightarrow> string" where
  "classify_finding f =
    (let cls = finding_class ''unknown'' f
     in if one_of decision_classes cls then ''human_decision_required''
        else if one_of evidence_classes cls then ''evidence_required''
        else if one_of revision_classes cls then ''plan_revision_required''
        else ''unknown'')"

definition unfulfillable_result :: "jdict \<Rightarrow> fulfilment_result" where
  "unfulfillable_result f =
    \<lparr>fr_finding = finding_name f, fr_status = ''unfulfillable'', fr_correction = JNull,
     fr_evidence = [(''reason'', JStr ''no_participant_registered'')], fr_revised = None, fr_participant = ''none''\<rparr>"

definition fulfil_finding :: "registry \<Rightarrow> jdict \<Rightarrow> jdict \<Rightarrow> jdict \<Rightarrow> fulfilment_result result" where
  "fulfil_finding g f plan ctx =
    rbind (resolve_for_finding g f ctx) (\<lambda>found.
      case found of None \<Rightarrow> Inr (unfulfillable_result f) | Some p \<Rightarrow> pt_fulfil p f plan ctx)"

definition count_result :: "fulfilment_result \<Rightarrow> fulfilment_summary \<Rightarrow> fulfilment_summary" where
  "count_result r s =
    (let s1 = s\<lparr>fs_results := fs_results s @ [r]\<rparr>
     in if fr_status r = ''fulfilled'' then s1\<lparr>fs_fulfilled := fs_fulfilled s1 + 1\<rparr>
        else if fr_status r = ''needs_human_decision'' then s1\<lparr>fs_human := fs_human s1 + 1\<rparr>
        else if fr_status r = ''needs_external_tool'' then s1\<lparr>fs_external := fs_external s1 + 1\<rparr>
        else s1\<lparr>fs_unfulfillable := fs_unfulfillable s1 + 1\<rparr>)"

fun fulfil_each :: "registry \<Rightarrow> jdict list \<Rightarrow> jdict \<Rightarrow> jdict \<Rightarrow> fulfilment_summary \<Rightarrow> fulfilment_summary result" where
  "fulfil_each g [] plan ctx s = Inr s"
| "fulfil_each g (f # fs) plan ctx s =
    rbind (fulfil_finding g f plan ctx) (\<lambda>r. fulfil_each g fs plan ctx (count_result r s))"

definition new_summary :: "nat \<Rightarrow> fulfilment_summary" where
  "new_summary n = \<lparr>fs_total = n, fs_fulfilled = 0, fs_human = 0, fs_external = 0, fs_unfulfillable = 0, fs_results = []\<rparr>"

definition fulfil :: "registry \<Rightarrow> jdict list \<Rightarrow> jdict \<Rightarrow> jdict \<Rightarrow> fulfilment_summary result" where
  "fulfil g findings plan ctx = fulfil_each g findings plan ctx (new_summary (length findings))"

section \<open>Counting\<close>

text \<open>Every finding is counted once, whatever the participants answer.\<close>

definition counted :: "fulfilment_summary \<Rightarrow> nat" where
  "counted s = fs_fulfilled s + fs_human s + fs_external s + fs_unfulfillable s"

lemma counted_result [simp]:
  "counted (count_result r s) = counted s + 1" "fs_total (count_result r s) = fs_total s"
  by (simp_all add: count_result_def counted_def Let_def)

lemma fulfil_each_counts:
  "fulfil_each g fs plan ctx s = Inr s' \<Longrightarrow> counted s' = counted s + length fs \<and> fs_total s' = fs_total s"
  by (induction fs arbitrary: s) (auto simp: rbind_eq_Inr)

lemma fulfil_counts: "fulfil g fs plan ctx = Inr s \<Longrightarrow> counted s = fs_total s \<and> fs_total s = length fs"
  by (auto simp: fulfil_def new_summary_def counted_def dest!: fulfil_each_counts)

section \<open>The built-in registry\<close>

definition hashable :: "json \<Rightarrow> bool" where
  "hashable v \<longleftrightarrow> (case v of JList _ \<Rightarrow> False | JObj _ \<Rightarrow> False | _ \<Rightarrow> True)"

lemma default_routes:
  "map_of (rg_routes default_registry) s =
    (if s \<in> set decision_classes then Some decision_request
     else if s \<in> set evidence_classes then Some evidence_request
     else if s \<in> set revision_classes then Some plan_revision else None)"
  "rg_defaults default_registry = [plan_revision]"
  by (simp_all add: default_registry_def decision_classes_def evidence_classes_def revision_classes_def
      register_participant_def register_fallback_def empty_registry_def)

lemma class_of_known: "one_of names (finding_class ''unknown'' f) \<Longrightarrow> ''unknown'' \<notin> set names \<Longrightarrow>
    finding_class [] f = finding_class ''unknown'' f"
  by (auto simp: finding_class_def dget_def one_of_def split: option.splits)

lemma class_of_unknown: "[] \<notin> set names \<Longrightarrow> \<not> one_of names (finding_class ''unknown'' f) \<Longrightarrow> \<not> one_of names (finding_class [] f)"
  by (auto simp: finding_class_def dget_def one_of_def split: option.splits)

text \<open>What each category of a finding becomes.\<close>

definition category_status :: "string \<Rightarrow> string" where
  "category_status c =
    (if c = ''plan_revision_required'' then ''fulfilled''
     else if c = ''human_decision_required'' then ''needs_human_decision''
     else if c = ''evidence_required'' then ''needs_external_tool''
     else ''unfulfillable'')"

lemma default_status:
  assumes "hashable (finding_class ''unknown'' f)"
  shows "\<exists>r. fulfil_finding default_registry f plan ctx = Inr r \<and> fr_status r = category_status (classify_finding f)"
proof -
  let ?c = "finding_class ''unknown'' f"
  have unknown: "''unknown'' \<notin> set decision_classes" "''unknown'' \<notin> set evidence_classes"
    "''unknown'' \<notin> set revision_classes" "[] \<notin> set revision_classes"
    by (simp_all add: decision_classes_def evidence_classes_def revision_classes_def)
  have disjoint: "set decision_classes \<inter> set evidence_classes = {}" "set decision_classes \<inter> set revision_classes = {}"
    "set evidence_classes \<inter> set revision_classes = {}"
    by (simp_all add: decision_classes_def evidence_classes_def revision_classes_def)
  note same = class_of_known [OF _ unknown(1)] class_of_known [OF _ unknown(2)] class_of_known [OF _ unknown(3)]
  note defs = fulfil_finding_def resolve_for_finding_def classify_finding_def Let_def can_fulfil_one_of_def one_of_def
    decision_request_def evidence_request_def plan_revision_def category_status_def
  show ?thesis
  proof (cases "?c \<in> JStr ` (set decision_classes \<union> set evidence_classes \<union> set revision_classes)")
    case True
    then obtain s where s: "?c = JStr s" "s \<in> set decision_classes \<union> set evidence_classes \<union> set revision_classes" by blast
    then have "finding_class [] f = JStr s" using same by (auto simp: one_of_def)
    with s disjoint show ?thesis
      by (auto simp: defs route_def default_routes)
  next
    case False
    then have "\<not> one_of revision_classes ?c" by (auto simp: one_of_def)
    then have no: "\<not> one_of revision_classes (finding_class [] f)" using class_of_unknown [OF unknown(4)] by simp
    have "route default_registry ?c = Inr None"
      using assms False by (cases ?c) (auto simp: route_def hashable_def default_routes)
    with False no show ?thesis
      by (auto simp: defs default_routes unfulfillable_result_def)
  qed
qed

text \<open>
  The routes of the built-in registry and the categories of \<open>classify\<close> are two tables of the same
  classes: the counts of a cycle are the numbers of findings of each category.
\<close>

definition in_category :: "string \<Rightarrow> jdict list \<Rightarrow> nat" where
  "in_category c fs = length (filter (\<lambda>f. category_status (classify_finding f) = c) fs)"

lemma default_each:
  "(\<forall>f \<in> set fs. hashable (finding_class ''unknown'' f)) \<Longrightarrow>
    \<exists>s'. fulfil_each default_registry fs plan ctx s = Inr s' \<and>
      fs_fulfilled s' = fs_fulfilled s + in_category ''fulfilled'' fs \<and>
      fs_human s' = fs_human s + in_category ''needs_human_decision'' fs \<and>
      fs_external s' = fs_external s + in_category ''needs_external_tool'' fs \<and>
      fs_unfulfillable s' = fs_unfulfillable s + in_category ''unfulfillable'' fs"
proof (induction fs arbitrary: s)
  case (Cons f fs)
  obtain r where r: "fulfil_finding default_registry f plan ctx = Inr r" "fr_status r = category_status (classify_finding f)"
    using default_status Cons.prems by fastforce
  obtain s' where "fulfil_each default_registry fs plan ctx (count_result r s) = Inr s' \<and>
      fs_fulfilled s' = fs_fulfilled (count_result r s) + in_category ''fulfilled'' fs \<and>
      fs_human s' = fs_human (count_result r s) + in_category ''needs_human_decision'' fs \<and>
      fs_external s' = fs_external (count_result r s) + in_category ''needs_external_tool'' fs \<and>
      fs_unfulfillable s' = fs_unfulfillable (count_result r s) + in_category ''unfulfillable'' fs"
    using Cons.IH [of "count_result r s"] Cons.prems by auto
  moreover have "category_status (classify_finding f) \<in> {''fulfilled'', ''needs_human_decision'', ''needs_external_tool'', ''unfulfillable''}"
    by (simp add: category_status_def)
  ultimately show ?case
    using r by (auto simp: count_result_def Let_def in_category_def)
qed (simp add: in_category_def)

lemma default_counts:
  assumes "\<forall>f \<in> set fs. hashable (finding_class ''unknown'' f)"
  shows "\<exists>s. fulfil default_registry fs plan ctx = Inr s \<and>
    fs_fulfilled s = in_category ''fulfilled'' fs \<and> fs_human s = in_category ''needs_human_decision'' fs \<and>
    fs_external s = in_category ''needs_external_tool'' fs \<and> fs_unfulfillable s = in_category ''unfulfillable'' fs"
  using default_each [OF assms, of plan ctx "new_summary (length fs)"] by (simp add: fulfil_def new_summary_def)

lemma category_cases:
  "classify_finding f \<in> {''human_decision_required'', ''evidence_required'', ''plan_revision_required'', ''unknown''}"
  by (simp add: classify_finding_def Let_def)

lemma category_none: "in_category c fs = 0 \<longleftrightarrow> (\<forall>f \<in> set fs. category_status (classify_finding f) \<noteq> c)"
  by (simp add: in_category_def filter_empty_conv)

lemma category_all: "in_category c fs = length fs \<longleftrightarrow> (\<forall>f \<in> set fs. category_status (classify_finding f) = c)"
proof (induction fs)
  case (Cons f fs)
  then show ?case by (auto simp: in_category_def) (metis Suc_n_not_le_n length_filter_le)
qed (simp add: in_category_def)

section \<open>The outcome of a cycle\<close>

text \<open>
  C10: The routes of the built-in registry and the categories of \<open>classify\<close> agree: with findings whose
  class is hashable a cycle returns, it resolves everything exactly when each finding asks for a
  revision of the plan, and it counts as ready for execution exactly when each asks for a revision or
  for evidence, so that open requests for evidence do not block.
\<close>

theorem fulfilment_follows_categories:
  assumes "\<forall>f \<in> set fs. hashable (finding_class ''unknown'' f)"
  shows "\<exists>s. fulfil default_registry fs plan ctx = Inr s \<and> fs_total s = length fs \<and>
    fs_fulfilled s + fs_human s + fs_external s + fs_unfulfillable s = length fs \<and>
    (all_resolved s \<longleftrightarrow> (\<forall>f \<in> set fs. classify_finding f = ''plan_revision_required'')) \<and>
    (execution_ready s \<longleftrightarrow> (\<forall>f \<in> set fs. classify_finding f \<in> {''plan_revision_required'', ''evidence_required''}))"
proof -
  obtain s where s: "fulfil default_registry fs plan ctx = Inr s" "fs_fulfilled s = in_category ''fulfilled'' fs"
    "fs_human s = in_category ''needs_human_decision'' fs" "fs_unfulfillable s = in_category ''unfulfillable'' fs"
    using default_counts [OF assms] by blast
  note counts = fulfil_counts [OF s(1)]
  have resolved: "category_status (classify_finding f) = ''fulfilled'' \<longleftrightarrow> classify_finding f = ''plan_revision_required''" for f
    using category_cases [of f] by (auto simp: category_status_def)
  have ready: "category_status (classify_finding f) \<noteq> ''needs_human_decision'' \<and>
      category_status (classify_finding f) \<noteq> ''unfulfillable'' \<longleftrightarrow>
      classify_finding f \<in> {''plan_revision_required'', ''evidence_required''}" for f
    using category_cases [of f] by (auto simp: category_status_def)
  have "all_resolved s \<longleftrightarrow> (\<forall>f \<in> set fs. classify_finding f = ''plan_revision_required'')"
    using s(2) counts category_all [of "''fulfilled''" fs] by (simp only: all_resolved_def resolved)
  moreover have "execution_ready s \<longleftrightarrow> (\<forall>f \<in> set fs. classify_finding f \<in> {''plan_revision_required'', ''evidence_required''})"
    unfolding execution_ready_def s(3,4) category_none ball_conj_distrib [symmetric] ready by (rule refl)
  ultimately show ?thesis using s(1) counts by (intro exI [of _ s]) (simp only: counted_def)
qed

theorem fulfilment_follows_categories_witness:
  "\<exists>s. fulfil default_registry [[(''class'', JStr ''missing_section'')], [(''type'', JStr ''evidence_gap'')]] [] [] = Inr s \<and>
    \<not> all_resolved s \<and> execution_ready s"
  using fulfilment_follows_categories [of "[[(''class'', JStr ''missing_section'')], [(''type'', JStr ''evidence_gap'')]]" "[]" "[]"]
  by (auto simp: finding_class_def dget_def hashable_def classify_finding_def one_of_def decision_classes_def
      evidence_classes_def revision_classes_def)

end
