(* ===== verification/Json_Parse.thy ===== *)
theory Json_Parse
  imports Json_Text
begin

text \<open>
  \<open>json.loads\<close> on UTF-8 text, as the operation controller uses it, and its round trip with
  \<open>json.dumps\<close>.  Documents with floating-point numbers, \<open>NaN\<close> or lone surrogates are outside of
  the document type; the parser rejects them.
\<close>

section \<open>Strings\<close>

definition hex_val :: "char \<Rightarrow> nat option" where
  "hex_val c =
    (let n = of_char c :: nat
     in if 48 \<le> n \<and> n \<le> 57 then Some (n - 48)
        else if 65 \<le> n \<and> n \<le> 70 then Some (n - 55)
        else if 97 \<le> n \<and> n \<le> 102 then Some (n - 87)
        else None)"

text \<open>The value of four hexadecimal digits at the front of the text.\<close>

definition read_hex4 :: "string \<Rightarrow> nat option" where
  "read_hex4 s =
    (case map hex_val (take 4 s) of
       [Some a, Some b, Some c, Some d] \<Rightarrow> Some (a * 4096 + b * 256 + c * 16 + d)
     | _ \<Rightarrow> None)"

definition utf8 :: "nat \<Rightarrow> string" where
  "utf8 n =
    (if n < 128 then [char_of n]
     else if n < 2048 then [char_of (192 + n div 64), char_of (128 + n mod 64)]
     else if n < 65536 then [char_of (224 + n div 4096), char_of (128 + n div 64 mod 64), char_of (128 + n mod 64)]
     else [char_of (240 + n div 262144), char_of (128 + n div 4096 mod 64), char_of (128 + n div 64 mod 64),
       char_of (128 + n mod 64)])"

text \<open>
  The escape after \<open>\u\<close>: its UTF-8 bytes and how many characters of the text it takes.  A high
  surrogate needs the low one in a second escape.
\<close>

definition read_escape :: "string \<Rightarrow> (string \<times> nat) option" where
  "read_escape s =
    (case read_hex4 s of
       None \<Rightarrow> None
     | Some n \<Rightarrow>
         if 55296 \<le> n \<and> n < 56320
         then (if take 2 (drop 4 s) = [CHR 0x5C, CHR ''u'']
               then (case read_hex4 (drop 6 s) of
                   Some m \<Rightarrow> if 56320 \<le> m \<and> m < 57344
                     then Some (utf8 (65536 + (n - 55296) * 1024 + (m - 56320)), 10) else None
                 | None \<Rightarrow> None)
               else None)
         else if 56320 \<le> n \<and> n < 57344 then None
         else Some (utf8 n, 4))"

definition simple_escape :: "char \<Rightarrow> char option" where
  "simple_escape e =
    map_of [(CHR 0x22, CHR 0x22), (CHR 0x5C, CHR 0x5C), (CHR ''/'', CHR ''/''), (CHR ''b'', CHR 0x08),
      (CHR ''f'', CHR 0x0C), (CHR ''n'', CHR 0x0A), (CHR ''r'', CHR 0x0D), (CHR ''t'', CHR 0x09)] e"

text \<open>The string whose opening quote has been read, and the rest of the text.\<close>

function (sequential) parse_string :: "string \<Rightarrow> (string \<times> string) option" where
  "parse_string [] = None"
| "parse_string (c # s) =
    (if c = CHR 0x22 then Some ([], s)
     else if c = CHR 0x5C
     then (case s of
         [] \<Rightarrow> None
       | e # s1 \<Rightarrow>
           (case simple_escape e of
              Some x \<Rightarrow> map_option (apfst (Cons x)) (parse_string s1)
            | None \<Rightarrow>
                if e = CHR ''u''
                then (case read_escape s1 of
                    None \<Rightarrow> None
                  | Some (x, k) \<Rightarrow> map_option (apfst (append x)) (parse_string (drop k s1)))
                else None))
     else if (of_char c :: nat) < 32 then None
     else map_option (apfst (Cons c)) (parse_string s))"
  by pat_completeness auto
termination by (relation "measure length") auto

section \<open>Numbers\<close>

definition read_digits :: "string \<Rightarrow> (string \<times> string) option" where
  "read_digits s =
    (case s of
       [] \<Rightarrow> None
     | c # r \<Rightarrow>
         if c = CHR ''0'' then Some ([c], r)
         else if is_digit c then Some (c # takeWhile is_digit r, dropWhile is_digit r)
         else None)"

text \<open>Whether a fraction or an exponent follows, which makes the number a float.\<close>

definition float_follows :: "string \<Rightarrow> bool" where
  "float_follows s \<longleftrightarrow>
    (case s of
       c # d # r \<Rightarrow>
         c = CHR ''.'' \<and> is_digit d
         \<or> c \<in> {CHR ''e'', CHR ''E''} \<and>
           (is_digit d \<or> d \<in> {CHR ''+'', CHR ''-''} \<and> r \<noteq> [] \<and> is_digit (hd r))
     | _ \<Rightarrow> False)"

definition parse_number :: "string \<Rightarrow> (json \<times> string) option" where
  "parse_number s =
    (let (negative, t) = (case s of c # r \<Rightarrow> if c = CHR ''-'' then (True, r) else (False, s) | [] \<Rightarrow> (False, s))
     in case read_digits t of
          None \<Rightarrow> None
        | Some (ds, rest) \<Rightarrow>
            if float_follows rest then None
            else Some (JInt (if negative then - int (digits_val ds) else int (digits_val ds)), rest))"

section \<open>Values\<close>

definition json_space :: "char \<Rightarrow> bool" where
  "json_space c \<longleftrightarrow> c \<in> {CHR 0x20, CHR 0x09, CHR 0x0A, CHR 0x0D}"

definition skip_space :: "string \<Rightarrow> string" where
  "skip_space s = dropWhile json_space s"

definition parse_word :: "string \<Rightarrow> (json \<times> string) option" where
  "parse_word s =
    (if startswith s ''null'' then Some (JNull, drop 4 s)
     else if startswith s ''true'' then Some (JBool True, drop 4 s)
     else if startswith s ''false'' then Some (JBool False, drop 5 s)
     else parse_number s)"

text \<open>
  The first argument bounds the depth of the recursion; \<open>json_loads\<close> gives enough for every text.
\<close>

fun parse_value :: "nat \<Rightarrow> string \<Rightarrow> (json \<times> string) option"
and parse_items :: "nat \<Rightarrow> string \<Rightarrow> (json list \<times> string) option"
and parse_members :: "nat \<Rightarrow> string \<Rightarrow> ((string \<times> json) list \<times> string) option" where
  "parse_value 0 s = None"
| "parse_value (Suc n) s =
    (case s of
       [] \<Rightarrow> None
     | c # r \<Rightarrow>
         if c = CHR 0x22 then map_option (apfst JStr) (parse_string r)
         else if c = CHR ''[''
         then (let r1 = skip_space r
               in if r1 \<noteq> [] \<and> hd r1 = CHR '']'' then Some (JList [], tl r1)
                  else map_option (apfst JList) (parse_items n r1))
         else if c = CHR ''{''
         then (let r1 = skip_space r
               in if r1 \<noteq> [] \<and> hd r1 = CHR ''}'' then Some (JObj [], tl r1)
                  else map_option (apfst (\<lambda>kvs. JObj (dict_of kvs))) (parse_members n r1))
         else parse_word s)"
| "parse_items 0 s = None"
| "parse_items (Suc n) s =
    (case parse_value n s of
       None \<Rightarrow> None
     | Some (v, r) \<Rightarrow>
         (case skip_space r of
            [] \<Rightarrow> None
          | c # r1 \<Rightarrow>
              if c = CHR '']'' then Some ([v], r1)
              else if c = CHR '','' then map_option (apfst (Cons v)) (parse_items n (skip_space r1))
              else None))"
| "parse_members 0 s = None"
| "parse_members (Suc n) s =
    (case s of
       [] \<Rightarrow> None
     | q # s1 \<Rightarrow>
         if q \<noteq> CHR 0x22 then None
         else (case parse_string s1 of
             None \<Rightarrow> None
           | Some (k, s2) \<Rightarrow>
               (case skip_space s2 of
                  [] \<Rightarrow> None
                | c # s3 \<Rightarrow>
                    if c \<noteq> CHR '':'' then None
                    else (case parse_value n (skip_space s3) of
                        None \<Rightarrow> None
                      | Some (v, r) \<Rightarrow>
                          (case skip_space r of
                             [] \<Rightarrow> None
                           | d # r1 \<Rightarrow>
                               if d = CHR ''}'' then Some ([(k, v)], r1)
                               else if d = CHR '','' then map_option (apfst (Cons (k, v))) (parse_members n (skip_space r1))
                               else None)))))"

definition json_loads :: "string \<Rightarrow> json option" where
  "json_loads s =
    (case parse_value (2 * length s + 2) (skip_space s) of
       Some (v, r) \<Rightarrow> if skip_space r = [] then Some v else None
     | None \<Rightarrow> None)"

section \<open>Round trip of strings\<close>

lemma hex_val_digit: "n < 16 \<Longrightarrow> hex_val (hex_digit n) = Some n"
  by (auto simp: hex_val_def hex_digit_def Let_def)

lemma parse_escape_char:
  "parse_string (escape_char c @ rest) = map_option (apfst (Cons c)) (parse_string rest)"
proof -
  have control: "parse_string (CHR 0x5C # CHR ''u'' # CHR ''0'' # CHR ''0'' # hex_digit (of_char c div 16) # hex_digit (of_char c mod 16) # rest)
      = map_option (apfst (Cons c)) (parse_string rest)" if "(of_char c :: nat) < 32"
  proof -
    have "(of_char c div 16 :: nat) < 16" using that by simp
    then have "read_escape (CHR ''0'' # CHR ''0'' # hex_digit (of_char c div 16) # hex_digit (of_char c mod 16) # rest)
        = Some ([c], 4)"
      using that by (simp add: read_escape_def read_hex4_def hex_val_digit hex_val_def [of "CHR ''0''"] utf8_def Let_def)
    moreover have "(@) [c] = (#) c" by (rule ext) simp
    ultimately show ?thesis by (simp add: simple_escape_def)
  qed
  show ?thesis
  proof (cases "c \<in> {CHR 0x22, CHR 0x5C, CHR 0x0A, CHR 0x0D, CHR 0x09, CHR 0x0C, CHR 0x08}")
    case True
    then show ?thesis by (auto simp: escape_char_def simple_escape_def)
  next
    case False
    then show ?thesis using control by (auto simp: escape_char_def)
  qed
qed

lemma parse_string_quoted:
  "parse_string (concat (map escape_char s) @ CHR 0x22 # rest) = Some (s, rest)"
  by (induction s) (simp_all add: parse_escape_char)

section \<open>Round trip of numbers\<close>

lemma digit_char_zero: "d < 10 \<Longrightarrow> digit_char d = CHR ''0'' \<longleftrightarrow> d = 0"
proof -
  assume d: "d < 10"
  have "digit_char d = CHR ''0'' \<longleftrightarrow> (of_char (digit_char d) :: nat) = of_char (CHR ''0'')"
    by (simp only: of_char_eq_iff)
  also have "\<dots> \<longleftrightarrow> d = 0" unfolding of_char_digit_char [OF d] by simp
  finally show ?thesis .
qed

lemma str_of_nat_head: "0 < n \<Longrightarrow> \<exists>c r. str_of_nat n = c # r \<and> c \<noteq> CHR ''0'' \<and> is_digit c"
proof (induction n rule: str_of_nat.induct)
  case (1 n)
  show ?case
  proof (cases "n < 10")
    case True
    with 1(2) have "digit_char n \<noteq> CHR ''0''" by (simp add: digit_char_zero)
    with True show ?thesis
      by (simp add: str_of_nat.simps [of n] is_digit_def of_char_digit_char)
  next
    case False
    then have "0 < n div 10" by (simp add: div_greater_zero_iff)
    with 1(1) [OF False] obtain c r where "str_of_nat (n div 10) = c # r" "c \<noteq> CHR ''0''" "is_digit c" by blast
    with False show ?thesis by (simp add: str_of_nat.simps [of n])
  qed
qed

lemma str_of_nat_zero: "str_of_nat 0 = ''0''"
  by (simp add: str_of_nat.simps digit_char_zero)

text \<open>What can follow a value in a printed document.\<close>

definition value_ends :: "string \<Rightarrow> bool" where
  "value_ends rest \<longleftrightarrow> rest = [] \<or> hd rest \<in> {CHR '','', CHR '']'', CHR ''}''}"

lemma value_ends_simps [simp]:
  "value_ends []" "value_ends (c # r) \<longleftrightarrow> c \<in> {CHR '','', CHR '']'', CHR ''}''}"
  by (simp_all add: value_ends_def)

lemma value_ends_stops:
  assumes "value_ends rest"
  shows "\<not> float_follows rest" and "dropWhile is_digit rest = rest" and "takeWhile is_digit rest = []"
  using assms by (cases rest; auto simp: float_follows_def is_digit_def split: list.split)+

lemma read_digits_str_of_nat:
  assumes "value_ends rest"
  shows "read_digits (str_of_nat n @ rest) = Some (str_of_nat n, rest)"
proof (cases "n = 0")
  case True
  then show ?thesis by (simp add: str_of_nat_zero read_digits_def)
next
  case False
  then obtain c r where s: "str_of_nat n = c # r" "c \<noteq> CHR ''0''" "is_digit c"
    using str_of_nat_head [of n] by auto
  have "\<forall>d \<in> set r. is_digit d" using str_of_nat_digits [of _ n] by (simp add: s(1))
  then have "takeWhile is_digit (r @ rest) = r" "dropWhile is_digit (r @ rest) = rest"
    using value_ends_stops(2,3) [OF assms] by simp_all
  with s(2,3) show ?thesis by (simp add: s(1) read_digits_def)
qed

lemma str_of_nat_not_minus: "str_of_nat n = c # r \<Longrightarrow> c \<noteq> CHR ''-''"
  using str_of_nat_digits [of c n] by (auto simp: is_digit_def)

lemma parse_number_str_of_int:
  assumes "value_ends rest"
  shows "parse_number (str_of_int i @ rest) = Some (JInt i, rest)"
proof (cases "i < 0")
  case True
  then show ?thesis
    using value_ends_stops(1) [OF assms]
    by (simp add: str_of_int_def parse_number_def read_digits_str_of_nat [OF assms])
next
  case False
  obtain c r where c: "str_of_nat (nat i) = c # r" "c \<noteq> CHR ''-''"
    using str_of_nat_not_minus [of "nat i"] by (cases "str_of_nat (nat i)") auto
  then have "(case str_of_nat (nat i) @ rest of c # r \<Rightarrow> if c = CHR ''-'' then (True, r) else (False, str_of_nat (nat i) @ rest)
      | [] \<Rightarrow> (False, str_of_nat (nat i) @ rest)) = (False, str_of_nat (nat i) @ rest)"
    by simp
  with False show ?thesis
    using value_ends_stops(1) [OF assms]
    by (simp add: str_of_int_def parse_number_def read_digits_str_of_nat [OF assms])
qed

section \<open>Round trip of documents\<close>

text \<open>Every object of the document has distinct keys, as a Python dictionary has.\<close>

fun keys_distinct :: "json \<Rightarrow> bool" where
  "keys_distinct (JList xs) = list_all keys_distinct xs"
| "keys_distinct (JObj kvs) = (distinct (map fst kvs) \<and> list_all (\<lambda>kv. keys_distinct (snd kv)) kvs)"
| "keys_distinct j = True"

fun list_fuel :: "nat list \<Rightarrow> nat" where
  "list_fuel [] = 0"
| "list_fuel (x # xs) = Suc (max x (list_fuel xs))"

fun json_fuel :: "json \<Rightarrow> nat" where
  "json_fuel (JList xs) = Suc (list_fuel (map json_fuel xs))"
| "json_fuel (JObj kvs) = Suc (list_fuel (map (\<lambda>kv. json_fuel (snd kv)) kvs))"
| "json_fuel j = 1"

lemma str_of_int_start: "\<exists>c r. str_of_int i = c # r \<and> (c = CHR ''-'' \<or> is_digit c)"
proof (cases "i < 0")
  case False
  obtain c r where "str_of_nat (nat i) = c # r" by (cases "str_of_nat (nat i)") auto
  with False str_of_nat_digits [of c "nat i"] show ?thesis by (simp add: str_of_int_def)
qed (simp add: str_of_int_def)

lemma spaced_start:
  obtains c r where "spaced j = c # r" and "\<not> json_space c" and "c \<noteq> CHR '']''" and "c \<noteq> CHR ''}''"
proof (cases j)
  case (JInt i)
  obtain c r where "str_of_int i = c # r" "c = CHR ''-'' \<or> is_digit c" using str_of_int_start by blast
  moreover from this(2) have "\<not> json_space c" "c \<noteq> CHR '']''" "c \<noteq> CHR ''}''"
    by (auto simp: json_space_def is_digit_def)
  ultimately show thesis using that [of c r] JInt by simp
next
  case (JBool b)
  with that show thesis by (cases b) (auto simp: json_space_def)
qed (use that in \<open>auto simp: json_space_def quote_def\<close>)

lemma skip_spaced [simp]: "skip_space (spaced j @ rest) = spaced j @ rest"
  by (rule spaced_start [of j]) (simp add: skip_space_def)

lemma parse_leaf:
  assumes "value_ends rest" and "j = JNull \<or> j = JBool b \<or> j = JInt i \<or> j = JStr s"
  shows "parse_value (Suc n) (spaced j @ rest) = Some (j, rest)"
  using assms(2)
proof (elim disjE)
  assume "j = JInt i"
  moreover obtain c r where c: "str_of_int i = c # r" "c = CHR ''-'' \<or> is_digit c" using str_of_int_start by blast
  moreover have "c \<noteq> CHR 0x22" "c \<noteq> CHR ''[''" "c \<noteq> CHR ''{''" "c \<noteq> CHR ''n''" "c \<noteq> CHR ''t''" "c \<noteq> CHR ''f''"
    using c(2) by (auto simp: is_digit_def)
  ultimately show ?thesis
    using parse_number_str_of_int [OF assms(1), of i] by (simp add: parse_word_def startswith_def)
qed (simp_all add: parse_word_def startswith_def quote_def parse_string_quoted)

lemma parse_leaves:
  assumes "value_ends rest" and "1 \<le> n"
  shows "parse_value n (spaced JNull @ rest) = Some (JNull, rest)"
    and "parse_value n (spaced (JBool b) @ rest) = Some (JBool b, rest)"
    and "parse_value n (spaced (JInt i) @ rest) = Some (JInt i, rest)"
    and "parse_value n (spaced (JStr s) @ rest) = Some (JStr s, rest)"
proof -
  obtain m where n: "n = Suc m" using assms(2) by (cases n) auto
  show "parse_value n (spaced JNull @ rest) = Some (JNull, rest)"
    "parse_value n (spaced (JBool b) @ rest) = Some (JBool b, rest)"
    "parse_value n (spaced (JInt i) @ rest) = Some (JInt i, rest)"
    "parse_value n (spaced (JStr s) @ rest) = Some (JStr s, rest)"
    unfolding n by (rule parse_leaf [OF assms(1)], blast)+
qed

lemma parse_items_join:
  assumes "xs \<noteq> []" and "list_fuel (map json_fuel xs) \<le> n"
    and "\<And>x m rest. x \<in> set xs \<Longrightarrow> value_ends rest \<Longrightarrow> json_fuel x \<le> m \<Longrightarrow> parse_value m (spaced x @ rest) = Some (x, rest)"
  shows "parse_items n (join '', '' (map spaced xs) @ CHR '']'' # rest) = Some (xs, rest)"
  using assms
proof (induction xs arbitrary: n)
  case (Cons x xs)
  then obtain m where n: "n = Suc m" by (cases n) auto
  show ?case
  proof (cases xs)
    case Nil
    with Cons.prems n show ?thesis by (simp add: skip_space_def json_space_def)
  next
    case (Cons y ys)
    have "list_fuel (map json_fuel xs) \<le> m" "json_fuel x \<le> m" using Cons.prems(2) n by simp_all
    then have "parse_items m (join '', '' (map spaced xs) @ CHR '']'' # rest) = Some (xs, rest)"
      using Cons.IH [of m] Cons.prems(3) Cons by simp
    moreover have "skip_space (join '', '' (map spaced xs) @ CHR '']'' # rest) = join '', '' (map spaced xs) @ CHR '']'' # rest"
      unfolding Cons by (rule spaced_start [of y]) (cases ys; simp add: skip_space_def)
    moreover have "parse_value m (spaced x @ CHR '','' # CHR '' '' # join '', '' (map spaced xs) @ CHR '']'' # rest)
        = Some (x, CHR '','' # CHR '' '' # join '', '' (map spaced xs) @ CHR '']'' # rest)"
      using Cons.prems(3) \<open>json_fuel x \<le> m\<close> by simp
    ultimately show ?thesis
      unfolding n using Cons by (simp add: skip_space_def json_space_def)
  qed
qed simp

definition spaced_member :: "string \<times> json \<Rightarrow> string" where
  "spaced_member kv = quote (fst kv) @ '': '' @ spaced (snd kv)"

lemma parse_members_join:
  assumes "kvs \<noteq> []" and "list_fuel (map (\<lambda>kv. json_fuel (snd kv)) kvs) \<le> n"
    and "\<And>kv m rest. kv \<in> set kvs \<Longrightarrow> value_ends rest \<Longrightarrow> json_fuel (snd kv) \<le> m \<Longrightarrow>
      parse_value m (spaced (snd kv) @ rest) = Some (snd kv, rest)"
  shows "parse_members n (join '', '' (map spaced_member kvs) @ CHR ''}'' # rest) = Some (kvs, rest)"
  using assms
proof (induction kvs arbitrary: n)
  case (Cons kv kvs)
  obtain k v where kv: "kv = (k, v)" by (cases kv)
  from Cons obtain m where n: "n = Suc m" by (cases n) auto
  have colon: "skip_space (CHR '':'' # t) = CHR '':'' # t" "skip_space (CHR '' '' # t) = skip_space t"
    "skip_space (CHR '','' # t) = CHR '','' # t" "skip_space (CHR ''}'' # t) = CHR ''}'' # t" for t
    by (simp_all add: skip_space_def json_space_def)
  show ?case
  proof (cases kvs)
    case Nil
    with Cons.prems n kv show ?thesis by (simp add: spaced_member_def quote_def parse_string_quoted colon)
  next
    case (Cons y ys)
    have "list_fuel (map (\<lambda>kv. json_fuel (snd kv)) kvs) \<le> m" "json_fuel v \<le> m" using Cons.prems(2) n kv by simp_all
    then have "parse_members m (join '', '' (map spaced_member kvs) @ CHR ''}'' # rest) = Some (kvs, rest)"
      using Cons.IH [of m] Cons.prems(3) Cons by simp
    moreover have "skip_space (join '', '' (map spaced_member kvs) @ CHR ''}'' # rest) = join '', '' (map spaced_member kvs) @ CHR ''}'' # rest"
      unfolding Cons by (cases ys) (simp_all add: spaced_member_def quote_def skip_space_def json_space_def)
    moreover have "parse_value m (spaced v @ CHR '','' # CHR '' '' # join '', '' (map spaced_member kvs) @ CHR ''}'' # rest)
        = Some (v, CHR '','' # CHR '' '' # join '', '' (map spaced_member kvs) @ CHR ''}'' # rest)"
      using Cons.prems(3) [of kv] \<open>json_fuel v \<le> m\<close> kv by simp
    ultimately show ?thesis
      unfolding n kv using Cons by (simp add: spaced_member_def [of "(k, v)"] quote_def parse_string_quoted colon)
  qed
qed simp

lemma parse_spaced:
  "keys_distinct j \<Longrightarrow> value_ends rest \<Longrightarrow> json_fuel j \<le> n \<Longrightarrow> parse_value n (spaced j @ rest) = Some (j, rest)"
proof (induction j arbitrary: n rest)
  case (JList xs)
  then obtain m where n: "n = Suc m" by (cases n) auto
  show ?case
  proof (cases xs)
    case Nil
    then show ?thesis by (simp add: n skip_space_def json_space_def)
  next
    case (Cons y ys)
    have "parse_items m (join '', '' (map spaced xs) @ CHR '']'' # rest) = Some (xs, rest)"
      using JList n Cons by (intro parse_items_join) (auto simp: list_all_iff)
    moreover obtain c r where c: "join '', '' (map spaced xs) @ CHR '']'' # rest = c # r" "\<not> json_space c" "c \<noteq> CHR '']''"
      unfolding Cons by (rule spaced_start [of y]) (cases ys; simp)
    ultimately show ?thesis by (simp add: n skip_space_def)
  qed
next
  case (JObj kvs)
  then obtain m where n: "n = Suc m" by (cases n) auto
  have printed: "spaced (JObj kvs) = CHR ''{'' # join '', '' (map spaced_member kvs) @ ''}''"
  proof -
    have "spaced_member = (\<lambda>(k, v). quote k @ '': '' @ spaced v)" by (auto simp: spaced_member_def)
    then show ?thesis by simp
  qed
  show ?case
  proof (cases kvs)
    case Nil
    then show ?thesis by (simp add: n skip_space_def json_space_def)
  next
    case (Cons y ys)
    have "parse_value k (spaced (snd kv) @ more) = Some (snd kv, more)"
      if "kv \<in> set kvs" "value_ends more" "json_fuel (snd kv) \<le> k" for kv k more
    proof -
      obtain a b where kv: "kv = (a, b)" by (cases kv)
      with that(1) JObj.prems(1) have "keys_distinct b" by (auto simp: list_all_iff)
      with kv that JObj.IH [of "(a, b)" b more k] show ?thesis by simp
    qed
    then have "parse_members m (join '', '' (map spaced_member kvs) @ CHR ''}'' # rest) = Some (kvs, rest)"
      using JObj.prems(3) n Cons by (intro parse_members_join) simp_all
    moreover obtain r where "join '', '' (map spaced_member kvs) @ CHR ''}'' # rest = CHR 0x22 # r"
      unfolding Cons by (cases ys) (simp_all add: spaced_member_def quote_def)
    moreover have "dict_of kvs = kvs" using JObj.prems(1) by (simp add: dict_of_distinct)
    ultimately show ?thesis unfolding printed by (simp add: n skip_space_def json_space_def)
  qed
qed (intro parse_leaves; simp)+

text \<open>The depth that \<open>json_loads\<close> allows is enough for every printed document.\<close>

lemma list_fuel_bound:
  "(\<And>x. x \<in> set xs \<Longrightarrow> f x \<le> 2 * length (g x)) \<Longrightarrow>
    list_fuel (map f xs) \<le> 2 * length (join '', '' (map g xs)) + 1"
proof (induction xs)
  case (Cons x xs)
  then have "f x \<le> 2 * length (g x)" "list_fuel (map f xs) \<le> 2 * length (join '', '' (map g xs)) + 1" by simp_all
  then show ?case by (cases xs) simp_all
qed simp

lemma json_fuel_bound: "json_fuel j \<le> 2 * length (spaced j)"
proof (induction j)
  case (JList xs)
  then show ?case using list_fuel_bound [of xs json_fuel spaced] by simp
next
  case (JObj kvs)
  let ?g = "\<lambda>(k, v). quote k @ '': '' @ spaced v"
  have "json_fuel (snd kv) \<le> 2 * length (?g kv)" if "kv \<in> set kvs" for kv
    using JObj [of kv "snd kv"] that by (cases kv) simp
  then show ?case using list_fuel_bound [of kvs "\<lambda>kv. json_fuel (snd kv)" ?g] by simp
next
  case (JStr s)
  then show ?case by (simp add: quote_def)
next
  case (JInt i)
  then show ?case using str_of_int_start [of i] by auto
qed simp_all

lemma json_loads_spaced: "keys_distinct j \<Longrightarrow> json_loads (spaced j) = Some j"
  using parse_spaced [of j "[]" "2 * length (spaced j) + 2"] json_fuel_bound [of j] skip_spaced [of j "[]"]
  by (simp add: json_loads_def skip_space_def [of "[]"])

text \<open>The ASCII documents, which \<open>json.dumps\<close> prints as they are.\<close>

definition ascii_text :: "string \<Rightarrow> bool" where
  "ascii_text s \<longleftrightarrow> (\<forall>c \<in> set s. (of_char c :: nat) < 127)"

lemma json_dumps_ascii: "ascii_text (spaced j) \<Longrightarrow> json_dumps j = spaced j"
  by (simp add: json_dumps_def ascii_text_def ensure_ascii_ascii)

lemma json_loads_dumps: "keys_distinct j \<Longrightarrow> ascii_text (spaced j) \<Longrightarrow> json_loads (json_dumps j) = Some j"
  by (simp add: json_dumps_ascii json_loads_spaced)

end
