(* ===== verification/Op_States.thy ===== *)
theory Op_States
  imports Json_Text
begin

text \<open>
  The lifecycle of operations (\<open>operation_controller/states.py\<close>): the states, the table of allowed
  transitions, the record of an operation and its \<open>transition\<close> method.
\<close>

section \<open>States\<close>

datatype op_state =
    OpReceived | OpPlanning | OpPlanReady | OpReviewing | OpFulfilling | OpCollectingEvidence
  | OpAwaitingDecision | OpSandboxReady | OpSandboxRunning | OpVerifying | OpReadyToApply
  | OpCompleted | OpCancelled | OpSuperseded
  | SuspPlanRevision | SuspProviderRecovery | SuspEvidence | SuspPackageRepair | SuspDecision
  | SuspForApproval | SuspForToolResult

fun op_state_str :: "op_state \<Rightarrow> string" where
  "op_state_str OpReceived = ''received''"
| "op_state_str OpPlanning = ''planning''"
| "op_state_str OpPlanReady = ''plan_ready''"
| "op_state_str OpReviewing = ''reviewing''"
| "op_state_str OpFulfilling = ''fulfilling''"
| "op_state_str OpCollectingEvidence = ''collecting_evidence''"
| "op_state_str OpAwaitingDecision = ''awaiting_decision''"
| "op_state_str OpSandboxReady = ''sandbox_ready''"
| "op_state_str OpSandboxRunning = ''sandbox_running''"
| "op_state_str OpVerifying = ''verifying''"
| "op_state_str OpReadyToApply = ''ready_to_apply''"
| "op_state_str OpCompleted = ''completed''"
| "op_state_str OpCancelled = ''cancelled_by_user''"
| "op_state_str OpSuperseded = ''superseded''"
| "op_state_str SuspPlanRevision = ''suspended_plan_revision''"
| "op_state_str SuspProviderRecovery = ''suspended_provider_recovery''"
| "op_state_str SuspEvidence = ''suspended_evidence''"
| "op_state_str SuspPackageRepair = ''suspended_package_repair''"
| "op_state_str SuspDecision = ''suspended_decision''"
| "op_state_str SuspForApproval = ''suspended_for_approval''"
| "op_state_str SuspForToolResult = ''suspended_for_tool_result''"

definition all_op_states :: "op_state list" where
  "all_op_states = [OpReceived, OpPlanning, OpPlanReady, OpReviewing, OpFulfilling, OpCollectingEvidence,
    OpAwaitingDecision, OpSandboxReady, OpSandboxRunning, OpVerifying, OpReadyToApply, OpCompleted, OpCancelled,
    OpSuperseded, SuspPlanRevision, SuspProviderRecovery, SuspEvidence, SuspPackageRepair, SuspDecision,
    SuspForApproval, SuspForToolResult]"

definition terminal_states :: "op_state list" where
  "terminal_states = [OpCompleted, OpCancelled, OpSuperseded]"

definition suspended_states :: "op_state list" where
  "suspended_states = [SuspPlanRevision, SuspProviderRecovery, SuspEvidence, SuspPackageRepair, SuspDecision,
    SuspForApproval, SuspForToolResult]"

text \<open>\<open>TRANSITIONS\<close>; a terminal state has no entry, so the look-up gives the empty set.\<close>

fun op_transitions :: "op_state \<Rightarrow> op_state list" where
  "op_transitions OpReceived = [OpPlanning, OpReviewing]"
| "op_transitions OpPlanning = [OpPlanReady, SuspPlanRevision, SuspForToolResult, SuspForApproval, OpCancelled]"
| "op_transitions OpPlanReady = [OpReviewing, OpCancelled]"
| "op_transitions OpReviewing = [OpFulfilling, OpSandboxReady, SuspEvidence, SuspPlanRevision, SuspProviderRecovery, OpCancelled]"
| "op_transitions OpFulfilling = [OpCollectingEvidence, OpAwaitingDecision, OpReviewing, OpCancelled]"
| "op_transitions OpCollectingEvidence = [OpReviewing, SuspEvidence, OpCancelled]"
| "op_transitions OpAwaitingDecision = [OpReviewing, SuspDecision, OpCancelled]"
| "op_transitions OpSandboxReady = [OpSandboxRunning, SuspProviderRecovery, OpCancelled]"
| "op_transitions OpSandboxRunning = [OpVerifying, OpCompleted, SuspProviderRecovery, SuspPackageRepair, SuspForApproval, SuspForToolResult, OpCancelled]"
| "op_transitions OpVerifying = [OpReadyToApply, OpSandboxReady, OpCancelled]"
| "op_transitions OpReadyToApply = [OpCompleted, OpCancelled]"
| "op_transitions SuspPlanRevision = [OpPlanning, OpReviewing, OpCancelled, OpSuperseded]"
| "op_transitions SuspProviderRecovery = [OpReviewing, OpSandboxReady, OpSandboxRunning, OpCancelled, OpSuperseded]"
| "op_transitions SuspEvidence = [OpCollectingEvidence, OpReviewing, OpCancelled, OpSuperseded]"
| "op_transitions SuspPackageRepair = [OpSandboxReady, OpCancelled, OpSuperseded]"
| "op_transitions SuspDecision = [OpAwaitingDecision, OpReviewing, OpCancelled, OpSuperseded]"
| "op_transitions SuspForApproval = [OpSandboxRunning, OpPlanning, SuspForToolResult, OpCancelled, OpSuperseded]"
| "op_transitions SuspForToolResult = [OpSandboxRunning, OpPlanning, OpCancelled, OpSuperseded]"
| "op_transitions _ = []"

section \<open>The record of an operation\<close>

record history_entry =
  hi_from :: string
  hi_to :: string
  hi_reason :: string
  hi_timestamp :: string

record operation_record =
  or_id :: string
  or_state :: op_state
  or_source :: string
  or_prompt :: string
  or_created :: string
  or_updated :: string
  or_history :: "history_entry list"
  or_suspend_reason :: json
  or_resume_schema :: "jdict option"
  or_artifacts :: jdict
  or_slices :: jdict

text \<open>The fields that a new record gets from the dataclass defaults; \<open>now\<close> is the clock.\<close>

definition new_record :: "string \<Rightarrow> op_state \<Rightarrow> string \<Rightarrow> string \<Rightarrow> string \<Rightarrow> operation_record" where
  "new_record ident state source prompt now =
    \<lparr>or_id = ident, or_state = state, or_source = source, or_prompt = prompt, or_created = now, or_updated = now,
     or_history = [], or_suspend_reason = JNull, or_resume_schema = None, or_artifacts = [], or_slices = []\<rparr>"

text \<open>The arrow of the message, \<open>U+2192\<close>, in UTF-8.\<close>

definition arrow :: string where
  "arrow = [CHR 0xE2, CHR 0x86, CHR 0x92]"

definition invalid_transition_message :: "op_state \<Rightarrow> op_state \<Rightarrow> string" where
  "invalid_transition_message s t =
    ''Invalid transition: '' @ op_state_str s @ '' '' @ arrow @ '' '' @ op_state_str t
    @ ''. Allowed: '' @ repr_str_list (sort (map op_state_str (op_transitions s)))"

definition op_transition :: "operation_record \<Rightarrow> op_state \<Rightarrow> string \<Rightarrow> string \<Rightarrow> operation_record result" where
  "op_transition r t reason now =
    (if or_state r \<in> set terminal_states
     then Inl (InvalidTransition (''Cannot transition from terminal state '' @ op_state_str (or_state r)))
     else if t \<notin> set (op_transitions (or_state r))
     then Inl (InvalidTransition (invalid_transition_message (or_state r) t))
     else let r = r\<lparr>or_history := or_history r @
                [\<lparr>hi_from = op_state_str (or_state r), hi_to = op_state_str t, hi_reason = reason, hi_timestamp = now\<rparr>],
              or_state := t, or_updated := now\<rparr>
          in Inr (if t \<notin> set suspended_states then r\<lparr>or_suspend_reason := JNull, or_resume_schema := None\<rparr> else r))"

section \<open>What transitions preserve\<close>

lemma op_transition_Inr:
  "op_transition r t reason now = Inr r' \<longleftrightarrow> t \<in> set (op_transitions (or_state r)) \<and>
    r' = r\<lparr>or_history := or_history r @
        [\<lparr>hi_from = op_state_str (or_state r), hi_to = op_state_str t, hi_reason = reason, hi_timestamp = now\<rparr>],
      or_state := t, or_updated := now,
      or_suspend_reason := (if t \<in> set suspended_states then or_suspend_reason r else JNull),
      or_resume_schema := (if t \<in> set suspended_states then or_resume_schema r else None)\<rparr>"
  by (cases "or_state r") (auto simp: op_transition_def terminal_states_def Let_def)

lemma op_transition_state: "op_transition r t reason now = Inr r' \<Longrightarrow>
    or_state r' = t \<and> or_id r' = or_id r \<and> or_slices r' = or_slices r \<and> or_artifacts r' = or_artifacts r
    \<and> or_source r' = or_source r"
  by (auto simp: op_transition_Inr)

lemma op_transition_exists:
  "(\<exists>r'. op_transition r t reason now = Inr r') \<longleftrightarrow> t \<in> set (op_transitions (or_state r))"
  by (simp add: op_transition_Inr)

lemma op_transition_Inl:
  "op_transition r t reason now = Inl e \<Longrightarrow> \<exists>m. e = InvalidTransition m"
  by (auto simp: op_transition_def Let_def split: if_splits)

lemma op_state_str_inject [simp]: "op_state_str s = op_state_str t \<longleftrightarrow> s = t"
  by (cases s; cases t) simp_all

lemma all_op_states: "s \<in> set all_op_states"
  by (cases s) (simp_all add: all_op_states_def)

text \<open>
  The history of a record is a path of allowed steps that ends in its state.  \<open>path_from\<close> follows
  the entries from a given state.
\<close>

fun path_from :: "op_state \<Rightarrow> history_entry list \<Rightarrow> op_state option" where
  "path_from s [] = Some s"
| "path_from s (h # hs) =
    (if hi_from h = op_state_str s
     then (case find (\<lambda>t. op_state_str t = hi_to h) (op_transitions s) of None \<Rightarrow> None | Some t \<Rightarrow> path_from t hs)
     else None)"

definition history_ok :: "operation_record \<Rightarrow> bool" where
  "history_ok r \<longleftrightarrow> path_from OpReceived (or_history r) = Some (or_state r)"

lemma find_state: "t \<in> set ts \<Longrightarrow> find (\<lambda>u. u = t) ts = Some t"
  by (induction ts) auto

lemma path_from_snoc:
  "path_from s hs = Some t \<Longrightarrow> u \<in> set (op_transitions t) \<Longrightarrow> hi_from h = op_state_str t \<Longrightarrow>
    hi_to h = op_state_str u \<Longrightarrow> path_from s (hs @ [h]) = Some u"
  by (induction s hs rule: path_from.induct) (auto simp: find_state split: if_splits option.splits)

lemma history_ok_transition:
  "history_ok r \<Longrightarrow> op_transition r t reason now = Inr r' \<Longrightarrow> history_ok r'"
  by (auto simp: history_ok_def op_transition_Inr path_from_snoc)

lemma history_ok_new [simp]: "history_ok (new_record ident OpReceived source prompt now)"
  by (simp add: history_ok_def new_record_def)

lemma history_ok_update [simp]:
  "history_ok (r\<lparr>or_slices := x\<rparr>) = history_ok r" "history_ok (r\<lparr>or_artifacts := y\<rparr>) = history_ok r"
  "history_ok (r\<lparr>or_suspend_reason := z\<rparr>) = history_ok r"
  by (simp_all add: history_ok_def)

end
