(* ===== verification/Op_Store.thy ===== *)
theory Op_Store
  imports Op_States
begin

text \<open>
  The persistence of operations: \<open>FileOperationStore\<close> of \<open>operation_controller/controller.py\<close> and the
  approval digest of \<open>operation_controller/approval.py\<close>.  A file is the JSON document that its
  text denotes; the directory maps file names to documents.
\<close>

section \<open>The interface of a store\<close>

text \<open>
  What the controller relies on: a saved record is loaded again, and saving one record leaves the
  others alone.
\<close>

locale record_store =
  fixes save :: "'r \<Rightarrow> 's \<Rightarrow> 's"
    and load :: "'s \<Rightarrow> 'k \<Rightarrow> 'r option result"
    and key :: "'r \<Rightarrow> 'k"
  assumes load_save [simp]: "load (save r s) (key r) = Inr (Some r)"
    and load_save_other: "k \<noteq> key r \<Longrightarrow> load (save r s) k = load s k"
begin

lemma load_after: "load (save r s) k = (if k = key r then Inr (Some r) else load s k)"
  by (simp add: load_save_other)

lemma last_save_wins: "key r = key q \<Longrightarrow> load (save r (save q s)) k = load (save r s) k"
  by (simp add: load_after)

lemma saves_commute: "key r \<noteq> key q \<Longrightarrow> load (save r (save q s)) k = load (save q (save r s)) k"
  by (simp add: load_after)

lemma load_folded:
  "distinct (map key rs) \<Longrightarrow> r \<in> set rs \<Longrightarrow> load (foldr save rs s) (key r) = Inr (Some r)"
  by (induction rs) (auto simp: load_after image_iff)

end

section \<open>Documents of records\<close>

definition nullable :: "('a \<Rightarrow> json) \<Rightarrow> 'a option \<Rightarrow> json" where
  "nullable f v = (case v of None \<Rightarrow> JNull | Some x \<Rightarrow> f x)"

definition history_entry_json :: "history_entry \<Rightarrow> json" where
  "history_entry_json h = JObj [(''from'', JStr (hi_from h)), (''to'', JStr (hi_to h)),
    (''reason'', JStr (hi_reason h)), (''timestamp'', JStr (hi_timestamp h))]"

definition record_json :: "operation_record \<Rightarrow> json" where
  "record_json r = JObj [
    (''operation_id'', JStr (or_id r)), (''state'', JStr (op_state_str (or_state r))),
    (''source_kind'', JStr (or_source r)), (''prompt'', JStr (or_prompt r)),
    (''created_at'', JStr (or_created r)), (''updated_at'', JStr (or_updated r)),
    (''history'', JList (map history_entry_json (or_history r))),
    (''suspend_reason'', or_suspend_reason r),
    (''resume_input_schema'', nullable JObj (or_resume_schema r)),
    (''artifacts'', JObj (or_artifacts r)), (''slices'', JObj (or_slices r))]"

text \<open>
  \<open>OperationState(value)\<close> and \<open>OperationRecord(**data)\<close> of a document.  Python does not check the
  types of the fields; a document whose fields have other types than those \<open>save\<close> writes counts
  as a \<open>TypeError\<close> here.
\<close>

definition op_state_of :: "string \<Rightarrow> op_state result" where
  "op_state_of v =
    (case find (\<lambda>s. op_state_str s = v) all_op_states of
       None \<Rightarrow> Inl (ValueError (v @ '' is not a valid OperationState'')) | Some s \<Rightarrow> Inr s)"

fun as_str :: "json \<Rightarrow> string result" where
  "as_str (JStr s) = Inr s"
| "as_str _ = Inl (TypeError ''OperationRecord'')"

fun as_nullable :: "(json \<Rightarrow> 'a result) \<Rightarrow> json \<Rightarrow> 'a option result" where
  "as_nullable f JNull = Inr None"
| "as_nullable f v = rbind (f v) (\<lambda>x. Inr (Some x))"

fun as_object :: "json \<Rightarrow> jdict result" where
  "as_object (JObj d) = Inr d"
| "as_object _ = Inl (TypeError ''OperationRecord'')"

fun as_list :: "json \<Rightarrow> json list result" where
  "as_list (JList xs) = Inr xs"
| "as_list _ = Inl (TypeError ''OperationRecord'')"

fun each :: "('a \<Rightarrow> 'b result) \<Rightarrow> 'a list \<Rightarrow> 'b list result" where
  "each f [] = Inr []"
| "each f (x # xs) = rbind (f x) (\<lambda>y. rbind (each f xs) (\<lambda>ys. Inr (y # ys)))"

definition get_field :: "string \<Rightarrow> (json \<Rightarrow> 'a result) \<Rightarrow> jdict \<Rightarrow> 'a result" where
  "get_field k f d = (case map_of d k of None \<Rightarrow> Inl (TypeError k) | Some v \<Rightarrow> f v)"

definition opt_field_or :: "string \<Rightarrow> (json \<Rightarrow> 'a result) \<Rightarrow> 'a \<Rightarrow> jdict \<Rightarrow> 'a result" where
  "opt_field_or k f fallback d = (case map_of d k of None \<Rightarrow> Inr fallback | Some v \<Rightarrow> f v)"

definition history_entry_of :: "json \<Rightarrow> history_entry result" where
  "history_entry_of j =
    rbind (as_object j) (\<lambda>d. rbind (get_field ''from'' as_str d) (\<lambda>f. rbind (get_field ''to'' as_str d) (\<lambda>t.
    rbind (get_field ''reason'' as_str d) (\<lambda>r. rbind (get_field ''timestamp'' as_str d) (\<lambda>s.
      Inr \<lparr>hi_from = f, hi_to = t, hi_reason = r, hi_timestamp = s\<rparr>)))))"

definition record_fields :: "string list" where
  "record_fields = [''operation_id'', ''state'', ''source_kind'', ''prompt'', ''created_at'', ''updated_at'',
    ''history'', ''suspend_reason'', ''resume_input_schema'', ''artifacts'', ''slices'']"

definition record_of_json :: "string \<Rightarrow> json \<Rightarrow> operation_record result" where
  "record_of_json now j =
    rbind (as_object j) (\<lambda>d.
    rbind (case map_of d ''state'' of None \<Rightarrow> Inl (KeyError ''state'') | Some v \<Rightarrow> rbind (as_str v) op_state_of) (\<lambda>state.
    rbind (require (set (map fst d) \<subseteq> set record_fields) (TypeError ''unexpected keyword argument'')) (\<lambda>_.
    rbind (get_field ''operation_id'' as_str d) (\<lambda>ident.
    rbind (get_field ''source_kind'' as_str d) (\<lambda>source.
    rbind (opt_field_or ''prompt'' as_str [] d) (\<lambda>prompt.
    rbind (opt_field_or ''created_at'' as_str now d) (\<lambda>created.
    rbind (opt_field_or ''updated_at'' as_str now d) (\<lambda>updated.
    rbind (opt_field_or ''history'' (\<lambda>v. rbind (as_list v) (each history_entry_of)) [] d) (\<lambda>history.
    rbind (opt_field_or ''suspend_reason'' Inr JNull d) (\<lambda>suspend.
    rbind (opt_field_or ''resume_input_schema'' (as_nullable as_object) None d) (\<lambda>schema.
    rbind (opt_field_or ''artifacts'' as_object [] d) (\<lambda>artifacts.
    rbind (opt_field_or ''slices'' as_object [] d) (\<lambda>slices.
      Inr \<lparr>or_id = ident, or_state = state, or_source = source, or_prompt = prompt, or_created = created,
        or_updated = updated, or_history = history, or_suspend_reason = suspend, or_resume_schema = schema,
        or_artifacts = artifacts, or_slices = slices\<rparr>)))))))))))))"

section \<open>The file store\<close>

type_synonym op_files = "(string, json) dict"

definition record_path :: "string \<Rightarrow> string" where
  "record_path ident = ident @ ''.json''"

text \<open>\<open>save\<close> writes a temporary file and renames it over the record's file in one step.\<close>

definition save_record :: "operation_record \<Rightarrow> op_files \<Rightarrow> op_files" where
  "save_record r files = AList.update (record_path (or_id r)) (record_json r) files"

definition load_record :: "op_files \<Rightarrow> string \<Rightarrow> operation_record option result" where
  "load_record files ident =
    (case map_of files (record_path ident) of
       None \<Rightarrow> Inr None
     | Some data \<Rightarrow> rbind (record_of_json [] data) (\<lambda>r. Inr (Some r)))"

definition list_all_records :: "op_files \<Rightarrow> operation_record list result" where
  "list_all_records files = each (\<lambda>(path, data). record_of_json [] data) (sort_key fst files)"

definition list_by_state :: "op_files \<Rightarrow> op_state \<Rightarrow> operation_record list result" where
  "list_by_state files s = rbind (list_all_records files) (\<lambda>rs. Inr (filter (\<lambda>r. or_state r = s) rs))"

lemma op_state_of_str [simp]: "op_state_of (op_state_str s) = Inr s"
proof -
  have "find (\<lambda>t. t = s) all_op_states = Some s" by (rule find_state) (rule all_op_states)
  then show ?thesis by (simp add: op_state_of_def)
qed

lemma each_map [simp]: "(\<And>x. f (g x) = Inr x) \<Longrightarrow> each f (map g xs) = Inr xs"
  by (induction xs) auto

lemma history_entry_roundtrip [simp]: "history_entry_of (history_entry_json h) = Inr h"
  by (simp add: history_entry_of_def history_entry_json_def get_field_def)

lemma as_nullable_str [simp]: "as_nullable as_str (nullable JStr v) = Inr v"
  by (cases v) (simp_all add: nullable_def)

lemma as_nullable_object [simp]: "as_nullable as_object (nullable JObj v) = Inr v"
  by (cases v) (simp_all add: nullable_def)

lemma record_roundtrip: "record_of_json now (record_json r) = Inr r"
  by (simp add: record_of_json_def record_json_def get_field_def opt_field_or_def record_fields_def)

lemma record_path_inject [simp]: "record_path i = record_path j \<longleftrightarrow> i = j"
  by (simp add: record_path_def)

interpretation files: record_store save_record load_record or_id
proof
  show "load_record (save_record r s) (or_id r) = Inr (Some r)" for r s
    by (simp add: load_record_def save_record_def record_roundtrip)
  show "k \<noteq> or_id r \<Longrightarrow> load_record (save_record r s) k = load_record s k" for k r s
    by (simp add: load_record_def save_record_def)
qed

text \<open>Each saved record appears in the listing by its state.\<close>

lemma each_eq_Inr: "each f xs = Inr ys \<longleftrightarrow> length ys = length xs \<and> (\<forall>i < length xs. f (xs ! i) = Inr (ys ! i))"
proof (induction xs arbitrary: ys)
  case (Cons x xs)
  show ?case by (cases ys) (auto simp: rbind_eq_Inr Cons.IH less_Suc_eq_0_disj nth_Cons split: nat.splits)
qed auto

lemma each_set: "each f xs = Inr ys \<Longrightarrow> set ys = {y. \<exists>x \<in> set xs. f x = Inr y}"
  by (induction xs arbitrary: ys) (auto simp: rbind_eq_Inr)

lemma each_total: "(\<forall>x \<in> set xs. \<exists>y. f x = Inr y) \<Longrightarrow> \<exists>ys. each f xs = Inr ys"
  by (induction xs) auto

text \<open>A directory whose files are records under their own names.\<close>

definition files_ok :: "op_files \<Rightarrow> bool" where
  "files_ok files \<longleftrightarrow> distinct (map fst files) \<and>
    (\<forall>(path, data) \<in> set files. \<exists>r. data = record_json r \<and> path = record_path (or_id r))"

lemma files_ok_empty [simp]: "files_ok []"
  by (simp add: files_ok_def)

lemma set_update_subset: "set (AList.update k v xs) \<subseteq> insert (k, v) (set xs)"
  by (induction xs) auto

lemma files_ok_save: "files_ok files \<Longrightarrow> files_ok (save_record r files)"
  unfolding files_ok_def save_record_def
  using set_update_subset [of "record_path (or_id r)" "record_json r" files] by (auto simp: AList.distinct_update)

lemma load_record_total: "files_ok files \<Longrightarrow> \<exists>r. load_record files ident = Inr r"
  by (force simp: files_ok_def load_record_def record_roundtrip split: option.split dest: map_of_SomeD)

lemma list_by_state_exact:
  assumes "files_ok files"
  shows "\<exists>rs. list_by_state files s = Inr rs \<and>
    (\<forall>r. r \<in> set rs \<longleftrightarrow> or_state r = s \<and> load_record files (or_id r) = Inr (Some r))"
proof -
  let ?read = "\<lambda>(path, data). record_of_json [] data"
  have shape: "\<exists>r. x = (record_path (or_id r), record_json r)" if "x \<in> set files" for x
    using that assms by (cases x) (auto simp: files_ok_def)
  then have "\<forall>x \<in> set (sort_key fst files). \<exists>y. ?read x = Inr y"
    by (fastforce simp: record_roundtrip)
  then obtain rs where rs: "list_all_records files = Inr rs"
    using each_total unfolding list_all_records_def by blast
  have "r \<in> set rs \<longleftrightarrow> load_record files (or_id r) = Inr (Some r)" for r
  proof -
    have "r \<in> set rs \<longleftrightarrow> (record_path (or_id r), record_json r) \<in> set files"
      using each_set [OF rs [unfolded list_all_records_def]] shape by (force simp: record_roundtrip)
    also have "\<dots> \<longleftrightarrow> map_of files (record_path (or_id r)) = Some (record_json r)"
      using assms by (simp add: files_ok_def)
    also have "\<dots> \<longleftrightarrow> load_record files (or_id r) = Inr (Some r)"
    proof (cases "map_of files (record_path (or_id r))")
      case (Some d)
      then obtain q where "d = record_json q" using shape [of "(record_path (or_id r), d)"] by (auto dest: map_of_SomeD)
      with Some show ?thesis
        by (auto simp: load_record_def record_roundtrip dest: arg_cong [where f = "record_of_json []"])
    qed (simp add: load_record_def)
    finally show ?thesis .
  qed
  then show ?thesis by (auto simp: list_by_state_def rs)
qed

section \<open>The approval digest\<close>

text \<open>
  \<open>approval.py\<close>: the SHA-256 digest of the call identifier, the tool and its arguments, printed with
  sorted keys.  Nothing checks that the identifier and the name are strings.
\<close>

definition compute_argument_digest :: "json \<Rightarrow> json \<Rightarrow> json \<Rightarrow> string" where
  "compute_argument_digest call_id tool_name arguments =
    sha256_hex (json_dumps_canonical
      (JObj [(''call_id'', call_id), (''tool_name'', tool_name), (''arguments'', arguments)]))"

definition verify_argument_digest :: "json \<Rightarrow> json \<Rightarrow> json \<Rightarrow> json \<Rightarrow> bool" where
  "verify_argument_digest call_id tool_name arguments expected \<longleftrightarrow>
    JStr (compute_argument_digest call_id tool_name arguments) = expected"

lemma verify_computed [simp]: "verify_argument_digest c t a (JStr (compute_argument_digest c t a))"
  by (simp add: verify_argument_digest_def)

end
