(* ===== verification/Event_Store.thy ===== *)
theory Event_Store
  imports Json_Parse Op_Store
begin

text \<open>
  The append-only event log of operations (\<open>operation_controller/event_store.py\<close>): one text file per
  operation, one JSON document per line, and the cached sequence counters of a running store.
  The per-operation locks make each append one step.
\<close>

section \<open>Lines of a text\<close>

text \<open>
  \<open>str.splitlines\<close> on UTF-8 text: how many bytes the line boundary at the front takes, zero when
  there is none.  Besides the newline characters Python breaks at \<open>U+0085\<close>, \<open>U+2028\<close> and \<open>U+2029\<close>.
\<close>

definition break_len :: "string \<Rightarrow> nat" where
  "break_len s =
    (if startswith s [CHR 0x0D, CHR 0x0A] then 2
     else if s \<noteq> [] \<and> hd s \<in> {CHR 0x0A, CHR 0x0D, CHR 0x0B, CHR 0x0C, CHR 0x1C, CHR 0x1D, CHR 0x1E} then 1
     else if startswith s [CHR 0xC2, CHR 0x85] then 2
     else if startswith s [CHR 0xE2, CHR 0x80, CHR 0xA8] \<or> startswith s [CHR 0xE2, CHR 0x80, CHR 0xA9] then 3
     else 0)"

fun take_line :: "string \<Rightarrow> string \<times> string" where
  "take_line [] = ([], [])"
| "take_line (c # s) =
    (if break_len (c # s) = 0 then apfst (Cons c) (take_line s) else ([], drop (break_len (c # s)) (c # s)))"

lemma take_line_shorter: "s \<noteq> [] \<Longrightarrow> length (snd (take_line s)) < length s"
proof (induction s)
  case (Cons c s)
  then show ?case by (cases s) (auto simp: apfst_def map_prod_def less_Suc_eq split: prod.splits)
qed simp

function splitlines :: "string \<Rightarrow> string list" where
  "splitlines s = (if s = [] then [] else fst (take_line s) # splitlines (snd (take_line s)))"
  by pat_completeness auto
termination by (relation "measure length") (simp_all add: take_line_shorter)

declare splitlines.simps [simp del]

section \<open>Events\<close>

record op_event =
  oe_sequence :: int
  oe_operation :: string
  oe_timestamp :: string
  oe_state :: string
  oe_type :: string
  oe_payload :: jdict
  oe_correlation :: "string option"

definition event_json :: "op_event \<Rightarrow> json" where
  "event_json e = JObj [(''sequence'', JInt (oe_sequence e)), (''operation_id'', JStr (oe_operation e)),
    (''timestamp'', JStr (oe_timestamp e)), (''state'', JStr (oe_state e)), (''event_type'', JStr (oe_type e)),
    (''payload'', JObj (oe_payload e)), (''correlation_id'', nullable JStr (oe_correlation e))]"

fun as_int :: "json \<Rightarrow> int result" where
  "as_int (JInt i) = Inr i"
| "as_int _ = Inl (TypeError ''OperationEvent'')"

definition event_fields :: "string list" where
  "event_fields = [''sequence'', ''operation_id'', ''timestamp'', ''state'', ''event_type'', ''payload'', ''correlation_id'']"

text \<open>\<open>OperationEvent(**data)\<close>; a field of another type than \<open>append\<close> writes counts as an error.\<close>

definition event_of_json :: "json \<Rightarrow> op_event result" where
  "event_of_json j =
    rbind (as_object j) (\<lambda>d.
    rbind (require (set (map fst d) \<subseteq> set event_fields) (TypeError ''unexpected keyword argument'')) (\<lambda>_.
    rbind (get_field ''sequence'' as_int d) (\<lambda>seq.
    rbind (get_field ''operation_id'' as_str d) (\<lambda>ident.
    rbind (get_field ''timestamp'' as_str d) (\<lambda>stamp.
    rbind (get_field ''state'' as_str d) (\<lambda>state.
    rbind (get_field ''event_type'' as_str d) (\<lambda>kind.
    rbind (opt_field_or ''payload'' as_object [] d) (\<lambda>payload.
    rbind (opt_field_or ''correlation_id'' (as_nullable as_str) None d) (\<lambda>corr.
      Inr \<lparr>oe_sequence = seq, oe_operation = ident, oe_timestamp = stamp, oe_state = state, oe_type = kind,
        oe_payload = payload, oe_correlation = corr\<rparr>)))))))))"

section \<open>The store\<close>

text \<open>The files by name, and the counters of the running store.\<close>

record event_store =
  es_files :: "(string, string) dict"
  es_sequences :: "(string, int) dict"

definition event_path :: "string \<Rightarrow> string" where
  "event_path ident = ident @ ''.events.jsonl''"

definition read_line :: "string \<Rightarrow> op_event option" where
  "read_line line =
    (let line = strip line
     in if line = [] then None
        else case json_loads line of
            None \<Rightarrow> None
          | Some data \<Rightarrow> (case event_of_json data of Inl _ \<Rightarrow> None | Inr e \<Rightarrow> Some e))"

definition read_text :: "string \<Rightarrow> op_event list" where
  "read_text content = List.map_filter read_line (splitlines content)"

definition read_raw :: "event_store \<Rightarrow> string \<Rightarrow> op_event list" where
  "read_raw st ident =
    (case map_of (es_files st) (event_path ident) of None \<Rightarrow> [] | Some content \<Rightarrow> read_text content)"

definition next_sequence :: "event_store \<Rightarrow> string \<Rightarrow> int" where
  "next_sequence st ident =
    (case map_of (es_sequences st) ident of
       Some n \<Rightarrow> n
     | None \<Rightarrow> (let events = read_raw st ident in if events \<noteq> [] then oe_sequence (last events) + 1 else 1))"

definition event_line :: "op_event \<Rightarrow> string" where
  "event_line e = spaced (event_json e) @ [CHR 0x0A]"

definition append_event ::
  "event_store \<Rightarrow> string \<Rightarrow> string \<Rightarrow> string \<Rightarrow> jdict \<Rightarrow> string option \<Rightarrow> string \<Rightarrow> op_event \<times> event_store" where
  "append_event st ident state kind payload corr now =
    (let seq = next_sequence st ident;
         event = \<lparr>oe_sequence = seq, oe_operation = ident, oe_timestamp = now, oe_state = state, oe_type = kind,
           oe_payload = payload, oe_correlation = corr\<rparr>;
         path = event_path ident;
         before = (case map_of (es_files st) path of None \<Rightarrow> [] | Some content \<Rightarrow> content)
     in (event, st\<lparr>es_files := AList.update path (before @ event_line event) (es_files st),
           es_sequences := AList.update ident (seq + 1) (es_sequences st)\<rparr>))"

definition read_after :: "event_store \<Rightarrow> string \<Rightarrow> int \<Rightarrow> nat \<Rightarrow> op_event list" where
  "read_after st ident after limit = take limit (filter (\<lambda>e. oe_sequence e > after) (read_raw st ident))"

definition latest_sequence :: "event_store \<Rightarrow> string \<Rightarrow> int" where
  "latest_sequence st ident = (let events = read_raw st ident in if events \<noteq> [] then oe_sequence (last events) else 0)"

definition events_exist :: "event_store \<Rightarrow> string \<Rightarrow> bool" where
  "events_exist st ident \<longleftrightarrow> map_of (es_files st) (event_path ident) \<noteq> None"

text \<open>A new \<open>EventStore\<close> on the same directory starts without counters.\<close>

definition open_events :: "(string, string) dict \<Rightarrow> event_store" where
  "open_events files = \<lparr>es_files = files, es_sequences = []\<rparr>"

section \<open>What is written is read back\<close>

definition single_line :: "string \<Rightarrow> bool" where
  "single_line t \<longleftrightarrow> list_all (\<lambda>s. s = [] \<or> break_len s = 0) (suffixes t)"

definition line_terminated :: "string \<Rightarrow> bool" where
  "line_terminated t \<longleftrightarrow> t = [] \<or> last t = CHR 0x0A"

lemma single_line_Cons: "single_line (c # s) \<longleftrightarrow> break_len (c # s) = 0 \<and> single_line s"
  by (auto simp: single_line_def list_all_iff)

text \<open>Printable ASCII has no line breaks.\<close>

lemma startswith_head: "startswith (c # s) (d # p) \<Longrightarrow> c = d"
  by (simp add: startswith_def)

lemma plain_single_line:
  "list_all (\<lambda>c. 31 < (of_char c :: nat) \<and> (of_char c :: nat) < 128) s \<Longrightarrow> single_line s"
proof (induction s)
  case (Cons c s)
  then have c: "31 < (of_char c :: nat)" "(of_char c :: nat) < 128" by simp_all
  have no: "\<not> startswith (c # s) (d # p)" if "(of_char d :: nat) < 32 \<or> 127 < (of_char d :: nat)" for d p
  proof
    assume "startswith (c # s) (d # p)"
    then have "c = d" by (rule startswith_head)
    with that c show False by simp
  qed
  have "c \<noteq> d" if "(of_char d :: nat) < 32" for d using that c by auto
  then have "c \<notin> {CHR 0x0A, CHR 0x0D, CHR 0x0B, CHR 0x0C, CHR 0x1C, CHR 0x1D, CHR 0x1E}" by simp
  then have "break_len (c # s) = 0" by (simp add: break_len_def no)
  with Cons show ?case by (simp add: single_line_Cons)
qed (simp add: single_line_def)

lemma startswith_Cons [simp]:
  "startswith (c # s) (d # p) \<longleftrightarrow> c = d \<and> startswith s p" "startswith s []" "\<not> startswith [] (d # p)"
  by (auto simp: startswith_def)

lemma break_len_before_newline:
  assumes "s \<noteq> []" and "break_len s = 0"
  shows "break_len (s @ CHR 0x0A # rest) = 0"
proof -
  obtain a u where s: "s = a # u" using assms(1) by (cases s) auto
  show ?thesis
  proof (cases u)
    case Nil
    with assms s show ?thesis by (auto simp: break_len_def split: if_splits)
  next
    case (Cons b v)
    with assms s show ?thesis by (cases v) (auto simp: break_len_def split: if_splits)
  qed
qed

lemma take_line_single:
  "single_line t \<Longrightarrow> take_line (t @ CHR 0x0A # rest) = (t, rest)"
proof (induction t)
  case Nil
  then show ?case by (simp add: break_len_def)
next
  case (Cons c t)
  then have "break_len ((c # t) @ CHR 0x0A # rest) = 0"
    by (intro break_len_before_newline) (simp_all add: single_line_Cons)
  with Cons show ?case by (simp add: single_line_Cons)
qed

lemma break_len_terminated:
  assumes "s \<noteq> []" and "last s = CHR 0x0A"
  shows "break_len (s @ rest) = break_len s"
proof -
  obtain a u where s: "s = a # u" using assms(1) by (cases s) auto
  show ?thesis
  proof (cases u)
    case Nil
    with assms s show ?thesis by (simp add: break_len_def)
  next
    case (Cons b v)
    with assms s show ?thesis by (cases v) (auto simp: break_len_def)
  qed
qed

lemma break_len_bound: "s \<noteq> [] \<Longrightarrow> break_len s \<le> length s"
proof -
  assume "s \<noteq> []"
  then obtain a u where s: "s = a # u" by (cases s) auto
  show ?thesis
  proof (cases u)
    case Nil
    then show ?thesis by (simp add: s break_len_def)
  next
    case (Cons b v)
    then show ?thesis by (cases v) (simp_all add: s break_len_def)
  qed
qed

lemma take_line_terminated:
  "s \<noteq> [] \<Longrightarrow> last s = CHR 0x0A \<Longrightarrow>
    take_line (s @ rest) = apsnd (\<lambda>r. r @ rest) (take_line s) \<and> line_terminated (snd (take_line s))"
proof (induction s)
  case (Cons c s)
  have break: "break_len ((c # s) @ rest) = break_len (c # s)" by (rule break_len_terminated) (use Cons in auto)
  show ?case
  proof (cases "break_len (c # s) = 0")
    case True
    then have "s \<noteq> []" using Cons.prems by (auto simp: break_len_def)
    with Cons True break show ?thesis by (cases "take_line s") auto
  next
    case False
    let ?k = "break_len (c # s)"
    have le: "?k \<le> length (c # s)" by (rule break_len_bound) simp
    then have "drop ?k ((c # s) @ rest) = drop ?k (c # s) @ rest" unfolding drop_append by (simp only: diff_is_0_eq' drop_0)
    moreover have "line_terminated (drop ?k (c # s))"
      using Cons.prems(2) le by (cases "?k < length (c # s)") (auto simp: line_terminated_def last_drop simp del: drop_Cons' length_Cons)
    ultimately show ?thesis using False break by simp
  qed
qed simp

lemma splitlines_append:
  "line_terminated s \<Longrightarrow> splitlines (s @ rest) = splitlines s @ splitlines rest"
proof (induction s rule: splitlines.induct)
  case (1 s)
  show ?case
  proof (cases "s = []")
    case False
    with 1(2) have t: "take_line (s @ rest) = apsnd (\<lambda>r. r @ rest) (take_line s)" "line_terminated (snd (take_line s))"
      using take_line_terminated [of s rest] by (simp_all add: line_terminated_def)
    have "splitlines (s @ rest) = fst (take_line s) # splitlines (snd (take_line s) @ rest)"
      using False by (subst splitlines.simps) (simp add: t(1) apsnd_def map_prod_def case_prod_beta')
    with 1(1) [OF False t(2)] False show ?thesis by (simp add: splitlines.simps [of s])
  qed (simp add: splitlines.simps [of "[]"])
qed

lemma splitlines_line: "single_line t \<Longrightarrow> splitlines (t @ [CHR 0x0A]) = [t]"
  using take_line_single [of t "[]"] by (subst splitlines.simps) (simp add: splitlines.simps [of "[]"])

lemma event_of_event_json [simp]: "event_of_json (event_json e) = Inr e"
  by (simp add: event_of_json_def event_json_def get_field_def opt_field_or_def event_fields_def)

lemma strip_event [simp]: "strip (spaced (event_json e)) = spaced (event_json e)"
proof -
  obtain m where "spaced (event_json e) = CHR ''{'' # m @ [CHR ''}'']"
    by (simp add: event_json_def)
  then show ?thesis by (simp add: strip_def is_space_def)
qed

lemma read_event_line:
  assumes "keys_distinct (JObj (oe_payload e))"
  shows "read_line (spaced (event_json e)) = Some e"
proof -
  have "keys_distinct (nullable JStr (oe_correlation e))" by (cases "oe_correlation e") (simp_all add: nullable_def)
  with assms have "json_loads (spaced (event_json e)) = Some (event_json e)"
    by (intro json_loads_spaced) (simp add: event_json_def)
  moreover have "spaced (event_json e) \<noteq> []" by (simp add: event_json_def)
  ultimately show ?thesis by (simp add: read_line_def Let_def)
qed

text \<open>An event that can be read back: its line is one line, and its payload is a dictionary.\<close>

definition readable :: "op_event \<Rightarrow> bool" where
  "readable e \<longleftrightarrow> keys_distinct (JObj (oe_payload e)) \<and> single_line (spaced (event_json e))"

lemma map_filter_append: "List.map_filter f (xs @ ys) = List.map_filter f xs @ List.map_filter f ys"
  by (simp add: List.map_filter_def)

lemma read_text_append:
  assumes "line_terminated content" and "readable e"
  shows "read_text (content @ event_line e) = read_text content @ [e]"
  using assms splitlines_append [OF assms(1), of "event_line e"] splitlines_line [of "spaced (event_json e)"]
  by (simp add: read_text_def readable_def event_line_def read_event_line map_filter_append List.map_filter_simps)

section \<open>The interface of a log\<close>

text \<open>
  What a client of an append-only log relies on: a write returns its event and adds it at the end
  of its own log.  Nothing is lost, reordered or seen by another log.
\<close>

locale append_log =
  fixes inv :: "'s \<Rightarrow> bool"
    and good :: "'s \<Rightarrow> 'm \<Rightarrow> bool"
    and put :: "'s \<Rightarrow> 'm \<Rightarrow> 'e \<times> 's"
    and read :: "'s \<Rightarrow> 'k \<Rightarrow> 'e list"
    and key :: "'m \<Rightarrow> 'k"
  assumes read_put: "inv s \<Longrightarrow> good s m \<Longrightarrow> read (snd (put s m)) (key m) = read s (key m) @ [fst (put s m)]"
    and read_other: "k \<noteq> key m \<Longrightarrow> read (snd (put s m)) k = read s k"
    and inv_put: "inv s \<Longrightarrow> good s m \<Longrightarrow> inv (snd (put s m))"
begin

fun put_all :: "'s \<Rightarrow> 'm list \<Rightarrow> ('k \<times> 'e) list \<times> 's" where
  "put_all s [] = ([], s)"
| "put_all s (m # ms) =
    (let (e, s1) = put s m; (es, s2) = put_all s1 ms in ((key m, e) # es, s2))"

fun all_good :: "'s \<Rightarrow> 'm list \<Rightarrow> bool" where
  "all_good s [] = True"
| "all_good s (m # ms) \<longleftrightarrow> good s m \<and> all_good (snd (put s m)) ms"

lemma read_put_all:
  "inv s \<Longrightarrow> all_good s ms \<Longrightarrow>
    read (snd (put_all s ms)) k = read s k @ map snd (filter (\<lambda>x. fst x = k) (fst (put_all s ms)))"
proof (induction ms arbitrary: s)
  case (Cons m ms)
  obtain e s1 where w: "put s m = (e, s1)" by (cases "put s m")
  obtain es s2 where ws: "put_all s1 ms = (es, s2)" by (cases "put_all s1 ms")
  have "read s2 k = read s1 k @ map snd (filter (\<lambda>x. fst x = k) es)"
    using Cons.IH [of s1] Cons.prems inv_put [of s m] w ws by simp
  moreover have "read s1 k = read s k @ (if key m = k then [e] else [])"
    using read_put [of s m] read_other [of k m s] Cons.prems w by auto
  ultimately show ?case by (simp add: w ws)
qed simp

end

section \<open>The log as a whole\<close>

text \<open>The arguments of one call of \<open>append\<close>, with the time it reads from the clock.\<close>

record append_call =
  ap_id :: string
  ap_state :: string
  ap_type :: string
  ap_payload :: jdict
  ap_correlation :: "string option"
  ap_now :: string

definition append_of :: "event_store \<Rightarrow> append_call \<Rightarrow> op_event \<times> event_store" where
  "append_of st m = append_event st (ap_id m) (ap_state m) (ap_type m) (ap_payload m) (ap_correlation m) (ap_now m)"

definition numbered :: "op_event list \<Rightarrow> bool" where
  "numbered es \<longleftrightarrow> map oe_sequence es = map (\<lambda>i. int i + 1) [0..<length es]"

definition log_ok :: "event_store \<Rightarrow> bool" where
  "log_ok st \<longleftrightarrow>
    (\<forall>ident content. map_of (es_files st) (event_path ident) = Some content \<longrightarrow> line_terminated content) \<and>
    (\<forall>ident. numbered (read_raw st ident) \<and>
      map_of (es_sequences st) ident \<in> {None, Some (int (length (read_raw st ident)) + 1)})"

lemma event_path_inject [simp]: "event_path i = event_path j \<longleftrightarrow> i = j"
  by (simp add: event_path_def)

lemma append_event_sequence [simp]: "oe_sequence (fst (append_event st ident a b c d e)) = next_sequence st ident"
  by (simp add: append_event_def Let_def)

lemma read_raw_other: "i \<noteq> ident \<Longrightarrow> read_raw (snd (append_event st ident a b c d e)) i = read_raw st i"
  by (simp add: read_raw_def append_event_def Let_def)

lemma read_raw_append:
  assumes "log_ok st" and "readable (fst (append_event st ident a b c d e))"
  shows "read_raw (snd (append_event st ident a b c d e)) ident = read_raw st ident @ [fst (append_event st ident a b c d e)]"
proof (cases "map_of (es_files st) (event_path ident)")
  case None
  with assms(2) read_text_append [of "[]"] show ?thesis
    by (simp add: read_raw_def append_event_def Let_def line_terminated_def read_text_def splitlines.simps [of "[]"]
        List.map_filter_simps)
next
  case (Some content)
  with assms(1) have "line_terminated content" by (simp add: log_ok_def)
  with Some assms(2) read_text_append show ?thesis by (simp add: read_raw_def append_event_def Let_def)
qed

lemma numbered_nth: "numbered es \<Longrightarrow> i < length es \<Longrightarrow> oe_sequence (es ! i) = int i + 1"
proof -
  assume i: "i < length es" and "numbered es"
  then have "map oe_sequence es ! i = map (\<lambda>i. int i + 1) [0..<length es] ! i" by (simp only: numbered_def)
  with i show ?thesis by simp
qed

lemma numbered_last: "numbered es \<Longrightarrow> es \<noteq> [] \<Longrightarrow> oe_sequence (last es) = int (length es)"
  using numbered_nth [of es "length es - 1"] by (cases "length es") (simp_all add: last_conv_nth)

lemma next_sequence_ok: "log_ok st \<Longrightarrow> next_sequence st ident = int (length (read_raw st ident)) + 1"
proof -
  assume ok: "log_ok st"
  then have es: "numbered (read_raw st ident)" by (simp add: log_ok_def)
  from ok have "map_of (es_sequences st) ident \<in> {None, Some (int (length (read_raw st ident)) + 1)}"
    by (simp add: log_ok_def)
  then show ?thesis
    using numbered_last [OF es] by (cases "read_raw st ident = []") (auto simp: next_sequence_def Let_def)
qed

lemma log_ok_append:
  assumes "log_ok st" and "readable (fst (append_event st ident a b c d e))"
  shows "log_ok (snd (append_event st ident a b c d e))"
  unfolding log_ok_def
proof (intro conjI allI impI)
  let ?st = "snd (append_event st ident a b c d e)"
  show "line_terminated content" if "map_of (es_files ?st) (event_path i) = Some content" for i content
    using that assms(1)
    by (auto simp: append_event_def Let_def log_ok_def line_terminated_def event_line_def split: if_splits)
  fix i
  have "numbered (read_raw st ident @ [fst (append_event st ident a b c d e)])"
    using assms(1) by (simp add: numbered_def log_ok_def next_sequence_ok [OF assms(1)])
  then show "numbered (read_raw ?st i)"
    using assms(1) by (cases "i = ident") (simp_all add: read_raw_append [OF assms] read_raw_other log_ok_def)
  show "map_of (es_sequences ?st) i \<in> {None, Some (int (length (read_raw ?st i)) + 1)}"
  proof (cases "i = ident")
    case True
    then show ?thesis
      using next_sequence_ok [OF assms(1), of ident] read_raw_append [OF assms]
      by (simp add: append_event_def Let_def)
  next
    case False
    then have "map_of (es_sequences ?st) i = map_of (es_sequences st) i" by (simp add: append_event_def Let_def)
    with False assms(1) show ?thesis by (simp add: read_raw_other log_ok_def)
  qed
qed

interpretation op_log: append_log log_ok "\<lambda>st m. readable (fst (append_of st m))" append_of read_raw ap_id
proof
  show "log_ok s \<Longrightarrow> readable (fst (append_of s m)) \<Longrightarrow>
      read_raw (snd (append_of s m)) (ap_id m) = read_raw s (ap_id m) @ [fst (append_of s m)]" for s m
    unfolding append_of_def by (rule read_raw_append)
  show "k \<noteq> ap_id m \<Longrightarrow> read_raw (snd (append_of s m)) k = read_raw s k" for k m s
    unfolding append_of_def by (rule read_raw_other)
  show "log_ok s \<Longrightarrow> readable (fst (append_of s m)) \<Longrightarrow> log_ok (snd (append_of s m))" for s m
    unfolding append_of_def by (rule log_ok_append)
qed

lemma log_ok_open: "log_ok st \<Longrightarrow> log_ok (open_events (es_files st))"
  by (simp add: log_ok_def open_events_def read_raw_def)

lemma log_ok_empty [simp]: "log_ok (open_events [])"
  by (simp add: log_ok_def open_events_def read_raw_def numbered_def)

text \<open>The stores that a process can reach: appends of readable events and restarts.\<close>

inductive log_run :: "event_store \<Rightarrow> bool" where
  log_start: "log_run (open_events [])"
| log_append: "log_run st \<Longrightarrow> readable (fst (append_of st m)) \<Longrightarrow> log_run (snd (append_of st m))"
| log_restart: "log_run st \<Longrightarrow> log_run (open_events (es_files st))"

lemma log_run_ok: "log_run st \<Longrightarrow> log_ok st"
  by (induction rule: log_run.induct) (simp_all add: op_log.inv_put log_ok_open)

text \<open>Reading after a cursor gives the events behind it, so a client that pages sees each once.\<close>

lemma filter_numbered:
  assumes "numbered es"
  shows "filter (\<lambda>e. oe_sequence e > int n) es = drop n es"
proof -
  have seq: "oe_sequence (es ! i) = int i + 1" if "i < length es" for i
    using numbered_nth [OF assms that] .
  have "filter (\<lambda>e. oe_sequence e > int n) (take n es) = []"
    using seq by (auto simp: filter_empty_conv in_set_conv_nth)
  moreover have "filter (\<lambda>e. oe_sequence e > int n) (drop n es) = drop n es"
    using seq by (auto simp: filter_id_conv in_set_conv_nth)
  ultimately show ?thesis by (metis append_Nil append_take_drop_id filter_append)
qed

lemma read_after_drop:
  "log_ok st \<Longrightarrow> read_after st ident (int n) limit = take limit (drop n (read_raw st ident))"
  by (simp add: read_after_def filter_numbered log_ok_def)

end
