(* ===== verification/Op_Controller.thy ===== *)
theory Op_Controller
  imports Event_Store
begin

text \<open>
  The operation controller (\<open>operation_controller/controller.py\<close>), part one: its state, the adapters it
  delegates to, registration, and the phases of review, fulfilment, planning, execution and chat.

  The adapters are protocols in the code; here they are functions on an environment \<open>'w\<close> that every
  call may change, and which may raise.  An action takes the controller's state and gives a result
  or an exception together with the state it leaves, so that what was saved before an exception
  stays saved.
\<close>

section \<open>State and actions\<close>

record 'w planning_adapter =
  pa_create :: "string \<Rightarrow> jdict \<Rightarrow> 'w \<Rightarrow> jdict result \<times> 'w"
  pa_resume :: "operation_record \<Rightarrow> jdict \<Rightarrow> 'w \<Rightarrow> jdict result \<times> 'w"

record 'w execution_adapter =
  xa_execute :: "string \<Rightarrow> json \<Rightarrow> jdict \<Rightarrow> 'w \<Rightarrow> jdict result \<times> 'w"
  xa_resume :: "operation_record \<Rightarrow> jdict \<Rightarrow> 'w \<Rightarrow> jdict result \<times> 'w"

text \<open>The adapters, the clock and the source of fresh identifiers.\<close>

record 'w services =
  sv_planning :: "'w planning_adapter option"
  sv_review :: "(json \<Rightarrow> string \<Rightarrow> string option \<Rightarrow> 'w \<Rightarrow> jdict result \<times> 'w) option"
  sv_fulfil :: "(json \<Rightarrow> json \<Rightarrow> jdict \<Rightarrow> 'w \<Rightarrow> jdict result \<times> 'w) option"
  sv_execution :: "'w execution_adapter option"
  sv_chat :: "(string \<Rightarrow> json \<Rightarrow> jdict \<Rightarrow> 'w \<Rightarrow> jdict result \<times> 'w) option"
  sv_now :: "'w \<Rightarrow> string"
  sv_token :: "'w \<Rightarrow> string"

record 'w controller =
  ct_files :: op_files
  ct_events :: "event_store option"
  ct_env :: 'w

type_synonym ('w, 'a) act = "'w controller \<Rightarrow> 'a result \<times> 'w controller"

definition ret :: "'a \<Rightarrow> ('w, 'a) act" where
  "ret x c = (Inr x, c)"

definition raise_error :: "py_error \<Rightarrow> ('w, 'a) act" where
  "raise_error e c = (Inl e, c)"

definition lift :: "'a result \<Rightarrow> ('w, 'a) act" where
  "lift r c = (r, c)"

definition abind :: "('w, 'a) act \<Rightarrow> ('a \<Rightarrow> ('w, 'b) act) \<Rightarrow> ('w, 'b) act" where
  "abind m f c = (case m c of (Inl e, c1) \<Rightarrow> (Inl e, c1) | (Inr x, c1) \<Rightarrow> f x c1)"

definition seq :: "('w, unit) act \<Rightarrow> ('w, 'b) act \<Rightarrow> ('w, 'b) act" where
  "seq m n = abind m (\<lambda>_. n)"

text \<open>A call of an adapter.\<close>

definition ask :: "('w \<Rightarrow> 'a result \<times> 'w) \<Rightarrow> ('w, 'a) act" where
  "ask f c = (case f (ct_env c) of (r, w) \<Rightarrow> (r, c\<lparr>ct_env := w\<rparr>))"

definition save :: "operation_record \<Rightarrow> ('w, unit) act" where
  "save r c = (Inr (), c\<lparr>ct_files := save_record r (ct_files c)\<rparr>)"

definition load :: "string \<Rightarrow> ('w, operation_record option) act" where
  "load ident c = (load_record (ct_files c) ident, c)"

definition move :: "'w services \<Rightarrow> operation_record \<Rightarrow> op_state \<Rightarrow> string \<Rightarrow> ('w, operation_record) act" where
  "move sv r t reason c = (op_transition r t reason (sv_now sv (ct_env c)), c)"

text \<open>\<open>record.transition(...)\<close> in a \<open>try\<close> block: the message of the refused transition or the record.\<close>

definition try_move ::
  "'w services \<Rightarrow> operation_record \<Rightarrow> op_state \<Rightarrow> string \<Rightarrow> ('w, string + operation_record) act" where
  "try_move sv r t reason c =
    (case op_transition r t reason (sv_now sv (ct_env c)) of
       Inr r1 \<Rightarrow> (Inr (Inr r1), c)
     | Inl (InvalidTransition m) \<Rightarrow> (Inr (Inl m), c)
     | Inl e \<Rightarrow> (Inl e, c))"

text \<open>The result of an operation of the controller.\<close>

record op_result =
  rs_id :: string
  rs_state :: op_state
  rs_detail :: jdict

definition answer :: "operation_record \<Rightarrow> jdict \<Rightarrow> ('w, op_result) act" where
  "answer r detail = ret \<lparr>rs_id = or_id r, rs_state = or_state r, rs_detail = detail\<rparr>"

definition not_found :: "string \<Rightarrow> ('w, op_result) act" where
  "not_found ident = ret \<lparr>rs_id = ident, rs_state = OpReceived, rs_detail = [(''error'', JStr ''operation_not_found'')]\<rparr>"

definition problem :: "operation_record \<Rightarrow> string \<Rightarrow> ('w, op_result) act" where
  "problem r message = answer r [(''error'', JStr message)]"

text \<open>\<open>_emit\<close>: each event has a companion that records the state.\<close>

definition emit_one :: "'w services \<Rightarrow> operation_record \<Rightarrow> string \<Rightarrow> jdict \<Rightarrow> ('w, unit) act" where
  "emit_one sv r kind payload c =
    (Inr (), case ct_events c of
       None \<Rightarrow> c
     | Some st \<Rightarrow> c\<lparr>ct_events := Some (snd (append_event st (or_id r) (op_state_str (or_state r)) kind payload None
         (sv_now sv (ct_env c))))\<rparr>)"

definition emit_event :: "'w services \<Rightarrow> operation_record \<Rightarrow> string \<Rightarrow> jdict \<Rightarrow> ('w, unit) act" where
  "emit_event sv r kind payload =
    seq (emit_one sv r kind payload)
      (if kind \<noteq> ''state_transition''
       then emit_one sv r ''state_transition'' [(''to_state'', JStr (op_state_str (or_state r)))]
       else ret ())"

definition set_slice :: "string \<Rightarrow> json \<Rightarrow> operation_record \<Rightarrow> operation_record" where
  "set_slice k v r = r\<lparr>or_slices := AList.update k v (or_slices r)\<rparr>"

definition set_artifact :: "string \<Rightarrow> json \<Rightarrow> operation_record \<Rightarrow> operation_record" where
  "set_artifact k v r = r\<lparr>or_artifacts := AList.update k v (or_artifacts r)\<rparr>"

text \<open>\<open>if key in result: target[key] = result[key]\<close>.\<close>

definition copy_artifact :: "string \<Rightarrow> jdict \<Rightarrow> operation_record \<Rightarrow> operation_record" where
  "copy_artifact k result r = (case map_of result k of None \<Rightarrow> r | Some v \<Rightarrow> set_artifact k v r)"

definition copy_slice :: "string \<Rightarrow> jdict \<Rightarrow> operation_record \<Rightarrow> operation_record" where
  "copy_slice k result r = (case map_of result k of None \<Rightarrow> r | Some v \<Rightarrow> set_slice k v r)"

text \<open>\<open>json.loads\<close> of a stored value.\<close>

definition parse_json :: "json \<Rightarrow> json result" where
  "parse_json v =
    (case v of
       JStr s \<Rightarrow> (case json_loads s of None \<Rightarrow> Inl (ValueError ''JSONDecodeError'') | Some j \<Rightarrow> Inr j)
     | _ \<Rightarrow> Inl (TypeError ''the JSON object must be str''))"

section \<open>Registration\<close>

definition missing_adapters :: "'w services \<Rightarrow> string \<Rightarrow> string list" where
  "missing_adapters sv source =
    emit (source = ''task'' \<and> sv_planning sv = None) ''planning''
    @ emit (source \<in> {''task'', ''prepared_plan'', ''fix''} \<and> sv_review sv = None) ''review''
    @ emit (source \<in> {''task'', ''prepared_plan''} \<and> sv_execution sv = None) ''execution''
    @ emit (source = ''chat'' \<and> sv_chat sv = None) ''chat''"

definition fresh_id :: "'w services \<Rightarrow> string option \<Rightarrow> 'w controller \<Rightarrow> string" where
  "fresh_id sv ident c =
    (case ident of Some i \<Rightarrow> if i \<noteq> [] then i else ''op-'' @ sv_token sv (ct_env c) | None \<Rightarrow> ''op-'' @ sv_token sv (ct_env c))"

definition register_op :: "'w services \<Rightarrow> string \<Rightarrow> string \<Rightarrow> string option \<Rightarrow> ('w, op_result) act" where
  "register_op sv source prompt ident c =
    (let missing = missing_adapters sv source
     in if missing \<noteq> []
        then ret \<lparr>rs_id = (case ident of None \<Rightarrow> [] | Some i \<Rightarrow> i), rs_state = OpReceived,
          rs_detail = [(''error'', JStr ''required_adapters_unavailable''),
            (''missing_adapters'', JList (map JStr (sort missing))), (''source_kind'', JStr source)]\<rparr> c
        else (let r = new_record (fresh_id sv ident c) OpReceived source prompt (sv_now sv (ct_env c))
              in seq (save r) (seq (emit_event sv r ''operation_created'' [(''source_kind'', JStr source)])
                   (answer r [(''registered'', JBool True)])) c))"

section \<open>Results of adapters\<close>

definition adapter_call :: "json \<Rightarrow> (json \<times> json \<times> json) result" where
  "adapter_call tool_call =
    rbind (jget ''call_id'' (JStr []) tool_call) (\<lambda>c. rbind (jget ''tool_name'' (JStr []) tool_call) (\<lambda>t.
    rbind (jget ''arguments'' (JObj []) tool_call) (\<lambda>a. Inr (c, t, a))))"

text \<open>Arguments that are a string are parsed; what does not parse counts as no arguments.\<close>

definition parsed_arguments :: "json \<Rightarrow> json" where
  "parsed_arguments a = (case a of JStr s \<Rightarrow> (case json_loads s of None \<Rightarrow> JObj [] | Some v \<Rightarrow> v) | _ \<Rightarrow> a)"

definition approval_suspension ::
  "'w services \<Rightarrow> operation_record \<Rightarrow> jdict \<Rightarrow> string \<Rightarrow> json \<Rightarrow> ('w, op_result) act" where
  "approval_suspension sv r result phase suspension_id =
    (let tool_call = dget ''tool_call'' (JObj []) result;
         risk = dget ''risk_level'' (JStr ''medium'') result;
         reason = dget ''reason'' (JStr []) result
     in abind (lift (adapter_call tool_call)) (\<lambda>(call_id, tool_name, arguments).
        let digest = JStr (compute_argument_digest call_id tool_name (parsed_arguments arguments));
            r1 = copy_artifact ''continuation'' result
              (set_slice ''resume_phase'' (JStr phase) (set_slice ''approval_tool_call'' tool_call
                (set_slice ''argument_digest'' digest (set_slice ''suspension_id'' suspension_id r))))
        in abind (move sv r1 SuspForApproval ''approval_required'') (\<lambda>r2.
           let r3 = r2\<lparr>or_suspend_reason := dget ''reason'' (JStr ''approval_required'') result\<rparr>
           in seq (save r3)
              (seq (emit_event sv r3 ''tool_approval_requested'' [(''tool_call'', tool_call), (''call_id'', call_id),
                  (''tool_name'', tool_name), (''argument_digest'', digest), (''suspension_id'', suspension_id),
                  (''reason'', reason), (''risk_level'', risk)])
              (answer r3 [(''suspended'', JBool True), (''suspend_state'', JStr ''suspended_for_approval''),
                (''suspension_id'', suspension_id), (''argument_digest'', digest), (''tool_call'', tool_call),
                (''reason'', reason), (''risk_level'', risk)])))))"

definition tool_result_suspension ::
  "'w services \<Rightarrow> operation_record \<Rightarrow> jdict \<Rightarrow> string \<Rightarrow> json \<Rightarrow> ('w, op_result) act" where
  "tool_result_suspension sv r result phase suspension_id =
    (let pending = dget ''pending_calls'' (JList []) result;
         r1 = copy_artifact ''continuation'' result
           (set_slice ''resume_phase'' (JStr phase) (set_slice ''pending_calls'' pending
             (set_slice ''suspension_id'' suspension_id r)))
     in abind (move sv r1 SuspForToolResult ''frontend_tool_execution'') (\<lambda>r2.
        let r3 = r2\<lparr>or_suspend_reason := JStr ''frontend_tool_execution''\<rparr>
        in seq (save r3)
           (seq (emit_event sv r3 ''tool_execution_requested'' [(''pending_calls'', pending),
               (''suspension_id'', suspension_id), (''phase'', JStr phase)])
           (answer r3 [(''suspended'', JBool True), (''suspend_state'', JStr ''suspended_for_tool_result''),
             (''suspension_id'', suspension_id), (''pending_calls'', pending)]))))"

definition other_suspension :: "operation_record \<Rightarrow> jdict \<Rightarrow> string \<Rightarrow> operation_record" where
  "other_suspension r result phase =
    set_slice ''resume_phase'' (JStr phase) (copy_slice ''pending_calls'' result (copy_slice ''suspension_id'' result
      (copy_artifact ''continuation'' result (r\<lparr>or_suspend_reason := dget ''reason'' (JStr phase) result\<rparr>))))"

definition handle_adapter_result ::
  "'w services \<Rightarrow> operation_record \<Rightarrow> jdict \<Rightarrow> string \<Rightarrow> ('w, op_result) act" where
  "handle_adapter_result sv r result phase =
    (let status = dget ''status'' (JStr []) result
     in if status = JStr ''completed''
        then abind (move sv r OpCompleted ''adapter_completed'') (\<lambda>r1.
          seq (save r1)
          (seq (emit_event sv r1 ''operation_completed'' [(''output'', dget ''output'' (JStr []) result)])
            (answer r1 [(''output'', dget ''output'' (JStr []) result), (''usage'', dget ''usage'' (JList []) result)])))
        else if status = JStr ''failed''
        then abind (move sv r OpCancelled ''adapter_failed'') (\<lambda>r1.
          seq (save r1)
          (seq (emit_event sv r1 ''operation_failed'' [(''error'', dget ''error'' (JStr []) result)])
            (answer r1 [(''error'', dget ''error'' (JStr []) result)])))
        else if status = JStr ''suspended''
        then (let suspend_state = dget ''suspend_state'' (JStr []) result;
                  suspension_id = dget ''suspension_id'' (JStr []) result
              in if suspend_state = JStr ''suspended_for_approval''
                 then approval_suspension sv r result phase suspension_id
                 else if suspend_state = JStr ''suspended_for_tool_result''
                 then tool_result_suspension sv r result phase suspension_id
                 else (let r1 = other_suspension r result phase
                       in seq (save r1) (answer r1 [(''suspended'', JBool True), (''reason'', dget ''reason'' JNull result)])))
        else problem r (''unknown adapter status: '' @ py_str status))"

section \<open>Execution, fulfilment and review\<close>

definition do_execution :: "'w services \<Rightarrow> operation_record \<Rightarrow> jdict \<Rightarrow> ('w, op_result) act" where
  "do_execution sv r ctx =
    (case sv_execution sv of
       None \<Rightarrow> answer r [(''awaiting'', JStr ''execution_adapter'')]
     | Some x \<Rightarrow>
         (let raw = dget ''candidate_plan'' (JStr ''{}'') (or_artifacts r)
          in abind (lift (if truth raw then parse_json raw else Inr (JObj []))) (\<lambda>plan.
             abind (move sv r OpSandboxRunning ''execution_started'') (\<lambda>r1.
             seq (save r1)
             (abind (ask (xa_execute x (or_id r1) plan ctx)) (\<lambda>result.
                handle_adapter_result sv r1 result ''execution''))))))"

fun any_needs_decision :: "json list \<Rightarrow> bool result" where
  "any_needs_decision [] = Inr False"
| "any_needs_decision (f # fs) =
    rbind (jget ''needs_decision'' JNull f) (\<lambda>v. if truth v then Inr True else any_needs_decision fs)"

definition json_len :: "json \<Rightarrow> json result" where
  "json_len v =
    (case v of
       JStr s \<Rightarrow> Inr (JInt (int (py_len s)))
     | _ \<Rightarrow> rbind (list_items v) (\<lambda>xs. Inr (JInt (int (length xs)))))"

text \<open>\<open>review\<close> is \<open>_do_review\<close>, which fulfilment calls again with the revised plan.\<close>

definition do_fulfilment ::
  "'w services \<Rightarrow> (operation_record \<Rightarrow> json \<Rightarrow> ('w, op_result) act) \<Rightarrow> operation_record \<Rightarrow> json \<Rightarrow> json \<Rightarrow> jdict
    \<Rightarrow> ('w, op_result) act" where
  "do_fulfilment sv review r findings plan ctx =
    (case sv_fulfil sv of
       None \<Rightarrow> abind (lift (json_len findings)) (\<lambda>n.
         answer r [(''awaiting'', JStr ''fulfilment_adapter''), (''findings_count'', n)])
     | Some fulfil \<Rightarrow>
         abind (ask (fulfil findings plan ctx)) (\<lambda>result.
           if truth (dget ''all_resolved'' JNull result)
           then abind (move sv r OpReviewing ''fulfilment_complete'') (\<lambda>r1.
             seq (save r1) (review r1 (dget ''revised_plan'' plan result)))
           else (let unresolved = dget ''unresolved'' (JList []) result
                 in abind (lift (rbind (list_items unresolved) any_needs_decision)) (\<lambda>decision.
                    abind (if decision then move sv r OpAwaitingDecision ''decision_required''
                           else move sv r OpCollectingEvidence ''evidence_required'') (\<lambda>r1.
                    seq (save r1) (abind (lift (json_len unresolved)) (\<lambda>n. answer r1 [(''unresolved_count'', n)])))))))"

text \<open>
  What a review decides, apart from a material gap: a clean plan goes on to execution, an error of
  the provider and every other decision suspend the operation.
\<close>

definition str_or_empty :: "json \<Rightarrow> json" where
  "str_or_empty v = JStr (py_str (if truth v then v else JStr []))"

definition review_clean :: "'w services \<Rightarrow> operation_record \<Rightarrow> jdict \<Rightarrow> jdict \<Rightarrow> ('w, op_result) act" where
  "review_clean sv r result ctx =
    (let r0 = (case dget ''improved_plan'' JNull result of
           JObj p \<Rightarrow> set_artifact ''aflow_lifecycle_run_id'' (str_or_empty (dget ''review_id'' JNull result))
             (set_artifact ''candidate_plan'' (JStr (json_dumps (JObj p))) r)
         | _ \<Rightarrow> r)
     in abind (move sv r0 OpSandboxReady ''review_clean'') (\<lambda>r1.
        seq (save r1)
        (seq (emit_event sv r1 ''aflow_review_completed'' [(''lifecycle_run_id'', dget ''review_id'' JNull result)])
        (if sv_execution sv \<noteq> None then do_execution sv r1 ctx
         else answer r1 [(''review_decision'', JStr ''no_material_gap'')]))))"

definition review_provider_error :: "'w services \<Rightarrow> operation_record \<Rightarrow> jdict \<Rightarrow> ('w, op_result) act" where
  "review_provider_error sv r result =
    (let issue = dget ''issue_id'' JNull result
     in abind (move sv r SuspProviderRecovery ''aflow_provider_error'') (\<lambda>r1.
        let r2 = r1\<lparr>or_suspend_reason := JStr ''aflow_provider_error''\<rparr>;
            r3 = (if truth issue then set_artifact ''aflow_issue_id'' (JStr (py_str issue)) r2 else r2)
        in seq (save r3)
           (seq (emit_event sv r3 ''aflow_issue_created'' [(''issue_id'', issue),
               (''lifecycle_run_id'', dget ''review_id'' JNull result)])
           (answer r3 [(''review_decision'', JStr ''provider_error''), (''issue_id'', issue),
             (''error'', dget ''error'' JNull result)]))))"

definition review_suspends :: "'w services \<Rightarrow> operation_record \<Rightarrow> jdict \<Rightarrow> json \<Rightarrow> ('w, op_result) act" where
  "review_suspends sv r result decision =
    abind (move sv r SuspEvidence (''review_decision='' @ py_str decision)) (\<lambda>r1.
      let r2 = r1\<lparr>or_suspend_reason := decision\<rparr>
      in seq (save r2)
         (answer r2 [(''review_decision'', decision), (''findings'', dget ''findings'' (JList []) result)]))"

text \<open>
  \<open>_do_review\<close> and \<open>_do_fulfilment\<close> call each other.  The first argument is how many more reviews
  Python's stack has room for; without room the call raises \<open>RecursionError\<close>.
\<close>

fun do_review ::
  "nat \<Rightarrow> 'w services \<Rightarrow> operation_record \<Rightarrow> json \<Rightarrow> jdict \<Rightarrow> string option \<Rightarrow> ('w, op_result) act" where
  "do_review 0 sv r plan ctx provider = raise_error RecursionError"
| "do_review (Suc n) sv r plan ctx provider =
    (case sv_review sv of
       None \<Rightarrow> answer r [(''awaiting'', JStr ''review_adapter'')]
     | Some review \<Rightarrow>
         abind (ask (review plan (or_id r) provider)) (\<lambda>result.
           let decision = dget ''decision'' (JStr []) result
           in if decision = JStr ''no_material_gap'' then review_clean sv r result ctx
              else if decision = JStr ''material_gap_found''
              then abind (move sv r OpFulfilling ''material_gap_found'') (\<lambda>r1.
                seq (save r1)
                  (do_fulfilment sv (\<lambda>r2 p. do_review n sv r2 p ctx None) r1 (dget ''findings'' (JList []) result) plan ctx))
              else if decision = JStr ''provider_error'' then review_provider_error sv r result
              else review_suspends sv r result decision))"

section \<open>Planning and chat\<close>

text \<open>From a finished plan to its review; \<open>plan_created\<close> and \<open>plan_resumed\<close> are the reasons.\<close>

definition plan_to_review ::
  "nat \<Rightarrow> 'w services \<Rightarrow> operation_record \<Rightarrow> json \<Rightarrow> string \<Rightarrow> jdict result \<Rightarrow> ('w, op_result) act" where
  "plan_to_review n sv r plan reason ctx =
    abind (move sv r OpPlanReady reason) (\<lambda>r1.
      let r2 = set_artifact ''candidate_plan'' (JStr (json_dumps plan)) r1
      in seq (save r2)
         (abind (move sv r2 OpReviewing ''auto_review'') (\<lambda>r3.
          seq (save r3) (abind (lift ctx) (\<lambda>d. do_review n sv r3 plan d None)))))"

definition reply_plan :: "jdict \<Rightarrow> json" where
  "reply_plan result = dget ''plan'' (JObj result) result"

definition do_planning :: "nat \<Rightarrow> 'w services \<Rightarrow> operation_record \<Rightarrow> string \<Rightarrow> jdict \<Rightarrow> ('w, op_result) act" where
  "do_planning n sv r prompt ctx =
    (case sv_planning sv of
       None \<Rightarrow> answer r [(''awaiting'', JStr ''planning_adapter'')]
     | Some p \<Rightarrow>
         abind (ask (pa_create p prompt ctx)) (\<lambda>result.
           if dget ''status'' JNull result = JStr ''suspended''
           then handle_adapter_result sv r result ''planning''
           else plan_to_review n sv r (reply_plan result) ''plan_created'' (Inr ctx)))"

definition do_chat :: "'w services \<Rightarrow> operation_record \<Rightarrow> jdict \<Rightarrow> ('w, op_result) act" where
  "do_chat sv r ctx =
    (case sv_chat sv of
       None \<Rightarrow> answer r [(''awaiting'', JStr ''chat_adapter'')]
     | Some chat \<Rightarrow>
         abind (move sv r OpSandboxRunning ''chat_turn_started'') (\<lambda>r1.
         seq (save r1)
         (seq (emit_event sv r1 ''chat_turn_started'' [])
         (abind (ask (chat (or_prompt r1) (dget ''history'' (JList []) ctx) ctx)) (\<lambda>result.
            if truth (dget ''error'' JNull result)
            then abind (move sv r1 OpCancelled ''chat_error'') (\<lambda>r2.
              seq (save r2) (answer r2 [(''error'', dget ''error'' JNull result)]))
            else abind (move sv r1 OpCompleted ''chat_turn_completed'') (\<lambda>r2.
              seq (save r2)
              (seq (emit_event sv r2 ''chat_turn_completed'' [(''usage'', dget ''usage'' (JObj []) result)])
              (answer r2 [(''response'', dget ''response'' (JStr []) result), (''usage'', dget ''usage'' (JObj []) result)]))))))))"

section \<open>Start\<close>

definition start_op :: "nat \<Rightarrow> 'w services \<Rightarrow> string \<Rightarrow> json option \<Rightarrow> jdict \<Rightarrow> ('w, op_result) act" where
  "start_op n sv ident plan ctx =
    abind (load ident) (\<lambda>found. case found of
       None \<Rightarrow> not_found ident
     | Some r \<Rightarrow>
         if or_state r \<noteq> OpReceived
         then problem r (''operation already started (state='' @ op_state_str (or_state r) @ '')'')
         else if or_source r = ''prepared_plan'' \<and> plan \<noteq> None
         then abind (move sv r OpReviewing ''prepared_plan_submitted'') (\<lambda>r1.
           let r2 = set_artifact ''candidate_plan'' (JStr (json_dumps (the plan))) r1
           in seq (save r2) (do_review n sv r2 (the plan) ctx None))
         else if or_source r = ''task''
         then abind (move sv r OpPlanning ''task_accepted'') (\<lambda>r1.
           seq (save r1)
           (seq (emit_event sv r1 ''state_transition'' [(''to_state'', JStr ''planning'')])
             (do_planning n sv r1 (or_prompt r) ctx)))
         else if or_source r = ''fix''
         then abind (move sv r OpReviewing ''fix_accepted'') (\<lambda>r1.
           seq (save r1)
           (case plan of
              Some p \<Rightarrow> if truth p then do_review n sv r1 p ctx None else answer r1 [(''awaiting'', JStr ''plan'')]
            | None \<Rightarrow> answer r1 [(''awaiting'', JStr ''plan'')]))
         else if or_source r = ''chat'' then do_chat sv r ctx
         else problem r (''unknown source_kind: '' @ or_source r))"

definition accept_op ::
  "nat \<Rightarrow> 'w services \<Rightarrow> string \<Rightarrow> string \<Rightarrow> json option \<Rightarrow> string option \<Rightarrow> jdict \<Rightarrow> ('w, op_result) act" where
  "accept_op n sv source prompt plan ident ctx =
    abind (register_op sv source prompt ident) (\<lambda>registered.
      if truth (dget ''error'' JNull (rs_detail registered)) then ret registered
      else start_op n sv (rs_id registered) plan ctx)"

end
