(* ===== verification/Op_Resume.thy ===== *)
theory Op_Resume
  imports Op_Controller
begin

text \<open>
  The operation controller (\<open>operation_controller/controller.py\<close>), part two: approval decisions, tool
  results, the claim of a tool execution, resumption, cancellation, retries and queries.
\<close>

section \<open>Approval decisions\<close>

text \<open>A suspension identifier that names neither of the two stored ones.\<close>

definition wrong_suspension :: "json \<Rightarrow> operation_record \<Rightarrow> bool" where
  "wrong_suspension incoming r =
    (let persisted = dget ''suspension_id'' (JStr []) (or_slices r);
         approval = dget ''approval_suspension_id'' (JStr []) (or_slices r)
     in truth incoming \<and> (truth persisted \<or> truth approval) \<and>
        \<not> py_eq incoming persisted \<and> \<not> py_eq incoming approval)"

text \<open>Whether the stored arguments of the tool call still match the stored digest.\<close>

definition digest_matches :: "operation_record \<Rightarrow> json \<Rightarrow> json \<Rightarrow> bool result" where
  "digest_matches r tool_call call_id =
    (let expected = dget ''argument_digest'' (JStr []) (or_slices r)
     in if truth expected \<and> truth tool_call
        then rbind (jget ''call_id'' call_id tool_call) (\<lambda>c. rbind (jget ''tool_name'' (JStr []) tool_call) (\<lambda>t.
             rbind (jget ''arguments'' (JObj []) tool_call) (\<lambda>a.
               Inr (verify_argument_digest c t (parsed_arguments a) expected))))
        else Inr True)"

definition deny_approval ::
  "'w services \<Rightarrow> operation_record \<Rightarrow> json \<Rightarrow> json \<Rightarrow> ('w, op_result) act" where
  "deny_approval sv r tool_call call_id =
    abind (try_move sv r OpCancelled ''approval_denied'') (\<lambda>moved. case moved of
      Inl message \<Rightarrow> problem r message
    | Inr r1 \<Rightarrow>
        (let r2 = set_slice ''approval_decision'' (JBool False) (set_slice ''approval_decided'' (JBool True) r1)
         in seq (save r2)
            (abind (lift (jget ''call_id'' call_id tool_call)) (\<lambda>c.
             abind (lift (jget ''tool_name'' (JStr []) tool_call)) (\<lambda>t.
             seq (emit_event sv r2 ''tool_approval_denied'' [(''tool_call'', tool_call), (''call_id'', c), (''tool_name'', t)])
             (answer r2 [(''approved'', JBool False), (''reason'', JStr ''approval_denied''), (''tool_name'', t)]))))))"

text \<open>The continuation after an approval: the call and a synthetic result, no pending raw calls.\<close>

definition approved_messages :: "json \<Rightarrow> json \<Rightarrow> json \<Rightarrow> json list" where
  "approved_messages c t a = [
    JObj [(''role'', JStr ''assistant''), (''content'', JNull),
      (''tool_calls'', JList [JObj [(''id'', c), (''type'', JStr ''function''),
        (''function'', JObj [(''name'', t), (''arguments'', JStr (json_dumps a))])]])],
    JObj [(''role'', JStr ''tool''), (''tool_call_id'', c), (''content'', JStr ''approved'')]]"

definition integrate_approval :: "json \<Rightarrow> json \<Rightarrow> json \<Rightarrow> operation_record \<Rightarrow> operation_record result" where
  "integrate_approval c t a r =
    (let text = dget ''continuation'' JNull (or_artifacts r)
     in if \<not> truth text then Inr r
        else rbind (parse_json text) (\<lambda>co.
          (case co of
             JObj d \<Rightarrow>
               (case map_of d ''messages'' of
                  None \<Rightarrow> Inl (KeyError ''messages'')
                | Some (JList ms) \<Rightarrow>
                    (let d1 = AList.update ''pending_raw_calls'' (JList [])
                       (AList.update ''messages'' (JList (ms @ approved_messages c t a)) d)
                     in Inr (set_artifact ''continuation'' (JStr (json_dumps (JObj d1))) r))
                | Some _ \<Rightarrow> Inl (AttributeError ''append''))
           | _ \<Rightarrow> Inl (TypeError ''continuation''))))"

definition grant_approval ::
  "'w services \<Rightarrow> operation_record \<Rightarrow> json \<Rightarrow> json \<Rightarrow> ('w, op_result) act" where
  "grant_approval sv r tool_call call_id =
    (let r1 = set_slice ''approval_suspension_id'' (dget ''suspension_id'' (JStr []) (or_slices r))
           (set_slice ''approval_decision'' (JBool True) (set_slice ''approval_decided'' (JBool True) r))
     in abind (lift (jget ''call_id'' call_id tool_call)) (\<lambda>c.
        seq (emit_event sv r1 ''tool_approval_resolved'' [(''tool_call'', tool_call), (''call_id'', c), (''approved'', JBool True)])
        (abind (lift (rbind (jget ''tool_name'' (JStr []) tool_call) (\<lambda>t.
            rbind (jget ''arguments'' (JObj []) tool_call) (\<lambda>a. Inr (t, a))))) (\<lambda>(t, a).
         let pending = JObj [(''call_id'', c), (''tool_name'', t), (''arguments'', a)]
         in abind (lift (integrate_approval c t a r1)) (\<lambda>r2.
         abind (\<lambda>s. ret (JStr (''susp-exec-'' @ sv_token sv (ct_env s))) s) (\<lambda>suspension_id.
         let r3 = set_slice ''pending_calls'' (JList [pending]) (set_slice ''suspension_id'' suspension_id r2)
         in abind (try_move sv r3 SuspForToolResult ''approval_granted'') (\<lambda>moved. case moved of
              Inl message \<Rightarrow> problem r3 message
            | Inr r4 \<Rightarrow>
                (let digest = dget ''argument_digest'' (JStr []) (or_slices r4)
                 in seq (save r4)
                    (seq (emit_event sv r4 ''tool_execution_requested'' [(''pending_calls'', JList [pending]),
                        (''suspension_id'', suspension_id), (''phase'', dget ''resume_phase'' (JStr ''execution'') (or_slices r4)),
                        (''argument_digest'', digest)])
                    (answer r4 [(''approved'', JBool True), (''suspended'', JBool True),
                      (''suspend_state'', JStr ''suspended_for_tool_result''), (''pending_calls'', JList [pending]),
                      (''suspension_id'', suspension_id), (''argument_digest'', digest)]))))))))))"

definition handle_approval_decision ::
  "'w services \<Rightarrow> operation_record \<Rightarrow> jdict \<Rightarrow> ('w, op_result) act" where
  "handle_approval_decision sv r input =
    (let approved = dget ''approved'' (JBool False) input;
         call_id = dget ''call_id'' (JStr []) input;
         previous = dget ''approval_decision'' JNull (or_slices r);
         tool_call = dget ''approval_tool_call'' (JObj []) (or_slices r)
     in if wrong_suspension (dget ''suspension_id'' (JStr []) input) r
        then answer r [(''error'', JStr ''suspension_id_mismatch''), (''detail'', JStr ''approval for different suspension'')]
        else if truth (dget ''approval_decided'' JNull (or_slices r))
        then (if py_eq previous approved
              then answer r [(''idempotent'', JBool True), (''approved'', approved)]
              else answer r [(''error'', JStr ''conflicting_approval_decision''),
                (''detail'', JStr (''already decided approved='' @ py_str previous))])
        else abind (lift (digest_matches r tool_call call_id)) (\<lambda>ok.
          if \<not> ok
          then answer r [(''error'', JStr ''argument_digest_mismatch''),
            (''detail'', JStr ''approved arguments differ from original request'')]
          else if \<not> truth approved then deny_approval sv r tool_call call_id
          else grant_approval sv r tool_call call_id))"

section \<open>Tool results\<close>

definition resume_target :: "operation_record \<Rightarrow> op_state" where
  "resume_target r =
    (if or_state r = SuspForToolResult \<or> or_state r = SuspForApproval
     then (let phase = dget ''resume_phase'' (JStr []) (or_slices r)
           in if phase = JStr ''execution'' then OpSandboxRunning
              else if phase = JStr ''planning'' then OpPlanning
              else if or_state r = SuspForApproval then OpSandboxRunning
              else OpPlanning)
     else case or_state r of
         SuspPlanRevision \<Rightarrow> OpReviewing
       | SuspProviderRecovery \<Rightarrow> OpSandboxReady
       | SuspEvidence \<Rightarrow> OpReviewing
       | SuspPackageRepair \<Rightarrow> OpSandboxReady
       | SuspDecision \<Rightarrow> OpReviewing
       | _ \<Rightarrow> OpReceived)"

text \<open>The first result that names another call than the claimed one.\<close>

fun foreign_result :: "json \<Rightarrow> json list \<Rightarrow> json option result" where
  "foreign_result claimed [] = Inr None"
| "foreign_result claimed (tr # trs) =
    rbind (jget ''call_id'' (JStr []) tr) (\<lambda>c.
      if truth c \<and> \<not> py_eq c claimed then Inr (Some c) else foreign_result claimed trs)"

text \<open>
  The checks against an execution claim: an answer that ends the call, or nothing.
\<close>

definition claim_answer :: "operation_record \<Rightarrow> json \<Rightarrow> json \<Rightarrow> jdict option result" where
  "claim_answer r claim results =
    (if \<not> truth claim then Inr None
     else rbind (jget ''call_id'' (JStr []) claim) (\<lambda>claimed.
       if truth (dget ''suspension_consumed'' (JBool False) (or_slices r))
       then (if py_eq (dget ''consumed_tool_results'' (JList []) (or_slices r)) results
             then Inr (Some [(''idempotent'', JBool True), (''resumed'', JBool True)])
             else Inr (Some [(''error'', JStr ''conflicting_result_replay''),
               (''detail'', JStr ''suspension already consumed with different results'')]))
       else rbind (list_items results) (\<lambda>trs. rbind (foreign_result claimed trs) (\<lambda>c.
         Inr (case c of
                None \<Rightarrow> None
              | Some c \<Rightarrow> Some [(''error'', JStr ''result_call_id_mismatch''),
                  (''detail'', JStr (''result call_id '' @ py_str c @ '' != claimed '' @ py_str claimed))])))))"

text \<open>
  The continuation of the running phase: planning ends in a review, execution in the adapter's
  result, and without an adapter the operation stays where it is.  \<open>review_context\<close> is the context
  for the review; \<open>resume\<close> names a variable that does not exist.
\<close>

definition continue_phase ::
  "nat \<Rightarrow> 'w services \<Rightarrow> operation_record \<Rightarrow> jdict \<Rightarrow> jdict result \<Rightarrow> jdict \<Rightarrow> ('w, op_result) act" where
  "continue_phase n sv r input review_context fallback =
    (case (or_state r, sv_planning sv, sv_execution sv) of
       (OpPlanning, Some p, _) \<Rightarrow>
         abind (ask (pa_resume p r input)) (\<lambda>result.
           if dget ''status'' JNull result = JStr ''suspended''
           then handle_adapter_result sv r result ''planning''
           else plan_to_review n sv r (reply_plan result) ''plan_resumed'' review_context)
     | (OpSandboxRunning, _, Some x) \<Rightarrow>
         abind (ask (xa_resume x r input)) (\<lambda>result. handle_adapter_result sv r result ''execution'')
     | _ \<Rightarrow> answer r fallback)"

definition handle_tool_result ::
  "nat \<Rightarrow> 'w services \<Rightarrow> operation_record \<Rightarrow> jdict \<Rightarrow> ('w, op_result) act" where
  "handle_tool_result n sv r input =
    (let results = dget ''tool_results'' (JList []) input;
         claim = dget ''execution_claim'' (JObj []) (or_slices r)
     in abind (lift (claim_answer r claim results)) (\<lambda>early. case early of
          Some detail \<Rightarrow> answer r detail
        | None \<Rightarrow>
            abind (try_move sv r (resume_target r) ''tool_result_submitted'') (\<lambda>moved. case moved of
              Inl message \<Rightarrow> problem r message
            | Inr r1 \<Rightarrow>
                (let r2 = (if truth claim
                     then set_slice ''consumed_tool_results'' results (set_slice ''suspension_consumed'' (JBool True) r1)
                     else r1)
                 in seq (save r2)
                    (continue_phase n sv r2 input (Inr []) [(''resumed'', JBool True), (''tool_results'', results)])))))"

section \<open>Resumption and cancellation\<close>

definition resume_op :: "nat \<Rightarrow> 'w services \<Rightarrow> string \<Rightarrow> jdict \<Rightarrow> ('w, op_result) act" where
  "resume_op n sv ident input =
    abind (load ident) (\<lambda>found. case found of
       None \<Rightarrow> not_found ident
     | Some r \<Rightarrow>
         if or_state r \<notin> set suspended_states
         then problem r (''operation is not suspended (state='' @ op_state_str (or_state r) @ '')'')
         else if dget ''resume_type'' (JStr []) input = JStr ''approval_decision'' then handle_approval_decision sv r input
         else if dget ''resume_type'' (JStr []) input = JStr ''tool_result'' then handle_tool_result n sv r input
         else abind (try_move sv r (resume_target r) ''resumed with input'') (\<lambda>moved. case moved of
             Inl message \<Rightarrow> problem r message
           | Inr r1 \<Rightarrow>
               seq (save r1) (continue_phase n sv r1 input (Inl (NameError ''context'')) [(''resumed'', JBool True)])))"

definition cancel_op :: "'w services \<Rightarrow> string \<Rightarrow> string \<Rightarrow> ('w, op_result) act" where
  "cancel_op sv ident reason =
    abind (load ident) (\<lambda>found. case found of
       None \<Rightarrow> not_found ident
     | Some r \<Rightarrow>
         if or_state r \<in> set terminal_states then problem r ''operation already terminal''
         else abind (try_move sv r OpCancelled reason) (\<lambda>moved. case moved of
             Inl message \<Rightarrow> problem r message
           | Inr r1 \<Rightarrow> seq (save r1) (answer r1 [])))"

section \<open>Queries\<close>

definition status_op :: "string \<Rightarrow> ('w, op_result) act" where
  "status_op ident =
    abind (load ident) (\<lambda>found. case found of
       None \<Rightarrow> not_found ident
     | Some r \<Rightarrow>
         answer r ([(''source_kind'', JStr (or_source r)), (''created_at'', JStr (or_created r)),
           (''updated_at'', JStr (or_updated r)), (''history_length'', JInt (int (length (or_history r)))),
           (''suspend_reason'', or_suspend_reason r)]
           @ (if or_state r = SuspForToolResult
              then [(''suspension_id'', dget ''suspension_id'' JNull (or_slices r)),
                (''argument_digest'', dget ''argument_digest'' JNull (or_slices r))]
              else [])))"

text \<open>The code iterates over a frozen set, in no particular order; here in the order of the states.\<close>

definition list_suspended :: "('w, op_result list) act" where
  "list_suspended c =
    (rbind (each (list_by_state (ct_files c)) suspended_states) (\<lambda>groups.
       Inr (map (\<lambda>r. \<lparr>rs_id = or_id r, rs_state = or_state r, rs_detail = [(''suspend_reason'', or_suspend_reason r)]\<rparr>)
         (concat groups))), c)"

section \<open>Claims\<close>

fun find_call :: "string \<Rightarrow> json list \<Rightarrow> json option result" where
  "find_call ident [] = Inr None"
| "find_call ident (pc # pcs) =
    rbind (jget ''call_id'' JNull pc) (\<lambda>c. if c = JStr ident then Inr (Some pc) else find_call ident pcs)"

definition claim_detail :: "json \<Rightarrow> string \<Rightarrow> string \<Rightarrow> string \<Rightarrow> json \<Rightarrow> bool \<Rightarrow> jdict result" where
  "claim_detail call claimant suspension call_id digest again =
    rbind (jget ''tool_name'' (JStr []) call) (\<lambda>t. rbind (jget ''arguments'' (JObj []) call) (\<lambda>a.
      Inr ([(''claimed'', JBool True)] @ (if again then [(''idempotent'', JBool True)] else [])
        @ [(''claimant_id'', JStr claimant), (''call_id'', JStr call_id), (''tool_name'', t), (''arguments'', a),
           (''argument_digest'', digest), (''suspension_id'', JStr suspension)])))"

definition claim_json :: "string \<Rightarrow> string \<Rightarrow> string \<Rightarrow> string \<Rightarrow> jdict" where
  "claim_json claimant call_id suspension digest = [(''claimant_id'', JStr claimant), (''call_id'', JStr call_id),
    (''suspension_id'', JStr suspension), (''argument_digest'', JStr digest)]"

text \<open>The part of \<open>claim_tool_execution\<close> after the pending call was found.\<close>

definition claim_call ::
  "'w services \<Rightarrow> operation_record \<Rightarrow> json \<Rightarrow> string \<Rightarrow> string \<Rightarrow> string \<Rightarrow> string \<Rightarrow> ('w, op_result) act" where
  "claim_call sv r call claimant suspension call_id digest =
    (let persisted = dget ''argument_digest'' (JStr []) (or_slices r);
         existing = dget ''execution_claim'' (JObj []) (or_slices r)
     in if truth persisted \<and> JStr digest \<noteq> persisted then problem r ''argument_digest_mismatch''
        else if truth existing
        then abind (lift (jget ''claimant_id'' (JStr []) existing)) (\<lambda>owner.
          if owner = JStr claimant
          then abind (lift (claim_detail call claimant suspension call_id persisted True)) (answer r)
          else answer r [(''error'', JStr ''competing_claim''), (''detail'', JStr (''already claimed by '' @ py_str owner))])
        else (let r1 = set_slice ''execution_claim'' (JObj (claim_json claimant call_id suspension digest)) r
              in seq (save r1)
                 (seq (emit_event sv r1 ''tool_execution_claimed'' (claim_json claimant call_id suspension digest))
                 (abind (lift (claim_detail call claimant suspension call_id persisted False)) (answer r1)))))"

definition claim_tool_execution ::
  "'w services \<Rightarrow> string \<Rightarrow> string \<Rightarrow> string \<Rightarrow> string \<Rightarrow> string \<Rightarrow> ('w, op_result) act" where
  "claim_tool_execution sv ident claimant suspension call_id digest =
    abind (load ident) (\<lambda>found. case found of
       None \<Rightarrow> not_found ident
     | Some r \<Rightarrow>
         if or_state r \<noteq> SuspForToolResult then problem r ''operation_not_suspended_for_tool_result''
         else if JStr suspension \<noteq> dget ''suspension_id'' (JStr []) (or_slices r) then problem r ''suspension_id_mismatch''
         else abind (lift (rbind (list_items (dget ''pending_calls'' (JList []) (or_slices r))) (find_call call_id))) (\<lambda>call.
           case call of
             None \<Rightarrow> problem r ''tool_call_not_found''
           | Some pc \<Rightarrow> claim_call sv r pc claimant suspension call_id digest))"

section \<open>Retrying a review\<close>

definition retry_key :: "string \<Rightarrow> string" where
  "retry_key key = ''aflow_retry:'' @ key"

definition retry_aflow :: "nat \<Rightarrow> 'w services \<Rightarrow> string \<Rightarrow> int \<Rightarrow> string \<Rightarrow> string \<Rightarrow> ('w, op_result) act" where
  "retry_aflow n sv ident version key provider =
    abind (load ident) (\<lambda>found. case found of
       None \<Rightarrow> not_found ident
     | Some r \<Rightarrow>
         (case map_of (or_artifacts r) (retry_key key) of
            Some earlier \<Rightarrow> abind (lift (parse_json earlier)) (\<lambda>v. answer r [(''replayed'', JBool True), (''retry'', v)])
          | None \<Rightarrow>
              if or_state r \<noteq> SuspProviderRecovery then problem r ''operation_not_in_provider_recovery''
              else if version \<noteq> int (length (or_history r))
              then answer r [(''error'', JStr ''stale_operation_version''), (''current_version'', JInt (int (length (or_history r))))]
              else (let raw = dget ''candidate_plan'' JNull (or_artifacts r)
                    in if \<not> truth raw then problem r ''candidate_plan_missing''
                       else abind (lift (parse_json raw)) (\<lambda>plan.
                         abind (move sv r OpReviewing (''aflow_retry:'' @ provider)) (\<lambda>r1.
                         seq (save r1)
                         (abind (do_review n sv r1 plan [(''retry'', JBool True)] (Some provider)) (\<lambda>retried.
                          abind (load ident) (\<lambda>again.
                          let latest = (case again of None \<Rightarrow> r1 | Some l \<Rightarrow> l);
                              memo = dict_of ([(''provider'', JStr provider), (''state'', JStr (op_state_str (rs_state retried)))] @ rs_detail retried)
                          in seq (save (set_artifact (retry_key key) (JStr (json_dumps (JObj memo))) latest)) (ret retried)))))))))"

end
