(* ===== verification/Op_Invariants.thy ===== *)
theory Op_Invariants
  imports Op_Resume
begin

text \<open>
  Invariants of the operation controller.  An invariant of the state that every save of a good record
  keeps is kept by every operation, whatever the adapters answer and whichever exception ends the
  call; the operations are walked once, inside of the locale \<open>controller_invariant\<close>.
\<close>

section \<open>Actions that keep an invariant\<close>

text \<open>
  From a state with the invariant, the action leaves a state with it, also when it raises, and its
  result satisfies \<open>Q\<close>.
\<close>

definition keeps :: "('w controller \<Rightarrow> bool) \<Rightarrow> ('w, 'a) act \<Rightarrow> ('a \<Rightarrow> bool) \<Rightarrow> bool" where
  "keeps I m Q \<longleftrightarrow> (\<forall>c. I c \<longrightarrow> I (snd (m c)) \<and> (\<forall>x. fst (m c) = Inr x \<longrightarrow> Q x))"

named_theorems keeps_rules \<open>actions that keep an invariant\<close>

lemma keeps_weaken: "keeps I m Q \<Longrightarrow> (\<And>x. Q x \<Longrightarrow> R x) \<Longrightarrow> keeps I m R"
  by (auto simp: keeps_def)

lemma keeps_abind: "keeps I m Q \<Longrightarrow> (\<And>x. Q x \<Longrightarrow> keeps I (f x) R) \<Longrightarrow> keeps I (abind m f) R"
  by (force simp: keeps_def abind_def split: sum.split prod.split)

lemma keeps_seq: "keeps I m Q \<Longrightarrow> keeps I n R \<Longrightarrow> keeps I (seq m n) R"
  unfolding seq_def by (rule keeps_abind)

lemma keeps_plain:
  "keeps I (ret x) (\<lambda>y. y = x)" "keeps I (lift r) (\<lambda>y. r = Inr y)" "keeps I (raise_error e) Q"
  by (simp_all add: keeps_def ret_def lift_def raise_error_def)

lemma keeps_answers [keeps_rules]:
  "keeps I (ret x) (\<lambda>_. True)" "keeps I (lift r) (\<lambda>_. True)"
  "keeps I (answer q d) (\<lambda>_. True)" "keeps I (problem q s) (\<lambda>_. True)" "keeps I (not_found i) (\<lambda>_. True)"
  by (simp_all add: keeps_def ret_def lift_def answer_def problem_def not_found_def)

section \<open>The operations\<close>

lemma integrate_approval_result:
  assumes "integrate_approval c t a q = Inr r'"
  shows "r' = q \<or> (\<exists>v. r' = set_artifact ''continuation'' v q)"
proof (cases "truth (dget ''continuation'' JNull (or_artifacts q))")
  case True
  then obtain co where co: "(case co of JObj d \<Rightarrow> (case map_of d ''messages'' of
        None \<Rightarrow> Inl (KeyError ''messages'')
      | Some (JList ms) \<Rightarrow> (let d1 = AList.update ''pending_raw_calls'' (JList [])
             (AList.update ''messages'' (JList (ms @ approved_messages c t a)) d)
           in Inr (set_artifact ''continuation'' (JStr (json_dumps (JObj d1))) q))
      | Some _ \<Rightarrow> Inl (AttributeError ''append''))
    | _ \<Rightarrow> Inl (TypeError ''continuation'')) = (Inr r' :: operation_record result)"
    using assms by (auto simp: integrate_approval_def Let_def elim: rbind_InrE)
  then obtain d where d: "co = JObj d" by (cases co) simp_all
  show ?thesis
  proof (cases "map_of d ''messages''")
    case None
    then show ?thesis using co d by simp
  next
    case (Some m)
    then show ?thesis using co d by (cases m) (auto simp: Let_def)
  qed
next
  case False
  then show ?thesis using assms by (simp add: integrate_approval_def)
qed

locale controller_invariant =
  fixes I :: "'w controller \<Rightarrow> bool"
    and good :: "operation_record \<Rightarrow> bool"
    and mine :: "string \<Rightarrow> bool"
  assumes save_good: "I c \<Longrightarrow> good r \<Longrightarrow> I (c\<lparr>ct_files := save_record r (ct_files c)\<rparr>)"
    and ask_keeps: "I c \<Longrightarrow> I (c\<lparr>ct_env := w\<rparr>)"
    and events_keep: "I c \<Longrightarrow> I (c\<lparr>ct_events := e\<rparr>)"
    and load_good: "I c \<Longrightarrow> mine i \<Longrightarrow> load_record (ct_files c) i = Inr (Some r) \<Longrightarrow> good r"
    and move_good: "good r \<Longrightarrow> op_transition r t reason now = Inr r' \<Longrightarrow> good r'"
    and slice_good [simp]: "good (r\<lparr>or_slices := x\<rparr>) = good r"
    and artifact_good [simp]: "good (r\<lparr>or_artifacts := y\<rparr>) = good r"
    and reason_good [simp]: "good (r\<lparr>or_suspend_reason := z\<rparr>) = good r"
begin

lemma setters_good [simp]:
  "good (set_slice k v r) = good r" "good (set_artifact k v r) = good r"
  "good (copy_artifact k d r) = good r" "good (copy_slice k d r) = good r"
  by (simp_all add: set_slice_def set_artifact_def copy_artifact_def copy_slice_def split: option.split)

lemma keeps_save: "good r \<Longrightarrow> keeps I (save r) (\<lambda>_. True)"
  by (simp add: keeps_def save_def save_good)

lemma keeps_ask: "keeps I (ask f) (\<lambda>_. True)"
  by (simp add: keeps_def ask_def ask_keeps split: prod.split)

lemma keeps_emit: "keeps I (emit_event sv r k p) (\<lambda>_. True)"
proof -
  have one: "keeps I (emit_one sv r k p) (\<lambda>_. True)" for k p
    by (simp add: keeps_def emit_one_def events_keep split: option.split)
  show ?thesis unfolding emit_event_def
    by (rule keeps_seq [OF one]) (simp add: one keeps_answers)
qed

lemma keeps_move: "good r \<Longrightarrow> keeps I (move sv r t reason) good"
  by (auto simp: keeps_def move_def intro: move_good)

lemma keeps_try_move: "good r \<Longrightarrow> keeps I (try_move sv r t reason) (\<lambda>x. \<forall>r'. x = Inr r' \<longrightarrow> good r')"
  by (auto simp: keeps_def try_move_def intro: move_good split: sum.split py_error.split)

lemma keeps_load: "mine i \<Longrightarrow> keeps I (load i) (\<lambda>x. \<forall>r. x = Some r \<longrightarrow> good r)"
  by (auto simp: keeps_def load_def intro: load_good)

lemma keeps_saved: "good r \<Longrightarrow> keeps I n Q \<Longrightarrow> keeps I (seq (save r) n) Q"
  by (rule keeps_seq [OF keeps_save])

lemma keeps_emitted: "keeps I n Q \<Longrightarrow> keeps I (seq (emit_event sv r k p) n) Q"
  by (rule keeps_seq [OF keeps_emit])

lemma keeps_moved: "good r \<Longrightarrow> (\<And>r'. good r' \<Longrightarrow> keeps I (f r') Q) \<Longrightarrow> keeps I (abind (move sv r t reason) f) Q"
  by (rule keeps_abind [OF keeps_move])

lemma keeps_asked: "(\<And>x. keeps I (f x) Q) \<Longrightarrow> keeps I (abind (ask g) f) Q"
  by (rule keeps_abind [OF keeps_ask])

lemma keeps_lifted: "(\<And>x. keeps I (f x) Q) \<Longrightarrow> keeps I (abind (lift g) f) Q"
  by (rule keeps_abind [OF keeps_plain(2)])

lemma keeps_tried:
  "good r \<Longrightarrow> (\<And>m. keeps I (f (Inl m)) Q) \<Longrightarrow> (\<And>r'. good r' \<Longrightarrow> keeps I (f (Inr r')) Q) \<Longrightarrow>
    keeps I (abind (try_move sv r t reason) f) Q"
  by (rule keeps_abind [OF keeps_try_move]) (auto intro: sum.exhaust simp: all_conj_distrib split: sum.split_asm, metis sum.exhaust)

lemma keeps_loaded:
  "mine i \<Longrightarrow> keeps I (f None) Q \<Longrightarrow> (\<And>r. good r \<Longrightarrow> keeps I (f (Some r)) Q) \<Longrightarrow> keeps I (abind (load i) f) Q"
  by (rule keeps_abind [OF keeps_load]) (auto, metis option.exhaust)

lemmas walk = keeps_saved keeps_emitted keeps_moved keeps_asked keeps_lifted keeps_tried keeps_answers

lemma keeps_approval_suspension: "good r \<Longrightarrow> keeps I (approval_suspension sv r d p s) (\<lambda>_. True)"
  unfolding approval_suspension_def Let_def by (auto intro!: walk split: prod.split)

lemma keeps_tool_result_suspension: "good r \<Longrightarrow> keeps I (tool_result_suspension sv r d p s) (\<lambda>_. True)"
  unfolding tool_result_suspension_def Let_def by (auto intro!: walk)

lemma keeps_adapter_result: "good r \<Longrightarrow> keeps I (handle_adapter_result sv r d p) (\<lambda>_. True)"
  unfolding handle_adapter_result_def Let_def other_suspension_def
  by (auto intro!: walk keeps_approval_suspension keeps_tool_result_suspension)

lemma keeps_execution: "good r \<Longrightarrow> keeps I (do_execution sv r ctx) (\<lambda>_. True)"
  unfolding do_execution_def Let_def by (auto intro!: walk keeps_adapter_result split: option.split)

lemma keeps_fulfilment:
  "good r \<Longrightarrow> (\<And>r p. good r \<Longrightarrow> keeps I (review r p) (\<lambda>_. True)) \<Longrightarrow>
    keeps I (do_fulfilment sv review r fs plan ctx) (\<lambda>_. True)"
  unfolding do_fulfilment_def Let_def by (auto intro!: walk split: option.split)

lemma keeps_review: "good r \<Longrightarrow> keeps I (do_review n sv r plan ctx provider) (\<lambda>_. True)"
proof (induction n arbitrary: r plan provider)
  case 0
  then show ?case by (simp add: keeps_plain)
next
  case (Suc n)
  have clean: "keeps I (review_clean sv r d ctx) (\<lambda>_. True)" for d
    unfolding review_clean_def Let_def
    by (auto intro!: walk keeps_execution simp: Suc.prems split: json.split)
  have error: "keeps I (review_provider_error sv r d) (\<lambda>_. True)" for d
    unfolding review_provider_error_def Let_def by (auto intro!: walk simp: Suc.prems)
  have suspends: "keeps I (review_suspends sv r d j) (\<lambda>_. True)" for d j
    unfolding review_suspends_def Let_def by (auto intro!: walk simp: Suc.prems)
  have fulfil: "good r' \<Longrightarrow> keeps I (do_fulfilment sv (\<lambda>r2 p. do_review n sv r2 p ctx None) r' fs plan ctx) (\<lambda>_. True)" for r' fs
    by (rule keeps_fulfilment) (simp_all add: Suc.IH)
  show ?case
    using Suc.prems by (auto simp: Let_def intro!: walk clean error suspends fulfil split: option.split)
qed

lemma keeps_plan_to_review: "good r \<Longrightarrow> keeps I (plan_to_review n sv r p reason ctx) (\<lambda>_. True)"
  unfolding plan_to_review_def Let_def by (auto intro!: walk keeps_review)

lemma keeps_planning: "good r \<Longrightarrow> keeps I (do_planning n sv r p ctx) (\<lambda>_. True)"
  unfolding do_planning_def Let_def by (auto intro!: walk keeps_plan_to_review keeps_adapter_result split: option.split)

lemma keeps_chat: "good r \<Longrightarrow> keeps I (do_chat sv r ctx) (\<lambda>_. True)"
  unfolding do_chat_def Let_def by (auto intro!: walk split: option.split)

lemma keeps_start: "mine i \<Longrightarrow> keeps I (start_op n sv i plan ctx) (\<lambda>_. True)"
  unfolding start_op_def Let_def
  by (auto intro!: keeps_loaded walk keeps_review keeps_planning keeps_chat split: option.split)

lemma keeps_approval_decision: "good r \<Longrightarrow> keeps I (handle_approval_decision sv r d) (\<lambda>_. True)"
proof -
  assume r: "good r"
  have deny: "keeps I (deny_approval sv r t c) (\<lambda>_. True)" for t c
    unfolding deny_approval_def Let_def by (auto intro!: walk simp: r)
  have integrated: "good r'" if "integrate_approval c t a q = Inr r'" "good q" for c t a q r'
    using integrate_approval_result [OF that(1)] that(2) by auto
  have token: "keeps I (\<lambda>s. ret (f s) s) (\<lambda>_. True)" for f :: "'w controller \<Rightarrow> 'b"
    by (simp add: keeps_def ret_def)
  have integrate: "keeps I (abind (lift (integrate_approval c t a q)) f) (\<lambda>_. True)"
    if "good q" "\<And>r'. good r' \<Longrightarrow> keeps I (f r') (\<lambda>_. True)" for c t a q and f :: "operation_record \<Rightarrow> ('w, 'b) act"
    by (rule keeps_abind [OF keeps_plain(2)]) (use that integrated in blast)
  have grant: "keeps I (grant_approval sv r t c) (\<lambda>_. True)" for t c
    unfolding grant_approval_def Let_def
    by (rule keeps_lifted, rule keeps_emitted, rule keeps_lifted, split prod.split, intro allI impI, rule integrate)
      (auto intro!: walk keeps_abind [OF token] simp: r)
  show ?thesis
    unfolding handle_approval_decision_def Let_def by (auto intro!: walk deny grant)
qed

lemma keeps_continue: "good r \<Longrightarrow> keeps I (continue_phase n sv r d ctx e) (\<lambda>_. True)"
  unfolding continue_phase_def Let_def
  by (auto intro!: walk keeps_adapter_result keeps_plan_to_review split: op_state.split option.split)

lemma keeps_tool_result: "good r \<Longrightarrow> keeps I (handle_tool_result n sv r d) (\<lambda>_. True)"
  unfolding handle_tool_result_def Let_def
  by (auto intro!: walk keeps_continue split: option.split)

lemma keeps_resume: "mine i \<Longrightarrow> keeps I (resume_op n sv i d) (\<lambda>_. True)"
  unfolding resume_op_def Let_def
  by (auto intro!: keeps_loaded walk keeps_approval_decision keeps_tool_result keeps_continue)

lemma keeps_cancel: "mine i \<Longrightarrow> keeps I (cancel_op sv i reason) (\<lambda>_. True)"
  unfolding cancel_op_def Let_def by (auto intro!: keeps_loaded walk)

lemma keeps_claim: "mine i \<Longrightarrow> keeps I (claim_tool_execution sv i a s k d) (\<lambda>_. True)"
  unfolding claim_tool_execution_def claim_call_def Let_def
  by (auto intro!: keeps_loaded walk keeps_abind [OF keeps_plain(2)] split: option.split)

lemma keeps_retry: "mine i \<Longrightarrow> keeps I (retry_aflow n sv i v k p) (\<lambda>_. True)"
  unfolding retry_aflow_def Let_def
  by (auto intro!: keeps_loaded walk keeps_abind [OF keeps_review] split: option.split)

lemma keeps_register:
  "(\<And>c. good (new_record (fresh_id sv ident c) OpReceived source prompt (sv_now sv (ct_env c)))) \<Longrightarrow>
    keeps I (register_op sv source prompt ident) (\<lambda>_. True)"
proof -
  assume new: "\<And>c. good (new_record (fresh_id sv ident c) OpReceived source prompt (sv_now sv (ct_env c)))"
  have "keeps I (seq (save r) (seq (emit_event sv r k p) (answer r d))) (\<lambda>_. True)" if "good r" for r k p d
    using that by (auto intro!: walk)
  then show ?thesis using new by (auto simp: keeps_def register_op_def Let_def ret_def)
qed

end

section \<open>Histories\<close>

text \<open>The directory is well formed and every record in it has a history of allowed steps.\<close>

definition store_ok :: "'w controller \<Rightarrow> bool" where
  "store_ok c \<longleftrightarrow> files_ok (ct_files c) \<and>
    (\<forall>i r. load_record (ct_files c) i = Inr (Some r) \<longrightarrow> history_ok r)"

lemma store_ok_empty [simp]: "store_ok \<lparr>ct_files = [], ct_events = e, ct_env = w\<rparr>"
  by (simp add: store_ok_def load_record_def)

interpretation histories: controller_invariant store_ok history_ok "\<lambda>_. True"
  by unfold_locales
    (auto simp: store_ok_def files.load_after files_ok_save intro: history_ok_transition split: if_splits)

section \<open>Moves\<close>

text \<open>
  A state \<open>t\<close> that allowed transitions lead to from \<open>s\<close>, and what one operation may change: the other
  records stay as they are in \<open>files\<close>, and the record moves along allowed transitions.
\<close>

inductive moves_to :: "op_state \<Rightarrow> op_state \<Rightarrow> bool" for s where
  moves_refl: "moves_to s s"
| moves_step: "moves_to s t \<Longrightarrow> u \<in> set (op_transitions t) \<Longrightarrow> moves_to s u"

definition only_moves :: "string \<Rightarrow> op_files \<Rightarrow> op_state \<Rightarrow> 'w controller \<Rightarrow> bool" where
  "only_moves ident files s c \<longleftrightarrow> files_ok (ct_files c) \<and>
    (\<forall>i. i \<noteq> ident \<longrightarrow> load_record (ct_files c) i = load_record files i) \<and>
    (\<forall>r. load_record (ct_files c) ident = Inr (Some r) \<longrightarrow> or_id r = ident \<and> moves_to s (or_state r)) \<and>
    (load_record files ident \<noteq> Inr None \<longrightarrow> load_record (ct_files c) ident \<noteq> Inr None)"

interpretation moves: controller_invariant "only_moves ident files s"
    "\<lambda>r. or_id r = ident \<and> moves_to s (or_state r)" "\<lambda>i. i = ident"
  for ident files s
  by unfold_locales
    (auto simp: only_moves_def files.load_after files_ok_save op_transition_Inr intro: moves_step)

lemma loaded_id: "files_ok files \<Longrightarrow> load_record files i = Inr (Some r) \<Longrightarrow> or_id r = i"
  by (force simp: files_ok_def load_record_def record_roundtrip split: option.splits dest: map_of_SomeD)

lemma moves_from_terminal: "moves_to s t \<Longrightarrow> s \<in> set terminal_states \<Longrightarrow> t = s"
  by (induction rule: moves_to.induct) (auto simp: terminal_states_def)

end
