(* ===== verification/Op_Calls.thy ===== *)
theory Op_Calls
  imports Op_Invariants
begin

text \<open>
  The operation controller as a state machine: the public methods of \<open>OperationController\<close> as one
  type of calls, runs of calls in any order and any number, and the abstract board of states that
  they refine.
\<close>

section \<open>Calls and runs\<close>

datatype op_call =
    CallRegister string string "string option"
  | CallAccept string string "json option" "string option" jdict
  | CallStart string "json option" jdict
  | CallResume string jdict
  | CallCancel string string
  | CallClaim string string string string string
  | CallRetry string int string string

fun perform :: "nat \<Rightarrow> 'w services \<Rightarrow> op_call \<Rightarrow> ('w, op_result) act" where
  "perform n sv (CallRegister source prompt ident) = register_op sv source prompt ident"
| "perform n sv (CallAccept source prompt plan ident ctx) = accept_op n sv source prompt plan ident ctx"
| "perform n sv (CallStart ident plan ctx) = start_op n sv ident plan ctx"
| "perform n sv (CallResume ident input) = resume_op n sv ident input"
| "perform n sv (CallCancel ident reason) = cancel_op sv ident reason"
| "perform n sv (CallClaim ident claimant suspension call_id digest) =
    claim_tool_execution sv ident claimant suspension call_id digest"
| "perform n sv (CallRetry ident version key provider) = retry_aflow n sv ident version key provider"

text \<open>The operation that a call is about.\<close>

fun call_target :: "'w services \<Rightarrow> 'w controller \<Rightarrow> op_call \<Rightarrow> string" where
  "call_target sv c (CallRegister source prompt ident) = fresh_id sv ident c"
| "call_target sv c (CallAccept source prompt plan ident ctx) = fresh_id sv ident c"
| "call_target sv c (CallStart ident plan ctx) = ident"
| "call_target sv c (CallResume ident input) = ident"
| "call_target sv c (CallCancel ident reason) = ident"
| "call_target sv c (CallClaim ident claimant suspension call_id digest) = ident"
| "call_target sv c (CallRetry ident version key provider) = ident"

fun registers :: "op_call \<Rightarrow> bool" where
  "registers (CallRegister source prompt ident) = True"
| "registers (CallAccept source prompt plan ident ctx) = True"
| "registers _ = False"

text \<open>A run: calls one after another, whatever they return or raise; in between the world changes.\<close>

inductive controller_run :: "nat \<Rightarrow> 'w services \<Rightarrow> 'w controller \<Rightarrow> 'w controller \<Rightarrow> bool" for n sv c0 where
  run_start: "controller_run n sv c0 c0"
| run_call: "controller_run n sv c0 c \<Longrightarrow> controller_run n sv c0 (snd (perform n sv k c))"
| run_world: "controller_run n sv c0 c \<Longrightarrow> controller_run n sv c0 (c\<lparr>ct_env := w\<rparr>)"

section \<open>Registration\<close>

lemma emit_event_files [simp]: "ct_files (snd (emit_event sv r k p c)) = ct_files c"
  by (simp add: emit_event_def emit_one_def seq_def abind_def ret_def split: option.split)

lemma emit_event_Inr [simp]: "fst (emit_event sv r k p c) = Inr ()"
  by (simp add: emit_event_def emit_one_def seq_def abind_def ret_def)

lemma register_op_cases:
  obtains (refused) res where "register_op sv source prompt ident c = (Inr res, c)"
      "truth (dget ''error'' JNull (rs_detail res))"
  | (registered) res c1 where "register_op sv source prompt ident c = (Inr res, c1)"
      "ct_files c1 = save_record (new_record (fresh_id sv ident c) OpReceived source prompt (sv_now sv (ct_env c))) (ct_files c)"
      "rs_id res = fresh_id sv ident c" "rs_detail res = [(''registered'', JBool True)]"
proof (cases "missing_adapters sv source = []")
  case True
  let ?r = "new_record (fresh_id sv ident c) OpReceived source prompt (sv_now sv (ct_env c))"
  obtain c1 where c1: "emit_event sv ?r ''operation_created'' [(''source_kind'', JStr source)]
      (c\<lparr>ct_files := save_record ?r (ct_files c)\<rparr>) = (Inr (), c1)"
    by (metis emit_event_Inr prod.collapse)
  then have "ct_files c1 = save_record ?r (ct_files c)"
    using emit_event_files [of sv ?r "''operation_created''" "[(''source_kind'', JStr source)]"
        "c\<lparr>ct_files := save_record ?r (ct_files c)\<rparr>"] by simp
  then show ?thesis
    using registered c1 True
    by (simp add: register_op_def Let_def seq_def abind_def save_def answer_def ret_def new_record_def)
next
  case False
  then show ?thesis
    using refused by (simp add: register_op_def ret_def dget_def truth.simps)
qed

section \<open>Every call keeps the invariants\<close>

context controller_invariant begin

lemma keeps_perform:
  assumes "\<And>i source prompt now. good (new_record i OpReceived source prompt now)" and "\<And>i. mine i"
  shows "keeps I (perform n sv k) (\<lambda>_. True)"
proof (cases k)
  case (CallAccept source prompt plan ident ctx)
  have "keeps I (accept_op n sv source prompt plan ident ctx) (\<lambda>_. True)"
    unfolding accept_op_def
    by (rule keeps_abind [OF keeps_register]) (simp_all add: assms keeps_start keeps_answers)
  then show ?thesis using CallAccept by simp
qed (simp_all add: assms keeps_register keeps_start keeps_resume keeps_cancel keeps_claim keeps_retry)

lemma keeps_run:
  assumes "\<And>i source prompt now. good (new_record i OpReceived source prompt now)" and "\<And>i. mine i"
  shows "controller_run n sv c0 c \<Longrightarrow> I c0 \<Longrightarrow> I c"
proof (induction rule: controller_run.induct)
  case (run_call c k)
  then show ?case using keeps_perform [OF assms] by (simp add: keeps_def)
qed (simp_all add: ask_keeps)

end

lemma run_store_ok: "controller_run n sv c0 c \<Longrightarrow> store_ok c0 \<Longrightarrow> store_ok c"
  by (rule histories.keeps_run) simp_all

section \<open>Every call moves its record along the transitions\<close>

lemma only_moves_self:
  "files_ok (ct_files c) \<Longrightarrow> load_record (ct_files c) i = Inr (Some r) \<Longrightarrow>
    only_moves i (ct_files c) (or_state r) c"
  by (auto simp: only_moves_def loaded_id intro: moves_refl)

lemma only_moves_absent:
  "files_ok (ct_files c) \<Longrightarrow> load_record (ct_files c) i = Inr None \<Longrightarrow> only_moves i (ct_files c) s c"
  by (simp add: only_moves_def)

lemma perform_only_moves:
  assumes "\<not> registers k" and start: "only_moves (call_target sv c k) files s c"
  shows "only_moves (call_target sv c k) files s (snd (perform n sv k c))"
  using assms
  by (cases k) (simp_all add: moves.keeps_start [unfolded keeps_def] moves.keeps_resume [unfolded keeps_def]
      moves.keeps_cancel [unfolded keeps_def] moves.keeps_claim [unfolded keeps_def]
      moves.keeps_retry [unfolded keeps_def])

lemma only_moves_new:
  assumes "files_ok (ct_files c)" "ct_files c1 = save_record (new_record i OpReceived source prompt now) (ct_files c)"
  shows "only_moves i (ct_files c) OpReceived c1"
  using assms files.load_after [of "new_record i OpReceived source prompt now" "ct_files c"]
  by (auto simp: only_moves_def files_ok_save new_record_def intro: moves_refl)

lemma perform_registers:
  assumes "files_ok (ct_files c)" "registers k"
  shows "snd (perform n sv k c) = c \<or> only_moves (call_target sv c k) (ct_files c) OpReceived (snd (perform n sv k c))"
proof -
  have "snd (register_op sv source prompt ident c) = c \<or>
      only_moves (fresh_id sv ident c) (ct_files c) OpReceived (snd (register_op sv source prompt ident c))"
    for source prompt ident
    by (cases rule: register_op_cases [of sv source prompt ident c])
      (simp, rule disjI2, rule only_moves_new [OF assms(1)], simp)
  moreover have "snd (accept_op n sv source prompt plan ident ctx c) = c \<or>
      only_moves (fresh_id sv ident c) (ct_files c) OpReceived (snd (accept_op n sv source prompt plan ident ctx c))"
    for source prompt plan ident ctx
  proof (cases rule: register_op_cases [of sv source prompt ident c])
    case (refused res)
    then show ?thesis by (simp add: accept_op_def abind_def ret_def)
  next
    case (registered res c1)
    have "only_moves (fresh_id sv ident c) (ct_files c) OpReceived c1"
      by (rule only_moves_new [OF assms(1) registered(2)])
    then show ?thesis
      using registered moves.keeps_start [of "fresh_id sv ident c" "fresh_id sv ident c" "ct_files c" OpReceived n sv plan ctx]
      by (simp add: accept_op_def abind_def keeps_def dget_def truth.simps)
  qed
  ultimately show ?thesis using assms(2) by (cases k) simp_all
qed

text \<open>A record that is not there does not appear, since it would have to come from every state.\<close>

lemma perform_absent:
  assumes "\<not> registers k" "files_ok (ct_files c)" "load_record (ct_files c) (call_target sv c k) = Inr None"
  shows "load_record (ct_files (snd (perform n sv k c))) (call_target sv c k) = Inr None"
proof -
  let ?c = "snd (perform n sv k c)" and ?i = "call_target sv c k"
  have m: "only_moves ?i (ct_files c) s ?c" for s
    using perform_only_moves [OF assms(1) only_moves_absent [OF assms(2,3)]] .
  then obtain x where x: "load_record (ct_files ?c) ?i = Inr x"
    using load_record_total by (fastforce simp: only_moves_def)
  have False if "x = Some r" for r
  proof -
    have "moves_to s (or_state r)" for s using m [of s] x that by (simp add: only_moves_def)
    from this [of OpCompleted] this [of OpCancelled] show False
      by (auto dest!: moves_from_terminal simp: terminal_states_def)
  qed
  with x show ?thesis by (cases x) auto
qed

section \<open>The board of states\<close>

text \<open>
  What a client sees of the controller: the state of each operation.  One step of the board creates
  an operation, which may go on at once, or moves one along allowed transitions.
\<close>

definition op_view :: "op_files \<Rightarrow> string \<Rightarrow> op_state option" where
  "op_view files i =
    (case load_record files i of Inl e \<Rightarrow> None | Inr found \<Rightarrow> map_option or_state found)"

inductive board_step :: "(string \<Rightarrow> op_state option) \<Rightarrow> (string \<Rightarrow> op_state option) \<Rightarrow> bool" where
  board_idle: "board_step b b"
| board_create: "moves_to OpReceived t \<Longrightarrow> board_step b (b(i \<mapsto> t))"
| board_move: "b i = Some s \<Longrightarrow> moves_to s t \<Longrightarrow> board_step b (b(i \<mapsto> t))"

lemma view_total: "files_ok files \<Longrightarrow> op_view files i = Some s \<longleftrightarrow>
    (\<exists>r. load_record files i = Inr (Some r) \<and> or_state r = s)"
  using load_record_total [of files i] by (auto simp: op_view_def)

lemma only_moves_view:
  assumes "only_moves i files s c"
  shows "op_view (ct_files c) = op_view files \<or>
    (\<exists>t r. moves_to s t \<and> load_record (ct_files c) i = Inr (Some r) \<and> op_view (ct_files c) = (op_view files)(i \<mapsto> t))"
proof -
  obtain x where x: "load_record (ct_files c) i = Inr x"
    using assms load_record_total by (fastforce simp: only_moves_def)
  show ?thesis
  proof (cases x)
    case None
    then have "load_record (ct_files c) j = load_record files j" for j
      using assms x by (cases "j = i") (auto simp: only_moves_def)
    then show ?thesis by (simp add: op_view_def fun_eq_iff)
  next
    case (Some r)
    then have "moves_to s (or_state r)" "op_view (ct_files c) = (op_view files)(i \<mapsto> or_state r)"
      using assms x by (auto simp: op_view_def only_moves_def fun_eq_iff)
    then show ?thesis using x Some by blast
  qed
qed

lemma perform_board_step:
  assumes ok: "files_ok (ct_files c)"
  shows "board_step (op_view (ct_files c)) (op_view (ct_files (snd (perform n sv k c))))"
proof (cases "registers k")
  case True
  then show ?thesis
    using perform_registers [OF ok True, of n sv] only_moves_view by (metis board_idle board_create)
next
  case False
  let ?i = "call_target sv c k" and ?c = "snd (perform n sv k c)"
  obtain x where x: "load_record (ct_files c) ?i = Inr x" using load_record_total [OF ok] by blast
  show ?thesis
  proof (cases x)
    case None
    have "only_moves ?i (ct_files c) OpCompleted ?c"
      by (rule perform_only_moves [OF False only_moves_absent [OF ok]]) (use x None in simp)
    then show ?thesis
      using perform_absent [OF False ok] x None only_moves_view by (fastforce intro: board_idle)
  next
    case (Some r)
    have "only_moves ?i (ct_files c) (or_state r) ?c"
      by (rule perform_only_moves [OF False only_moves_self [OF ok]]) (use x Some in simp)
    moreover have "op_view (ct_files c) ?i = Some (or_state r)" using x Some by (simp add: op_view_def)
    ultimately show ?thesis using only_moves_view by (metis board_idle board_move)
  qed
qed

text \<open>Whatever a call is about, its records only move, from the state before or from the first one.\<close>

lemma perform_moves:
  assumes ok: "files_ok (ct_files c)"
  shows "snd (perform n sv k c) = c \<or> (\<exists>s. only_moves (call_target sv c k) (ct_files c) s (snd (perform n sv k c)))"
proof (cases "registers k")
  case True
  then show ?thesis using perform_registers [OF ok True, of n sv] by blast
next
  case False
  obtain x where "load_record (ct_files c) (call_target sv c k) = Inr x" using load_record_total [OF ok] by blast
  then obtain s where "only_moves (call_target sv c k) (ct_files c) s c"
    using only_moves_self [OF ok] only_moves_absent [OF ok] by (cases x) auto
  from perform_only_moves [OF False this] show ?thesis by blast
qed

lemma perform_files_ok: "files_ok (ct_files c) \<Longrightarrow> files_ok (ct_files (snd (perform n sv k c)))"
  using perform_moves [of c n sv k] by (auto simp: only_moves_def)

lemma run_files_ok: "controller_run n sv c0 c \<Longrightarrow> files_ok (ct_files c0) \<Longrightarrow> files_ok (ct_files c)"
  by (induction rule: controller_run.induct) (simp_all add: perform_files_ok)

lemma perform_other:
  "files_ok (ct_files c) \<Longrightarrow> i \<noteq> call_target sv c k \<Longrightarrow>
    load_record (ct_files (snd (perform n sv k c))) i = load_record (ct_files c) i"
  using perform_moves [of c n sv k] by (auto simp: only_moves_def)

end
