(* ===== verification/Tool_Loop.thy ===== *)
theory Tool_Loop
  imports Op_Store Json_Parse
begin

text \<open>
  The tool-calling loop of \<open>operation_controller/tool_loop.py\<close>: its configuration and policy, one
  round of the loop, the treatment of tool calls, suspension and resumption.

  The provider, the backend executor, the clock, fresh identifiers and the abort flag belong to the
  environment \<open>'w\<close>, which every call may change.  Times are whole milliseconds.
\<close>

section \<open>Configuration\<close>

record loop_config =
  lc_allowed :: "string list"
  lc_prohibited :: "string list"
  lc_mutation :: bool
  lc_approval :: "string list"
  lc_max_iterations :: int
  lc_timeout :: int
  lc_max_output :: nat
  lc_max_aggregate :: nat
  lc_model :: "string option"
  lc_system_prompt :: string

definition config_with :: "string list \<Rightarrow> loop_config" where
  "config_with allowed_tools =
    \<lparr>lc_allowed = allowed_tools, lc_prohibited = [], lc_mutation = False, lc_approval = [], lc_max_iterations = 15,
     lc_timeout = 300000, lc_max_output = 100000, lc_max_aggregate = 500000, lc_model = None, lc_system_prompt = []\<rparr>"

text \<open>
  The name of a tool call is whatever the model sent; only strings are members of the policy's
  sets.
\<close>

definition member_of :: "json \<Rightarrow> string list \<Rightarrow> bool" where
  "member_of name names \<longleftrightarrow> (case name of JStr s \<Rightarrow> s \<in> set names | _ \<Rightarrow> False)"

definition is_tool_allowed :: "loop_config \<Rightarrow> json \<Rightarrow> bool" where
  "is_tool_allowed cfg name = (if member_of name (lc_prohibited cfg) then False else member_of name (lc_allowed cfg))"

definition requires_approval :: "loop_config \<Rightarrow> json \<Rightarrow> bool" where
  "requires_approval cfg name = member_of name (lc_approval cfg)"

definition unhashable :: "json \<Rightarrow> bool" where
  "unhashable name \<longleftrightarrow> (case name of JList _ \<Rightarrow> True | JObj _ \<Rightarrow> True | _ \<Rightarrow> False)"

section \<open>Data\<close>

record usage_record =
  us_provider :: string
  us_model :: string
  us_prompt :: int
  us_completion :: int
  us_total :: int
  us_timestamp :: string

record trace_item =
  ti_call_id :: json
  ti_tool :: json
  ti_arguments :: json
  ti_executor :: string
  ti_status :: string
  ti_output :: json
  ti_error :: json
  ti_duration :: "int option"

record pending_call =
  pc_call_id :: json
  pc_tool :: json
  pc_arguments :: json
  pc_raw :: string

record continuation =
  co_messages :: "json list"
  co_pending :: "json list"
  co_iteration :: int
  co_usage :: "(string, int) dict"
  co_trace :: "json list"
  co_config :: jdict
  co_version :: int

datatype loop_outcome =
    LoopCompleted string "usage_record list" "trace_item list" string
  | LoopFailed string "usage_record list" "trace_item list"
  | LoopNeedsTool "pending_call list" continuation "usage_record list" "trace_item list" "json list"
  | LoopNeedsApproval pending_call string string continuation "usage_record list" "trace_item list"

record provider_response =
  re_text :: string
  re_calls :: "jdict list"
  re_usage :: "(string, int) dict"
  re_model :: string
  re_finish :: string

record exec_result =
  ex_output :: string
  ex_error :: "string option"

definition succeeded :: "exec_result \<Rightarrow> bool" where
  "succeeded r \<longleftrightarrow> ex_error r = None"

text \<open>The environment: the error of a failed provider call is the text of the exception.\<close>

record 'w loop_env =
  le_provider :: "json list \<Rightarrow> json list \<Rightarrow> string option \<Rightarrow> int \<Rightarrow> int \<Rightarrow> 'w \<Rightarrow> (string + provider_response) \<times> 'w"
  le_executor :: "(json \<Rightarrow> json \<Rightarrow> 'w \<Rightarrow> exec_result result \<times> 'w) option"
  le_time :: "'w \<Rightarrow> int"
  le_stamp :: "'w \<Rightarrow> string"
  le_uuid :: "'w \<Rightarrow> nat \<Rightarrow> string"
  le_abort :: "'w \<Rightarrow> bool"

record loop_state =
  ls_messages :: "json list"
  ls_tools :: "json list"
  ls_iteration :: int
  ls_usage :: "(string, int) dict"
  ls_trace :: "trace_item list"

definition log_item :: "trace_item \<Rightarrow> loop_state \<Rightarrow> loop_state" where
  "log_item t s = s\<lparr>ls_trace := ls_trace s @ [t]\<rparr>"

definition add_message :: "json \<Rightarrow> loop_state \<Rightarrow> loop_state" where
  "add_message m s = s\<lparr>ls_messages := ls_messages s @ [m]\<rparr>"

text \<open>\<open>s[:n]\<close> counts code points: continuation bytes come with their first byte.\<close>

definition continuation_byte :: "char \<Rightarrow> bool" where
  "continuation_byte c \<longleftrightarrow> 128 \<le> (of_char c :: nat) \<and> (of_char c :: nat) < 192"

fun py_take :: "nat \<Rightarrow> string \<Rightarrow> string" where
  "py_take n [] = []"
| "py_take n (c # s) =
    (if continuation_byte c then c # py_take n s
     else (case n of 0 \<Rightarrow> [] | Suc m \<Rightarrow> c # py_take m s))"

section \<open>Schemas of the allowed tools\<close>

definition build_tool_schemas :: "loop_config \<Rightarrow> jdict list \<Rightarrow> json list" where
  "build_tool_schemas cfg tools =
    map (\<lambda>t. JObj [(''type'', JStr ''function''),
        (''function'', JObj [(''name'', dget ''name'' (JStr []) t), (''description'', dget ''description'' (JStr []) t),
          (''parameters'', dget ''parameters'' (JObj []) t)])])
      (filter (\<lambda>t. is_tool_allowed cfg (dget ''name'' (JStr []) t)) tools)"

section \<open>Tool calls\<close>

text \<open>The identifier, the name and the raw arguments of a call of the model.\<close>

definition call_part :: "string \<Rightarrow> json \<Rightarrow> jdict \<Rightarrow> json result" where
  "call_part k fallback tc = jget k (dget k fallback tc) (dget ''function'' (JObj []) tc)"

definition call_arguments :: "json \<Rightarrow> json" where
  "call_arguments raw =
    (case raw of JStr s \<Rightarrow> (case json_loads s of None \<Rightarrow> JObj [] | Some v \<Rightarrow> v) | _ \<Rightarrow> raw)"

definition raw_text :: "json \<Rightarrow> string" where
  "raw_text raw = (case raw of JStr s \<Rightarrow> s | _ \<Rightarrow> json_dumps raw)"

definition frontend_tools :: "string list" where
  "frontend_tools = [''file_read'', ''file_write'', ''list_directory'', ''shell_exec'']"

definition can_execute_backend :: "json \<Rightarrow> bool" where
  "can_execute_backend name \<longleftrightarrow> \<not> member_of name frontend_tools"

definition policy_error :: "json \<Rightarrow> json" where
  "policy_error name = JStr (''Tool '' @ [CHR 0x27] @ py_str name @ [CHR 0x27] @ '' not allowed by policy'')"

text \<open>A call that the backend executes: its identifier, name, raw and parsed arguments.\<close>

record backend_call =
  bc_id :: json
  bc_name :: json
  bc_raw :: json
  bc_arguments :: json

record sorted_calls =
  sc_backend :: "backend_call list"
  sc_frontend :: "pending_call list"
  sc_approval :: "pending_call list"

text \<open>One pass of the first loop of \<open>_handle_tool_calls\<close>.\<close>

definition sort_call ::
  "loop_config \<Rightarrow> bool \<Rightarrow> string \<Rightarrow> jdict \<Rightarrow> sorted_calls \<times> loop_state
    \<Rightarrow> (sorted_calls \<times> loop_state) result" where
  "sort_call cfg has_executor fresh tc acc =
    (let (sc, s) = acc; call_id = dget ''id'' (JStr (''call-'' @ take 8 fresh)) tc in
     rbind (call_part ''name'' (JStr []) tc) (\<lambda>name.
     rbind (call_part ''arguments'' (JStr ''{}'') tc) (\<lambda>raw.
     let arguments = call_arguments raw;
         pending = \<lparr>pc_call_id = call_id, pc_tool = name, pc_arguments = arguments, pc_raw = raw_text raw\<rparr>
     in if unhashable name then Inl (TypeError ''unhashable type'')
        else if \<not> is_tool_allowed cfg name
        then Inr (sc, log_item \<lparr>ti_call_id = call_id, ti_tool = name, ti_arguments = arguments, ti_executor = ''blocked'',
               ti_status = ''failed'', ti_output = JNull, ti_error = policy_error name, ti_duration = None\<rparr> s)
        else if requires_approval cfg name
        then Inr (sc\<lparr>sc_approval := sc_approval sc @ [pending]\<rparr>, s)
        else if has_executor \<and> can_execute_backend name
        then Inr (sc\<lparr>sc_backend := sc_backend sc @ [\<lparr>bc_id = call_id, bc_name = name, bc_raw = raw, bc_arguments = arguments\<rparr>]\<rparr>, s)
        else Inr (sc\<lparr>sc_frontend := sc_frontend sc @ [pending]\<rparr>, s))))"

fun sort_calls ::
  "loop_config \<Rightarrow> bool \<Rightarrow> (nat \<Rightarrow> string) \<Rightarrow> jdict list \<Rightarrow> sorted_calls \<times> loop_state
    \<Rightarrow> (sorted_calls \<times> loop_state) result" where
  "sort_calls cfg has_executor fresh [] acc = Inr acc"
| "sort_calls cfg has_executor fresh (tc # tcs) acc =
    rbind (sort_call cfg has_executor (fresh 0) tc acc) (sort_calls cfg has_executor (\<lambda>i. fresh (Suc i)) tcs)"

section \<open>Backend execution\<close>

definition backend_trace :: "backend_call \<Rightarrow> exec_result \<Rightarrow> json \<Rightarrow> int \<Rightarrow> trace_item" where
  "backend_trace c r output duration =
    \<lparr>ti_call_id = bc_id c, ti_tool = bc_name c, ti_arguments = bc_arguments c, ti_executor = ''backend'',
     ti_status = (if succeeded r then ''completed'' else ''failed''), ti_output = output,
     ti_error = nullable JStr (ex_error r), ti_duration = Some duration\<rparr>"

text \<open>\<open>_execute_backend_batch\<close>, for calls whose results go to the frontend together with its own.\<close>

fun execute_backend_batch ::
  "'w loop_env \<Rightarrow> loop_config \<Rightarrow> backend_call list \<Rightarrow> loop_state \<Rightarrow> 'w \<Rightarrow> (json list \<times> loop_state) result \<times> 'w" where
  "execute_backend_batch env cfg [] s w = (Inr ([], s), w)"
| "execute_backend_batch env cfg (c # cs) s w =
    (case le_executor env of
       Some run \<Rightarrow>
         (case run (bc_name c) (bc_arguments c) w of
            (Inl e, w1) \<Rightarrow> (Inl e, w1)
          | (Inr r, w1) \<Rightarrow>
              (let output = py_take (lc_max_output cfg) (ex_output r);
                   item = backend_trace c r (JStr (py_take 500 output)) (le_time env w1 - le_time env w);
                   out = JObj [(''call_id'', bc_id c), (''tool_name'', bc_name c), (''output'', JStr output),
                     (''error'', nullable JStr (ex_error r)), (''status'', JStr (if succeeded r then ''success'' else ''error''))]
               in case execute_backend_batch env cfg cs (log_item item s) w1 of
                    (Inl e, w2) \<Rightarrow> (Inl e, w2)
                  | (Inr (outs, s2), w2) \<Rightarrow> (Inr (out # outs, s2), w2)))
     | None \<Rightarrow>
         (let out = JObj [(''call_id'', bc_id c), (''tool_name'', bc_name c), (''output'', JNull),
                (''error'', JStr ''No backend executor configured''), (''status'', JStr ''error'')]
          in case execute_backend_batch env cfg cs s w of
               (Inl e, w2) \<Rightarrow> (Inl e, w2)
             | (Inr (outs, s2), w2) \<Rightarrow> (Inr (out # outs, s2), w2)))"

definition assistant_calls :: "backend_call list \<Rightarrow> json" where
  "assistant_calls cs = JObj [(''role'', JStr ''assistant''), (''content'', JNull),
    (''tool_calls'', JList (map (\<lambda>c. JObj [(''id'', bc_id c), (''type'', JStr ''function''),
      (''function'', JObj [(''name'', bc_name c), (''arguments'', bc_raw c)])]) cs))]"

definition tool_message :: "json \<Rightarrow> json \<Rightarrow> json" where
  "tool_message call_id content = JObj [(''role'', JStr ''tool''), (''tool_call_id'', call_id), (''content'', content)]"

text \<open>
  The calls of \<open>_execute_backend_batch_inline\<close>; a batch is only formed when there is an executor,
  but the code treats the other case too.
\<close>

definition missing_executor :: "json \<Rightarrow> string" where
  "missing_executor name = ''Tool '' @ [CHR 0x27] @ py_str name @ [CHR 0x27] @ '' has no backend executor.''"

definition failure_content :: "exec_result \<Rightarrow> string" where
  "failure_content r = (case ex_error r of Some e \<Rightarrow> if e = [] then ''execution failed'' else e | None \<Rightarrow> ''execution failed'')"

fun run_inline ::
  "'w loop_env \<Rightarrow> loop_config \<Rightarrow> backend_call list \<Rightarrow> loop_state \<Rightarrow> 'w \<Rightarrow> loop_state result \<times> 'w" where
  "run_inline env cfg [] s w = (Inr s, w)"
| "run_inline env cfg (c # cs) s w =
    (case le_executor env of
       Some run \<Rightarrow>
         (case run (bc_name c) (bc_arguments c) w of
            (Inl e, w1) \<Rightarrow> (Inl e, w1)
          | (Inr r, w1) \<Rightarrow>
              (let output = py_take (lc_max_output cfg) (ex_output r);
                   content = (if succeeded r then output else failure_content r);
                   item = backend_trace c r (if output = [] then JNull else JStr (py_take 500 output)) (le_time env w1 - le_time env w)
               in run_inline env cfg cs (add_message (tool_message (bc_id c) (JStr content)) (log_item item s)) w1))
     | None \<Rightarrow>
         (let content = missing_executor (bc_name c);
              item = backend_trace c \<lparr>ex_output = [], ex_error = Some content\<rparr> JNull 0
          in run_inline env cfg cs (add_message (tool_message (bc_id c) (JStr content)) (log_item item s)) w))"

definition execute_backend_batch_inline ::
  "'w loop_env \<Rightarrow> loop_config \<Rightarrow> backend_call list \<Rightarrow> loop_state \<Rightarrow> 'w \<Rightarrow> loop_state result \<times> 'w" where
  "execute_backend_batch_inline env cfg cs s w = run_inline env cfg cs (add_message (assistant_calls cs) s) w"

section \<open>Suspension\<close>

definition int_option_json :: "int option \<Rightarrow> json" where
  "int_option_json v = nullable JInt v"

definition trace_item_json :: "trace_item \<Rightarrow> json" where
  "trace_item_json t = JObj [(''call_id'', ti_call_id t), (''tool_name'', ti_tool t), (''arguments'', ti_arguments t),
    (''executor'', JStr (ti_executor t)), (''status'', JStr (ti_status t)), (''output'', ti_output t),
    (''error'', ti_error t), (''duration_ms'', int_option_json (ti_duration t))]"

definition raw_call_json :: "jdict \<Rightarrow> json result" where
  "raw_call_json tc =
    rbind (call_part ''name'' (JStr []) tc) (\<lambda>name.
    rbind (call_part ''arguments'' (JStr ''{}'') tc) (\<lambda>raw.
      Inr (JObj [(''id'', dget ''id'' (JStr []) tc), (''type'', JStr ''function''),
        (''function'', JObj [(''name'', name), (''arguments'', raw)])])))"

definition config_snapshot :: "loop_config \<Rightarrow> jdict" where
  "config_snapshot cfg = [
    (''allowed_tools'', JList (map JStr (sorted_set (lc_allowed cfg)))),
    (''prohibited_tools'', JList (map JStr (sorted_set (lc_prohibited cfg)))),
    (''mutation_allowed'', JBool (lc_mutation cfg)), (''max_iterations'', JInt (lc_max_iterations cfg)),
    (''timeout_seconds'', JInt (lc_timeout cfg div 1000)), (''max_output_bytes'', JInt (int (lc_max_output cfg))),
    (''max_aggregate_bytes'', JInt (int (lc_max_aggregate cfg))), (''provider_model'', nullable JStr (lc_model cfg)),
    (''system_prompt'', JStr (lc_system_prompt cfg))]"

definition build_continuation :: "loop_config \<Rightarrow> loop_state \<Rightarrow> provider_response \<Rightarrow> continuation result" where
  "build_continuation cfg s r =
    rbind (each raw_call_json (re_calls r)) (\<lambda>raw_calls.
      Inr \<lparr>co_messages = ls_messages s, co_pending = raw_calls, co_iteration = ls_iteration s, co_usage = ls_usage s,
        co_trace = map trace_item_json (ls_trace s), co_config = config_snapshot cfg, co_version = 1\<rparr>)"

definition blocked_message :: json where
  "blocked_message = JObj [(''role'', JStr ''assistant''),
    (''content'', JStr ''All requested tools were blocked by policy.'')]"

text \<open>
  \<open>_handle_tool_calls\<close>: approval suspends before anything runs; a frontend call suspends after the
  backend calls ran; backend calls alone run and the loop goes on.
\<close>

definition handle_tool_calls ::
  "'w loop_env \<Rightarrow> loop_config \<Rightarrow> loop_state \<Rightarrow> provider_response \<Rightarrow> usage_record list \<Rightarrow> 'w
    \<Rightarrow> (loop_outcome option \<times> loop_state) result \<times> 'w" where
  "handle_tool_calls env cfg s r usage w =
    (case sort_calls cfg (le_executor env \<noteq> None) (le_uuid env w) (re_calls r)
        (\<lparr>sc_backend = [], sc_frontend = [], sc_approval = []\<rparr>, s) of
       Inl e \<Rightarrow> (Inl e, w)
     | Inr (sc, s1) \<Rightarrow>
         (case sc_approval sc of
            call # _ \<Rightarrow>
              (rbind (build_continuation cfg s1 r) (\<lambda>co.
                 Inr (Some (LoopNeedsApproval call
                   (''Tool '' @ [CHR 0x27] @ py_str (pc_tool call) @ [CHR 0x27] @ '' requires operator approval.'')
                   (if lc_mutation cfg then ''medium'' else ''low'') co usage (ls_trace s1)), s1)), w)
          | [] \<Rightarrow>
              if sc_frontend sc \<noteq> []
              then (case execute_backend_batch env cfg (sc_backend sc) s1 w of
                      (Inl e, w1) \<Rightarrow> (Inl e, w1)
                    | (Inr (results, s2), w1) \<Rightarrow>
                        (rbind (build_continuation cfg s2 r) (\<lambda>co.
                           Inr (Some (LoopNeedsTool (sc_frontend sc) co usage (ls_trace s2) results), s2)), w1))
              else if sc_backend sc \<noteq> []
              then (case execute_backend_batch_inline env cfg (sc_backend sc) s1 w of
                      (Inl e, w1) \<Rightarrow> (Inl e, w1) | (Inr s2, w1) \<Rightarrow> (Inr (None, s2), w1))
              else (Inr (None, add_message blocked_message s1), w)))"

section \<open>The loop\<close>

definition usage_keys :: "string list" where
  "usage_keys = [''prompt_tokens'', ''completion_tokens'', ''total_tokens'']"

definition usage_of :: "string \<Rightarrow> provider_response \<Rightarrow> int" where
  "usage_of k r = (case map_of (re_usage r) k of None \<Rightarrow> 0 | Some n \<Rightarrow> n)"

definition response_usage :: "'w loop_env \<Rightarrow> loop_config \<Rightarrow> provider_response \<Rightarrow> 'w \<Rightarrow> usage_record list" where
  "response_usage env cfg r w =
    (if re_usage r = [] then []
     else [\<lparr>us_provider = ''openai_compatible'',
       us_model = (if re_model r \<noteq> [] then re_model r else case lc_model cfg of None \<Rightarrow> [] | Some m \<Rightarrow> m),
       us_prompt = usage_of ''prompt_tokens'' r, us_completion = usage_of ''completion_tokens'' r,
       us_total = usage_of ''total_tokens'' r, us_timestamp = le_stamp env w\<rparr>])"

definition add_usage :: "provider_response \<Rightarrow> (string, int) dict \<Rightarrow> (string, int) dict" where
  "add_usage r totals =
    (if re_usage r = [] then totals
     else foldl (\<lambda>d k. AList.update k ((case map_of d k of None \<Rightarrow> 0 | Some n \<Rightarrow> n) + usage_of k r) d) totals usage_keys)"

text \<open>
  One round: an outcome ends the loop, otherwise the round gives the usage so far and the next
  state.
\<close>

definition loop_round ::
  "'w loop_env \<Rightarrow> loop_config \<Rightarrow> int \<Rightarrow> int \<Rightarrow> usage_record list \<Rightarrow> loop_state \<Rightarrow> 'w
    \<Rightarrow> (loop_outcome + usage_record list \<times> loop_state) result \<times> 'w" where
  "loop_round env cfg max_tokens loop_start usage s w =
    (if le_abort env w then (Inr (Inl (LoopFailed ''cancelled'' usage (ls_trace s))), w)
     else let elapsed = le_time env w - loop_start
     in if elapsed > lc_timeout cfg then (Inr (Inl (LoopFailed ''timeout'' usage (ls_trace s))), w)
     else let s1 = s\<lparr>ls_iteration := ls_iteration s + 1\<rparr>
     in case le_provider env (ls_messages s1) (ls_tools s1) (lc_model cfg) max_tokens (lc_timeout cfg - elapsed) w of
          (Inl exc, w1) \<Rightarrow> (Inr (Inl (LoopFailed (''provider_error: '' @ exc) usage (ls_trace s1))), w1)
        | (Inr r, w1) \<Rightarrow>
            (let usage1 = usage @ response_usage env cfg r w1;
                 s2 = s1\<lparr>ls_usage := add_usage r (ls_usage s1)\<rparr>
             in if re_calls r = []
                then (Inr (Inl (LoopCompleted (re_text r) usage1 (ls_trace s2) (re_finish r))), w1)
                else case handle_tool_calls env cfg s2 r usage1 w1 of
                       (Inl e, w2) \<Rightarrow> (Inl e, w2)
                     | (Inr (Some out, s3), w2) \<Rightarrow> (Inr (Inl out), w2)
                     | (Inr (None, s3), w2) \<Rightarrow> (Inr (Inr (usage1, s3)), w2)))"

text \<open>The iteration counter is only ever raised by the round itself, which is what ends the loop.\<close>

lemma log_item_iteration [simp]: "ls_iteration (log_item t s) = ls_iteration s"
  by (simp add: log_item_def)

lemma add_message_iteration [simp]: "ls_iteration (add_message m s) = ls_iteration s"
  by (simp add: add_message_def)

lemma sort_call_iteration:
  "sort_call cfg b fresh tc (sc, s) = Inr (sc', s') \<Longrightarrow> ls_iteration s' = ls_iteration s"
  by (auto simp: sort_call_def Let_def rbind_eq_Inr split: if_splits)

lemma sort_calls_iteration:
  "sort_calls cfg b fresh tcs (sc, s) = Inr (sc', s') \<Longrightarrow> ls_iteration s' = ls_iteration s"
proof (induction tcs arbitrary: fresh sc s)
  case (Cons tc tcs)
  then obtain sc1 s1 where "sort_call cfg b (fresh 0) tc (sc, s) = Inr (sc1, s1)"
    "sort_calls cfg b (\<lambda>i. fresh (Suc i)) tcs (sc1, s1) = Inr (sc', s')"
    by (auto simp: rbind_eq_Inr)
  then show ?case using Cons.IH sort_call_iteration by metis
qed simp

lemma run_inline_iteration:
  "run_inline env cfg cs s w = (Inr s', w') \<Longrightarrow> ls_iteration s' = ls_iteration s"
  by (induction env cfg cs s w arbitrary: s' w' rule: run_inline.induct)
    (auto simp: Let_def split: option.splits prod.splits sum.splits)

lemma handle_tool_calls_iteration:
  "handle_tool_calls env cfg s r usage w = (Inr (None, s'), w') \<Longrightarrow> ls_iteration s' = ls_iteration s"
  by (auto simp: handle_tool_calls_def execute_backend_batch_inline_def rbind_eq_Inr
      split: sum.splits prod.splits list.splits if_splits dest!: sort_calls_iteration run_inline_iteration)

lemma loop_round_iteration:
  "loop_round env cfg max_tokens loop_start usage s w = (Inr (Inr (usage', s')), w') \<Longrightarrow>
    ls_iteration s' = ls_iteration s + 1"
  by (auto simp: loop_round_def Let_def split: if_splits sum.splits prod.splits option.splits
      dest!: handle_tool_calls_iteration)

function execute_loop ::
  "'w loop_env \<Rightarrow> loop_config \<Rightarrow> int \<Rightarrow> int \<Rightarrow> usage_record list \<Rightarrow> loop_state \<Rightarrow> 'w \<Rightarrow> loop_outcome result \<times> 'w" where
  "execute_loop env cfg max_tokens loop_start usage s w =
    (if ls_iteration s < lc_max_iterations cfg
     then (case loop_round env cfg max_tokens loop_start usage s w of
             (Inl e, w1) \<Rightarrow> (Inl e, w1)
           | (Inr (Inl out), w1) \<Rightarrow> (Inr out, w1)
           | (Inr (Inr (usage1, s1)), w1) \<Rightarrow> execute_loop env cfg max_tokens loop_start usage1 s1 w1)
     else (Inr (LoopFailed ''loop_limit_exceeded'' usage (ls_trace s)), w))"
  by pat_completeness auto
termination execute_loop
  by (relation "measure (\<lambda>(env, cfg, m, start, usage, s, w). nat (lc_max_iterations cfg - ls_iteration s))")
    (auto dest!: loop_round_iteration [OF sym])

declare execute_loop.simps [simp del]

definition start_state :: "json list \<Rightarrow> json list \<Rightarrow> loop_state" where
  "start_state messages tools = \<lparr>ls_messages = messages, ls_tools = tools, ls_iteration = 0, ls_usage = [], ls_trace = []\<rparr>"

definition run_loop ::
  "'w loop_env \<Rightarrow> loop_config \<Rightarrow> json list \<Rightarrow> json list \<Rightarrow> int \<Rightarrow> 'w \<Rightarrow> loop_outcome result \<times> 'w" where
  "run_loop env cfg messages tools max_tokens w =
    execute_loop env cfg max_tokens (le_time env w) [] (start_state messages tools) w"

end
