(* ===== verification/Tool_Resume.thy ===== *)
theory Tool_Resume
  imports Tool_Loop
begin

text \<open>
  Suspension and resumption of the tool loop: the serialised continuation, \<open>ToolLoop.resume\<close>, and
  what the loop guarantees about the calls it makes.
\<close>

section \<open>Serialisation\<close>

definition continuation_json :: "continuation \<Rightarrow> json" where
  "continuation_json co = JObj [
    (''messages'', JList (co_messages co)), (''pending_raw_calls'', JList (co_pending co)),
    (''loop_iteration'', JInt (co_iteration co)),
    (''usage_totals'', JObj (map (\<lambda>(k, n). (k, JInt n)) (co_usage co))),
    (''tool_trace'', JList (co_trace co)), (''config_snapshot'', JObj (co_config co)), (''version'', JInt (co_version co))]"

text \<open>\<open>json.dumps(asdict(self), ensure_ascii=False)\<close>.\<close>

definition serialize :: "continuation \<Rightarrow> string" where
  "serialize co = spaced (continuation_json co)"

fun as_number :: "json \<Rightarrow> int result" where
  "as_number (JInt i) = Inr i"
| "as_number _ = Inl (TypeError ''LoopContinuation'')"

definition continuation_fields :: "string list" where
  "continuation_fields = [''messages'', ''pending_raw_calls'', ''loop_iteration'', ''usage_totals'', ''tool_trace'',
    ''config_snapshot'', ''version'']"

text \<open>
  \<open>LoopContinuation(**raw)\<close>; Python does not check the types of the fields, a document with fields of
  other types than those \<open>serialize\<close> writes counts as a \<open>TypeError\<close>.
\<close>

definition continuation_of_json :: "json \<Rightarrow> continuation result" where
  "continuation_of_json j =
    rbind (as_object j) (\<lambda>d.
    rbind (require (set (map fst d) \<subseteq> set continuation_fields) (TypeError ''unexpected keyword argument'')) (\<lambda>_.
    rbind (get_field ''messages'' as_list d) (\<lambda>messages.
    rbind (get_field ''pending_raw_calls'' as_list d) (\<lambda>pending.
    rbind (get_field ''loop_iteration'' as_number d) (\<lambda>iteration.
    rbind (get_field ''usage_totals'' (\<lambda>v. rbind (as_object v) (each (\<lambda>(k, x). rbind (as_number x) (\<lambda>n. Inr (k, n))))) d) (\<lambda>usage.
    rbind (get_field ''tool_trace'' as_list d) (\<lambda>trace.
    rbind (get_field ''config_snapshot'' as_object d) (\<lambda>config.
    rbind (opt_field_or ''version'' as_number 1 d) (\<lambda>version.
      Inr \<lparr>co_messages = messages, co_pending = pending, co_iteration = iteration, co_usage = usage, co_trace = trace,
        co_config = config, co_version = version\<rparr>)))))))))"

definition deserialize :: "string \<Rightarrow> continuation result" where
  "deserialize data =
    (case json_loads data of None \<Rightarrow> Inl (ValueError ''JSONDecodeError'') | Some raw \<Rightarrow> continuation_of_json raw)"

section \<open>Resumption\<close>

definition trace_fields :: "string list" where
  "trace_fields = [''call_id'', ''tool_name'', ''arguments'', ''executor'', ''status'', ''output'', ''error'', ''duration_ms'']"

definition trace_of_json :: "json \<Rightarrow> trace_item result" where
  "trace_of_json j =
    rbind (as_object j) (\<lambda>d.
    rbind (require (set (map fst d) \<subseteq> set trace_fields) (TypeError ''unexpected keyword argument'')) (\<lambda>_.
    rbind (get_field ''call_id'' Inr d) (\<lambda>call_id.
    rbind (get_field ''tool_name'' Inr d) (\<lambda>tool.
    rbind (get_field ''arguments'' Inr d) (\<lambda>arguments.
    rbind (get_field ''executor'' as_str d) (\<lambda>executor.
    rbind (get_field ''status'' as_str d) (\<lambda>status.
    rbind (opt_field_or ''duration_ms'' (as_nullable as_number) None d) (\<lambda>duration.
      Inr \<lparr>ti_call_id = call_id, ti_tool = tool, ti_arguments = arguments, ti_executor = executor, ti_status = status,
        ti_output = dget ''output'' JNull d, ti_error = dget ''error'' JNull d, ti_duration = duration\<rparr>))))))))"

text \<open>\<open>a or b\<close> on values.\<close>

definition or_else :: "json \<Rightarrow> json \<Rightarrow> json" where
  "or_else a b = (if truth a then a else b)"

fun slice500 :: "json \<Rightarrow> json result" where
  "slice500 (JStr s) = Inr (JStr (py_take 500 s))"
| "slice500 (JList xs) = Inr (JList (take 500 xs))"
| "slice500 _ = Inl (TypeError ''unhashable type: slice'')"

fun result_fields :: "json \<Rightarrow> jdict result" where
  "result_fields (JObj d) = Inr d"
| "result_fields _ = Inl (AttributeError ''get'')"

text \<open>One submitted tool result: a message for the provider and an entry of the trace.\<close>

definition add_result :: "json \<Rightarrow> loop_state \<Rightarrow> loop_state result" where
  "add_result result s =
    rbind (result_fields result) (\<lambda>r. case map_of r ''call_id'' of
       None \<Rightarrow> Inl (KeyError ''call_id'')
     | Some call_id \<Rightarrow>
         rbind (slice500 (or_else (dget ''output'' JNull r) (JStr []))) (\<lambda>output.
           Inr (log_item \<lparr>ti_call_id = call_id, ti_tool = dget ''tool_name'' (JStr []) r, ti_arguments = JObj [],
               ti_executor = ''frontend'',
               ti_status = (if dget ''status'' JNull r = JStr ''success'' then ''completed'' else ''failed''),
               ti_output = output, ti_error = dget ''error'' JNull r, ti_duration = None\<rparr>
             (add_message (tool_message call_id
               (or_else (dget ''output'' JNull r) (or_else (dget ''error'' JNull r) (JStr [])))) s))))"

fun add_results :: "json list \<Rightarrow> loop_state \<Rightarrow> loop_state result" where
  "add_results [] s = Inr s"
| "add_results (r # rs) s = rbind (add_result r s) (add_results rs)"

definition pending_message :: "json list \<Rightarrow> json" where
  "pending_message pending = JObj [(''role'', JStr ''assistant''), (''content'', JNull), (''tool_calls'', JList pending)]"

text \<open>The state rebuilt from a continuation: its tools are empty.\<close>

definition resume_state :: "continuation \<Rightarrow> json \<Rightarrow> loop_state result" where
  "resume_state co results =
    rbind (each trace_of_json (co_trace co)) (\<lambda>trace.
      let s = \<lparr>ls_messages = co_messages co, ls_tools = [], ls_iteration = co_iteration co, ls_usage = co_usage co,
            ls_trace = trace\<rparr>
      in rbind (list_items results) (\<lambda>rs. add_results rs (if co_pending co \<noteq> [] then add_message (pending_message (co_pending co)) s else s)))"

definition resume_loop ::
  "'w loop_env \<Rightarrow> loop_config \<Rightarrow> continuation \<Rightarrow> json \<Rightarrow> int \<Rightarrow> 'w \<Rightarrow> loop_outcome result \<times> 'w" where
  "resume_loop env cfg co results max_tokens w =
    (case resume_state co results of
       Inl e \<Rightarrow> (Inl e, w)
     | Inr s \<Rightarrow> execute_loop env cfg max_tokens (le_time env w) [] s w)"

section \<open>Round trips\<close>

lemma as_nullable_number [simp]: "as_nullable as_number (nullable JInt v) = Inr v"
  by (cases v) (simp_all add: nullable_def)

lemma trace_roundtrip [simp]: "trace_of_json (trace_item_json t) = Inr t"
  by (simp add: trace_of_json_def trace_item_json_def get_field_def opt_field_or_def trace_fields_def int_option_json_def)

lemma numbers_roundtrip [simp]:
  "each (\<lambda>(k, x). rbind (as_number x) (\<lambda>n. Inr (k, n))) (map (\<lambda>(k, n). (k, JInt n)) xs) = Inr xs"
  by (induction xs) auto

lemma continuation_roundtrip: "continuation_of_json (continuation_json co) = Inr co"
  by (simp add: continuation_of_json_def continuation_json_def get_field_def opt_field_or_def continuation_fields_def)

lemma deserialize_serialize: "keys_distinct (continuation_json co) \<Longrightarrow> deserialize (serialize co) = Inr co"
  by (simp add: deserialize_def serialize_def json_loads_spaced continuation_roundtrip)

section \<open>What the loop does to its environment\<close>

text \<open>The calls that the policy lets the backend execute.\<close>

definition permitted :: "loop_config \<Rightarrow> json \<Rightarrow> bool" where
  "permitted cfg name \<longleftrightarrow> is_tool_allowed cfg name \<and> \<not> requires_approval cfg name \<and> can_execute_backend name"

text \<open>
  A property of the environment that provider calls keep, and that the executor keeps when it is
  called for a permitted tool.
\<close>

definition kept_by :: "'w loop_env \<Rightarrow> loop_config \<Rightarrow> ('w \<Rightarrow> bool) \<Rightarrow> bool" where
  "kept_by env cfg P \<longleftrightarrow>
    (\<forall>ms ts m n t w. P w \<longrightarrow> P (snd (le_provider env ms ts m n t w))) \<and>
    (\<forall>run name args w. le_executor env = Some run \<and> permitted cfg name \<and> P w \<longrightarrow> P (snd (run name args w)))"

definition backend_permitted :: "loop_config \<Rightarrow> backend_call list \<Rightarrow> bool" where
  "backend_permitted cfg cs \<longleftrightarrow> (\<forall>c \<in> set cs. permitted cfg (bc_name c))"

lemma sort_call_permitted:
  "sort_call cfg b fresh tc (sc, s) = Inr (sc', s') \<Longrightarrow> backend_permitted cfg (sc_backend sc) \<Longrightarrow>
    backend_permitted cfg (sc_backend sc')"
  by (auto simp: sort_call_def Let_def rbind_eq_Inr backend_permitted_def permitted_def split: if_splits)

lemma sort_calls_permitted:
  "sort_calls cfg b fresh tcs (sc, s) = Inr (sc', s') \<Longrightarrow> backend_permitted cfg (sc_backend sc) \<Longrightarrow>
    backend_permitted cfg (sc_backend sc')"
proof (induction tcs arbitrary: fresh sc s)
  case (Cons tc tcs)
  from Cons.prems(1) obtain sc1 s1 where first: "sort_call cfg b (fresh 0) tc (sc, s) = Inr (sc1, s1)"
    and rest: "sort_calls cfg b (\<lambda>i. fresh (Suc i)) tcs (sc1, s1) = Inr (sc', s')"
    by (auto simp: rbind_eq_Inr)
  show ?case by (rule Cons.IH [OF rest sort_call_permitted [OF first Cons.prems(2)]])
qed simp

lemma run_keeps:
  assumes "kept_by env cfg P" and "le_executor env = Some run" and "run name args w = (x, w')"
    and "permitted cfg name" and "P w"
  shows "P w'"
  using assms unfolding kept_by_def by (metis snd_conv)

lemma batch_keeps:
  assumes kept: "kept_by env cfg P"
  shows "backend_permitted cfg cs \<Longrightarrow> P w \<Longrightarrow> P (snd (execute_backend_batch env cfg cs s w))"
proof (induction cs arbitrary: s w)
  case (Cons c cs)
  then have cs: "backend_permitted cfg cs" and c: "permitted cfg (bc_name c)" by (simp_all add: backend_permitted_def)
  note IH = Cons.IH [OF cs]
  show ?case
  proof (cases "le_executor env")
    case None
    with IH [OF Cons.prems(2), of s] show ?thesis by (auto split: sum.split prod.split)
  next
    case (Some run)
    obtain x w1 where run: "run (bc_name c) (bc_arguments c) w = (x, w1)" by (cases "run (bc_name c) (bc_arguments c) w")
    have "P w1" by (rule run_keeps [OF kept Some run c Cons.prems(2)])
    with IH [of w1] Some run show ?thesis
      by (cases x) (auto simp: Let_def split: sum.split prod.split, (metis snd_conv)+)
  qed
qed simp

lemma inline_keeps:
  assumes kept: "kept_by env cfg P"
  shows "backend_permitted cfg cs \<Longrightarrow> P w \<Longrightarrow> P (snd (run_inline env cfg cs s w))"
proof (induction cs arbitrary: s w)
  case (Cons c cs)
  then have cs: "backend_permitted cfg cs" and c: "permitted cfg (bc_name c)" by (simp_all add: backend_permitted_def)
  show ?case
  proof (cases "le_executor env")
    case None
    with Cons.IH [OF cs Cons.prems(2)] show ?thesis by (simp add: Let_def)
  next
    case (Some run)
    obtain x w1 where run: "run (bc_name c) (bc_arguments c) w = (x, w1)" by (cases "run (bc_name c) (bc_arguments c) w")
    have "P w1" by (rule run_keeps [OF kept Some run c Cons.prems(2)])
    with Cons.IH [OF cs, of w1] Some run show ?thesis by (cases x) (simp_all add: Let_def)
  qed
qed simp

lemma handle_keeps:
  assumes kept: "kept_by env cfg P" and "P w"
  shows "P (snd (handle_tool_calls env cfg s r usage w))"
proof (cases "sort_calls cfg (le_executor env \<noteq> None) (le_uuid env w) (re_calls r)
    (\<lparr>sc_backend = [], sc_frontend = [], sc_approval = []\<rparr>, s)")
  case (Inl e)
  with assms show ?thesis by (simp add: handle_tool_calls_def)
next
  case (Inr p)
  obtain sc s1 where p: "p = (sc, s1)" by (cases p)
  have "backend_permitted cfg (sc_backend sc)"
    by (rule sort_calls_permitted [OF Inr [unfolded p]]) (simp add: backend_permitted_def)
  note batch = batch_keeps [OF kept this assms(2), of s1] and inline = inline_keeps [OF kept this assms(2)]
  show ?thesis
  proof (cases "sc_approval sc")
    case Nil
    with batch inline [of "add_message (assistant_calls (sc_backend sc)) s1"] Inr p assms(2) show ?thesis
      by (auto simp: handle_tool_calls_def execute_backend_batch_inline_def split: sum.split prod.split)
  next
    case (Cons call calls)
    with Inr p assms(2) show ?thesis by (simp add: handle_tool_calls_def)
  qed
qed

lemma round_keeps:
  assumes kept: "kept_by env cfg P" and "P w"
  shows "P (snd (loop_round env cfg m start usage s w))"
proof -
  let ?t = "lc_timeout cfg - (le_time env w - start)"
  let ?s = "s\<lparr>ls_iteration := ls_iteration s + 1\<rparr>"
  obtain x w1 where call: "le_provider env (ls_messages ?s) (ls_tools ?s) (lc_model cfg) m ?t w = (x, w1)"
    by (cases "le_provider env (ls_messages ?s) (ls_tools ?s) (lc_model cfg) m ?t w")
  have "P w1" using kept assms(2) call unfolding kept_by_def by (metis snd_conv)
  note handle = handle_keeps [OF kept this]
  show ?thesis
  proof (cases x)
    case (Inl e)
    with call \<open>P w1\<close> assms(2) show ?thesis by (simp add: loop_round_def Let_def)
  next
    case (Inr r)
    with call \<open>P w1\<close> assms(2) handle show ?thesis
      by (auto simp: loop_round_def Let_def split: sum.split prod.split option.split) (metis snd_conv)+
  qed
qed

lemma loop_keeps:
  "kept_by env cfg P \<Longrightarrow> P w \<Longrightarrow> P (snd (execute_loop env cfg m start usage s w))"
proof (induction env cfg m start usage s w rule: execute_loop.induct)
  case (1 env cfg m start usage s w)
  obtain x w1 where round: "loop_round env cfg m start usage s w = (x, w1)"
    by (cases "loop_round env cfg m start usage s w")
  have "P w1" using round_keeps [OF 1(2,3), of m start usage s] round by simp
  with 1 round show ?case
    by (subst execute_loop.simps) (auto split: sum.split prod.split)
qed

lemma run_loop_keeps:
  "kept_by env cfg P \<Longrightarrow> P w \<Longrightarrow> P (snd (run_loop env cfg messages tools m w))"
  unfolding run_loop_def by (rule loop_keeps)

lemma resume_loop_keeps:
  "kept_by env cfg P \<Longrightarrow> P w \<Longrightarrow> P (snd (resume_loop env cfg co results m w))"
  unfolding resume_loop_def using loop_keeps by (auto split: sum.split)

section \<open>How often the provider is called\<close>

text \<open>A counter in the environment that every provider call raises by one and nothing else raises.\<close>

definition counts_calls :: "'w loop_env \<Rightarrow> ('w \<Rightarrow> nat) \<Rightarrow> bool" where
  "counts_calls env c \<longleftrightarrow>
    (\<forall>ms ts m n t w. c (snd (le_provider env ms ts m n t w)) = Suc (c w)) \<and>
    (\<forall>run name args w. le_executor env = Some run \<longrightarrow> c (snd (run name args w)) = c w)"

lemma counts_kept:
  "counts_calls env c \<Longrightarrow> le_executor env = Some run \<Longrightarrow> run name args w = (x, w') \<Longrightarrow> c w' = c w"
  unfolding counts_calls_def by (metis snd_conv)

lemma batch_counts:
  assumes "counts_calls env c"
  shows "c (snd (execute_backend_batch env cfg cs s w)) = c w"
proof (induction cs arbitrary: s w)
  case (Cons b cs)
  show ?case
  proof (cases "le_executor env")
    case None
    with Cons [of s w] show ?thesis by (auto split: sum.split prod.split)
  next
    case (Some run)
    obtain x w1 where run: "run (bc_name b) (bc_arguments b) w = (x, w1)" by (cases "run (bc_name b) (bc_arguments b) w")
    have "c w1 = c w" by (rule counts_kept [OF assms Some run])
    with Cons [of _ w1] Some run show ?thesis
      by (cases x) (auto simp: Let_def split: sum.split prod.split, (metis snd_conv)+)
  qed
qed simp

lemma inline_counts:
  assumes "counts_calls env c"
  shows "c (snd (run_inline env cfg cs s w)) = c w"
proof (induction cs arbitrary: s w)
  case (Cons b cs)
  show ?case
  proof (cases "le_executor env")
    case None
    with Cons show ?thesis by (simp add: Let_def)
  next
    case (Some run)
    obtain x w1 where run: "run (bc_name b) (bc_arguments b) w = (x, w1)" by (cases "run (bc_name b) (bc_arguments b) w")
    have "c w1 = c w" by (rule counts_kept [OF assms Some run])
    with Cons [of _ w1] Some run show ?thesis by (cases x) (simp_all add: Let_def)
  qed
qed simp

lemma handle_counts:
  assumes "counts_calls env c"
  shows "c (snd (handle_tool_calls env cfg s r usage w)) = c w"
  using batch_counts [OF assms, of cfg] inline_counts [OF assms, of cfg]
  by (auto simp: handle_tool_calls_def execute_backend_batch_inline_def split: sum.split prod.split list.split)
    (metis snd_conv)+

lemma round_counts:
  assumes "counts_calls env c"
  shows "c (snd (loop_round env cfg m start usage s w)) \<le> Suc (c w)"
proof -
  have call: "c w1 = Suc (c w)" if "le_provider env ms ts md n t w = (x, w1)" for ms ts md n t x w1
    using assms that unfolding counts_calls_def by (metis snd_conv)
  have handle: "c w2 = c w1" if "handle_tool_calls env cfg s' r u w1 = (y, w2)" for s' r u w1 y w2
    using handle_counts [OF assms, of cfg s' r u w1] that by simp
  show ?thesis
    by (auto simp: loop_round_def Let_def split: sum.split prod.split option.split dest!: call handle)
qed

lemma loop_counts:
  "counts_calls env c \<Longrightarrow>
    int (c (snd (execute_loop env cfg m start usage s w))) \<le> int (c w) + max 0 (lc_max_iterations cfg - ls_iteration s)"
proof (induction env cfg m start usage s w rule: execute_loop.induct)
  case (1 env cfg m start usage s w)
  obtain x w1 where round: "loop_round env cfg m start usage s w = (x, w1)"
    by (cases "loop_round env cfg m start usage s w")
  have w1: "c w1 \<le> Suc (c w)" using round_counts [OF 1(2), of cfg m start usage s w] round by simp
  show ?case
  proof (cases "ls_iteration s < lc_max_iterations cfg")
    case True
    show ?thesis
    proof (cases "\<exists>u s1. x = Inr (Inr (u, s1))")
      case True
      then obtain u s1 where x: "x = Inr (Inr (u, s1))" by blast
      have "ls_iteration s1 = ls_iteration s + 1" by (rule loop_round_iteration) (use round x in simp)
      moreover have "int (c (snd (execute_loop env cfg m start u s1 w1))) \<le> int (c w1) + max 0 (lc_max_iterations cfg - ls_iteration s1)"
        by (rule 1(1) [OF \<open>ls_iteration s < lc_max_iterations cfg\<close> round [symmetric] x refl refl 1(2)])
      ultimately show ?thesis
        using w1 round x \<open>ls_iteration s < lc_max_iterations cfg\<close> by (subst execute_loop.simps) simp
    next
      case False
      with w1 round \<open>ls_iteration s < lc_max_iterations cfg\<close> show ?thesis
        by (subst execute_loop.simps) (auto split: sum.split prod.split)
    qed
  next
    case False
    then show ?thesis by (subst execute_loop.simps) simp
  qed
qed

end
