(* ===== verification/Tool_Contracts.thy ===== *)
theory Tool_Contracts
  imports Json_Text
begin

text \<open>
  The tool contracts of \<open>operation_controller/tool_contracts.py\<close>: the five tools with their parameter
  schemas and policy data, and the look-ups over them.
\<close>

section \<open>The contracts\<close>

definition file_read_tool :: jdict where
  "file_read_tool = [
      (''name'', JStr ''file_read''),
      (''description'', JStr (''Read the contents of a file at the given path. Returns the file text. '' @
        ''Use this to inspect source code, configuration files, test files, or '' @
        ''any text file in the project.'')),
      (''parameters'', JObj [
        (''type'', JStr ''object''),
        (''properties'', JObj [
          (''path'', JObj [
            (''type'', JStr ''string''),
            (''description'', JStr (''Relative path to the file within the workspace root. Use forward '' @
              ''slashes (e.g. 'src/index.ts', 'package.json').''))])]),
        (''required'', JList [JStr ''path'']),
        (''additionalProperties'', JBool False)]),
      (''capability'', JStr ''read''),
      (''execution_owner'', JStr ''frontend''),
      (''requires_approval'', JBool False),
      (''read_only'', JBool True)]"

definition list_directory_tool :: jdict where
  "list_directory_tool = [
      (''name'', JStr ''list_directory''),
      (''description'', JStr (''List the files and directories at a given path in the active project '' @
        ''workspace. Returns entries with their type (file or directory). Use '' @
        ''this to explore project structure before reading specific files.'')),
      (''parameters'', JObj [
        (''type'', JStr ''object''),
        (''properties'', JObj [
          (''path'', JObj [
            (''type'', JStr ''string''),
            (''description'', JStr (''Relative path to the directory within the workspace root. Use '.' or '' @
              [CHR 0x27, CHR 0x27] @ '' for the root. Use forward slashes.'')),
            (''default'', JStr ''.'')])]),
        (''required'', JList []),
        (''additionalProperties'', JBool False)]),
      (''capability'', JStr ''read''),
      (''execution_owner'', JStr ''frontend''),
      (''requires_approval'', JBool False),
      (''read_only'', JBool True)]"

definition shell_exec_tool :: jdict where
  "shell_exec_tool = [
      (''name'', JStr ''shell_exec''),
      (''description'', JStr (''Execute a shell command in the active project workspace. The command '' @
        ''runs inside the WebContainer's Node.js environment. Use this for: '' @
        ''running tests (npm test), linting (npm run lint), building (npm run '' @
        ''build), installing packages (npm install), or any other shell command. '' @
        ''Returns the command's stdout/stderr output and exit code.'')),
      (''parameters'', JObj [
        (''type'', JStr ''object''),
        (''properties'', JObj [
          (''command'', JObj [
            (''type'', JStr ''string''),
            (''description'', JStr (''The command to execute (e.g. 'npm test', 'npm run build', 'cat '' @
              ''src/main.ts', 'ls -la'). Runs via the shell.''))])]),
        (''required'', JList [JStr ''command'']),
        (''additionalProperties'', JBool False)]),
      (''capability'', JStr ''execute''),
      (''execution_owner'', JStr ''frontend''),
      (''requires_approval'', JBool True),
      (''read_only'', JBool False)]"

definition file_write_tool :: jdict where
  "file_write_tool = [
      (''name'', JStr ''file_write''),
      (''description'', JStr (''Write content to a file at the given path. Creates the file if it '' @
        ''doesn't exist, overwrites if it does.'')),
      (''parameters'', JObj [
        (''type'', JStr ''object''),
        (''properties'', JObj [
          (''path'', JObj [
            (''type'', JStr ''string''),
            (''description'', JStr ''Relative path to the file to write.'')]),
          (''content'', JObj [
            (''type'', JStr ''string''),
            (''description'', JStr ''The content to write to the file.'')])]),
        (''required'', JList [JStr ''path'', JStr ''content'']),
        (''additionalProperties'', JBool False)]),
      (''capability'', JStr ''mutate''),
      (''execution_owner'', JStr ''frontend''),
      (''requires_approval'', JBool True),
      (''read_only'', JBool False)]"

definition audisor_scan_tool :: jdict where
  "audisor_scan_tool = [
      (''name'', JStr ''audisor_scan''),
      (''description'', JStr (''Run an Audisor scan on a file or directory. Analyzes code for '' @
        ''structural issues, dead code, import problems, and provides a summary '' @
        ''of findings. This is a read-only analysis operation that does not '' @
        ''modify any files.'')),
      (''parameters'', JObj [
        (''type'', JStr ''object''),
        (''properties'', JObj [
          (''target'', JObj [
            (''type'', JStr ''string''),
            (''description'', JStr (''Path to scan, relative to the repository root. Can be a file or '' @
              ''directory.''))]),
          (''depth'', JObj [
            (''type'', JStr ''string''),
            (''enum'', JList [JStr ''surface'', JStr ''standard'', JStr ''deep'']),
            (''description'', JStr (''Scan depth: 'surface' for quick overview, 'standard' for normal '' @
              ''analysis, 'deep' for thorough inspection.'')),
            (''default'', JStr ''standard'')])]),
        (''required'', JList [JStr ''target'']),
        (''additionalProperties'', JBool False)]),
      (''capability'', JStr ''analyse''),
      (''execution_owner'', JStr ''backend''),
      (''requires_approval'', JBool False),
      (''read_only'', JBool True)]"

section \<open>The registry\<close>

definition canonical_tools :: "(string, jdict) dict" where
  "canonical_tools = [(''file_read'', file_read_tool), (''list_directory'', list_directory_tool),
    (''shell_exec'', shell_exec_tool), (''file_write'', file_write_tool), (''audisor_scan'', audisor_scan_tool)]"

definition get_canonical_tool :: "string \<Rightarrow> jdict result" where
  "get_canonical_tool name =
    (case map_of canonical_tools name of None \<Rightarrow> Inl (KeyError name) | Some tool \<Rightarrow> Inr tool)"

definition canonical_tool_names :: "string list" where
  "canonical_tool_names = map fst canonical_tools"

definition production_tool_definitions :: "jdict list" where
  "production_tool_definitions = map snd canonical_tools"

definition to_openai_tool_schema :: "jdict \<Rightarrow> json result" where
  "to_openai_tool_schema tool =
    (case (map_of tool ''name'', map_of tool ''description'', map_of tool ''parameters'') of
       (Some n, Some d, Some p) \<Rightarrow>
         Inr (JObj [(''type'', JStr ''function''),
           (''function'', JObj [(''name'', n), (''description'', d), (''parameters'', p)])])
     | (None, _, _) \<Rightarrow> Inl (KeyError ''name'')
     | (_, None, _) \<Rightarrow> Inl (KeyError ''description'')
     | _ \<Rightarrow> Inl (KeyError ''parameters''))"

definition to_openai_tool_schemas :: "string list option \<Rightarrow> json result list" where
  "to_openai_tool_schemas tool_names =
    (let names = (case tool_names of None \<Rightarrow> canonical_tool_names | Some ns \<Rightarrow> ns)
     in List.map_filter (\<lambda>name. map_option to_openai_tool_schema (map_of canonical_tools name)) (sorted_set names))"

definition tool_requires_approval :: "string \<Rightarrow> json" where
  "tool_requires_approval name =
    (case map_of canonical_tools name of None \<Rightarrow> JBool False | Some tool \<Rightarrow> dget ''requires_approval'' (JBool False) tool)"

definition execution_owner :: "string \<Rightarrow> json" where
  "execution_owner name =
    (case map_of canonical_tools name of None \<Rightarrow> JNull | Some tool \<Rightarrow> dget ''execution_owner'' JNull tool)"

definition tool_capability :: "string \<Rightarrow> json" where
  "tool_capability name =
    (case map_of canonical_tools name of None \<Rightarrow> JNull | Some tool \<Rightarrow> dget ''capability'' JNull tool)"

text \<open>The data of every contract agree: a tool needs approval exactly when it is not read-only.\<close>

lemmas tool_defs = file_read_tool_def list_directory_tool_def shell_exec_tool_def file_write_tool_def
  audisor_scan_tool_def

lemma canonical_tool_cases:
  assumes "map_of canonical_tools name = Some tool"
  obtains "name = ''file_read'' \<and> tool = file_read_tool" | "name = ''list_directory'' \<and> tool = list_directory_tool"
    | "name = ''shell_exec'' \<and> tool = shell_exec_tool" | "name = ''file_write'' \<and> tool = file_write_tool"
    | "name = ''audisor_scan'' \<and> tool = audisor_scan_tool"
  using assms by (auto simp: canonical_tools_def split: if_splits)

lemma approval_iff_not_read_only:
  assumes "map_of canonical_tools name = Some tool"
  shows "truth (tool_requires_approval name) \<longleftrightarrow> \<not> truth (dget ''read_only'' JNull tool)"
  using assms
  by (rule canonical_tool_cases) (simp_all add: tool_requires_approval_def canonical_tools_def tool_defs)

lemma canonical_name: "map_of canonical_tools name = Some tool \<Longrightarrow> map_of tool ''name'' = Some (JStr name)"
  by (erule canonical_tool_cases) (simp_all add: tool_defs)

lemma openai_schema_total:
  assumes "map_of canonical_tools name = Some tool"
  shows "\<exists>d p. to_openai_tool_schema tool = Inr (JObj [(''type'', JStr ''function''),
    (''function'', JObj [(''name'', JStr name), (''description'', d), (''parameters'', p)])])"
  using assms by (rule canonical_tool_cases) (simp_all add: to_openai_tool_schema_def tool_defs)

text \<open>Every tool takes an object and no further arguments.\<close>

lemma closed_parameters:
  assumes "map_of canonical_tools name = Some tool"
  shows "\<exists>p. map_of tool ''parameters'' = Some (JObj p) \<and> map_of p ''additionalProperties'' = Some (JBool False)
    \<and> map_of p ''type'' = Some (JStr ''object'')"
  using assms by (rule canonical_tool_cases) (simp_all add: tool_defs)

end
