(* ===== verification/Op_Adapters.thy ===== *)
theory Op_Adapters
  imports Op_Resume Tool_Resume Tool_Contracts
begin

text \<open>
  The adapters that run the tool loop for the controller: \<open>adapters/planning.py\<close> and
  \<open>adapters/execution.py\<close>.  Both build a configuration and the messages, run or resume the loop and
  turn its outcome into the dictionary that the controller reads.
\<close>

section \<open>Indented JSON\<close>

text \<open>\<open>json.dumps(value, indent=2)\<close>; the first argument is the current indentation.\<close>

definition newline :: "nat \<Rightarrow> string" where
  "newline n = CHR 0x0A # replicate n (CHR 0x20)"

fun indented :: "nat \<Rightarrow> json \<Rightarrow> string" where
  "indented n (JList xs) =
    (if xs = [] then ''[]''
     else ''['' @ newline (n + 2) @ join ('','' @ newline (n + 2)) (map (indented (n + 2)) xs) @ newline n @ '']'')"
| "indented n (JObj kvs) =
    (if kvs = [] then ''{}''
     else ''{'' @ newline (n + 2)
       @ join ('','' @ newline (n + 2)) (map (\<lambda>(k, v). quote k @ '': '' @ indented (n + 2) v) kvs) @ newline n @ ''}'')"
| "indented n j = render j"

definition json_dumps_indented :: "json \<Rightarrow> string" where
  "json_dumps_indented value = ensure_ascii (indented 0 value)"

section \<open>The plan in a reply\<close>

text \<open>
  The search for \<open>```json\s*\n(.*?)\n\s*```\<close> with \<open>re.DOTALL\<close>.  The white space after the opening fence
  is taken greedily up to its last newline, and an earlier newline is tried only when no closing
  fence follows; the group ends at the first closing fence.
\<close>

definition fence :: string where
  "fence = [CHR 0x60, CHR 0x60, CHR 0x60]"

definition closes :: "string \<Rightarrow> bool" where
  "closes s \<longleftrightarrow> s \<noteq> [] \<and> hd s = CHR 0x0A \<and> startswith (dropWhile is_space (tl s)) fence"

fun find_close :: "string \<Rightarrow> string option" where
  "find_close [] = None"
| "find_close (c # s) = (if closes (c # s) then Some [] else map_option (Cons c) (find_close s))"

fun fence_starts :: "string \<Rightarrow> string list" where
  "fence_starts [] = []"
| "fence_starts (c # s) =
    (if is_space c then fence_starts s @ (if c = CHR 0x0A then [s] else []) else [])"

fun first_some :: "('a \<Rightarrow> 'b option) \<Rightarrow> 'a list \<Rightarrow> 'b option" where
  "first_some f [] = None"
| "first_some f (x # xs) = (case f x of None \<Rightarrow> first_some f xs | Some y \<Rightarrow> Some y)"

fun fenced :: "string \<Rightarrow> string option" where
  "fenced [] = None"
| "fenced (c # s) =
    (case (if startswith (c # s) (fence @ ''json'') then first_some find_close (fence_starts (drop 7 (c # s))) else None) of
       Some body \<Rightarrow> Some body
     | None \<Rightarrow> fenced s)"

definition unparsed_plan :: "string \<Rightarrow> json" where
  "unparsed_plan reply = JObj [(''summary'', JStr (py_take 500 reply)), (''steps'', JList []),
    (''risks'', JList [JStr ''Could not parse structured plan from model output'']), (''raw_reply'', JStr reply)]"

definition parse_plan :: "string \<Rightarrow> json" where
  "parse_plan reply =
    (case (case fenced reply of None \<Rightarrow> None | Some body \<Rightarrow> json_loads body) of
       Some plan \<Rightarrow> plan
     | None \<Rightarrow> (case json_loads reply of Some plan \<Rightarrow> plan | None \<Rightarrow> unparsed_plan reply))"

section \<open>Outcomes\<close>

definition usage_json :: "usage_record \<Rightarrow> json" where
  "usage_json u = JObj [(''prompt_tokens'', JInt (us_prompt u)), (''completion_tokens'', JInt (us_completion u)),
    (''total_tokens'', JInt (us_total u))]"

definition pending_json :: "pending_call \<Rightarrow> json" where
  "pending_json c = JObj [(''call_id'', pc_call_id c), (''tool_name'', pc_tool c), (''arguments'', pc_arguments c)]"

definition failed_result :: "string \<Rightarrow> jdict" where
  "failed_result message = [(''status'', JStr ''failed''), (''error'', JStr message)]"

definition needs_tool_result :: "string \<Rightarrow> string \<Rightarrow> pending_call list \<Rightarrow> continuation \<Rightarrow> jdict" where
  "needs_tool_result reason suspension_id calls co = [(''status'', JStr ''suspended''),
    (''suspend_state'', JStr ''suspended_for_tool_result''), (''reason'', JStr reason),
    (''suspension_id'', JStr suspension_id), (''pending_calls'', JList (map pending_json calls)),
    (''continuation'', JStr (serialize co))]"

definition needs_approval :: "string \<Rightarrow> string \<Rightarrow> string \<Rightarrow> pending_call \<Rightarrow> continuation \<Rightarrow> jdict" where
  "needs_approval reason risk suspension_id call co = [(''status'', JStr ''suspended''),
    (''suspend_state'', JStr ''suspended_for_approval''), (''reason'', JStr reason), (''risk_level'', JStr risk),
    (''suspension_id'', JStr suspension_id), (''tool_call'', pending_json call),
    (''continuation'', JStr (serialize co))]"

fun planning_outcome :: "string \<Rightarrow> loop_outcome \<Rightarrow> jdict" where
  "planning_outcome sid (LoopCompleted reply usage trace finish) =
    [(''status'', JStr ''completed''), (''plan'', parse_plan reply), (''usage'', JList (map usage_json usage))]"
| "planning_outcome sid (LoopFailed message usage trace) = failed_result message"
| "planning_outcome sid (LoopNeedsTool calls co usage trace results) =
    needs_tool_result ''planning_tool_execution'' sid calls co"
| "planning_outcome sid (LoopNeedsApproval call reason risk co usage trace) = needs_approval reason risk sid call co"

fun execution_outcome :: "string \<Rightarrow> loop_outcome \<Rightarrow> jdict" where
  "execution_outcome sid (LoopCompleted reply usage trace finish) =
    [(''status'', JStr ''completed''), (''output'', JStr reply), (''usage'', JList (map usage_json usage))]"
| "execution_outcome sid (LoopFailed message usage trace) = failed_result message"
| "execution_outcome sid (LoopNeedsTool calls co usage trace results) =
    needs_tool_result ''execution_tool_execution'' sid calls co"
| "execution_outcome sid (LoopNeedsApproval call reason risk co usage trace) = needs_approval reason risk sid call co"

definition suspension_name :: "'w loop_env \<Rightarrow> 'w \<Rightarrow> string" where
  "suspension_name env w = ''susp-'' @ take 12 (le_uuid env w 0)"

definition interpreted ::
  "'w loop_env \<Rightarrow> (string \<Rightarrow> loop_outcome \<Rightarrow> jdict) \<Rightarrow> loop_outcome result \<times> 'w \<Rightarrow> jdict result \<times> 'w" where
  "interpreted env f = (\<lambda>(r, w). (rbind r (\<lambda>out. Inr (f (suspension_name env w) out)), w))"

section \<open>Prompts and configurations\<close>

definition line_end :: string where
  "line_end = [CHR 0x0A]"

definition planning_tools :: "string list" where
  "planning_tools = [''file_read'', ''list_directory'', ''shell_exec'', ''audisor_scan'']"

definition planning_approval_required :: "string list" where
  "planning_approval_required = [''shell_exec'']"

definition execution_tools :: "string list" where
  "execution_tools = [''file_read'', ''list_directory'', ''shell_exec'', ''audisor_scan'']"

definition execution_prohibited_tools :: "string list" where
  "execution_prohibited_tools = [''file_write'']"

definition approval_required_tools :: "string list" where
  "approval_required_tools = [''shell_exec'']"

definition em_dash :: string where
  "em_dash = [CHR 0xE2, CHR 0x80, CHR 0x94]"

definition planning_system_prompt :: string where
  "planning_system_prompt = concat [
    ''You are a coding assistant in the planning phase. You MUST use the available '',
    ''tools to inspect the codebase before creating your plan. Do NOT output a plan '',
    ''until you have gathered information by calling tools.'', line_end, line_end,
    ''IMPORTANT RULES:'', line_end,
    ''1. You MUST call at least one tool (file_read, list_directory, or shell_exec) '',
    ''BEFORE generating your plan. Start by reading relevant files or listing directories.'', line_end,
    ''2. Do NOT modify any files '', em_dash, '' read-only inspection only.'', line_end,
    ''3. After inspecting the codebase, output your plan as a JSON object with:'', line_end,
    ''   - \"summary\": brief description of what needs to be done'', line_end,
    ''   - \"steps\": list of implementation steps, each with \"description\" and \"files\"'', line_end,
    ''   - \"risks\": any risks or concerns'', line_end,
    ''4. Wrap the final plan in '', fence, ''json ... '', fence, '' markers.'', line_end, line_end,
    ''Always start by calling a tool. Never skip tool use.'', line_end]"

definition execution_system_prompt :: string where
  "execution_system_prompt = concat [
    ''You are a coding assistant executing an approved implementation plan. '',
    ''You have access to tools that can read and write files, and run commands. '',
    ''Follow the plan precisely. Report your progress and any issues encountered.'', line_end, line_end,
    ''After completing all steps, summarize what was done.'', line_end]"

definition planning_config :: loop_config where
  "planning_config = (config_with planning_tools)\<lparr>lc_mutation := False, lc_approval := planning_approval_required,
    lc_max_iterations := 10, lc_timeout := 180000, lc_system_prompt := planning_system_prompt\<rparr>"

definition execution_config :: loop_config where
  "execution_config = (config_with execution_tools)\<lparr>lc_prohibited := execution_prohibited_tools, lc_mutation := True,
    lc_approval := approval_required_tools, lc_max_iterations := 15, lc_timeout := 300000,
    lc_system_prompt := execution_system_prompt\<rparr>"

section \<open>The adapters\<close>

definition two_messages :: "string \<Rightarrow> string \<Rightarrow> json list" where
  "two_messages system user = [
    JObj [(''role'', JStr ''system''), (''content'', JStr system)],
    JObj [(''role'', JStr ''user''), (''content'', JStr user)]]"

text \<open>Neither adapter passes a limit of tokens or an abort flag; the default limit is 2048.\<close>

definition create_plan ::
  "'w loop_env \<Rightarrow> jdict list \<Rightarrow> string \<Rightarrow> jdict \<Rightarrow> 'w \<Rightarrow> jdict result \<times> 'w" where
  "create_plan env tools prompt ctx w =
    interpreted env planning_outcome
      (run_loop env planning_config (two_messages planning_system_prompt prompt) (build_tool_schemas planning_config tools) 2048 w)"

definition plan_text :: "json \<Rightarrow> string" where
  "plan_text plan = (case plan of JObj d \<Rightarrow> json_dumps_indented plan | _ \<Rightarrow> py_str plan)"

definition execution_prompt :: "json \<Rightarrow> string" where
  "execution_prompt plan = concat [
    ''Execute the following implementation plan:'', line_end, line_end, fence, ''json'', line_end, plan_text plan,
    line_end, fence, line_end, line_end,
    ''Implement each step in order. Use the available tools to read and modify files.'']"

definition execute_plan ::
  "'w loop_env \<Rightarrow> jdict list \<Rightarrow> string \<Rightarrow> json \<Rightarrow> jdict \<Rightarrow> 'w \<Rightarrow> jdict result \<times> 'w" where
  "execute_plan env tools ident plan ctx w =
    interpreted env execution_outcome
      (run_loop env execution_config (two_messages execution_system_prompt (execution_prompt plan))
        (build_tool_schemas execution_config tools) 2048 w)"

text \<open>The shared shape of \<open>resume_plan\<close> and \<open>resume_execution\<close>: a continuation that is no text raises.\<close>

definition resume_with ::
  "'w loop_env \<Rightarrow> loop_config \<Rightarrow> (string \<Rightarrow> loop_outcome \<Rightarrow> jdict) \<Rightarrow> operation_record \<Rightarrow> jdict \<Rightarrow> 'w
    \<Rightarrow> jdict result \<times> 'w" where
  "resume_with env cfg f r input w =
    (let data = dget ''continuation'' JNull (or_artifacts r)
     in if \<not> truth data then (Inr (failed_result ''no continuation data found''), w)
        else case data of
            JStr text \<Rightarrow>
              (case deserialize text of
                 Inl e \<Rightarrow> (Inl e, w)
               | Inr co \<Rightarrow> interpreted env f (resume_loop env cfg co (dget ''tool_results'' (JList []) input) 2048 w))
          | _ \<Rightarrow> (Inl (TypeError ''the JSON object must be str, bytes or bytearray''), w))"

definition resume_plan :: "'w loop_env \<Rightarrow> operation_record \<Rightarrow> jdict \<Rightarrow> 'w \<Rightarrow> jdict result \<times> 'w" where
  "resume_plan env = resume_with env planning_config planning_outcome"

definition resume_execution :: "'w loop_env \<Rightarrow> operation_record \<Rightarrow> jdict \<Rightarrow> 'w \<Rightarrow> jdict result \<times> 'w" where
  "resume_execution env = resume_with env execution_config execution_outcome"

definition llm_planning :: "'w loop_env \<Rightarrow> jdict list \<Rightarrow> 'w planning_adapter" where
  "llm_planning env tools = \<lparr>pa_create = create_plan env tools, pa_resume = resume_plan env\<rparr>"

definition llm_execution :: "'w loop_env \<Rightarrow> jdict list \<Rightarrow> 'w execution_adapter" where
  "llm_execution env tools = \<lparr>xa_execute = execute_plan env tools, xa_resume = resume_execution env\<rparr>"

section \<open>What the adapters let the backend do\<close>

text \<open>
  The tools of the frontend and the tools that need approval leave one tool for the backend.
\<close>

lemma config_fields [simp]:
  "lc_max_iterations planning_config = 10" "lc_max_iterations execution_config = 15"
  by (simp_all add: planning_config_def execution_config_def)

lemma permitted_scan:
  "permitted planning_config name \<longleftrightarrow> name = JStr ''audisor_scan''"
  "permitted execution_config name \<longleftrightarrow> name = JStr ''audisor_scan''"
  by (cases name; auto simp: permitted_def is_tool_allowed_def requires_approval_def can_execute_backend_def
      member_of_def planning_config_def execution_config_def config_with_def planning_tools_def execution_tools_def
      planning_approval_required_def approval_required_tools_def execution_prohibited_tools_def frontend_tools_def)+

lemma snd_interpreted [simp]: "snd (interpreted env f x) = snd x"
  by (simp add: interpreted_def split: prod.split)

definition scan_keeps :: "'w loop_env \<Rightarrow> ('w \<Rightarrow> bool) \<Rightarrow> bool" where
  "scan_keeps env P \<longleftrightarrow>
    (\<forall>ms ts m n t w. P w \<longrightarrow> P (snd (le_provider env ms ts m n t w))) \<and>
    (\<forall>run args w. le_executor env = Some run \<and> P w \<longrightarrow> P (snd (run (JStr ''audisor_scan'') args w)))"

lemma scan_kept_by:
  "scan_keeps env P \<Longrightarrow> kept_by env planning_config P" "scan_keeps env P \<Longrightarrow> kept_by env execution_config P"
  by (simp_all add: scan_keeps_def kept_by_def permitted_scan)

lemma resume_with_keeps:
  "kept_by env cfg P \<Longrightarrow> P w \<Longrightarrow> P (snd (resume_with env cfg f r input w))"
  by (auto simp: resume_with_def Let_def resume_loop_keeps split: json.split sum.split)

end
