(* ===== verification/Op_Provider.thy ===== *)
theory Op_Provider
  imports Op_Adapters
begin

text \<open>
  The provider of the tool loop, \<open>providers/ollama.py\<close>: the request body, the reading of a reply with
  structured tool calls or tool calls in its text, and what becomes of failures.  The HTTP client is a
  parameter; a reply is its status and its parsed body.
\<close>

section \<open>Requests\<close>

text \<open>What \<open>requests.post\<close> ends with; \<open>HttpRaises\<close> is any exception but the two that are
  handled.  The body of a reply is its JSON value, or the exception of \<open>response.json()\<close>.\<close>

datatype http_reply =
    HttpTimeout
  | HttpUnavailable
  | HttpRaises string
  | HttpReply int "string + json"

record ollama =
  ol_base_url :: string
  ol_model_id :: string

text \<open>\<open>a or b\<close> on an optional string, and \<open>rstrip\<close> of slashes; the defaults are the environment's.\<close>

definition some_text :: "string option \<Rightarrow> string \<Rightarrow> string" where
  "some_text v fallback = (case v of None \<Rightarrow> fallback | Some s \<Rightarrow> if s = [] then fallback else s)"

definition new_ollama :: "string option \<Rightarrow> string option \<Rightarrow> (string \<Rightarrow> string option) \<Rightarrow> ollama" where
  "new_ollama base_url model_id environ =
    (let env = (\<lambda>k fallback. case environ k of None \<Rightarrow> fallback | Some s \<Rightarrow> s)
     in \<lparr>ol_base_url = rev (dropWhile (\<lambda>c. c = CHR ''/'')
           (rev (some_text base_url (env ''AUDISOR_BASE_URL'' ''http://127.0.0.1:11434'')))),
         ol_model_id = some_text model_id (env ''AUDISOR_MODEL_ID'' ''qwen2.5-coder:7b'')\<rparr>)"

definition request_body :: "string \<Rightarrow> json list \<Rightarrow> json list \<Rightarrow> int \<Rightarrow> jdict" where
  "request_body model messages tools max_tokens =
    [(''model'', JStr model), (''messages'', JList messages), (''max_tokens'', JInt max_tokens),
     (''temperature'', JInt 0), (''stream'', JBool False)]
    @ (if tools \<noteq> [] then [(''tools'', JList tools), (''tool_choice'', JStr ''auto'')] else [])"

definition failed_response :: "string \<Rightarrow> string \<Rightarrow> provider_response" where
  "failed_response text model =
    \<lparr>re_text = text, re_calls = [], re_usage = [], re_model = model, re_finish = ''error''\<rparr>"

section \<open>Replies\<close>

text \<open>The exception of a missing attribute, as the loop prints it.\<close>

definition no_attribute :: "json \<Rightarrow> string \<Rightarrow> string" where
  "no_attribute v name = CHR 0x27 # type_name v @ CHR 0x27 # '' object has no attribute '' @ CHR 0x27 # name @ [CHR 0x27]"

text \<open>\<open>payload["choices"][0]["message"]\<close>; a key, an index or a type that does not fit means a malformed reply.\<close>

definition choice_message :: "json \<Rightarrow> (jdict \<times> json) option" where
  "choice_message payload =
    (case payload of
       JObj d \<Rightarrow>
         (case map_of d ''choices'' of
            Some (JList (JObj choice # _)) \<Rightarrow> map_option (Pair choice) (map_of choice ''message'')
          | _ \<Rightarrow> None)
     | _ \<Rightarrow> None)"

text \<open>The structured calls; the number of a call counts the entries that are skipped too.\<close>

fun structured_calls :: "nat \<Rightarrow> json list \<Rightarrow> string + jdict list" where
  "structured_calls i [] = Inr []"
| "structured_calls i (JObj tc # tcs) =
    (case dget ''function'' (JObj []) tc of
       JObj func \<Rightarrow>
         (case structured_calls (i + 1) tcs of
            Inl e \<Rightarrow> Inl e
          | Inr calls \<Rightarrow>
              Inr ([(''id'', dget ''id'' (JStr (''call_'' @ str_of_nat i)) tc), (''type'', JStr ''function''),
                (''function'', JObj [(''name'', dget ''name'' (JStr []) func),
                  (''arguments'', dget ''arguments'' (JStr ''{}'') func)])] # calls))
     | v \<Rightarrow> Inl (no_attribute v ''get''))"
| "structured_calls i (_ # tcs) = structured_calls (i + 1) tcs"

text \<open>
  Tool calls in the text: the body of the first code fence, with or without \<open>json\<close>, or the text itself.
\<close>

fun code_fence :: "string \<Rightarrow> string option" where
  "code_fence [] = None"
| "code_fence (c # s) =
    (case first_some find_close
        ((if startswith (c # s) (fence @ ''json'') then fence_starts (drop 7 (c # s)) else [])
         @ (if startswith (c # s) fence then fence_starts (drop 3 (c # s)) else [])) of
       Some body \<Rightarrow> Some body
     | None \<Rightarrow> code_fence s)"

definition argument_text :: "json \<Rightarrow> string" where
  "argument_text args = (case args of JObj d \<Rightarrow> json_dumps args | _ \<Rightarrow> py_str args)"

definition text_call :: "nat \<Rightarrow> json \<Rightarrow> jdict option" where
  "text_call i item =
    (case item of
       JObj d \<Rightarrow>
         (case (map_of d ''name'', map_of d ''arguments'') of
            (Some name, Some args) \<Rightarrow>
              Some [(''id'', JStr (''call_text_'' @ str_of_nat i)), (''type'', JStr ''function''),
                (''function'', JObj [(''name'', name), (''arguments'', JStr (argument_text args))])]
          | _ \<Rightarrow> None)
     | _ \<Rightarrow> None)"

definition numbered_calls :: "json list \<Rightarrow> jdict list" where
  "numbered_calls items = List.map_filter (\<lambda>(i, item). text_call i item) (enumerate 0 items)"

definition text_tool_calls :: "string \<Rightarrow> jdict list" where
  "text_tool_calls text =
    (let stripped = strip text;
         body = (case code_fence stripped of None \<Rightarrow> stripped | Some b \<Rightarrow> strip b)
     in case json_loads body of
          Some (JList items) \<Rightarrow> numbered_calls items
        | Some item \<Rightarrow> (case text_call 0 item of None \<Rightarrow> [] | Some call \<Rightarrow> [call])
        | None \<Rightarrow> [])"

definition reply_usage :: "jdict \<Rightarrow> (string, int) dict" where
  "reply_usage payload =
    (case dget ''usage'' JNull payload of
       JObj u \<Rightarrow> List.map_filter (\<lambda>k. case map_of u k of
           Some (JInt n) \<Rightarrow> Some (k, n) | Some (JBool b) \<Rightarrow> Some (k, if b then 1 else 0) | _ \<Rightarrow> None) usage_keys
     | _ \<Rightarrow> [])"

text \<open>
  \<open>_parse_response\<close>.  A text or finish reason of another type than a string is kept as its \<open>str\<close>: the
  loop never looks at either of them together with tool calls, and without calls such a text raises.
\<close>

definition parse_response :: "json \<Rightarrow> string \<Rightarrow> string + provider_response" where
  "parse_response payload model =
    (case choice_message payload of
       None \<Rightarrow> Inr (failed_response ''[provider_error: malformed response]'' model)
     | Some (choice, JObj message) \<Rightarrow>
         (let finish = or_else (dget ''finish_reason'' (JStr ''stop'') choice) (JStr ''stop'');
              text = or_else (dget ''content'' JNull message) (JStr []);
              usage = (case payload of JObj d \<Rightarrow> reply_usage d | _ \<Rightarrow> [])
          in case (case dget ''tool_calls'' JNull message of JList tcs \<Rightarrow> structured_calls 0 tcs | _ \<Rightarrow> Inr []) of
               Inl e \<Rightarrow> Inl e
             | Inr (call # calls) \<Rightarrow>
                 Inr \<lparr>re_text = py_str text, re_calls = call # calls, re_usage = usage, re_model = model,
                   re_finish = py_str finish\<rparr>
             | Inr [] \<Rightarrow>
                 (case text of
                    JStr t \<Rightarrow>
                      (let calls = (if strip t \<noteq> [] then text_tool_calls t else [])
                       in if calls \<noteq> []
                          then Inr \<lparr>re_text = [], re_calls = calls, re_usage = usage, re_model = model, re_finish = ''tool_calls''\<rparr>
                          else Inr \<lparr>re_text = t, re_calls = [], re_usage = usage, re_model = model, re_finish = py_str finish\<rparr>)
                  | v \<Rightarrow> Inl (no_attribute v ''strip'')))
     | Some (choice, message) \<Rightarrow> Inl (no_attribute message ''get''))"

text \<open>\<open>call\<close>: two exceptions and every other status become replies with an error text and no tool calls.\<close>

definition read_reply :: "string \<Rightarrow> http_reply \<Rightarrow> string + provider_response" where
  "read_reply model reply =
    (case reply of
       HttpTimeout \<Rightarrow> Inr (failed_response [] model)
     | HttpUnavailable \<Rightarrow> Inr (failed_response ''[provider_error: Ollama unavailable]'' model)
     | HttpRaises e \<Rightarrow> Inl e
     | HttpReply status body \<Rightarrow>
         if status \<noteq> 200 then Inr (failed_response (''[provider_error: HTTP '' @ str_of_int status @ '']'') model)
         else (case body of Inl e \<Rightarrow> Inl e | Inr payload \<Rightarrow> parse_response payload model))"

definition ollama_call ::
  "ollama \<Rightarrow> (string \<Rightarrow> jdict \<Rightarrow> int \<Rightarrow> 'w \<Rightarrow> http_reply \<times> 'w) \<Rightarrow> json list \<Rightarrow> json list \<Rightarrow> string option \<Rightarrow> int \<Rightarrow> int
    \<Rightarrow> 'w \<Rightarrow> (string + provider_response) \<times> 'w" where
  "ollama_call ol post messages tools model max_tokens timeout w =
    (let used = some_text model (ol_model_id ol)
     in case post (ol_base_url ol @ ''/v1/chat/completions'') (request_body used messages tools max_tokens) timeout w of
          (reply, w1) \<Rightarrow> (read_reply used reply, w1))"

section \<open>What the loop makes of failures\<close>

lemma failed_response_fields [simp]:
  "re_text (failed_response t m) = t" "re_calls (failed_response t m) = []" "re_usage (failed_response t m) = []"
  "re_finish (failed_response t m) = ''error''"
  by (simp_all add: failed_response_def)

text \<open>A reply without tool calls in the first round ends the loop as completed, also an error's.\<close>

lemma run_loop_failed_reply:
  assumes "le_provider env messages tools (lc_model cfg) m (lc_timeout cfg) w = (Inr (failed_response t model), w1)"
    and "\<not> le_abort env w" and "0 < lc_max_iterations cfg" and "0 \<le> lc_timeout cfg"
  shows "run_loop env cfg messages tools m w = (Inr (LoopCompleted t [] [] ''error''), w1)"
  using assms
  by (simp add: run_loop_def execute_loop.simps [of env cfg] loop_round_def start_state_def response_usage_def add_usage_def Let_def)

text \<open>Only JSON objects with a name and arguments become calls, in the order of the text.\<close>

lemma text_call_shape: "text_call i item = Some call \<Longrightarrow>
    \<exists>d name args. item = JObj d \<and> map_of d ''name'' = Some name \<and> map_of d ''arguments'' = Some args \<and>
      call_part ''name'' (JStr []) call = Inr name"
  by (auto simp: text_call_def call_part_def dget_def split: json.splits option.splits)

end
