(* ===== verification/Operation_Properties.thy ===== *)
theory Operation_Properties
  imports Op_Calls Op_Provider
begin

text \<open>
  The properties of the operation controller, of its tool loop and of its event log.
\<close>

section \<open>A controller for the witnesses\<close>

text \<open>
  Services with one review adapter, whose answer is the argument, and no others; the environment
  is the unit type.
\<close>

definition reviewed_by :: "jdict \<Rightarrow> unit services" where
  "reviewed_by reply = \<lparr>sv_planning = None, sv_review = Some (\<lambda>_ _ _ w. (Inr reply, w)), sv_fulfil = None,
    sv_execution = None, sv_chat = None, sv_now = (\<lambda>_. ''now''), sv_token = (\<lambda>_. ''token'')\<rparr>"

definition empty_controller :: "unit controller" where
  "empty_controller = \<lparr>ct_files = [], ct_events = None, ct_env = ()\<rparr>"

definition holding :: "operation_record \<Rightarrow> unit controller" where
  "holding r = \<lparr>ct_files = save_record r [], ct_events = None, ct_env = ()\<rparr>"

lemmas act_defs = abind_def seq_def ret_def lift_def raise_error_def ask_def save_def load_def move_def try_move_def
  answer_def problem_def not_found_def

lemma holding_simps [simp]:
  "load_record (ct_files (holding r)) i = (if i = or_id r then Inr (Some r) else Inr None)"
  "files_ok (ct_files (holding r))" "ct_env (holding r) = ()"
  using files.load_after [of r "[]" i] files_ok_save [OF files_ok_empty] by (simp_all add: holding_def load_record_def)

text \<open>How the steps of an action compute.\<close>

lemma steps [simp]:
  "seq (save r) m c = m (c\<lparr>ct_files := save_record r (ct_files c)\<rparr>)"
  "seq (emit_event sv r k p) m c = m (snd (emit_event sv r k p c))"
  "abind (lift (Inr x)) f c = f x c" "abind (lift (Inl e)) f c = (Inl e, c)"
  "answer r d c = (Inr \<lparr>rs_id = or_id r, rs_state = or_state r, rs_detail = d\<rparr>, c)"
  by (simp_all add: seq_def abind_def save_def lift_def answer_def ret_def)
    (metis (no_types, lifting) emit_event_Inr prod.collapse old.prod.case old.sum.simps(6))

lemma abind_moved [simp]:
  "op_transition r t reason (sv_now sv (ct_env c)) = Inr r' \<Longrightarrow> abind (move sv r t reason) f c = f r' c"
  by (simp add: abind_def move_def)

lemma can_move: "t \<in> set (op_transitions (or_state r)) \<Longrightarrow> \<exists>r'. op_transition r t reason now = Inr r'"
  by (simp add: op_transition_exists)

lemma setter_simps [simp]:
  "or_id (set_slice k v r) = or_id r" "or_state (set_slice k v r) = or_state r"
  "or_artifacts (set_slice k v r) = or_artifacts r" "or_slices (set_slice k v r) = AList.update k v (or_slices r)"
  "or_id (set_artifact k v r) = or_id r" "or_state (set_artifact k v r) = or_state r"
  "or_slices (set_artifact k v r) = or_slices r" "or_artifacts (set_artifact k v r) = AList.update k v (or_artifacts r)"
  by (simp_all add: set_slice_def set_artifact_def)

section \<open>Runs of calls\<close>

text \<open>
  C11: Whatever calls arrive in whatever order, and whatever the adapters answer or raise, every
  record in the store can be loaded under its own name, and its history is a path of allowed
  transitions from \<open>received\<close> that ends in its state.
\<close>

theorem histories_are_paths:
  assumes "controller_run n sv \<lparr>ct_files = [], ct_events = e, ct_env = w\<rparr> c"
  shows "\<exists>found. load_record (ct_files c) i = Inr found \<and>
    (\<forall>r. found = Some r \<longrightarrow> or_id r = i \<and> path_from OpReceived (or_history r) = Some (or_state r))"
proof -
  have ok: "store_ok c" by (rule run_store_ok [OF assms]) simp
  then obtain found where "load_record (ct_files c) i = Inr found"
    using load_record_total [of "ct_files c" i] by (auto simp: store_ok_def)
  with ok show ?thesis by (auto simp: store_ok_def history_ok_def intro: loaded_id)
qed

text \<open>A run with two calls: a fix is accepted without a plan and then cancelled.\<close>

definition demo_end :: "unit controller" where
  "demo_end = snd (perform 0 (reviewed_by []) (CallCancel ''op'' ''stop'')
    (snd (perform 0 (reviewed_by []) (CallAccept ''fix'' ''f'' None (Some ''op'') []) empty_controller)))"

lemma demo_run: "controller_run 0 (reviewed_by []) empty_controller demo_end"
  unfolding demo_end_def by (intro run_call run_start)

lemma demo_end_loads: "\<exists>r. load_record (ct_files demo_end) ''op'' = Inr (Some r) \<and> or_state r = OpCancelled"
  by (simp add: demo_end_def empty_controller_def reviewed_by_def accept_op_def register_op_def cancel_op_def start_op_def
      missing_adapters_def emit_def fresh_id_def act_defs emit_event_def emit_one_def new_record_def op_transition_def
      terminal_states_def suspended_states_def Let_def files.load_after dget_def)

theorem histories_are_paths_witness:
  "\<exists>r. load_record (ct_files demo_end) ''op'' = Inr (Some r) \<and> or_state r = OpCancelled \<and>
    path_from OpReceived (or_history r) = Some OpCancelled"
  using histories_are_paths [OF demo_run [unfolded empty_controller_def], of "''op''"] demo_end_loads by auto



text \<open>
  A call concerns one operation: the records of all others stay as they are, whichever call it
  is and however it ends.
\<close>

lemma other_operations_untouched:
  assumes "files_ok (ct_files c)" and "i \<noteq> call_target sv c k"
  shows "load_record (ct_files (snd (perform n sv k c))) i = load_record (ct_files c) i"
  using assms by (rule perform_other)

lemma other_operations_untouched_witness:
  "load_record (ct_files (snd (perform 0 (reviewed_by []) (CallCancel ''op'' ''stop'')
      (holding (new_record ''other'' OpReceived ''fix'' ''f'' ''t''))))) ''other''
    = Inr (Some (new_record ''other'' OpReceived ''fix'' ''f'' ''t''))"
  using other_operations_untouched [of "holding (new_record ''other'' OpReceived ''fix'' ''f'' ''t'')" "''other''"
      "reviewed_by []" "CallCancel ''op'' ''stop''" 0] by (simp add: new_record_def)

section \<open>Approval\<close>

text \<open>
  When an adapter of the tool loop asks for approval, the controller saves the operation as
  suspended for approval, with the digest of exactly that call and a continuation from which the
  loop's state is read back, before it answers.
\<close>

lemma approval_is_saved:
  assumes "SuspForApproval \<in> set (op_transitions (or_state r))" and "keys_distinct (continuation_json co)"
  shows "\<exists>res c1 r1 text. handle_adapter_result sv r (needs_approval reason risk sid call co) phase c = (Inr res, c1) \<and>
    rs_state res = SuspForApproval \<and> load_record (ct_files c1) (or_id r) = Inr (Some r1) \<and>
    or_state r1 = SuspForApproval \<and>
    map_of (or_slices r1) ''argument_digest'' = Some (JStr (compute_argument_digest (pc_call_id call) (pc_tool call)
      (parsed_arguments (pc_arguments call)))) \<and>
    map_of (or_slices r1) ''approval_tool_call'' = Some (pending_json call) \<and>
    map_of (or_artifacts r1) ''continuation'' = Some (JStr text) \<and> deserialize text = Inr co"
proof -
  let ?digest = "compute_argument_digest (pc_call_id call) (pc_tool call) (parsed_arguments (pc_arguments call))"
  let ?r = "set_artifact ''continuation'' (JStr (serialize co)) (set_slice ''resume_phase'' (JStr phase)
    (set_slice ''approval_tool_call'' (pending_json call) (set_slice ''argument_digest'' (JStr ?digest)
      (set_slice ''suspension_id'' (JStr sid) r))))"
  have "SuspForApproval \<in> set (op_transitions (or_state ?r))" using assms(1) by simp
  then obtain r2 where r2: "op_transition ?r SuspForApproval ''approval_required'' (sv_now sv (ct_env c)) = Inr r2"
    using can_move by blast
  have handled: "handle_adapter_result sv r (needs_approval reason risk sid call co) phase c =
      approval_suspension sv r (needs_approval reason risk sid call co) phase (JStr sid) c"
    by (simp add: handle_adapter_result_def needs_approval_def dget_def Let_def)
  have parts: "adapter_call (pending_json call) = Inr (pc_call_id call, pc_tool call, pc_arguments call)"
    by (simp add: adapter_call_def pending_json_def dget_def)
  have fields: "dget ''tool_call'' (JObj []) (needs_approval reason risk sid call co) = pending_json call"
    "map_of (needs_approval reason risk sid call co) ''continuation'' = Some (JStr (serialize co))"
    by (simp_all add: needs_approval_def dget_def)
  show ?thesis
    unfolding handled approval_suspension_def Let_def fields parts
    using op_transition_state [OF r2] deserialize_serialize [OF assms(2)]
    by (simp add: copy_artifact_def fields r2 files.load_after)
qed

text \<open>A call of \<open>shell_exec\<close>, and the continuation of a loop that has only the prompt.\<close>

definition demo_call :: pending_call where
  "demo_call = \<lparr>pc_call_id = JStr ''c'', pc_tool = JStr ''shell_exec'', pc_arguments = JObj [(''command'', JStr ''ls'')],
    pc_raw = ''ls''\<rparr>"

definition demo_continuation :: continuation where
  "demo_continuation = \<lparr>co_messages = [JStr ''m''], co_pending = [], co_iteration = 1, co_usage = [], co_trace = [],
    co_config = [], co_version = 1\<rparr>"

theorem approval_is_saved_witness:
  "\<exists>res c1 r1 text. handle_adapter_result (reviewed_by []) (new_record ''op'' OpPlanning ''task'' ''p'' ''t'')
      (needs_approval ''r'' ''low'' ''s'' demo_call demo_continuation) ''planning'' empty_controller = (Inr res, c1) \<and>
    rs_state res = SuspForApproval \<and>
    load_record (ct_files c1) (or_id (new_record ''op'' OpPlanning ''task'' ''p'' ''t'')) = Inr (Some r1) \<and>
    or_state r1 = SuspForApproval \<and>
    map_of (or_slices r1) ''argument_digest'' = Some (JStr (compute_argument_digest (pc_call_id demo_call) (pc_tool demo_call)
      (parsed_arguments (pc_arguments demo_call)))) \<and>
    map_of (or_slices r1) ''approval_tool_call'' = Some (pending_json demo_call) \<and>
    map_of (or_artifacts r1) ''continuation'' = Some (JStr text) \<and> deserialize text = Inr demo_continuation"
  by (rule approval_is_saved) (simp_all add: new_record_def continuation_json_def demo_continuation_def)

lemma abind_read: "abind (\<lambda>s. ret (g s) s) f c = f (g c) c"
  by (simp add: abind_def ret_def)

lemma abind_tried:
  "abind (try_move sv r t reason) f c =
    (case op_transition r t reason (sv_now sv (ct_env c)) of
       Inr r1 \<Rightarrow> f (Inr r1) c
     | Inl (InvalidTransition m) \<Rightarrow> f (Inl m) c
     | Inl e \<Rightarrow> (Inl e, c))"
  by (simp add: abind_def try_move_def split: sum.split py_error.split)

lemma granted_calls:
  assumes "fst (grant_approval sv r (JObj call) d c) = Inr res" and "rs_state res = SuspForToolResult"
    and "or_state r = SuspForApproval"
  shows "map_of (rs_detail res) ''pending_calls'' = Some (JList [JObj [(''call_id'', dget ''call_id'' d call),
    (''tool_name'', dget ''tool_name'' (JStr []) call), (''arguments'', dget ''arguments'' (JObj []) call)]])"
proof -
  let ?r = "set_slice ''approval_suspension_id'' (dget ''suspension_id'' (JStr []) (or_slices r))
    (set_slice ''approval_decision'' (JBool True) (set_slice ''approval_decided'' (JBool True) r))"
  let ?i = "integrate_approval (dget ''call_id'' d call) (dget ''tool_name'' (JStr []) call) (dget ''arguments'' (JObj []) call) ?r"
  obtain r2 where r2: "?i = Inr r2"
    using assms(1) by (cases ?i) (simp_all add: grant_approval_def Let_def)
  have "or_state r2 = SuspForApproval"
    using integrate_approval_result [OF r2] assms(3) by auto
  with assms(1,2) r2 show ?thesis
    by (auto simp: grant_approval_def Let_def abind_read abind_tried problem_def
        split: sum.splits py_error.splits)
qed

text \<open>
  C13: A tool call is released to the frontend only after an approval of exactly that call: the
  digest of the call that is released is the digest that was stored when the approval was asked for.
\<close>

theorem released_call_was_approved:
  assumes "or_state r = SuspForApproval"
    and "map_of (or_slices r) ''argument_digest'' = Some (JStr digest)" and "digest \<noteq> []"
    and "map_of (or_slices r) ''approval_tool_call'' = Some (JObj call)" and "call \<noteq> []"
    and "fst (handle_approval_decision sv r input c) = Inr res" and "rs_state res = SuspForToolResult"
  shows "truth (dget ''approved'' (JBool False) input) \<and>
    (\<exists>i t a. map_of (rs_detail res) ''pending_calls'' = Some (JList [JObj [(''call_id'', i), (''tool_name'', t), (''arguments'', a)]]) \<and>
      digest = compute_argument_digest i t (parsed_arguments a))"
proof -
  let ?id = "dget ''call_id'' (JStr []) input"
  let ?i = "dget ''call_id'' ?id call" and ?t = "dget ''tool_name'' (JStr []) call" and ?a = "dget ''arguments'' (JObj []) call"
  have slots: "dget ''argument_digest'' (JStr []) (or_slices r) = JStr digest"
    "dget ''approval_tool_call'' (JObj []) (or_slices r) = JObj call"
    using assms by (simp_all add: dget_def)
  have matches: "digest_matches r (JObj call) ?id = Inr (verify_argument_digest ?i ?t (parsed_arguments ?a) (JStr digest))"
    using assms by (simp add: digest_matches_def slots Let_def truth.simps)
  have deny: "rs_state q \<noteq> SuspForToolResult" if "fst (deny_approval sv r tc i c) = Inr q" for tc i q
    using that assms(1)
    by (auto simp: deny_approval_def Let_def abind_tried problem_def abind_def [of "lift _"] lift_def
        dest: op_transition_state split: sum.splits py_error.splits)
  have answer: "truth (dget ''approved'' (JBool False) input) \<and> verify_argument_digest ?i ?t (parsed_arguments ?a) (JStr digest)
      \<and> fst (grant_approval sv r (JObj call) ?id c) = Inr res"
    using assms(6,7,1) matches deny by (auto simp: handle_approval_decision_def Let_def slots split: if_splits)
  then have "map_of (rs_detail res) ''pending_calls'' =
      Some (JList [JObj [(''call_id'', ?i), (''tool_name'', ?t), (''arguments'', ?a)]])"
    using granted_calls [OF _ assms(7,1)] by blast
  with answer show ?thesis by (intro conjI exI) (auto simp: verify_argument_digest_def)
qed

definition demo_digest :: string where
  "demo_digest = compute_argument_digest (JStr ''c'') (JStr ''shell_exec'') (JObj [(''command'', JStr ''ls'')])"

definition demo_suspended :: operation_record where
  "demo_suspended = (new_record ''op'' SuspForApproval ''task'' ''p'' ''t'')\<lparr>or_slices := [
    (''argument_digest'', JStr demo_digest), (''approval_tool_call'', pending_json demo_call)]\<rparr>"

lemma demo_granted:
  "\<exists>res. fst (handle_approval_decision (reviewed_by []) demo_suspended [(''approved'', JBool True)] empty_controller) = Inr res
    \<and> rs_state res = SuspForToolResult"
  by (simp add: handle_approval_decision_def wrong_suspension_def digest_matches_def demo_suspended_def demo_digest_def
      demo_call_def pending_json_def new_record_def dget_def parsed_arguments_def Let_def grant_approval_def
      integrate_approval_def abind_read abind_tried set_slice_def op_transition_def terminal_states_def
      suspended_states_def)

theorem released_call_was_approved_witness:
  "\<exists>res i t a. fst (handle_approval_decision (reviewed_by []) demo_suspended [(''approved'', JBool True)] empty_controller) = Inr res \<and>
    map_of (rs_detail res) ''pending_calls'' = Some (JList [JObj [(''call_id'', i), (''tool_name'', t), (''arguments'', a)]]) \<and>
    demo_digest = compute_argument_digest i t (parsed_arguments a)"
proof -
  obtain res where res: "fst (handle_approval_decision (reviewed_by []) demo_suspended [(''approved'', JBool True)] empty_controller)
      = Inr res" "rs_state res = SuspForToolResult" using demo_granted by blast
  have "demo_digest \<noteq> []"
    using length_sha256_hex by (auto simp: demo_digest_def compute_argument_digest_def dest: arg_cong [where f = length])
  then have "\<exists>i t a. map_of (rs_detail res) ''pending_calls'' =
      Some (JList [JObj [(''call_id'', i), (''tool_name'', t), (''arguments'', a)]]) \<and>
      demo_digest = compute_argument_digest i t (parsed_arguments a)"
    using released_call_was_approved [OF _ _ _ _ _ res, of demo_digest "[(''call_id'', pc_call_id demo_call),
        (''tool_name'', pc_tool demo_call), (''arguments'', pc_arguments demo_call)]"]
    by (simp add: demo_suspended_def new_record_def pending_json_def)
  with res(1) show ?thesis by blast
qed

section \<open>Claims\<close>

text \<open>A record that carries a claim of \<open>owner\<close> refuses every other claimant.\<close>

definition claimed_by :: "json \<Rightarrow> operation_record \<Rightarrow> bool" where
  "claimed_by owner r \<longleftrightarrow> truth (dget ''execution_claim'' (JObj []) (or_slices r)) \<and>
    jget ''claimant_id'' (JStr []) (dget ''execution_claim'' (JObj []) (or_slices r)) = Inr owner"

lemma lifted_cases: "abind (lift m) f c = (case m of Inl e \<Rightarrow> (Inl e, c) | Inr x \<Rightarrow> f x c)"
  by (cases m) simp_all

lemma claim_call_claimed:
  assumes "claim_call sv r call a s k d c = (Inr res, c1)" and "map_of (rs_detail res) ''claimed'' = Some (JBool True)"
    and "load_record (ct_files c) (or_id r) = Inr (Some r)"
  shows "\<exists>r1. load_record (ct_files c1) (or_id r) = Inr (Some r1) \<and> claimed_by (JStr a) r1"
proof (cases "truth (dget ''execution_claim'' (JObj []) (or_slices r))")
  case True
  then show ?thesis using assms
    by (auto simp: claim_call_def Let_def problem_def lifted_cases claimed_by_def split: if_splits sum.splits)
next
  case False
  let ?r = "set_slice ''execution_claim'' (JObj (claim_json a k s d)) r"
  have "claimed_by (JStr a) ?r" by (simp add: claimed_by_def dget_def claim_json_def)
  with False assms show ?thesis
    by (auto simp: claim_call_def Let_def problem_def lifted_cases files.load_after split: if_splits sum.splits)
qed

lemma claimed_refuses:
  assumes "claimed_by owner r" and "owner \<noteq> JStr b"
  shows "snd (claim_call sv r call b s k d c) = c \<and>
    (\<forall>res. fst (claim_call sv r call b s k d c) = Inr res \<longrightarrow> map_of (rs_detail res) ''claimed'' = None)"
  using assms by (auto simp: claim_call_def claimed_by_def Let_def problem_def split: if_splits)

text \<open>
  C14: A tool execution has one owner: once a client's claim succeeded, no other client's claim of
  that operation succeeds or changes anything, whatever it presents.
\<close>

theorem claims_are_exclusive:
  assumes "claim_tool_execution sv i a s k d c = (Inr res, c1)" and "map_of (rs_detail res) ''claimed'' = Some (JBool True)"
    and "files_ok (ct_files c)" and "b \<noteq> a"
  shows "snd (claim_tool_execution sv i b s' k' d' c1) = c1 \<and>
    (\<forall>q. fst (claim_tool_execution sv i b s' k' d' c1) = Inr q \<longrightarrow> map_of (rs_detail q) ''claimed'' = None)"
proof -
  obtain r pc where r: "load_record (ct_files c) i = Inr (Some r)" and call: "claim_call sv r pc a s k d c = (Inr res, c1)"
    using assms(1,2)
    by (auto simp: claim_tool_execution_def abind_def [of "load _"] load_def lifted_cases problem_def not_found_def ret_def
        split: sum.splits option.splits if_splits)
  have "or_id r = i" by (rule loaded_id [OF assms(3) r])
  with claim_call_claimed [OF call assms(2)] r obtain r1 where
    "load_record (ct_files c1) i = Inr (Some r1)" and "claimed_by (JStr a) r1" by auto
  moreover have "snd (claim_call sv r1 x b s' k' d' c1) = c1 \<and>
      (\<forall>q. fst (claim_call sv r1 x b s' k' d' c1) = Inr q \<longrightarrow> map_of (rs_detail q) ''claimed'' = None)" for x
    by (rule claimed_refuses [OF \<open>claimed_by (JStr a) r1\<close>]) (use assms(4) in simp)
  ultimately show ?thesis
    by (auto simp: claim_tool_execution_def abind_def [of "load _"] load_def lifted_cases problem_def not_found_def ret_def
        split: sum.splits option.splits if_splits)
qed

definition demo_claimable :: operation_record where
  "demo_claimable = (new_record ''op'' SuspForToolResult ''task'' ''p'' ''t'')\<lparr>or_slices := [
    (''suspension_id'', JStr ''s''), (''pending_calls'', JList [pending_json demo_call])]\<rparr>"

definition demo_claim :: "string \<Rightarrow> (unit, op_result) act" where
  "demo_claim claimant = claim_tool_execution (reviewed_by []) ''op'' claimant ''s'' ''c'' ''d''"

lemma demo_claim_succeeds:
  "\<exists>res c1. demo_claim ''a'' (holding demo_claimable) = (Inr res, c1) \<and> map_of (rs_detail res) ''claimed'' = Some (JBool True)"
  by (simp add: demo_claim_def claim_tool_execution_def abind_def [of "load _"] load_def lifted_cases demo_claimable_def
      new_record_def dget_def pending_json_def demo_call_def claim_call_def claim_detail_def Let_def)

theorem claims_are_exclusive_witness:
  "\<exists>res c1. demo_claim ''a'' (holding demo_claimable) = (Inr res, c1) \<and>
    map_of (rs_detail res) ''claimed'' = Some (JBool True) \<and> snd (demo_claim ''b'' c1) = c1"
proof -
  obtain res c1 where claim: "demo_claim ''a'' (holding demo_claimable) = (Inr res, c1)"
    "map_of (rs_detail res) ''claimed'' = Some (JBool True)" using demo_claim_succeeds by blast
  with claims_are_exclusive [OF claim [unfolded demo_claim_def], of "''b''"] show ?thesis by (auto simp: demo_claim_def)
qed

section \<open>Errors\<close>

text \<open>
  A chat cannot be started: with a chat adapter the step to the running sandbox is not among
  the transitions of a received operation, so that the call raises and nothing changes.
\<close>

lemma chat_start_raises:
  assumes "load_record (ct_files c) i = Inr (Some r)" and "or_state r = OpReceived" and "or_source r = ''chat''"
    and "sv_chat sv = Some chat"
  shows "start_op n sv i plan ctx c =
    (Inl (InvalidTransition (invalid_transition_message OpReceived OpSandboxRunning)), c)"
  using assms
  by (simp add: start_op_def abind_def [of "load _"] load_def do_chat_def abind_def [of "move _ _ _ _"] move_def
      op_transition_def terminal_states_def)

lemma chat_start_raises_witness:
  "fst (start_op 5 ((reviewed_by [])\<lparr>sv_chat := Some (\<lambda>_ _ _ w. (Inr [], w))\<rparr>) ''op'' None []
    (holding (new_record ''op'' OpReceived ''chat'' ''p'' ''t''))) =
    Inl (InvalidTransition (invalid_transition_message OpReceived OpSandboxRunning))"
  by (subst chat_start_raises [where r = "new_record ''op'' OpReceived ''chat'' ''p'' ''t''"]) (simp_all add: new_record_def)

lemma asked: "fst (f (ct_env c)) = Inr x \<Longrightarrow> abind (ask f) g c = g x (c\<lparr>ct_env := snd (f (ct_env c))\<rparr>)"
  by (auto simp: abind_def ask_def split: prod.split)

text \<open>
  C15: Reviews need not end: a reviewer that always finds a gap and a fulfilment that always reports
  every gap as resolved keep calling each other, whatever room the stack has.
\<close>

theorem endless_review_raises:
  assumes "sv_review sv = Some review" and "\<And>p i v w. fst (review p i v w) = Inr [(''decision'', JStr ''material_gap_found'')]"
    and "sv_fulfil sv = Some fulfil" and "\<And>f p x w. fst (fulfil f p x w) = Inr [(''all_resolved'', JBool True)]"
    and "or_state r = OpReviewing"
  shows "fst (do_review n sv r plan ctx provider c) = Inl RecursionError"
  using assms(5)
proof (induction n arbitrary: r plan provider c)
  case 0
  then show ?case by (simp add: raise_error_def)
next
  case (Suc n)
  let ?c = "\<lambda>c w. c\<lparr>ct_env := w\<rparr>"
  let ?c1 = "?c c (snd (review plan (or_id r) provider (ct_env c)))"
  obtain r1 where r1: "op_transition r OpFulfilling ''material_gap_found'' (sv_now sv (ct_env ?c1)) = Inr r1"
    using can_move [of OpFulfilling r] Suc.prems by auto
  have r1_state: "or_state r1 = OpFulfilling" using op_transition_state [OF r1] by simp
  let ?c2 = "?c1\<lparr>ct_files := save_record r1 (ct_files ?c1)\<rparr>"
  let ?c3 = "?c ?c2 (snd (fulfil (JList []) plan ctx (ct_env ?c2)))"
  obtain r2 where r2: "op_transition r1 OpReviewing ''fulfilment_complete'' (sv_now sv (ct_env ?c3)) = Inr r2"
    using can_move [of OpReviewing r1] r1_state by auto
  have r2_state: "or_state r2 = OpReviewing" using op_transition_state [OF r2] by simp
  have "do_review (Suc n) sv r plan ctx provider c =
      do_fulfilment sv (\<lambda>q p. do_review n sv q p ctx None) r1 (JList []) plan ctx ?c2"
    using r1 by (simp add: assms(1) asked [OF assms(2)] dget_def Let_def)
  also have "\<dots> = do_review n sv r2 plan ctx None (?c3\<lparr>ct_files := save_record r2 (ct_files ?c3)\<rparr>)"
    using r2 by (simp add: do_fulfilment_def assms(3) asked [OF assms(4)] dget_def)
  finally show ?case using Suc.IH [OF r2_state] by simp
qed

definition endless :: "unit services" where
  "endless = (reviewed_by [(''decision'', JStr ''material_gap_found'')])
    \<lparr>sv_fulfil := Some (\<lambda>_ _ _ w. (Inr [(''all_resolved'', JBool True)], w))\<rparr>"

theorem endless_review_raises_witness:
  "\<forall>n. fst (do_review n endless (new_record ''op'' OpReviewing ''fix'' ''p'' ''t'') (JObj []) [] None empty_controller)
    = Inl RecursionError"
proof
  fix n
  show "fst (do_review n endless (new_record ''op'' OpReviewing ''fix'' ''p'' ''t'') (JObj []) [] None empty_controller)
      = Inl RecursionError"
    by (rule endless_review_raises [where review = "\<lambda>_ _ _ w. (Inr [(''decision'', JStr ''material_gap_found'')], w)"
        and fulfil = "\<lambda>_ _ _ w. (Inr [(''all_resolved'', JBool True)], w)"])
      (simp_all add: endless_def reviewed_by_def new_record_def)
qed

text \<open>
  An operation that waits for approval runs on without one when it is resumed with input that
  has no \<open>resume_type\<close>: it is saved as running, its approval still undecided, and the execution
  adapter is called.
\<close>

lemma resume_skips_approval:
  assumes "load_record (ct_files c) i = Inr (Some r)" and "or_state r = SuspForApproval"
    and "map_of (or_slices r) ''resume_phase'' = Some (JStr ''execution'')"
    and "map_of input ''resume_type'' = None" and "sv_execution sv = Some x"
  shows "\<exists>q. or_state q = OpSandboxRunning \<and> or_slices q = or_slices r \<and>
    resume_op n sv i input c =
      (case xa_resume x q input (ct_env c) of
         (Inl e, w) \<Rightarrow> (Inl e, c\<lparr>ct_files := save_record q (ct_files c), ct_env := w\<rparr>)
       | (Inr result, w) \<Rightarrow>
           handle_adapter_result sv q result ''execution'' (c\<lparr>ct_files := save_record q (ct_files c), ct_env := w\<rparr>))"
proof -
  obtain q where q: "op_transition r OpSandboxRunning ''resumed with input'' (sv_now sv (ct_env c)) = Inr q"
    using can_move [of OpSandboxRunning r] assms(2) by auto
  have target: "resume_target r = OpSandboxRunning" using assms(2,3) by (simp add: resume_target_def dget_def)
  show ?thesis
    using op_transition_state [OF q] assms q target
    by (intro exI [of _ q])
      (auto simp: resume_op_def abind_def [of "load _"] load_def suspended_states_def dget_def abind_tried
        continue_phase_def abind_def [of "ask _"] ask_def split: prod.split sum.split)
qed

definition demo_waiting :: operation_record where
  "demo_waiting = (new_record ''op'' SuspForApproval ''task'' ''p'' ''t'')\<lparr>or_slices := [(''resume_phase'', JStr ''execution'')]\<rparr>"

definition demo_execution :: "unit services" where
  "demo_execution = (reviewed_by [])\<lparr>sv_execution := Some
    \<lparr>xa_execute = (\<lambda>_ _ _ w. (Inr [], w)), xa_resume = (\<lambda>_ _ w. (Inr [(''status'', JStr ''completed'')], w))\<rparr>\<rparr>"

lemma resume_skips_approval_witness:
  "\<exists>q. or_state q = OpSandboxRunning \<and> or_slices q = or_slices demo_waiting \<and>
    resume_op 5 demo_execution ''op'' [] (holding demo_waiting) =
      handle_adapter_result demo_execution q [(''status'', JStr ''completed'')] ''execution''
        ((holding demo_waiting)\<lparr>ct_files := save_record q (ct_files (holding demo_waiting)), ct_env := ()\<rparr>)"
  using resume_skips_approval [of "holding demo_waiting" "''op''" demo_waiting "[]" demo_execution
      "\<lparr>xa_execute = (\<lambda>_ _ _ w. (Inr [], w)), xa_resume = (\<lambda>_ _ w. (Inr [(''status'', JStr ''completed'')], w))\<rparr>" 5]
  by (simp add: demo_waiting_def demo_execution_def new_record_def)

text \<open>
  Only the first claimed tool result of an operation can be delivered: the claim and the mark
  that it was consumed outlive the suspension, so when the adapter asks for another tool, the result
  of that call is refused as a conflicting replay and the operation stays suspended.
\<close>

lemma second_result_is_refused:
  assumes "or_state r = OpSandboxRunning" and "map_of (or_slices r) ''execution_claim'' = Some (JObj claim)" and "claim \<noteq> []"
    and "map_of (or_slices r) ''suspension_consumed'' = Some (JBool True)"
    and "map_of (or_slices r) ''consumed_tool_results'' = Some earlier" and "\<not> py_eq earlier results"
  shows "\<exists>res c1 q. handle_adapter_result sv r (needs_tool_result reason sid calls co) phase c = (Inr res, c1) \<and>
    rs_state res = SuspForToolResult \<and>
    resume_op n sv (or_id r) [(''resume_type'', JStr ''tool_result''), (''tool_results'', results)] c1 = (Inr q, c1) \<and>
    rs_state q = SuspForToolResult \<and> map_of (rs_detail q) ''error'' = Some (JStr ''conflicting_result_replay'')"
proof -
  let ?pending = "JList (map pending_json calls)"
  let ?r = "set_artifact ''continuation'' (JStr (serialize co)) (set_slice ''resume_phase'' (JStr phase)
    (set_slice ''pending_calls'' ?pending (set_slice ''suspension_id'' (JStr sid) r)))"
  have "SuspForToolResult \<in> set (op_transitions (or_state ?r))" using assms(1) by simp
  then obtain r2 where r2: "op_transition ?r SuspForToolResult ''frontend_tool_execution'' (sv_now sv (ct_env c)) = Inr r2"
    using can_move by blast
  have handled: "handle_adapter_result sv r (needs_tool_result reason sid calls co) phase c =
      tool_result_suspension sv r (needs_tool_result reason sid calls co) phase (JStr sid) c"
    by (simp add: handle_adapter_result_def needs_tool_result_def dget_def Let_def)
  have fields: "dget ''pending_calls'' (JList []) (needs_tool_result reason sid calls co) = ?pending"
    "map_of (needs_tool_result reason sid calls co) ''continuation'' = Some (JStr (serialize co))"
    by (simp_all add: needs_tool_result_def dget_def)
  show ?thesis
    unfolding handled tool_result_suspension_def Let_def fields
    using op_transition_state [OF r2] assms
    by (simp add: copy_artifact_def fields r2 resume_op_def abind_def [of "load _"] load_def files.load_after
        suspended_states_def handle_tool_result_def claim_answer_def dget_def Let_def)
qed

definition demo_consumed :: operation_record where
  "demo_consumed = (new_record ''op'' OpSandboxRunning ''task'' ''p'' ''t'')\<lparr>or_slices := [
    (''execution_claim'', JObj (claim_json ''a'' ''c'' ''s'' ''d'')), (''suspension_consumed'', JBool True),
    (''consumed_tool_results'', JList [])]\<rparr>"

lemma second_result_is_refused_witness:
  "\<exists>res c1 q. handle_adapter_result (reviewed_by []) demo_consumed
      (needs_tool_result ''r'' ''s2'' [demo_call] demo_continuation) ''execution'' empty_controller = (Inr res, c1) \<and>
    rs_state res = SuspForToolResult \<and>
    resume_op 5 (reviewed_by []) (or_id demo_consumed) [(''resume_type'', JStr ''tool_result''),
      (''tool_results'', JList [JObj [(''call_id'', JStr ''c2'')]])] c1 = (Inr q, c1) \<and>
    rs_state q = SuspForToolResult \<and> map_of (rs_detail q) ''error'' = Some (JStr ''conflicting_result_replay'')"
  by (rule second_result_is_refused [where claim = "claim_json ''a'' ''c'' ''s'' ''d''" and earlier = "JList []"])
    (simp_all add: demo_consumed_def new_record_def claim_json_def py_eq_def)

text \<open>
  A planning run that failed is taken for a plan: the report of the failure becomes the
  candidate plan, the operation moves on to the review and the review is asked about the report.
\<close>

lemma failed_planning_is_reviewed:
  assumes "sv_planning sv = Some p" and "fst (pa_create p prompt ctx (ct_env c)) = Inr (failed_result message)"
    and "or_state r = OpPlanning"
  shows "\<exists>q c1. or_state q = OpReviewing \<and>
    map_of (or_artifacts q) ''candidate_plan'' = Some (JStr (json_dumps (JObj (failed_result message)))) \<and>
    do_planning n sv r prompt ctx c = do_review n sv q (JObj (failed_result message)) ctx None c1"
proof -
  let ?plan = "JObj (failed_result message)" and ?c = "c\<lparr>ct_env := snd (pa_create p prompt ctx (ct_env c))\<rparr>"
  obtain r1 where r1: "op_transition r OpPlanReady ''plan_created'' (sv_now sv (ct_env ?c)) = Inr r1"
    using can_move [of OpPlanReady r] assms(3) by auto
  let ?r2 = "set_artifact ''candidate_plan'' (JStr (json_dumps ?plan)) r1"
  have "OpReviewing \<in> set (op_transitions (or_state ?r2))" using op_transition_state [OF r1] by simp
  then obtain q where q: "op_transition ?r2 OpReviewing ''auto_review'' (sv_now sv (ct_env ?c)) = Inr q"
    using can_move by blast
  have reply: "dget ''status'' JNull (failed_result message) \<noteq> JStr ''suspended''" "reply_plan (failed_result message) = ?plan"
    by (simp_all add: failed_result_def dget_def reply_plan_def)
  show ?thesis
    using op_transition_state [OF q] r1 q
    by (intro exI [of _ q] exI)
      (simp add: do_planning_def assms(1) asked [of "pa_create p prompt ctx", OF assms(2)] reply plan_to_review_def Let_def)
qed

definition demo_planning :: "unit services" where
  "demo_planning = (reviewed_by [])\<lparr>sv_planning := Some
    \<lparr>pa_create = (\<lambda>_ _ w. (Inr (failed_result ''timeout''), w)), pa_resume = (\<lambda>_ _ w. (Inr [], w))\<rparr>\<rparr>"

lemma failed_planning_is_reviewed_witness:
  "\<exists>q c1. or_state q = OpReviewing \<and>
    map_of (or_artifacts q) ''candidate_plan'' = Some (JStr (json_dumps (JObj (failed_result ''timeout'')))) \<and>
    do_planning 5 demo_planning (new_record ''op'' OpPlanning ''task'' ''p'' ''t'') ''p'' [] empty_controller =
      do_review 5 demo_planning q (JObj (failed_result ''timeout'')) [] None c1"
  by (rule failed_planning_is_reviewed [where p = "\<lparr>pa_create = (\<lambda>_ _ w. (Inr (failed_result ''timeout''), w)),
      pa_resume = (\<lambda>_ _ w. (Inr [], w))\<rparr>"]) (simp_all add: demo_planning_def new_record_def)

text \<open>
  An execution whose provider cannot be reached completes: the client of the provider answers a
  timeout with an empty reply, the loop takes a reply without tool calls for the final one, and the
  operation is saved as completed although nothing of its plan was done.
\<close>

lemma unreachable_provider_completes:
  assumes "sv_execution sv = Some (llm_execution env tools)" and "le_provider env = ollama_call ol post"
    and "\<And>url body t. fst (post url body t (ct_env c)) = HttpTimeout" and "\<not> le_abort env (ct_env c)"
    and "or_state r = OpSandboxReady"
    and "map_of (or_artifacts r) ''candidate_plan'' = Some (JStr text)" and "json_loads text = Some plan" and "text \<noteq> []"
  shows "\<exists>res c1 r1. do_execution sv r ctx c = (Inr res, c1) \<and> rs_state res = OpCompleted \<and>
    map_of (rs_detail res) ''output'' = Some (JStr []) \<and>
    load_record (ct_files c1) (or_id r) = Inr (Some r1) \<and> or_state r1 = OpCompleted"
proof -
  obtain q where q: "op_transition r OpSandboxRunning ''execution_started'' (sv_now sv (ct_env c)) = Inr q"
    using can_move [of OpSandboxRunning r] assms(5) by auto
  note q_state = op_transition_state [OF q]
  let ?c = "c\<lparr>ct_files := save_record q (ct_files c)\<rparr>" and ?w = "ct_env c"
  let ?messages = "two_messages execution_system_prompt (execution_prompt plan)"
  let ?tools = "build_tool_schemas execution_config tools"
  let ?model = "some_text (lc_model execution_config) (ol_model_id ol)"
  define w1 where "w1 = snd (post (ol_base_url ol @ ''/v1/chat/completions'') (request_body ?model ?messages ?tools 2048)
    (lc_timeout execution_config) ?w)"
  have "le_provider env ?messages ?tools (lc_model execution_config) 2048 (lc_timeout execution_config) ?w =
      (Inr (failed_response [] ?model), w1)"
    by (simp add: assms(2,3) ollama_call_def read_reply_def Let_def case_prod_beta w1_def)
  then have "run_loop env execution_config ?messages ?tools 2048 ?w = (Inr (LoopCompleted [] [] [] ''error''), w1)"
    by (rule run_loop_failed_reply) (simp_all add: assms(4), simp add: execution_config_def)
  then have exec: "xa_execute (llm_execution env tools) (or_id q) plan ctx ?w =
      (Inr [(''status'', JStr ''completed''), (''output'', JStr []), (''usage'', JList [])], w1)"
    by (simp add: llm_execution_def execute_plan_def interpreted_def)
  obtain r1 where r1: "op_transition q OpCompleted ''adapter_completed'' (sv_now sv w1) = Inr r1"
    using can_move [of OpCompleted q] q_state by auto
  show ?thesis
    using assms(1,6,7,8) q exec r1 op_transition_state [OF r1] q_state
    by (simp add: do_execution_def dget_def parse_json_def Let_def asked handle_adapter_result_def files.load_after)
qed

definition demo_ready :: operation_record where
  "demo_ready = (new_record ''op'' OpSandboxReady ''prepared_plan'' ''p'' ''t'')\<lparr>or_artifacts := [(''candidate_plan'', JStr ''{}'')]\<rparr>"

definition dead_env :: "unit loop_env" where
  "dead_env = \<lparr>le_provider = ollama_call \<lparr>ol_base_url = ''u'', ol_model_id = ''m''\<rparr> (\<lambda>_ _ _ w. (HttpTimeout, w)),
    le_executor = None, le_time = (\<lambda>_. 0), le_stamp = (\<lambda>_. ''t''), le_uuid = (\<lambda>_ _. ''u''), le_abort = (\<lambda>_. False)\<rparr>"

definition dead_services :: "unit services" where
  "dead_services = (reviewed_by [])\<lparr>sv_execution := Some (llm_execution dead_env [])\<rparr>"

theorem unreachable_provider_completes_witness:
  "\<exists>res c1 r1. do_execution dead_services demo_ready [] empty_controller = (Inr res, c1) \<and> rs_state res = OpCompleted \<and>
    map_of (rs_detail res) ''output'' = Some (JStr []) \<and>
    load_record (ct_files c1) (or_id demo_ready) = Inr (Some r1) \<and> or_state r1 = OpCompleted"
proof (rule unreachable_provider_completes [where env = dead_env and ol = "\<lparr>ol_base_url = ''u'', ol_model_id = ''m''\<rparr>"
      and post = "\<lambda>_ _ _ w. (HttpTimeout, w)"])
  show "json_loads ''{}'' = Some (JObj [])" using json_loads_spaced [of "JObj []"] by simp
qed (simp_all add: dead_services_def dead_env_def demo_ready_def new_record_def)

section \<open>The tool loop\<close>

text \<open>
  C16: Whatever the model asks for, the adapters execute no tool but \<open>audisor_scan\<close> themselves: a
  property of the environment that provider calls and scans keep is kept by planning and by
  execution, started or resumed.
\<close>

theorem backend_only_scans:
  assumes "\<And>ms ts m n t w. P w \<Longrightarrow> P (snd (le_provider env ms ts m n t w))"
    and "\<And>run args w. le_executor env = Some run \<Longrightarrow> P w \<Longrightarrow> P (snd (run (JStr ''audisor_scan'') args w))"
    and "P w"
  shows "P (snd (create_plan env tools prompt ctx w)) \<and> P (snd (execute_plan env tools ident plan ctx w)) \<and>
    P (snd (resume_plan env r input w)) \<and> P (snd (resume_execution env r input w))"
proof -
  have "scan_keeps env P" using assms(1,2) by (auto simp: scan_keeps_def)
  note kept = scan_kept_by [OF this]
  show ?thesis
    using kept assms(3)
    by (simp add: create_plan_def execute_plan_def resume_plan_def resume_execution_def run_loop_keeps resume_with_keeps)
qed

text \<open>An environment that lists the tools that were executed; the model always asks for a shell and a scan.\<close>

definition asking :: "json \<Rightarrow> jdict" where
  "asking name = [(''id'', JStr ''c''), (''function'', JObj [(''name'', name), (''arguments'', JStr ''{}'')])]"

definition demo_env :: "json list loop_env" where
  "demo_env = \<lparr>le_provider = (\<lambda>_ _ _ _ _ w. (Inr \<lparr>re_text = [], re_calls = [asking (JStr ''shell_exec''), asking (JStr ''audisor_scan'')],
      re_usage = [], re_model = [], re_finish = []\<rparr>, w)),
    le_executor = Some (\<lambda>name args w. (Inr \<lparr>ex_output = [], ex_error = None\<rparr>, w @ [name])),
    le_time = (\<lambda>_. 0), le_stamp = (\<lambda>_. ''t''), le_uuid = (\<lambda>_ _. ''u''), le_abort = (\<lambda>_. False)\<rparr>"

theorem backend_only_scans_witness:
  "set (snd (create_plan demo_env [] ''p'' [] [])) \<subseteq> {JStr ''audisor_scan''}"
  by (rule backend_only_scans [where P = "\<lambda>w. set w \<subseteq> {JStr ''audisor_scan''}", THEN conjunct1])
    (auto simp: demo_env_def)

text \<open>
  C17: Planning asks the provider at most 10 times and execution at most 15 times, and a resumed
  loop only as often as its continuation left.
\<close>

theorem provider_calls_bounded:
  assumes "counts_calls env cnt"
  shows "cnt (snd (create_plan env tools prompt ctx w)) \<le> cnt w + 10 \<and>
    cnt (snd (execute_plan env tools ident plan ctx w)) \<le> cnt w + 15 \<and>
    int (cnt (snd (resume_loop env cfg co results m w))) \<le> int (cnt w) + max 0 (lc_max_iterations cfg - co_iteration co)"
proof -
  have added: "ls_iteration s' = ls_iteration s" if "add_results rs s = Inr s'" for rs s s'
    using that by (induction rs arbitrary: s)
      (auto simp: add_result_def rbind_eq_Inr split: option.splits)
  have rebuilt: "ls_iteration s = co_iteration co" if "resume_state co results = Inr s" for s
    using that by (auto simp: resume_state_def rbind_eq_Inr Let_def dest!: added split: if_splits)
  have resumed: "int (cnt (snd (resume_loop env cfg co results m w))) \<le> int (cnt w) + max 0 (lc_max_iterations cfg - co_iteration co)"
  proof (cases "resume_state co results")
    case (Inr s)
    then show ?thesis
      using loop_counts [OF assms, of cfg m "le_time env w" "[]" s w] rebuilt [OF Inr] by (simp add: resume_loop_def)
  qed (simp add: resume_loop_def)
  have run: "int (cnt (snd (run_loop env cfg ms ts m w))) \<le> int (cnt w) + max 0 (lc_max_iterations cfg)" for cfg ms ts m
    using loop_counts [OF assms, of cfg m "le_time env w" "[]" "start_state ms ts" w]
    by (simp add: run_loop_def start_state_def)
  show ?thesis
    using resumed run [of planning_config "two_messages planning_system_prompt prompt" "build_tool_schemas planning_config tools" 2048]
      run [of execution_config "two_messages execution_system_prompt (execution_prompt plan)"
        "build_tool_schemas execution_config tools" 2048]
    by (simp add: create_plan_def execute_plan_def)
qed

text \<open>The same model in an environment that counts its calls.\<close>

definition counting_env :: "nat loop_env" where
  "counting_env = \<lparr>le_provider = (\<lambda>_ _ _ _ _ w. (Inr \<lparr>re_text = [], re_calls = [asking (JStr ''audisor_scan'')],
      re_usage = [], re_model = [], re_finish = []\<rparr>, Suc w)),
    le_executor = Some (\<lambda>name args w. (Inr \<lparr>ex_output = [], ex_error = None\<rparr>, w)),
    le_time = (\<lambda>_. 0), le_stamp = (\<lambda>_. ''t''), le_uuid = (\<lambda>_ _. ''u''), le_abort = (\<lambda>_. False)\<rparr>"

theorem provider_calls_bounded_witness:
  "snd (create_plan counting_env [] ''p'' [] 0) \<le> 10 \<and> snd (execute_plan counting_env [] ''op'' JNull [] 0) \<le> 15"
proof -
  have counts: "counts_calls counting_env (\<lambda>w. w)" by (auto simp: counts_calls_def counting_env_def)
  show ?thesis
    using provider_calls_bounded [OF counts, of "[]" "''p''" "[]" 0 "''op''" JNull planning_config demo_continuation JNull 1]
    by simp
qed

text \<open>
  Every tool contract becomes a function schema of the provider's interface, with the tool's
  name and an object of parameters that admits no others; it needs approval exactly when it is not
  read-only.
\<close>

lemma contracts_become_schemas:
  assumes "map_of canonical_tools name = Some tool"
  shows "(\<exists>d p. to_openai_tool_schema tool = Inr (JObj [(''type'', JStr ''function''),
      (''function'', JObj [(''name'', JStr name), (''description'', d), (''parameters'', JObj p)])]) \<and>
      map_of p ''type'' = Some (JStr ''object'') \<and> map_of p ''additionalProperties'' = Some (JBool False)) \<and>
    (truth (tool_requires_approval name) \<longleftrightarrow> \<not> truth (dget ''read_only'' JNull tool))"
proof -
  obtain p where p: "map_of tool ''parameters'' = Some (JObj p)" "map_of p ''additionalProperties'' = Some (JBool False)"
    "map_of p ''type'' = Some (JStr ''object'')" using closed_parameters [OF assms] by blast
  moreover obtain d q where "to_openai_tool_schema tool = Inr (JObj [(''type'', JStr ''function''),
    (''function'', JObj [(''name'', JStr name), (''description'', d), (''parameters'', q)])])"
    using openai_schema_total [OF assms] by blast
  moreover from this p(1) have "q = JObj p"
    by (auto simp: to_openai_tool_schema_def split: option.splits)
  ultimately show ?thesis using approval_iff_not_read_only [OF assms] by blast
qed

lemma contracts_become_schemas_witness:
  "\<exists>d p. to_openai_tool_schema shell_exec_tool = Inr (JObj [(''type'', JStr ''function''),
    (''function'', JObj [(''name'', JStr ''shell_exec''), (''description'', d), (''parameters'', JObj p)])])"
  using contracts_become_schemas [of "''shell_exec''" shell_exec_tool] by (auto simp: canonical_tools_def)

section \<open>The event log\<close>

text \<open>
  In every store that appends and restarts lead to, an appended event is the last one of its
  operation's log and numbered by its position, no other log changes, and reading from a cursor
  skips exactly the events up to it, so that a client that pages sees each event once.
\<close>

lemma log_appends:
  assumes "log_run st" and "append_of st m = (e, st1)" and "readable e"
  shows "read_raw st1 (ap_id m) = read_raw st (ap_id m) @ [e] \<and>
    oe_sequence e = int (length (read_raw st1 (ap_id m))) \<and>
    (\<forall>i. i \<noteq> ap_id m \<longrightarrow> read_raw st1 i = read_raw st i) \<and>
    (\<forall>i n limit. read_after st1 i (int n) limit = take limit (drop n (read_raw st1 i)))"
proof -
  have ok: "log_ok st" by (rule log_run_ok [OF assms(1)])
  have good: "readable (fst (append_of st m))" using assms(2,3) by simp
  have "log_ok st1" using op_log.inv_put [OF ok good] assms(2) by simp
  moreover have "oe_sequence e = int (length (read_raw st (ap_id m))) + 1"
    using next_sequence_ok [OF ok] assms(2) append_event_sequence unfolding append_of_def by (metis fst_conv)
  ultimately show ?thesis
    using op_log.read_put [OF ok good] op_log.read_other [of _ m st] assms(2) by (simp add: read_after_drop)
qed

definition demo_append :: append_call where
  "demo_append = \<lparr>ap_id = ''op'', ap_state = ''received'', ap_type = ''x'', ap_payload = [], ap_correlation = None, ap_now = ''t''\<rparr>"

definition demo_event :: op_event where
  "demo_event = \<lparr>oe_sequence = 1, oe_operation = ''op'', oe_timestamp = ''t'', oe_state = ''received'', oe_type = ''x'',
    oe_payload = [], oe_correlation = None\<rparr>"

lemma demo_event_readable: "readable demo_event"
proof -
  have "list_all (\<lambda>c. 31 < (of_char c :: nat) \<and> (of_char c :: nat) < 128) (spaced (event_json demo_event))"
    by (simp add: event_json_def demo_event_def nullable_def quote_def escape_char_def str_of_int_def str_of_nat.simps
        digit_char_def)
  then have "single_line (spaced (event_json demo_event))" by (rule plain_single_line)
  then show ?thesis by (simp add: readable_def demo_event_def)
qed

theorem log_appends_witness:
  "read_raw (snd (append_of (open_events []) demo_append)) ''op'' = [demo_event]"
proof -
  have "append_of (open_events []) demo_append = (demo_event, snd (append_of (open_events []) demo_append))"
    by (simp add: append_of_def demo_append_def append_event_def next_sequence_def open_events_def read_raw_def demo_event_def
        Let_def)
  moreover have "read_raw (open_events []) (ap_id demo_append) = []" by (simp add: read_raw_def open_events_def)
  moreover have "ap_id demo_append = ''op''" by (simp add: demo_append_def)
  ultimately show ?thesis using log_appends [OF log_start _ demo_event_readable] by (metis append_Nil)
qed

end
