(* ===== verification/Fix_Models.thy ===== *)
theory Fix_Models
  imports Op_Store Authority
begin

text \<open>
  The data of the OneShot Fix engine: \<open>schemas/fix/models.py\<close> and \<open>schemas/fix/constants.py\<close> of
  \<open>src/audisor_backend\<close>, with the two validators, and the documents that \<open>_plain\<close> of
  \<open>controllers/fix_host.py\<close> makes of the data.
\<close>

section \<open>Errors of any class\<close>

text \<open>Sequencing for results whose error type is not \<open>py_error\<close>.\<close>

definition sbind :: "'e + 'a \<Rightarrow> ('a \<Rightarrow> 'e + 'b) \<Rightarrow> 'e + 'b" where
  "sbind m f = (case m of Inl e \<Rightarrow> Inl e | Inr x \<Rightarrow> f x)"

definition check_that :: "bool \<Rightarrow> 'e \<Rightarrow> 'e + unit" where
  "check_that c e = (if c then Inr () else Inl e)"

fun smap :: "('a \<Rightarrow> 'e + 'b) \<Rightarrow> 'a list \<Rightarrow> 'e + 'b list" where
  "smap f [] = Inr []"
| "smap f (x # xs) = sbind (f x) (\<lambda>y. sbind (smap f xs) (\<lambda>ys. Inr (y # ys)))"

lemma sbind_simps [simp]: "sbind (Inl e) f = Inl e" "sbind (Inr x) f = f x"
  by (simp_all add: sbind_def)

lemma sbind_eq_Inr [result_simps]: "sbind m f = Inr y \<longleftrightarrow> (\<exists>x. m = Inr x \<and> f x = Inr y)"
  by (cases m) auto

lemma sbind_eq_Inl [result_simps]: "sbind m f = Inl e \<longleftrightarrow> m = Inl e \<or> (\<exists>x. m = Inr x \<and> f x = Inl e)"
  by (cases m) auto

lemma check_that_simps [simp]: "check_that True e = Inr ()" "check_that False e = Inl e"
  by (simp_all add: check_that_def)

lemma check_that_eq_Inr [result_simps, simp]: "check_that c e = Inr u \<longleftrightarrow> c"
  by (cases u) (simp add: check_that_def)

lemma check_that_eq_Inl [result_simps]: "check_that c e = Inl e' \<longleftrightarrow> \<not> c \<and> e' = e"
  by (auto simp: check_that_def)

lemma smap_eq_Inr: "smap f xs = Inr ys \<longleftrightarrow> list_all2 (\<lambda>x y. f x = Inr y) xs ys"
  by (induction xs arbitrary: ys) (auto simp: sbind_eq_Inr list_all2_Cons1)

lemma smap_set: "smap f xs = Inr ys \<Longrightarrow> y \<in> set ys \<Longrightarrow> \<exists>x \<in> set xs. f x = Inr y"
  by (induction xs arbitrary: ys) (auto simp: sbind_eq_Inr)

lemma smap_all: "smap f xs = Inr ys \<Longrightarrow> (\<And>x y. f x = Inr y \<Longrightarrow> P y) \<Longrightarrow> \<forall>y \<in> set ys. P y"
  using smap_set by fastforce

lemma smap_length: "smap f xs = Inr ys \<Longrightarrow> length ys = length xs"
  by (simp add: smap_eq_Inr list_all2_lengthD)

section \<open>Constants\<close>

definition aflow_gap_correction_attempts :: int where
  "aflow_gap_correction_attempts = 1"

definition presim_rescore_attempts :: nat where
  "presim_rescore_attempts = 1"

definition max_aflow_invocations :: nat where
  "max_aflow_invocations = 1"

section \<open>Findings, manifests, plans\<close>

record fix_finding =
  ff_id :: string
  ff_type :: string
  ff_file :: string
  ff_severity :: string
  ff_evidence :: json

record fix_manifest =
  fm_files :: "string list"
  fm_closure :: "string list"
  fm_input_hash :: string
  fm_file_hashes :: "(string, string) dict"
  fm_evidence :: "(string, jdict list) dict"

record fix_statement =
  ft_type :: string
  ft_content :: jdict
  ft_findings_hash :: string
  ft_manifest_hash :: string

text \<open>
  \<open>acceptance_criterion\<close> is declared as \<open>str | None\<close>, but \<open>_plan_from_json\<close> takes whatever value the
  model sent.
\<close>

record fix_step =
  fp_id :: string
  fp_action :: string
  fp_target :: string
  fp_finding :: string
  fp_criterion :: json

record minor_issue =
  mi_type :: string
  mi_step :: string
  mi_detail :: string

record fix_plan =
  xp_steps :: "fix_step list"
  xp_targets :: "string list"
  xp_qualified :: bool
  xp_minor :: "minor_issue list"

record evaluated_plan =
  ep_plan :: fix_plan
  ep_gaps :: int
  ep_status :: string

record finding_check =
  ck_finding :: string
  ck_method :: string
  ck_check :: string
  ck_expected :: string

record validation_spec =
  vs_id :: string
  vs_command :: string
  vs_expected :: string

record fix_success =
  su_checks :: "finding_check list"
  su_validations :: "validation_spec list"
  su_regress :: "string list"
  su_rule :: string

definition covers :: "fix_success \<Rightarrow> fix_finding list \<Rightarrow> bool" where
  "covers sd findings \<longleftrightarrow> set (map ff_id findings) \<subseteq> set (map ck_finding (su_checks sd))"

record aflow_outputs =
  ao_trajectory :: "json list"
  ao_success :: fix_success
  ao_validations :: "validation_spec list"

record inspection =
  ia_verified :: bool
  ia_proof :: jdict
  ia_intact :: bool
  ia_results :: "(string, jdict list) dict"
  ia_reason :: "string option"

record quality_notes =
  qn_reason :: "string option"
  qn_perfect :: "bool option"
  qn_minor :: "minor_issue list option"
  qn_disclaimer :: string

record final_result =
  fz_released :: bool
  fz_mode :: string
  fz_resolved :: "string list"
  fz_unresolved :: "string list"
  fz_reason :: string
  fz_notes :: quality_notes

section \<open>Validation of a manifest and of a plan\<close>

definition hex64 :: "string \<Rightarrow> bool" where
  "hex64 v \<longleftrightarrow> py_len v = 64 \<and> list_all (\<lambda>c. c \<in> set ''0123456789abcdef'') v"

definition evidence_keys :: "string list" where
  "evidence_keys = [''originating_finding_id'', ''dependency_source'', ''dependency_target'', ''inclusion_reason'',
    ''resolution_evidence'']"

fun full_string :: "json \<Rightarrow> bool" where
  "full_string (JStr s) = (s \<noteq> [])"
| "full_string _ = False"

definition evidence_record_ok :: "jdict \<Rightarrow> bool" where
  "evidence_record_ok r \<longleftrightarrow>
    set (map fst r) = set evidence_keys \<and> list_all (\<lambda>kv. full_string (snd kv)) r"

definition evidence_entry_ok :: "string \<times> jdict list \<Rightarrow> unit result" where
  "evidence_entry_ok e =
    require (list_all evidence_record_ok (snd e)) (ValueError (''invalid dependency evidence:'' @ fst e))"

definition manifest_validate :: "fix_manifest \<Rightarrow> unit result" where
  "manifest_validate m = run_all ([
     require (fm_input_hash m \<noteq> [] \<and> distinct (fm_files m)) (ValueError ''invalid scoped manifest''),
     require (set (fm_files m) \<subseteq> set (fm_closure m))
       (ValueError ''scoped files must be in dependency closure''),
     require (fm_file_hashes m = [] \<or> set (map fst (fm_file_hashes m)) = set (fm_closure m))
       (ValueError ''scoped file hashes must match dependency closure''),
     require (list_all (\<lambda>kv. hex64 (snd kv)) (fm_file_hashes m))
       (ValueError ''scoped file hashes must be SHA-256 values''),
     require (list_all (\<lambda>kv. fst kv \<in> set (fm_closure m)) (fm_evidence m))
       (ValueError ''dependency evidence contains an out-of-scope file'')]
     @ map evidence_entry_ok (fm_evidence m))"

definition plan_validate :: "fix_plan \<Rightarrow> fix_manifest \<Rightarrow> unit result" where
  "plan_validate p m = run_all [
     require (xp_steps p \<noteq> [] \<and> xp_targets p \<noteq> []) (ValueError ''plan_incomplete''),
     require (xp_qualified p) (ValueError ''plan is not qualified''),
     require (list_all (\<lambda>s. fp_target s \<in> set (fm_files m)) (xp_steps p))
       (ValueError ''plan target is outside scoped manifest''),
     require (set (xp_targets p) = set (map fp_target (xp_steps p))) (ValueError ''plan target_files mismatch''),
     require (list_all (\<lambda>s. fp_finding s \<noteq> []) (xp_steps p))
       (ValueError ''originating_finding_id is required'')]"

text \<open>What the two validators accept, without their order of tests.\<close>

definition manifest_ok :: "fix_manifest \<Rightarrow> bool" where
  "manifest_ok m \<longleftrightarrow>
    fm_input_hash m \<noteq> [] \<and> distinct (fm_files m) \<and> set (fm_files m) \<subseteq> set (fm_closure m) \<and>
    (fm_file_hashes m = [] \<or> fst ` set (fm_file_hashes m) = set (fm_closure m)) \<and>
    (\<forall>h \<in> snd ` set (fm_file_hashes m). hex64 h) \<and>
    fst ` set (fm_evidence m) \<subseteq> set (fm_closure m) \<and>
    (\<forall>rs \<in> snd ` set (fm_evidence m). \<forall>r \<in> set rs. evidence_record_ok r)"

definition plan_ok :: "fix_plan \<Rightarrow> fix_manifest \<Rightarrow> bool" where
  "plan_ok p m \<longleftrightarrow>
    xp_qualified p \<and> xp_steps p \<noteq> [] \<and> set (xp_targets p) = fp_target ` set (xp_steps p) \<and>
    (\<forall>s \<in> set (xp_steps p). fp_target s \<in> set (fm_files m) \<and> fp_finding s \<noteq> [])"

lemma manifest_validate_Inr [result_simps]: "manifest_validate m = Inr u \<longleftrightarrow> manifest_ok m"
  by (cases u) (auto simp: manifest_validate_def manifest_ok_def run_all_eq_Inr rbind_eq_Inr list_all_iff evidence_entry_ok_def)

lemma plan_validate_Inr [result_simps]: "plan_validate p m = Inr u \<longleftrightarrow> plan_ok p m"
  by (cases u) (auto simp: plan_validate_def plan_ok_def run_all_eq_Inr rbind_eq_Inr list_all_iff)

section \<open>Documents\<close>

definition strs :: "string list \<Rightarrow> json" where
  "strs xs = JList (map JStr xs)"

definition fix_finding_json :: "fix_finding \<Rightarrow> json" where
  "fix_finding_json f = JObj [(''id'', JStr (ff_id f)), (''type'', JStr (ff_type f)), (''file'', JStr (ff_file f)),
    (''severity'', JStr (ff_severity f)), (''evidence'', ff_evidence f)]"

definition fix_manifest_json :: "fix_manifest \<Rightarrow> json" where
  "fix_manifest_json m = JObj [
    (''files'', strs (fm_files m)), (''dependency_closure'', strs (fm_closure m)),
    (''input_hash'', JStr (fm_input_hash m)),
    (''file_hashes'', JObj (map (\<lambda>(k, v). (k, JStr v)) (fm_file_hashes m))),
    (''dependency_evidence'', JObj (map (\<lambda>(k, rs). (k, JList (map JObj rs))) (fm_evidence m)))]"

definition fix_statement_json :: "fix_statement \<Rightarrow> json" where
  "fix_statement_json s = JObj [(''type'', JStr (ft_type s)), (''content'', JObj (ft_content s)),
    (''findings_ref_hash'', JStr (ft_findings_hash s)), (''manifest_ref_hash'', JStr (ft_manifest_hash s))]"

definition fix_step_json :: "fix_step \<Rightarrow> json" where
  "fix_step_json s = JObj [(''id'', JStr (fp_id s)), (''action'', JStr (fp_action s)),
    (''target_file'', JStr (fp_target s)), (''originating_finding_id'', JStr (fp_finding s)),
    (''acceptance_criterion'', fp_criterion s)]"

definition minor_issue_json :: "minor_issue \<Rightarrow> json" where
  "minor_issue_json i = JObj [(''type'', JStr (mi_type i)), (''step_id'', JStr (mi_step i)), (''detail'', JStr (mi_detail i))]"

definition fix_plan_json :: "fix_plan \<Rightarrow> json" where
  "fix_plan_json p = JObj [
    (''steps'', JList (map fix_step_json (xp_steps p))), (''target_files'', strs (xp_targets p)),
    (''is_qualified'', JBool (xp_qualified p)), (''minor_issues'', JList (map minor_issue_json (xp_minor p)))]"

definition finding_check_json :: "finding_check \<Rightarrow> json" where
  "finding_check_json c = JObj [(''finding_id'', JStr (ck_finding c)), (''resolution_method'', JStr (ck_method c)),
    (''check'', JStr (ck_check c)), (''expected_result'', JStr (ck_expected c))]"

definition validation_spec_json :: "validation_spec \<Rightarrow> json" where
  "validation_spec_json v = JObj [(''id'', JStr (vs_id v)), (''command_or_assertion'', JStr (vs_command v)),
    (''expected_result'', JStr (vs_expected v))]"

text \<open>\<open>str.endswith\<close>.\<close>

definition endswith :: "string \<Rightarrow> string \<Rightarrow> bool" where
  "endswith s p \<longleftrightarrow> startswith (rev s) (rev p)"

text \<open>\<open>int(value)\<close>.\<close>

fun int_of :: "json \<Rightarrow> int result" where
  "int_of (JInt i) = Inr i"
| "int_of (JBool b) = Inr (if b then 1 else 0)"
| "int_of (JStr s) = (case py_int s of
      None \<Rightarrow> Inl (ValueError (''invalid literal for int() with base 10: '' @ py_repr_str s)) | Some i \<Rightarrow> Inr i)"
| "int_of _ = Inl (TypeError ''int() argument must be a string, a bytes-like object or a real number'')"

end
