(* ===== verification/Fix_Policies.thy ===== *)
theory Fix_Policies
  imports Fix_Models Complex_Main
begin

text \<open>
  The policies of the Fix engine: the completeness score of \<open>policies/fix/completeness.py\<close> and the
  authority decisions of \<open>policies/fix/authority.py\<close>.  Scores are floats in the code and exact
  rationals here; the only comparison of scores is with the threshold, which a quotient of
  \<open>n\<close> findings can only meet exactly when \<open>n\<close> is a multiple of 2500.
\<close>

section \<open>Completeness\<close>

definition completeness_threshold :: rat where
  "completeness_threshold = 9391 / 10000"

definition completeness_weights :: "(string, rat) dict" where
  "completeness_weights = [(''scope_completeness'', 3 / 4), (''dependency_resolvability'', 1 / 4)]"

definition structural_gates :: "string list" where
  "structural_gates = [''plan_completeness'', ''aflow_output_completeness'', ''statement_consistency'', ''dependency_integrity'']"

record gate =
  gt_score :: rat
  gt_missing :: "string list"
  gt_flagged :: "jdict list option"

record completeness =
  cm_scope :: gate
  cm_resolvability :: gate
  cm_plan :: gate
  cm_output :: gate
  cm_statement :: gate
  cm_integrity :: gate
  cm_missing :: "string list"
  cm_score :: rat
  cm_status :: string

definition value_of :: "(string, rat) dict \<Rightarrow> string \<Rightarrow> rat" where
  "value_of values name = (case map_of values name of None \<Rightarrow> 0 | Some v \<Rightarrow> v)"

definition hard_gate :: "(string, rat) dict \<Rightarrow> string \<Rightarrow> gate" where
  "hard_gate values name =
    \<lparr>gt_score = (if 1 \<le> value_of values name then 1 else 0), gt_missing = [], gt_flagged = None\<rparr>"

definition soft_gate :: "(string, rat) dict \<Rightarrow> string \<Rightarrow> gate" where
  "soft_gate values name = \<lparr>gt_score = value_of values name, gt_missing = [], gt_flagged = None\<rparr>"

definition evaluate_completeness :: "(string, rat) dict \<Rightarrow> string list \<Rightarrow> completeness" where
  "evaluate_completeness values missing =
    (let score = sum_list (map (\<lambda>(name, weight). gt_score (soft_gate values name) * weight) completeness_weights);
         structural_bad = filter (\<lambda>name. gt_score (hard_gate values name) < 1) structural_gates
     in \<lparr>cm_scope = soft_gate values ''scope_completeness'',
         cm_resolvability = soft_gate values ''dependency_resolvability'',
         cm_plan = hard_gate values ''plan_completeness'',
         cm_output = hard_gate values ''aflow_output_completeness'',
         cm_statement = hard_gate values ''statement_consistency'',
         cm_integrity = hard_gate values ''dependency_integrity'',
         cm_missing = missing @ structural_bad,
         cm_score = score,
         cm_status = (if structural_bad \<noteq> [] then ''uncorrectable''
                      else if completeness_threshold \<le> score then ''pass'' else ''correctable'')\<rparr>)"

definition integrity_types :: "string list" where
  "integrity_types = [''dependency.conflicting_constraints'', ''dependency.version_mismatch'', ''dependency.duplicate_or_overlap'']"

definition integrity_ok :: "fix_finding list \<Rightarrow> bool" where
  "integrity_ok findings \<longleftrightarrow> \<not> list_ex (\<lambda>f. ff_type f \<in> set integrity_types) findings"

definition unresolved_type :: string where
  "unresolved_type = ''dependency.unresolved''"

definition score_of :: "bool \<Rightarrow> rat" where
  "score_of b = (if b then 1 else 0)"

text \<open>\<open>DependencyResolutionResult\<close> of \<open>controllers/fix_host.py\<close>.\<close>

record resolution =
  rz_finding :: string
  rz_resolved :: bool
  rz_paths :: "string list"
  rz_records :: "jdict list"
  rz_failure :: "string option"

definition dependency_results :: "fix_finding list \<Rightarrow> resolution list \<Rightarrow> resolution list" where
  "dependency_results findings results =
    filter (\<lambda>r. rz_finding r \<in> set (map ff_id (filter (\<lambda>f. ff_type f = unresolved_type) findings))) results"

definition resolvability :: "resolution list \<Rightarrow> rat" where
  "resolvability rs = (if rs = [] then 1 else of_nat (length (filter rz_resolved rs)) / of_nat (length rs))"

text \<open>
  The plan the igniter returns is an \<open>ImplementationPlan\<close>, a dictionary, or any other object; of the
  last only its plain document and the truth of its attribute \<open>is_qualified\<close> matter.
\<close>

datatype candidate =
    Typed_plan fix_plan
  | Plan_dict jdict
  | Plan_object json bool

fun candidate_qualified :: "candidate \<Rightarrow> bool" where
  "candidate_qualified (Typed_plan p) = xp_qualified p"
| "candidate_qualified (Plan_dict d) = truth (dget ''is_qualified'' (JBool False) d)"
| "candidate_qualified (Plan_object doc qualified) = qualified"

definition evaluate_fix_completeness :: "candidate \<Rightarrow> fix_finding list \<Rightarrow> resolution list \<Rightarrow> completeness" where
  "evaluate_fix_completeness plan findings results =
    evaluate_completeness [
      (''scope_completeness'', 1),
      (''dependency_resolvability'', resolvability (dependency_results findings results)),
      (''plan_completeness'', score_of (candidate_qualified plan)),
      (''aflow_output_completeness'', 1),
      (''statement_consistency'', 1),
      (''dependency_integrity'', score_of (integrity_ok findings))] []"

lemma structural_simps [simp]:
  "score_of b < 1 \<longleftrightarrow> \<not> b" "1 \<le> score_of b \<longleftrightarrow> b" "score_of True = 1" "score_of False = 0"
  by (simp_all add: score_of_def)

lemma evaluate_completeness_status:
  "cm_status (evaluate_completeness values missing) =
    (if \<exists>name \<in> set structural_gates. value_of values name < 1 then ''uncorrectable''
     else if completeness_threshold \<le> value_of values ''scope_completeness'' * (3 / 4)
         + value_of values ''dependency_resolvability'' * (1 / 4) then ''pass'' else ''correctable'')"
  by (auto simp: evaluate_completeness_def hard_gate_def soft_gate_def completeness_weights_def
      filter_empty_conv Let_def not_less)

text \<open>When the score of the accepted plan passes: the share of resolved findings is compared exactly.\<close>

lemma fix_completeness_pass:
  "cm_status (evaluate_fix_completeness plan findings results) = ''pass'' \<longleftrightarrow>
    candidate_qualified plan \<and> integrity_ok findings \<and>
    (let ds = dependency_results findings results
     in 7564 * length ds \<le> 10000 * length (filter rz_resolved ds))"
proof -
  define ds where "ds = dependency_results findings results"
  have "completeness_threshold \<le> 3 / 4 + resolvability ds * (1 / 4) \<longleftrightarrow>
      7564 * length ds \<le> 10000 * length (filter rz_resolved ds)"
  proof (cases "ds = []")
    case False
    let ?k = "length (filter rz_resolved ds)" and ?n = "length ds"
    have n: "(0 :: rat) < of_nat ?n" using False by simp
    have "completeness_threshold \<le> 3 / 4 + r * (1 / 4) \<longleftrightarrow> 7564 / 10000 \<le> r" for r
      unfolding completeness_threshold_def by auto
    then have "completeness_threshold \<le> 3 / 4 + resolvability ds * (1 / 4) \<longleftrightarrow>
        7564 / 10000 \<le> (of_nat ?k :: rat) / of_nat ?n"
      using False by (simp only: resolvability_def if_False)
    also have "\<dots> \<longleftrightarrow> 7564 * (of_nat ?n :: rat) \<le> 10000 * of_nat ?k"
      using n by (simp add: pos_le_divide_eq field_simps)
    also have "\<dots> \<longleftrightarrow> (of_nat (7564 * ?n) :: rat) \<le> of_nat (10000 * ?k)" by simp
    also have "\<dots> \<longleftrightarrow> 7564 * ?n \<le> 10000 * ?k" by (simp only: of_nat_le_iff)
    finally show ?thesis .
  qed (simp add: completeness_threshold_def resolvability_def)
  then show ?thesis
    by (auto simp: evaluate_fix_completeness_def evaluate_completeness_status value_of_def structural_gates_def
        ds_def Let_def)
qed

section \<open>Authority decisions\<close>

record authority_requirement =
  ar_type :: string
  ar_kind :: string
  ar_description :: string
  ar_options :: "string list"
  ar_always :: bool

definition authority_policy :: "(string, authority_requirement) dict" where
  "authority_policy = [
    (''authority.competing_authority_path'',
      \<lparr>ar_type = ''authority.competing_authority_path'', ar_kind = ''select_authoritative_path'',
       ar_description = ''Select the authoritative path when multiple authority-named modules exist'',
       ar_options = [], ar_always = True\<rparr>),
    (''structure.duplicate_implementation'',
      \<lparr>ar_type = ''structure.duplicate_implementation'', ar_kind = ''select_canonical_implementation'',
       ar_description = ''Select the canonical implementation when repository evidence cannot establish one'',
       ar_options = [], ar_always = False\<rparr>),
    (''security.hardcoded_secret'',
      \<lparr>ar_type = ''security.hardcoded_secret'', ar_kind = ''confirm_credential_disposition'',
       ar_description = ''Code removal is implementation work; credential rotation or revocation remains an explicit external decision'',
       ar_options = [], ar_always = True\<rparr>)]"

definition requirement_for :: "string \<Rightarrow> authority_requirement option" where
  "requirement_for finding_type = map_of authority_policy finding_type"

record authority_decision =
  de_finding :: string
  de_kind :: string
  de_value :: string
  de_source :: json

text \<open>\<open>AuthorityDecision.from_mapping\<close>: \<open>str\<close> of three entries that must be there.\<close>

definition str_entry :: "string \<Rightarrow> jdict \<Rightarrow> string result" where
  "str_entry k d = (case map_of d k of None \<Rightarrow> Inl (KeyError k) | Some v \<Rightarrow> Inr (py_str v))"

definition decision_of :: "jdict \<Rightarrow> authority_decision result" where
  "decision_of d =
    rbind (str_entry ''finding_id'' d) (\<lambda>ident.
    rbind (str_entry ''decision_kind'' d) (\<lambda>kind.
    rbind (str_entry ''selected_value'' d) (\<lambda>value.
      Inr \<lparr>de_finding = ident, de_kind = kind, de_value = value, de_source = dget ''source'' (JStr ''user'') d\<rparr>)))"

record authority_evaluation =
  av_resolved :: "jdict list"
  av_unresolved :: "jdict list"
  av_status :: string

definition resolved_entry :: "fix_finding \<Rightarrow> authority_requirement \<Rightarrow> authority_decision \<Rightarrow> jdict" where
  "resolved_entry f q d = [(''finding_id'', JStr (ff_id f)), (''finding_type'', JStr (ff_type f)),
    (''decision_kind'', JStr (ar_kind q)), (''selected_value'', JStr (de_value d)), (''source'', de_source d)]"

definition evidence_dict :: "fix_finding \<Rightarrow> jdict" where
  "evidence_dict f = (case ff_evidence f of JObj d \<Rightarrow> d | _ \<Rightarrow> [])"

definition unresolved_entry :: "fix_finding \<Rightarrow> authority_requirement \<Rightarrow> jdict" where
  "unresolved_entry f q = [(''finding_id'', JStr (ff_id f)), (''finding_type'', JStr (ff_type f)),
    (''decision_kind'', JStr (ar_kind q)), (''description'', JStr (ar_description q)),
    (''evidence'', JObj (evidence_dict f))]"

text \<open>The decision that counts for a finding: the one filed under its id, when its kind is the required one.\<close>

definition decided :: "(string, authority_decision) dict \<Rightarrow> fix_finding \<Rightarrow> authority_requirement \<Rightarrow> authority_decision option" where
  "decided decisions f q =
    (case map_of decisions (ff_id f) of
       None \<Rightarrow> None | Some d \<Rightarrow> if de_kind d = ar_kind q then Some d else None)"

fun sort_finding :: "(string, authority_decision) dict \<Rightarrow> jdict list \<times> jdict list \<Rightarrow> fix_finding \<Rightarrow> jdict list \<times> jdict list" where
  "sort_finding decisions (resolved, unresolved) f =
    (case requirement_for (ff_type f) of
       None \<Rightarrow> (resolved, unresolved)
     | Some q \<Rightarrow>
         (case decided decisions f q of
            Some d \<Rightarrow> (resolved @ [resolved_entry f q d], unresolved)
          | None \<Rightarrow> (resolved, unresolved @ [unresolved_entry f q])))"

definition evaluate_authority :: "fix_finding list \<Rightarrow> (string, authority_decision) dict \<Rightarrow> authority_evaluation" where
  "evaluate_authority findings decisions =
    (case foldl (sort_finding decisions) ([], []) findings of (resolved, unresolved) \<Rightarrow>
       \<lparr>av_resolved = resolved, av_unresolved = unresolved,
        av_status = (if unresolved \<noteq> [] then ''decision_required'' else ''pass'')\<rparr>)"

definition authority_evaluation_json :: "authority_evaluation \<Rightarrow> json" where
  "authority_evaluation_json e = JObj [(''resolved_requirements'', JList (map JObj (av_resolved e))),
    (''unresolved_requirements'', JList (map JObj (av_unresolved e))), (''status'', JStr (av_status e))]"

text \<open>A finding waits when its type needs a decision that was not given.\<close>

definition waits :: "(string, authority_decision) dict \<Rightarrow> fix_finding \<Rightarrow> bool" where
  "waits decisions f \<longleftrightarrow> (\<exists>q. requirement_for (ff_type f) = Some q \<and> decided decisions f q = None)"

lemma sort_finding_unresolved:
  "snd (foldl (sort_finding decisions) acc findings) = [] \<longleftrightarrow>
    snd acc = [] \<and> (\<forall>f \<in> set findings. \<not> waits decisions f)"
proof (induction findings arbitrary: acc)
  case (Cons f fs)
  then show ?case
    by (cases acc) (auto simp: waits_def split: option.splits)
qed simp

lemma evaluate_authority_pass:
  "av_status (evaluate_authority findings decisions) = ''pass'' \<longleftrightarrow> (\<forall>f \<in> set findings. \<not> waits decisions f)"
  using sort_finding_unresolved [of decisions "([], [])" findings]
  by (auto simp: evaluate_authority_def split: prod.splits)

lemma evaluate_authority_status:
  "av_status (evaluate_authority findings decisions) = ''pass'' \<or>
    av_status (evaluate_authority findings decisions) = ''decision_required''"
  by (simp add: evaluate_authority_def split: prod.splits)

end
