(* ===== verification/Fix_Snapshot.thy ===== *)
theory Fix_Snapshot
  imports Fix_Models
begin

text \<open>
  The files the Fix engine reads and writes: the closure of a finding's file over its local imports
  (\<open>scanning/dependency_closure.py\<close>), the issue-only snapshot (\<open>phases/fix/snapshot.py\<close>) and the hash
  functions of \<open>schemas/shared.py\<close>.

  A file system is a map from absolute paths to bytes.  An absolute path is the list of its parts;
  there are no symbolic links, so \<open>resolve\<close> is the lexical treatment of \<open>..\<close>, and a directory exists
  when a file lies below it.
\<close>

section \<open>Files and paths\<close>

type_synonym tree = "(string list, string) dict"

definition step_into :: "string list \<Rightarrow> string \<Rightarrow> string list" where
  "step_into dir part = (if part = ''..'' then butlast dir else dir @ [part])"

definition resolve_path :: "string list \<Rightarrow> string \<Rightarrow> string list" where
  "resolve_path base rel =
    foldl step_into (if startswith rel ''/'' then [] else base) (path_parts (pure_path rel))"

definition show_path :: "string list \<Rightarrow> string" where
  "show_path p = CHR ''/'' # join ''/'' p"

definition is_file :: "tree \<Rightarrow> string list \<Rightarrow> bool" where
  "is_file t p \<longleftrightarrow> map_of t p \<noteq> None"

definition dir_exists :: "tree \<Rightarrow> string list \<Rightarrow> bool" where
  "dir_exists t p \<longleftrightarrow> list_ex (\<lambda>f. prefix p (fst f)) t"

definition slashes :: "string \<Rightarrow> string" where
  "slashes s = map (\<lambda>c. if c = CHR 0x5C then CHR ''/'' else c) s"

definition inside :: "string list \<Rightarrow> string list \<Rightarrow> bool" where
  "inside base p \<longleftrightarrow> strict_prefix base p"

section \<open>The dependency closure\<close>

text \<open>
  The import statements of a module in the order of \<open>ast.walk\<close>, with level and line.  Parsing is the
  parameter \<open>imports_of\<close>; it gives \<open>None\<close> for a text that does not decode or does not parse.
\<close>

datatype import_node =
    Import "string list" nat
  | Import_from "string option" "string list" nat nat

type_synonym import_parser = "string \<Rightarrow> import_node list option"

fun named_imports :: "import_node \<Rightarrow> (string \<times> nat \<times> nat) list" where
  "named_imports (Import names line) = map (\<lambda>n. (n, 0, line)) names"
| "named_imports (Import_from m names level line) =
    (let module = (case m of None \<Rightarrow> [] | Some s \<Rightarrow> s)
     in (module, level, line) #
        map (\<lambda>n. (if module \<noteq> [] then module @ ''.'' @ n else n, level, line)) names)"

text \<open>\<open>with_suffix(".py")\<close> of a path whose last part has no dot.\<close>

definition module_candidates :: "string list \<Rightarrow> string \<Rightarrow> nat \<Rightarrow> string list list" where
  "module_candidates source module level =
    (let base = (butlast ^^ (level - 1)) (butlast source);
         parts = filter (\<lambda>p. p \<noteq> []) (split_on CHR ''.'' module);
         candidate = base @ parts
     in if parts = [] then [] else [butlast candidate @ [last candidate @ ''.py''], candidate @ [''__init__.py'']])"

definition local_target :: "tree \<Rightarrow> string list \<Rightarrow> string list \<Rightarrow> string \<Rightarrow> nat \<Rightarrow> string list option" where
  "local_target t base source module level =
    find (\<lambda>c. is_file t c \<and> inside base c) (module_candidates source module level)"

definition relative_to :: "string list \<Rightarrow> string list \<Rightarrow> string" where
  "relative_to base p = join ''/'' (drop (length base) p)"

type_synonym evidence = "(string, jdict list) dict"

definition import_evidence :: "fix_finding \<Rightarrow> string \<Rightarrow> string \<Rightarrow> string \<Rightarrow> nat \<Rightarrow> jdict" where
  "import_evidence f relative target module line = [
    (''originating_finding_id'', JStr (ff_id f)),
    (''dependency_source'', JStr relative),
    (''dependency_target'', JStr target),
    (''inclusion_reason'', JStr ''direct local import required to understand or validate affected file''),
    (''resolution_evidence'', JStr (''python import '' @ py_repr_str module @ '' at '' @ relative @ '':'' @ str_of_nat line))]"

definition add_record :: "string \<Rightarrow> jdict \<Rightarrow> evidence \<Rightarrow> evidence" where
  "add_record path r ev = AList.update path ((case map_of ev path of None \<Rightarrow> [] | Some rs \<Rightarrow> rs) @ [r]) ev"

definition follow_import ::
  "tree \<Rightarrow> string list \<Rightarrow> string \<Rightarrow> fix_finding \<Rightarrow> string list \<times> evidence \<Rightarrow> string \<times> nat \<times> nat \<Rightarrow> string list \<times> evidence" where
  "follow_import t base relative f acc imp =
    (case (acc, imp) of ((closure, ev), (module, level, line)) \<Rightarrow>
       (case local_target t base (resolve_path base relative) module level of
          None \<Rightarrow> (closure, ev)
        | Some target \<Rightarrow>
            (let name = relative_to base target
             in if name \<in> set closure then (closure, ev)
                else (closure @ [name], add_record name (import_evidence f relative name module line) ev))))"

text \<open>One issue file.  A missing file, or one outside of the root, raises.\<close>

definition follow_file ::
  "import_parser \<Rightarrow> tree \<Rightarrow> string list \<Rightarrow> string list \<times> evidence \<Rightarrow> string \<times> fix_finding \<Rightarrow> (string list \<times> evidence) result" where
  "follow_file imports_of t base acc entry =
    (case entry of (relative, f) \<Rightarrow>
       (let source = resolve_path base relative
        in if \<not> is_file t source \<or> \<not> inside base source then Inl (FileNotFoundError relative)
           else (case imports_of (the (map_of t source)) of
               None \<Rightarrow> Inr acc
             | Some nodes \<Rightarrow> Inr (foldl (follow_import t base relative f) acc (concat (map named_imports nodes))))))"

fun follow_files ::
  "import_parser \<Rightarrow> tree \<Rightarrow> string list \<Rightarrow> string list \<times> evidence \<Rightarrow> (string \<times> fix_finding) list \<Rightarrow> (string list \<times> evidence) result" where
  "follow_files imports_of t base acc [] = Inr acc"
| "follow_files imports_of t base acc (e # es) =
    rbind (follow_file imports_of t base acc e) (\<lambda>acc. follow_files imports_of t base acc es)"

text \<open>The dictionary keeps one finding for each file: the last one.\<close>

definition issue_files :: "fix_finding list \<Rightarrow> (string, fix_finding) dict" where
  "issue_files findings = key_by (\<lambda>f. slashes (ff_file f)) findings"

definition resolve_dependency_details ::
  "import_parser \<Rightarrow> tree \<Rightarrow> string list \<Rightarrow> fix_finding list \<Rightarrow> (string list \<times> evidence) result" where
  "resolve_dependency_details imports_of t base findings =
    rbind (follow_files imports_of t base (map fst (issue_files findings), []) (sort_key fst (issue_files findings)))
      (\<lambda>(closure, ev). Inr (sorted_set closure, ev))"

text \<open>The wrapper for callers that have files only.\<close>

definition unknown_finding :: "string \<Rightarrow> fix_finding" where
  "unknown_finding path = \<lparr>ff_id = ''unknown'', ff_type = [], ff_file = path, ff_severity = [], ff_evidence = JNull\<rparr>"

definition resolve_dependency_closure ::
  "import_parser \<Rightarrow> tree \<Rightarrow> string list \<Rightarrow> string list \<Rightarrow> fix_finding list option \<Rightarrow> string list result" where
  "resolve_dependency_closure imports_of t base files findings =
    rbind (resolve_dependency_details imports_of t base
        (case findings of None \<Rightarrow> map unknown_finding files | Some fs \<Rightarrow> fs)) (\<lambda>(closure, _). Inr closure)"

section \<open>Hashes of files\<close>

definition hash_bytes :: "string \<Rightarrow> string" where
  "hash_bytes value = sha256_hex value"

definition hash_files :: "tree \<Rightarrow> string list \<Rightarrow> string list \<Rightarrow> (string, string) dict result" where
  "hash_files t base paths =
    rbind (each (\<lambda>p. case map_of t (resolve_path base p) of
        None \<Rightarrow> Inl (FileNotFoundError p) | Some data \<Rightarrow> Inr (p, hash_bytes data)) paths) (\<lambda>kvs. Inr (dict_of kvs))"

definition hash_mapping :: "(string, string) dict \<Rightarrow> string" where
  "hash_mapping values =
    hash_bytes (concat (map (\<lambda>(k, v). k @ [CHR 0x00] @ v @ [CHR 0x0A]) (sort_key fst values)))"

section \<open>The snapshot\<close>

record snapshot =
  sn_root :: string
  sn_files :: "string list"
  sn_closure :: "string list"
  sn_hashes :: "(string, string) dict"
  sn_hash :: string
  sn_storage :: string
  sn_evidence :: evidence

definition canonical_text :: "json \<Rightarrow> string" where
  "canonical_text v = render (copy_value v)"

definition snapshot_manifest :: "snapshot \<Rightarrow> fix_manifest result" where
  "snapshot_manifest s =
    (let m = \<lparr>fm_files = sn_files s, fm_closure = sn_closure s, fm_input_hash = sn_hash s,
        fm_file_hashes = sn_hashes s, fm_evidence = sn_evidence s\<rparr>
     in rbind (manifest_validate m) (\<lambda>_. Inr m))"

definition snapshot_payload :: "string list \<Rightarrow> string list \<Rightarrow> (string, string) dict \<Rightarrow> evidence \<Rightarrow> jdict" where
  "snapshot_payload files closure hashes ev = [
    (''files'', strs files), (''dependency_closure'', strs closure),
    (''file_hashes'', JObj (map (\<lambda>(k, v). (k, JStr v)) hashes)),
    (''dependency_evidence'', JObj (map (\<lambda>(k, rs). (k, JList (map JObj rs))) ev))]"

definition hash_closure_file :: "tree \<Rightarrow> string list \<Rightarrow> string \<Rightarrow> (string \<times> string) result" where
  "hash_closure_file t root relative =
    (let source = resolve_path root relative
     in if \<not> prefix root source then Inl (ValueError (''snapshot_file_unavailable:'' @ relative))
        else (case map_of t source of
            None \<Rightarrow> Inl (ValueError (''snapshot_file_unavailable:'' @ relative))
          | Some data \<Rightarrow> Inr (relative, sha256_hex data)))"

text \<open>\<open>shutil.copyfile\<close>: the same file twice is an error.\<close>

definition copy_file :: "string list \<Rightarrow> string list \<Rightarrow> tree \<Rightarrow> tree result" where
  "copy_file source destination t =
    (case map_of t source of
       None \<Rightarrow> Inl (FileNotFoundError (show_path source))
     | Some data \<Rightarrow> if source = destination then Inl (SameFileError (show_path source))
         else Inr (AList.update destination data t))"

fun copy_all :: "string list \<Rightarrow> string list \<Rightarrow> string list \<Rightarrow> tree \<Rightarrow> (py_error option) \<times> tree" where
  "copy_all root storage [] t = (None, t)"
| "copy_all root storage (r # rs) t =
    (case copy_file (resolve_path root r) (resolve_path storage r) t of
       Inl e \<Rightarrow> (Some e, t)
     | Inr t1 \<Rightarrow> copy_all root storage rs t1)"

definition remove_tree :: "string list \<Rightarrow> tree \<Rightarrow> tree" where
  "remove_tree dir t = filter (\<lambda>f. \<not> prefix dir (fst f)) t"

definition create_scoped_snapshot ::
  "string list \<Rightarrow> fix_finding list \<Rightarrow> string list \<Rightarrow> string list \<Rightarrow> evidence \<Rightarrow> tree \<Rightarrow> snapshot result \<times> tree" where
  "create_scoped_snapshot root findings dependency_closure output dependency_evidence t =
    (let issues = sorted_set (map (\<lambda>f. slashes (ff_file f)) findings);
         closure = sorted_set (map slashes dependency_closure);
         ev = sort_key fst dependency_evidence
     in if issues = [] then (Inl (ValueError ''issue_snapshot_requires_findings''), t)
        else if \<not> set issues \<subseteq> set closure then (Inl (ValueError ''issue_files_must_be_in_dependency_closure''), t)
        else (case each (hash_closure_file t root) closure of
            Inl e \<Rightarrow> (Inl e, t)
          | Inr hashes \<Rightarrow>
              (let payload = snapshot_payload issues closure hashes ev;
                   snapshot_hash = sha256_hex (canonical_text (JObj payload));
                   storage = output @ [snapshot_hash]
               in if dir_exists t storage then (Inl (FileExistsError (show_path storage)), t)
                  else (case copy_all root storage closure t of
                      (Some e, t1) \<Rightarrow> (Inl e, remove_tree storage t1)
                    | (None, t1) \<Rightarrow>
                        (Inr \<lparr>sn_root = show_path root, sn_files = issues, sn_closure = closure, sn_hashes = hashes,
                            sn_hash = snapshot_hash, sn_storage = show_path storage, sn_evidence = ev\<rparr>,
                         AList.update (storage @ [''snapshot-manifest.json''])
                           (canonical_text (JObj (payload @ [(''snapshot_hash'', JStr snapshot_hash)])) @ [CHR 0x0A]) t1)))))"

section \<open>Digests are SHA-256 values\<close>

lemma hex_digit_ok: "n < 16 \<Longrightarrow> hex_digit n \<in> set ''0123456789abcdef'' \<and> \<not> (128 \<le> (of_char (hex_digit n) :: nat))"
proof -
  assume "n < 16"
  moreover have "\<forall>n \<in> set [0..<16]. hex_digit n \<in> set ''0123456789abcdef'' \<and> \<not> (128 \<le> (of_char (hex_digit n) :: nat))"
    by code_simp
  ultimately show ?thesis by simp
qed

lemma sha256_hex_digits: "c \<in> set (sha256_hex s) \<Longrightarrow> \<exists>n < 16. c = hex_digit n"
proof -
  assume "c \<in> set (sha256_hex s)"
  then have "c \<in> (\<Union>w \<in> set (sha256_words s). set (hex_word w))" by (simp add: sha256_hex_def)
  then obtain w where "c \<in> set (hex_word w)" by blast
  then obtain i :: nat where "c = hex_digit (unat w div 16 ^ i mod 16)"
    unfolding hex_word_def set_map by (elim imageE) blast
  then show ?thesis by (intro exI [of _ "unat w div 16 ^ i mod 16"]) simp
qed

lemma hex64_sha256 [simp]: "hex64 (sha256_hex s)"
proof -
  have digits: "c \<in> set ''0123456789abcdef'' \<and> \<not> (128 \<le> (of_char c :: nat))" if "c \<in> set (sha256_hex s)" for c
    using sha256_hex_digits [OF that] hex_digit_ok by blast
  then have "filter (\<lambda>c. \<not> (128 \<le> (of_char c :: nat) \<and> (of_char c :: nat) < 192)) (sha256_hex s) = sha256_hex s"
    by (simp only: filter_id_conv) blast
  then have "py_len (sha256_hex s) = 64" by (simp only: py_len_def length_sha256_hex)
  with digits show ?thesis by (simp only: hex64_def list_all_iff) blast
qed

lemma sha256_hex_not_Nil [simp]: "sha256_hex s \<noteq> []"
  using length_sha256_hex [of s] by auto

section \<open>What the closure holds\<close>

text \<open>A path of the closure beyond the issue files has one record, of an import that leads to a file below the base.\<close>

definition record_justified :: "tree \<Rightarrow> string list \<Rightarrow> fix_finding list \<Rightarrow> string \<times> jdict list \<Rightarrow> bool" where
  "record_justified t base findings e \<longleftrightarrow>
    (\<exists>f \<in> set findings. \<exists>source module line target.
       snd e = [import_evidence f source (fst e) module line] \<and> source \<noteq> [] \<and> fst e \<noteq> [] \<and>
       fst e = relative_to base target \<and> inside base target \<and> is_file t target)"

definition closure_inv :: "tree \<Rightarrow> string list \<Rightarrow> fix_finding list \<Rightarrow> string set \<Rightarrow> string list \<times> evidence \<Rightarrow> bool" where
  "closure_inv t base findings issues acc \<longleftrightarrow>
    set (fst acc) = issues \<union> fst ` set (snd acc) \<and> issues \<inter> fst ` set (snd acc) = {} \<and>
    distinct (map fst (snd acc)) \<and> (\<forall>e \<in> set (snd acc). record_justified t base findings e)"

lemma join_last: "xs \<noteq> [] \<Longrightarrow> last xs \<noteq> [] \<Longrightarrow> join sep xs \<noteq> []"
  by (induction sep xs rule: join.induct) auto

lemma last_candidate: "c \<in> set (module_candidates source module level) \<Longrightarrow> c \<noteq> [] \<and> last c \<noteq> []"
  by (auto simp: module_candidates_def Let_def split: if_splits)

lemma local_target_Some:
  assumes "local_target t base source module level = Some target"
  shows "is_file t target" and "inside base target" and "relative_to base target \<noteq> []"
proof -
  from assms have c: "target \<in> set (module_candidates source module level)" and f: "is_file t target \<and> inside base target"
    by (auto simp: local_target_def find_Some_iff)
  then show "is_file t target" "inside base target" by auto
  from f have "drop (length base) target \<noteq> []" by (auto simp: inside_def strict_prefix_def prefix_def)
  moreover from this last_candidate [OF c] have "last (drop (length base) target) \<noteq> []" by (simp add: last_drop)
  ultimately show "relative_to base target \<noteq> []" unfolding relative_to_def by (rule join_last)
qed

lemma closure_inv_add:
  assumes "closure_inv t base findings issues (closure, ev)" and "name \<notin> set closure"
    and "record_justified t base findings (name, [r])"
  shows "closure_inv t base findings issues (closure @ [name], add_record name r ev)"
proof -
  from assms(1,2) have new: "name \<notin> fst ` set ev" "name \<notin> issues" by (auto simp: closure_inv_def)
  then have "add_record name r ev = ev @ [(name, [r])]"
    using map_of_eq_None_iff [of ev name] by (simp add: add_record_def update_notin_append)
  with assms new show ?thesis by (auto simp: closure_inv_def)
qed

lemma follow_import_inv:
  assumes "closure_inv t base findings issues acc" and "f \<in> set findings" and "relative \<noteq> []"
  shows "closure_inv t base findings issues (follow_import t base relative f acc imp)"
proof -
  obtain closure ev module level line where acc: "acc = (closure, ev)" and imp: "imp = (module, level, line)"
    by (cases acc; cases imp) auto
  show ?thesis
  proof (cases "local_target t base (resolve_path base relative) module level")
    case (Some target)
    let ?name = "relative_to base target"
    have "record_justified t base findings (?name, [import_evidence f relative ?name module line])"
      using local_target_Some [OF Some] assms(2,3) unfolding record_justified_def by fastforce
    then show ?thesis
      using assms(1) Some closure_inv_add by (simp add: follow_import_def acc imp Let_def)
  qed (use assms(1) in \<open>simp add: follow_import_def acc imp\<close>)
qed

lemma follow_file_inv:
  assumes inv: "closure_inv t base findings issues acc" and "f \<in> set findings"
    and r: "follow_file imports_of t base acc (relative, f) = Inr acc1"
  shows "closure_inv t base findings issues acc1"
proof -
  have "relative \<noteq> []"
  proof
    assume "relative = []"
    then have "resolve_path base relative = base"
      by (simp add: resolve_path_def startswith_def pure_path_def)
    with r show False by (simp add: follow_file_def inside_def)
  qed
  have step: "closure_inv t base findings issues acc \<Longrightarrow>
      closure_inv t base findings issues (foldl (follow_import t base relative f) acc imps)" for imps acc
    by (induction imps arbitrary: acc) (simp_all add: follow_import_inv \<open>f \<in> set findings\<close> \<open>relative \<noteq> []\<close>)
  with r inv show ?thesis by (auto simp: follow_file_def Let_def simp del: foldl_conv_fold split: if_splits option.splits intro!: step)
qed

lemma follow_files_inv:
  "closure_inv t base findings issues acc \<Longrightarrow> snd ` set es \<subseteq> set findings \<Longrightarrow>
    follow_files imports_of t base acc es = Inr acc1 \<Longrightarrow> closure_inv t base findings issues acc1"
proof (induction es arbitrary: acc)
  case (Cons e es)
  then obtain acc2 where "follow_file imports_of t base acc (fst e, snd e) = Inr acc2"
      and rest: "follow_files imports_of t base acc2 es = Inr acc1"
    by (auto simp: rbind_eq_Inr)
  have "snd e \<in> set findings" using Cons.prems(2) by simp
  with Cons.prems(1) \<open>follow_file imports_of t base acc (fst e, snd e) = Inr acc2\<close>
  have "closure_inv t base findings issues acc2" by (blast intro: follow_file_inv)
  with Cons.IH rest Cons.prems show ?case by simp
qed simp

lemma keys_issue_files: "fst ` set (issue_files findings) = (\<lambda>f. slashes (ff_file f)) ` set findings"
  by (simp add: issue_files_def key_by_keys)

lemma snd_issue_files: "snd ` set (issue_files findings) \<subseteq> set findings"
proof -
  have "(k, v) \<in> set kvs" if "(k, v) \<in> set (dict_of kvs)" for k v and kvs :: "(string \<times> fix_finding) list"
  proof -
    from that have "map_of (dict_of kvs) k = Some v" by (simp add: distinct_dict_of)
    then have "map_of (rev kvs) k = Some v" by (simp add: map_of_dict_of)
    then show ?thesis by (auto dest: map_of_SomeD)
  qed
  then show ?thesis unfolding issue_files_def key_by_def by fastforce
qed

lemma resolve_details_inv:
  assumes "resolve_dependency_details imports_of t base findings = Inr (items, ev)"
  shows "closure_inv t base findings ((\<lambda>f. slashes (ff_file f)) ` set findings) (items, ev)"
proof -
  from assms obtain closure
    where f: "follow_files imports_of t base (map fst (issue_files findings), []) (sort_key fst (issue_files findings)) = Inr (closure, ev)"
      and items: "items = sorted_set closure"
    by (auto simp: resolve_dependency_details_def rbind_eq_Inr)
  have "closure_inv t base findings (fst ` set (issue_files findings)) (map fst (issue_files findings), [])"
    by (simp add: closure_inv_def)
  from follow_files_inv [OF this _ f] snd_issue_files
  have "closure_inv t base findings (fst ` set (issue_files findings)) (closure, ev)" by simp
  then show ?thesis by (simp add: closure_inv_def items keys_issue_files)
qed

lemma justified_record_ok:
  assumes "record_justified t base findings e" and "\<forall>f \<in> set findings. ff_id f \<noteq> []" and "r \<in> set (snd e)"
  shows "evidence_record_ok r"
proof -
  from assms obtain f source module line where "f \<in> set findings" "source \<noteq> []" "fst e \<noteq> []"
      and r: "r = import_evidence f source (fst e) module line"
    by (auto simp: record_justified_def)
  with assms(2) show ?thesis
    unfolding r evidence_record_ok_def import_evidence_def by (simp add: evidence_keys_def)
qed

section \<open>The manifest of a snapshot\<close>

lemma hash_closure_file_Inr:
  "hash_closure_file t root r = Inr e \<longleftrightarrow>
    prefix root (resolve_path root r) \<and> (\<exists>data. map_of t (resolve_path root r) = Some data \<and> e = (r, sha256_hex data))"
  by (auto simp: hash_closure_file_def Let_def split: option.split)

lemma each_hashes:
  "each (hash_closure_file t root) rs = Inr hs \<Longrightarrow> map fst hs = rs \<and> (\<forall>h \<in> set hs. hex64 (snd h))"
proof (induction rs arbitrary: hs)
  case (Cons r rs)
  then obtain h rest where h: "hash_closure_file t root r = Inr h" and "each (hash_closure_file t root) rs = Inr rest"
      and hs: "hs = h # rest"
    by (auto simp: rbind_eq_Inr)
  with Cons.IH [of rest] show ?case by (auto simp: hash_closure_file_Inr)
qed simp

lemma create_snapshot_Inr:
  assumes "create_scoped_snapshot root findings items output ev t = (Inr s, t1)"
  obtains hashes where "each (hash_closure_file t root) (sn_closure s) = Inr hashes"
    and "sn_files s = sorted_set (map (\<lambda>f. slashes (ff_file f)) findings)" and "sn_closure s = sorted_set (map slashes items)"
    and "sn_hashes s = hashes" and "sn_evidence s = sort_key fst ev" and "set (sn_files s) \<subseteq> set (sn_closure s)"
    and "sn_files s \<noteq> []"
    and "sn_hash s = sha256_hex (canonical_text (JObj (snapshot_payload (sn_files s) (sn_closure s) (sn_hashes s) (sn_evidence s))))"
  using assms
  by (auto simp: create_scoped_snapshot_def Let_def split: if_splits sum.splits prod.splits option.splits)

lemma snapshot_manifest_valid:
  assumes details: "resolve_dependency_details imports_of t base findings = Inr (items, ev)"
    and ids: "\<forall>f \<in> set findings. ff_id f \<noteq> []" and plain: "map slashes items = items"
    and created: "create_scoped_snapshot base findings items output ev t = (Inr s, t1)"
  shows "\<exists>m. snapshot_manifest s = Inr m \<and> manifest_ok m \<and> fm_file_hashes m \<noteq> [] \<and> fm_files m = sn_files s \<and>
    fm_closure m = items \<and> fm_input_hash m = sn_hash s"
proof -
  from created obtain hashes where h: "each (hash_closure_file t base) (sn_closure s) = Inr hashes"
      and files: "sn_files s = sorted_set (map (\<lambda>f. slashes (ff_file f)) findings)"
      and closure: "sn_closure s = sorted_set items" and sh: "sn_hashes s = hashes"
      and se: "sn_evidence s = sort_key fst ev" and sub: "set (sn_files s) \<subseteq> set (sn_closure s)" "sn_files s \<noteq> []"
      and hash: "sn_hash s \<noteq> []"
    using plain by (elim create_snapshot_Inr) auto
  have inv: "closure_inv t base findings ((\<lambda>f. slashes (ff_file f)) ` set findings) (items, ev)"
    using details by (rule resolve_details_inv)
  have items: "sorted_set items = items"
    using details
    by (auto simp: resolve_dependency_details_def rbind_eq_Inr sorted_set_def distinct_remdups_id sorted_sort_id)
  let ?m = "\<lparr>fm_files = sn_files s, fm_closure = sn_closure s, fm_input_hash = sn_hash s,
    fm_file_hashes = sn_hashes s, fm_evidence = sn_evidence s\<rparr>"
  have keys: "fst ` set hashes = set (sn_closure s)" and digests: "\<forall>d \<in> snd ` set hashes. hex64 d"
    using each_hashes [OF h] by (metis list.set_map, auto)
  have "fst ` set ev \<subseteq> set (sn_closure s)" using inv by (auto simp: closure_inv_def closure)
  moreover have "\<forall>rs \<in> snd ` set ev. \<forall>r \<in> set rs. evidence_record_ok r"
    using inv ids justified_record_ok by (fastforce simp: closure_inv_def)
  ultimately have "manifest_ok ?m"
    using keys digests sub hash by (simp add: manifest_ok_def files distinct_sorted_set sh se)
  moreover have "hashes \<noteq> []" using keys sub by auto
  ultimately show ?thesis
    using items by (intro exI [of _ ?m]) (simp add: snapshot_manifest_def Let_def rbind_eq_Inr manifest_validate_Inr closure sh)
qed

end
