(* ===== verification/Fix_Controller.thy ===== *)
theory Fix_Controller
  imports Fix_Policies Fix_Snapshot Json_Parse
begin

text \<open>
  The phases of a Fix (\<open>phases/fix/phases.py\<close>), the advisory adapter \<open>AFlowFixAdapter\<close> of
  \<open>adapters/aflow_fix.py\<close> and the controller that releases or withholds the result
  (\<open>controllers/fix_controller.py\<close>).  The agent is a function on an environment \<open>'w\<close>.
\<close>

section \<open>Manifest and statements\<close>

definition make_scoped_manifest :: "fix_finding list \<Rightarrow> string list \<Rightarrow> string \<Rightarrow> fix_manifest result" where
  "make_scoped_manifest findings closure input_hash =
    (let m = \<lparr>fm_files = sorted_set (map ff_file findings), fm_closure = sorted_set closure,
        fm_input_hash = input_hash, fm_file_hashes = [], fm_evidence = []\<rparr>
     in rbind (manifest_validate m) (\<lambda>_. Inr m))"

definition statement_contents :: "fix_finding list \<Rightarrow> jdict list" where
  "statement_contents findings = [
    [(''findings'', JList (map fix_finding_json findings))],
    [(''handoff'', JStr ''repair only the identified findings'')],
    [(''requirements'', JStr ''preserve scope and validate every finding'')]]"

definition make_statements :: "fix_finding list \<Rightarrow> fix_manifest \<Rightarrow> fix_statement list" where
  "make_statements findings m =
    (let findings_hash = sha256_hex (json_dumps (copy_value (JList (map fix_finding_json findings))));
         manifest_hash = sha256_hex (json_dumps (copy_value (fix_manifest_json m)))
     in map (\<lambda>(kind, content). \<lparr>ft_type = kind, ft_content = content, ft_findings_hash = findings_hash,
            ft_manifest_hash = manifest_hash\<rparr>)
          (zip [''dossier'', ''handoff'', ''llm''] (statement_contents findings)))"

section \<open>Qualification of a plan\<close>

definition fallback_criterion :: "fix_step \<Rightarrow> fix_step" where
  "fallback_criterion s =
    (if fp_criterion s = JNull then s\<lparr>fp_criterion := JStr (''resolves '' @ fp_finding s)\<rparr> else s)"

definition fallback_issue :: "fix_step \<Rightarrow> minor_issue list" where
  "fallback_issue s = emit (fp_criterion s = JNull)
    \<lparr>mi_type = ''missing_acceptance_criterion'', mi_step = fp_id s,
     mi_detail = ''fallback: resolves '' @ fp_finding s\<rparr>"

definition qualified_plan :: "fix_plan \<Rightarrow> fix_manifest \<Rightarrow> fix_plan" where
  "qualified_plan p m =
    \<lparr>xp_steps = map fallback_criterion (xp_steps p),
     xp_targets = sorted_set (map fp_target (xp_steps p)),
     xp_qualified = (xp_steps p \<noteq> [] \<and> list_all (\<lambda>s. fp_target s \<in> set (fm_files m)) (xp_steps p)),
     xp_minor = xp_minor p @ for_each (xp_steps p) fallback_issue\<rparr>"

definition qualify_plan :: "fix_plan \<Rightarrow> fix_manifest \<Rightarrow> fix_plan result" where
  "qualify_plan p m = rbind (plan_validate (qualified_plan p m) m) (\<lambda>_. Inr (qualified_plan p m))"

lemma fallback_simps [simp]:
  "fp_target (fallback_criterion s) = fp_target s" "fp_finding (fallback_criterion s) = fp_finding s"
  "fp_id (fallback_criterion s) = fp_id s" "fp_action (fallback_criterion s) = fp_action s"
  by (simp_all add: fallback_criterion_def)

lemma qualified_plan_fields [simp]:
  "xp_steps (qualified_plan p m) = map fallback_criterion (xp_steps p)"
  "xp_targets (qualified_plan p m) = sorted_set (map fp_target (xp_steps p))"
  "xp_minor (qualified_plan p m) = xp_minor p @ for_each (xp_steps p) fallback_issue"
  by (simp_all add: qualified_plan_def)

lemma qualified_plan_ok:
  "plan_ok (qualified_plan p m) m \<longleftrightarrow>
    xp_steps p \<noteq> [] \<and> (\<forall>s \<in> set (xp_steps p). fp_target s \<in> set (fm_files m) \<and> fp_finding s \<noteq> [])"
  by (auto simp: plan_ok_def qualified_plan_def list_all_iff image_image)

lemma qualify_plan_Inr [result_simps]:
  "qualify_plan p m = Inr q \<longleftrightarrow>
    xp_steps p \<noteq> [] \<and> (\<forall>s \<in> set (xp_steps p). fp_target s \<in> set (fm_files m) \<and> fp_finding s \<noteq> []) \<and>
    q = qualified_plan p m"
  by (auto simp: qualify_plan_def rbind_eq_Inr plan_validate_Inr qualified_plan_ok)

section \<open>The advisory adapter\<close>

text \<open>
  What the agent may answer: no dictionary at all, or one whose plan entry is absent, a plan, or
  something else.
\<close>

datatype answered_plan = Absent | Answered fix_plan | Not_a_plan

record agent_answer =
  ag_status :: json
  ag_plan :: answered_plan
  ag_gaps :: json

type_synonym 'w fix_agent =
  "fix_plan \<Rightarrow> fix_finding list \<Rightarrow> fix_manifest \<Rightarrow> 'w \<Rightarrow> agent_answer option result \<times> 'w"

record 'w fix_adapter =
  fa_invocations :: nat
  fa_env :: 'w

definition read_answer :: "fix_plan \<Rightarrow> agent_answer option \<Rightarrow> evaluated_plan result" where
  "read_answer plan response =
    (case response of
       None \<Rightarrow> Inl (ValueError ''malformed A-Flow Fix output'')
     | Some a \<Rightarrow>
         (case ag_status a of
            JStr status \<Rightarrow>
              rbind (require (status \<in> {''accepted'', ''rejected''}) (ValueError ''malformed A-Flow Fix output'')) (\<lambda>_.
              rbind (case ag_plan a of Absent \<Rightarrow> Inr plan | Answered p \<Rightarrow> Inr p
                  | Not_a_plan \<Rightarrow> Inl (TypeError ''agent must return a validated ImplementationPlan'')) (\<lambda>corrected.
              rbind (int_of (ag_gaps a)) (\<lambda>gaps.
                Inr \<lparr>ep_plan = corrected, ep_gaps = gaps, ep_status = status\<rparr>)))
          | _ \<Rightarrow> Inl (ValueError ''malformed A-Flow Fix output'')))"

definition adapter_ignite ::
  "'w fix_agent \<Rightarrow> fix_plan \<Rightarrow> fix_finding list \<Rightarrow> fix_manifest \<Rightarrow> 'w fix_adapter \<Rightarrow> evaluated_plan result \<times> 'w fix_adapter" where
  "adapter_ignite agent plan findings m a =
    (if max_aflow_invocations \<le> fa_invocations a
     then (Inl (RuntimeError ''MAX_AFLOW_INVOCATIONS_PER_OPERATION exceeded''), a)
     else (case agent plan findings m (fa_env a) of (r, w) \<Rightarrow>
       (rbind r (read_answer plan), \<lparr>fa_invocations = Suc (fa_invocations a), fa_env = w\<rparr>)))"

definition validate_outputs :: "aflow_outputs \<Rightarrow> fix_finding list \<Rightarrow> unit result" where
  "validate_outputs outputs findings = run_all [
     require (covers (ao_success outputs) findings) (ValueError ''success definition does not cover every finding''),
     require (list_all (\<lambda>c. ck_check c \<noteq> [] \<and> ck_expected c \<noteq> []) (su_checks (ao_success outputs)))
       (ValueError ''finding checks must be concrete'')]"

definition check_evaluation :: "evaluated_plan \<Rightarrow> unit result" where
  "check_evaluation e = run_all [
     require (ep_gaps e \<le> aflow_gap_correction_attempts) (ValueError ''A-Flow gap correction limit exceeded''),
     require (ep_status e = ''accepted'') (ValueError ''A-Flow rejected Fix plan'')]"

definition evaluate_aflow ::
  "'w fix_agent \<Rightarrow> fix_plan \<Rightarrow> fix_finding list \<Rightarrow> fix_manifest \<Rightarrow> 'w fix_adapter \<Rightarrow> evaluated_plan result \<times> 'w fix_adapter" where
  "evaluate_aflow agent plan findings m a =
    (case adapter_ignite agent plan findings m a of (r, a1) \<Rightarrow>
       (rbind r (\<lambda>e. rbind (check_evaluation e) (\<lambda>_. Inr e)), a1))"

section \<open>Scoring before the simulation\<close>

definition signal :: "string \<Rightarrow> int \<Rightarrow> fix_finding \<Rightarrow> jdict" where
  "signal kind code f = [(''type'', JStr kind), (''code'', JInt code), (''finding_id'', JStr (ff_id f)), (''file'', JStr (ff_file f))]"

definition dependency_signal :: "fix_finding \<Rightarrow> jdict list" where
  "dependency_signal f =
    (if ff_type f \<in> {''dependency.conflicting_constraints'', ''dependency.version_mismatch''}
     then [signal ''version_mismatch'' (- 10) f]
     else if ff_type f \<in> {''dependency.duplicate_declaration'', ''dependency.duplicate_or_overlap''}
     then [signal ''duplicate_or_overlap'' (- 10) f]
     else if ff_type f = ''dependency.upgrade_available'' then [signal ''upgrade_available'' (- 7) f]
     else [])"

definition same_references :: "fix_statement list \<Rightarrow> bool" where
  "same_references statements \<longleftrightarrow> length (remdups (map (\<lambda>s. (ft_findings_hash s, ft_manifest_hash s)) statements)) = 1"

definition no_unresolved :: "fix_finding list \<Rightarrow> bool" where
  "no_unresolved findings \<longleftrightarrow> \<not> list_ex (\<lambda>f. ff_type f = unresolved_type) findings"

definition presim_values :: "fix_statement list \<Rightarrow> fix_plan \<Rightarrow> fix_finding list \<Rightarrow> (string, rat) dict" where
  "presim_values statements plan findings = [
      (''scope_completeness'', 1),
      (''dependency_resolvability'', score_of (no_unresolved findings)),
      (''plan_completeness'', score_of (xp_qualified plan)),
      (''aflow_output_completeness'', 1),
      (''statement_consistency'', score_of (same_references statements)),
      (''dependency_integrity'', score_of (integrity_ok findings))]"

definition flagged :: "jdict list \<Rightarrow> completeness \<Rightarrow> completeness" where
  "flagged signals c = c\<lparr>cm_resolvability := (cm_resolvability c)\<lparr>gt_flagged := Some signals\<rparr>,
     cm_integrity := (cm_integrity c)\<lparr>gt_flagged := Some signals\<rparr>\<rparr>"

definition pre_simulation :: "fix_statement list \<Rightarrow> fix_plan \<Rightarrow> fix_finding list \<Rightarrow> completeness" where
  "pre_simulation statements plan findings =
    (let values = presim_values statements plan findings;
         first = flagged (for_each findings dependency_signal) (evaluate_completeness values [])
     in if cm_status first = ''correctable''
        then ((\<lambda>c. evaluate_completeness values (cm_missing c)) ^^ presim_rescore_attempts) first
        else first)"

lemma flagged_fields [simp]:
  "cm_status (flagged s c) = cm_status c" "cm_score (flagged s c) = cm_score c" "cm_missing (flagged s c) = cm_missing c"
  by (simp_all add: flagged_def)

lemma pre_simulation_status:
  "cm_status (pre_simulation statements plan findings) =
    cm_status (evaluate_completeness (presim_values statements plan findings) [])"
  by (simp add: pre_simulation_def presim_rescore_attempts_def Let_def evaluate_completeness_status)

lemma pre_simulation_pass:
  "cm_status (pre_simulation statements plan findings) = ''pass'' \<longleftrightarrow>
    xp_qualified plan \<and> same_references statements \<and> integrity_ok findings \<and> no_unresolved findings"
  by (auto simp: pre_simulation_status evaluate_completeness_status presim_values_def value_of_def
      structural_gates_def completeness_threshold_def score_of_def)

lemma make_statements_agree [simp]: "same_references (make_statements findings m)"
  by (simp add: same_references_def make_statements_def statement_contents_def Let_def)

section \<open>Inspection of the output\<close>

definition hash_equation :: string where
  "hash_equation = ''hash(output) == hash(scoped_input '' @ [CHR 0xE2, CHR 0x88, CHR 0xAA] @ '' approved_changes)''"

definition expected_hashes :: "(string, string) dict \<Rightarrow> (string, string) dict \<Rightarrow> (string, string) dict" where
  "expected_hashes input changes = foldl (\<lambda>d kv. AList.update (fst kv) (snd kv) d) input changes"

definition entry_passed :: "jdict \<Rightarrow> bool" where
  "entry_passed e \<longleftrightarrow> map_of e ''passed'' = Some (JBool True)"

definition all_passed :: "(string, jdict list) dict \<Rightarrow> bool" where
  "all_passed results \<longleftrightarrow> list_all (\<lambda>kv. list_all entry_passed (snd kv)) results"

text \<open>Two dictionaries are equal when they map every key alike.\<close>

definition same_dict :: "(string, string) dict \<Rightarrow> (string, string) dict \<Rightarrow> bool" where
  "same_dict a b \<longleftrightarrow>
    list_all (\<lambda>kv. map_of b (fst kv) = map_of a (fst kv)) a \<and> list_all (\<lambda>kv. map_of a (fst kv) = map_of b (fst kv)) b"

definition verify_fix_output ::
  "(string, string) dict \<Rightarrow> (string, string) dict \<Rightarrow> (string, string) dict \<Rightarrow> (string, jdict list) dict \<Rightarrow> bool \<Rightarrow> inspection" where
  "verify_fix_output input output changes results intact =
    (let satisfied = same_dict output (expected_hashes input changes);
         verified = (satisfied \<and> intact \<and> all_passed results)
     in \<lparr>ia_verified = verified,
         ia_proof = [(''equation'', JStr hash_equation), (''satisfied'', JBool satisfied)],
         ia_intact = intact, ia_results = results,
         ia_reason = (if verified then None
           else Some (if \<not> satisfied then ''hash proof failed''
             else if \<not> intact then ''unaffected file changed'' else ''success validation failed''))\<rparr>)"

lemma same_dict_lookup:
  assumes "same_dict a b" and "map_of a k = Some v"
  shows "map_of b k = Some v"
proof -
  from assms(2) have "(k, v) \<in> set a" by (rule map_of_SomeD)
  with assms(1) have "map_of b k = map_of a k" by (fastforce simp: same_dict_def list_all_iff)
  with assms(2) show ?thesis by simp
qed

lemma same_dict_sym: "same_dict a b \<Longrightarrow> same_dict b a"
  by (auto simp: same_dict_def)

lemma same_dict_iff: "same_dict a b \<longleftrightarrow> map_of a = map_of b"
proof
  assume same: "same_dict a b"
  have "map_of a k = Some v \<longleftrightarrow> map_of b k = Some v" for k v
    using same_dict_lookup [OF same] same_dict_lookup [OF same_dict_sym [OF same]] by blast
  then show "map_of a = map_of b" by (metis ext not_None_eq)
qed (simp add: same_dict_def list_all_iff)

lemma map_of_expected_hashes:
  "map_of (expected_hashes input changes) k =
    (case map_of (rev changes) k of None \<Rightarrow> map_of input k | Some v \<Rightarrow> Some v)"
  by (simp add: expected_hashes_def foldl_update_map_of)

section \<open>The controller\<close>

definition withheld :: "string \<Rightarrow> fix_finding list \<Rightarrow> string \<Rightarrow> quality_notes \<Rightarrow> final_result" where
  "withheld mode findings reason notes =
    \<lparr>fz_released = False, fz_mode = mode, fz_resolved = [], fz_unresolved = map ff_id findings,
     fz_reason = reason, fz_notes = notes\<rparr>"

definition advisory :: "string option \<Rightarrow> bool option \<Rightarrow> minor_issue list option \<Rightarrow> quality_notes" where
  "advisory reason perfect minor =
    \<lparr>qn_reason = reason, qn_perfect = perfect, qn_minor = minor, qn_disclaimer = ''advisory only''\<rparr>"

definition new_fix_controller :: "string \<Rightarrow> string result" where
  "new_fix_controller mode =
    (if mode = ''automatic'' \<or> mode = ''manual'' then Inr mode else Inl (ValueError ''mode must be automatic or manual''))"

definition conclude ::
  "string \<Rightarrow> fix_finding list \<Rightarrow> fix_plan \<Rightarrow> completeness \<Rightarrow> bool \<Rightarrow> string option \<Rightarrow> final_result" where
  "conclude mode findings qualified completeness verified user_decision =
    (let notes = advisory None (Some False) (Some (xp_minor qualified))
     in if cm_status completeness \<noteq> ''pass'' then withheld mode findings ''information_gap'' notes
        else if \<not> verified then withheld mode findings ''verification_failure'' notes
        else if mode = ''manual'' \<and> user_decision \<noteq> Some ''apply'' then withheld mode findings ''user_skip'' notes
        else \<lparr>fz_released = True, fz_mode = mode, fz_resolved = map ff_id findings, fz_unresolved = [],
          fz_reason = ''none'',
          fz_notes = advisory None (Some (xp_minor qualified = [])) (Some (xp_minor qualified))\<rparr>)"

definition run_fix ::
  "string \<Rightarrow> 'w fix_agent \<Rightarrow> fix_finding list \<Rightarrow> fix_manifest \<Rightarrow> fix_plan \<Rightarrow> fix_statement list \<Rightarrow> aflow_outputs \<Rightarrow> inspection \<Rightarrow>
    string option \<Rightarrow> 'w fix_adapter \<Rightarrow> final_result result \<times> 'w fix_adapter" where
  "run_fix mode agent findings m plan statements outputs inspection user_decision a =
    (if fm_file_hashes m = []
     then (Inr (withheld mode findings ''information_gap'' (advisory (Some ''scoped_snapshot_required'') None None)), a)
     else (case qualify_plan plan m of
         Inl e \<Rightarrow> (Inl e, a)
       | Inr qualified \<Rightarrow>
           (case evaluate_aflow agent qualified findings m a of (r, a1) \<Rightarrow>
              (rbind r (\<lambda>e.
               rbind (validate_outputs outputs findings) (\<lambda>_.
                 Inr (conclude mode findings qualified (pre_simulation statements (ep_plan e) findings)
                   (ia_verified inspection) user_decision))), a1))))"

definition prepare_from_scan ::
  "string list \<Rightarrow> fix_finding list \<Rightarrow> string list \<Rightarrow> string list \<Rightarrow> tree \<Rightarrow>
    (snapshot \<times> fix_manifest \<times> fix_statement list) result \<times> tree" where
  "prepare_from_scan base findings dependency_items snapshot_root t =
    (case create_scoped_snapshot base findings dependency_items snapshot_root [] t of (r, t1) \<Rightarrow>
       (rbind r (\<lambda>s. rbind (snapshot_manifest s) (\<lambda>m. Inr (s, m, make_statements findings m))), t1))"

text \<open>\<open>scan_and_prepare\<close>, given the findings of the scanner.\<close>

definition scan_and_prepare ::
  "import_parser \<Rightarrow> string list \<Rightarrow> fix_finding list \<Rightarrow> string list \<Rightarrow> tree \<Rightarrow>
    (snapshot \<times> fix_manifest \<times> fix_statement list) result \<times> tree" where
  "scan_and_prepare imports_of base findings snapshot_root t =
    (case resolve_dependency_details imports_of t base findings of
       Inl e \<Rightarrow> (Inl e, t)
     | Inr (items, ev) \<Rightarrow>
         (case create_scoped_snapshot base findings items snapshot_root ev t of (r, t1) \<Rightarrow>
            (rbind r (\<lambda>s. rbind (snapshot_manifest s) (\<lambda>m. Inr (s, m, make_statements findings m))), t1)))"

definition run_from_scan ::
  "string \<Rightarrow> import_parser \<Rightarrow> 'w fix_agent \<Rightarrow> string list \<Rightarrow> fix_finding list \<Rightarrow> string list \<Rightarrow> fix_plan \<Rightarrow> aflow_outputs \<Rightarrow>
    inspection \<Rightarrow> string option \<Rightarrow> tree \<times> 'w fix_adapter \<Rightarrow>
    (final_result \<times> snapshot \<times> fix_manifest \<times> fix_statement list) result \<times> (tree \<times> 'w fix_adapter)" where
  "run_from_scan mode imports_of agent base findings snapshot_root plan outputs inspection user_decision st =
    (case scan_and_prepare imports_of base findings snapshot_root (fst st) of
       (Inl e, t1) \<Rightarrow> (Inl e, (t1, snd st))
     | (Inr (s, m, statements), t1) \<Rightarrow>
         (case run_fix mode agent findings m plan statements outputs inspection user_decision (snd st) of
            (r, a1) \<Rightarrow> (rbind r (\<lambda>f. Inr (f, s, m, statements)), (t1, a1))))"

end
