(* ===== verification/Fix_Grounding.thy ===== *)
theory Fix_Grounding
  imports Fix_Models
begin

text \<open>
  The grounding of a verification contract (\<open>policies/fix/validation_grounding.py\<close>): the catalog of
  sources that is built before the model is asked, the assertion vocabulary, and the resolver that
  accepts a check or a validation only when a source of the catalog or an assertion on an allowed
  path stands behind it.
\<close>

section \<open>The catalog\<close>

record scanner_source =
  ss_finding :: string
  ss_type :: string
  ss_repro :: string
  ss_path :: string

record configured_source =
  cs_id :: string
  cs_tokens :: "string list"

record recorded_source =
  rs_source :: string
  rs_finding :: string
  rs_tokens :: "string list"

record acceptance_source =
  as_step :: string
  as_finding :: string
  as_target :: string
  as_criterion :: json

record assertion_source =
  an_form :: string
  an_path :: string

record catalog =
  ca_scanner :: "scanner_source list"
  ca_configured :: "configured_source list"
  ca_recorded :: "recorded_source list"
  ca_tests :: "string list"
  ca_acceptances :: "acceptance_source list"
  ca_assertions :: "assertion_source list"

definition catalog_json :: "catalog \<Rightarrow> json" where
  "catalog_json c = JObj [
    (''scanner_checks'', JList (map (\<lambda>s. JObj [(''finding_id'', JStr (ss_finding s)), (''finding_type'', JStr (ss_type s)),
       (''repro'', JStr (ss_repro s)), (''scoped_path'', JStr (ss_path s))]) (ca_scanner c))),
    (''configured_tests'', JList (map (\<lambda>s. JObj [(''source_id'', JStr (cs_id s)), (''source_type'', JStr ''configured_test''),
       (''authorized_tokens'', strs (cs_tokens s))]) (ca_configured c))),
    (''recorded_tests'', JList (map (\<lambda>s. JObj [(''source_id'', JStr (rs_source s)), (''source_type'', JStr ''recorded_test''),
       (''finding_id'', JStr (rs_finding s)), (''authorized_tokens'', strs (rs_tokens s))]) (ca_recorded c))),
    (''test_files'', JList (map (\<lambda>p. JObj [(''relative_path'', JStr p)]) (ca_tests c))),
    (''plan_acceptances'', JList (map (\<lambda>s. JObj [(''step_id'', JStr (as_step s)), (''finding_id'', JStr (as_finding s)),
       (''target_file'', JStr (as_target s)), (''acceptance_criterion'', as_criterion s)]) (ca_acceptances c))),
    (''deterministic_assertions'', JList (map (\<lambda>s. JObj [(''assertion_form'', JStr (an_form s)),
       (''relative_path'', JStr (an_path s)), (''literal'', JNull)]) (ca_assertions c)))]"

text \<open>A command source: configured ones are looked up before recorded ones.\<close>

datatype command_source = Configured configured_source | Recorded recorded_source

definition lookup_command_source :: "catalog \<Rightarrow> string \<Rightarrow> command_source option" where
  "lookup_command_source c source_id =
    (case find (\<lambda>s. cs_id s = source_id) (ca_configured c) of
       Some s \<Rightarrow> Some (Configured s)
     | None \<Rightarrow> map_option Recorded (find (\<lambda>s. rs_source s = source_id) (ca_recorded c)))"

section \<open>Building the catalog\<close>

text \<open>\<open>f"{idx:03d}"\<close>.\<close>

definition pad3 :: "nat \<Rightarrow> string" where
  "pad3 n = (let s = str_of_nat n in replicate (3 - length s) CHR ''0'' @ s)"

definition path_name :: "string \<Rightarrow> string" where
  "path_name p = (let parts = path_parts (pure_path p) in if parts = [] then [] else last parts)"

definition is_test_file :: "string \<Rightarrow> bool" where
  "is_test_file rel =
    (let name = lower (path_name rel)
     in startswith name ''test_'' \<or> endswith name ''_test.py'' \<or> name = ''tests.py'')"

definition allowed_paths :: "fix_manifest \<Rightarrow> string list" where
  "allowed_paths m = sorted_set (fm_files m @ fm_closure m)"

definition evidence_of :: "fix_finding \<Rightarrow> jdict" where
  "evidence_of f = (case ff_evidence f of JObj d \<Rightarrow> d | _ \<Rightarrow> [])"

fun str_items :: "json list \<Rightarrow> string list option" where
  "str_items [] = Some []"
| "str_items (JStr s # js) = map_option ((#) s) (str_items js)"
| "str_items (_ # js) = None"

definition scanner_sources :: "fix_finding \<Rightarrow> scanner_source list" where
  "scanner_sources f =
    (case dget ''repro'' (JStr []) (evidence_of f) of
       JStr repro \<Rightarrow> emit (repro \<noteq> [])
         \<lparr>ss_finding = ff_id f, ss_type = ff_type f, ss_repro = repro, ss_path = ff_file f\<rparr>
     | _ \<Rightarrow> [])"

definition recorded_sources :: "fix_finding \<Rightarrow> recorded_source list" where
  "recorded_sources f =
    (case map_of (evidence_of f) ''command'' of
       Some (JList items) \<Rightarrow>
         (case str_items items of
            Some tokens \<Rightarrow> [\<lparr>rs_source = ''recorded-test-'' @ ff_id f @ ''-001'', rs_finding = ff_id f, rs_tokens = tokens\<rparr>]
          | None \<Rightarrow> [])
     | _ \<Rightarrow> [])"

definition acceptance_sources :: "fix_step \<Rightarrow> acceptance_source list" where
  "acceptance_sources s = emit (truth (fp_criterion s))
    \<lparr>as_step = fp_id s, as_finding = fp_finding s, as_target = fp_target s, as_criterion = fp_criterion s\<rparr>"

definition assertion_forms :: "string list" where
  "assertion_forms = [''scanner_clear'', ''file_exists'', ''file_contains'', ''file_not_contains'', ''python_compiles'', ''json_parses'']"

text \<open>
  The code runs over the set of allowed paths; the order of a set is not fixed, here it is the
  sorted one.  The resolver never reads these entries.
\<close>

definition build_catalog :: "fix_finding list \<Rightarrow> fix_manifest \<Rightarrow> fix_plan \<Rightarrow> string list list \<Rightarrow> catalog" where
  "build_catalog findings m plan commands =
    \<lparr>ca_scanner = for_each findings scanner_sources,
     ca_configured = map (\<lambda>(i, cmd). \<lparr>cs_id = ''configured-test-'' @ pad3 (i + 1), cs_tokens = cmd\<rparr>)
       (enumerate 0 commands),
     ca_recorded = for_each findings recorded_sources,
     ca_tests = filter is_test_file (fm_closure m),
     ca_acceptances = for_each (xp_steps plan) acceptance_sources,
     ca_assertions = for_each (allowed_paths m) (\<lambda>p. map (\<lambda>f. \<lparr>an_form = f, an_path = p\<rparr>) assertion_forms)\<rparr>"

section \<open>Assertions\<close>

text \<open>\<open>s.split("::", 1)\<close>: the part before the first double colon and the rest.\<close>

fun split_colons :: "string \<Rightarrow> (string \<times> string) option" where
  "split_colons [] = None"
| "split_colons [c] = None"
| "split_colons (a # b # s) =
    (if a = CHR '':'' \<and> b = CHR '':'' then Some ([], s)
     else map_option (\<lambda>(u, v). (a # u, v)) (split_colons (b # s)))"

text \<open>
  The group \<open>rest\<close> of \<open>_ASSERTION_RE\<close>: \<open>.+\<close> does not match a line feed, and \<open>$\<close> also matches before
  a line feed that ends the text.
\<close>

definition regex_rest :: "string \<Rightarrow> string option" where
  "regex_rest s =
    (let body = (if endswith s [CHR 0x0A] then butlast s else s)
     in if body = [] \<or> CHR 0x0A \<in> set body then None else Some body)"

definition assertion_match :: "string \<Rightarrow> (string \<times> string) option" where
  "assertion_match s =
    (case find (\<lambda>f. startswith s (f @ ''::'')) assertion_forms of
       None \<Rightarrow> None
     | Some form \<Rightarrow> map_option (Pair form) (regex_rest (drop (length form + 2) s)))"

definition parse_assertion :: "string \<Rightarrow> (string \<times> string \<times> string option) option" where
  "parse_assertion s =
    (case assertion_match s of
       None \<Rightarrow> None
     | Some (form, rest) \<Rightarrow>
         (if form = ''file_contains'' \<or> form = ''file_not_contains''
          then map_option (\<lambda>(path, literal). (form, path, Some literal)) (split_colons rest)
          else Some (form, rest, None)))"

definition is_valid_scoped_path :: "string \<Rightarrow> string set \<Rightarrow> bool" where
  "is_valid_scoped_path path allowed \<longleftrightarrow>
    path \<noteq> [] \<and> \<not> startswith path ''/'' \<and> ''..'' \<notin> set (path_parts (pure_path path)) \<and>
    \<not> startswith path [CHR 0x5C] \<and> path \<in> allowed"

section \<open>Grounding\<close>

record check_grounding =
  cg_finding :: string
  cg_method :: string
  cg_source :: string
  cg_reference :: string
  cg_tokens :: "string list option"
  cg_paths :: "string list"

record validation_grounding =
  vg_id :: string
  vg_source :: string
  vg_reference :: string
  vg_tokens :: "string list option"
  vg_paths :: "string list"

record grounding =
  gr_checks :: "check_grounding list"
  gr_validations :: "validation_grounding list"

definition tokens_json :: "string list option \<Rightarrow> json" where
  "tokens_json t = (case t of None \<Rightarrow> JNull | Some ts \<Rightarrow> if ts = [] then JNull else strs ts)"

definition grounding_json :: "grounding \<Rightarrow> json" where
  "grounding_json g = JObj [
    (''finding_checks'', JList (map (\<lambda>c. JObj [
       (''finding_id'', JStr (cg_finding c)), (''resolution_method'', JStr (cg_method c)),
       (''source_type'', JStr (cg_source c)), (''source_reference'', JStr (cg_reference c)),
       (''authorized_tokens'', tokens_json (cg_tokens c)), (''scoped_paths'', strs (cg_paths c))]) (gr_checks g))),
    (''validations'', JList (map (\<lambda>v. JObj [
       (''validation_id'', JStr (vg_id v)), (''source_type'', JStr (vg_source v)),
       (''source_reference'', JStr (vg_reference v)), (''authorized_tokens'', tokens_json (vg_tokens v)),
       (''scoped_paths'', strs (vg_paths v))]) (gr_validations g)))]"

text \<open>\<open>GroundingError\<close>: a code and a message; its text is the two with a colon.\<close>

type_synonym grounding_error = "string \<times> string"

definition not_grounded :: "string \<Rightarrow> grounding_error" where
  "not_grounded message = (''validation_not_grounded'', message)"

definition grounding_text :: "grounding_error \<Rightarrow> string" where
  "grounding_text e = fst e @ '': '' @ snd e"

definition required_success_rule :: string where
  "required_success_rule = ''all_finding_checks_and_validations_pass''"

definition check_by :: "finding_check \<Rightarrow> string \<Rightarrow> string \<Rightarrow> string list option \<Rightarrow> string \<Rightarrow> check_grounding" where
  "check_by c source reference tokens path =
    \<lparr>cg_finding = ck_finding c, cg_method = ck_method c, cg_source = source, cg_reference = reference,
     cg_tokens = tokens, cg_paths = [path]\<rparr>"

text \<open>The last resort of a check: a recorded test of its own finding.\<close>

definition ground_recorded :: "catalog \<Rightarrow> fix_finding \<Rightarrow> finding_check \<Rightarrow> grounding_error + check_grounding" where
  "ground_recorded cat f c =
    (let failed = Inl (not_grounded (''finding_check for '' @ ck_finding c @ '' cannot be grounded: '' @ py_repr_str (ck_check c)))
     in case lookup_command_source cat (ck_check c) of
          Some (Recorded s) \<Rightarrow>
            (if rs_finding s = ck_finding c
             then Inr (check_by c ''recorded_test'' (rs_source s) (Some (rs_tokens s)) (ff_file f)) else failed)
        | _ \<Rightarrow> failed)"

definition ground_assertion ::
  "string set \<Rightarrow> fix_finding \<Rightarrow> finding_check \<Rightarrow> string \<Rightarrow> string \<Rightarrow> grounding_error + check_grounding" where
  "ground_assertion allowed f c form path =
    (if form = ''scanner_clear''
     then (if path \<noteq> ck_finding c
           then Inl (not_grounded (''scanner_clear assertion references '' @ path @ '', expected '' @ ck_finding c))
           else Inr (check_by c ''deterministic_assertion'' (''assertion:'' @ ck_check c) None (ff_file f)))
     else if \<not> is_valid_scoped_path path allowed
       then Inl (not_grounded (''assertion references invalid or out-of-scope path: '' @ path))
     else Inr (check_by c ''deterministic_assertion'' (''assertion:'' @ ck_check c) None path))"

definition ground_finding_check ::
  "fix_finding list \<Rightarrow> string set \<Rightarrow> catalog \<Rightarrow> finding_check \<Rightarrow> grounding_error + check_grounding" where
  "ground_finding_check findings allowed cat c =
    (case find (\<lambda>f. ff_id f = ck_finding c) findings of
       None \<Rightarrow> Inl (not_grounded (''finding_check references unknown finding_id: '' @ ck_finding c))
     | Some f \<Rightarrow>
         (case find (\<lambda>s. ss_finding s = ck_finding c) (ca_scanner cat) of
            Some s \<Rightarrow> Inr (check_by c ''scanner_check'' (''scanner:'' @ ss_finding s) None (ss_path s))
          | None \<Rightarrow>
              (case find (\<lambda>s. as_finding s = ck_finding c) (ca_acceptances cat) of
                 Some s \<Rightarrow> Inr (check_by c ''plan_acceptance'' (''plan:'' @ as_step s) None (as_target s))
               | None \<Rightarrow>
                   (case parse_assertion (ck_check c) of
                      Some (form, path, literal) \<Rightarrow> ground_assertion allowed f c form path
                    | None \<Rightarrow> ground_recorded cat f c))))"

definition validation_by :: "validation_spec \<Rightarrow> string \<Rightarrow> string \<Rightarrow> string list option \<Rightarrow> string list \<Rightarrow> validation_grounding" where
  "validation_by v source reference tokens paths =
    \<lparr>vg_id = vs_id v, vg_source = source, vg_reference = reference, vg_tokens = tokens, vg_paths = paths\<rparr>"

definition ground_validation :: "string set \<Rightarrow> catalog \<Rightarrow> validation_spec \<Rightarrow> grounding_error + validation_grounding" where
  "ground_validation allowed cat v =
    (case parse_assertion (vs_command v) of
       Some (form, path, literal) \<Rightarrow>
         (if form = ''scanner_clear''
          then Inl (not_grounded (''scanner_clear assertion is not valid for validation: '' @ py_repr_str (vs_command v)))
          else if \<not> is_valid_scoped_path path allowed
          then Inl (not_grounded (''assertion references invalid or out-of-scope path: '' @ path))
          else Inr (validation_by v ''deterministic_assertion'' (''assertion:'' @ vs_command v) None [path]))
     | None \<Rightarrow>
         (case lookup_command_source cat (vs_command v) of
            Some (Configured s) \<Rightarrow> Inr (validation_by v ''configured_test'' (cs_id s) (Some (cs_tokens s)) [])
          | Some (Recorded s) \<Rightarrow> Inr (validation_by v ''recorded_test'' (rs_source s) (Some (rs_tokens s)) [])
          | None \<Rightarrow> Inl (not_grounded (''validation '' @ vs_id v @ '' cannot be grounded: '' @ py_repr_str (vs_command v)))))"

definition resolve_grounding ::
  "fix_finding list \<Rightarrow> fix_manifest \<Rightarrow> fix_success \<Rightarrow> catalog \<Rightarrow> grounding_error + grounding" where
  "resolve_grounding findings m sd cat =
    (let allowed = set (fm_files m) \<union> set (fm_closure m)
     in sbind (check_that (su_rule sd = required_success_rule)
          (''unsupported_success_rule'', ''success_rule must be '' @ [CHR 0x27] @ required_success_rule @ [CHR 0x27] @ '', got: '' @ py_repr_str (su_rule sd))) (\<lambda>_.
        sbind (smap (ground_finding_check findings allowed cat) (su_checks sd)) (\<lambda>checks.
        sbind (smap (ground_validation allowed cat) (su_validations sd)) (\<lambda>validations.
          Inr \<lparr>gr_checks = checks, gr_validations = validations\<rparr>))))"

section \<open>Where grounded paths and tokens come from\<close>

lemma str_items_Some: "str_items js = Some ts \<longleftrightarrow> js = map JStr ts"
  by (induction js arbitrary: ts rule: str_items.induct) (auto simp: Cons_eq_map_conv)

text \<open>The command that the evidence of a finding records.\<close>

definition recorded_command :: "fix_finding \<Rightarrow> string list \<Rightarrow> bool" where
  "recorded_command f ts \<longleftrightarrow> map_of (evidence_of f) ''command'' = Some (JList (map JStr ts))"

lemma find_SomeD: "find P xs = Some x \<Longrightarrow> x \<in> set xs \<and> P x"
  by (induction xs) (auto split: if_splits)

lemma in_recorded_sources: "s \<in> set (recorded_sources f) \<Longrightarrow> rs_finding s = ff_id f \<and> recorded_command f (rs_tokens s)"
  by (auto simp: recorded_sources_def recorded_command_def dest!: str_items_Some [THEN iffD1] sym [of "Some _"]
      split: option.splits json.splits)

lemma in_scanner_sources: "s \<in> set (scanner_sources f) \<Longrightarrow> ss_finding s = ff_id f \<and> ss_path s = ff_file f"
  by (auto simp: scanner_sources_def set_emit split: json.splits if_splits)

lemma in_acceptance_sources: "a \<in> set (acceptance_sources s) \<Longrightarrow> as_target a = fp_target s"
  by (auto simp: acceptance_sources_def set_emit split: if_splits)

lemma catalog_recorded:
  "s \<in> set (ca_recorded (build_catalog findings m plan commands)) \<Longrightarrow>
    \<exists>f \<in> set findings. rs_finding s = ff_id f \<and> recorded_command f (rs_tokens s)"
  by (auto simp: build_catalog_def dest: in_recorded_sources)

lemma catalog_scanner:
  "s \<in> set (ca_scanner (build_catalog findings m plan commands)) \<Longrightarrow> \<exists>f \<in> set findings. ss_path s = ff_file f"
  by (auto simp: build_catalog_def dest: in_scanner_sources)

lemma catalog_acceptance:
  "a \<in> set (ca_acceptances (build_catalog findings m plan commands)) \<Longrightarrow> \<exists>s \<in> set (xp_steps plan). as_target a = fp_target s"
  by (auto simp: build_catalog_def dest: in_acceptance_sources)

lemma catalog_configured:
  "s \<in> set (ca_configured (build_catalog findings m plan commands)) \<Longrightarrow> cs_tokens s \<in> set commands"
  by (auto simp: build_catalog_def in_set_enumerate_eq)

lemma lookup_Configured:
  "lookup_command_source cat i = Some (Configured s) \<Longrightarrow> s \<in> set (ca_configured cat) \<and> cs_id s = i"
  by (auto simp: lookup_command_source_def dest: find_SomeD split: option.splits)

lemma lookup_Recorded:
  "lookup_command_source cat i = Some (Recorded s) \<Longrightarrow> s \<in> set (ca_recorded cat) \<and> rs_source s = i"
  by (auto simp: lookup_command_source_def dest: find_SomeD split: option.splits)

lemma check_by_fields [simp]:
  "cg_finding (check_by c source r t p) = ck_finding c" "cg_paths (check_by c source r t p) = [p]"
  "cg_tokens (check_by c source r t p) = t"
  by (simp_all add: check_by_def)

lemma validation_by_fields [simp]:
  "vg_id (validation_by v source r t ps) = vs_id v" "vg_paths (validation_by v source r t ps) = ps"
  "vg_tokens (validation_by v source r t ps) = t"
  by (simp_all add: validation_by_def)

text \<open>What stands behind a grounded check and a grounded validation.\<close>

definition check_backed :: "fix_finding list \<Rightarrow> string set \<Rightarrow> check_grounding \<Rightarrow> bool" where
  "check_backed findings allowed g \<longleftrightarrow>
    set (cg_paths g) \<subseteq> allowed \<and>
    (\<forall>ts. cg_tokens g = Some ts \<longrightarrow> (\<exists>f \<in> set findings. ff_id f = cg_finding g \<and> recorded_command f ts))"

definition validation_backed :: "fix_finding list \<Rightarrow> string list list \<Rightarrow> string set \<Rightarrow> validation_grounding \<Rightarrow> bool" where
  "validation_backed findings commands allowed g \<longleftrightarrow>
    set (vg_paths g) \<subseteq> allowed \<and>
    (\<forall>ts. vg_tokens g = Some ts \<longrightarrow> ts \<in> set commands \<or> (\<exists>f \<in> set findings. recorded_command f ts))"

lemma ground_recorded_Inr:
  assumes "ground_recorded cat f c = Inr g"
  obtains s where "s \<in> set (ca_recorded cat)" and "rs_finding s = ck_finding c"
    and "g = check_by c ''recorded_test'' (rs_source s) (Some (rs_tokens s)) (ff_file f)"
proof -
  from assms obtain s where s: "lookup_command_source cat (ck_check c) = Some (Recorded s)" "rs_finding s = ck_finding c"
      and g: "g = check_by c ''recorded_test'' (rs_source s) (Some (rs_tokens s)) (ff_file f)"
    by (auto simp: ground_recorded_def Let_def split: option.splits command_source.splits if_splits)
  from lookup_Recorded [OF s(1)] s(2) g show ?thesis by (auto intro: that)
qed

lemma ground_assertion_Inr:
  "ground_assertion allowed f c form path = Inr g \<Longrightarrow>
    cg_finding g = ck_finding c \<and> cg_tokens g = None \<and> (cg_paths g = [ff_file f] \<or> cg_paths g = [path] \<and> path \<in> allowed)"
  by (auto simp: ground_assertion_def is_valid_scoped_path_def split: if_splits)

lemma ground_check_backed:
  assumes g: "ground_finding_check findings allowed (build_catalog findings m plan commands) c = Inr g"
    and files: "ff_file ` set findings \<subseteq> allowed" and targets: "fp_target ` set (xp_steps plan) \<subseteq> allowed"
  shows "cg_finding g = ck_finding c \<and> check_backed findings allowed g"
proof -
  let ?cat = "build_catalog findings m plan commands"
  from g obtain f where f: "find (\<lambda>f. ff_id f = ck_finding c) findings = Some f"
    by (auto simp: ground_finding_check_def split: option.splits)
  then have f_in: "f \<in> set findings" "ff_id f = ck_finding c" by (auto dest: find_SomeD)
  from g f consider
      (scanner) s where "s \<in> set (ca_scanner ?cat)" "g = check_by c ''scanner_check'' (''scanner:'' @ ss_finding s) None (ss_path s)"
    | (plan) s where "s \<in> set (ca_acceptances ?cat)" "g = check_by c ''plan_acceptance'' (''plan:'' @ as_step s) None (as_target s)"
    | (assertion) form path where "ground_assertion allowed f c form path = Inr g"
    | (recorded) "ground_recorded ?cat f c = Inr g"
    by (auto simp: ground_finding_check_def dest: find_SomeD split: option.splits prod.splits)
  then show ?thesis
  proof cases
    case scanner
    then show ?thesis using catalog_scanner files by (fastforce simp: check_backed_def)
  next
    case plan
    then show ?thesis using catalog_acceptance targets by (fastforce simp: check_backed_def)
  next
    case assertion
    then show ?thesis using ground_assertion_Inr f_in files by (fastforce simp: check_backed_def)
  next
    case recorded
    then obtain s where "s \<in> set (ca_recorded ?cat)" and "rs_finding s = ck_finding c"
        and g: "g = check_by c ''recorded_test'' (rs_source s) (Some (rs_tokens s)) (ff_file f)"
      by (rule ground_recorded_Inr)
    with catalog_recorded obtain f1 where "f1 \<in> set findings" "ff_id f1 = ck_finding c" "recorded_command f1 (rs_tokens s)"
      by metis
    with f_in files show ?thesis by (auto simp: g check_backed_def)
  qed
qed

lemma ground_validation_backed:
  assumes "ground_validation allowed (build_catalog findings m plan commands) v = Inr g"
  shows "vg_id g = vs_id v \<and> validation_backed findings commands allowed g"
proof (cases "parse_assertion (vs_command v)")
  case None
  then consider
      (configured) s where "s \<in> set (ca_configured (build_catalog findings m plan commands))"
        "g = validation_by v ''configured_test'' (cs_id s) (Some (cs_tokens s)) []"
    | (recorded) s where "s \<in> set (ca_recorded (build_catalog findings m plan commands))"
        "g = validation_by v ''recorded_test'' (rs_source s) (Some (rs_tokens s)) []"
    using assms by (auto simp: ground_validation_def dest: lookup_Configured lookup_Recorded
        split: option.splits command_source.splits)
  then show ?thesis
    by cases (auto simp: validation_backed_def dest: catalog_configured catalog_recorded)
next
  case (Some p)
  then show ?thesis
    using assms by (auto simp: ground_validation_def validation_backed_def is_valid_scoped_path_def split: if_splits prod.splits)
qed

lemma smap_map:
  "smap f xs = Inr ys \<Longrightarrow> (\<And>x y. f x = Inr y \<Longrightarrow> k y = h x) \<Longrightarrow> map k ys = map h xs"
  by (induction xs arbitrary: ys) (auto simp: sbind_eq_Inr)

lemma resolve_grounding_Inr:
  assumes "resolve_grounding findings m sd cat = Inr g"
  shows "su_rule sd = required_success_rule"
    and "smap (ground_finding_check findings (set (fm_files m) \<union> set (fm_closure m)) cat) (su_checks sd) = Inr (gr_checks g)"
    and "smap (ground_validation (set (fm_files m) \<union> set (fm_closure m)) cat) (su_validations sd) = Inr (gr_validations g)"
  using assms by (auto simp: resolve_grounding_def Let_def sbind_eq_Inr)

lemma grounding_backed:
  assumes g: "resolve_grounding findings m sd (build_catalog findings m plan commands) = Inr g"
    and files: "ff_file ` set findings \<subseteq> set (fm_files m) \<union> set (fm_closure m)"
    and plan: "fp_target ` set (xp_steps plan) \<subseteq> set (fm_files m) \<union> set (fm_closure m)"
  shows "map cg_finding (gr_checks g) = map ck_finding (su_checks sd)"
    and "map vg_id (gr_validations g) = map vs_id (su_validations sd)"
    and "\<forall>c \<in> set (gr_checks g). check_backed findings (set (fm_files m) \<union> set (fm_closure m)) c"
    and "\<forall>v \<in> set (gr_validations g). validation_backed findings commands (set (fm_files m) \<union> set (fm_closure m)) v"
proof -
  let ?allowed = "set (fm_files m) \<union> set (fm_closure m)"
  let ?cat = "build_catalog findings m plan commands"
  note checks = resolve_grounding_Inr(2) [OF g] and validations = resolve_grounding_Inr(3) [OF g]
  have check: "cg_finding x = ck_finding c \<and> check_backed findings ?allowed x"
    if "ground_finding_check findings ?allowed ?cat c = Inr x" for c x
    using that files plan by (rule ground_check_backed)
  have validation: "vg_id x = vs_id v \<and> validation_backed findings commands ?allowed x"
    if "ground_validation ?allowed ?cat v = Inr x" for v x
    using that by (rule ground_validation_backed)
  show "map cg_finding (gr_checks g) = map ck_finding (su_checks sd)"
    using checks by (rule smap_map) (simp add: check)
  show "map vg_id (gr_validations g) = map vs_id (su_validations sd)"
    using validations by (rule smap_map) (simp add: validation)
  show "\<forall>c \<in> set (gr_checks g). check_backed findings ?allowed c"
    using checks by (rule smap_all) (simp add: check)
  show "\<forall>v \<in> set (gr_validations g). validation_backed findings commands ?allowed v"
    using validations by (rule smap_all) (simp add: validation)
qed

end
