(* ===== verification/Fix_Invoke.thy ===== *)
theory Fix_Invoke
  imports Fix_Grounding Fix_Policies Json_Parse
begin

text \<open>
  The model boundary of the Fix engine (\<open>adapters/aflow_fix.py\<close>): one request to the local model, the
  reading of its single JSON answer into a plan and a verification contract, and the grounding of
  that contract.  The model is a function on an environment \<open>'w\<close>.
\<close>

section \<open>Exceptions with a code\<close>

text \<open>
  What a handler can see of an exception: its class, its text and the attributes that
  \<open>audisor_operation_artifact\<close> asks for; \<open>None\<close> stands for an absent attribute \<open>code\<close>.
\<close>

record raised =
  ex_class :: string
  ex_text :: string
  ex_code :: "json option"
  ex_detail :: json
  ex_missing :: "json list"
  ex_gaps :: "json list"
  ex_corrections :: "json list"
  ex_retry :: json

definition plain_error :: "string \<Rightarrow> string \<Rightarrow> raised" where
  "plain_error cls message =
    \<lparr>ex_class = cls, ex_text = message, ex_code = None, ex_detail = JStr [], ex_missing = [], ex_gaps = [],
     ex_corrections = [], ex_retry = JNull\<rparr>"

definition local_error :: "string \<Rightarrow> string \<Rightarrow> raised" where
  "local_error code message = (plain_error ''FixLocalInvocationError'' message)\<lparr>ex_code := Some (JStr code)\<rparr>"

definition schema_invalid :: "string \<Rightarrow> raised" where
  "schema_invalid message = local_error ''schema_invalid'' message"

text \<open>An exception of the interpreter, as a handler sees it.\<close>

fun raised_of :: "py_error \<Rightarrow> raised" where
  "raised_of (KeyError k) = plain_error ''KeyError'' (py_repr_str k)"
| "raised_of (TypeError m) = plain_error ''TypeError'' m"
| "raised_of (ValueError m) = plain_error ''ValueError'' m"
| "raised_of (AttributeError m) = plain_error ''AttributeError'' m"
| "raised_of _ = plain_error ''Exception'' []"

definition py :: "'a result \<Rightarrow> raised + 'a" where
  "py r = (case r of Inl e \<Rightarrow> Inl (raised_of e) | Inr x \<Rightarrow> Inr x)"

lemma py_Inr [result_simps]: "py r = Inr x \<longleftrightarrow> r = Inr x"
  by (simp add: py_def split: sum.split)

section \<open>The answer\<close>

definition ticks :: string where
  "ticks = ''```''"

definition one_json_object :: "json \<Rightarrow> raised + jdict" where
  "one_json_object answer =
    (case answer of
       JStr s \<Rightarrow>
         (let text = strip s
          in if text = [] then Inl (local_error ''empty_response'' ''Fix model returned no content'')
             else if startswith text ticks \<or> endswith text ticks
             then Inl (local_error ''invalid_response_framing'' ''Markdown framing is not allowed'')
             else (case json_loads text of
                 None \<Rightarrow> Inl (local_error ''invalid_json'' ''Fix model returned invalid JSON'')
               | Some (JObj d) \<Rightarrow> Inr d
               | Some _ \<Rightarrow> Inl (local_error ''invalid_response_framing'' ''Fix model must return one JSON object'')))
     | _ \<Rightarrow> Inl (local_error ''empty_response'' ''Fix model returned no content''))"

text \<open>\<open>isinstance(value.get(key), str) and value[key]\<close>.\<close>

definition filled_text :: "string \<Rightarrow> jdict \<Rightarrow> string option" where
  "filled_text k d = (case map_of d k of Some (JStr s) \<Rightarrow> if s \<noteq> [] then Some s else None | _ \<Rightarrow> None)"

definition concrete_text :: "string \<Rightarrow> jdict \<Rightarrow> string option" where
  "concrete_text k d = (case map_of d k of Some (JStr s) \<Rightarrow> if strip s \<noteq> [] then Some s else None | _ \<Rightarrow> None)"

definition need :: "'a option \<Rightarrow> raised \<Rightarrow> raised + 'a" where
  "need v e = (case v of None \<Rightarrow> Inl e | Some x \<Rightarrow> Inr x)"

definition as_dict :: "json \<Rightarrow> jdict option" where
  "as_dict v = (case v of JObj d \<Rightarrow> Some d | _ \<Rightarrow> None)"

definition as_items :: "json \<Rightarrow> json list option" where
  "as_items v = (case v of JList xs \<Rightarrow> Some xs | _ \<Rightarrow> None)"

section \<open>The plan\<close>

definition step_of :: "fix_finding list \<Rightarrow> fix_manifest \<Rightarrow> json \<Rightarrow> raised + fix_step" where
  "step_of findings m item =
    (let malformed = schema_invalid ''Fix model emitted a malformed plan step''
     in sbind (need (as_dict item) malformed) (\<lambda>d.
        sbind (need (filled_text ''id'' d) malformed) (\<lambda>ident.
        sbind (need (filled_text ''action'' d) malformed) (\<lambda>action.
        sbind (need (filled_text ''target_file'' d) malformed) (\<lambda>target.
        sbind (need (filled_text ''originating_finding_id'' d) malformed) (\<lambda>finding.
        sbind (check_that (finding \<in> ff_id ` set findings \<and> target \<in> set (fm_files m))
          (local_error ''scope_violation'' ''Fix model step is outside the finding scope'')) (\<lambda>_.
          Inr \<lparr>fp_id = ident, fp_action = action, fp_target = target, fp_finding = finding,
            fp_criterion = dget ''acceptance_criterion'' JNull d\<rparr>)))))))"

definition plan_from_json :: "json \<Rightarrow> fix_finding list \<Rightarrow> fix_manifest \<Rightarrow> raised + fix_plan" where
  "plan_from_json value findings m =
    sbind (need (as_dict value) (schema_invalid ''Fix model plan is not an object'')) (\<lambda>d.
    sbind (need (as_items (dget ''steps'' JNull d)) (schema_invalid ''Fix model plan steps are missing'')) (\<lambda>raw.
    sbind (smap (step_of findings m) raw) (\<lambda>steps.
    sbind (check_that (steps \<noteq> []) (schema_invalid ''Fix model emitted no repair steps'')) (\<lambda>_.
      Inr \<lparr>xp_steps = steps, xp_targets = sorted_set (map fp_target steps), xp_qualified = True, xp_minor = []\<rparr>))))"

section \<open>The verification contract\<close>

definition resolution_methods :: "string list" where
  "resolution_methods = [''rescan'', ''test'', ''assertion'']"

definition incomplete :: "string \<Rightarrow> raised" where
  "incomplete message = local_error ''verification_contract_incomplete'' message"

definition method_of :: "jdict \<Rightarrow> raised + string" where
  "method_of d =
    (let v = dget ''resolution_method'' JNull d
     in case v of
          JStr s \<Rightarrow> sbind (check_that (s \<in> set resolution_methods)
             (schema_invalid (''finding_check.resolution_method is invalid: '' @ py_repr v))) (\<lambda>_. Inr s)
        | _ \<Rightarrow> Inl (schema_invalid (''finding_check.resolution_method is invalid: '' @ py_repr v)))"

definition check_of :: "fix_finding list \<Rightarrow> json \<Rightarrow> raised + finding_check" where
  "check_of findings item =
    sbind (need (as_dict item) (schema_invalid ''finding_check is not an object'')) (\<lambda>d.
    sbind (need (filled_text ''finding_id'' d) (schema_invalid ''finding_check.finding_id is missing'')) (\<lambda>ident.
    sbind (check_that (ident \<in> ff_id ` set findings)
      (local_error ''unknown_finding_id'' (''finding_check references unknown finding_id: '' @ ident))) (\<lambda>_.
    sbind (method_of d) (\<lambda>kind.
    sbind (need (concrete_text ''check'' d) (schema_invalid ''finding_check.check must be concrete and non-empty'')) (\<lambda>check.
    sbind (need (concrete_text ''expected_result'' d)
      (schema_invalid ''finding_check.expected_result must be concrete and non-empty'')) (\<lambda>expected.
      Inr \<lparr>ck_finding = ident, ck_method = kind, ck_check = check, ck_expected = expected\<rparr>))))))"

definition validation_of :: "string list \<Rightarrow> json \<Rightarrow> raised + validation_spec" where
  "validation_of seen item =
    sbind (need (as_dict item) (schema_invalid ''validation is not an object'')) (\<lambda>d.
    sbind (need (concrete_text ''id'' d) (schema_invalid ''validation.id must be a stable non-empty string'')) (\<lambda>ident.
    sbind (check_that (ident \<notin> set seen) (schema_invalid (''validation.id is not unique: '' @ ident))) (\<lambda>_.
    sbind (need (concrete_text ''command_or_assertion'' d)
      (schema_invalid ''validation.command_or_assertion must be concrete and non-empty'')) (\<lambda>command.
    sbind (need (concrete_text ''expected_result'' d) (schema_invalid ''validation.expected_result must be non-empty'')) (\<lambda>expected.
      Inr \<lparr>vs_id = ident, vs_command = command, vs_expected = expected\<rparr>)))))"

fun validations_of :: "string list \<Rightarrow> json list \<Rightarrow> raised + validation_spec list" where
  "validations_of seen [] = Inr []"
| "validations_of seen (item # items) =
    sbind (validation_of seen item) (\<lambda>v.
    sbind (validations_of (vs_id v # seen) items) (\<lambda>vs. Inr (v # vs)))"

text \<open>\<open>repr\<close> of a set of strings; the order of a set is not fixed, here it is the sorted one.\<close>

definition repr_set :: "string list \<Rightarrow> string" where
  "repr_set xs = ''{'' @ join '', '' (map py_repr_str (sorted_set xs)) @ ''}''"

definition success_definition_from_json :: "json \<Rightarrow> fix_finding list \<Rightarrow> raised + fix_success" where
  "success_definition_from_json value findings =
    sbind (need (as_dict value) (schema_invalid ''Fix model success_definition is not an object'')) (\<lambda>d.
    sbind (case dget ''finding_checks'' JNull d of
        JList (x # xs) \<Rightarrow> Inr (x # xs)
      | _ \<Rightarrow> Inl (incomplete ''success_definition.finding_checks is missing or empty'')) (\<lambda>raw_checks.
    sbind (smap (check_of findings) raw_checks) (\<lambda>checks.
    sbind (let missing = filter (\<lambda>i. i \<notin> ck_finding ` set checks) (map ff_id findings)
           in check_that (missing = []) (incomplete (''finding_checks do not cover every finding; missing: '' @ repr_set missing))) (\<lambda>_.
    sbind (need (as_items (dget ''validations'' JNull d))
      (schema_invalid ''success_definition.validations is not a list'')) (\<lambda>raw_validations.
    sbind (validations_of [] raw_validations) (\<lambda>validations.
    sbind (need (as_items (dget ''must_not_regress'' JNull d))
      (schema_invalid ''success_definition.must_not_regress is not a list'')) (\<lambda>regress.
    sbind (need (concrete_text ''success_rule'' d) (incomplete ''success_definition.success_rule must be non-empty'')) (\<lambda>rule.
      Inr \<lparr>su_checks = checks, su_validations = validations, su_regress = map py_str regress, su_rule = rule\<rparr>))))))))"

section \<open>One invocation\<close>

text \<open>
  What an igniter returns.  \<open>ig_build\<close> is \<open>None\<close> when the object has no attribute \<open>build_analysis\<close>,
  and \<open>ig_candidate\<close> when it has no \<open>candidate_plan\<close>.
\<close>

record ignition =
  ig_class :: string
  ig_candidate :: "candidate option"
  ig_contract :: json
  ig_eligible :: bool
  ig_success :: "fix_success option"
  ig_grounding :: "json option"
  ig_build :: "json option"

text \<open>\<open>FixIgnitionResult\<close>: it has no attribute \<open>build_analysis\<close>.\<close>

definition fix_ignition :: "fix_plan \<Rightarrow> bool \<Rightarrow> fix_success \<Rightarrow> grounding \<Rightarrow> ignition" where
  "fix_ignition plan accepted sd g =
    \<lparr>ig_class = ''FixIgnitionResult'', ig_candidate = Some (Typed_plan plan), ig_contract = JNull, ig_eligible = accepted,
     ig_success = Some sd, ig_grounding = Some (grounding_json g), ig_build = None\<rparr>"

definition fix_instruction :: string where
  "fix_instruction =
    ''Evaluate this scan-identified Fix plan as advisory analysis only. '' @
    ''Return exactly one JSON object with status, plan, gap_corrections_applied, '' @
    ''and success_definition. Do not score findings, choose ready or isolated items, '' @
    ''execute commands, mutate files, approve changes, or produce a final result. '' @
    ''Repair only the listed findings. '' @
    ''The success_definition must include finding_checks covering every finding, '' @
    ''validations with stable IDs and concrete commands or assertions, '' @
    ''must_not_regress constraints, and a non-empty success_rule. '' @
    ''Only include validations supported by the provided validation_source_catalog. '' @
    ''Do not invent new commands, files, checks, or test runners. '' @
    ''Select only from the catalog sources. '' @
    ''Use success_rule = 'all_finding_checks_and_validations_pass'.''"

definition fix_prompt :: "fix_plan \<Rightarrow> fix_finding list \<Rightarrow> fix_manifest \<Rightarrow> catalog \<Rightarrow> string" where
  "fix_prompt plan findings m cat = json_dumps (copy_value (JObj [
     (''instruction'', JStr fix_instruction),
     (''plan'', JObj [(''steps'', JList (map fix_step_json (xp_steps plan))), (''target_files'', strs (xp_targets plan))]),
     (''findings'', JList (map fix_finding_json findings)),
     (''manifest'', fix_manifest_json m),
     (''validation_source_catalog'', catalog_json cat)]))"

definition answer_fields :: "string list" where
  "answer_fields = [''status'', ''plan'', ''gap_corrections_applied'', ''success_definition'']"

text \<open>
  \<open>value["status"] not in {"accepted", "rejected"}\<close>: a list or a dictionary is not key_like.
\<close>

definition answer_status :: "jdict \<Rightarrow> raised + string" where
  "answer_status d =
    (let invalid = schema_invalid ''Fix model response fields are invalid''
     in if set (map fst d) \<noteq> set answer_fields then Inl invalid
        else (case dget ''status'' JNull d of
            JStr s \<Rightarrow> if s = ''accepted'' \<or> s = ''rejected'' then Inr s else Inl invalid
          | JList _ \<Rightarrow> Inl (plain_error ''TypeError'' (''unhashable type: '' @ py_repr_str ''list''))
          | JObj _ \<Rightarrow> Inl (plain_error ''TypeError'' (''unhashable type: '' @ py_repr_str ''dict''))
          | _ \<Rightarrow> Inl invalid))"

definition gap_count :: "json \<Rightarrow> raised + int" where
  "gap_count v = py (int_of v)"

text \<open>A \<open>GroundingError\<close> is raised again with its code and its text.\<close>

definition verified_grounding :: "fix_finding list \<Rightarrow> fix_manifest \<Rightarrow> fix_success \<Rightarrow> catalog \<Rightarrow> raised + grounding" where
  "verified_grounding findings m sd cat =
    (case resolve_grounding findings m sd cat of
       Inl e \<Rightarrow> Inl (local_error (fst e) (grounding_text e)) | Inr g \<Rightarrow> Inr g)"

definition read_analysis :: "fix_finding list \<Rightarrow> fix_manifest \<Rightarrow> catalog \<Rightarrow> json \<Rightarrow> raised + ignition" where
  "read_analysis findings m cat answer =
    sbind (one_json_object answer) (\<lambda>d.
    sbind (answer_status d) (\<lambda>status.
    sbind (plan_from_json (dget ''plan'' JNull d) findings m) (\<lambda>corrected.
    sbind (gap_count (dget ''gap_corrections_applied'' JNull d)) (\<lambda>gaps.
    sbind (check_that (0 \<le> gaps) (local_error ''decision_inconsistent'' ''Fix gap correction count is invalid'')) (\<lambda>_.
    sbind (success_definition_from_json (dget ''success_definition'' JNull d) findings) (\<lambda>sd.
    sbind (verified_grounding findings m sd cat) (\<lambda>g.
      Inr (fix_ignition corrected (status = ''accepted'') sd g))))))))"

text \<open>The worker takes the prompt; what it raises becomes \<open>provider_failed\<close>.\<close>

definition invoke_local_fix ::
  "(string \<Rightarrow> 'w \<Rightarrow> (raised + json) \<times> 'w) \<Rightarrow> fix_plan \<Rightarrow> fix_finding list \<Rightarrow> fix_manifest \<Rightarrow> string list list \<Rightarrow> 'w \<Rightarrow>
    (raised + ignition) \<times> 'w" where
  "invoke_local_fix worker plan findings m commands w =
    (let cat = build_catalog findings m plan commands
     in case worker (fix_prompt plan findings m cat) w of
          (Inl e, w1) \<Rightarrow> (Inl (local_error ''provider_failed'' ''Fix local provider request failed''), w1)
        | (Inr answer, w1) \<Rightarrow> (read_analysis findings m cat answer, w1))"

section \<open>What an accepted answer is\<close>

lemma need_Inr [result_simps]: "need v e = Inr x \<longleftrightarrow> v = Some x"
  by (simp add: need_def split: option.split)

lemma filled_text_Some: "filled_text k d = Some s \<longleftrightarrow> map_of d k = Some (JStr s) \<and> s \<noteq> []"
  by (auto simp: filled_text_def split: option.split json.split)

lemma concrete_text_Some: "concrete_text k d = Some s \<longleftrightarrow> map_of d k = Some (JStr s) \<and> strip s \<noteq> []"
  by (auto simp: concrete_text_def split: option.split json.split)

lemma step_of_Inr:
  assumes "step_of findings m item = Inr s"
  shows "fp_finding s \<in> ff_id ` set findings" and "fp_target s \<in> set (fm_files m)" and "fp_finding s \<noteq> []"
  using assms by (auto simp: step_of_def Let_def sbind_eq_Inr need_Inr filled_text_Some)

lemma plan_from_json_Inr:
  assumes "plan_from_json value findings m = Inr p"
  shows "plan_ok p m" and "\<forall>s \<in> set (xp_steps p). fp_finding s \<in> ff_id ` set findings"
proof -
  from assms obtain raw steps where s: "smap (step_of findings m) raw = Inr steps" and "steps \<noteq> []"
      and p: "p = \<lparr>xp_steps = steps, xp_targets = sorted_set (map fp_target steps), xp_qualified = True, xp_minor = []\<rparr>"
    by (auto simp: plan_from_json_def sbind_eq_Inr need_Inr)
  moreover have "\<forall>s \<in> set steps. fp_finding s \<in> ff_id ` set findings \<and> fp_target s \<in> set (fm_files m) \<and> fp_finding s \<noteq> []"
    using s by (rule smap_all) (simp add: step_of_Inr)
  ultimately show "plan_ok p m" "\<forall>s \<in> set (xp_steps p). fp_finding s \<in> ff_id ` set findings"
    by (auto simp: plan_ok_def)
qed

lemma method_of_Inr: "method_of d = Inr s \<Longrightarrow> s \<in> set resolution_methods"
  by (cases "dget ''resolution_method'' JNull d") (auto simp: method_of_def sbind_eq_Inr)

lemma check_of_Inr:
  assumes "check_of findings item = Inr c"
  shows "ck_finding c \<in> ff_id ` set findings" and "ck_method c \<in> set resolution_methods"
    and "strip (ck_check c) \<noteq> []" and "strip (ck_expected c) \<noteq> []"
  using assms
  by (auto simp: check_of_def sbind_eq_Inr need_Inr concrete_text_Some dest: method_of_Inr)

lemma validation_of_Inr:
  assumes "validation_of seen item = Inr v"
  shows "vs_id v \<notin> set seen" and "strip (vs_id v) \<noteq> []" and "strip (vs_command v) \<noteq> []" and "strip (vs_expected v) \<noteq> []"
  using assms by (auto simp: validation_of_def sbind_eq_Inr need_Inr concrete_text_Some)

definition validation_concrete :: "validation_spec \<Rightarrow> bool" where
  "validation_concrete v \<longleftrightarrow> strip (vs_id v) \<noteq> [] \<and> strip (vs_command v) \<noteq> [] \<and> strip (vs_expected v) \<noteq> []"

definition check_concrete :: "finding_check \<Rightarrow> bool" where
  "check_concrete c \<longleftrightarrow> ck_method c \<in> set resolution_methods \<and> strip (ck_check c) \<noteq> [] \<and> strip (ck_expected c) \<noteq> []"

lemma validations_of_Inr:
  "validations_of seen items = Inr vs \<Longrightarrow>
    distinct (map vs_id vs) \<and> vs_id ` set vs \<inter> set seen = {} \<and> (\<forall>v \<in> set vs. validation_concrete v)"
proof (induction items arbitrary: seen vs)
  case (Cons item items)
  then obtain v rest where v: "validation_of seen item = Inr v"
      and rest: "validations_of (vs_id v # seen) items = Inr rest" and vs: "vs = v # rest"
    by (auto simp: sbind_eq_Inr)
  show ?case
    using Cons.IH [OF rest] validation_of_Inr [OF v] by (auto simp: vs validation_concrete_def)
qed simp

text \<open>A contract is complete: every finding has a check, and everything in it is concrete.\<close>

definition contract_complete :: "fix_success \<Rightarrow> fix_finding list \<Rightarrow> bool" where
  "contract_complete sd findings \<longleftrightarrow>
    ck_finding ` set (su_checks sd) = ff_id ` set findings \<and> (\<forall>c \<in> set (su_checks sd). check_concrete c) \<and>
    distinct (map vs_id (su_validations sd)) \<and> (\<forall>v \<in> set (su_validations sd). validation_concrete v) \<and>
    strip (su_rule sd) \<noteq> []"

lemma smap_check_Inr:
  assumes "smap (check_of findings) raw = Inr checks"
  shows "\<forall>c \<in> set checks. ck_finding c \<in> ff_id ` set findings \<and> check_concrete c"
  using assms by (rule smap_all) (simp add: check_concrete_def check_of_Inr)

lemma success_definition_Inr:
  assumes "success_definition_from_json value findings = Inr sd"
  shows "contract_complete sd findings"
proof -
  from assms obtain raw_checks checks raw validations rule regress
    where c: "smap (check_of findings) raw_checks = Inr checks"
      and cover: "filter (\<lambda>i. i \<notin> ck_finding ` set checks) (map ff_id findings) = []"
      and v: "validations_of [] raw = Inr validations" and r: "strip rule \<noteq> []"
      and sd: "sd = \<lparr>su_checks = checks, su_validations = validations, su_regress = regress, su_rule = rule\<rparr>"
    by (auto simp: success_definition_from_json_def Let_def sbind_eq_Inr need_Inr concrete_text_Some)
  from cover have "ff_id ` set findings \<subseteq> ck_finding ` set checks" by (auto simp: filter_empty_conv)
  with smap_check_Inr [OF c] validations_of_Inr [OF v] r show ?thesis
    by (auto simp: sd contract_complete_def)
qed

lemma contract_covers: "contract_complete sd findings \<Longrightarrow> covers sd findings"
  by (auto simp: contract_complete_def covers_def)

lemma verified_grounding_Inr [result_simps]:
  "verified_grounding findings m sd cat = Inr g \<longleftrightarrow> resolve_grounding findings m sd cat = Inr g"
  by (simp add: verified_grounding_def split: sum.split)

lemma read_analysis_Inr:
  assumes "read_analysis findings m cat answer = Inr result"
  obtains plan accepted sd g where "result = fix_ignition plan accepted sd g" and "plan_ok plan m"
    and "\<forall>s \<in> set (xp_steps plan). fp_finding s \<in> ff_id ` set findings"
    and "contract_complete sd findings" and "resolve_grounding findings m sd cat = Inr g"
proof -
  from assms obtain d status plan gaps sd g
    where "plan_from_json (dget ''plan'' JNull d) findings m = Inr plan"
      and "success_definition_from_json (dget ''success_definition'' JNull d) findings = Inr sd"
      and "resolve_grounding findings m sd cat = Inr g"
      and "result = fix_ignition plan (status = ''accepted'') sd g"
    by (auto simp: read_analysis_def sbind_eq_Inr verified_grounding_Inr)
  then show ?thesis using that plan_from_json_Inr success_definition_Inr by metis
qed

lemma fix_ignition_fields [simp]:
  "ig_build (fix_ignition plan accepted sd g) = None" "ig_class (fix_ignition plan accepted sd g) = ''FixIgnitionResult''"
  "ig_candidate (fix_ignition plan accepted sd g) = Some (Typed_plan plan)" "ig_eligible (fix_ignition plan accepted sd g) = accepted"
  "ig_success (fix_ignition plan accepted sd g) = Some sd" "ig_grounding (fix_ignition plan accepted sd g) = Some (grounding_json g)"
  "ig_contract (fix_ignition plan accepted sd g) = JNull"
  by (simp_all add: fix_ignition_def)

lemma invoke_local_Inr:
  assumes "fst (invoke_local_fix worker plan findings m commands w) = Inr result"
  obtains answer where "read_analysis findings m (build_catalog findings m plan commands) answer = Inr result"
  using assms by (auto simp: invoke_local_fix_def Let_def split: prod.splits sum.splits)

lemma invoke_local_no_build:
  assumes "fst (invoke_local_fix worker plan findings m commands w) = Inr result"
  shows "ig_build result = None" and "ig_class result = ''FixIgnitionResult''"
proof -
  from assms obtain answer where "read_analysis findings m (build_catalog findings m plan commands) answer = Inr result"
    by (rule invoke_local_Inr)
  then show "ig_build result = None" "ig_class result = ''FixIgnitionResult''"
    by (auto elim!: read_analysis_Inr)
qed

end
