(* ===== verification/Fix_Artifacts.thy ===== *)
theory Fix_Artifacts
  imports Fix_Invoke Fix_Snapshot Validator
begin

text \<open>
  What the Fix host takes from the lifecycle of the runtime (\<open>src/openai_project/runtime/src/audisor\<close>):
  the policy and the sealed context of an operation (\<open>audisor_lifecycle/operation.py\<close>), the frozen
  analysis package (\<open>audisor_lifecycle/analysis_package.py\<close>), the operation artifact
  (\<open>audisor_lifecycle/artifacts.py\<close>) with the redaction of its texts (\<open>builder/evidence.py\<close>) and the
  normalisation of what it hashes (\<open>builder/safe_json.py\<close>).
\<close>

section \<open>Policy and context\<close>

record frozen_policy =
  po_enabled :: bool
  po_provider :: string
  po_model :: string
  po_url :: string
  po_timeout :: json

record analysis_package =
  pk_operation :: string
  pk_type :: string
  pk_task :: jdict
  pk_plan :: jdict
  pk_authority :: jdict
  pk_repository :: jdict
  pk_request :: jdict
  pk_workspace :: jdict
  pk_provider :: jdict
  pk_hash :: string

record operation_context =
  cx_operation :: string
  cx_type :: string
  cx_task :: jdict
  cx_plan :: jdict
  cx_repository :: jdict
  cx_workspace :: jdict
  cx_authority :: jdict
  cx_digest :: string
  cx_package :: "analysis_package option"

definition context_body :: "string \<Rightarrow> string \<Rightarrow> jdict \<Rightarrow> jdict \<Rightarrow> jdict \<Rightarrow> jdict \<Rightarrow> jdict \<Rightarrow> jdict" where
  "context_body operation kind task plan repository workspace authority = [
    (''operation_id'', JStr operation), (''operation_type'', JStr kind), (''accepted_task'', JObj task),
    (''accepted_plan'', JObj plan), (''repository_context'', JObj repository),
    (''workspace_identity'', JObj workspace), (''authority_context'', JObj authority)]"

definition make_operation_context ::
  "string \<Rightarrow> string \<Rightarrow> jdict \<Rightarrow> jdict \<Rightarrow> jdict \<Rightarrow> jdict \<Rightarrow> jdict \<Rightarrow> analysis_package option \<Rightarrow> operation_context" where
  "make_operation_context operation kind task plan repository workspace authority package =
    \<lparr>cx_operation = operation, cx_type = kind, cx_task = task, cx_plan = plan, cx_repository = repository,
     cx_workspace = workspace, cx_authority = authority,
     cx_digest = sha256_hex (json_dumps_canonical (JObj (context_body operation kind task plan repository workspace authority
       @ [(''analysis_package_hash'', case package of None \<Rightarrow> JNull | Some p \<Rightarrow> JStr (pk_hash p))]))),
     cx_package = package\<rparr>"

section \<open>The frozen analysis package\<close>

definition package_error :: "string \<Rightarrow> raised" where
  "package_error message = plain_error ''AnalysisPackageError'' message"

definition request_version :: string where
  "request_version = ''1.0.0''"

definition request_issue :: "validation_error \<Rightarrow> string" where
  "request_issue e = CHR ''/'' # join ''/'' (map part_str (ve_path e)) @ '': '' @ ve_message e"

text \<open>
  The schema documents are read from a directory: the parameter \<open>schemas\<close> is what that raises, or the
  errors that the \<open>jsonschema\<close> package reports for a request.
\<close>

type_synonym request_schemas = "raised + (json \<Rightarrow> validation_error list)"

definition validate_analysis_request :: "request_schemas \<Rightarrow> jdict \<Rightarrow> raised + jdict" where
  "validate_analysis_request schemas value =
    sbind schemas (\<lambda>iter.
      (let errors = sort_key (\<lambda>e. (ve_path e, ve_message e)) (iter (JObj value))
       in if errors \<noteq> []
          then Inl (package_error (''analysis-request schema validation failed: '' @ join ''; '' (map request_issue (take 8 errors))))
          else (case copy_value (JObj value) of
              JObj request \<Rightarrow>
                sbind (check_that (dget ''schema_version'' JNull request = JStr request_version)
                  (package_error ''analysis-request schema version is not frozen v1.0.0'')) (\<lambda>_. Inr request)
            | _ \<Rightarrow> Inr [])))"

definition package_payload :: "analysis_package \<Rightarrow> jdict" where
  "package_payload p = [
    (''operation_id'', JStr (pk_operation p)), (''operation_type'', JStr (pk_type p)),
    (''accepted_task'', copy_value (JObj (pk_task p))), (''accepted_plan'', copy_value (JObj (pk_plan p))),
    (''authority_context'', copy_value (JObj (pk_authority p))),
    (''repository_context'', copy_value (JObj (pk_repository p))),
    (''workspace_identity'', copy_value (JObj (pk_workspace p))),
    (''provider_policy'', copy_value (JObj (pk_provider p))),
    (''analysis_request'', copy_value (JObj (pk_request p)))]"

definition package_sha256 :: "jdict \<Rightarrow> string" where
  "package_sha256 payload = ''sha256:'' @ sha256_hex (canonical_text (JObj payload))"

definition assemble_analysis_package ::
  "request_schemas \<Rightarrow> string \<Rightarrow> string \<Rightarrow> jdict \<Rightarrow> jdict \<Rightarrow> jdict \<Rightarrow> jdict \<Rightarrow> jdict \<Rightarrow> jdict \<Rightarrow> jdict \<Rightarrow> raised + analysis_package" where
  "assemble_analysis_package schemas operation kind task plan authority analysis_request repository workspace provider =
    sbind (check_that (operation \<noteq> [] \<and> kind \<in> {''build'', ''fix''}) (package_error ''invalid Audisor operation identity'')) (\<lambda>_.
    sbind (validate_analysis_request schemas analysis_request) (\<lambda>request.
    sbind (check_that (dget ''analysis_id'' JNull request = JStr operation)
      (package_error ''analysis_id must equal the host operation_id'')) (\<lambda>_.
    sbind (check_that (workspace \<noteq> []) (package_error ''workspace identity is required'')) (\<lambda>_.
    sbind (check_that (provider \<noteq> []) (package_error ''provider/model policy is required'')) (\<lambda>_.
      (let package = \<lparr>pk_operation = operation, pk_type = kind, pk_task = task, pk_plan = plan, pk_authority = authority,
          pk_repository = repository, pk_request = request, pk_workspace = workspace, pk_provider = provider, pk_hash = []\<rparr>
       in Inr (package\<lparr>pk_hash := package_sha256 (package_payload package)\<rparr>)))))))"

definition package_from_context ::
  "request_schemas \<Rightarrow> string \<Rightarrow> string \<Rightarrow> jdict \<Rightarrow> jdict \<Rightarrow> jdict \<Rightarrow> jdict \<Rightarrow> jdict \<Rightarrow> jdict \<Rightarrow> raised + analysis_package" where
  "package_from_context schemas operation kind task plan authority repository workspace provider =
    (case dget ''aflow_analysis_request'' JNull repository of
       JObj request \<Rightarrow> assemble_analysis_package schemas operation kind task plan authority request repository workspace provider
     | _ \<Rightarrow> Inl (package_error ''accepted operation lacks aflow_analysis_request''))"

section \<open>Redaction\<close>

definition word_char :: "char \<Rightarrow> bool" where
  "word_char c \<longleftrightarrow> is_digit c \<or> (let l = of_char (lower_char c) :: nat in 97 \<le> l \<and> l \<le> 122) \<or> c = CHR ''_''"

definition token_char :: "char \<Rightarrow> bool" where
  "token_char c \<longleftrightarrow> word_char c \<or> c = CHR ''-''"

text \<open>
  \<open>TOKEN_SHAPE_RE\<close> at the start of a text: a prefix, a hyphen and at least eight token characters up to
  the last word boundary among them.  \<open>boundary run n\<close> is the boundary after \<open>n\<close> characters of the
  longest run; what follows the run is no word character.
\<close>

definition boundary :: "string \<Rightarrow> nat \<Rightarrow> bool" where
  "boundary run n \<longleftrightarrow> word_char (run ! (n - 1)) \<noteq> (n < length run \<and> word_char (run ! n))"

definition token_prefixes :: "string list" where
  "token_prefixes = [''sk-'', ''fw-'', ''key-'', ''token-'']"

definition token_length :: "string \<Rightarrow> nat option" where
  "token_length s =
    (case find (\<lambda>p. startswith (lower s) p) token_prefixes of
       None \<Rightarrow> None
     | Some p \<Rightarrow>
         (let run = takeWhile token_char (drop (length p) s)
          in map_option (\<lambda>n. length p + n) (find (\<lambda>n. 8 \<le> n \<and> boundary run n) (rev [0..<Suc (length run)]))))"

definition redacted :: string where
  "redacted = ''[REDACTED]''"

fun redact_tokens :: "nat \<Rightarrow> bool \<Rightarrow> string \<Rightarrow> string" where
  "redact_tokens 0 after_word s = s"
| "redact_tokens (Suc fuel) after_word [] = []"
| "redact_tokens (Suc fuel) after_word (c # s) =
    (case (if after_word then None else token_length (c # s)) of
       None \<Rightarrow> c # redact_tokens fuel (word_char c) s
     | Some n \<Rightarrow> redacted @ redact_tokens fuel (word_char ((c # s) ! (n - 1))) (drop n (c # s)))"

definition utf8_tail :: "char \<Rightarrow> bool" where
  "utf8_tail c \<longleftrightarrow> 128 \<le> (of_char c :: nat) \<and> (of_char c :: nat) < 192"

text \<open>\<open>encoded[:limit].decode(errors="ignore")\<close>: a code point that is cut is dropped.\<close>

definition utf8_cut :: "nat \<Rightarrow> string \<Rightarrow> string" where
  "utf8_cut n s =
    (if n < length s \<and> utf8_tail (s ! n)
     then rev (tl (dropWhile utf8_tail (rev (take n s)))) else take n s)"

definition sanitize_text :: "string list \<Rightarrow> nat \<Rightarrow> string \<Rightarrow> string \<times> bool" where
  "sanitize_text secrets limit value =
    (let hidden = foldl (\<lambda>text secret. replace secret redacted text) value secrets;
         text = redact_tokens (Suc (length hidden)) False hidden
     in if limit < length text
        then (utf8_cut limit text @ [CHR 0xE2, CHR 0x80, CHR 0xA6] @ ''[truncated]'', True) else (text, False))"

section \<open>The operation artifact\<close>

definition max_depth :: nat where
  "max_depth = 64"

fun normalize_json_safe :: "nat \<Rightarrow> json \<Rightarrow> json" where
  "normalize_json_safe depth (JList xs) =
    (if max_depth < depth then JStr ''<maximum depth exceeded>'' else JList (map (normalize_json_safe (Suc depth)) xs))"
| "normalize_json_safe depth (JObj kvs) =
    (if max_depth < depth then JStr ''<maximum depth exceeded>''
     else JObj (map (\<lambda>(k, v). (k, normalize_json_safe (Suc depth) v)) kvs))"
| "normalize_json_safe depth v = (if max_depth < depth then JStr ''<maximum depth exceeded>'' else v)"

definition canonical_json_bytes :: "json \<Rightarrow> string" where
  "canonical_json_bytes value = json_dumps_canonical (normalize_json_safe 0 value) @ [CHR 0x0A]"

definition failure_codes :: "(string, string) dict" where
  "failure_codes = [(''package_validation_failed'', ''package_persistence_failed''), (''provider_failed'', ''provider_failed''),
    (''validation_failed'', ''final_schema_failed''), (''rejected'', ''decision_inconsistent'')]"

text \<open>\<open>getattr(error, "code", None) or FAILURE_CODE_BY_STATUS.get(status, type(error).__name__)\<close>.\<close>

definition failure_code :: "string \<Rightarrow> raised \<Rightarrow> json" where
  "failure_code status e =
    (let own = (case ex_code e of None \<Rightarrow> JNull | Some v \<Rightarrow> v)
     in if truth own then own
        else JStr (case map_of failure_codes status of None \<Rightarrow> ex_class e | Some c \<Rightarrow> c))"

definition error_body :: "string list \<Rightarrow> string \<Rightarrow> raised \<Rightarrow> json" where
  "error_body secrets status e = JObj [
    (''code'', failure_code status e), (''message'', JStr (fst (sanitize_text secrets 1000 (ex_text e)))),
    (''detail'', ex_detail e), (''missing_inputs'', JList (ex_missing e)), (''gaps'', JList (ex_gaps e)),
    (''required_corrections'', JList (ex_corrections e)), (''retry_prompt'', ex_retry e)]"

definition no_authority :: json where
  "no_authority = JObj [(''mutation_authorized'', JBool False), (''execution_authorized'', JBool False),
    (''apply_authorized'', JBool False), (''completion_claimed'', JBool False)]"

definition contract_decision :: "json \<Rightarrow> json" where
  "contract_decision contract =
    (case contract of
       JObj d \<Rightarrow> (case dget ''readiness'' JNull d of JObj r \<Rightarrow> dget ''aflow_decision'' JNull r | _ \<Rightarrow> JNull)
     | _ \<Rightarrow> JNull)"

definition artifact_document ::
  "string list \<Rightarrow> operation_context \<Rightarrow> frozen_policy \<Rightarrow> string \<Rightarrow> json \<Rightarrow> json \<Rightarrow> bool \<Rightarrow> raised option \<Rightarrow> jdict" where
  "artifact_document secrets context policy status analysis contract accepted error = [
    (''schema_version'', JInt 1),
    (''operation_id'', JStr (cx_operation context)),
    (''operation_type'', JStr (cx_type context)),
    (''context_sha256'', JStr (cx_digest context)),
    (''policy'', JObj [(''enabled'', JBool (po_enabled policy)), (''provider'', JStr (po_provider policy)),
       (''model_id'', JStr (po_model policy)), (''base_url'', JStr (po_url policy)), (''timeout_seconds'', po_timeout policy)]),
    (''status'', JStr status),
    (''failure_code'', case error of None \<Rightarrow> JNull | Some e \<Rightarrow> failure_code status e),
    (''decision'', contract_decision contract),
    (''implementation_eligible'', JBool accepted),
    (''analysis_only'', JBool (analysis \<noteq> JNull)),
    (''build_analysis'', analysis),
    (''raw_response_sha256'', JNull),
    (''execution_contract_sha256'', if contract = JNull then JNull else JStr (sha256_hex (canonical_json_bytes contract))),
    (''error'', case error of None \<Rightarrow> JNull | Some e \<Rightarrow> error_body secrets status e),
    (''authority'', no_authority)]"

text \<open>
  \<open>audisor_operation_artifact\<close> without a result, and with one: the first thing it does with a result
  is to read the attribute \<open>build_analysis\<close>.
\<close>

definition plain_artifact :: "string list \<Rightarrow> operation_context \<Rightarrow> frozen_policy \<Rightarrow> string \<Rightarrow> raised option \<Rightarrow> jdict" where
  "plain_artifact secrets context policy status error =
    artifact_document secrets context policy status JNull JNull False error"

definition attribute_missing :: "string \<Rightarrow> string \<Rightarrow> raised" where
  "attribute_missing cls name = plain_error ''AttributeError''
    (py_repr_str cls @ '' object has no attribute '' @ py_repr_str name)"

definition result_artifact :: "string list \<Rightarrow> operation_context \<Rightarrow> frozen_policy \<Rightarrow> string \<Rightarrow> ignition \<Rightarrow> raised + jdict" where
  "result_artifact secrets context policy status result =
    (case ig_build result of
       None \<Rightarrow> Inl (attribute_missing (ig_class result) ''build_analysis'')
     | Some analysis \<Rightarrow>
         (let contract = (if analysis = JNull then ig_contract result else JNull)
          in Inr (artifact_document secrets context policy status analysis contract
               (analysis = JNull \<and> ig_eligible result) None)))"

end
