(* ===== verification/Fix_Host.thy ===== *)
theory Fix_Host
  imports Fix_Artifacts
begin

text \<open>
  The accepted-operation host of the Fix engine (\<open>controllers/fix_host.py\<close>): the operation store, the
  dependency evidence that is prepared before the model is asked, and the dispatcher.

  A directory maps file names to the documents their texts denote.  The policy reader, the igniter,
  the worker, the repository and the two callbacks are functions on an environment \<open>'w\<close>, and may raise.
  A dispatch gives a value or an exception together with the directory and the environment it
  leaves.  Dispatches of one operation run one after another (\<open>_operation_lock\<close>).
\<close>

section \<open>Operations and the store\<close>

record fix_operation =
  fo_id :: string
  fo_findings :: "fix_finding list"
  fo_manifest :: fix_manifest
  fo_statements :: "fix_statement list"
  fo_plan :: fix_plan
  fo_workspace :: jdict
  fo_authority :: jdict
  fo_request :: "jdict option"
  fo_decisions :: "jdict option"
  fo_request_present :: bool

text \<open>\<open>persist\<close> writes the artifact with its keys sorted.\<close>

definition fix_load :: "op_files \<Rightarrow> string \<Rightarrow> json option" where
  "fix_load files ident = map_of files (record_path ident)"

definition fix_persist :: "string \<Rightarrow> jdict \<Rightarrow> op_files \<Rightarrow> op_files" where
  "fix_persist ident artifact files = AList.update (record_path ident) (copy_value (JObj artifact)) files"

definition handoff_name :: "string \<Rightarrow> string" where
  "handoff_name ident = ident @ ''/qualified-fix-handoff.json''"

fun candidate_json :: "candidate \<Rightarrow> json" where
  "candidate_json (Typed_plan p) = fix_plan_json p"
| "candidate_json (Plan_dict d) = JObj d"
| "candidate_json (Plan_object doc qualified) = doc"

definition contract_json :: "fix_success \<Rightarrow> json" where
  "contract_json sd = JObj [
    (''finding_checks'', JList (map finding_check_json (su_checks sd))),
    (''validations'', JList (map validation_spec_json (su_validations sd))),
    (''must_not_regress'', strs (su_regress sd)), (''success_rule'', JStr (su_rule sd))]"

text \<open>The plan that counts: the igniter's candidate, or the accepted one.\<close>

definition candidate_plan :: "fix_operation \<Rightarrow> ignition \<Rightarrow> candidate" where
  "candidate_plan oper result = (case ig_candidate result of None \<Rightarrow> Typed_plan (fo_plan oper) | Some c \<Rightarrow> c)"

definition handoff_payload :: "fix_operation \<Rightarrow> ignition \<Rightarrow> jdict" where
  "handoff_payload oper result = [
     (''schema_version'', JInt 1),
     (''operation_id'', JStr (fo_id oper)),
     (''operation_type'', JStr ''fix''),
     (''findings'', JList (map fix_finding_json (fo_findings oper))),
     (''scoped_manifest'', fix_manifest_json (fo_manifest oper)),
     (''statements'', JList (map fix_statement_json (fo_statements oper))),
     (''qualified_plan'', candidate_json (candidate_plan oper result)),
     (''authority'', no_authority)]
   @ (case ig_success result of None \<Rightarrow> [] | Some sd \<Rightarrow> [(''verification_contract'', contract_json sd)])
   @ (case ig_grounding result of None \<Rightarrow> [] | Some g \<Rightarrow> [(''verification_grounding'', g)])
   @ (case fo_decisions oper of None \<Rightarrow> [] | Some ds \<Rightarrow> emit (ds \<noteq> []) (''authority_decisions'', JObj ds))"

definition handoff_digest :: "jdict \<Rightarrow> string" where
  "handoff_digest payload = sha256_hex (json_dumps_canonical (JObj payload) @ [CHR 0x0A])"

definition sealed_handoff :: "fix_operation \<Rightarrow> ignition \<Rightarrow> jdict" where
  "sealed_handoff oper result =
    (let payload = handoff_payload oper result
     in payload @ [(''handoff_sha256'', JStr (handoff_digest payload))])"

definition persist_handoff :: "fix_operation \<Rightarrow> ignition \<Rightarrow> op_files \<Rightarrow> op_files" where
  "persist_handoff oper result files =
    AList.update (handoff_name (fo_id oper)) (copy_value (JObj (sealed_handoff oper result))) files"

section \<open>Dependency evidence\<close>

text \<open>The identity of a record is a triple of \<open>get\<close>s.\<close>

definition record_key :: "jdict \<Rightarrow> json \<times> json \<times> json" where
  "record_key r = (dget ''originating_finding_id'' JNull r, dget ''dependency_source'' JNull r, dget ''dependency_target'' JNull r)"

text \<open>A record joins the list of its path unless its key is there already.\<close>

definition join_record :: "jdict list \<Rightarrow> jdict \<Rightarrow> jdict list" where
  "join_record rs r = (if record_key r \<in> set (map record_key rs) then rs else rs @ [r])"

definition join_entry :: "evidence \<Rightarrow> string \<times> jdict list \<Rightarrow> evidence" where
  "join_entry ev e =
    AList.update (fst e) (foldl join_record (case map_of ev (fst e) of None \<Rightarrow> [] | Some rs \<Rightarrow> rs) (snd e)) ev"

definition merged_evidence :: "evidence \<Rightarrow> evidence \<Rightarrow> evidence" where
  "merged_evidence existing new = sort_key fst (foldl join_entry existing new)"

definition enriched_manifest :: "fix_manifest \<Rightarrow> string list \<Rightarrow> evidence \<Rightarrow> fix_manifest" where
  "enriched_manifest m closure ev =
    \<lparr>fm_files = fm_files m, fm_closure = sorted_set (fm_closure m @ closure), fm_input_hash = fm_input_hash m,
     fm_file_hashes = fm_file_hashes m, fm_evidence = merged_evidence (fm_evidence m) ev\<rparr>"

definition originates :: "fix_finding \<Rightarrow> jdict \<Rightarrow> bool" where
  "originates f r \<longleftrightarrow> map_of r ''originating_finding_id'' = Some (JStr (ff_id f))"

definition own_records :: "evidence \<Rightarrow> fix_finding \<Rightarrow> jdict list" where
  "own_records ev f = for_each ev (\<lambda>(path, rs). filter (originates f) rs)"

definition own_paths :: "evidence \<Rightarrow> fix_finding \<Rightarrow> string list" where
  "own_paths ev f = map fst (filter (\<lambda>(path, rs). list_ex (originates f) rs) ev)"

text \<open>\<open>repr\<close> of the module entry of the evidence, which may be any value.\<close>

definition missing_module :: "fix_finding \<Rightarrow> string" where
  "missing_module f = py_repr (dget ''module'' (JStr ''unknown'') (evidence_dict f))"

definition resolve_finding :: "evidence \<Rightarrow> fix_finding \<Rightarrow> resolution" where
  "resolve_finding ev f =
    (if ff_type f \<noteq> unresolved_type
     then \<lparr>rz_finding = ff_id f, rz_resolved = True, rz_paths = [], rz_records = [], rz_failure = None\<rparr>
     else if own_paths ev f \<noteq> []
     then \<lparr>rz_finding = ff_id f, rz_resolved = True, rz_paths = own_paths ev f, rz_records = own_records ev f, rz_failure = None\<rparr>
     else \<lparr>rz_finding = ff_id f, rz_resolved = False, rz_paths = [], rz_records = [],
       rz_failure = Some (''no repository-local target found for import '' @ missing_module f @ '' from '' @ ff_file f)\<rparr>)"

text \<open>
  \<open>_prepare_dependency_evidence\<close>, given what \<open>resolve_dependency_details\<close> found; a missing file makes
  that nothing.
\<close>

definition found_dependencies :: "(string list \<times> evidence) result \<Rightarrow> string list \<times> evidence" where
  "found_dependencies r = (case r of Inl _ \<Rightarrow> ([], []) | Inr found \<Rightarrow> found)"

definition prepare_dependency_evidence ::
  "fix_operation \<Rightarrow> (string list \<times> evidence) result \<Rightarrow> fix_operation \<times> resolution list" where
  "prepare_dependency_evidence oper found =
    (case found_dependencies found of (closure, ev) \<Rightarrow>
       (let m = enriched_manifest (fo_manifest oper) closure ev
        in (oper\<lparr>fo_manifest := m\<rparr>, map (resolve_finding (fm_evidence m)) (fo_findings oper))))"

section \<open>The dispatcher\<close>

text \<open>
  \<open>Local_boundary\<close> is the igniter \<open>ignite\<close> itself, which makes the dispatcher call
  \<open>invoke_local_fix\<close>.
\<close>

datatype 'w igniter =
    Local_boundary
  | Custom_igniter "operation_context \<Rightarrow> frozen_policy \<Rightarrow> 'w \<Rightarrow> (raised + ignition) \<times> 'w"

text \<open>What a continuation is given: the artifact of a skipped analysis, or the accepted result.\<close>

datatype continuation_input = Skipped jdict | Analysed ignition

record 'w fix_host =
  fh_base :: string
  fh_routing :: bool
  fh_policy :: "'w \<Rightarrow> frozen_policy \<times> 'w"
  fh_imports :: import_parser
  fh_tree :: "'w \<Rightarrow> tree"
  fh_cwd :: "string list"
  fh_schemas :: "'w \<Rightarrow> request_schemas"
  fh_secrets :: "'w \<Rightarrow> string list"
  fh_igniter :: "'w igniter"
  fh_worker :: "frozen_policy \<Rightarrow> string \<Rightarrow> 'w \<Rightarrow> (raised + json) \<times> 'w"
  fh_continue :: "fix_operation \<Rightarrow> continuation_input \<Rightarrow> 'w \<Rightarrow> (raised + json) \<times> 'w"
  fh_finalize :: "fix_operation \<Rightarrow> jdict \<Rightarrow> 'w \<Rightarrow> (raised + json) \<times> 'w"

record routing_result =
  rr_operation :: string
  rr_route :: string
  rr_artifact :: jdict
  rr_reason :: "string option"
  rr_schema :: "json option"
  rr_affected :: "string list"
  rr_independent :: "string list"

text \<open>The stored artifact of an earlier dispatch, a routing result, or what a callback returned.\<close>

datatype dispatched = Stored json | Routed routing_result | Returned json

type_synonym 'w host_state = "op_files \<times> 'w"
type_synonym 'w outcome = "(raised + dispatched) \<times> 'w host_state"

definition call_back :: "(raised + json) \<times> 'w \<Rightarrow> op_files \<Rightarrow> 'w outcome" where
  "call_back r files = (case r of (Inl e, w) \<Rightarrow> (Inl e, files, w) | (Inr v, w) \<Rightarrow> (Inr (Returned v), files, w))"

definition route_or_finalize ::
  "'w fix_host \<Rightarrow> fix_operation \<Rightarrow> jdict \<Rightarrow> string \<Rightarrow> string option \<Rightarrow> 'w host_state \<Rightarrow> 'w outcome" where
  "route_or_finalize h oper artifact route reason st =
    (if fh_routing h
     then (Inr (Routed \<lparr>rr_operation = fo_id oper, rr_route = route, rr_artifact = artifact, rr_reason = reason,
         rr_schema = (case reason of None \<Rightarrow> None | Some r \<Rightarrow>
           if r = [] then None else Some (JObj [(''type'', JStr ''object''), (''properties'', JObj [])])),
         rr_affected = map ff_id (fo_findings oper), rr_independent = []\<rparr>), st)
     else call_back (fh_finalize h oper artifact (snd st)) (fst st))"

text \<open>Persist an artifact, then route or finalize.\<close>

definition stop_with ::
  "'w fix_host \<Rightarrow> fix_operation \<Rightarrow> jdict \<Rightarrow> string \<Rightarrow> string option \<Rightarrow> 'w host_state \<Rightarrow> 'w outcome" where
  "stop_with h oper artifact route reason st =
    route_or_finalize h oper artifact route reason (fix_persist (fo_id oper) artifact (fst st), snd st)"

definition invalid_artifact :: "fix_operation \<Rightarrow> string \<Rightarrow> string \<Rightarrow> jdict" where
  "invalid_artifact oper code message = [
    (''operation_id'', JStr (fo_id oper)), (''operation_type'', JStr ''fix''), (''status'', JStr ''validation_failed''),
    (''implementation_eligible'', JBool False),
    (''error'', JObj [(''code'', JStr code), (''message'', JStr message)])]"

fun error_text :: "py_error \<Rightarrow> string" where
  "error_text (ValueError m) = m"
| "error_text _ = []"

definition snapshot_guard :: "fix_manifest \<Rightarrow> unit result" where
  "snapshot_guard m = run_all [
     manifest_validate m,
     require (fm_file_hashes m \<noteq> []) (ValueError ''scoped_snapshot_required''),
     require (fm_input_hash m = strip (fm_input_hash m)) (ValueError ''invalid_snapshot_hash'')]"

definition accepted_task :: "fix_operation \<Rightarrow> jdict" where
  "accepted_task oper = [
    (''findings'', JList (map fix_finding_json (fo_findings oper))), (''manifest'', fix_manifest_json (fo_manifest oper)),
    (''statements'', JList (map fix_statement_json (fo_statements oper)))]"

definition accepted_plan :: "fix_operation \<Rightarrow> jdict" where
  "accepted_plan oper = (case fix_plan_json (fo_plan oper) of JObj d \<Rightarrow> d | _ \<Rightarrow> [])"

definition repository_context :: "fix_operation \<Rightarrow> jdict" where
  "repository_context oper = [
    (''authority'', JObj (fo_authority oper)),
    (''baseline_evidence'', JObj [(''workspace'', JObj (fo_workspace oper))]),
    (''accepted_constraints'', JObj [(''operation_type'', JStr ''fix'')]),
    (''required_outputs'', strs (fm_files (fo_manifest oper)))]"

definition operation_context_of :: "fix_operation \<Rightarrow> analysis_package option \<Rightarrow> operation_context" where
  "operation_context_of oper package =
    make_operation_context (fo_id oper) ''fix'' (accepted_task oper) (accepted_plan oper) (repository_context oper)
      (fo_workspace oper) (fo_authority oper) package"

definition provider_policy :: "frozen_policy \<Rightarrow> jdict" where
  "provider_policy p = [(''provider'', JStr (po_provider p)), (''base_url'', JStr (po_url p)),
    (''model_id'', JStr (po_model p)), (''timeout_seconds'', po_timeout p)]"

definition custom :: "'w fix_host \<Rightarrow> bool" where
  "custom h \<longleftrightarrow> (case fh_igniter h of Local_boundary \<Rightarrow> False | Custom_igniter _ \<Rightarrow> True)"

definition build_package :: "'w fix_host \<Rightarrow> fix_operation \<Rightarrow> frozen_policy \<Rightarrow> 'w \<Rightarrow> raised + analysis_package" where
  "build_package h oper policy w =
    package_from_context (fh_schemas h w) (fo_id oper) ''fix'' (accepted_task oper) (accepted_plan oper) (fo_authority oper)
      (AList.update ''aflow_analysis_request'' (case fo_request oper of None \<Rightarrow> JNull | Some d \<Rightarrow> JObj d) (repository_context oper))
      (fo_workspace oper) (provider_policy policy)"

text \<open>The decisions that are mappings, read; one that lacks an entry raises.\<close>

fun read_decisions :: "jdict \<Rightarrow> (string \<times> authority_decision) list result" where
  "read_decisions [] = Inr []"
| "read_decisions ((k, v) # ds) =
    (case v of
       JObj d \<Rightarrow> rbind (decision_of d) (\<lambda>x. rbind (read_decisions ds) (\<lambda>xs. Inr ((k, x) # xs)))
     | _ \<Rightarrow> read_decisions ds)"

definition given_decisions :: "fix_operation \<Rightarrow> (string \<times> authority_decision) list result" where
  "given_decisions oper = (case fo_decisions oper of None \<Rightarrow> Inr [] | Some ds \<Rightarrow> read_decisions ds)"

definition decision_artifact :: "fix_operation \<Rightarrow> authority_evaluation \<Rightarrow> jdict" where
  "decision_artifact oper e = [
    (''operation_id'', JStr (fo_id oper)), (''operation_type'', JStr ''fix''), (''status'', JStr ''blocked''),
    (''implementation_eligible'', JBool False), (''unresolved_reason'', JStr ''decision_required''),
    (''authority_evaluation'', authority_evaluation_json e)]"

definition resolution_json :: "resolution \<Rightarrow> json" where
  "resolution_json r = JObj [(''finding_id'', JStr (rz_finding r)), (''resolved'', JBool (rz_resolved r)),
    (''resolved_paths'', strs (rz_paths r)), (''failure_reason'', nullable JStr (rz_failure r))]"

definition gap_artifact :: "fix_operation \<Rightarrow> completeness \<Rightarrow> resolution list \<Rightarrow> jdict" where
  "gap_artifact oper c results = [
    (''operation_id'', JStr (fo_id oper)), (''operation_type'', JStr ''fix''), (''status'', JStr ''blocked''),
    (''implementation_eligible'', JBool False), (''unresolved_reason'', JStr ''information_gap''),
    (''completeness_status'', JStr (cm_status c)), (''missing_info'', strs (cm_missing c)),
    (''dependency_resolution'', JList (map resolution_json results)), (''attempted_resolution_count'', JInt 1)]"

text \<open>\<open>getattr(exc, "code", "").startswith("provider")\<close>: a code that is no string raises.\<close>

definition failure_status :: "raised \<Rightarrow> raised + string" where
  "failure_status e =
    (case ex_code e of
       None \<Rightarrow> Inr ''validation_failed''
     | Some (JStr c) \<Rightarrow> Inr (if startswith c ''provider'' then ''provider_failed'' else ''validation_failed'')
     | Some _ \<Rightarrow> Inl (attribute_missing ''object'' ''startswith''))"

definition ignite_with ::
  "'w fix_host \<Rightarrow> fix_operation \<Rightarrow> operation_context \<Rightarrow> frozen_policy \<Rightarrow> 'w \<Rightarrow> (raised + ignition) \<times> 'w" where
  "ignite_with h oper context policy w =
    (case fh_igniter h of
       Local_boundary \<Rightarrow> invoke_local_fix (fh_worker h policy) (fo_plan oper) (fo_findings oper) (fo_manifest oper) [] w
     | Custom_igniter ignite \<Rightarrow> ignite context policy w)"

text \<open>After the model: completeness, the handoff, the artifact, the continuation.\<close>

definition conclude_analysis ::
  "'w fix_host \<Rightarrow> fix_operation \<Rightarrow> resolution list \<Rightarrow> operation_context \<Rightarrow> frozen_policy \<Rightarrow> ignition \<Rightarrow> 'w host_state \<Rightarrow> 'w outcome" where
  "conclude_analysis h oper results context policy result st =
    (let c = evaluate_fix_completeness (candidate_plan oper result) (fo_findings oper) results
     in if cm_status c \<noteq> ''pass''
        then stop_with h oper (gap_artifact oper c results) ''suspend_evidence'' (Some ''needs_evidence'') st
        else (case result_artifact (fh_secrets h (snd st)) context policy
              (if ig_eligible result then ''accepted'' else ''rejected'') result of
            Inl e \<Rightarrow> (Inl e, st)
          | Inr artifact \<Rightarrow>
              (if ig_eligible result
               then call_back (fh_continue h oper (Analysed result) (snd st))
                 (fix_persist (fo_id oper)
                   (AList.update ''handoff_path'' (JStr (fh_base h @ ''/'' @ handoff_name (fo_id oper))) artifact)
                   (persist_handoff oper result (fst st)))
               else stop_with h oper artifact ''rejected'' None st)))"

text \<open>From the authority decisions on.\<close>

definition analyse_operation ::
  "'w fix_host \<Rightarrow> fix_operation \<Rightarrow> resolution list \<Rightarrow> operation_context \<Rightarrow> frozen_policy \<Rightarrow> 'w host_state \<Rightarrow> 'w outcome" where
  "analyse_operation h oper results context policy st =
    (case given_decisions oper of
       Inl e \<Rightarrow> (Inl (raised_of e), st)
     | Inr decisions \<Rightarrow>
         (let e = evaluate_authority (fo_findings oper) (dict_of decisions)
          in if av_status e = ''decision_required''
             then stop_with h oper (decision_artifact oper e) ''suspend_decision'' (Some ''needs_decision'') st
             else (case ignite_with h oper context policy (snd st) of
                 (Inl x, w) \<Rightarrow>
                   (case failure_status x of
                      Inl y \<Rightarrow> (Inl y, fst st, w)
                    | Inr status \<Rightarrow>
                        stop_with h oper (plain_artifact (fh_secrets h w) context policy status (Some x))
                          ''suspend_evidence'' (Some ''needs_provider_recovery'') (fst st, w))
               | (Inr result, w) \<Rightarrow> conclude_analysis h oper results context policy result (fst st, w))))"

text \<open>\<open>Path(workspace_identity.get("root", cwd))\<close>: a root that is no string raises.\<close>

definition workspace_root :: "'w fix_host \<Rightarrow> fix_operation \<Rightarrow> raised + string list" where
  "workspace_root h oper =
    (case map_of (fo_workspace oper) ''root'' of
       None \<Rightarrow> Inr (fh_cwd h)
     | Some (JStr r) \<Rightarrow> Inr (resolve_path (fh_cwd h) r)
     | Some _ \<Rightarrow> Inl (plain_error ''TypeError'' ''argument should be a str or an os.PathLike object''))"

definition look_up_dependencies :: "'w fix_host \<Rightarrow> string list \<Rightarrow> fix_operation \<Rightarrow> 'w \<Rightarrow> (string list \<times> evidence) result" where
  "look_up_dependencies h base oper w = resolve_dependency_details (fh_imports h) (fh_tree h w) base (fo_findings oper)"

text \<open>The package of the custom igniter, when the policy asks for an analysis and a request is there.\<close>

definition package_for :: "'w fix_host \<Rightarrow> fix_operation \<Rightarrow> frozen_policy \<Rightarrow> 'w \<Rightarrow> raised + analysis_package option" where
  "package_for h oper policy w =
    (if po_enabled policy \<and> custom h \<and> fo_request_present oper
     then sbind (build_package h oper policy w) (\<lambda>p. Inr (Some p)) else Inr None)"

definition dispatch_prepared :: "'w fix_host \<Rightarrow> fix_operation \<Rightarrow> resolution list \<Rightarrow> 'w host_state \<Rightarrow> 'w outcome" where
  "dispatch_prepared h oper results st =
    (case fh_policy h (snd st) of (policy, w) \<Rightarrow>
       (case package_for h oper policy w of
          Inl x \<Rightarrow>
            stop_with h oper (plain_artifact (fh_secrets h w) (operation_context_of oper None) policy
                (if ex_class x = ''AnalysisPackageError'' then ''package_validation_failed'' else ''internal_error'') (Some x))
              ''suspend_repair'' (Some ''needs_package_repair'') (fst st, w)
        | Inr package \<Rightarrow>
            (let context = operation_context_of oper package
             in if \<not> po_enabled policy
                then (let artifact = plain_artifact (fh_secrets h w) context policy ''skipped_disabled'' None
                      in call_back (fh_continue h oper (Skipped artifact) w) (fix_persist (fo_id oper) artifact (fst st)))
                else analyse_operation h oper results context policy (fst st, w))))"

definition dispatch_valid :: "'w fix_host \<Rightarrow> fix_operation \<Rightarrow> 'w host_state \<Rightarrow> 'w outcome" where
  "dispatch_valid h oper st =
    (case workspace_root h oper of
       Inl e \<Rightarrow> (Inl e, st)
     | Inr base \<Rightarrow>
         (case prepare_dependency_evidence oper (look_up_dependencies h base oper (snd st)) of
            (enriched, results) \<Rightarrow> dispatch_prepared h enriched results st))"

definition dispatch_fix :: "'w fix_host \<Rightarrow> fix_operation \<Rightarrow> 'w host_state \<Rightarrow> 'w outcome" where
  "dispatch_fix h oper st =
    (case fix_load (fst st) (fo_id oper) of
       Some existing \<Rightarrow> (Inr (Stored existing), st)
     | None \<Rightarrow>
         (case snapshot_guard (fo_manifest oper) of
            Inl e \<Rightarrow> stop_with h oper (invalid_artifact oper ''scoped_snapshot_required'' (error_text e))
              ''suspend_repair'' (Some ''needs_package_repair'') st
          | Inr _ \<Rightarrow>
              (case plan_validate (fo_plan oper) (fo_manifest oper) of
                 Inl e \<Rightarrow> stop_with h oper (invalid_artifact oper ''invalid_fix_plan'' (error_text e))
                   ''suspend_repair'' (Some ''needs_package_repair'') st
               | Inr _ \<Rightarrow> dispatch_valid h oper st)))"

text \<open>\<open>FixController.accept\<close>.\<close>

definition accept_fix :: "'w fix_host \<Rightarrow> fix_operation \<Rightarrow> 'w host_state \<Rightarrow> 'w outcome" where
  "accept_fix h oper st = dispatch_fix h oper st"

section \<open>Single flight\<close>

text \<open>
  What a caller relies on when it repeats a request: a request that is settled answers with its
  document and changes nothing, and a run that returns has settled it.  In between the world may
  change, the documents may not.
\<close>

datatype ('c, 'x) flight_event = Run 'c | World 'x

locale single_flight =
  fixes run :: "'c \<Rightarrow> 's \<Rightarrow> ('e + 'v) \<times> 's"
    and world :: "'x \<Rightarrow> 's \<Rightarrow> 's"
    and doc :: "'s \<Rightarrow> 'd option"
    and stored :: "'d \<Rightarrow> 'v"
  assumes replay: "doc s = Some d \<Longrightarrow> run c s = (Inr (stored d), s)"
    and settles: "run c s = (Inr v, s1) \<Longrightarrow> doc s1 \<noteq> None"
    and world_doc: "doc (world x s) = doc s"
begin

fun answers :: "('c, 'x) flight_event list \<Rightarrow> 's \<Rightarrow> ('e + 'v) list" where
  "answers [] s = []"
| "answers (Run c # es) s = (case run c s of (r, s1) \<Rightarrow> r # answers es s1)"
| "answers (World x # es) s = answers es (world x s)"

lemma settled_answers: "doc s = Some d \<Longrightarrow> set (answers es s) \<subseteq> {Inr (stored d)}"
  by (induction es s rule: answers.induct) (auto simp: replay world_doc)

lemma answers_after:
  assumes "run c s = (Inr v, s1)"
  obtains d where "doc s1 = Some d" and "\<And>es. set (answers es s1) \<subseteq> {Inr (stored d)}"
  using settles [OF assms] settled_answers by blast

end

section \<open>What a dispatch leaves\<close>

lemma fix_load_persist [simp]: "fix_load (fix_persist i a files) i = Some (copy_value (JObj a))"
  by (simp add: fix_load_def fix_persist_def)

lemma handoff_not_record [simp]: "handoff_name i \<noteq> record_path i" "record_path i \<noteq> handoff_name i"
  by (simp_all add: handoff_name_def record_path_def)

lemma persist_keeps_handoff [simp]: "map_of (fix_persist i a files) (handoff_name i) = map_of files (handoff_name i)"
  by (simp add: fix_persist_def)

lemma load_after_handoff [simp]: "fix_load (persist_handoff oper result files) (fo_id oper) = fix_load files (fo_id oper)"
  by (simp add: fix_load_def persist_handoff_def)

lemma call_back_files [simp]: "fst (snd (call_back r files)) = files"
  by (simp add: call_back_def split: prod.split sum.split)

lemma route_files [simp]: "fst (snd (route_or_finalize h oper a route reason st)) = fst st"
  by (simp add: route_or_finalize_def)

lemma stop_files [simp]: "fst (snd (stop_with h oper a route reason st)) = fix_persist (fo_id oper) a (fst st)"
  by (simp add: stop_with_def)

text \<open>What an outcome may do to the directory: settle the record, or raise and leave everything.\<close>

definition settled_or_same :: "string \<Rightarrow> op_files \<Rightarrow> 'w outcome \<Rightarrow> bool" where
  "settled_or_same i files r \<longleftrightarrow>
    fix_load (fst (snd r)) i \<noteq> None \<or> (\<exists>e. fst r = Inl e) \<and> fst (snd r) = files"

lemma stop_settles [simp]: "settled_or_same (fo_id oper) files (stop_with h oper a route reason st)"
  by (simp add: settled_or_same_def)

lemma raise_same [simp]: "settled_or_same i files (Inl e, files, w)"
  by (simp add: settled_or_same_def)

lemma call_back_settles [simp]: "settled_or_same i files (call_back r (fix_persist i a files'))"
  by (simp add: settled_or_same_def)

lemma conclude_settles:
  "settled_or_same (fo_id oper) files (conclude_analysis h oper results context policy result (files, w))"
  by (simp add: conclude_analysis_def Let_def split: sum.split)

lemma analyse_settles: "settled_or_same (fo_id oper) files (analyse_operation h oper results context policy (files, w))"
  by (simp add: analyse_operation_def Let_def conclude_settles split: sum.split prod.split)

lemma prepared_settles: "settled_or_same (fo_id oper) files (dispatch_prepared h oper results (files, w))"
  by (simp add: dispatch_prepared_def Let_def analyse_settles split: sum.split prod.split)

lemma prepare_id [simp]:
  "fo_id (fst (prepare_dependency_evidence oper found)) = fo_id oper"
  "fo_findings (fst (prepare_dependency_evidence oper found)) = fo_findings oper"
  "fo_plan (fst (prepare_dependency_evidence oper found)) = fo_plan oper"
  "fo_decisions (fst (prepare_dependency_evidence oper found)) = fo_decisions oper"
  by (simp_all add: prepare_dependency_evidence_def Let_def split: prod.split)

lemma valid_settles: "settled_or_same (fo_id oper) (fst st) (dispatch_valid h oper st)"
proof (cases "workspace_root h oper")
  case (Inr base)
  obtain enriched results
    where e: "prepare_dependency_evidence oper (look_up_dependencies h base oper (snd st)) = (enriched, results)"
    by fastforce
  then have "fo_id enriched = fo_id oper" by (metis fst_conv prepare_id(1))
  then show ?thesis using Inr e prepared_settles [of enriched "fst st" h results "snd st"] by (simp add: dispatch_valid_def)
qed (simp add: dispatch_valid_def settled_or_same_def)

lemma dispatch_settles: "settled_or_same (fo_id oper) (fst st) (dispatch_fix h oper st)"
  using valid_settles [of oper st]
  by (auto simp: dispatch_fix_def settled_or_same_def split: option.split sum.split)

lemma dispatch_replays:
  "fix_load (fst st) (fo_id oper) = Some d \<Longrightarrow> dispatch_fix h oper st = (Inr (Stored d), st)"
  by (simp add: dispatch_fix_def)

interpretation flights: single_flight
  "\<lambda>c. dispatch_fix (fst c) (snd c\<lparr>fo_id := i\<rparr>)" "\<lambda>w st. (fst st, w)" "\<lambda>st. fix_load (fst st) i" Stored for i
proof unfold_locales
  fix c st v st1
  assume "dispatch_fix (fst c) (snd c\<lparr>fo_id := i\<rparr>) st = (Inr v, st1)"
  then show "fix_load (fst st1) i \<noteq> None"
    using dispatch_settles [of "snd c\<lparr>fo_id := i\<rparr>" st "fst c"] by (simp add: settled_or_same_def)
qed (auto simp: dispatch_replays)

section \<open>When a handoff is written\<close>

text \<open>Everything that has to go well between the accepted operation and its handoff.\<close>

definition cleared :: "'w fix_host \<Rightarrow> fix_operation \<Rightarrow> resolution list \<Rightarrow> frozen_policy \<Rightarrow> 'w \<Rightarrow> ignition \<Rightarrow> bool" where
  "cleared h oper results policy w result \<longleftrightarrow>
    po_enabled policy \<and> custom h \<and>
    (\<exists>decisions. given_decisions oper = Inr decisions \<and> (\<forall>f \<in> set (fo_findings oper). \<not> waits (dict_of decisions) f)) \<and>
    (\<exists>package. package_for h oper policy w = Inr package \<and>
       fst (ignite_with h oper (operation_context_of oper package) policy w) = Inr result) \<and>
    cm_status (evaluate_fix_completeness (candidate_plan oper result) (fo_findings oper) results) = ''pass'' \<and>
    ig_build result \<noteq> None \<and> ig_eligible result"

lemma conclude_handoff:
  "map_of (fst (snd (conclude_analysis h oper results context policy result st))) (handoff_name (fo_id oper)) =
    (if cm_status (evaluate_fix_completeness (candidate_plan oper result) (fo_findings oper) results) = ''pass'' \<and>
        ig_build result \<noteq> None \<and> ig_eligible result
     then Some (copy_value (JObj (sealed_handoff oper result))) else map_of (fst st) (handoff_name (fo_id oper)))"
  by (auto simp: conclude_analysis_def Let_def result_artifact_def persist_handoff_def split: option.split)

lemma ignite_build_custom:
  "fst (ignite_with h oper context policy w) = Inr result \<Longrightarrow> ig_build result \<noteq> None \<Longrightarrow> custom h"
  by (cases "fh_igniter h") (auto simp: ignite_with_def custom_def dest: invoke_local_no_build)

lemma analyse_handoff:
  assumes "map_of (fst (snd (analyse_operation h oper results context policy (files, w)))) (handoff_name (fo_id oper)) = Some doc"
    and "map_of files (handoff_name (fo_id oper)) = None"
  obtains decisions result where "given_decisions oper = Inr decisions"
    and "\<forall>f \<in> set (fo_findings oper). \<not> waits (dict_of decisions) f"
    and "fst (ignite_with h oper context policy w) = Inr result"
    and "cm_status (evaluate_fix_completeness (candidate_plan oper result) (fo_findings oper) results) = ''pass''"
    and "ig_build result \<noteq> None" and "ig_eligible result"
    and "doc = copy_value (JObj (sealed_handoff oper result))"
proof -
  from assms obtain decisions where d: "given_decisions oper = Inr decisions"
    by (auto simp: analyse_operation_def split: sum.splits)
  have "av_status (evaluate_authority (fo_findings oper) (dict_of decisions)) = ''pass''"
    using assms d evaluate_authority_status [of "fo_findings oper" "dict_of decisions"]
    by (auto simp: analyse_operation_def Let_def)
  moreover from this assms d obtain result w1 where r: "ignite_with h oper context policy w = (Inr result, w1)"
    by (auto simp: analyse_operation_def Let_def split: sum.splits prod.splits)
  ultimately show ?thesis
    using that [OF d, of result] assms d
    by (auto simp: analyse_operation_def Let_def conclude_handoff evaluate_authority_pass split: if_splits)
qed

lemma prepared_handoff:
  assumes "map_of (fst (snd (dispatch_prepared h oper results (files, w)))) (handoff_name (fo_id oper)) = Some doc"
    and "map_of files (handoff_name (fo_id oper)) = None"
  obtains policy w1 result where "fh_policy h w = (policy, w1)" and "cleared h oper results policy w1 result"
    and "doc = copy_value (JObj (sealed_handoff oper result))"
proof -
  obtain policy w1 where p: "fh_policy h w = (policy, w1)" by fastforce
  from assms p obtain package where k: "package_for h oper policy w1 = Inr package"
    by (auto simp: dispatch_prepared_def split: sum.splits)
  from assms p k have "po_enabled policy" by (auto simp: dispatch_prepared_def Let_def split: if_splits)
  with assms p k have "map_of (fst (snd (analyse_operation h oper results (operation_context_of oper package) policy (files, w1))))
      (handoff_name (fo_id oper)) = Some doc"
    by (simp add: dispatch_prepared_def Let_def)
  from analyse_handoff [OF this assms(2)] show ?thesis
    using that [OF p] k \<open>po_enabled policy\<close> ignite_build_custom unfolding cleared_def by metis
qed

lemma guard_Inr [result_simps]:
  "snapshot_guard m = Inr u \<longleftrightarrow> manifest_ok m \<and> fm_file_hashes m \<noteq> [] \<and> fm_input_hash m = strip (fm_input_hash m)"
  by (cases u) (auto simp: snapshot_guard_def rbind_eq_Inr manifest_validate_Inr)

lemma dispatch_handoff:
  assumes new: "map_of (fst (snd (dispatch_fix h oper st))) (handoff_name (fo_id oper)) = Some doc"
    and absent: "map_of (fst st) (handoff_name (fo_id oper)) = None"
  obtains base enriched results policy w result
    where "manifest_ok (fo_manifest oper)" and "fm_file_hashes (fo_manifest oper) \<noteq> []"
      and "plan_ok (fo_plan oper) (fo_manifest oper)"
      and "workspace_root h oper = Inr base"
      and "prepare_dependency_evidence oper (look_up_dependencies h base oper (snd st)) = (enriched, results)"
      and "fh_policy h (snd st) = (policy, w)" and "cleared h enriched results policy w result"
      and "doc = copy_value (JObj (sealed_handoff enriched result))"
proof -
  from new absent have load: "fix_load (fst st) (fo_id oper) = None"
    by (auto simp: dispatch_fix_def split: option.splits)
  with new absent obtain u where g: "snapshot_guard (fo_manifest oper) = Inr u"
    by (auto simp: dispatch_fix_def stop_with_def split: sum.splits)
  with new absent load obtain u1 where p: "plan_validate (fo_plan oper) (fo_manifest oper) = Inr u1"
    by (auto simp: dispatch_fix_def stop_with_def split: sum.splits)
  from new load g p have valid: "map_of (fst (snd (dispatch_valid h oper st))) (handoff_name (fo_id oper)) = Some doc"
    by (simp add: dispatch_fix_def)
  with absent obtain base where b: "workspace_root h oper = Inr base"
    by (auto simp: dispatch_valid_def split: sum.splits)
  obtain enriched results
    where e: "prepare_dependency_evidence oper (look_up_dependencies h base oper (snd st)) = (enriched, results)"
    by fastforce
  have i: "fo_id enriched = fo_id oper" using e by (metis fst_conv prepare_id(1))
  from valid b e have "map_of (fst (snd (dispatch_prepared h enriched results (fst st, snd st)))) (handoff_name (fo_id enriched)) = Some doc"
    by (simp add: dispatch_valid_def i)
  moreover from absent have "map_of (fst st) (handoff_name (fo_id enriched)) = None" by (simp only: i)
  ultimately obtain policy w result where "fh_policy h (snd st) = (policy, w)" "cleared h enriched results policy w result"
      "doc = copy_value (JObj (sealed_handoff enriched result))"
    by (rule prepared_handoff)
  with that b e g p show ?thesis by (auto simp: guard_Inr plan_validate_Inr)
qed

end
