(* ===== verification/Path_Security.thy ===== *)
theory Path_Security
  imports Fix_Models Fix_Snapshot
begin

text \<open>
  The path security of the runtime (\<open>security/path_security.py\<close>): the textual validation of a relative
  path, its canonical form below a base directory, and the test whether paths lie in the allowed
  scope.  \<open>PathSecurityError\<close> is represented by its message.  Paths are POSIX paths without symbolic
  links, as in \<open>Fix_Snapshot\<close>; \<open>casefold\<close> is the ASCII one.
\<close>

section \<open>Reserved names and dangerous patterns\<close>

definition windows_reserved :: "string list" where
  "windows_reserved = [''con'', ''prn'', ''aux'', ''nul''] @
    map (\<lambda>i. ''com'' @ str_of_nat i) [1..<10] @ map (\<lambda>i. ''lpt'' @ str_of_nat i) [1..<10]"

definition is_windows_reserved :: "string \<Rightarrow> bool" where
  "is_windows_reserved name \<longleftrightarrow> lower (hd (split_on CHR ''.'' name)) \<in> set windows_reserved"

text \<open>\<open>$\<close> matches at the end and before a line feed that ends the text.\<close>

definition at_end :: "string \<Rightarrow> bool" where
  "at_end s \<longleftrightarrow> s = [] \<or> s = [CHR 0x0A]"

definition letter :: "char \<Rightarrow> bool" where
  "letter c \<longleftrightarrow> (let l = of_char (lower_char c) :: nat in 97 \<le> l \<and> l \<le> 122)"

definition drive_letter :: "string \<Rightarrow> bool" where
  "drive_letter s \<longleftrightarrow> (case s of a # b # _ \<Rightarrow> letter a \<and> b = CHR '':'' | _ \<Rightarrow> False)"

definition dangerous_patterns :: "bool \<Rightarrow> ((string \<Rightarrow> bool) \<times> string) list" where
  "dangerous_patterns allow_dot = [
     (\<lambda>s. startswith s ''..'' \<and> at_end (drop 2 s), ''path contains parent directory reference''),
     (\<lambda>s. \<not> allow_dot \<and> startswith s ''.'' \<and> at_end (drop 1 s), ''path is current directory reference''),
     (\<lambda>s. is_substring ''..'' s, ''path contains parent traversal''),
     (\<lambda>s. startswith s [CHR 0x5C], ''path is absolute''),
     (\<lambda>s. startswith s ''/'', ''path is absolute''),
     (drive_letter, ''path contains Windows drive letter''),
     (\<lambda>s. startswith s [CHR 0x5C, CHR 0x5C], ''path is UNC/network path''),
     (\<lambda>s. startswith s ''//'', ''path is UNC/network path''),
     (\<lambda>s. CHR 0x00 \<in> set s, ''path contains null byte'')]"

section \<open>Validation\<close>

text \<open>
  A Windows drive is any code point with a colon behind it, or a share; a Windows root is a leading
  slash or backslash.
\<close>

definition continues :: "char \<Rightarrow> bool" where
  "continues c \<longleftrightarrow> 128 \<le> (of_char c :: nat) \<and> (of_char c :: nat) < 192"

definition windows_anchored :: "string \<Rightarrow> bool" where
  "windows_anchored s \<longleftrightarrow>
    (case s of [] \<Rightarrow> False
     | c # r \<Rightarrow> c = CHR ''/'' \<or> c = CHR 0x5C \<or> startswith (dropWhile continues r) '':'')"

definition component_issue :: "string \<Rightarrow> string option" where
  "component_issue part =
    (if part = ''.'' \<or> part = ''..'' then Some (''path contains traversal component: '' @ part)
     else if endswith part ''.'' \<or> endswith part '' '' then Some (''path component ends with dot or space: '' @ part)
     else if is_windows_reserved part then Some (''path component is Windows reserved name: '' @ part)
     else None)"

definition first_issue :: "('a \<Rightarrow> 'b option) \<Rightarrow> 'a list \<Rightarrow> 'b option" where
  "first_issue f xs = (case find (\<lambda>x. f x \<noteq> None) xs of None \<Rightarrow> None | Some x \<Rightarrow> f x)"

definition validate_relative_path :: "bool \<Rightarrow> string \<Rightarrow> string + string" where
  "validate_relative_path allow_dot path =
    (if path = [] then Inl ''path must be a non-empty string''
     else if CHR 0x00 \<in> set path then Inl ''path contains null byte''
     else if allow_dot \<and> path = ''.'' then Inr path
     else if windows_anchored path then Inl ''path must be relative, not absolute''
     else if CHR '':'' \<in> set path \<and> \<not> list_ex (startswith path) [''http:'', ''https:'', ''file:'']
       then Inl ''path contains colon (possible drive letter)''
     else (let parts = path_parts (pure_path (slashes path))
           in if parts = [] then Inl ''path is empty after normalization''
              else (case first_issue component_issue parts of
                  Some message \<Rightarrow> Inl message
                | None \<Rightarrow>
                    (case find (\<lambda>p. fst p path) (dangerous_patterns allow_dot) of
                       Some p \<Rightarrow> Inl (snd p)
                     | None \<Rightarrow> Inr path))))"

section \<open>Canonical paths and the allowed scope\<close>

definition canonicalize_path :: "string \<Rightarrow> string list \<Rightarrow> string + string list" where
  "canonicalize_path path base =
    sbind (validate_relative_path True path) (\<lambda>validated.
      (let target = resolve_path base validated
       in sbind (check_that (prefix base target)
            (''path escapes base directory: '' @ show_path target @ '' is outside '' @ show_path base)) (\<lambda>_. Inr target)))"

fun scope_hit :: "string list \<Rightarrow> string list \<Rightarrow> string list \<Rightarrow> string + bool" where
  "scope_hit base canonical [] = Inr False"
| "scope_hit base canonical (p # ps) =
    sbind (canonicalize_path p base) (\<lambda>q. if prefix q canonical then Inr True else scope_hit base canonical ps)"

fun first_prohibited :: "string list \<Rightarrow> string list \<Rightarrow> string list \<Rightarrow> string + string option" where
  "first_prohibited base canonical [] = Inr None"
| "first_prohibited base canonical (p # ps) =
    sbind (canonicalize_path p base) (\<lambda>q. if prefix q canonical then Inr (Some p) else first_prohibited base canonical ps)"

definition quoted :: "string \<Rightarrow> string" where
  "quoted s = CHR 0x27 # s @ [CHR 0x27]"

text \<open>The reason why a path is refused, if it is.\<close>

definition path_refusal :: "string list \<Rightarrow> string list \<Rightarrow> string list \<Rightarrow> string \<Rightarrow> string + string option" where
  "path_refusal allowed prohibited base path =
    (case canonicalize_path path base of
       Inl e \<Rightarrow> Inr (Some (''path validation failed for '' @ quoted path @ '': '' @ e))
     | Inr canonical \<Rightarrow>
         sbind (first_prohibited base canonical prohibited) (\<lambda>bad.
           (case bad of
              Some p \<Rightarrow> Inr (Some (''path '' @ quoted path @ '' matches prohibited path '' @ quoted p))
            | None \<Rightarrow>
                sbind (scope_hit base canonical allowed) (\<lambda>hit.
                  Inr (if hit then None else Some (''path '' @ quoted path @ '' is outside allowed paths''))))))"

fun check_each :: "string list \<Rightarrow> string list \<Rightarrow> string list \<Rightarrow> string list \<Rightarrow> string + (bool \<times> string)" where
  "check_each allowed prohibited base [] = Inr (True, ''paths authorized'')"
| "check_each allowed prohibited base (p # ps) =
    sbind (path_refusal allowed prohibited base p) (\<lambda>reason.
      (case reason of Some r \<Rightarrow> Inr (False, r) | None \<Rightarrow> check_each allowed prohibited base ps))"

definition check_paths_allowed :: "string list \<Rightarrow> string list \<Rightarrow> string list \<Rightarrow> string list \<Rightarrow> string + (bool \<times> string)" where
  "check_paths_allowed paths allowed prohibited base =
    sbind (smap (validate_relative_path True) allowed) (\<lambda>allowed_normalized.
    sbind (smap (validate_relative_path True) prohibited) (\<lambda>prohibited_normalized.
      check_each allowed_normalized prohibited_normalized base paths))"

section \<open>What an authorised path is\<close>

lemma step_into_plain: "''..'' \<notin> set ps \<Longrightarrow> foldl step_into base ps = base @ ps"
  by (induction ps arbitrary: base) (auto simp: step_into_def)

lemma is_substring_infix: "is_substring w (u @ w @ v)"
  by (auto simp: is_substring_def list_ex_iff startswith_def suffix_def intro!: bexI [of _ "w @ v"])

lemma split_on_nonempty: "split_on c s \<noteq> []"
  by (induction c s rule: split_on.induct) (auto split: list.split)

lemma split_on_prefix: "split_on c s = y # ys \<Longrightarrow> \<exists>v. s = y @ v"
  by (induction c s arbitrary: y ys rule: split_on.induct) (auto split: if_splits list.splits)

lemma split_on_infix: "w \<in> set (split_on c s) \<Longrightarrow> \<exists>u v. s = u @ w @ v"
proof (induction c s arbitrary: w rule: split_on.induct)
  case (2 c x xs)
  have hit: "\<exists>u v. xs = u @ w' @ v" if "w' \<in> set (split_on c xs)" for w' using 2 that by (cases "x = c") auto
  obtain y ys where split: "split_on c xs = y # ys"
    using split_on_nonempty [of c xs] by (cases "split_on c xs") auto
  show ?case
  proof (cases "x = c")
    case True
    with 2(3) hit have "w = [] \<or> (\<exists>u v. xs = u @ w @ v)" by auto
    then show ?thesis by (metis append_Cons append_Nil)
  next
    case False
    obtain v where head: "xs = y @ v" using split_on_prefix [OF split] by blast
    from False 2(3) split have "w = x # y \<or> w \<in> set ys" by auto
    then show ?thesis
      using hit split head by (metis append_Cons append_Nil list.set_intros(2))
  qed
qed simp

definition parts_of :: "string \<Rightarrow> string list" where
  "parts_of p = path_parts (pure_path p)"

lemma parts_infix: "w \<in> set (parts_of p) \<Longrightarrow> \<exists>u v. p = u @ w @ v"
  by (auto simp: parts_of_def pure_path_def dest: split_on_infix)

lemma validated_path:
  assumes "validate_relative_path d p = Inr q"
  shows "q = p" and "''..'' \<notin> set (parts_of p)" and "\<not> startswith p ''/''" and "p \<noteq> []"
proof -
  from assms show "q = p" and "p \<noteq> []"
    by (auto simp: validate_relative_path_def Let_def split: if_splits option.splits)
  have "\<not> is_substring ''..'' p \<and> \<not> startswith p ''/''"
  proof (cases "p = ''.''")
    case True
    then show ?thesis by (simp add: is_substring_def startswith_def)
  next
    case False
    with assms have w: "\<not> windows_anchored p" and "find (\<lambda>x. fst x p) (dangerous_patterns d) = None"
      by (auto simp: validate_relative_path_def Let_def split: if_splits option.splits)
    from this(2) have "\<forall>x \<in> set (dangerous_patterns d). \<not> fst x p" by (auto simp: find_None_iff)
    then have "\<not> is_substring ''..'' p" "\<not> startswith p ''/''" by (auto simp: dangerous_patterns_def)
    then show ?thesis by blast
  qed
  moreover have "is_substring ''..'' p" if "''..'' \<in> set (parts_of p)"
    using parts_infix [OF that] is_substring_infix by metis
  ultimately show "''..'' \<notin> set (parts_of p)" "\<not> startswith p ''/''" by blast+
qed

lemma canonical_of_validated: "validate_relative_path True p = Inr q \<Longrightarrow> canonicalize_path p base = Inr (base @ parts_of p)"
  using validated_path [of True p q]
  by (simp add: canonicalize_path_def resolve_path_def step_into_plain parts_of_def Let_def)

lemma canonical_iff:
  "canonicalize_path p base = Inr c \<longleftrightarrow> validate_relative_path True p = Inr p \<and> c = base @ parts_of p"
proof (cases "validate_relative_path True p")
  case (Inr q)
  then show ?thesis using canonical_of_validated [OF Inr] validated_path(1) [OF Inr] by auto
qed (simp add: canonicalize_path_def)

text \<open>A path is authorised when it is well formed, below an allowed path and below no prohibited one.\<close>

definition well_formed :: "string \<Rightarrow> bool" where
  "well_formed p \<longleftrightarrow> validate_relative_path True p = Inr p"

definition authorised :: "string list \<Rightarrow> string list \<Rightarrow> string \<Rightarrow> bool" where
  "authorised allowed prohibited p \<longleftrightarrow>
    well_formed p \<and> (\<exists>a \<in> set allowed. prefix (parts_of a) (parts_of p)) \<and>
    (\<forall>b \<in> set prohibited. \<not> prefix (parts_of b) (parts_of p))"

lemma well_formed_smap: "smap (validate_relative_path True) ps = Inr qs \<longleftrightarrow> list_all well_formed ps \<and> qs = ps"
proof (induction ps arbitrary: qs)
  case (Cons p ps)
  then show ?case using validated_path(1) [of True p] by (auto simp: sbind_eq_Inr well_formed_def)
qed auto

lemma scope_hit_eq: "list_all well_formed ps \<Longrightarrow>
    scope_hit base (base @ c) ps = Inr (\<exists>p \<in> set ps. prefix (parts_of p) c)"
  by (induction ps) (auto simp: well_formed_def dest: canonical_of_validated [of _ _ base])

lemma first_prohibited_eq: "list_all well_formed ps \<Longrightarrow>
    first_prohibited base (base @ c) ps = Inr (find (\<lambda>p. prefix (parts_of p) c) ps)"
  by (induction ps) (auto simp: well_formed_def dest: canonical_of_validated [of _ _ base])

lemma path_refusal_eq:
  assumes "list_all well_formed allowed" and "list_all well_formed prohibited"
  shows "\<exists>r. path_refusal allowed prohibited base p = Inr r \<and> (r = None \<longleftrightarrow> authorised allowed prohibited p)"
proof (cases "canonicalize_path p base")
  case (Inl e)
  then have "\<not> well_formed p" by (auto simp: well_formed_def dest: canonical_of_validated [of _ _ base])
  with Inl show ?thesis by (simp add: path_refusal_def authorised_def)
next
  case (Inr c)
  then have "well_formed p" and c: "c = base @ parts_of p" by (simp_all add: canonical_iff well_formed_def)
  then show ?thesis
    using assms Inr
    by (auto simp: path_refusal_def authorised_def scope_hit_eq first_prohibited_eq find_None_iff find_Some_iff
        split: option.split)
qed

lemma check_each_eq:
  assumes "list_all well_formed allowed" and "list_all well_formed prohibited"
  shows "\<exists>r. check_each allowed prohibited base paths = Inr r \<and> (fst r \<longleftrightarrow> list_all (authorised allowed prohibited) paths)"
proof (induction paths)
  case (Cons p ps)
  from path_refusal_eq [OF assms, of base p] Cons show ?case by (auto split: option.split)
qed simp

lemma check_each_message: "check_each allowed prohibited base ps = Inr (True, m) \<Longrightarrow> m = ''paths authorized''"
  by (induction ps) (auto simp: sbind_eq_Inr split: option.splits)

lemma check_paths_exact:
  "check_paths_allowed paths allowed prohibited base = Inr (True, ''paths authorized'') \<longleftrightarrow>
    list_all well_formed allowed \<and> list_all well_formed prohibited \<and> list_all (authorised allowed prohibited) paths"
proof (cases "list_all well_formed allowed \<and> list_all well_formed prohibited")
  case True
  then have checked: "check_paths_allowed paths allowed prohibited base = check_each allowed prohibited base paths"
    using well_formed_smap [of allowed allowed] well_formed_smap [of prohibited prohibited]
    by (simp add: check_paths_allowed_def)
  obtain r where r: "check_each allowed prohibited base paths = Inr r"
      "fst r \<longleftrightarrow> list_all (authorised allowed prohibited) paths"
    using check_each_eq [of allowed prohibited base paths] True by blast
  have "snd r = ''paths authorized''" if "fst r"
    using check_each_message [of allowed prohibited base paths "snd r"] r(1) that by (cases r) simp
  then have "r = (True, ''paths authorized'') \<longleftrightarrow> fst r" by (cases r) auto
  with r True show ?thesis by (simp add: checked)
next
  case False
  then show ?thesis
    by (auto simp: check_paths_allowed_def sbind_eq_Inr well_formed_smap)
qed

end
