(* ===== verification/Fix_Continuation.thy ===== *)
theory Fix_Continuation
  imports Fix_Invoke Path_Security
begin

text \<open>
  The continuation of an accepted Fix (\<open>codex/fix_continuation.py\<close>): the checks of the handoff document
  that the Fix host has written, the launch envelope with its bounded authority, one launch of the
  executor, and the verification that follows a successful one.

  The files that are read and the kinds of the paths are functions; the launcher and the verifier
  are functions on an environment \<open>'w\<close> that may raise.  The documents written are kept by name.
\<close>

section \<open>Errors and Python operations on documents\<close>

text \<open>\<open>FixContinuationError\<close>: its text is the code and the message.\<close>

definition refuse :: "string \<Rightarrow> string \<Rightarrow> raised" where
  "refuse code message = (plain_error ''FixContinuationError'' (code @ '': '' @ message))\<lparr>ex_code := Some (JStr code)\<rparr>"

definition contract_fault :: "string \<Rightarrow> raised" where
  "contract_fault message = refuse ''verification_contract_incomplete'' message"

definition grounding_fault :: "string \<Rightarrow> raised" where
  "grounding_fault message = refuse ''verification_grounding_incomplete'' message"

definition root_fault :: "string \<Rightarrow> raised" where
  "root_fault message = refuse ''execution_root_mismatch'' message"

fun key_like :: "json \<Rightarrow> bool" where
  "key_like (JList _) = False"
| "key_like (JObj _) = False"
| "key_like _ = True"

definition hashed :: "json \<Rightarrow> raised + json" where
  "hashed v = (if key_like v then Inr v else Inl (plain_error ''TypeError''
     (''unhashable type: '' @ py_repr_str (case v of JList _ \<Rightarrow> ''list'' | _ \<Rightarrow> ''dict''))))"

text \<open>\<open>set(value)\<close>, and membership by Python's equality.\<close>

definition set_of :: "json \<Rightarrow> raised + json list" where
  "set_of v = sbind (py (list_items v)) (smap hashed)"

definition elem :: "json \<Rightarrow> json list \<Rightarrow> bool" where
  "elem v xs \<longleftrightarrow> list_ex (py_eq v) xs"

fun check_each_in :: "('a \<Rightarrow> raised + unit) \<Rightarrow> 'a list \<Rightarrow> raised + unit" where
  "check_each_in f [] = Inr ()"
| "check_each_in f (x # xs) = sbind (f x) (\<lambda>_. check_each_in f xs)"

lemma check_each_in_Inr [result_simps]: "check_each_in f xs = Inr u \<longleftrightarrow> (\<forall>x \<in> set xs. f x = Inr ())"
  by (cases u; induction xs) (auto simp: sbind_eq_Inr)

text \<open>\<open>isinstance(v, str) and v.strip()\<close>.\<close>

definition is_concrete :: "json \<Rightarrow> bool" where
  "is_concrete v \<longleftrightarrow> (case v of JStr s \<Rightarrow> strip s \<noteq> [] | _ \<Rightarrow> False)"

definition get :: "string \<Rightarrow> jdict \<Rightarrow> json" where
  "get k d = dget k JNull d"

section \<open>Loading the handoff\<close>

datatype handoff_file =
    No_file
  | Bad_text string
  | Document json

definition authority_fields :: "string list" where
  "authority_fields = [''mutation_authorized'', ''execution_authorized'', ''apply_authorized'', ''completion_claimed'']"

definition validate_handoff :: "string \<Rightarrow> handoff_file \<Rightarrow> string \<Rightarrow> raised + jdict" where
  "validate_handoff path file expected =
    sbind (case file of
        No_file \<Rightarrow> Inl (refuse ''handoff_not_found'' (''Qualified Fix handoff not found: '' @ path))
      | Bad_text e \<Rightarrow> Inl (refuse ''handoff_invalid'' (''Qualified Fix handoff is not valid JSON: '' @ e))
      | Document v \<Rightarrow> need (as_dict v) (refuse ''handoff_invalid'' ''Qualified Fix handoff is not a JSON object'')) (\<lambda>handoff.
    sbind (check_that (get ''operation_id'' handoff = JStr expected)
      (refuse ''handoff_operation_id_mismatch'' (''Handoff operation_id '' @ quoted (py_str (get ''operation_id'' handoff))
        @ '' does not match canonical operation '' @ quoted expected))) (\<lambda>_.
    sbind (check_that (get ''operation_type'' handoff = JStr ''fix'')
      (refuse ''handoff_operation_type_invalid'' (''Handoff operation_type '' @ quoted (py_str (get ''operation_type'' handoff))
        @ '' is not '' @ quoted ''fix''))) (\<lambda>_.
    sbind (need (as_dict (dget ''authority'' (JObj []) handoff))
      (refuse ''handoff_authority_invalid'' ''Handoff authority section is not a dict'')) (\<lambda>authority.
    sbind (check_each_in (\<lambda>f. check_that (get f authority = JBool False)
      (refuse ''handoff_authority_violation'' (''Handoff authority field '' @ quoted f @ '' must be false''))) authority_fields) (\<lambda>_.
      Inr handoff)))))"

section \<open>The verification contract\<close>

text \<open>The ids of the findings that are dictionaries.\<close>

definition dict_ids :: "json list \<Rightarrow> json list" where
  "dict_ids items = for_each items (\<lambda>v. case v of JObj d \<Rightarrow> [get ''id'' d] | _ \<Rightarrow> [])"

definition finding_ids :: "jdict \<Rightarrow> raised + json list" where
  "finding_ids handoff =
    sbind (py (list_items (dget ''findings'' (JList []) handoff))) (\<lambda>items. smap hashed (dict_ids items))"

definition contract_check :: "json list \<Rightarrow> json \<Rightarrow> raised + unit" where
  "contract_check ids check =
    sbind (need (as_dict check) (contract_fault ''finding_check is not an object'')) (\<lambda>d.
    sbind (hashed (get ''finding_id'' d)) (\<lambda>ident.
    sbind (check_that (elem ident ids) (contract_fault (''finding_check references unknown finding_id: '' @ py_str ident))) (\<lambda>_.
    sbind (check_that (get ''resolution_method'' d \<in> JStr ` set resolution_methods)
      (contract_fault (''finding_check.resolution_method is invalid: '' @ py_repr (get ''resolution_method'' d)))) (\<lambda>_.
    sbind (check_that (is_concrete (get ''check'' d)) (contract_fault ''finding_check.check must be concrete and non-empty'')) (\<lambda>_.
      check_that (is_concrete (get ''expected_result'' d))
        (contract_fault ''finding_check.expected_result must be concrete and non-empty''))))))"

fun covered_id :: "json \<Rightarrow> raised + json" where
  "covered_id (JObj d) = (case map_of d ''finding_id'' of None \<Rightarrow> Inl (raised_of (KeyError ''finding_id'')) | Some v \<Rightarrow> Inr v)"
| "covered_id _ = Inl (plain_error ''TypeError'' ''object is not subscriptable'')"

definition repr_json_set :: "json list \<Rightarrow> string" where
  "repr_json_set xs = ''{'' @ join '', '' (map py_repr (remdups xs)) @ ''}''"

definition contract_validation :: "json list \<Rightarrow> json \<Rightarrow> raised + json" where
  "contract_validation seen val =
    sbind (need (as_dict val) (contract_fault ''validation is not an object'')) (\<lambda>d.
    sbind (check_that (is_concrete (get ''id'' d)) (contract_fault ''validation.id must be a stable non-empty string'')) (\<lambda>_.
    sbind (check_that (get ''id'' d \<notin> set seen) (contract_fault (''validation.id is not unique: '' @ py_str (get ''id'' d)))) (\<lambda>_.
    sbind (check_that (is_concrete (get ''command_or_assertion'' d))
      (contract_fault ''validation.command_or_assertion must be concrete and non-empty'')) (\<lambda>_.
    sbind (check_that (is_concrete (get ''expected_result'' d))
      (contract_fault ''validation.expected_result must be non-empty'')) (\<lambda>_. Inr (get ''id'' d))))))"

fun contract_validations :: "json list \<Rightarrow> json list \<Rightarrow> raised + unit" where
  "contract_validations seen [] = Inr ()"
| "contract_validations seen (v # vs) = sbind (contract_validation seen v) (\<lambda>i. contract_validations (i # seen) vs)"

text \<open>
  \<open>_validate_verification_contract\<close>, and with \<open>strict\<close> the older variant that wants at least one check
  and always wants every finding covered.
\<close>

definition validate_contract :: "bool \<Rightarrow> jdict \<Rightarrow> raised + unit" where
  "validate_contract strict handoff =
    sbind (need (as_dict (get ''verification_contract'' handoff))
      (contract_fault ''Handoff does not contain a verification_contract'')) (\<lambda>contract.
    sbind (case get ''finding_checks'' contract of
        JList cs \<Rightarrow> if strict \<and> cs = [] then Inl (contract_fault ''verification_contract.finding_checks is missing or empty'') else Inr cs
      | _ \<Rightarrow> Inl (contract_fault (if strict then ''verification_contract.finding_checks is missing or empty''
          else ''verification_contract.finding_checks must be a list''))) (\<lambda>checks.
    sbind (finding_ids handoff) (\<lambda>ids.
    sbind (check_each_in (contract_check ids) checks) (\<lambda>_.
    sbind (smap covered_id checks) (\<lambda>covered.
    sbind (let missing = filter (\<lambda>i. \<not> elem i covered) ids
           in check_that (checks = [] \<or> missing = [])
             (contract_fault (''finding_checks do not cover every finding; missing: '' @ repr_json_set missing))) (\<lambda>_.
    sbind (need (as_items (get ''validations'' contract))
      (contract_fault ''verification_contract.validations is not a list'')) (\<lambda>validations.
    sbind (contract_validations [] validations) (\<lambda>_.
    sbind (need (as_items (get ''must_not_regress'' contract))
      (contract_fault ''verification_contract.must_not_regress is not a list'')) (\<lambda>_.
      check_that (is_concrete (get ''success_rule'' contract))
        (contract_fault ''verification_contract.success_rule must be non-empty''))))))))))"

definition validate_contract_original :: "jdict \<Rightarrow> raised + unit" where
  "validate_contract_original handoff = validate_contract True handoff"

section \<open>The verification grounding\<close>

definition same_count :: "string \<Rightarrow> json list \<Rightarrow> json list \<Rightarrow> raised + unit" where
  "same_count what grounded contracted =
    check_that (length grounded = length contracted)
      (grounding_fault (what @ '' grounding count ('' @ str_of_nat (length grounded) @ '') != contract count (''
        @ str_of_nat (length contracted) @ '')''))"

definition grounding_entry ::
  "string \<Rightarrow> string list \<Rightarrow> string list \<Rightarrow> string list \<Rightarrow> string \<Rightarrow> json \<Rightarrow> raised + unit" where
  "grounding_entry what required commands others other_message g =
    sbind (need (as_dict g) (grounding_fault (what @ '' grounding is not an object''))) (\<lambda>d.
    sbind (check_each_in (\<lambda>f. check_that (map_of d f \<noteq> None)
      (grounding_fault (what @ '' grounding missing field: '' @ f))) required) (\<lambda>_.
    sbind (check_that (\<not> (get ''source_type'' d \<in> JStr ` set commands \<and> \<not> truth (get ''authorized_tokens'' d)))
      (grounding_fault (what @ '' grounding for command source has no authorized_tokens''))) (\<lambda>_.
      check_that (\<not> (get ''source_type'' d \<in> JStr ` set others \<and> get ''authorized_tokens'' d \<noteq> JNull))
        (grounding_fault (what @ other_message)))))"

definition check_entry :: "json \<Rightarrow> raised + unit" where
  "check_entry = grounding_entry ''finding_check'' [''finding_id'', ''source_type'', ''source_reference'', ''scoped_paths'']
    [''recorded_test''] [''scanner_check'', ''plan_acceptance'', ''deterministic_assertion'']
    '' grounding for non-command source has authorized_tokens''"

definition validation_entry :: "json \<Rightarrow> raised + unit" where
  "validation_entry = grounding_entry ''validation'' [''validation_id'', ''source_type'', ''source_reference'', ''scoped_paths'']
    [''configured_test'', ''recorded_test''] [''deterministic_assertion'']
    '' grounding for assertion source has authorized_tokens''"

definition scoped_path :: "json list \<Rightarrow> json \<Rightarrow> raised + unit" where
  "scoped_path allowed path =
    (if \<not> truth path then Inr ()
     else sbind (hashed path) (\<lambda>p.
       check_that (elem p allowed) (grounding_fault (''grounding scoped path '' @ quoted (py_str p)
         @ '' is not in scoped manifest or dependency closure''))))"

definition scoped_entry :: "json list \<Rightarrow> json \<Rightarrow> raised + unit" where
  "scoped_entry allowed g =
    (case g of
       JObj d \<Rightarrow> sbind (py (list_items (dget ''scoped_paths'' (JList []) d))) (check_each_in (scoped_path allowed))
     | _ \<Rightarrow> Inl (plain_error ''AttributeError'' ''get''))"

definition validate_grounding :: "jdict \<Rightarrow> raised + unit" where
  "validate_grounding handoff =
    sbind (need (as_dict (get ''verification_grounding'' handoff))
      (grounding_fault ''Handoff does not contain verification_grounding'')) (\<lambda>grounding.
    sbind (need (as_dict (dget ''verification_contract'' (JObj []) handoff))
      (grounding_fault ''Cannot verify grounding without a verification_contract'')) (\<lambda>contract.
    sbind (py (list_items (dget ''finding_checks'' (JList []) contract))) (\<lambda>contract_checks.
    sbind (need (as_items (dget ''finding_checks'' (JList []) grounding))
      (grounding_fault ''verification_grounding.finding_checks is not a list'')) (\<lambda>checks.
    sbind (same_count ''finding_checks'' checks contract_checks) (\<lambda>_.
    sbind (py (list_items (dget ''validations'' (JList []) contract))) (\<lambda>contract_vals.
    sbind (need (as_items (dget ''validations'' (JList []) grounding))
      (grounding_fault ''verification_grounding.validations is not a list'')) (\<lambda>validations.
    sbind (same_count ''validations'' validations contract_vals) (\<lambda>_.
    sbind (check_each_in check_entry checks) (\<lambda>_.
    sbind (check_each_in validation_entry validations) (\<lambda>_.
      (case dget ''scoped_manifest'' (JObj []) handoff of
         JObj m \<Rightarrow>
           sbind (set_of (dget ''files'' (JList []) m)) (\<lambda>files.
           sbind (set_of (dget ''dependency_closure'' (JList []) m)) (\<lambda>closure.
           sbind (check_each_in (scoped_entry (files @ closure)) checks) (\<lambda>_.
             check_each_in (scoped_entry (files @ closure)) validations)))
       | _ \<Rightarrow> Inr ())))))))))))"

section \<open>The execution root\<close>

datatype path_kind = Missing | Directory | Other_kind

definition relative_plain :: "string \<Rightarrow> string \<Rightarrow> string \<Rightarrow> raised + unit" where
  "relative_plain absolute traversal path =
    (if startswith path ''/'' then Inl (root_fault (absolute @ path))
     else if ''..'' \<in> set (path_parts (pure_path path)) then Inl (root_fault (traversal @ path)) else Inr ())"

definition manifest_paths :: "json \<Rightarrow> json list" where
  "manifest_paths v = (case v of JList xs \<Rightarrow> xs | _ \<Rightarrow> [])"

definition check_workspace :: "jdict \<Rightarrow> string \<Rightarrow> raised + unit" where
  "check_workspace handoff repository_root =
    (case dget ''workspace_identity'' (JObj []) handoff of
       JObj w \<Rightarrow>
         (case get ''root'' w of
            JStr r \<Rightarrow>
              (if strip r = [] then Inr ()
               else if \<not> startswith r ''/'' then Inl (root_fault (''workspace_identity.root is not absolute: '' @ r))
               else if resolve_path [] r \<noteq> resolve_path [] repository_root
                 then Inl (root_fault (''workspace_identity.root ('' @ r @ '') does not match repository_root ('' @ repository_root @ '')''))
               else Inr ())
          | _ \<Rightarrow> Inr ())
     | _ \<Rightarrow> Inr ())"

definition check_manifest_paths :: "jdict \<Rightarrow> raised + unit" where
  "check_manifest_paths handoff =
    (case dget ''scoped_manifest'' (JObj []) handoff of
       JObj m \<Rightarrow>
         check_each_in (\<lambda>v. case v of
             JStr p \<Rightarrow> relative_plain ''Absolute scoped path not allowed: '' ''Path traversal not allowed: '' p
           | _ \<Rightarrow> Inr ())
           (manifest_paths (dget ''files'' (JList []) m) @ manifest_paths (dget ''dependency_closure'' (JList []) m))
     | _ \<Rightarrow> Inr ())"

definition check_target :: "string \<Rightarrow> raised + unit" where
  "check_target target =
    (if target = ''.'' then Inr ()
     else relative_plain ''Absolute target path not allowed: '' ''Path traversal not allowed in target: '' target)"

definition execution_root :: "(string \<Rightarrow> path_kind) \<Rightarrow> jdict \<Rightarrow> string list \<Rightarrow> raised + string" where
  "execution_root kind handoff targets =
    sbind (need (as_dict (get ''scanner_context'' handoff))
      (refuse ''scanner_context_required'' ''Handoff does not contain scanner_context'')) (\<lambda>context.
    sbind (need (concrete_text ''repository_root'' context)
      (refuse ''scanner_context_required'' ''scanner_context.repository_root is missing or empty'')) (\<lambda>base.
    sbind (check_that (startswith base ''/'') (root_fault (''repository_root is not absolute: '' @ base))) (\<lambda>_.
    sbind (check_that (kind base \<noteq> Missing) (root_fault (''repository_root does not exist: '' @ base))) (\<lambda>_.
    sbind (check_that (kind base = Directory) (root_fault (''repository_root is not a directory: '' @ base))) (\<lambda>_.
    sbind (check_workspace handoff base) (\<lambda>_.
    sbind (check_manifest_paths handoff) (\<lambda>_.
    sbind (check_each_in check_target targets) (\<lambda>_.
      Inr (show_path (resolve_path [] base))))))))))"

section \<open>The targets of the plan\<close>

definition plan_target :: "string list \<Rightarrow> string list \<Rightarrow> json list \<Rightarrow> json \<Rightarrow> raised + unit" where
  "plan_target cwd allowed files target =
    (case target of
       JStr t \<Rightarrow>
         (case check_paths_allowed [t] allowed [] cwd of
            Inl e \<Rightarrow> Inl (plain_error ''PathSecurityError'' e)
          | Inr (ok, reason) \<Rightarrow>
              sbind (check_that ok (refuse ''plan_target_not_authorized'' (''Plan target '' @ quoted t
                @ '' is not inside authorized paths: '' @ reason))) (\<lambda>_.
                check_that (elem target files) (refuse ''plan_target_outside_manifest'' (''Plan target '' @ quoted t
                  @ '' is not in the scoped manifest''))))
     | _ \<Rightarrow> Inl (refuse ''plan_target_invalid'' (''Plan target is not a string: '' @ py_repr target)))"

definition validate_plan_targets :: "string list \<Rightarrow> jdict \<Rightarrow> string list \<Rightarrow> raised + unit" where
  "validate_plan_targets cwd handoff allowed =
    sbind (need (as_dict (dget ''qualified_plan'' (JObj []) handoff))
      (refuse ''handoff_plan_invalid'' ''Handoff qualified_plan is not a dict'')) (\<lambda>plan.
    sbind (need (as_items (dget ''target_files'' (JList []) plan))
      (refuse ''handoff_plan_invalid'' ''Handoff plan target_files is not a list'')) (\<lambda>targets.
    sbind (need (as_dict (dget ''scoped_manifest'' (JObj []) handoff))
      (refuse ''handoff_manifest_invalid'' ''Handoff scoped_manifest is not a dict'')) (\<lambda>m.
    sbind (set_of (dget ''files'' (JList []) m)) (\<lambda>files.
      check_each_in (plan_target cwd allowed files) targets))))"

section \<open>The envelope\<close>

definition envelope_constraints :: "string list" where
  "envelope_constraints = [''do not modify files outside authorized scope'', ''preserve unrelated dirty files'',
    ''do not grant or expand authority'', ''do not claim host completion authority'', ''report failures honestly'']"

text \<open>The receipt is given by its id and its digest.\<close>

definition codex_envelope :: "string \<Rightarrow> string \<Rightarrow> jdict \<Rightarrow> json \<times> json \<Rightarrow> string list \<Rightarrow> jdict" where
  "codex_envelope operation path handoff receipt allowed = [
    (''schema_version'', JInt 1),
    (''operation_id'', JStr operation),
    (''operation_type'', JStr ''fix''),
    (''handoff_path'', JStr path),
    (''findings'', dget ''findings'' (JList []) handoff),
    (''scoped_manifest'', dget ''scoped_manifest'' (JObj []) handoff),
    (''statements'', dget ''statements'' (JList []) handoff),
    (''qualified_plan'', dget ''qualified_plan'' (JObj []) handoff),
    (''verification_contract'', dget ''verification_contract'' (JObj []) handoff),
    (''verification_grounding'', dget ''verification_grounding'' (JObj []) handoff),
    (''allowed_target_paths'', strs allowed),
    (''mutation_receipt'', JObj [(''receipt_id'', fst receipt), (''receipt_digest'', snd receipt)]),
    (''host_authority'', JObj [(''mutation_authorized'', JBool True), (''execution_authorized'', JBool True),
       (''apply_authorized'', JBool False), (''completion_claimed'', JBool False)]),
    (''constraints'', strs envelope_constraints)]"

definition codex_stdin :: "jdict \<Rightarrow> string" where
  "codex_stdin envelope =
    ''Execute the persisted qualified Audisor Fix handoff. '' @
    ''The handoff is advisory input; preserve all host authority boundaries. '' @
    ''Do not claim completion authority.'' @ [CHR 0x0A, CHR 0x0A] @ canonical_text (JObj envelope) @ [CHR 0x0A]"

section \<open>The run\<close>

record launched =
  la_pid :: json
  la_exit :: int
  la_outcome :: string
  la_argv :: "string list"
  la_stdout :: string
  la_stderr :: string

record verified =
  ve_performed :: bool
  ve_passed :: bool
  ve_claimed :: bool

type_synonym 'w verifier = "string \<Rightarrow> jdict \<Rightarrow> jdict \<Rightarrow> 'w \<Rightarrow> (raised + verified) \<times> 'w"

record 'w codex_host =
  cd_read :: "string \<Rightarrow> handoff_file"
  cd_kind :: "string \<Rightarrow> path_kind"
  cd_cwd :: "string list"
  cd_launch :: "string \<Rightarrow> string \<Rightarrow> 'w \<Rightarrow> (raised + launched) \<times> 'w"
  cd_verifier :: "'w verifier option"

record continuation_result =
  cr_operation :: string
  cr_handoff :: string
  cr_envelope :: string
  cr_reference :: string
  cr_pid :: json
  cr_exit :: int
  cr_outcome :: string
  cr_command :: "string list"
  cr_directory :: string
  cr_verification :: "string option"
  cr_performed :: bool
  cr_passed :: bool
  cr_claimed :: bool

definition continuation_mapping :: "continuation_result \<Rightarrow> jdict" where
  "continuation_mapping r = [
    (''operation_id'', JStr (cr_operation r)), (''handoff_path'', JStr (cr_handoff r)),
    (''codex_envelope_path'', JStr (cr_envelope r)), (''codex_result_reference'', JStr (cr_reference r)),
    (''pid'', cr_pid r), (''exit_code'', JInt (cr_exit r)), (''outcome'', JStr (cr_outcome r)),
    (''resolved_command'', strs (cr_command r)), (''working_directory'', JStr (cr_directory r)),
    (''verification_result_reference'', nullable JStr (cr_verification r)),
    (''verification_performed'', JBool (cr_performed r)), (''verification_passed'', JBool (cr_passed r)),
    (''completion_claimed'', JBool (cr_claimed r))]"

definition envelope_path :: "string \<Rightarrow> string" where
  "envelope_path base = base @ ''/codex-fix-envelope.json''"

definition result_path :: "string \<Rightarrow> string" where
  "result_path base = base @ ''/codex-result.json''"

definition put_document :: "string \<Rightarrow> jdict \<Rightarrow> op_files \<Rightarrow> op_files" where
  "put_document path d files = AList.update path (copy_value (JObj d)) files"

definition failure_result :: "string \<Rightarrow> string \<Rightarrow> string \<Rightarrow> string \<Rightarrow> raised \<Rightarrow> jdict" where
  "failure_result operation path env_path base e = [
    (''operation_id'', JStr operation), (''outcome'', JStr ''codex_failed''),
    (''failure_code'', case ex_code e of None \<Rightarrow> JNull | Some c \<Rightarrow> c),
    (''handoff_path'', JStr path), (''codex_envelope_path'', JStr env_path), (''codex_cwd'', JStr base),
    (''validation_cwd'', JStr base), (''stdout'', JStr []), (''stderr'', JStr []),
    (''completion_claimed'', JBool False), (''verification_performed'', JBool False)]"

definition launch_result :: "string \<Rightarrow> string \<Rightarrow> string \<Rightarrow> string \<Rightarrow> string \<Rightarrow> launched \<Rightarrow> jdict" where
  "launch_result operation path env_path reference base l = [
    (''operation_id'', JStr operation), (''outcome'', JStr (la_outcome l)), (''pid'', la_pid l),
    (''exit_code'', JInt (la_exit l)), (''stdout'', JStr (la_stdout l)), (''stderr'', JStr (la_stderr l)),
    (''codex_cwd'', JStr base), (''validation_cwd'', JStr base), (''handoff_path'', JStr path),
    (''codex_envelope_path'', JStr env_path), (''reference'', JStr reference),
    (''completion_claimed'', JBool False), (''verification_performed'', JBool False)]"

text \<open>All checks that come before anything is written.\<close>

definition admit_handoff :: "'w codex_host \<Rightarrow> string \<Rightarrow> string \<Rightarrow> string list \<Rightarrow> raised + (jdict \<times> string)" where
  "admit_handoff h operation path allowed =
    sbind (validate_handoff path (cd_read h path) operation) (\<lambda>handoff.
    sbind (validate_contract False handoff) (\<lambda>_.
    sbind (validate_grounding handoff) (\<lambda>_.
    sbind (execution_root (cd_kind h) handoff allowed) (\<lambda>base.
    sbind (validate_plan_targets (cd_cwd h) handoff allowed) (\<lambda>_. Inr (handoff, base))))))"

definition finish_launch ::
  "'w codex_host \<Rightarrow> string \<Rightarrow> string \<Rightarrow> string \<Rightarrow> jdict \<Rightarrow> string \<Rightarrow> launched \<Rightarrow> op_files \<times> 'w \<Rightarrow>
    (raised + continuation_result) \<times> (op_files \<times> 'w)" where
  "finish_launch h operation path root_dir handoff base l st =
    (let env_path = envelope_path root_dir; reference = result_path root_dir;
         document = launch_result operation path env_path reference base l;
         result = \<lparr>cr_operation = operation, cr_handoff = path, cr_envelope = env_path, cr_reference = reference,
           cr_pid = la_pid l, cr_exit = la_exit l, cr_outcome = la_outcome l, cr_command = la_argv l, cr_directory = base,
           cr_verification = None, cr_performed = False, cr_passed = False, cr_claimed = False\<rparr>;
         files = put_document reference document (fst st)
     in case (if la_exit l = 0 then cd_verifier h else None) of
          None \<Rightarrow> (Inr result, files, snd st)
        | Some verify \<Rightarrow>
            (case verify base handoff document (snd st) of
               (Inl e, w) \<Rightarrow> (Inl e, files, w)
             | (Inr v, w) \<Rightarrow>
                 (Inr (result\<lparr>cr_verification := Some (root_dir @ ''/fix-verification-result.json''),
                     cr_performed := ve_performed v, cr_passed := ve_passed v, cr_claimed := ve_claimed v\<rparr>), files, w)))"

definition run_continuation ::
  "'w codex_host \<Rightarrow> string \<Rightarrow> string \<Rightarrow> json \<times> json \<Rightarrow> string list \<Rightarrow> string \<Rightarrow> op_files \<times> 'w \<Rightarrow>
    (raised + continuation_result) \<times> (op_files \<times> 'w)" where
  "run_continuation h operation path receipt allowed root_dir st =
    (case admit_handoff h operation path allowed of
       Inl e \<Rightarrow> (Inl e, st)
     | Inr (handoff, base) \<Rightarrow>
         (let envelope = codex_envelope operation path handoff receipt allowed;
              files = put_document (envelope_path root_dir) envelope (fst st)
          in case cd_launch h (codex_stdin envelope) base (snd st) of
               (Inl e, w) \<Rightarrow>
                 (if ex_class e = ''CodexLaunchError''
                  then (Inl (refuse ''codex_launch_failed'' (''Codex launch failed: '' @ ex_text e)),
                    put_document (result_path root_dir) (failure_result operation path (envelope_path root_dir) base e) files, w)
                  else (Inl e, files, w))
             | (Inr l, w) \<Rightarrow> finish_launch h operation path root_dir handoff base l (files, w)))"

declare map_of_sort_key [simp]

lemma get_stored: "get k (stored_keys d) = copy_value (get k d)"
  by (simp add: get_def dget_def map_of_stored split: option.split)

section \<open>What is launched\<close>

lemma smap_hashed: "smap hashed xs = Inr ys \<Longrightarrow> ys = xs"
  by (induction xs arbitrary: ys) (auto simp: sbind_eq_Inr hashed_def split: if_splits)

lemma set_of_JList: "set_of (JList xs) = Inr ys \<Longrightarrow> ys = xs"
  by (simp add: set_of_def py_def sbind_eq_Inr smap_hashed)

lemma elem_str: "elem (JStr s) xs \<longleftrightarrow> JStr s \<in> set xs"
  by (auto simp: elem_def list_ex_iff)

lemma check_paths_true:
  assumes "check_paths_allowed paths allowed prohibited base = Inr (True, m)"
  shows "list_all (authorised allowed prohibited) paths"
proof -
  from assms have "m = ''paths authorized''"
    by (auto simp: check_paths_allowed_def sbind_eq_Inr dest: check_each_message)
  with assms check_paths_exact show ?thesis by blast
qed

lemma plan_target_Inr:
  assumes "plan_target cwd allowed files target = Inr u"
  obtains t where "target = JStr t" and "authorised allowed [] t" and "target \<in> set files"
  using assms check_paths_true [of "[_]" allowed "[]" cwd]
  by (cases target) (auto simp: plan_target_def sbind_eq_Inr elem_str split: sum.splits prod.splits)

lemma relative_plain_Inr: "relative_plain a t p = Inr u \<longleftrightarrow> \<not> startswith p ''/'' \<and> ''..'' \<notin> set (parts_of p)"
  by (cases u) (auto simp: relative_plain_def parts_of_def)

lemma admit_handoff_Inr:
  assumes "admit_handoff h operation path allowed = Inr (handoff, base)"
  shows "validate_handoff path (cd_read h path) operation = Inr handoff"
    and "validate_contract False handoff = Inr ()" and "validate_grounding handoff = Inr ()"
    and "execution_root (cd_kind h) handoff allowed = Inr base"
    and "validate_plan_targets (cd_cwd h) handoff allowed = Inr ()"
  using assms by (auto simp: admit_handoff_def sbind_eq_Inr)

lemma validate_handoff_Inr:
  assumes "validate_handoff path file expected = Inr handoff"
  obtains authority where "file = Document (JObj handoff)" and "get ''operation_id'' handoff = JStr expected"
    and "get ''operation_type'' handoff = JStr ''fix''" and "dget ''authority'' (JObj []) handoff = JObj authority"
    and "\<forall>f \<in> set authority_fields. get f authority = JBool False"
  using assms
  by (auto simp: validate_handoff_def sbind_eq_Inr need_Inr check_each_in_Inr as_dict_def
      split: handoff_file.splits json.splits)

lemma validate_plan_targets_Inr:
  assumes "validate_plan_targets cwd handoff allowed = Inr u"
  obtains plan targets m files where "dget ''qualified_plan'' (JObj []) handoff = JObj plan"
    and "dget ''target_files'' (JList []) plan = JList targets"
    and "dget ''scoped_manifest'' (JObj []) handoff = JObj m" and "set_of (dget ''files'' (JList []) m) = Inr files"
    and "\<forall>t \<in> set targets. \<exists>p. t = JStr p \<and> authorised allowed [] p \<and> t \<in> set files"
proof -
  from assms obtain plan targets m files
    where "as_dict (dget ''qualified_plan'' (JObj []) handoff) = Some plan"
      and "as_items (dget ''target_files'' (JList []) plan) = Some targets"
      and "as_dict (dget ''scoped_manifest'' (JObj []) handoff) = Some m" and "set_of (dget ''files'' (JList []) m) = Inr files"
      and t: "\<forall>t \<in> set targets. plan_target cwd allowed files t = Inr ()"
    by (auto simp: validate_plan_targets_def sbind_eq_Inr need_Inr check_each_in_Inr)
  moreover from t have "\<forall>t \<in> set targets. \<exists>p. t = JStr p \<and> authorised allowed [] p \<and> t \<in> set files"
    by (auto elim!: plan_target_Inr)
  ultimately show ?thesis using that by (auto simp: as_dict_def as_items_def split: json.splits)
qed

lemma execution_root_Inr:
  assumes "execution_root kind handoff targets = Inr base"
  obtains ctx base_dir where "get ''scanner_context'' handoff = JObj ctx" and "kind base_dir = Directory"
    and "startswith base_dir ''/''" and "base = show_path (resolve_path [] base_dir)"
    and "\<forall>t \<in> set targets. t = ''.'' \<or> \<not> startswith t ''/'' \<and> ''..'' \<notin> set (parts_of t)"
proof -
  from assms obtain ctx base_dir where "as_dict (get ''scanner_context'' handoff) = Some ctx"
      and "kind base_dir = Directory" "startswith base_dir ''/''" "base = show_path (resolve_path [] base_dir)"
      and t: "\<forall>t \<in> set targets. check_target t = Inr ()"
    by (auto simp: execution_root_def sbind_eq_Inr need_Inr check_each_in_Inr)
  moreover from t have "\<forall>t \<in> set targets. t = ''.'' \<or> \<not> startswith t ''/'' \<and> ''..'' \<notin> set (parts_of t)"
    by (auto simp: check_target_def relative_plain_Inr split: if_splits)
  ultimately show ?thesis using that by (auto simp: as_dict_def split: json.splits)
qed

lemma run_refused: "admit_handoff h operation path allowed = Inl e \<Longrightarrow>
    run_continuation h operation path receipt allowed dir st = (Inl e, st)"
  by (simp add: run_continuation_def)

lemma finish_claimed:
  assumes "finish_launch h operation path dir handoff base l st = (Inr r, st1)" and "cr_claimed r"
  shows "la_exit l = 0 \<and> cr_exit r = 0 \<and> (\<exists>verify v w. cd_verifier h = Some verify \<and>
    verify base handoff (launch_result operation path (envelope_path dir) (result_path dir) base l) (snd st) = (Inr v, w) \<and>
    ve_claimed v)"
  using assms by (auto simp: finish_launch_def Let_def split: option.splits prod.splits sum.splits if_splits)

end
