(* ===== verification/Fix_Properties.thy ===== *)
theory Fix_Properties
  imports Fix_Controller Fix_Host Fix_Continuation
begin

text \<open>
  The properties of the OneShot Fix engine: the release of a Fix, the reading of the model's answer,
  the dispatcher and its handoff, and the continuation that launches the executor.
\<close>

section \<open>The release of a Fix\<close>

lemma conclude_released:
  "fz_released (conclude mode findings qualified c verified decision) \<longleftrightarrow>
    cm_status c = ''pass'' \<and> verified \<and> (mode = ''manual'' \<longrightarrow> decision = Some ''apply'')"
  by (simp add: conclude_def withheld_def Let_def)

lemma run_fix_Inr:
  "fst (run_fix mode agent findings m plan statements outputs inspection decision a) = Inr f \<longleftrightarrow>
    (if fm_file_hashes m = []
     then f = withheld mode findings ''information_gap'' (advisory (Some ''scoped_snapshot_required'') None None)
     else (\<exists>qualified e. qualify_plan plan m = Inr qualified \<and> fst (evaluate_aflow agent qualified findings m a) = Inr e \<and>
       validate_outputs outputs findings = Inr () \<and>
       f = conclude mode findings qualified (pre_simulation statements (ep_plan e) findings) (ia_verified inspection) decision))"
  by (auto simp: run_fix_def rbind_eq_Inr split: sum.split prod.split)

lemma released_iff:
  "(\<exists>f a1. r = (Inr f, a1) \<and> fz_released f) \<longleftrightarrow> (\<exists>f. fst r = Inr f \<and> fz_released f)"
  by (cases r) auto

lemma run_fix_released:
  "(\<exists>f a1. run_fix mode agent findings m plan statements outputs inspection decision a = (Inr f, a1) \<and> fz_released f) \<longleftrightarrow>
    fm_file_hashes m \<noteq> [] \<and> plan_ok (qualified_plan plan m) m \<and>
    (\<exists>e. fst (evaluate_aflow agent (qualified_plan plan m) findings m a) = Inr e \<and>
      cm_status (pre_simulation statements (ep_plan e) findings) = ''pass'') \<and>
    validate_outputs outputs findings = Inr () \<and> ia_verified inspection \<and> (mode = ''manual'' \<longrightarrow> decision = Some ''apply'')"
  unfolding released_iff run_fix_Inr qualify_plan_Inr qualified_plan_ok
  by (cases "fm_file_hashes m = []") (auto simp: conclude_released withheld_def)

lemma evaluate_aflow_Inr:
  "fst (evaluate_aflow agent plan findings m a) = Inr e \<longleftrightarrow>
    fa_invocations a = 0 \<and>
    (\<exists>answer. fst (agent plan findings m (fa_env a)) = Inr answer \<and> read_answer plan answer = Inr e) \<and>
    ep_gaps e \<le> 1 \<and> ep_status e = ''accepted''"
  by (auto simp: evaluate_aflow_def adapter_ignite_def check_evaluation_def run_all_eq_Inr rbind_eq_Inr
      max_aflow_invocations_def aflow_gap_correction_attempts_def split: prod.split)

text \<open>
  C31: A Fix is released exactly when the manifest has file hashes, the plan has steps and every step
  has a target of the manifest and a finding, the adapter was never invoked before, the agent's answer
  can be read, is accepted and reports at most one gap correction, its plan is qualified, the success
  definition covers every finding with concrete checks, the statements refer to one pair of hashes, no
  finding is an unresolved dependency or breaks the integrity of the dependencies, the inspection is
  verified, and in manual mode the user applies it.
\<close>

theorem fix_release_exact:
  "(\<exists>f a1. run_fix mode agent findings m plan statements outputs inspection decision a = (Inr f, a1) \<and> fz_released f) \<longleftrightarrow>
    fm_file_hashes m \<noteq> [] \<and>
    xp_steps plan \<noteq> [] \<and> (\<forall>s \<in> set (xp_steps plan). fp_target s \<in> set (fm_files m) \<and> fp_finding s \<noteq> []) \<and>
    fa_invocations a = 0 \<and>
    (\<exists>answer e. fst (agent (qualified_plan plan m) findings m (fa_env a)) = Inr answer \<and>
      read_answer (qualified_plan plan m) answer = Inr e \<and> ep_gaps e \<le> 1 \<and> ep_status e = ''accepted'' \<and>
      xp_qualified (ep_plan e)) \<and>
    covers (ao_success outputs) findings \<and>
    (\<forall>c \<in> set (su_checks (ao_success outputs)). ck_check c \<noteq> [] \<and> ck_expected c \<noteq> []) \<and>
    same_references statements \<and> integrity_ok findings \<and> no_unresolved findings \<and>
    ia_verified inspection \<and> (mode = ''manual'' \<longrightarrow> decision = Some ''apply'')"
  unfolding run_fix_released evaluate_aflow_Inr pre_simulation_pass qualified_plan_ok
  by (auto simp: validate_outputs_def run_all_eq_Inr rbind_eq_Inr list_all_iff)

definition a_digest :: string where
  "a_digest = replicate 64 CHR ''a''"

definition some_finding :: fix_finding where
  "some_finding = \<lparr>ff_id = ''F1'', ff_type = ''syntax.error'', ff_file = ''a.py'', ff_severity = ''high'',
     ff_evidence = JObj [(''repro'', JStr ''python a.py'')]\<rparr>"

definition some_manifest :: fix_manifest where
  "some_manifest = \<lparr>fm_files = [''a.py''], fm_closure = [''a.py''], fm_input_hash = a_digest,
     fm_file_hashes = [(''a.py'', a_digest)], fm_evidence = []\<rparr>"

definition some_plan :: fix_plan where
  "some_plan = \<lparr>xp_steps = [\<lparr>fp_id = ''s1'', fp_action = ''repair'', fp_target = ''a.py'', fp_finding = ''F1'', fp_criterion = JNull\<rparr>],
     xp_targets = [''a.py''], xp_qualified = True, xp_minor = []\<rparr>"

definition some_success :: fix_success where
  "some_success = \<lparr>su_checks = [\<lparr>ck_finding = ''F1'', ck_method = ''rescan'', ck_check = ''rescan a.py'', ck_expected = ''clear''\<rparr>],
     su_validations = [], su_regress = [], su_rule = ''all_finding_checks_and_validations_pass''\<rparr>"

definition accepting :: "unit fix_agent" where
  "accepting plan findings m w = (Inr (Some \<lparr>ag_status = JStr ''accepted'', ag_plan = Absent, ag_gaps = JInt 0\<rparr>), w)"

theorem fix_release_exact_witness:
  "\<exists>f a1. run_fix ''manual'' accepting [some_finding] some_manifest some_plan (make_statements [some_finding] some_manifest)
      \<lparr>ao_trajectory = [], ao_success = some_success, ao_validations = []\<rparr>
      (verify_fix_output [(''a.py'', a_digest)] [(''a.py'', a_digest)] [] [] True) (Some ''apply'')
      \<lparr>fa_invocations = 0, fa_env = ()\<rparr> = (Inr f, a1) \<and> fz_released f"
  unfolding fix_release_exact
  by (simp add: some_finding_def some_manifest_def some_plan_def some_success_def accepting_def read_answer_def
      qualified_plan_def covers_def integrity_ok_def integrity_types_def no_unresolved_def unresolved_type_def
      verify_fix_output_def expected_hashes_def same_dict_def all_passed_def Let_def)

section \<open>The inspection of the output\<close>


section \<open>The answer of the model\<close>

text \<open>
  An answer of the model that is accepted for reading yields a plan that fits the manifest and
  repairs known findings only, a verification contract that has a concrete check for every finding and
  for nothing else and concrete validations with distinct ids, and a grounding of that contract.
\<close>

lemma model_answer_in_scope:
  assumes "read_analysis findings m cat answer = Inr result"
  shows "\<exists>plan accepted sd g. result = fix_ignition plan accepted sd g \<and> plan_ok plan m \<and>
    (\<forall>s \<in> set (xp_steps plan). fp_finding s \<in> ff_id ` set findings) \<and> contract_complete sd findings \<and>
    resolve_grounding findings m sd cat = Inr g"
  using assms by (elim read_analysis_Inr) blast

definition q :: "string \<Rightarrow> string" where
  "q s = CHR 0x22 # s @ [CHR 0x22]"

definition entry :: "string \<Rightarrow> string \<Rightarrow> string" where
  "entry k v = q k @ '':'' @ v"

definition object :: "string list \<Rightarrow> string" where
  "object es = ''{'' @ join '','' es @ ''}''"

text \<open>The JSON text of an acceptable answer.\<close>

definition some_answer :: string where
  "some_answer = object [
     entry ''status'' (q ''accepted''),
     entry ''plan'' (object [entry ''steps'' (''['' @ object [entry ''id'' (q ''s1''), entry ''action'' (q ''repair''),
       entry ''target_file'' (q ''a.py''), entry ''originating_finding_id'' (q ''F1'')] @ '']'')]),
     entry ''gap_corrections_applied'' ''0'',
     entry ''success_definition'' (object [
       entry ''finding_checks'' (''['' @ object [entry ''finding_id'' (q ''F1''), entry ''resolution_method'' (q ''rescan''),
         entry ''check'' (q ''rescan a.py''), entry ''expected_result'' (q ''clear'')] @ '']''),
       entry ''validations'' ''[]'', entry ''must_not_regress'' ''[]'',
       entry ''success_rule'' (q ''all_finding_checks_and_validations_pass'')])]"

definition some_catalog :: catalog where
  "some_catalog = build_catalog [some_finding] some_manifest some_plan []"

lemma some_answer_read:
  "read_analysis [some_finding] some_manifest some_catalog (JStr some_answer) =
    Inr (fix_ignition some_plan True some_success
      \<lparr>gr_checks = [check_by (hd (su_checks some_success)) ''scanner_check'' ''scanner:F1'' None ''a.py''], gr_validations = []\<rparr>)"
  by code_simp

theorem model_answer_in_scope_witness:
  "\<exists>result plan accepted sd g. read_analysis [some_finding] some_manifest some_catalog (JStr some_answer) = Inr result \<and>
    result = fix_ignition plan accepted sd g \<and> plan_ok plan some_manifest \<and>
    (\<forall>s \<in> set (xp_steps plan). fp_finding s \<in> {''F1''}) \<and> contract_complete sd [some_finding]"
  using model_answer_in_scope [OF some_answer_read] some_answer_read by (auto simp: some_finding_def)

text \<open>
  C33: Whatever the model answers, the grounding of an analysis names the contract's checks and
  validations in their order, its paths lie in the manifest, and every command it authorises is a
  configured one or one that a finding records (for a check: the finding of that check), provided the
  findings and the steps of the plan lie in the manifest.
\<close>

theorem grounding_from_catalog:
  assumes "fst (invoke_local_fix worker plan findings m commands w) = Inr result"
    and "ff_file ` set findings \<subseteq> set (fm_files m) \<union> set (fm_closure m)"
    and "fp_target ` set (xp_steps plan) \<subseteq> set (fm_files m) \<union> set (fm_closure m)"
  shows "\<exists>sd g. ig_success result = Some sd \<and> ig_grounding result = Some (grounding_json g) \<and>
    map cg_finding (gr_checks g) = map ck_finding (su_checks sd) \<and>
    map vg_id (gr_validations g) = map vs_id (su_validations sd) \<and>
    (\<forall>c \<in> set (gr_checks g). check_backed findings (set (fm_files m) \<union> set (fm_closure m)) c) \<and>
    (\<forall>v \<in> set (gr_validations g). validation_backed findings commands (set (fm_files m) \<union> set (fm_closure m)) v)"
proof -
  from assms(1) obtain answer where "read_analysis findings m (build_catalog findings m plan commands) answer = Inr result"
    by (rule invoke_local_Inr)
  then obtain corrected accepted sd g where "result = fix_ignition corrected accepted sd g"
      and "resolve_grounding findings m sd (build_catalog findings m plan commands) = Inr g"
    by (rule read_analysis_Inr)
  with grounding_backed [OF _ assms(2,3)] show ?thesis by auto
qed

definition answering :: "string \<Rightarrow> nat \<Rightarrow> (raised + json) \<times> nat" where
  "answering prompt calls = (Inr (JStr some_answer), Suc calls)"

definition some_ignition :: ignition where
  "some_ignition = fix_ignition some_plan True some_success
    \<lparr>gr_checks = [check_by (hd (su_checks some_success)) ''scanner_check'' ''scanner:F1'' None ''a.py''], gr_validations = []\<rparr>"

lemma invoke_answering:
  "invoke_local_fix (\<lambda>prompt calls. answering prompt calls) some_plan [some_finding] some_manifest [] n = (Inr some_ignition, Suc n)"
  unfolding invoke_local_fix_def answering_def Let_def prod.case sum.case some_catalog_def [symmetric] some_answer_read
    some_ignition_def ..

theorem grounding_from_catalog_witness:
  "\<exists>result sd (g :: grounding). fst (invoke_local_fix (\<lambda>prompt calls. answering prompt calls) some_plan [some_finding] some_manifest [] 0) = Inr result \<and>
    ig_success result = Some sd \<and> map cg_finding (gr_checks g) = map ck_finding (su_checks sd) \<and>
    (\<forall>c \<in> set (gr_checks g). check_backed [some_finding] {''a.py''} c)"
proof -
  let ?run = "invoke_local_fix (\<lambda>prompt calls. answering prompt calls) some_plan [some_finding] some_manifest [] 0"
  have run: "fst ?run = Inr some_ignition" by (simp add: invoke_answering)
  have scope: "ff_file ` set [some_finding] \<subseteq> set (fm_files some_manifest) \<union> set (fm_closure some_manifest)"
      "fp_target ` set (xp_steps some_plan) \<subseteq> set (fm_files some_manifest) \<union> set (fm_closure some_manifest)"
    by (simp_all add: some_finding_def some_manifest_def some_plan_def)
  have paths: "set (fm_files some_manifest) \<union> set (fm_closure some_manifest) = {''a.py''}" by (simp add: some_manifest_def)
  from grounding_from_catalog [OF run scope] obtain sd and g :: grounding where "ig_success some_ignition = Some sd"
      and "map cg_finding (gr_checks g) = map ck_finding (su_checks sd)"
      and "\<forall>c \<in> set (gr_checks g). check_backed [some_finding] {''a.py''} c"
    unfolding paths by blast
  with run show ?thesis by blast
qed

section \<open>Repeated dispatches\<close>

text \<open>
  A sequence of dispatches, of any operations and by any hosts; before each of them the environment
  may change.
\<close>

type_synonym 'w call = "'w fix_host \<times> fix_operation \<times> ('w \<Rightarrow> 'w)"

fun host_answers :: "'w call list \<Rightarrow> 'w host_state \<Rightarrow> (string \<times> (raised + dispatched)) list" where
  "host_answers [] st = []"
| "host_answers ((h, oper, change) # calls) st =
    (case dispatch_fix h oper (fst st, change (snd st)) of (r, st1) \<Rightarrow> (fo_id oper, r) # host_answers calls st1)"

lemma load_other [simp]:
  "i \<noteq> j \<Longrightarrow> fix_load (fix_persist j a files) i = fix_load files i"
  by (simp add: fix_load_def fix_persist_def record_path_def)

text \<open>An operation id may not contain a slash: a record may otherwise have the name of a handoff.\<close>

lemma handoff_other [simp]:
  assumes "CHR ''/'' \<notin> set i"
  shows "fix_load (persist_handoff oper result files) i = fix_load files i"
proof -
  have "CHR ''/'' \<in> set (handoff_name j)" and "CHR ''/'' \<notin> set (record_path i)" for j
    using assms by (simp_all add: handoff_name_def record_path_def)
  then have "handoff_name (fo_id oper) \<noteq> record_path i" by metis
  then show ?thesis by (simp add: fix_load_def persist_handoff_def)
qed

lemma analyse_other: "i \<noteq> fo_id oper \<Longrightarrow> CHR ''/'' \<notin> set i \<Longrightarrow>
    fix_load (fst (snd (analyse_operation h oper results context policy st))) i = fix_load (fst st) i"
  by (auto simp: analyse_operation_def conclude_analysis_def Let_def split: sum.split prod.split)

lemma prepared_other: "i \<noteq> fo_id oper \<Longrightarrow> CHR ''/'' \<notin> set i \<Longrightarrow>
    fix_load (fst (snd (dispatch_prepared h oper results st))) i = fix_load (fst st) i"
  by (auto simp: dispatch_prepared_def Let_def analyse_other split: sum.split prod.split)

lemma valid_other: "i \<noteq> fo_id oper \<Longrightarrow> CHR ''/'' \<notin> set i \<Longrightarrow>
    fix_load (fst (snd (dispatch_valid h oper st))) i = fix_load (fst st) i"
proof (cases "workspace_root h oper")
  case (Inr base)
  assume i: "i \<noteq> fo_id oper" "CHR ''/'' \<notin> set i"
  obtain enriched results
    where e: "prepare_dependency_evidence oper (look_up_dependencies h base oper (snd st)) = (enriched, results)"
    by fastforce
  then have "fo_id enriched = fo_id oper" by (metis fst_conv prepare_id(1))
  with i e Inr show ?thesis by (simp add: dispatch_valid_def prepared_other)
qed (simp add: dispatch_valid_def)

lemma dispatch_keeps:
  assumes d: "fix_load (fst st) i = Some d" and i: "CHR ''/'' \<notin> set i"
  shows "fix_load (fst (snd (dispatch_fix h oper st))) i = Some d"
proof (cases "fo_id oper = i")
  case True
  then show ?thesis using d by (simp add: dispatch_replays)
next
  case False
  then show ?thesis using d i by (auto simp: dispatch_fix_def valid_other split: option.split sum.split)
qed

lemma settled_calls:
  "fix_load (fst st) i = Some d \<Longrightarrow> CHR ''/'' \<notin> set i \<Longrightarrow> (i, r) \<in> set (host_answers calls st) \<Longrightarrow> r = Inr (Stored d)"
proof (induction calls st rule: host_answers.induct)
  case (2 h oper change calls st)
  let ?st = "(fst st, change (snd st))"
  let ?run = "dispatch_fix h oper ?st"
  have "fix_load (fst ?st) i = Some d" using 2(2) by simp
  then have keep: "fix_load (fst (snd ?run)) i = Some d" using 2(3) by (rule dispatch_keeps)
  have own: "fst ?run = Inr (Stored d)" if "fo_id oper = i"
    using dispatch_replays [of ?st oper d h] 2(2) that by simp
  have "(i, r) = (fo_id oper, fst ?run) \<or> (i, r) \<in> set (host_answers calls (snd ?run))"
    using 2(4) by (simp add: case_prod_beta)
  then show ?case
    using own 2(1) [OF prod.collapse keep 2(3)] by (cases "fo_id oper = i") blast+
qed simp

text \<open>
  C34: Once a dispatch has returned, every later dispatch of the same operation answers the one document
  that is stored then, whatever host runs it, whatever other operations are dispatched in between and
  however the environment changes.  A suspended operation is therefore never resumed.
\<close>

theorem dispatch_is_settled:
  assumes "dispatch_fix h oper st = (Inr v, st1)" and "CHR ''/'' \<notin> set (fo_id oper)"
  shows "\<exists>d. fix_load (fst st1) (fo_id oper) = Some d \<and>
    (\<forall>calls r. (fo_id oper, r) \<in> set (host_answers calls st1) \<longrightarrow> r = Inr (Stored d))"
proof -
  have "dispatch_fix (fst (h, oper)) (snd (h, oper)\<lparr>fo_id := fo_id oper\<rparr>) st = (Inr v, st1)" using assms by simp
  then have "fix_load (fst st1) (fo_id oper) \<noteq> None" by (rule flights.settles)
  with settled_calls assms(2) show ?thesis by blast
qed

definition refusing_policy :: frozen_policy where
  "refusing_policy = \<lparr>po_enabled = True, po_provider = ''local'', po_model = ''m'', po_url = ''u'', po_timeout = JInt 30\<rparr>"

definition some_operation :: fix_operation where
  "some_operation = \<lparr>fo_id = ''op1'', fo_findings = [some_finding], fo_manifest = some_manifest, fo_statements = [],
     fo_plan = some_plan, fo_workspace = [], fo_authority = [], fo_request = None, fo_decisions = None,
     fo_request_present = False\<rparr>"

text \<open>A host of one file, the environment counts the calls of the worker.\<close>

definition some_host :: "nat igniter \<Rightarrow> nat fix_host" where
  "some_host ignite = \<lparr>fh_base = ''/store'', fh_routing = True, fh_policy = (\<lambda>w. (refusing_policy, w)),
     fh_imports = (\<lambda>_. Some []), fh_tree = (\<lambda>_. [([''a.py''], ''x'')]), fh_cwd = [], fh_schemas = (\<lambda>_. Inr (\<lambda>_. [])),
     fh_secrets = (\<lambda>_. []), fh_igniter = ignite, fh_worker = (\<lambda>_. answering),
     fh_continue = (\<lambda>_ _ w. (Inr JNull, w)), fh_finalize = (\<lambda>_ _ w. (Inr JNull, w))\<rparr>"

lemma some_manifest_ok [simp]: "manifest_ok some_manifest" "fm_file_hashes some_manifest \<noteq> []" "plan_ok some_plan some_manifest"
    "fm_input_hash some_manifest = strip (fm_input_hash some_manifest)"
  by (code_simp, code_simp, simp add: plan_ok_def some_plan_def some_manifest_def, code_simp)

lemma some_prepared:
  "prepare_dependency_evidence some_operation (look_up_dependencies (some_host ignite) [] some_operation w) =
    (some_operation, [\<lparr>rz_finding = ''F1'', rz_resolved = True, rz_paths = [], rz_records = [], rz_failure = None\<rparr>])"
proof -
  have "resolve_dependency_details (\<lambda>_. Some []) [([''a.py''], ''x'')] [] [some_finding] = Inr ([''a.py''], [])" by code_simp
  moreover have "enriched_manifest some_manifest [''a.py''] [] = some_manifest" by code_simp
  ultimately show ?thesis
    by (simp add: prepare_dependency_evidence_def look_up_dependencies_def some_host_def some_operation_def
        found_dependencies_def resolve_finding_def unresolved_type_def some_finding_def)
qed

lemma some_dispatch:
  "dispatch_fix (some_host ignite) some_operation ([], w) =
    analyse_operation (some_host ignite) some_operation
      [\<lparr>rz_finding = ''F1'', rz_resolved = True, rz_paths = [], rz_records = [], rz_failure = None\<rparr>]
      (operation_context_of some_operation None) refusing_policy ([], w)"
proof -
  have "snapshot_guard some_manifest = Inr ()" "plan_validate some_plan some_manifest = Inr ()"
    by (simp_all add: guard_Inr plan_validate_Inr flip: some_manifest_ok(4))
  moreover have "fo_manifest some_operation = some_manifest" "fo_plan some_operation = some_plan"
      "workspace_root (some_host ignite) some_operation = Inr []"
      "package_for (some_host ignite) some_operation refusing_policy w = Inr None" "po_enabled refusing_policy"
      "fh_policy (some_host ignite) w = (refusing_policy, w)"
    by (simp_all add: some_operation_def some_host_def workspace_root_def package_for_def refusing_policy_def)
  ultimately show ?thesis
    by (simp add: dispatch_fix_def dispatch_valid_def some_prepared dispatch_prepared_def Let_def fix_load_def)
qed

definition invalid_operation :: fix_operation where
  "invalid_operation = some_operation\<lparr>fo_plan := some_plan\<lparr>xp_steps := []\<rparr>\<rparr>"

theorem dispatch_is_settled_witness:
  "\<exists>v st1 d. dispatch_fix (some_host Local_boundary) invalid_operation ([], 0) = (Inr v, st1) \<and>
    fix_load (fst st1) ''op1'' = Some d \<and>
    snd (hd (host_answers [(some_host Local_boundary, some_operation, Suc)] st1)) = Inr (Stored d)"
proof -
  have g: "snapshot_guard some_manifest = Inr ()" by (simp add: guard_Inr flip: some_manifest_ok(4))
  obtain e where p: "plan_validate (some_plan\<lparr>xp_steps := []\<rparr>) some_manifest = Inl e"
    by (cases "plan_validate (some_plan\<lparr>xp_steps := []\<rparr>) some_manifest") (auto simp: plan_validate_Inr plan_ok_def)
  obtain v st1 where run: "dispatch_fix (some_host Local_boundary) invalid_operation ([], 0) = (Inr v, st1)"
    by (simp add: dispatch_fix_def invalid_operation_def some_operation_def fix_load_def g p stop_with_def
        route_or_finalize_def some_host_def)
  have i: "CHR ''/'' \<notin> set (fo_id invalid_operation)" and o: "fo_id invalid_operation = ''op1''" "fo_id some_operation = ''op1''"
    by (simp_all add: invalid_operation_def some_operation_def)
  from dispatch_is_settled [OF run i] obtain d where "fix_load (fst st1) ''op1'' = Some d"
      and "\<forall>calls r. (''op1'', r) \<in> set (host_answers calls st1) \<longrightarrow> r = Inr (Stored d)"
    unfolding o by blast
  moreover have "(''op1'', snd (hd (host_answers calls st1))) \<in> set (host_answers calls st1)"
    if "calls = [(some_host Local_boundary, some_operation, Suc)]" for calls
    by (simp add: that o split: prod.split)
  ultimately show ?thesis using run by blast
qed

section \<open>The handoff\<close>

text \<open>
  C35: A dispatch writes a handoff only when nothing was stored before, the manifest is valid and has
  file hashes, the plan fits it, the policy enables the analysis, an igniter of the host (never the
  local boundary) returned an eligible result, no finding waits for an authority decision and the
  completeness of the candidate plan passes; the handoff is then the sealed document of that result
  and of the operation with its enriched manifest.
\<close>

theorem handoff_needs_clearance:
  assumes "map_of (fst (snd (dispatch_fix h oper st))) (handoff_name (fo_id oper)) = Some doc"
    and "map_of (fst st) (handoff_name (fo_id oper)) = None"
  shows "\<exists>base enriched results policy w result.
    manifest_ok (fo_manifest oper) \<and> fm_file_hashes (fo_manifest oper) \<noteq> [] \<and> plan_ok (fo_plan oper) (fo_manifest oper) \<and>
    workspace_root h oper = Inr base \<and>
    prepare_dependency_evidence oper (look_up_dependencies h base oper (snd st)) = (enriched, results) \<and>
    fh_policy h (snd st) = (policy, w) \<and> cleared h enriched results policy w result \<and>
    doc = copy_value (JObj (sealed_handoff enriched result))"
  by (rule dispatch_handoff [OF assms]) blast

definition building :: "nat igniter" where
  "building = Custom_igniter (\<lambda>_ _ w. (Inr (some_ignition\<lparr>ig_build := Some JNull\<rparr>), w))"

lemma some_decisions [simp]:
  "given_decisions some_operation = Inr []" "fo_findings some_operation = [some_finding]" "fo_id some_operation = ''op1''"
  "av_status (evaluate_authority [some_finding] (dict_of [])) = ''pass''"
  by (simp_all add: given_decisions_def some_operation_def evaluate_authority_pass waits_def requirement_for_def
      authority_policy_def some_finding_def)

lemma some_complete:
  "ig_candidate result = Some (Typed_plan some_plan) \<Longrightarrow>
    cm_status (evaluate_fix_completeness (candidate_plan some_operation result) [some_finding]
      [\<lparr>rz_finding = ''F1'', rz_resolved = True, rz_paths = [], rz_records = [], rz_failure = None\<rparr>]) = ''pass''"
  by (simp add: fix_completeness_pass candidate_plan_def integrity_ok_def integrity_types_def dependency_results_def
      unresolved_type_def some_finding_def some_plan_def)

lemma some_handoff:
  "map_of (fst (snd (dispatch_fix (some_host building) some_operation ([], 0)))) (handoff_name ''op1'') =
    Some (copy_value (JObj (sealed_handoff some_operation (some_ignition\<lparr>ig_build := Some JNull\<rparr>))))"
proof -
  let ?result = "some_ignition\<lparr>ig_build := Some JNull\<rparr>"
  have "ig_candidate ?result = Some (Typed_plan some_plan)" "ig_build ?result \<noteq> None" "ig_eligible ?result"
    by (simp_all add: some_ignition_def)
  moreover have "ignite_with (some_host building) some_operation cx policy 0 = (Inr ?result, 0)" for cx policy
    by (simp add: ignite_with_def some_host_def building_def)
  ultimately show ?thesis
    using conclude_handoff [of "some_host building" some_operation]
    by (simp add: some_dispatch analyse_operation_def Let_def some_complete)
qed

theorem handoff_needs_clearance_witness:
  "\<exists>enriched results w result. cleared (some_host building) enriched results refusing_policy w result \<and>
    map_of (fst (snd (dispatch_fix (some_host building) some_operation ([], 0)))) (handoff_name ''op1'') =
      Some (copy_value (JObj (sealed_handoff enriched result)))"
proof -
  have absent: "map_of (fst ([], 0 :: nat)) (handoff_name (fo_id some_operation)) = (None :: json option)" by simp
  have policy: "fh_policy (some_host building) w = (refusing_policy, w)" for w by (simp add: some_host_def)
  from handoff_needs_clearance [of "some_host building" some_operation, OF _ absent] some_handoff
  show ?thesis by (auto simp: policy)
qed

text \<open>
  With the local boundary, which is the default igniter, an acceptable answer of the model is not
  stored: the dispatch raises an \<open>AttributeError\<close>, because the result of the boundary has no attribute
  \<open>build_analysis\<close>, and leaves the directory as it was, so the model is asked again next time.
\<close>

lemma local_boundary_raises:
  assumes "fh_igniter h = Local_boundary" and "fix_load (fst st) (fo_id oper) = None"
    and "snapshot_guard (fo_manifest oper) = Inr ()" and "plan_validate (fo_plan oper) (fo_manifest oper) = Inr ()"
    and "workspace_root h oper = Inr base"
    and "prepare_dependency_evidence oper (look_up_dependencies h base oper (snd st)) = (enriched, results)"
    and "fh_policy h (snd st) = (policy, w)" and "po_enabled policy"
    and "given_decisions oper = Inr decisions" and "\<forall>f \<in> set (fo_findings oper). \<not> waits (dict_of decisions) f"
    and "invoke_local_fix (fh_worker h policy) (fo_plan oper) (fo_findings oper) (fo_manifest enriched) [] w = (Inr result, w1)"
    and "cm_status (evaluate_fix_completeness (candidate_plan oper result) (fo_findings oper) results) = ''pass''"
  shows "dispatch_fix h oper st = (Inl (attribute_missing ''FixIgnitionResult'' ''build_analysis''), fst st, w1)"
proof -
  have fields: "fo_plan enriched = fo_plan oper" "fo_findings enriched = fo_findings oper" "fo_decisions enriched = fo_decisions oper"
    using prepare_id [of oper "look_up_dependencies h base oper (snd st)"] assms(6) by auto
  then have "given_decisions enriched = Inr decisions" "candidate_plan enriched result = candidate_plan oper result"
    using assms(9) by (simp_all add: given_decisions_def candidate_plan_def split: option.splits)
  moreover have "package_for h enriched policy w = Inr None" using assms(1) by (simp add: package_for_def custom_def)
  moreover have "av_status (evaluate_authority (fo_findings oper) (dict_of decisions)) = ''pass''"
    using assms(10) by (simp add: evaluate_authority_pass)
  moreover have "ig_build result = None" "ig_class result = ''FixIgnitionResult''"
    using invoke_local_no_build [of "fh_worker h policy"] assms(11) by (metis fst_conv)+
  ultimately show ?thesis
    using assms fields
    by (simp add: dispatch_fix_def dispatch_valid_def dispatch_prepared_def Let_def analyse_operation_def ignite_with_def
        conclude_analysis_def result_artifact_def)
qed

theorem local_boundary_raises_witness:
  "dispatch_fix (some_host Local_boundary) some_operation ([], 0) =
    (Inl (attribute_missing ''FixIgnitionResult'' ''build_analysis''), [], 1)"
proof -
  let ?h = "some_host Local_boundary"
  have fields: "fo_manifest some_operation = some_manifest" "fo_plan some_operation = some_plan" "fh_igniter ?h = Local_boundary"
      "workspace_root ?h some_operation = Inr []" "fh_policy ?h 0 = (refusing_policy, 0)" "po_enabled refusing_policy"
      "fh_worker ?h refusing_policy = answering"
    by (simp_all add: some_operation_def some_host_def workspace_root_def refusing_policy_def)
  have "\<forall>f \<in> set (fo_findings some_operation). \<not> waits (dict_of []) f"
    using some_decisions(4) evaluate_authority_pass by (metis some_decisions(2))
  moreover have "cm_status (evaluate_fix_completeness (candidate_plan some_operation some_ignition) [some_finding]
      [\<lparr>rz_finding = ''F1'', rz_resolved = True, rz_paths = [], rz_records = [], rz_failure = None\<rparr>]) = ''pass''"
    by (rule some_complete) (simp add: some_ignition_def)
  moreover have "snapshot_guard some_manifest = Inr ()" "plan_validate some_plan some_manifest = Inr ()"
    by (simp_all add: guard_Inr plan_validate_Inr flip: some_manifest_ok(4))
  moreover have "invoke_local_fix answering some_plan [some_finding] some_manifest [] 0 = (Inr some_ignition, 1)"
    using invoke_answering [of 0] by simp
  ultimately show ?thesis
    using local_boundary_raises [OF fields(3) _ _ _ fields(4) some_prepared, of "([], 0)" refusing_policy 0 "[]" some_ignition 1]
    by (simp add: fields fix_load_def)
qed

section \<open>Findings that need a decision\<close>

text \<open>
  While a finding waits for an authority decision the model has no influence: with the local
  boundary the dispatch is the same for every worker, and with an igniter of the host it is the same
  for every igniter.
\<close>

lemma undecided_finding_blocks:
  assumes "given_decisions oper = Inr decisions" and "f \<in> set (fo_findings oper)" and "waits (dict_of decisions) f"
    and "fh_igniter h = Local_boundary \<and> h' = h\<lparr>fh_worker := worker\<rparr> \<or>
      (\<exists>g g'. fh_igniter h = Custom_igniter g \<and> h' = h\<lparr>fh_igniter := Custom_igniter g'\<rparr>)"
  shows "dispatch_fix h' oper st = dispatch_fix h oper st"
proof -
  have status: "av_status (evaluate_authority (fo_findings oper) (dict_of decisions)) = ''decision_required''"
    by (rule disjE [OF evaluate_authority_status]) (use assms(2,3) in \<open>auto simp: evaluate_authority_pass\<close>)
  have fields: "fh_base h' = fh_base h" "fh_routing h' = fh_routing h" "fh_policy h' = fh_policy h" "fh_imports h' = fh_imports h"
      "fh_tree h' = fh_tree h" "fh_cwd h' = fh_cwd h" "fh_schemas h' = fh_schemas h" "fh_secrets h' = fh_secrets h"
      "fh_continue h' = fh_continue h" "fh_finalize h' = fh_finalize h" "custom h' = custom h"
    using assms(4) by (elim disjE conjE exE; simp add: custom_def)+
  have route: "route_or_finalize h' = route_or_finalize h"
    by (simp add: route_or_finalize_def fields fun_eq_iff)
  have analyse: "analyse_operation h' enriched results cx policy s = analyse_operation h enriched results cx policy s"
    if "fo_findings enriched = fo_findings oper" "fo_decisions enriched = fo_decisions oper" for enriched results cx policy s
    using that status assms(1) by (simp add: analyse_operation_def given_decisions_def stop_with_def route)
  have package: "package_for h' enriched policy w = package_for h enriched policy w" for enriched policy w
    by (simp add: package_for_def build_package_def fields)
  have same: "workspace_root h' = workspace_root h" "look_up_dependencies h' = look_up_dependencies h"
    by (simp_all add: workspace_root_def look_up_dependencies_def fields fun_eq_iff split: option.split json.split)
  have prepared: "dispatch_prepared h' enriched results s = dispatch_prepared h enriched results s"
    if "fo_findings enriched = fo_findings oper" "fo_decisions enriched = fo_decisions oper" for enriched results s
    by (simp add: dispatch_prepared_def fields package stop_with_def route analyse [OF that] Let_def split: prod.split sum.split)
  have "dispatch_valid h' oper st = dispatch_valid h oper st"
  proof (cases "workspace_root h oper")
    case (Inr base)
    then show ?thesis
      using prepared prepare_id(2,4) [of oper "look_up_dependencies h base oper (snd st)"]
      by (simp add: dispatch_valid_def same case_prod_beta)
  qed (simp add: dispatch_valid_def same)
  then show ?thesis by (simp add: dispatch_fix_def stop_with_def route split: option.split sum.split)
qed

definition secret_operation :: fix_operation where
  "secret_operation = some_operation\<lparr>fo_findings := [some_finding\<lparr>ff_type := ''security.hardcoded_secret''\<rparr>]\<rparr>"

theorem undecided_finding_blocks_witness:
  "dispatch_fix (some_host Local_boundary\<lparr>fh_worker := \<lambda>_ _ w. (Inr (JStr ''no''), w + 2)\<rparr>) secret_operation ([], 0) =
    dispatch_fix (some_host Local_boundary) secret_operation ([], 0)"
  by (rule undecided_finding_blocks [where decisions = "[]" and f = "some_finding\<lparr>ff_type := ''security.hardcoded_secret''\<rparr>"])
    (simp_all add: secret_operation_def some_operation_def given_decisions_def waits_def decided_def requirement_for_def
      authority_policy_def some_host_def dict_of_def)

section \<open>Dependency evidence\<close>

lemma keys_join_records: "record_key ` set (foldl join_record rs news) = record_key ` set rs \<union> record_key ` set news"
  by (induction news arbitrary: rs) (auto simp: join_record_def)

definition keys_at :: "evidence \<Rightarrow> string \<Rightarrow> (json \<times> json \<times> json) set" where
  "keys_at ev path = (case map_of ev path of None \<Rightarrow> {} | Some rs \<Rightarrow> record_key ` set rs)"

lemma keys_at_join: "keys_at (join_entry ev e) path = keys_at ev path \<union> (if fst e = path then record_key ` set (snd e) else {})"
  by (auto simp: keys_at_def join_entry_def update_conv' keys_join_records split: option.split)

lemma keys_at_fold: "keys_at (foldl join_entry ev new) path = keys_at ev path \<union> (\<Union>e \<in> {e \<in> set new. fst e = path}. record_key ` set (snd e))"
  by (induction new arbitrary: ev) (auto simp: keys_at_join)

lemma keys_at_merged:
  "keys_at (merged_evidence ev new) path = keys_at ev path \<union> (\<Union>e \<in> {e \<in> set new. fst e = path}. record_key ` set (snd e))"
  by (simp add: merged_evidence_def keys_at_fold [symmetric]) (simp add: keys_at_def)

lemma originates_key: "originates f r \<longleftrightarrow> fst (record_key r) = JStr (ff_id f)"
  by (auto simp: originates_def record_key_def dget_def split: option.split)

lemma own_paths_of_key:
  assumes "k \<in> keys_at ev path" and "fst k = JStr (ff_id f)"
  shows "own_paths ev f \<noteq> []"
proof -
  from assms obtain rs r where rs: "map_of ev path = Some rs" and "r \<in> set rs" "originates f r"
    by (auto simp: keys_at_def originates_key split: option.splits)
  then have "list_ex (originates f) rs" by (auto simp: list_ex_iff)
  with map_of_SomeD [OF rs] show ?thesis by (auto simp: own_paths_def filter_empty_conv)
qed

text \<open>
  An unresolved dependency counts as resolved as soon as the file of the finding imports any other
  local module: the evidence of that import carries the id of the finding, and the missing module of
  the finding is not consulted.  The completeness then passes for every qualified plan.
\<close>

lemma other_import_resolves:
  assumes "resolve_dependency_details imports_of t base [f] = Inr (items, ev)" and "ev \<noteq> []"
    and "ff_type f = unresolved_type" and "fo_findings oper = [f]"
    and "prepare_dependency_evidence oper (Inr (items, ev)) = (enriched, results)"
  shows "map rz_resolved results = [True] \<and> map rz_failure results = [None] \<and>
    (cm_status (evaluate_fix_completeness plan [f] results) = ''pass'' \<longleftrightarrow> candidate_qualified plan)"
proof -
  let ?ev = "merged_evidence (fm_evidence (fo_manifest oper)) ev"
  from assms(2) obtain e where e: "e \<in> set ev" by (cases ev) auto
  have "record_justified t base [f] e"
    using resolve_details_inv [OF assms(1)] e by (auto simp: closure_inv_def)
  then obtain r where r: "snd e = [r]" "originates f r"
    by (auto simp: record_justified_def import_evidence_def originates_def)
  have "(fst e, [r]) \<in> set ev" using e r(1) by (metis prod.collapse)
  then have "record_key r \<in> keys_at ?ev (fst e)" by (fastforce simp: keys_at_merged)
  with r(2) have own: "own_paths ?ev f \<noteq> []" using own_paths_of_key by (simp add: originates_key)
  have results: "results = [resolve_finding ?ev f]"
    using assms(4,5) by (auto simp: prepare_dependency_evidence_def found_dependencies_def enriched_manifest_def Let_def)
  have "rz_resolved (resolve_finding ?ev f)" "rz_failure (resolve_finding ?ev f) = None" "rz_finding (resolve_finding ?ev f) = ff_id f"
    using own by (simp_all add: resolve_finding_def assms(3))
  then show ?thesis
    by (simp add: results fix_completeness_pass integrity_ok_def integrity_types_def dependency_results_def assms(3)
        unresolved_type_def)
qed

text \<open>The file imports a helper that is there and a module that is not.\<close>

definition missing_import :: fix_finding where
  "missing_import = \<lparr>ff_id = ''F2'', ff_type = ''dependency.unresolved'', ff_file = ''a.py'', ff_severity = ''high'',
     ff_evidence = JObj [(''module'', JStr ''lost'')]\<rparr>"

definition two_imports :: import_parser where
  "two_imports s = (if s = ''A'' then Some [Import [''helper''] 1, Import [''lost''] 2] else Some [])"

theorem other_import_resolves_witness:
  "\<exists>enriched results items ev.
    resolve_dependency_details two_imports [([''a.py''], ''A''), ([''helper.py''], ''B'')] [] [missing_import] = Inr (items, ev) \<and>
    prepare_dependency_evidence (some_operation\<lparr>fo_findings := [missing_import]\<rparr>) (Inr (items, ev)) = (enriched, results) \<and>
    map rz_resolved results = [True]"
proof -
  have found: "case resolve_dependency_details two_imports [([''a.py''], ''A''), ([''helper.py''], ''B'')] [] [missing_import] of
      Inl _ \<Rightarrow> False | Inr (items, ev) \<Rightarrow> ev \<noteq> []"
    by code_simp
  then obtain items ev
    where d: "resolve_dependency_details two_imports [([''a.py''], ''A''), ([''helper.py''], ''B'')] [] [missing_import] = Inr (items, ev)"
      and "ev \<noteq> []"
    by (auto split: sum.splits)
  moreover obtain enriched results
    where p: "prepare_dependency_evidence (some_operation\<lparr>fo_findings := [missing_import]\<rparr>) (Inr (items, ev)) = (enriched, results)"
    by fastforce
  moreover have "ff_type missing_import = unresolved_type" by (simp add: missing_import_def unresolved_type_def)
  ultimately show ?thesis
    using other_import_resolves [OF d, of "some_operation\<lparr>fo_findings := [missing_import]\<rparr>" enriched results "Typed_plan some_plan"]
    by auto
qed

section \<open>Scan, snapshot, dispatch\<close>

lemma hex_digit_plain: "n < 16 \<Longrightarrow> \<not> is_space (hex_digit n)"
proof -
  have "list_all (\<lambda>c. \<not> is_space c) ''0123456789abcdef''" by code_simp
  then show "n < 16 \<Longrightarrow> \<not> is_space (hex_digit n)" using hex_digit_ok unfolding list_all_iff by blast
qed

lemma strip_plain: "\<forall>c \<in> set s. \<not> is_space c \<Longrightarrow> strip s = s"
proof -
  have "dropWhile is_space xs = xs" if "\<forall>c \<in> set xs. \<not> is_space c" for xs
    using that by (cases xs) auto
  from this [of s] this [of "rev s"] show "\<forall>c \<in> set s. \<not> is_space c \<Longrightarrow> strip s = s" by (simp add: strip_def)
qed

lemma strip_sha256 [simp]: "strip (sha256_hex s) = sha256_hex s"
  by (rule strip_plain) (use sha256_hex_digits hex_digit_plain in blast)

text \<open>
  When the scan follows the imports and copies the files, the manifest of the snapshot is
  valid, has the scanned files and their closure, carries the digest of the snapshot and passes the
  guard of the dispatcher, and the three statements agree on its hashes; the finding ids must not be
  empty and no path of the closure may contain a backslash.
\<close>

lemma scanned_snapshot_is_accepted:
  assumes "resolve_dependency_details imports_of t base findings = Inr (items, ev)"
    and "\<forall>f \<in> set findings. ff_id f \<noteq> []" and "map slashes items = items"
    and "create_scoped_snapshot base findings items output ev t = (Inr s, t1)"
  shows "\<exists>m statements. scan_and_prepare imports_of base findings output t = (Inr (s, m, statements), t1) \<and>
    snapshot_guard m = Inr () \<and> fm_files m = sn_files s \<and> fm_closure m = items \<and> fm_input_hash m = sn_hash s \<and>
    same_references statements"
proof -
  from snapshot_manifest_valid [OF assms] obtain m where m: "snapshot_manifest s = Inr m" "manifest_ok m"
      "fm_file_hashes m \<noteq> []" "fm_files m = sn_files s" "fm_closure m = items" "fm_input_hash m = sn_hash s"
    by blast
  have "strip (sn_hash s) = sn_hash s" using create_snapshot_Inr [OF assms(4)] strip_sha256 by metis
  with m have "snapshot_guard m = Inr ()" by (simp add: guard_Inr)
  with m assms(1,4) show ?thesis by (simp add: scan_and_prepare_def)
qed

theorem scanned_snapshot_is_accepted_witness:
  "\<exists>s m statements t1. scan_and_prepare (\<lambda>_. Some []) [''repo''] [some_finding] [''snap''] [([''repo'', ''a.py''], ''x'')] =
      (Inr (s, m, statements), t1) \<and> snapshot_guard m = Inr () \<and> fm_files m = sn_files s"
proof -
  let ?t = "[([''repo'', ''a.py''], ''x'')]"
  have d: "resolve_dependency_details (\<lambda>_. Some []) ?t [''repo''] [some_finding] = Inr ([''a.py''], [])" by code_simp
  have "resolve_path [''repo''] ''a.py'' = [''repo'', ''a.py'']" "resolve_path [''snap'', h] ''a.py'' = [''snap'', h, ''a.py'']" for h
    by (simp_all add: resolve_path_def startswith_def pure_path_def step_into_def)
  then obtain s t1 where c: "create_scoped_snapshot [''repo''] [some_finding] [''a.py''] [''snap''] [] ?t = (Inr s, t1)"
    by (simp add: create_scoped_snapshot_def Let_def some_finding_def slashes_def sorted_set_def hash_closure_file_def
        dir_exists_def copy_file_def)
  have "\<forall>f \<in> set [some_finding]. ff_id f \<noteq> []" "map slashes [''a.py''] = [''a.py'']"
    by (simp_all add: some_finding_def slashes_def)
  from scanned_snapshot_is_accepted [OF d this c] show ?thesis by blast
qed

section \<open>The continuation\<close>

text \<open>
  C36: A continuation changes the directory or the environment only for an admitted handoff: a document
  of this operation and of type \<open>fix\<close> whose four authority fields are false, whose repository root is
  an absolute path of a directory, and whose plan has only targets that are files of the manifest and
  are authorised, that is relative, without \<open>..\<close> and below an allowed path.
\<close>

theorem launch_is_authorised:
  assumes "run_continuation h operation path receipt allowed dir st = (r, st1)" and "st1 \<noteq> st"
  shows "\<exists>handoff authority ctx root_dir plan targets m files.
    cd_read h path = Document (JObj handoff) \<and>
    get ''operation_id'' handoff = JStr operation \<and> get ''operation_type'' handoff = JStr ''fix'' \<and>
    dget ''authority'' (JObj []) handoff = JObj authority \<and> (\<forall>f \<in> set authority_fields. get f authority = JBool False) \<and>
    get ''scanner_context'' handoff = JObj ctx \<and> cd_kind h root_dir = Directory \<and> startswith root_dir ''/'' \<and>
    dget ''qualified_plan'' (JObj []) handoff = JObj plan \<and> dget ''target_files'' (JList []) plan = JList targets \<and>
    dget ''scoped_manifest'' (JObj []) handoff = JObj m \<and> set_of (dget ''files'' (JList []) m) = Inr files \<and>
    (\<forall>t \<in> set targets. \<exists>p. t = JStr p \<and> authorised allowed [] p \<and> t \<in> set files)"
proof -
  obtain handoff base where a: "admit_handoff h operation path allowed = Inr (handoff, base)"
    using assms run_refused [of h operation path allowed] by (cases "admit_handoff h operation path allowed") auto
  note parts = admit_handoff_Inr [OF a]
  show ?thesis
    by (rule validate_handoff_Inr [OF parts(1)], rule execution_root_Inr [OF parts(4)], rule validate_plan_targets_Inr [OF parts(5)])
      blast
qed

definition no_authority_doc :: json where
  "no_authority_doc = JObj (map (\<lambda>f. (f, JBool False)) authority_fields)"

definition admitted_handoff :: jdict where
  "admitted_handoff = [
     (''operation_id'', JStr ''op1''), (''operation_type'', JStr ''fix''), (''authority'', no_authority_doc),
     (''findings'', JList [JObj [(''id'', JStr ''F1'')]]),
     (''verification_contract'', JObj [(''finding_checks'', JList [JObj [(''finding_id'', JStr ''F1''),
        (''resolution_method'', JStr ''rescan''), (''check'', JStr ''rescan a.py''), (''expected_result'', JStr ''clear'')]]),
        (''validations'', JList []), (''must_not_regress'', JList []), (''success_rule'', JStr required_success_rule)]),
     (''verification_grounding'', JObj [(''finding_checks'', JList [JObj [(''finding_id'', JStr ''F1''),
        (''source_type'', JStr ''scanner_check''), (''source_reference'', JStr ''scanner:F1''), (''scoped_paths'', JList [JStr ''a.py''])]]),
        (''validations'', JList [])]),
     (''scanner_context'', JObj [(''repository_root'', JStr ''/repo'')]),
     (''scoped_manifest'', JObj [(''files'', JList [JStr ''a.py'']), (''dependency_closure'', JList [JStr ''a.py''])]),
     (''qualified_plan'', JObj [(''target_files'', JList [JStr ''a.py''])])]"

definition launching :: "int \<Rightarrow> unit verifier option \<Rightarrow> unit codex_host" where
  "launching code verify = \<lparr>cd_read = (\<lambda>_. Document (JObj admitted_handoff)), cd_kind = (\<lambda>_. Directory), cd_cwd = [''repo''],
     cd_launch = (\<lambda>_ _ w. (Inr \<lparr>la_pid = JInt 1, la_exit = code, la_outcome = ''completed'', la_argv = [], la_stdout = [],
       la_stderr = []\<rparr>, w)), cd_verifier = verify\<rparr>"

lemma launching_admitted: "admit_handoff (launching code verify) ''op1'' p [''.''] = Inr (admitted_handoff, ''/repo'')"
  by code_simp

definition run_of :: "int \<Rightarrow> unit verifier option \<Rightarrow> (raised + continuation_result) \<times> (op_files \<times> unit)" where
  "run_of code verify =
    run_continuation (launching code verify) ''op1'' ''h.json'' (JNull, JNull) [''.''] ''/op'' ([], ())"

lemma run_of_finish:
  "\<exists>envelope. run_of code verify = finish_launch (launching code verify) ''op1'' ''h.json'' ''/op'' admitted_handoff ''/repo''
      \<lparr>la_pid = JInt 1, la_exit = code, la_outcome = ''completed'', la_argv = [], la_stdout = [], la_stderr = []\<rparr>
      (put_document (envelope_path ''/op'') envelope [], ())"
  unfolding run_of_def run_continuation_def launching_admitted by (auto simp: Let_def launching_def)

lemma put_not_Nil: "put_document p d files \<noteq> []"
  unfolding put_document_def by (cases files) auto

theorem launch_is_authorised_witness:
  "\<exists>handoff targets. snd (run_of 0 None) \<noteq> ([], ()) \<and> cd_read (launching 0 None) ''h.json'' = Document (JObj handoff) \<and>
    dget ''target_files'' (JList []) (case dget ''qualified_plan'' (JObj []) handoff of JObj plan \<Rightarrow> plan | _ \<Rightarrow> []) = JList targets \<and>
    list_all (\<lambda>t. case t of JStr p \<Rightarrow> authorised [''.''] [] p | _ \<Rightarrow> False) targets"
proof -
  obtain envelope where run: "run_of 0 None = finish_launch (launching 0 None) ''op1'' ''h.json'' ''/op'' admitted_handoff ''/repo''
      \<lparr>la_pid = JInt 1, la_exit = 0, la_outcome = ''completed'', la_argv = [], la_stdout = [], la_stderr = []\<rparr>
      (put_document (envelope_path ''/op'') envelope [], ())"
    using run_of_finish by blast
  have changed: "snd (run_of 0 None) \<noteq> ([], ())"
    by (simp add: run finish_launch_def launching_def Let_def put_not_Nil)
  obtain r st1 where rs: "run_of 0 None = (r, st1)" by (rule prod.exhaust)
  from changed rs have new: "st1 \<noteq> ([], ())" by simp
  from launch_is_authorised [OF rs [unfolded run_of_def] new] obtain handoff plan targets
    where "cd_read (launching 0 None) ''h.json'' = Document (JObj handoff)"
      and "dget ''qualified_plan'' (JObj []) handoff = JObj plan" and "dget ''target_files'' (JList []) plan = JList targets"
      and "\<forall>t \<in> set targets. \<exists>p. t = JStr p \<and> authorised [''.''] [] p"
    by (elim exE conjE) blast
  then show ?thesis using changed by (intro exI [of _ handoff] exI [of _ targets]) (auto simp: list_all_iff)
qed

text \<open>
  A continuation claims completion only when the handoff was admitted, the executor was launched
  and exited with 0, and the host's verifier ran and claimed it; without a verifier nothing is claimed.
\<close>

lemma completion_needs_verifier:
  assumes "run_continuation h operation path receipt allowed dir st = (Inr r, st1)" and "cr_claimed r"
  shows "\<exists>handoff base input l w0 w1 verify v. admit_handoff h operation path allowed = Inr (handoff, base) \<and>
    cd_launch h input base (snd st) = (Inr l, w0) \<and> la_exit l = 0 \<and> cr_exit r = 0 \<and> cd_verifier h = Some verify \<and>
    verify base handoff (launch_result operation path (envelope_path dir) (result_path dir) base l) w0 = (Inr v, w1) \<and> ve_claimed v"
proof -
  from assms(1) obtain handoff base where a: "admit_handoff h operation path allowed = Inr (handoff, base)"
    by (cases "admit_handoff h operation path allowed") (auto simp: run_continuation_def)
  let ?envelope = "codex_envelope operation path handoff receipt allowed"
  from assms(1) a obtain l w0 where l: "cd_launch h (codex_stdin ?envelope) base (snd st) = (Inr l, w0)"
    by (cases "cd_launch h (codex_stdin ?envelope) base (snd st)")
      (auto simp: run_continuation_def Let_def split: sum.splits if_splits)
  with assms(1) a have "finish_launch h operation path dir handoff base l
      (put_document (envelope_path dir) ?envelope (fst st), w0) = (Inr r, st1)"
    by (simp add: run_continuation_def Let_def)
  from finish_claimed [OF this assms(2)] a l show ?thesis by fastforce
qed

text \<open>
  C37: The handoff that a dispatch writes is never accepted by the continuation: it has no
  \<open>scanner_context\<close>, which the continuation requires, so whatever operation asks for it is refused before
  anything is written or launched.
\<close>

theorem written_handoff_is_refused:
  assumes "map_of (fst (snd (dispatch_fix h oper st))) (handoff_name (fo_id oper)) = Some doc"
    and "map_of (fst st) (handoff_name (fo_id oper)) = None" and "cd_read c path = Document doc"
  shows "\<exists>e. run_continuation c operation path receipt allowed dir st' = (Inl e, st') \<and>
    ((\<exists>d. validate_handoff path (cd_read c path) operation = Inr d \<and> validate_contract False d = Inr () \<and>
      validate_grounding d = Inr ()) \<longrightarrow>
      e = refuse ''scanner_context_required'' ''Handoff does not contain scanner_context'')"
proof -
  from dispatch_handoff [OF assms(1,2)] obtain enriched result
    where doc: "doc = copy_value (JObj (sealed_handoff enriched result))"
    by metis
  let ?d = "stored_keys (sealed_handoff enriched result)"
  have absent: "map_of (sealed_handoff enriched result) ''scanner_context'' = None"
    by (simp add: sealed_handoff_def handoff_payload_def Let_def emit_def split: option.split)
  then have root: "execution_root (cd_kind c) ?d allowed =
      Inl (refuse ''scanner_context_required'' ''Handoff does not contain scanner_context'')"
    by (simp add: execution_root_def get_stored) (simp add: get_def dget_def need_def as_dict_def)
  have own: "d = ?d" if "validate_handoff path (cd_read c path) operation = Inr d" for d
  proof -
    have "cd_read c path = Document (JObj d)" by (rule validate_handoff_Inr [OF that])
    with assms(3) show ?thesis by (simp only: doc copy_object handoff_file.inject json.inject)
  qed
  show ?thesis
  proof (cases "admit_handoff c operation path allowed")
    case (Inl e)
    moreover have "e = refuse ''scanner_context_required'' ''Handoff does not contain scanner_context''"
      if "validate_handoff path (cd_read c path) operation = Inr d" "validate_contract False d = Inr ()"
        "validate_grounding d = Inr ()" for d
    proof -
      have "d = ?d" using that(1) by (rule own)
      with Inl that root show ?thesis by (simp add: admit_handoff_def)
    qed
    ultimately show ?thesis by (auto simp: run_refused)
  next
    case (Inr hb)
    then have "admit_handoff c operation path allowed = Inr (fst hb, snd hb)" by simp
    note parts = admit_handoff_Inr [OF this]
    have "fst hb = ?d" using parts(1) by (rule own)
    with parts(4) root show ?thesis by simp
  qed
qed

definition reading :: "json \<Rightarrow> unit codex_host" where
  "reading doc = (launching 0 None)\<lparr>cd_read := \<lambda>_. Document doc\<rparr>"

theorem written_handoff_is_refused_witness:
  "\<exists>doc e. map_of (fst (snd (dispatch_fix (some_host building) some_operation ([], 0)))) (handoff_name ''op1'') = Some doc \<and>
    run_continuation (reading doc) ''op1'' ''h.json'' (JNull, JNull) [''.''] ''/op'' ([], ()) = (Inl e, ([], ()))"
proof -
  obtain doc where d: "map_of (fst (snd (dispatch_fix (some_host building) some_operation ([], 0)))) (handoff_name (fo_id some_operation)) = Some doc"
    using some_handoff by auto
  have "map_of (fst ([], 0 :: nat)) (handoff_name (fo_id some_operation)) = (None :: json option)"
      "cd_read (reading doc) ''h.json'' = Document doc"
    by (simp_all add: reading_def)
  from written_handoff_is_refused [OF d this, where operation = "''op1''" and receipt = "(JNull, JNull)" and
      allowed = "[''.'']" and dir = "''/op''" and st' = "([], ())"]
  obtain e where "run_continuation (reading doc) ''op1'' ''h.json'' (JNull, JNull) [''.''] ''/op'' ([], ()) = (Inl e, ([], ()))"
    by (elim exE conjE)
  with d show ?thesis by (intro exI conjI) simp
qed

end
