(* ===== verification/Fix_Verification.thy ===== *)
theory Fix_Verification
  imports Fix_Continuation
begin

text \<open>
  The verification after the launch (\<open>codex/fix_verification.py\<close>): the scanner configuration that is
  read back from the handoff, the rescan, the checks and validations of the contract with the
  grounding that authorises them, and the result document that makes a second run answer the same.

  The repository is a tree of files in the environment \<open>'w\<close>; the runner of commands and the scanner are
  functions on the environment.  The parsers of Python and of JSON are functions that say whether a text
  parses.
\<close>

section \<open>Results\<close>

record finding_check_result =
  kr_finding :: string
  kr_check :: string
  kr_passed :: bool
  kr_source :: string
  kr_reference :: string
  kr_reason :: json

text \<open>The fields that a stored document may fill with any value are documents.\<close>

record validation_outcome =
  vo_id :: string
  vo_passed :: bool
  vo_source :: string
  vo_reference :: string
  vo_exit :: json
  vo_stdout :: json
  vo_stderr :: json
  vo_reason :: json

record fix_verification =
  vf_operation :: string
  vf_root :: string
  vf_reference :: string
  vf_performed :: bool
  vf_rule :: string
  vf_original :: "json list"
  vf_remaining :: "json list"
  vf_findings :: "finding_check_result list"
  vf_validations :: "validation_outcome list"
  vf_passed :: bool
  vf_claimed :: bool
  vf_failure :: json
  vf_message :: json

definition finding_result_mapping :: "finding_check_result \<Rightarrow> jdict" where
  "finding_result_mapping r = [
    (''finding_id'', JStr (kr_finding r)), (''check_id'', JStr (kr_check r)), (''passed'', JBool (kr_passed r)),
    (''source_type'', JStr (kr_source r)), (''source_reference'', JStr (kr_reference r)), (''reason'', kr_reason r)]"

definition validation_outcome_mapping :: "validation_outcome \<Rightarrow> jdict" where
  "validation_outcome_mapping r = [
    (''validation_id'', JStr (vo_id r)), (''passed'', JBool (vo_passed r)), (''source_type'', JStr (vo_source r)),
    (''source_reference'', JStr (vo_reference r)), (''exit_code'', vo_exit r), (''stdout'', vo_stdout r),
    (''stderr'', vo_stderr r), (''reason'', vo_reason r)]"

definition verification_mapping :: "fix_verification \<Rightarrow> jdict" where
  "verification_mapping r = [
    (''operation_id'', JStr (vf_operation r)), (''repository_root'', JStr (vf_root r)),
    (''codex_result_reference'', JStr (vf_reference r)), (''verification_performed'', JBool (vf_performed r)),
    (''success_rule'', JStr (vf_rule r)),
    (''scanner_result'', JObj [(''original_finding_ids'', JList (vf_original r)),
       (''remaining_original_finding_ids'', JList (vf_remaining r))]),
    (''finding_results'', JList (map (\<lambda>x. JObj (finding_result_mapping x)) (vf_findings r))),
    (''validation_results'', JList (map (\<lambda>x. JObj (validation_outcome_mapping x)) (vf_validations r))),
    (''passed'', JBool (vf_passed r)), (''completion_claimed'', JBool (vf_claimed r)),
    (''failure_code'', vf_failure r), (''failure_message'', vf_message r)]"

section \<open>The scanner configuration\<close>

definition verification_error :: "string \<Rightarrow> string \<Rightarrow> raised" where
  "verification_error code message =
    (plain_error ''FixVerificationError'' (code @ '': '' @ message))\<lparr>ex_code := Some (JStr code)\<rparr>"

definition context_fault :: "string \<Rightarrow> raised" where
  "context_fault message = verification_error ''scanner_context_invalid'' message"

record scan_config =
  sc_dirs :: "string list"
  sc_files :: "string list"
  sc_extensions :: "string list"
  sc_tests :: "string list list"
  sc_requirements :: "(string \<times> string list) list"
  sc_roots :: "string list"
  sc_base :: string

definition string_item :: "(json \<Rightarrow> string) \<Rightarrow> json \<Rightarrow> raised + string" where
  "string_item message v = (case v of JStr s \<Rightarrow> Inr s | _ \<Rightarrow> Inl (context_fault (message v)))"

text \<open>\<open>_as_str_set\<close> and \<open>_as_str_tuple\<close> differ in a word of the message; a set is given by its elements.\<close>

definition as_strings :: "string \<Rightarrow> json \<Rightarrow> raised + string list" where
  "as_strings kind v =
    (case v of
       JNull \<Rightarrow> Inr []
     | JList xs \<Rightarrow> smap (string_item (\<lambda>x. ''scanner_context field contains non-string: '' @ py_repr x)) xs
     | _ \<Rightarrow> Inl (context_fault (''scanner_context field expected '' @ kind @ '' of strings, got: '' @ type_name v)))"

definition as_command :: "json \<Rightarrow> raised + string list" where
  "as_command v =
    (case v of
       JList ts \<Rightarrow> smap (string_item (\<lambda>t. ''scanner_context.test_commands entry contains non-string: '' @ py_repr t)) ts
     | _ \<Rightarrow> Inl (context_fault (''scanner_context.test_commands entry expected list, got: '' @ type_name v)))"

definition as_commands :: "json \<Rightarrow> raised + string list list" where
  "as_commands v =
    (case v of
       JNull \<Rightarrow> Inr []
     | JList xs \<Rightarrow> smap as_command xs
     | _ \<Rightarrow> Inl (context_fault (''scanner_context.test_commands expected list, got: '' @ type_name v)))"

definition as_requirement :: "json \<Rightarrow> raised + (string \<times> string list)" where
  "as_requirement v =
    (case v of
       JList [path, fs] \<Rightarrow>
         sbind (string_item (\<lambda>p. ''scanner_context.contract_requirements path must be string, got: '' @ type_name p) path) (\<lambda>p.
         sbind (need (as_items fs)
           (context_fault (''scanner_context.contract_requirements fields must be list, got: '' @ type_name fs))) (\<lambda>xs.
         sbind (smap (string_item (\<lambda>f. ''scanner_context.contract_requirements field must be string, got: '' @ type_name f)) xs)
           (\<lambda>names. Inr (p, names))))
     | _ \<Rightarrow> Inl (context_fault (''scanner_context.contract_requirements entry expected [path, fields], got: '' @ py_repr v)))"

definition as_requirements :: "json \<Rightarrow> raised + (string \<times> string list) list" where
  "as_requirements v =
    (case v of
       JNull \<Rightarrow> Inr []
     | JList xs \<Rightarrow> smap as_requirement xs
     | _ \<Rightarrow> Inl (context_fault (''scanner_context.contract_requirements expected list, got: '' @ type_name v)))"

definition reconstruct_scan_config :: "json \<Rightarrow> raised + scan_config" where
  "reconstruct_scan_config scanner_context =
    sbind (need (as_dict scanner_context) (context_fault ''scanner_context is not a mapping'')) (\<lambda>d.
    sbind (need (concrete_text ''repository_root'' d)
      (context_fault ''scanner_context.repository_root is missing or empty'')) (\<lambda>base.
    sbind (as_strings ''iterable'' (get ''excluded_dirs'' d)) (\<lambda>dirs.
    sbind (as_strings ''iterable'' (get ''excluded_files'' d)) (\<lambda>files.
    sbind (as_strings ''iterable'' (get ''extensions'' d)) (\<lambda>extensions.
    sbind (as_commands (get ''test_commands'' d)) (\<lambda>tests.
    sbind (as_requirements (get ''contract_requirements'' d)) (\<lambda>requirements.
    sbind (as_strings ''list'' (get ''source_roots'' d)) (\<lambda>roots.
      Inr \<lparr>sc_dirs = dirs, sc_files = files, sc_extensions = extensions, sc_tests = tests,
        sc_requirements = requirements, sc_roots = roots, sc_base = base\<rparr>))))))))"

section \<open>The host of the verifier\<close>

datatype command_outcome =
    Completed int string string
  | Timed_out string string
  | Not_started string
  | Runner_raises raised

datatype parse_outcome = Parsed | Syntax_error json string | Parser_raises raised

text \<open>\<open>pv_scan\<close> is \<open>None\<close> when the scanner package cannot be imported.\<close>

record 'w post_verifier =
  pv_tree :: "'w \<Rightarrow> tree"
  pv_cwd :: "string list"
  pv_run :: "string list \<Rightarrow> string \<Rightarrow> 'w \<Rightarrow> command_outcome \<times> 'w"
  pv_scan :: "(scan_config \<Rightarrow> string \<Rightarrow> 'w \<Rightarrow> (raised + fix_finding list) \<times> 'w) option"
  pv_python :: "string \<Rightarrow> string \<Rightarrow> parse_outcome"
  pv_json :: "string \<Rightarrow> parse_outcome"
  pv_decode_fault :: "string \<Rightarrow> string"

text \<open>Steps on the environment that may raise.\<close>

definition wbind :: "('w \<Rightarrow> ('e + 'a) \<times> 'w) \<Rightarrow> ('a \<Rightarrow> 'w \<Rightarrow> ('e + 'b) \<times> 'w) \<Rightarrow> 'w \<Rightarrow> ('e + 'b) \<times> 'w" where
  "wbind m f w = (case m w of (Inl e, w1) \<Rightarrow> (Inl e, w1) | (Inr x, w1) \<Rightarrow> f x w1)"

definition wret :: "'e + 'a \<Rightarrow> 'w \<Rightarrow> ('e + 'a) \<times> 'w" where
  "wret r w = (r, w)"

fun wmap :: "('a \<Rightarrow> 'w \<Rightarrow> ('e + 'b) \<times> 'w) \<Rightarrow> 'a list \<Rightarrow> 'w \<Rightarrow> ('e + 'b list) \<times> 'w" where
  "wmap f [] = wret (Inr [])"
| "wmap f (x # xs) = wbind (f x) (\<lambda>y. wbind (wmap f xs) (\<lambda>ys. wret (Inr (y # ys))))"

section \<open>Reading files\<close>

text \<open>Strict UTF-8: no overlong form, no surrogate, nothing beyond 10FFFF.\<close>

definition tail_in :: "nat \<Rightarrow> nat \<Rightarrow> char \<Rightarrow> bool" where
  "tail_in lo hi c \<longleftrightarrow> lo \<le> (of_char c :: nat) \<and> (of_char c :: nat) \<le> hi"

fun utf8_valid :: "string \<Rightarrow> bool" where
  "utf8_valid [] = True"
| "utf8_valid (a # s) =
    (let n = (of_char a :: nat); tail = tail_in 128 191
     in if n < 128 then utf8_valid s
        else if 194 \<le> n \<and> n \<le> 223 then (case s of b # r \<Rightarrow> tail b \<and> utf8_valid r | _ \<Rightarrow> False)
        else if 224 \<le> n \<and> n \<le> 239
        then (case s of
            b # c # r \<Rightarrow> tail_in (if n = 224 then 160 else 128) (if n = 237 then 159 else 191) b \<and> tail c \<and> utf8_valid r
          | _ \<Rightarrow> False)
        else if 240 \<le> n \<and> n \<le> 244
        then (case s of
            b # c # d # r \<Rightarrow> tail_in (if n = 240 then 144 else 128) (if n = 244 then 143 else 191) b \<and> tail c \<and> tail d \<and> utf8_valid r
          | _ \<Rightarrow> False)
        else False)"

text \<open>The universal newlines of \<open>read_text\<close>.\<close>

fun universal_newlines :: "bool \<Rightarrow> string \<Rightarrow> string" where
  "universal_newlines after_cr [] = []"
| "universal_newlines after_cr (c # s) =
    (if c = CHR 0x0D then CHR 0x0A # universal_newlines True s
     else if after_cr \<and> c = CHR 0x0A then universal_newlines False s
     else c # universal_newlines False s)"

definition read_text_file :: "'w post_verifier \<Rightarrow> string \<Rightarrow> string + string" where
  "read_text_file pv bytes = (if utf8_valid bytes then Inr (universal_newlines False bytes) else Inl (pv_decode_fault pv bytes))"

text \<open>What the assertions read: the reason why not, or the text.\<close>

definition read_target :: "'w post_verifier \<Rightarrow> 'w \<Rightarrow> string \<Rightarrow> string list \<Rightarrow> string + string" where
  "read_target pv w rel target =
    (case map_of (pv_tree pv w) target of
       None \<Rightarrow> Inl (''file does not exist: '' @ rel)
     | Some bytes \<Rightarrow> (case read_text_file pv bytes of Inl e \<Rightarrow> Inl (''could not read file: '' @ e) | Inr s \<Rightarrow> Inr s))"

section \<open>The rescan\<close>

text \<open>\<open>Path.suffix\<close>: a leading or a trailing dot starts no suffix.\<close>

definition suffix_of :: "string \<Rightarrow> string" where
  "suffix_of name =
    (let tail = takeWhile (\<lambda>c. c \<noteq> CHR ''.'') (rev name); n = length tail
     in if n = 0 \<or> length name \<le> n + 1 then [] else CHR ''.'' # rev tail)"

definition scan_fault :: "string \<Rightarrow> string \<Rightarrow> string \<Rightarrow> json \<Rightarrow> string \<Rightarrow> fix_finding" where
  "scan_fault kind type rel line message =
    \<lparr>ff_id = kind @ rel, ff_type = type, ff_file = rel, ff_severity = ''high'',
     ff_evidence = JObj [(''line'', line), (''message'', JStr message)]\<rparr>"

definition parse_fault :: "string \<Rightarrow> string \<Rightarrow> string \<Rightarrow> parse_outcome \<Rightarrow> raised + fix_finding list" where
  "parse_fault kind type rel outcome =
    (case outcome of
       Parsed \<Rightarrow> Inr []
     | Syntax_error line message \<Rightarrow> Inr [scan_fault kind type rel line message]
     | Parser_raises e \<Rightarrow> Inl e)"

definition rescan_file :: "'w post_verifier \<Rightarrow> scan_config \<Rightarrow> string list \<times> string \<Rightarrow> raised + fix_finding list" where
  "rescan_file pv cfg file =
    (case file of (parts, bytes) \<Rightarrow>
       (let rel = join ''/'' parts; extension = lower (suffix_of (last parts))
        in if list_ex (\<lambda>p. p \<in> set (sc_dirs cfg)) parts \<or> rel \<in> set (sc_files cfg) \<or> extension \<notin> set (sc_extensions cfg)
           then Inr []
           else (case read_text_file pv bytes of
               Inl _ \<Rightarrow> Inr []
             | Inr s \<Rightarrow>
                 (if extension = ''.py''
                  then parse_fault ''rescan-syntax-'' ''correctness.syntax_error'' rel (pv_python pv s rel)
                  else if extension = ''.json''
                  then parse_fault ''rescan-json-'' ''configuration.invalid_configuration'' rel (pv_json pv s)
                  else Inr []))))"

definition files_below :: "string list \<Rightarrow> tree \<Rightarrow> (string list \<times> string) list" where
  "files_below dir t = sort_key fst (map (\<lambda>(p, b). (drop (length dir) p, b)) (filter (\<lambda>f. strict_prefix dir (fst f)) t))"

definition minimal_rescan :: "'w post_verifier \<Rightarrow> scan_config \<Rightarrow> string \<Rightarrow> 'w \<Rightarrow> (raised + fix_finding list) \<times> 'w" where
  "minimal_rescan pv cfg base w =
    (sbind (smap (rescan_file pv cfg) (files_below (resolve_path (pv_cwd pv) base) (pv_tree pv w))) (\<lambda>fs. Inr (concat fs)), w)"

definition rescan :: "'w post_verifier \<Rightarrow> scan_config \<Rightarrow> string \<Rightarrow> 'w \<Rightarrow> (raised + fix_finding list) \<times> 'w" where
  "rescan pv cfg base = (case pv_scan pv of None \<Rightarrow> minimal_rescan pv cfg base | Some scan \<Rightarrow> scan cfg base)"

text \<open>The findings of the rescan under their ids, the last one of an id counts.\<close>

definition evaluate_scanner_clear :: "json list \<Rightarrow> fix_finding list \<Rightarrow> json list \<times> (string, fix_finding) dict" where
  "evaluate_scanner_clear original found =
    (let found_by_id = dict_of (map (\<lambda>f. (ff_id f, f)) (filter (\<lambda>f. ff_id f \<noteq> []) found))
     in (filter (\<lambda>i. i \<in> JStr ` set (map fst found_by_id)) original, found_by_id))"

section \<open>Assertions\<close>

definition in_scope :: "string \<Rightarrow> json \<Rightarrow> raised + bool" where
  "in_scope rel scoped =
    (if \<not> truth scoped \<or> rel = [] \<or> startswith rel ''/'' \<or> ''..'' \<in> set (path_parts (pure_path rel)) then Inr False
     else sbind (py (list_items scoped)) (\<lambda>xs. Inr (JStr rel \<in> set xs)))"

definition resolve_scoped_path :: "'w post_verifier \<Rightarrow> string \<Rightarrow> string \<Rightarrow> raised + string list" where
  "resolve_scoped_path pv rel base =
    (let root = resolve_path (pv_cwd pv) base; target = resolve_path root rel
     in if prefix root target then Inr target
        else Inl (verification_error ''path_out_of_scope'' (''path '' @ py_repr_str rel @ '' escapes repository root'')))"

text \<open>A verdict: passed, or the reason.\<close>

type_synonym judgement = "bool \<times> json"

definition pass :: judgement where
  "pass = (True, JNull)"

definition fails :: "string \<Rightarrow> judgement" where
  "fails reason = (False, JStr reason)"

definition parse_verdict :: "string \<Rightarrow> parse_outcome \<Rightarrow> raised + judgement" where
  "parse_verdict what outcome =
    (case outcome of
       Parsed \<Rightarrow> Inr pass | Syntax_error line message \<Rightarrow> Inr (fails (what @ message)) | Parser_raises e \<Rightarrow> Inl e)"

definition has_literal :: "string option \<Rightarrow> string \<Rightarrow> bool" where
  "has_literal literal s \<longleftrightarrow> (case literal of None \<Rightarrow> True | Some l \<Rightarrow> is_substring l s)"

definition lacks_literal :: "string option \<Rightarrow> string \<Rightarrow> bool" where
  "lacks_literal literal s \<longleftrightarrow> (case literal of None \<Rightarrow> True | Some l \<Rightarrow> \<not> is_substring l s)"

definition judge_text :: "'w post_verifier \<Rightarrow> string \<Rightarrow> string \<Rightarrow> string option \<Rightarrow> string \<Rightarrow> raised + judgement" where
  "judge_text pv form rel literal s =
    (if form = ''file_contains''
     then Inr (if has_literal literal s then pass else fails (''literal not found in '' @ rel))
     else if form = ''file_not_contains''
     then Inr (if lacks_literal literal s then pass else fails (''literal found in '' @ rel))
     else if form = ''python_compiles'' then parse_verdict ''python syntax error: '' (pv_python pv s rel)
     else parse_verdict ''json parse error: '' (pv_json pv s))"

definition text_forms :: "string list" where
  "text_forms = [''file_contains'', ''file_not_contains'', ''python_compiles'', ''json_parses'']"

definition evaluate_assertion ::
  "'w post_verifier \<Rightarrow> string \<Rightarrow> string \<Rightarrow> string option \<Rightarrow> string \<Rightarrow> json \<Rightarrow> 'w \<Rightarrow> raised + judgement" where
  "evaluate_assertion pv form rel literal base scoped w =
    sbind (in_scope rel scoped) (\<lambda>ok.
      if \<not> ok then Inr (fails (''path '' @ py_repr_str rel @ '' is not in approved scope''))
      else sbind (resolve_scoped_path pv rel base) (\<lambda>target.
        if form = ''file_exists''
        then Inr (if is_file (pv_tree pv w) target then pass else fails (''file does not exist: '' @ rel))
        else if form \<in> set text_forms
        then (case read_target pv w rel target of Inl reason \<Rightarrow> Inr (fails reason) | Inr s \<Rightarrow> judge_text pv form rel literal s)
        else Inr (fails (''unsupported assertion form: '' @ py_repr_str form))))"

section \<open>Commands\<close>

definition expected_results :: "string list" where
  "expected_results = [''exit code 0'', ''exists'', ''contains'', ''absent'', ''compiles'', ''parses'']"

record command_verdict =
  cv_passed :: bool
  cv_exit :: json
  cv_stdout :: json
  cv_stderr :: json
  cv_reason :: json

definition refused_command :: "string \<Rightarrow> command_verdict" where
  "refused_command reason =
    \<lparr>cv_passed = False, cv_exit = JNull, cv_stdout = JNull, cv_stderr = JNull, cv_reason = JStr reason\<rparr>"

definition unsupported :: "string \<Rightarrow> string" where
  "unsupported expected = ''unsupported_expected_result: '' @ py_repr_str expected"

definition judge_command :: "string \<Rightarrow> command_outcome \<Rightarrow> raised + command_verdict" where
  "judge_command expected outcome =
    (case outcome of
       Timed_out out err \<Rightarrow> Inr \<lparr>cv_passed = False, cv_exit = JNull, cv_stdout = JStr out, cv_stderr = JStr err,
         cv_reason = JStr ''command_timeout''\<rparr>
     | Not_started message \<Rightarrow> Inr (refused_command (''command_execution_failed: '' @ message))
     | Runner_raises e \<Rightarrow> Inl e
     | Completed code out err \<Rightarrow>
         Inr \<lparr>cv_passed = (expected = ''exit code 0'' \<and> code = 0), cv_exit = JInt code, cv_stdout = JStr out, cv_stderr = JStr err,
           cv_reason = (if expected \<noteq> ''exit code 0'' then JStr (unsupported expected)
             else if code = 0 then JNull else JStr (''command exited with code '' @ str_of_int code))\<rparr>)"

definition execute_command ::
  "'w post_verifier \<Rightarrow> string list \<Rightarrow> string \<Rightarrow> string \<Rightarrow> 'w \<Rightarrow> (raised + command_verdict) \<times> 'w" where
  "execute_command pv tokens base expected w =
    (let root = resolve_path (pv_cwd pv) base
     in if tokens = [] \<or> [] \<in> set tokens then (Inr (refused_command ''malformed authorized_tokens''), w)
        else if expected \<notin> set expected_results then (Inr (refused_command (unsupported expected)), w)
        else if \<not> dir_exists (pv_tree pv w) root
        then (Inr (refused_command (''repository_root is not a directory: '' @ base)), w)
        else (case pv_run pv tokens (show_path root) w of (outcome, w1) \<Rightarrow> (judge_command expected outcome, w1)))"

section \<open>Checks and validations\<close>

text \<open>A list, or nothing in place of anything else; the entries with a string under the key, the last of each.\<close>

definition items_or_none :: "json \<Rightarrow> json list" where
  "items_or_none v = (case v of JList xs \<Rightarrow> xs | _ \<Rightarrow> [])"

definition groundings_by :: "string \<Rightarrow> json list \<Rightarrow> (string, jdict) dict" where
  "groundings_by key items = dict_of (for_each items (\<lambda>g.
    case g of JObj d \<Rightarrow> (case get key d of JStr i \<Rightarrow> [(i, d)] | _ \<Rightarrow> []) | _ \<Rightarrow> []))"

definition text_at :: "string \<Rightarrow> jdict \<Rightarrow> string" where
  "text_at key d = py_str (dget key (JStr []) d)"

definition scoped_of :: "jdict \<Rightarrow> json" where
  "scoped_of g = (let v = dget ''scoped_paths'' (JList []) g in if truth v then v else JList [])"

text \<open>The tokens of a grounding, each as \<open>str\<close> shows it, when there are any.\<close>

definition tokens_of :: "jdict \<Rightarrow> string list option" where
  "tokens_of g = (case get ''authorized_tokens'' g of JList ts \<Rightarrow> if ts = [] then None else Some (map py_str ts) | _ \<Rightarrow> None)"

definition cleared_verdict :: "(string, fix_finding) dict \<Rightarrow> string \<Rightarrow> judgement" where
  "cleared_verdict found ident =
    (if map_of found ident = None then pass else fails (''finding '' @ ident @ '' still present in post-scan''))"

definition check_verdict ::
  "'w post_verifier \<Rightarrow> string \<Rightarrow> (string, fix_finding) dict \<Rightarrow> string \<Rightarrow> jdict \<Rightarrow> jdict \<Rightarrow> 'w \<Rightarrow> (raised + judgement) \<times> 'w" where
  "check_verdict pv base found ident check g w =
    (let source = text_at ''source_type'' g; assertion = text_at ''check'' check
     in if source \<in> {''scanner_check'', ''plan_acceptance''} then (Inr (cleared_verdict found ident), w)
        else if source = ''deterministic_assertion''
        then (case parse_assertion assertion of
            None \<Rightarrow> (Inr (fails (''unparseable assertion: '' @ py_repr_str assertion)), w)
          | Some (form, rel, literal) \<Rightarrow>
              (if form = ''scanner_clear'' then (Inr (cleared_verdict found ident), w)
               else (evaluate_assertion pv form rel literal base (scoped_of g) w, w)))
        else if source = ''recorded_test''
        then (case tokens_of g of
            None \<Rightarrow> (Inr (fails ''missing authorized_tokens for recorded_test''), w)
          | Some ts \<Rightarrow> wbind (execute_command pv ts base (text_at ''expected_result'' check))
              (\<lambda>c. wret (Inr (cv_passed c, cv_reason c))) w)
        else (Inr (fails (''unsupported source_type: '' @ py_repr_str source)), w))"

definition evaluate_check ::
  "'w post_verifier \<Rightarrow> string \<Rightarrow> (string, fix_finding) dict \<Rightarrow> (string, jdict) dict \<Rightarrow> nat \<times> json \<Rightarrow> 'w \<Rightarrow>
    (raised + finding_check_result list) \<times> 'w" where
  "evaluate_check pv base found groundings entry =
    (case entry of
       (index, JObj check) \<Rightarrow>
         (let ident = text_at ''finding_id'' check; cid = ''finding_check:'' @ str_of_nat index
          in case map_of groundings ident of
               None \<Rightarrow> wret (Inr [\<lparr>kr_finding = ident, kr_check = cid, kr_passed = False, kr_source = ''unknown'', kr_reference = [],
                 kr_reason = JStr ''missing grounding for finding_check''\<rparr>])
             | Some g \<Rightarrow> wbind (check_verdict pv base found ident check g) (\<lambda>v.
                 wret (Inr [\<lparr>kr_finding = ident, kr_check = cid, kr_passed = fst v, kr_source = text_at ''source_type'' g,
                   kr_reference = text_at ''source_reference'' g, kr_reason = snd v\<rparr>])))
     | _ \<Rightarrow> wret (Inr []))"

definition evaluate_finding_checks ::
  "'w post_verifier \<Rightarrow> jdict \<Rightarrow> jdict \<Rightarrow> string \<Rightarrow> (string, fix_finding) dict \<Rightarrow> 'w \<Rightarrow> (raised + finding_check_result list) \<times> 'w" where
  "evaluate_finding_checks pv contract grounding base found =
    wbind (wmap (evaluate_check pv base found
        (groundings_by ''finding_id'' (items_or_none (dget ''finding_checks'' (JList []) grounding))))
      (enumerate 0 (items_or_none (dget ''finding_checks'' (JList []) contract))))
    (\<lambda>rs. wret (Inr (concat rs)))"

definition verdict_of :: "judgement \<Rightarrow> command_verdict" where
  "verdict_of v = \<lparr>cv_passed = fst v, cv_exit = JNull, cv_stdout = JNull, cv_stderr = JNull, cv_reason = snd v\<rparr>"

definition validation_verdict ::
  "'w post_verifier \<Rightarrow> string \<Rightarrow> jdict \<Rightarrow> jdict \<Rightarrow> 'w \<Rightarrow> (raised + command_verdict) \<times> 'w" where
  "validation_verdict pv base val g w =
    (let source = text_at ''source_type'' g; assertion = text_at ''command_or_assertion'' val
     in if source = ''deterministic_assertion''
        then (case parse_assertion assertion of
            None \<Rightarrow> (Inr (refused_command (''unparseable assertion: '' @ py_repr_str assertion)), w)
          | Some (form, rel, literal) \<Rightarrow>
              (if form = ''scanner_clear'' then (Inr (refused_command ''scanner_clear is not valid for ValidationSpec''), w)
               else (sbind (evaluate_assertion pv form rel literal base (scoped_of g) w) (\<lambda>v. Inr (verdict_of v)), w)))
        else if source \<in> {''configured_test'', ''recorded_test''}
        then (case tokens_of g of
            None \<Rightarrow> (Inr (refused_command ''missing authorized_tokens for command source''), w)
          | Some ts \<Rightarrow> execute_command pv ts base (text_at ''expected_result'' val) w)
        else (Inr (refused_command (''unsupported source_type: '' @ py_repr_str source)), w))"

definition validation_entry_result :: "string \<Rightarrow> string \<Rightarrow> string \<Rightarrow> command_verdict \<Rightarrow> validation_outcome" where
  "validation_entry_result ident source reference c =
    \<lparr>vo_id = ident, vo_passed = cv_passed c, vo_source = source, vo_reference = reference, vo_exit = cv_exit c,
     vo_stdout = cv_stdout c, vo_stderr = cv_stderr c, vo_reason = cv_reason c\<rparr>"

definition evaluate_validation ::
  "'w post_verifier \<Rightarrow> string \<Rightarrow> (string, jdict) dict \<Rightarrow> json \<Rightarrow> 'w \<Rightarrow> (raised + validation_outcome list) \<times> 'w" where
  "evaluate_validation pv base groundings v =
    (case v of
       JObj val \<Rightarrow>
         (let ident = text_at ''id'' val
          in case map_of groundings ident of
               None \<Rightarrow> wret (Inr [validation_entry_result ident ''unknown'' [] (refused_command ''missing grounding for validation'')])
             | Some g \<Rightarrow> wbind (validation_verdict pv base val g) (\<lambda>c.
                 wret (Inr [validation_entry_result ident (text_at ''source_type'' g) (text_at ''source_reference'' g) c])))
     | _ \<Rightarrow> wret (Inr []))"

definition evaluate_validations ::
  "'w post_verifier \<Rightarrow> jdict \<Rightarrow> jdict \<Rightarrow> string \<Rightarrow> 'w \<Rightarrow> (raised + validation_outcome list) \<times> 'w" where
  "evaluate_validations pv contract grounding base =
    wbind (wmap (evaluate_validation pv base
        (groundings_by ''validation_id'' (items_or_none (dget ''validations'' (JList []) grounding))))
      (items_or_none (dget ''validations'' (JList []) contract)))
    (\<lambda>rs. wret (Inr (concat rs)))"

section \<open>The result document\<close>

definition verification_path :: "string \<Rightarrow> string" where
  "verification_path dir = dir @ ''/fix-verification-result.json''"

definition load_finding_result :: "json \<Rightarrow> finding_check_result list" where
  "load_finding_result v =
    (case v of
       JObj d \<Rightarrow> [\<lparr>kr_finding = text_at ''finding_id'' d, kr_check = text_at ''check_id'' d,
         kr_passed = truth (dget ''passed'' (JBool False) d), kr_source = text_at ''source_type'' d,
         kr_reference = text_at ''source_reference'' d, kr_reason = get ''reason'' d\<rparr>]
     | _ \<Rightarrow> [])"

definition load_validation_outcome :: "json \<Rightarrow> validation_outcome list" where
  "load_validation_outcome v =
    (case v of
       JObj d \<Rightarrow> [\<lparr>vo_id = text_at ''validation_id'' d, vo_passed = truth (dget ''passed'' (JBool False) d),
         vo_source = text_at ''source_type'' d, vo_reference = text_at ''source_reference'' d, vo_exit = get ''exit_code'' d,
         vo_stdout = get ''stdout'' d, vo_stderr = get ''stderr'' d, vo_reason = get ''reason'' d\<rparr>]
     | _ \<Rightarrow> [])"

definition load_verification :: "jdict \<Rightarrow> fix_verification result" where
  "load_verification d =
    rbind (list_items (dget ''finding_results'' (JList []) d)) (\<lambda>fs.
    rbind (list_items (dget ''validation_results'' (JList []) d)) (\<lambda>vs.
    rbind (let v = dget ''scanner_result'' (JObj []) d in Inr (if truth v then v else JObj [])) (\<lambda>scanner.
    rbind (rbind (jget ''original_finding_ids'' (JList []) scanner) list_items) (\<lambda>original.
    rbind (rbind (jget ''remaining_original_finding_ids'' (JList []) scanner) list_items) (\<lambda>remaining.
      Inr \<lparr>vf_operation = text_at ''operation_id'' d, vf_root = text_at ''repository_root'' d,
        vf_reference = text_at ''codex_result_reference'' d,
        vf_performed = truth (dget ''verification_performed'' (JBool False) d), vf_rule = text_at ''success_rule'' d,
        vf_original = original, vf_remaining = remaining, vf_findings = for_each fs load_finding_result,
        vf_validations = for_each vs load_validation_outcome, vf_passed = truth (dget ''passed'' (JBool False) d),
        vf_claimed = truth (dget ''completion_claimed'' (JBool False) d), vf_failure = get ''failure_code'' d,
        vf_message = get ''failure_message'' d\<rparr>)))))"

text \<open>Of what \<open>load_verification\<close> raises, a \<open>TypeError\<close> means that there is no result; other errors escape.\<close>

definition load_existing_result :: "string \<Rightarrow> op_files \<Rightarrow> raised + fix_verification option" where
  "load_existing_result dir files =
    (case map_of files (verification_path dir) of
       Some (JObj d) \<Rightarrow>
         (case load_verification d of
            Inr r \<Rightarrow> Inr (Some r)
          | Inl (TypeError m) \<Rightarrow> Inr None
          | Inl (ValueError m) \<Rightarrow> Inr None
          | Inl e \<Rightarrow> Inl (raised_of e))
     | _ \<Rightarrow> Inr None)"

definition persist_result :: "string \<Rightarrow> fix_verification \<Rightarrow> op_files \<Rightarrow> op_files" where
  "persist_result dir r files = put_document (verification_path dir) (verification_mapping r) files"

section \<open>The verification\<close>

text \<open>\<open>a or b or ""\<close>.\<close>

definition first_true :: "string list \<Rightarrow> jdict \<Rightarrow> string" where
  "first_true keys d = (case find (\<lambda>k. truth (get k d)) keys of None \<Rightarrow> [] | Some k \<Rightarrow> py_str (get k d))"

definition skipped_result :: "string \<Rightarrow> string \<Rightarrow> jdict \<Rightarrow> fix_verification" where
  "skipped_result operation base codex =
    \<lparr>vf_operation = operation, vf_root = base, vf_reference = first_true [''codex_result_reference'', ''reference''] codex,
     vf_performed = False, vf_rule = [], vf_original = [], vf_remaining = [], vf_findings = [], vf_validations = [],
     vf_passed = False, vf_claimed = False, vf_failure = JStr ''codex_exit_nonzero'',
     vf_message = JStr (''Codex exited with code '' @ py_str (get ''exit_code'' codex) @ ''; verification not run'')\<rparr>"

definition unsupported_rule_result ::
  "string \<Rightarrow> string \<Rightarrow> jdict \<Rightarrow> finding_check_result list \<Rightarrow> validation_outcome list \<Rightarrow> json list \<Rightarrow> json list \<Rightarrow> json \<Rightarrow> fix_verification" where
  "unsupported_rule_result operation base codex fs vs original remaining rule =
    \<lparr>vf_operation = operation, vf_root = base, vf_reference = first_true [''codex_result_reference'', ''reference''] codex,
     vf_performed = True, vf_rule = [], vf_original = original, vf_remaining = remaining, vf_findings = fs,
     vf_validations = vs, vf_passed = False, vf_claimed = False, vf_failure = JStr ''unsupported_success_rule'',
     vf_message = JStr (''success_rule must be '' @ py_repr_str required_success_rule @ '', got: '' @ py_repr rule)\<rparr>"

definition judged_result ::
  "string \<Rightarrow> string \<Rightarrow> jdict \<Rightarrow> finding_check_result list \<Rightarrow> validation_outcome list \<Rightarrow> json list \<Rightarrow> json list \<Rightarrow> fix_verification" where
  "judged_result operation base codex fs vs original remaining =
    (let passed = list_all kr_passed fs \<and> list_all vo_passed vs
     in \<lparr>vf_operation = operation, vf_root = base, vf_reference = first_true [''reference'', ''codex_result_reference''] codex,
         vf_performed = True, vf_rule = required_success_rule, vf_original = original, vf_remaining = remaining, vf_findings = fs,
         vf_validations = vs, vf_passed = passed, vf_claimed = passed,
         vf_failure = (if passed then JNull else JStr ''verification_failed''),
         vf_message = (if passed then JNull else JStr ''One or more checks did not pass'')\<rparr>)"

definition original_ids :: "json \<Rightarrow> raised + json list" where
  "original_ids findings =
    sbind (py (list_items findings)) (\<lambda>items.
      Inr (for_each items (\<lambda>v. case v of JObj d \<Rightarrow> [JStr (py_str (get ''id'' d))] | _ \<Rightarrow> [])))"

text \<open>Everything after the exit code: the result that is persisted.\<close>

definition judge_repository ::
  "'w post_verifier \<Rightarrow> string \<Rightarrow> string \<Rightarrow> json \<Rightarrow> json \<Rightarrow> jdict \<Rightarrow> jdict \<Rightarrow> jdict \<Rightarrow> 'w \<Rightarrow> (raised + fix_verification) \<times> 'w" where
  "judge_repository pv operation base scanner_context findings contract grounding codex =
    wbind (wret (reconstruct_scan_config scanner_context)) (\<lambda>cfg.
    wbind (rescan pv cfg base) (\<lambda>found.
    wbind (wret (original_ids findings)) (\<lambda>original.
      (case evaluate_scanner_clear original found of (remaining, found_by_id) \<Rightarrow>
         wbind (evaluate_finding_checks pv contract grounding base found_by_id) (\<lambda>fs.
         wbind (evaluate_validations pv contract grounding base) (\<lambda>vs.
           wret (Inr (if get ''success_rule'' contract = JStr required_success_rule
             then judged_result operation base codex fs vs original remaining
             else unsupported_rule_result operation base codex fs vs original remaining (get ''success_rule'' contract)))))))))"

definition verify_fix ::
  "'w post_verifier \<Rightarrow> string \<Rightarrow> string \<Rightarrow> string \<Rightarrow> json \<Rightarrow> json \<Rightarrow> jdict \<Rightarrow> jdict \<Rightarrow> jdict \<Rightarrow> op_files \<times> 'w \<Rightarrow>
    (raised + fix_verification) \<times> (op_files \<times> 'w)" where
  "verify_fix pv dir operation base scanner_context findings contract grounding codex st =
    (case load_existing_result dir (fst st) of
       Inl e \<Rightarrow> (Inl e, st)
     | Inr (Some r) \<Rightarrow> (Inr r, st)
     | Inr None \<Rightarrow>
         (if \<not> py_eq (get ''exit_code'' codex) (JInt 0)
          then (let r = skipped_result operation base codex in (Inr r, persist_result dir r (fst st), snd st))
          else (case judge_repository pv operation base scanner_context findings contract grounding codex (snd st) of
              (Inl e, w) \<Rightarrow> (Inl e, fst st, w)
            | (Inr r, w) \<Rightarrow> (Inr r, persist_result dir r (fst st), w))))"

text \<open>The verifier as the continuation calls it; its documents are a part of the environment.\<close>

definition dict_entry :: "string \<Rightarrow> jdict \<Rightarrow> jdict" where
  "dict_entry key d = (case dget key (JObj []) d of JObj e \<Rightarrow> e | _ \<Rightarrow> [])"

definition post_verification :: "'w post_verifier \<Rightarrow> string \<Rightarrow> string \<Rightarrow> (op_files \<times> 'w) verifier" where
  "post_verification pv dir operation base handoff document st =
    (case verify_fix pv dir operation base (dget ''scanner_context'' (JObj []) handoff) (dget ''findings'' (JList []) handoff)
        (dict_entry ''verification_contract'' handoff) (dict_entry ''verification_grounding'' handoff) document st of
       (Inl e, st1) \<Rightarrow> (Inl e, st1)
     | (Inr r, st1) \<Rightarrow> (Inr \<lparr>ve_performed = vf_performed r, ve_passed = vf_passed r, ve_claimed = vf_claimed r\<rparr>, st1))"

section \<open>How steps compute\<close>

lemma wbind_simps [simp]:
  "wbind (wret r) f w = (case r of Inl e \<Rightarrow> (Inl e, w) | Inr x \<Rightarrow> f x w)"
  by (simp add: wbind_def wret_def split: sum.split)

lemma wbind_Inr: "wbind m f w = (Inr y, w2) \<longleftrightarrow> (\<exists>x w1. m w = (Inr x, w1) \<and> f x w1 = (Inr y, w2))"
  by (auto simp: wbind_def split: prod.split sum.split)

lemma wret_Inr: "wret r w = (Inr y, w2) \<longleftrightarrow> r = Inr y \<and> w2 = w"
  by (auto simp: wret_def)

lemmas step_Inr = wbind_Inr wret_Inr

text \<open>What holds of every result of the steps, wherever they start.\<close>

lemma wmap_Inr:
  "wmap f xs w = (Inr ys, w2) \<Longrightarrow> list_all2 (\<lambda>x y. \<exists>u v. f x u = (Inr y, v)) xs ys"
proof (induction xs arbitrary: ys w)
  case (Cons x xs)
  then obtain y w1 zs where "f x w = (Inr y, w1)" and "wmap f xs w1 = (Inr zs, w2)" and "ys = y # zs"
    by (auto simp: step_Inr)
  with Cons.IH show ?case by auto
qed (simp add: wret_Inr)

lemma wmap_cong: "(\<And>x u. x \<in> set xs \<Longrightarrow> f x u = g x u) \<Longrightarrow> wmap f xs w = wmap g xs w"
proof (induction xs arbitrary: w)
  case (Cons x xs)
  have "f x w = g x w" using Cons.prems by simp
  moreover have "wmap f xs u = wmap g xs u" for u using Cons by simp
  ultimately show ?case by (simp add: wbind_def split: prod.split sum.split)
qed simp

section \<open>Results can be stored and read back\<close>

fun atom :: "json \<Rightarrow> bool" where
  "atom (JList _) = False"
| "atom (JObj _) = False"
| "atom _ = True"

lemma copy_atom: "atom v \<Longrightarrow> copy_value v = v"
  by (cases v) simp_all

definition plain_result :: "fix_verification \<Rightarrow> bool" where
  "plain_result r \<longleftrightarrow>
    list_all atom (vf_original r) \<and> list_all atom (vf_remaining r) \<and> list_all (\<lambda>x. atom (kr_reason x)) (vf_findings r) \<and>
    list_all (\<lambda>x. atom (vo_exit x) \<and> atom (vo_stdout x) \<and> atom (vo_stderr x) \<and> atom (vo_reason x)) (vf_validations r) \<and>
    atom (vf_failure r) \<and> atom (vf_message r)"

lemma text_at_stored: "text_at k (stored_keys d) = (case map_of d k of None \<Rightarrow> [] | Some v \<Rightarrow> py_str (copy_value v))"
  by (cases "map_of d k") (simp_all add: text_at_def dget_def map_of_stored py_str_def)

lemma dget_stored: "dget k x (stored_keys d) = (case map_of d k of None \<Rightarrow> x | Some v \<Rightarrow> copy_value v)"
  by (simp add: dget_def map_of_stored split: option.split)

lemma get_stored_key: "get k (stored_keys d) = (case map_of d k of None \<Rightarrow> JNull | Some v \<Rightarrow> copy_value v)"
  by (simp add: get_def dget_stored)

lemmas stored = text_at_stored dget_stored get_stored_key

lemma load_finding_stored:
  "atom (kr_reason x) \<Longrightarrow> load_finding_result (copy_value (JObj (finding_result_mapping x))) = [x]"
  unfolding copy_object load_finding_result_def
  by (simp add: stored finding_result_mapping_def copy_atom py_str_def)

lemma load_validation_stored:
  "atom (vo_exit x) \<Longrightarrow> atom (vo_stdout x) \<Longrightarrow> atom (vo_stderr x) \<Longrightarrow> atom (vo_reason x) \<Longrightarrow>
    load_validation_outcome (copy_value (JObj (validation_outcome_mapping x))) = [x]"
  unfolding copy_object load_validation_outcome_def
  by (simp add: stored validation_outcome_mapping_def copy_atom py_str_def)

lemma map_copy_atoms: "list_all atom xs \<Longrightarrow> map copy_value xs = xs"
  by (induction xs) (simp_all add: copy_atom)

lemma for_each_single: "(\<And>x. x \<in> set xs \<Longrightarrow> f (g x) = [x]) \<Longrightarrow> for_each (map g xs) f = xs"
  by (induction xs) (simp_all add: for_each_def)

lemma load_stored_result:
  assumes "plain_result r"
  shows "load_verification (stored_keys (verification_mapping r)) = Inr r"
proof -
  let ?d = "stored_keys (verification_mapping r)"
  have fs: "dget ''finding_results'' (JList []) ?d = JList (map (\<lambda>x. copy_value (JObj (finding_result_mapping x))) (vf_findings r))"
    and vs: "dget ''validation_results'' (JList []) ?d =
      JList (map (\<lambda>x. copy_value (JObj (validation_outcome_mapping x))) (vf_validations r))"
    by (simp_all only: dget_stored) (simp_all add: verification_mapping_def comp_def)
  have lf: "for_each (map (\<lambda>x. copy_value (JObj (finding_result_mapping x))) (vf_findings r)) load_finding_result = vf_findings r"
    using assms by (intro for_each_single load_finding_stored) (simp add: plain_result_def list_all_iff)
  have lv: "for_each (map (\<lambda>x. copy_value (JObj (validation_outcome_mapping x))) (vf_validations r)) load_validation_outcome = vf_validations r"
    using assms by (intro for_each_single load_validation_stored) (simp_all add: plain_result_def list_all_iff)
  have sc: "dget ''scanner_result'' (JObj []) ?d = JObj (stored_keys
      [(''original_finding_ids'', JList (vf_original r)), (''remaining_original_finding_ids'', JList (vf_remaining r))])"
    unfolding dget_stored by (simp add: verification_mapping_def copy_object [symmetric] del: copy_value.simps)
  have keys: "stored_keys [(''original_finding_ids'', JList (vf_original r)), (''remaining_original_finding_ids'', JList (vf_remaining r))] \<noteq> []"
    by (simp add: stored_keys_def)
  show ?thesis
    unfolding load_verification_def fs vs sc
    using assms keys
    by (simp add: lf [simplified] lv [simplified] stored verification_mapping_def plain_result_def copy_atom map_copy_atoms py_str_def)
qed

section \<open>Every result is plain\<close>

lemma atom_simps [simp]:
  "atom (snd pass)" "atom (snd (fails reason))" "atom (snd (cleared_verdict found i))"
  by (simp_all add: pass_def fails_def cleared_verdict_def)

definition plain_command :: "command_verdict \<Rightarrow> bool" where
  "plain_command c \<longleftrightarrow> atom (cv_exit c) \<and> atom (cv_stdout c) \<and> atom (cv_stderr c) \<and> atom (cv_reason c)"

lemma plain_refused [simp]: "plain_command (refused_command reason)"
  by (simp add: plain_command_def refused_command_def)

lemma plain_verdict_of [simp]: "plain_command (verdict_of v) \<longleftrightarrow> atom (snd v)"
  by (simp add: plain_command_def verdict_of_def)

lemma judge_command_plain: "judge_command expected outcome = Inr c \<Longrightarrow> plain_command c"
  by (auto simp: judge_command_def plain_command_def refused_command_def split: command_outcome.splits)

lemma execute_command_plain: "execute_command pv ts base expected w = (Inr c, w1) \<Longrightarrow> plain_command c"
  by (auto simp: execute_command_def Let_def split: if_splits prod.splits dest: judge_command_plain)

lemma parse_verdict_atom: "parse_verdict what outcome = Inr v \<Longrightarrow> atom (snd v)"
  by (auto simp: parse_verdict_def split: parse_outcome.splits)

lemma judge_text_atom: "judge_text pv form rel literal s = Inr v \<Longrightarrow> atom (snd v)"
  by (auto simp: judge_text_def split: if_splits dest: parse_verdict_atom)

lemma assertion_atom: "evaluate_assertion pv form rel literal base scoped w = Inr v \<Longrightarrow> atom (snd v)"
  unfolding evaluate_assertion_def sbind_eq_Inr
  by (cases "read_target pv w rel (resolve_path (resolve_path (pv_cwd pv) base) rel)")
    (auto simp: sbind_eq_Inr resolve_scoped_path_def Let_def split: if_split_asm dest: judge_text_atom)

lemma check_verdict_atom: "check_verdict pv base found ident check g w = (Inr v, w1) \<Longrightarrow> atom (snd v)"
  by (auto simp: check_verdict_def Let_def step_Inr plain_command_def
      split: if_splits option.splits prod.splits dest!: assertion_atom execute_command_plain)

lemma validation_verdict_plain: "validation_verdict pv base val g w = (Inr c, w1) \<Longrightarrow> plain_command c"
  by (auto simp: validation_verdict_def Let_def sbind_eq_Inr
      split: if_splits option.splits prod.splits dest: assertion_atom execute_command_plain)

lemma evaluate_check_plain:
  "evaluate_check pv base found gs entry w = (Inr rs, w1) \<Longrightarrow> list_all (\<lambda>x. atom (kr_reason x)) rs"
  by (auto simp: evaluate_check_def Let_def step_Inr split: prod.splits json.splits option.splits dest: check_verdict_atom)

lemma evaluate_validation_plain:
  "evaluate_validation pv base gs v w = (Inr rs, w1) \<Longrightarrow>
    list_all (\<lambda>x. atom (vo_exit x) \<and> atom (vo_stdout x) \<and> atom (vo_stderr x) \<and> atom (vo_reason x)) rs"
  by (auto simp: evaluate_validation_def Let_def step_Inr validation_entry_result_def plain_command_def refused_command_def
      split: json.splits option.splits dest!: validation_verdict_plain)

lemma wmap_concat_all:
  assumes "wmap f xs w = (Inr yss, w1)" and "\<And>x u ys v. f x u = (Inr ys, v) \<Longrightarrow> list_all P ys"
  shows "list_all P (concat yss)"
proof -
  have "list_all (list_all P) yss"
    using wmap_Inr [OF assms(1)] by (induction rule: list_all2_induct) (auto dest: assms(2))
  then show ?thesis by (simp add: list_all_iff)
qed

lemma scanner_clear_subset: "set (fst (evaluate_scanner_clear original found)) \<subseteq> set original"
  by (auto simp: evaluate_scanner_clear_def Let_def)

lemma original_ids_atoms: "original_ids findings = Inr ids \<Longrightarrow> list_all atom ids"
  by (auto simp: original_ids_def sbind_eq_Inr list_all_iff for_each_def split: json.splits)

lemma judge_repository_plain:
  assumes "judge_repository pv operation base scanner_context findings contract grounding codex w = (Inr r, w1)"
  shows "plain_result r"
proof -
  obtain original found fs vs u1 u2 u3 u4 where o: "original_ids findings = Inr original"
    and f: "evaluate_finding_checks pv contract grounding base (snd (evaluate_scanner_clear original found)) u1 = (Inr fs, u2)"
    and v: "evaluate_validations pv contract grounding base u3 = (Inr vs, u4)"
    and r: "r = judged_result operation base codex fs vs original (fst (evaluate_scanner_clear original found)) \<or>
      r = unsupported_rule_result operation base codex fs vs original (fst (evaluate_scanner_clear original found)) (get ''success_rule'' contract)"
    using assms unfolding judge_repository_def step_Inr case_prod_beta sum.inject
    by (elim exE conjE) (erule that, assumption, assumption, auto split: if_split_asm)
  from f have "list_all (\<lambda>x. atom (kr_reason x)) fs"
    unfolding evaluate_finding_checks_def step_Inr sum.inject
    by (elim exE conjE) (hypsubst, erule wmap_concat_all, erule evaluate_check_plain)
  moreover from v have "list_all (\<lambda>x. atom (vo_exit x) \<and> atom (vo_stdout x) \<and> atom (vo_stderr x) \<and> atom (vo_reason x)) vs"
    unfolding evaluate_validations_def step_Inr sum.inject
    by (elim exE conjE) (hypsubst, erule wmap_concat_all, erule evaluate_validation_plain)
  moreover have "list_all atom original" using o by (rule original_ids_atoms)
  moreover from this have "list_all atom (fst (evaluate_scanner_clear original found))"
    using scanner_clear_subset [of original found] by (auto simp: list_all_iff)
  ultimately show ?thesis using r by (auto simp: plain_result_def judged_result_def unsupported_rule_result_def Let_def)
qed

end
