(* ===== verification/Verification_Properties.thy ===== *)
theory Verification_Properties
  imports Fix_Properties Fix_Verification
begin

text \<open>
  What the verification after a launch promises: a claimed completion rests on evidence for every check
  and validation of the contract, nothing but the authorised commands is run, and the answer of the first
  run is the answer of every later one.
\<close>

section \<open>What a passing assertion shows\<close>

definition assertion_met ::
  "'w post_verifier \<Rightarrow> string \<Rightarrow> json \<Rightarrow> string \<times> string \<times> string option \<Rightarrow> 'w \<Rightarrow> bool" where
  "assertion_met pv base scoped a w \<longleftrightarrow>
    (case a of (form, rel, literal) \<Rightarrow>
       (let root = resolve_path (pv_cwd pv) base; target = resolve_path root rel
        in in_scope rel scoped = Inr True \<and> prefix root target \<and>
          (form = ''file_exists'' \<and> is_file (pv_tree pv w) target \<or>
           (\<exists>s. read_target pv w rel target = Inr s \<and>
              (form = ''file_contains'' \<and> has_literal literal s \<or> form = ''file_not_contains'' \<and> lacks_literal literal s \<or>
               form = ''python_compiles'' \<and> pv_python pv s rel = Parsed \<or> form = ''json_parses'' \<and> pv_json pv s = Parsed)))))"

lemma verdict_simps [simp]: "fst pass" "\<not> fst (fails reason)" "snd pass = JNull" "snd (fails reason) = JStr reason"
  by (simp_all add: pass_def fails_def)

lemma cleared_verdict_passed [simp]: "fst (cleared_verdict found i) \<longleftrightarrow> map_of found i = None"
  by (simp add: cleared_verdict_def)

lemma parse_verdict_passed: "parse_verdict what outcome = Inr v \<Longrightarrow> fst v \<Longrightarrow> outcome = Parsed"
  by (auto simp: parse_verdict_def split: parse_outcome.splits)

lemma assertion_passed:
  assumes "evaluate_assertion pv form rel literal base scoped w = Inr v" and "fst v"
  shows "assertion_met pv base scoped (form, rel, literal) w"
proof -
  let ?root = "resolve_path (pv_cwd pv) base"
  let ?target = "resolve_path ?root rel"
  have scope: "in_scope rel scoped = Inr True" and root: "prefix ?root ?target"
    using assms by (auto simp: evaluate_assertion_def sbind_eq_Inr resolve_scoped_path_def Let_def split: if_split_asm)
  show ?thesis
  proof (cases "form = ''file_exists''")
    case True
    then show ?thesis
      using assms scope root
      by (auto simp: evaluate_assertion_def resolve_scoped_path_def assertion_met_def Let_def split: if_split_asm)
  next
    case False
    obtain s where s: "read_target pv w rel ?target = Inr s" and "form \<in> set text_forms" "judge_text pv form rel literal s = Inr v"
      using assms scope root False
      by (cases "read_target pv w rel ?target")
        (auto simp: evaluate_assertion_def resolve_scoped_path_def Let_def split: if_split_asm)
    then show ?thesis
      using assms(2) scope root
      by (auto simp: assertion_met_def Let_def judge_text_def text_forms_def split: if_split_asm dest: parse_verdict_passed)
  qed
qed

section \<open>What a passing command shows\<close>

definition command_met :: "'w post_verifier \<Rightarrow> string \<Rightarrow> string list \<Rightarrow> bool" where
  "command_met pv base tokens \<longleftrightarrow> tokens \<noteq> [] \<and> [] \<notin> set tokens \<and>
    (\<exists>w out err w1. dir_exists (pv_tree pv w) (resolve_path (pv_cwd pv) base) \<and>
      pv_run pv tokens (show_path (resolve_path (pv_cwd pv) base)) w = (Completed 0 out err, w1))"

lemma command_passed:
  assumes "execute_command pv tokens base expected w = (Inr c, w1)" and "cv_passed c"
  shows "expected = ''exit code 0'' \<and> command_met pv base tokens"
proof -
  let ?root = "resolve_path (pv_cwd pv) base"
  obtain outcome w2 where run: "pv_run pv tokens (show_path ?root) w = (outcome, w2)"
    by (rule prod.exhaust)
  have judged: "tokens \<noteq> [] \<and> [] \<notin> set tokens \<and> dir_exists (pv_tree pv w) ?root \<and> judge_command expected outcome = Inr c"
    using assms run by (auto simp: execute_command_def Let_def refused_command_def split: if_split_asm)
  then have "outcome = Completed 0 out err \<and> expected = ''exit code 0''" if "outcome = Completed n out err" for n out err
    using assms(2) that by (auto simp: judge_command_def)
  moreover from judged assms(2) obtain n out err where "outcome = Completed n out err"
    by (cases outcome) (auto simp: judge_command_def refused_command_def)
  ultimately show ?thesis using judged run by (auto simp: command_met_def)
qed

section \<open>Evidence for a check and for a validation\<close>

text \<open>\<open>present\<close> holds the ids of the findings of the rescan.\<close>

definition finding_evidence ::
  "'w post_verifier \<Rightarrow> string \<Rightarrow> string set \<Rightarrow> jdict \<Rightarrow> jdict \<Rightarrow> bool" where
  "finding_evidence pv base present check g \<longleftrightarrow>
    (let source = text_at ''source_type'' g; cleared = text_at ''finding_id'' check \<notin> present
     in source \<in> {''scanner_check'', ''plan_acceptance''} \<and> cleared \<or>
        source = ''deterministic_assertion'' \<and>
          (\<exists>a. parse_assertion (text_at ''check'' check) = Some a \<and>
            (if fst a = ''scanner_clear'' then cleared else \<exists>w. assertion_met pv base (scoped_of g) a w)) \<or>
        source = ''recorded_test'' \<and> text_at ''expected_result'' check = ''exit code 0'' \<and>
          (\<exists>ts. tokens_of g = Some ts \<and> command_met pv base ts))"

definition validation_evidence :: "'w post_verifier \<Rightarrow> string \<Rightarrow> jdict \<Rightarrow> jdict \<Rightarrow> bool" where
  "validation_evidence pv base val g \<longleftrightarrow>
    (let source = text_at ''source_type'' g
     in source = ''deterministic_assertion'' \<and>
          (\<exists>a. parse_assertion (text_at ''command_or_assertion'' val) = Some a \<and> fst a \<noteq> ''scanner_clear'' \<and>
            (\<exists>w. assertion_met pv base (scoped_of g) a w)) \<or>
        source \<in> {''configured_test'', ''recorded_test''} \<and> text_at ''expected_result'' val = ''exit code 0'' \<and>
          (\<exists>ts. tokens_of g = Some ts \<and> command_met pv base ts))"

lemma check_verdict_passed:
  assumes "check_verdict pv base found (text_at ''finding_id'' check) check g w = (Inr v, w1)" and "fst v"
  shows "finding_evidence pv base (fst ` set found) check g"
  using assms unfolding finding_evidence_def map_of_eq_None_iff [symmetric]
  by (auto simp: check_verdict_def Let_def wbind_Inr wret_Inr
      split: if_split_asm option.split_asm prod.split_asm dest: command_passed assertion_passed)

lemma validation_verdict_passed:
  assumes "validation_verdict pv base val g w = (Inr c, w1)" and "cv_passed c"
  shows "validation_evidence pv base val g"
  using assms
  by (auto simp: validation_verdict_def validation_evidence_def Let_def sbind_eq_Inr refused_command_def verdict_of_def
      split: if_split_asm option.split_asm prod.split_asm dest: command_passed assertion_passed)

definition check_groundings :: "jdict \<Rightarrow> (string, jdict) dict" where
  "check_groundings grounding = groundings_by ''finding_id'' (items_or_none (dget ''finding_checks'' (JList []) grounding))"

definition validation_groundings :: "jdict \<Rightarrow> (string, jdict) dict" where
  "validation_groundings grounding = groundings_by ''validation_id'' (items_or_none (dget ''validations'' (JList []) grounding))"

lemma evaluate_check_passed:
  assumes "evaluate_check pv base found gs (i, JObj check) w = (Inr rs, w1)" and "list_all kr_passed rs"
  obtains g where "map_of gs (text_at ''finding_id'' check) = Some g" and "finding_evidence pv base (fst ` set found) check g"
proof (cases "map_of gs (text_at ''finding_id'' check)")
  case None
  with assms show ?thesis by (auto simp: evaluate_check_def wret_Inr)
next
  case (Some g)
  with assms obtain v w2 where "check_verdict pv base found (text_at ''finding_id'' check) check g w = (Inr v, w2)" "fst v"
    by (auto simp: evaluate_check_def Let_def wbind_Inr wret_Inr)
  from check_verdict_passed [OF this] show ?thesis by (rule that [OF Some])
qed

lemma evaluate_validation_passed:
  assumes "evaluate_validation pv base gs (JObj val) w = (Inr rs, w1)" and "list_all vo_passed rs"
  obtains g where "map_of gs (text_at ''id'' val) = Some g" and "validation_evidence pv base val g"
proof (cases "map_of gs (text_at ''id'' val)")
  case None
  with assms show ?thesis by (auto simp: evaluate_validation_def wret_Inr validation_entry_result_def refused_command_def)
next
  case (Some g)
  with assms obtain c w2 where "validation_verdict pv base val g w = (Inr c, w2)" "cv_passed c"
    by (auto simp: evaluate_validation_def Let_def wbind_Inr wret_Inr validation_entry_result_def)
  from validation_verdict_passed [OF this] show ?thesis by (rule that [OF Some])
qed

lemma list_all2_member: "list_all2 P xs ys \<Longrightarrow> x \<in> set xs \<Longrightarrow> \<exists>y \<in> set ys. P x y"
  by (induction rule: list_all2_induct) auto

lemma wmap_member:
  assumes "wmap f xs w = (Inr yss, w1)" and "x \<in> set xs" and "list_all P (concat yss)"
  obtains u ys v where "f x u = (Inr ys, v)" and "list_all P ys"
proof -
  from list_all2_member [OF wmap_Inr [OF assms(1)] assms(2)] obtain ys u v where "ys \<in> set yss" "f x u = (Inr ys, v)"
    by blast
  with assms(3) that show ?thesis by (auto simp: list_all_iff)
qed

lemma enumerate_member: "x \<in> set xs \<Longrightarrow> \<exists>i. (i, x) \<in> set (enumerate n xs)"
proof -
  assume "x \<in> set xs"
  then obtain i where "i < length xs" and "xs ! i = x" by (auto simp: in_set_conv_nth)
  then have "(n + i, x) \<in> set (enumerate n xs)" by (simp add: in_set_enumerate_eq)
  then show ?thesis ..
qed

lemma finding_checks_passed:
  assumes "evaluate_finding_checks pv contract grounding base found w = (Inr rs, w1)" and "list_all kr_passed rs"
    and "JObj check \<in> set (items_or_none (dget ''finding_checks'' (JList []) contract))"
  shows "\<exists>g. map_of (check_groundings grounding) (text_at ''finding_id'' check) = Some g \<and> finding_evidence pv base (fst ` set found) check g"
proof -
  from enumerate_member [OF assms(3)] obtain i
    where "(i, JObj check) \<in> set (enumerate 0 (items_or_none (dget ''finding_checks'' (JList []) contract)))" by blast
  moreover from assms(1) obtain yss w2 where
      "wmap (evaluate_check pv base found (check_groundings grounding))
        (enumerate 0 (items_or_none (dget ''finding_checks'' (JList []) contract))) w = (Inr yss, w2)" and "rs = concat yss"
    unfolding evaluate_finding_checks_def check_groundings_def by (auto simp: step_Inr)
  ultimately obtain u ys v where "evaluate_check pv base found (check_groundings grounding) (i, JObj check) u = (Inr ys, v)"
      and "list_all kr_passed ys"
    using assms(2) wmap_member by metis
  then show ?thesis by (rule evaluate_check_passed) blast
qed

lemma validations_passed:
  assumes "evaluate_validations pv contract grounding base w = (Inr rs, w1)" and "list_all vo_passed rs"
    and "JObj val \<in> set (items_or_none (dget ''validations'' (JList []) contract))"
  shows "\<exists>g. map_of (validation_groundings grounding) (text_at ''id'' val) = Some g \<and> validation_evidence pv base val g"
proof -
  from assms(1) obtain yss w2 where
      "wmap (evaluate_validation pv base (validation_groundings grounding))
        (items_or_none (dget ''validations'' (JList []) contract)) w = (Inr yss, w2)" and "rs = concat yss"
    unfolding evaluate_validations_def validation_groundings_def by (auto simp: step_Inr)
  with assms(2,3) obtain u ys v where
      "evaluate_validation pv base (validation_groundings grounding) (JObj val) u = (Inr ys, v)" and "list_all vo_passed ys"
    using wmap_member by metis
  then show ?thesis by (rule evaluate_validation_passed) blast
qed

section \<open>The run of the verification\<close>

lemma judge_steps:
  assumes "judge_repository pv operation base scanner_context findings contract grounding codex w = (Inr r, w1)"
  obtains cfg found original fs vs u1 u2 u3 where "reconstruct_scan_config scanner_context = Inr cfg"
    and "rescan pv cfg base w = (Inr found, u1)" and "original_ids findings = Inr original"
    and "evaluate_finding_checks pv contract grounding base (snd (evaluate_scanner_clear original found)) u1 = (Inr fs, u2)"
    and "evaluate_validations pv contract grounding base u2 = (Inr vs, w1)"
    and "r = (if get ''success_rule'' contract = JStr required_success_rule
      then judged_result operation base codex fs vs original (fst (evaluate_scanner_clear original found))
      else unsupported_rule_result operation base codex fs vs original (fst (evaluate_scanner_clear original found)) (get ''success_rule'' contract))"
  using assms unfolding judge_repository_def step_Inr case_prod_beta sum.inject
  by (elim exE conjE) (hypsubst, erule that, assumption, assumption, assumption, assumption, simp)

lemma verify_steps:
  assumes "verify_fix pv dir operation base scanner_context findings contract grounding codex st = (Inr r, st1)"
  obtains (stored) "load_existing_result dir (fst st) = Inr (Some r)" and "st1 = st"
  | (skipped) "load_existing_result dir (fst st) = Inr None" and "\<not> py_eq (get ''exit_code'' codex) (JInt 0)"
      and "r = skipped_result operation base codex" and "st1 = (persist_result dir r (fst st), snd st)"
  | (judged) w where "load_existing_result dir (fst st) = Inr None" and "py_eq (get ''exit_code'' codex) (JInt 0)"
      and "judge_repository pv operation base scanner_context findings contract grounding codex (snd st) = (Inr r, w)"
      and "st1 = (persist_result dir r (fst st), w)"
  using assms
  by (auto simp: verify_fix_def Let_def split: sum.splits option.splits prod.splits if_splits)

lemma found_by_id: "snd (evaluate_scanner_clear original found) = snd (evaluate_scanner_clear [] found)"
  by (simp add: evaluate_scanner_clear_def Let_def)

lemma found_ids: "fst ` set (snd (evaluate_scanner_clear original found)) = ff_id ` set found - {[]}"
  by (auto simp: evaluate_scanner_clear_def Let_def keys_dict_of image_iff)

definition completion_evidence :: "'w post_verifier \<Rightarrow> string \<Rightarrow> json \<Rightarrow> jdict \<Rightarrow> jdict \<Rightarrow> 'w \<Rightarrow> bool" where
  "completion_evidence pv base scanner_context contract grounding w \<longleftrightarrow>
    get ''success_rule'' contract = JStr required_success_rule \<and>
    (\<exists>cfg found w1. reconstruct_scan_config scanner_context = Inr cfg \<and> rescan pv cfg base w = (Inr found, w1) \<and>
      (\<forall>check. JObj check \<in> set (items_or_none (dget ''finding_checks'' (JList []) contract)) \<longrightarrow>
        (\<exists>g. map_of (check_groundings grounding) (text_at ''finding_id'' check) = Some g \<and>
          finding_evidence pv base (ff_id ` set found - {[]}) check g))) \<and>
    (\<forall>val. JObj val \<in> set (items_or_none (dget ''validations'' (JList []) contract)) \<longrightarrow>
      (\<exists>g. map_of (validation_groundings grounding) (text_at ''id'' val) = Some g \<and> validation_evidence pv base val g))"

lemma judge_claimed:
  assumes "judge_repository pv operation base scanner_context findings contract grounding codex w = (Inr r, w1)" and "vf_claimed r"
  shows "completion_evidence pv base scanner_context contract grounding w"
  using assms(1)
proof (rule judge_steps)
  fix cfg found original fs vs u1 u2
  assume cfg: "reconstruct_scan_config scanner_context = Inr cfg" and scan: "rescan pv cfg base w = (Inr found, u1)"
    and fs: "evaluate_finding_checks pv contract grounding base (snd (evaluate_scanner_clear original found)) u1 = (Inr fs, u2)"
    and vs: "evaluate_validations pv contract grounding base u2 = (Inr vs, w1)"
    and r: "r = (if get ''success_rule'' contract = JStr required_success_rule
      then judged_result operation base codex fs vs original (fst (evaluate_scanner_clear original found))
      else unsupported_rule_result operation base codex fs vs original (fst (evaluate_scanner_clear original found)) (get ''success_rule'' contract))"
  from r assms(2) have rule: "get ''success_rule'' contract = JStr required_success_rule"
      and passed: "list_all kr_passed fs" "list_all vo_passed vs"
    by (auto simp: judged_result_def unsupported_rule_result_def Let_def split: if_split_asm)
  show ?thesis
    unfolding completion_evidence_def
    using rule cfg scan finding_checks_passed [OF fs passed(1), unfolded found_ids] validations_passed [OF vs passed(2)]
    by blast
qed

lemma verify_claimed:
  assumes "verify_fix pv dir operation base scanner_context findings contract grounding codex st = (Inr r, st1)" and "vf_claimed r"
  shows "load_existing_result dir (fst st) = Inr (Some r) \<or>
    completion_evidence pv base scanner_context contract grounding (snd st)"
  using assms(1)
proof (cases rule: verify_steps)
  case skipped
  then show ?thesis using assms(2) by (simp add: skipped_result_def)
next
  case (judged w)
  from judge_claimed [OF judged(3) assms(2)] show ?thesis ..
qed simp

section \<open>A completion that is claimed\<close>

text \<open>
  C38: A continuation that claims completion, with the verification of the program as its verifier,
  rests on an exit code of 0 and on evidence found after the launch: the success rule is the one
  supported, every finding check of the contract has a grounding whose finding is gone from the rescan, whose
  assertion holds of the files or whose authorised command exited with 0, and so has every validation
  (the assertion or the command).  The only other way is a claim that an earlier run left in the
  directory of the operation.
\<close>

theorem completion_is_evidenced:
  assumes "run_continuation h operation path receipt allowed dir st = (Inr r, st1)" and "cr_claimed r"
    and "cd_verifier h = Some (post_verification pv dir operation)"
  shows "\<exists>handoff base input l files w. admit_handoff h operation path allowed = Inr (handoff, base) \<and>
    cd_launch h input base (snd st) = (Inr l, files, w) \<and> la_exit l = 0 \<and>
    ((\<exists>r0. load_existing_result dir files = Inr (Some r0) \<and> vf_claimed r0) \<or>
     completion_evidence pv base (dget ''scanner_context'' (JObj []) handoff) (dict_entry ''verification_contract'' handoff)
       (dict_entry ''verification_grounding'' handoff) w)"
proof -
  from completion_needs_verifier [OF assms(1,2)] assms(3) obtain handoff base input l w0 w1 v
    where "admit_handoff h operation path allowed = Inr (handoff, base)" and "cd_launch h input base (snd st) = (Inr l, w0)"
      and "la_exit l = 0" and "ve_claimed v"
      and "post_verification pv dir operation base handoff
        (launch_result operation path (envelope_path dir) (result_path dir) base l) w0 = (Inr v, w1)"
    by auto
  moreover from this obtain r0 where "verify_fix pv dir operation base (dget ''scanner_context'' (JObj []) handoff)
      (dget ''findings'' (JList []) handoff) (dict_entry ''verification_contract'' handoff)
      (dict_entry ''verification_grounding'' handoff)
      (launch_result operation path (envelope_path dir) (result_path dir) base l) w0 = (Inr r0, w1)" and "vf_claimed r0"
    by (auto simp: post_verification_def split: prod.split_asm sum.split_asm)
  from verify_claimed [OF this] this(2) have "(\<exists>r0. load_existing_result dir (fst w0) = Inr (Some r0) \<and> vf_claimed r0) \<or>
     completion_evidence pv base (dget ''scanner_context'' (JObj []) handoff) (dict_entry ''verification_contract'' handoff)
       (dict_entry ''verification_grounding'' handoff) (snd w0)"
    by blast
  ultimately show ?thesis by (metis prod.collapse)
qed

text \<open>A verifier whose commands succeed and whose scanner finds what it is given.\<close>

definition tree_of_repo :: tree where
  "tree_of_repo = [([''repo'', ''a.py''], ''x = 1'')]"

definition calm :: "fix_finding list \<Rightarrow> unit post_verifier" where
  "calm found = \<lparr>pv_tree = (\<lambda>_. tree_of_repo), pv_cwd = [''repo''], pv_run = (\<lambda>_ _ w. (Completed 0 [] [], w)),
     pv_scan = Some (\<lambda>_ _ w. (Inr found, w)), pv_python = (\<lambda>_ _. Parsed), pv_json = (\<lambda>_. Parsed),
     pv_decode_fault = (\<lambda>_. [])\<rparr>"

definition verifying :: "(op_files \<times> unit) codex_host" where
  "verifying = \<lparr>cd_read = (\<lambda>_. Document (JObj admitted_handoff)), cd_kind = (\<lambda>_. Directory), cd_cwd = [''repo''],
     cd_launch = (\<lambda>_ _ w. (Inr \<lparr>la_pid = JInt 1, la_exit = 0, la_outcome = ''completed'', la_argv = [], la_stdout = [],
       la_stderr = []\<rparr>, w)), cd_verifier = Some (post_verification (calm []) ''/op'' ''op1'')\<rparr>"

lemma verifying_admitted:
  "admit_handoff verifying ''op1'' ''h.json'' [''.''] = Inr (admitted_handoff, ''/repo'')"
  using launching_admitted [of 0 None] by (simp add: admit_handoff_def verifying_def launching_def)

definition calm_launch :: launched where
  "calm_launch = \<lparr>la_pid = JInt 1, la_exit = 0, la_outcome = ''completed'', la_argv = [], la_stdout = [], la_stderr = []\<rparr>"

lemma verifying_launch:
  "\<exists>files. run_continuation verifying ''op1'' ''h.json'' (JNull, JNull) [''.''] ''/op'' st =
    finish_launch verifying ''op1'' ''h.json'' ''/op'' admitted_handoff ''/repo''
      calm_launch (files, snd st)"
  unfolding run_continuation_def verifying_admitted by (auto simp: Let_def verifying_def calm_launch_def)

definition claims :: "(raised + verified) \<times> (op_files \<times> unit) \<Rightarrow> bool" where
  "claims x = (case fst x of Inr v \<Rightarrow> ve_claimed v | Inl _ \<Rightarrow> False)"

lemma verifying_claims:
  "\<exists>v w. post_verification (calm []) ''/op'' ''op1'' ''/repo'' admitted_handoff
      (launch_result ''op1'' ''h.json'' (envelope_path ''/op'') (result_path ''/op'') ''/repo'' calm_launch) ([], ()) = (Inr v, w) \<and>
    ve_claimed v"
proof -
  let ?p = "post_verification (calm []) ''/op'' ''op1'' ''/repo'' admitted_handoff
    (launch_result ''op1'' ''h.json'' (envelope_path ''/op'') (result_path ''/op'') ''/repo'' calm_launch) ([], ())"
  have "claims ?p" by code_simp
  moreover obtain x w where "?p = (x, w)" by (rule prod.exhaust)
  ultimately show ?thesis by (cases x; cases w) (simp_all add: claims_def)
qed

theorem completion_is_evidenced_witness:
  "\<exists>r st1 files w. run_continuation verifying ''op1'' ''h.json'' (JNull, JNull) [''.''] ''/op'' ([], [], ()) = (Inr r, st1) \<and>
    cr_claimed r \<and> ((\<exists>r0. load_existing_result ''/op'' files = Inr (Some r0) \<and> vf_claimed r0) \<or>
      completion_evidence (calm []) ''/repo'' (dget ''scanner_context'' (JObj []) admitted_handoff)
        (dict_entry ''verification_contract'' admitted_handoff) (dict_entry ''verification_grounding'' admitted_handoff) w)"
proof -
  obtain r st1 where r: "run_continuation verifying ''op1'' ''h.json'' (JNull, JNull) [''.''] ''/op'' ([], [], ()) = (Inr r, st1)"
      "cr_claimed r"
    using verifying_launch [of "([], [], ())"] verifying_claims 
    by (auto simp: finish_launch_def Let_def verifying_def calm_launch_def)
  have "cd_verifier verifying = Some (post_verification (calm []) ''/op'' ''op1'')" by (simp add: verifying_def)
  from completion_is_evidenced [OF r this] obtain files w where
      "(\<exists>r0. load_existing_result ''/op'' files = Inr (Some r0) \<and> vf_claimed r0) \<or>
       completion_evidence (calm []) ''/repo'' (dget ''scanner_context'' (JObj []) admitted_handoff)
         (dict_entry ''verification_contract'' admitted_handoff) (dict_entry ''verification_grounding'' admitted_handoff) w"
    using verifying_admitted by auto
  with r show ?thesis by blast
qed

section \<open>The first answer stays\<close>

lemma persisted_result:
  assumes "plain_result r"
  shows "load_existing_result dir (persist_result dir r files) = Inr (Some r)"
  by (simp add: load_existing_result_def persist_result_def put_document_def update_Some_unfold copy_object
      load_stored_result [OF assms] del: copy_value.simps)

lemma skipped_plain: "plain_result (skipped_result operation base codex)"
  by (simp add: plain_result_def skipped_result_def)

text \<open>
  C39: Verification answers once: after a run that returned a result, every later call for the same
  directory returns the very same result and changes nothing, whatever repository, contract, verifier or exit
  code it is called with.  So a result that is stored is read back exactly.
\<close>

theorem verification_is_repeatable:
  assumes "verify_fix pv dir operation base scanner_context findings contract grounding codex st = (Inr r, st1)"
  shows "verify_fix pv' dir operation' base' scanner_context' findings' contract' grounding' codex' st1 = (Inr r, st1)"
proof -
  have "load_existing_result dir (fst st1) = Inr (Some r)"
    using assms
  proof (cases rule: verify_steps)
    case skipped
    then show ?thesis by (simp add: persisted_result skipped_plain)
  next
    case (judged w)
    then show ?thesis by (simp add: persisted_result judge_repository_plain)
  qed simp
  then show ?thesis by (simp add: verify_fix_def)
qed

theorem verification_is_repeatable_witness:
  "\<exists>r st1. verify_fix (calm []) ''/op'' ''op1'' ''/repo'' JNull JNull [] [] [(''exit_code'', JInt 1)] ([], ()) = (Inr r, st1) \<and>
    verify_fix (calm []) ''/op'' ''op2'' ''/elsewhere'' JNull JNull [] [] [(''exit_code'', JInt 0)] st1 = (Inr r, st1) \<and>
    vf_operation r = ''op1''"
proof -
  have fresh: "load_existing_result ''/op'' [] = Inr None" by (simp add: load_existing_result_def)
  have "py_eq (get ''exit_code'' [(''exit_code'', JInt 1)]) (JInt 0) = False" by code_simp
  then obtain st1 where "verify_fix (calm []) ''/op'' ''op1'' ''/repo'' JNull JNull [] [] [(''exit_code'', JInt 1)] ([], ()) =
      (Inr (skipped_result ''op1'' ''/repo'' [(''exit_code'', JInt 1)]), st1)"
    by (simp add: verify_fix_def fresh Let_def)
  from this verification_is_repeatable [OF this] show ?thesis
    by (intro exI conjI) (assumption, assumption, simp add: skipped_result_def)
qed

section \<open>Only authorised commands run\<close>

definition tokens_listed :: "json list \<Rightarrow> string list list" where
  "tokens_listed items = for_each items (\<lambda>g.
    case g of JObj d \<Rightarrow> (case tokens_of d of None \<Rightarrow> [] | Some ts \<Rightarrow> [ts]) | _ \<Rightarrow> [])"

definition authorised_commands :: "jdict \<Rightarrow> string list list" where
  "authorised_commands grounding = tokens_listed (items_or_none (dget ''finding_checks'' (JList []) grounding)) @
    tokens_listed (items_or_none (dget ''validations'' (JList []) grounding))"

lemma groundings_by_listed: "map_of (groundings_by key items) i = Some d \<Longrightarrow> JObj d \<in> set items"
  by (auto simp: groundings_by_def dict_simps dest!: map_of_SomeD split: json.splits)

lemma tokens_listed: "JObj d \<in> set items \<Longrightarrow> tokens_of d = Some ts \<Longrightarrow> ts \<in> set (tokens_listed items)"
  by (force simp: tokens_listed_def)

lemmas in_branches = if_cong option.case_cong sum.case_cong

lemma other_reader: "read_text_file (pv\<lparr>pv_run := run\<rparr>) = read_text_file pv"
  by (simp add: fun_eq_iff read_text_file_def)

lemma other_readers:
  "resolve_scoped_path (pv\<lparr>pv_run := run\<rparr>) = resolve_scoped_path pv" "read_target (pv\<lparr>pv_run := run\<rparr>) = read_target pv"
  "judge_text (pv\<lparr>pv_run := run\<rparr>) = judge_text pv" "rescan_file (pv\<lparr>pv_run := run\<rparr>) = rescan_file pv"
  by (simp_all add: fun_eq_iff resolve_scoped_path_def read_target_def judge_text_def rescan_file_def other_reader Let_def
      cong: in_branches)

lemma other_runner:
  "evaluate_assertion (pv\<lparr>pv_run := run\<rparr>) = evaluate_assertion pv" "rescan (pv\<lparr>pv_run := run\<rparr>) = rescan pv"
proof -
  show "evaluate_assertion (pv\<lparr>pv_run := run\<rparr>) = evaluate_assertion pv"
    by (simp add: fun_eq_iff evaluate_assertion_def other_readers cong: in_branches)
  have "minimal_rescan (pv\<lparr>pv_run := run\<rparr>) = minimal_rescan pv" by (simp add: fun_eq_iff minimal_rescan_def other_readers)
  then show "rescan (pv\<lparr>pv_run := run\<rparr>) = rescan pv"
    by (intro ext) (simp add: rescan_def cong: option.case_cong)
qed

lemma execute_command_runner:
  "(\<And>d u. run ts d u = pv_run pv ts d u) \<Longrightarrow>
    execute_command (pv\<lparr>pv_run := run\<rparr>) ts base expected w = execute_command pv ts base expected w"
  by (simp add: execute_command_def Let_def cong: in_branches)

lemma check_verdict_runner:
  assumes "\<And>ts d u. tokens_of g = Some ts \<Longrightarrow> run ts d u = pv_run pv ts d u"
  shows "check_verdict (pv\<lparr>pv_run := run\<rparr>) base found ident check g w = check_verdict pv base found ident check g w"
  using assms by (simp add: check_verdict_def Let_def wbind_def other_runner execute_command_runner split: option.split)

lemma validation_verdict_runner:
  assumes "\<And>ts d u. tokens_of g = Some ts \<Longrightarrow> run ts d u = pv_run pv ts d u"
  shows "validation_verdict (pv\<lparr>pv_run := run\<rparr>) base val g w = validation_verdict pv base val g w"
  using assms by (simp add: validation_verdict_def Let_def other_runner execute_command_runner split: option.split)

lemma finding_checks_runner:
  assumes "\<And>ts d u. ts \<in> set (authorised_commands grounding) \<Longrightarrow> run ts d u = pv_run pv ts d u"
  shows "evaluate_finding_checks (pv\<lparr>pv_run := run\<rparr>) contract grounding base found = evaluate_finding_checks pv contract grounding base found"
proof
  fix w
  let ?gs = "groundings_by ''finding_id'' (items_or_none (dget ''finding_checks'' (JList []) grounding))"
  have "check_verdict (pv\<lparr>pv_run := run\<rparr>) base found ident check g = check_verdict pv base found ident check g"
    if "map_of ?gs i = Some g" for i g ident check
    using assms tokens_listed [OF groundings_by_listed [OF that]]
    by (intro ext check_verdict_runner) (simp add: authorised_commands_def)
  then have "evaluate_check (pv\<lparr>pv_run := run\<rparr>) base found ?gs x u = evaluate_check pv base found ?gs x u" for x u
    by (simp add: evaluate_check_def Let_def split: prod.split json.split option.split)
  then show "evaluate_finding_checks (pv\<lparr>pv_run := run\<rparr>) contract grounding base found w =
      evaluate_finding_checks pv contract grounding base found w"
    by (simp add: evaluate_finding_checks_def wbind_def cong: wmap_cong)
qed

lemma validations_runner:
  assumes "\<And>ts d u. ts \<in> set (authorised_commands grounding) \<Longrightarrow> run ts d u = pv_run pv ts d u"
  shows "evaluate_validations (pv\<lparr>pv_run := run\<rparr>) contract grounding base = evaluate_validations pv contract grounding base"
proof
  fix w
  let ?gs = "groundings_by ''validation_id'' (items_or_none (dget ''validations'' (JList []) grounding))"
  have "validation_verdict (pv\<lparr>pv_run := run\<rparr>) base val g = validation_verdict pv base val g"
    if "map_of ?gs i = Some g" for i g val
    using assms tokens_listed [OF groundings_by_listed [OF that]]
    by (intro ext validation_verdict_runner) (simp add: authorised_commands_def)
  then have "evaluate_validation (pv\<lparr>pv_run := run\<rparr>) base ?gs x u = evaluate_validation pv base ?gs x u" for x u
    by (simp add: evaluate_validation_def Let_def split: json.split option.split)
  then show "evaluate_validations (pv\<lparr>pv_run := run\<rparr>) contract grounding base w =
      evaluate_validations pv contract grounding base w"
    by (simp add: evaluate_validations_def wbind_def cong: wmap_cong)
qed

text \<open>
  C40: Nothing but the authorised commands can run: verification with a runner that differs from another one
  on every command that no grounding of the handoff lists under its \<open>authorized_tokens\<close> gives the same result,
  the same documents and the same state of the repository.  The words of the contract itself (checks,
  assertions, commands) are never run.
\<close>

theorem only_authorised_commands:
  assumes "\<And>ts d u. ts \<in> set (authorised_commands grounding) \<Longrightarrow> run ts d u = pv_run pv ts d u"
  shows "verify_fix (pv\<lparr>pv_run := run\<rparr>) dir operation base scanner_context findings contract grounding codex st =
    verify_fix pv dir operation base scanner_context findings contract grounding codex st"
proof -
  have "judge_repository (pv\<lparr>pv_run := run\<rparr>) operation base scanner_context findings contract grounding codex =
      judge_repository pv operation base scanner_context findings contract grounding codex"
    unfolding judge_repository_def other_runner using assms by (simp add: finding_checks_runner validations_runner)
  then show ?thesis by (simp only: verify_fix_def)
qed

theorem only_authorised_commands_witness:
  "verify_fix ((calm [])\<lparr>pv_run := \<lambda>ts d u. if ts = [''pytest''] then (Completed 0 [] [], u) else (Completed 1 ''ran'' [], u)\<rparr>) ''/op'' ''op1''
      ''/repo'' JNull JNull [(''validations'', JList [JObj [(''id'', JStr ''rm'')]])]
      [(''validations'', JList [JObj [(''validation_id'', JStr ''rm''), (''authorized_tokens'', JList [JStr ''pytest''])]])] [] ([], ()) =
    verify_fix (calm []) ''/op'' ''op1'' ''/repo'' JNull JNull [(''validations'', JList [JObj [(''id'', JStr ''rm'')]])]
      [(''validations'', JList [JObj [(''validation_id'', JStr ''rm''), (''authorized_tokens'', JList [JStr ''pytest''])]])] [] ([], ())"
proof (rule only_authorised_commands)
  fix ts d and u :: unit
  assume "ts \<in> set (authorised_commands [(''validations'', JList [JObj [(''validation_id'', JStr ''rm''),
    (''authorized_tokens'', JList [JStr ''pytest''])]])])"
  moreover have "authorised_commands [(''validations'', JList [JObj [(''validation_id'', JStr ''rm''),
    (''authorized_tokens'', JList [JStr ''pytest''])]])] = [[''pytest'']]" by code_simp
  ultimately have "ts = [''pytest'']" by simp
  then show "(if ts = [''pytest''] then (Completed 0 [] [], u) else (Completed 1 ''ran'' [], u)) = pv_run (calm []) ts d u"
    by (simp add: calm_def)
qed

section \<open>A contract without checks\<close>

definition empty_contract :: jdict where
  "empty_contract = [(''finding_checks'', JList []), (''validations'', JList []), (''must_not_regress'', JList []),
     (''success_rule'', JStr required_success_rule)]"

text \<open>
  A contract without checks and validations completes although nothing was fixed: the findings that the
  rescan still shows are recorded in the result and not consulted, so a rescan that finds
  every original finding again ends with a claim of completion.
\<close>

lemma empty_contract_completes:
  assumes "load_existing_result dir (fst st) = Inr None" and "get ''exit_code'' codex = JInt 0"
    and "reconstruct_scan_config scanner_context = Inr cfg" and "rescan pv cfg base (snd st) = (Inr found, w1)"
    and "original_ids findings = Inr ids"
    and "ids \<noteq> []" and "\<forall>i \<in> set ids. \<exists>f \<in> set found. i = JStr (ff_id f) \<and> ff_id f \<noteq> []"
  shows "\<exists>r. verify_fix pv dir operation base scanner_context findings empty_contract grounding codex st =
    (Inr r, persist_result dir r (fst st), w1) \<and> vf_claimed r \<and> vf_passed r \<and> vf_remaining r = ids \<and> ids \<noteq> []"
proof -
  have "i \<in> JStr ` set (map fst (snd (evaluate_scanner_clear ids found)))" if "i \<in> set ids" for i
    using assms(7) that by (auto simp: found_ids)
  then have remain: "fst (evaluate_scanner_clear ids found) = ids"
    by (simp add: evaluate_scanner_clear_def Let_def)
  have none: "evaluate_finding_checks pv empty_contract grounding base d w = (Inr [], w)"
    "evaluate_validations pv empty_contract grounding base w = (Inr [], w)" for d w
    by (simp_all add: evaluate_finding_checks_def evaluate_validations_def empty_contract_def dget_def items_or_none_def wret_def)
  have rule: "get ''success_rule'' empty_contract = JStr required_success_rule"
    by (simp add: empty_contract_def get_def dget_def)
  let ?r = "judged_result operation base codex [] [] ids ids"
  have "judge_repository pv operation base scanner_context findings empty_contract grounding codex (snd st) = (Inr ?r, w1)"
    by (simp add: judge_repository_def wbind_def wret_def assms(3-5) none rule remain case_prod_beta)
  then have "verify_fix pv dir operation base scanner_context findings empty_contract grounding codex st =
      (Inr ?r, persist_result dir ?r (fst st), w1)"
    by (simp add: verify_fix_def assms(1,2))
  moreover have "vf_claimed ?r" "vf_passed ?r" "vf_remaining ?r = ids" by (simp_all add: judged_result_def)
  ultimately show ?thesis using assms(6) by blast
qed

definition remaining_finding :: fix_finding where
  "remaining_finding = \<lparr>ff_id = ''F1'', ff_type = ''correctness.syntax_error'', ff_file = ''a.py'', ff_severity = ''high'', ff_evidence = JNull\<rparr>"

theorem empty_contract_completes_witness:
  "\<exists>r. fst (verify_fix (calm [remaining_finding]) ''/op'' ''op1'' ''/repo'' (JObj [(''repository_root'', JStr ''/repo'')])
      (JList [JObj [(''id'', JStr ''F1'')]]) empty_contract [] [(''exit_code'', JInt 0)] ([], ())) = Inr r \<and>
    vf_claimed r \<and> vf_remaining r = [JStr ''F1'']"
proof -
  have fresh: "load_existing_result ''/op'' (fst (([], ()) :: op_files \<times> unit)) = Inr None" by (simp add: load_existing_result_def)
  have code: "get ''exit_code'' [(''exit_code'', JInt 0)] = JInt 0" by code_simp
  obtain cfg where cfg: "reconstruct_scan_config (JObj [(''repository_root'', JStr ''/repo'')]) = Inr cfg"
    by (simp add: reconstruct_scan_config_def as_dict_def need_def concrete_text_def as_strings_def as_commands_def as_requirements_def
        get_def dget_def strip_def is_space_def)
  have scan: "rescan (calm [remaining_finding]) cfg ''/repo'' (snd (([], ()) :: op_files \<times> unit)) = (Inr [remaining_finding], ())"
    by (simp add: rescan_def calm_def)
  have ids: "original_ids (JList [JObj [(''id'', JStr ''F1'')]]) = Inr [JStr ''F1'']" by code_simp
  from empty_contract_completes [OF fresh code cfg scan ids] show ?thesis by (simp add: remaining_finding_def) (metis fst_conv)
qed

text \<open>The continuation admits such a contract.\<close>

lemma empty_contract_admitted:
  "validate_contract False [(''findings'', JList [JObj [(''id'', JStr ''F1'')]]), (''verification_contract'', JObj empty_contract)] = Inr ()"
  by code_simp

end
