(* ===== verification/Build_Plans.thy ===== *)
theory Build_Plans
  imports Path_Security Fix_Invoke
begin

text \<open>
  The data of the build engine (\<open>schemas/build.py\<close>): requests, tasks and plans with their validators.
  A validator gives the normalised record or raises.  What \<open>pydantic\<close> raises is one \<open>ValidationError\<close>
  for all conditions of a model, so the conditions of a model are one test here.
\<close>

section \<open>Identifiers and paths\<close>

definition value_fault :: "string \<Rightarrow> raised" where
  "value_fault message = plain_error ''ValueError'' message"

definition alphanumeric :: "char \<Rightarrow> bool" where
  "alphanumeric c \<longleftrightarrow> is_digit c \<or> letter c"

definition id_char :: "char \<Rightarrow> bool" where
  "id_char c \<longleftrightarrow> alphanumeric c \<or> c \<in> set ''._-''"

text \<open>\<open>SAFE_IDENTIFIER_PATTERN\<close>.\<close>

definition safe_identifier :: "string \<Rightarrow> bool" where
  "safe_identifier s \<longleftrightarrow>
    s \<noteq> [] \<and> length s \<le> 64 \<and> alphanumeric (hd s) \<and> alphanumeric (last s) \<and> list_all id_char s"

definition validate_safe_identifier :: "string \<Rightarrow> string \<Rightarrow> raised + string" where
  "validate_safe_identifier field value =
    (if \<not> safe_identifier value then Inl (value_fault (field @ '' must be a safe identifier''))
     else if is_windows_reserved value then Inl (value_fault (field @ '' uses a reserved Windows name''))
     else Inr value)"

definition device_prefix :: "string \<Rightarrow> bool" where
  "device_prefix s \<longleftrightarrow> list_ex (startswith s)
    [[CHR 0x5C, CHR 0x5C], ''//'', [CHR 0x5C, CHR ''?'', CHR 0x5C], [CHR 0x5C, CHR ''.'', CHR 0x5C]]"

definition validate_task_relative_path :: "string \<Rightarrow> string \<Rightarrow> raised + string" where
  "validate_task_relative_path field value =
    (let unsafe = Inl (value_fault (field @ '' must be a safe relative path''));
         parts = path_parts (pure_path (slashes value))
     in if value = [] \<or> value \<noteq> strip value \<or> CHR 0x00 \<in> set value then unsafe
        else if device_prefix value then unsafe
        else if windows_anchored value \<or> startswith (slashes value) ''/'' \<or> CHR '':'' \<in> set value then unsafe
        else if parts = [] \<or> list_ex (\<lambda>p. p = ''.'' \<or> p = ''..'') parts
        then Inl (value_fault (field @ '' must not traverse''))
        else (case find (\<lambda>p. endswith p ''.'' \<or> endswith p '' '' \<or> is_windows_reserved p) parts of
            None \<Rightarrow> Inr value
          | Some p \<Rightarrow> Inl (value_fault (field @
              (if endswith p ''.'' \<or> endswith p '' '' then '' contains an unsafe path component''
               else '' contains a reserved Windows name'')))))"

definition accepts :: "raised + 'a \<Rightarrow> bool" where
  "accepts r \<longleftrightarrow> (case r of Inl _ \<Rightarrow> False | Inr _ \<Rightarrow> True)"

text \<open>The key under which two paths count as the same.\<close>

definition path_key :: "string \<Rightarrow> string" where
  "path_key s = lower (slashes s)"

definition unique_paths :: "string list \<Rightarrow> bool" where
  "unique_paths paths \<longleftrightarrow> distinct (map path_key paths)"

section \<open>Placeholders\<close>

definition placeholder_values :: "string list" where
  "placeholder_values = [''...'', ''n/a'', ''none'', ''not specified'', ''placeholder'', ''tbd'', ''todo'', ''unknown'']"

definition has_content :: "string \<Rightarrow> bool" where
  "has_content s \<longleftrightarrow> strip s \<noteq> []"

definition is_placeholder :: "string \<Rightarrow> bool" where
  "is_placeholder s \<longleftrightarrow> lower (strip s) \<in> set placeholder_values"

section \<open>Tasks and plans\<close>

record task_command =
  tv_argv :: "string list"
  tv_directory :: string
  tv_codes :: "int list"
  tv_timeout :: int

record build_task =
  tk_id :: string
  tk_title :: string
  tk_depends :: "string list"
  tk_prompt :: string
  tk_outputs :: "string list"
  tk_validation :: "task_command list"

datatype plan_status = Ready_plan | Blocked_plan

record build_plan =
  bp_build :: string
  bp_status :: plan_status
  bp_gaps :: "string list"
  bp_tasks :: "build_task list"

record build_request =
  bq_build :: string
  bq_instruction :: string
  bq_context :: "json"

record task_skill =
  sk_task :: string
  sk_prompt :: string

definition validation_fault :: raised where
  "validation_fault = plain_error ''ValidationError'' []"

definition command_ok :: "task_command \<Rightarrow> bool" where
  "command_ok c \<longleftrightarrow>
    tv_argv c \<noteq> [] \<and> length (tv_argv c) \<le> 128 \<and>
    list_all (\<lambda>a. a \<noteq> [] \<and> py_len a \<le> 4096 \<and> CHR 0x00 \<notin> set a) (tv_argv c) \<and>
    tv_directory c \<noteq> [] \<and> py_len (tv_directory c) \<le> 4096 \<and>
    (tv_directory c = ''.'' \<or> accepts (validate_task_relative_path ''working_directory'' (tv_directory c))) \<and>
    tv_codes c \<noteq> [] \<and> length (tv_codes c) \<le> 16 \<and> list_all (\<lambda>n. 0 \<le> n \<and> n \<le> 255) (tv_codes c) \<and> distinct (tv_codes c) \<and>
    1 \<le> tv_timeout c \<and> tv_timeout c \<le> 300"

definition identifier_ok :: "string \<Rightarrow> bool" where
  "identifier_ok s \<longleftrightarrow> accepts (validate_safe_identifier ''identifier'' s)"

definition outputs_ok :: "string list \<Rightarrow> bool" where
  "outputs_ok paths \<longleftrightarrow>
    paths \<noteq> [] \<and> length paths \<le> 256 \<and>
    list_all (\<lambda>p. py_len p \<le> 4096 \<and> accepts (validate_task_relative_path ''expected_outputs'' p)) paths \<and> unique_paths paths"

text \<open>Line ends of a prompt become line feeds.\<close>

definition unix_lines :: "string \<Rightarrow> string" where
  "unix_lines s = replace [CHR 0x0D] [CHR 0x0A] (replace [CHR 0x0D, CHR 0x0A] [CHR 0x0A] s)"

definition validate_task :: "build_task \<Rightarrow> raised + build_task" where
  "validate_task t =
    (let title = strip (tk_title t); prompt = strip (unix_lines (tk_prompt t))
     in if identifier_ok (tk_id t) \<and> py_len (tk_title t) \<le> 200 \<and> length (tk_depends t) \<le> 256 \<and>
          list_all safe_identifier (tk_depends t) \<and> py_len (tk_prompt t) \<le> 100000 \<and> outputs_ok (tk_outputs t) \<and>
          tk_validation t \<noteq> [] \<and> length (tk_validation t) \<le> 32 \<and> list_all command_ok (tk_validation t) \<and>
          title \<noteq> [] \<and> CHR 0x0A \<notin> set title \<and> CHR 0x0D \<notin> set title \<and> \<not> is_placeholder title \<and>
          has_content (tk_prompt t) \<and> \<not> is_placeholder prompt
        then Inr (t\<lparr>tk_title := title, tk_prompt := prompt\<rparr>)
        else Inl validation_fault)"

definition validate_plan :: "build_plan \<Rightarrow> raised + build_plan" where
  "validate_plan p =
    sbind (smap validate_task (bp_tasks p)) (\<lambda>tasks.
      (let gaps = map strip (bp_gaps p)
       in if identifier_ok (bp_build p) \<and> length (bp_gaps p) \<le> 100 \<and> list_all (\<lambda>g. py_len g \<le> 1000) (bp_gaps p) \<and>
            length tasks \<le> 256 \<and> list_all (\<lambda>g. g \<noteq> [] \<and> \<not> is_placeholder g) gaps \<and> distinct (map lower gaps) \<and>
            (case bp_status p of
               Ready_plan \<Rightarrow> gaps = [] \<and> tasks \<noteq> []
             | Blocked_plan \<Rightarrow> gaps \<noteq> [] \<and> tasks = [])
          then Inr (p\<lparr>bp_gaps := gaps, bp_tasks := tasks\<rparr>)
          else Inl validation_fault))"

definition request_ok :: "build_request \<Rightarrow> bool" where
  "request_ok r \<longleftrightarrow> identifier_ok (bq_build r) \<and> py_len (bq_instruction r) \<le> 100000 \<and> has_content (bq_instruction r)"

definition skill_ok :: "task_skill \<Rightarrow> bool" where
  "skill_ok s \<longleftrightarrow> identifier_ok (sk_task s) \<and> py_len (sk_prompt s) \<le> 200000 \<and> has_content (sk_prompt s)"

section \<open>Documents\<close>

text \<open>\<open>model_dump(mode="json")\<close>.\<close>

definition strings_json :: "string list \<Rightarrow> json" where
  "strings_json xs = JList (map JStr xs)"

definition command_json :: "task_command \<Rightarrow> json" where
  "command_json c = JObj [(''argv'', strings_json (tv_argv c)), (''working_directory'', JStr (tv_directory c)),
    (''acceptable_exit_codes'', JList (map JInt (tv_codes c))), (''timeout_seconds'', JInt (tv_timeout c))]"

definition task_json :: "build_task \<Rightarrow> json" where
  "task_json t = JObj [(''task_id'', JStr (tk_id t)), (''title'', JStr (tk_title t)),
    (''depends_on'', strings_json (tk_depends t)), (''prompt'', JStr (tk_prompt t)),
    (''expected_outputs'', strings_json (tk_outputs t)), (''validation'', JList (map command_json (tk_validation t)))]"

definition build_plan_json :: "build_plan \<Rightarrow> json" where
  "build_plan_json p = JObj [(''build_id'', JStr (bp_build p)),
    (''status'', JStr (case bp_status p of Ready_plan \<Rightarrow> ''ready'' | Blocked_plan \<Rightarrow> ''blocked'')),
    (''gaps'', strings_json (bp_gaps p)), (''tasks'', JList (map task_json (bp_tasks p)))]"

definition build_request_json :: "build_request \<Rightarrow> json" where
  "build_request_json r = JObj [(''build_id'', JStr (bq_build r)), (''instruction'', JStr (bq_instruction r)),
    (''execution_context'', bq_context r)]"

section \<open>What validation guarantees\<close>

lemma validate_task_Inr:
  assumes "validate_task t = Inr u"
  shows "tk_id u = tk_id t" "tk_depends u = tk_depends t" "tk_outputs u = tk_outputs t" "identifier_ok (tk_id u)"
    "list_all safe_identifier (tk_depends u)" "outputs_ok (tk_outputs u)"
  using assms by (auto simp: validate_task_def Let_def split: if_split_asm)

lemma validate_plan_Inr:
  assumes "validate_plan p = Inr q"
  shows "bp_build q = bp_build p" "identifier_ok (bp_build q)" "bp_status q = bp_status p"
    "bp_status q = Ready_plan \<longleftrightarrow> bp_tasks q \<noteq> []" "bp_status q = Ready_plan \<longleftrightarrow> bp_gaps q = []"
    "\<forall>u \<in> set (bp_tasks q). \<exists>t \<in> set (bp_tasks p). validate_task t = Inr u"
  using assms
  by (auto simp: validate_plan_def sbind_eq_Inr Let_def split: if_split_asm plan_status.split_asm dest: smap_set)

text \<open>A path that validates has no parent step, no drive and no root.\<close>

lemma task_path_plain:
  assumes "validate_task_relative_path field value = Inr v"
  shows "v = value" "''..'' \<notin> set (path_parts (pure_path (slashes value)))" "\<not> startswith (slashes value) ''/''"
    "path_parts (pure_path (slashes value)) \<noteq> []" "CHR 0x00 \<notin> set value" "CHR '':'' \<notin> set value"
  using assms by (auto simp: validate_task_relative_path_def Let_def list_ex_iff split: if_split_asm option.split_asm)

end
