(* ===== verification/Build_Order.thy ===== *)
theory Build_Order
  imports Build_Plans "HOL-Library.Product_Lexorder" "HOL-Library.Multiset"
begin

text \<open>
  The order of the tasks (\<open>builder/dependencies.py\<close>): validation of the dependency graph and Kahn's
  algorithm with a heap.  It computes the greedy order, which takes the least task whose dependencies
  are done, so the result does not depend on the order in which the tasks are given.
\<close>

section \<open>Validation of the graph\<close>

definition graph_fault :: "string \<Rightarrow> raised" where
  "graph_fault message = plain_error ''DependencyValidationError'' message"

fun check_ids :: "string list \<Rightarrow> build_task list \<Rightarrow> raised + unit" where
  "check_ids seen [] = Inr ()"
| "check_ids seen (t # ts) =
    sbind (validate_safe_identifier ''task_id'' (tk_id t)) (\<lambda>_.
    sbind (check_that (lower (tk_id t) \<notin> set seen) (graph_fault ''task IDs must be unique on Windows'')) (\<lambda>_.
      check_ids (lower (tk_id t) # seen) ts))"

fun check_dependencies :: "string list \<Rightarrow> string \<Rightarrow> string list \<Rightarrow> string list \<Rightarrow> raised + unit" where
  "check_dependencies ids t seen [] = Inr ()"
| "check_dependencies ids t seen (d # ds) =
    sbind (validate_safe_identifier ''dependency task_id'' d) (\<lambda>_.
    sbind (check_that (lower d \<notin> set seen) (graph_fault (''task '' @ t @ '' contains a repeated dependency''))) (\<lambda>_.
    sbind (check_that (d \<noteq> t) (graph_fault (''task '' @ t @ '' cannot depend on itself''))) (\<lambda>_.
    sbind (check_that (d \<in> set ids) (graph_fault (''task '' @ t @ '' depends on an unknown task''))) (\<lambda>_.
      check_dependencies ids t (lower d # seen) ds))))"

definition check_graph :: "build_task list \<Rightarrow> raised + unit" where
  "check_graph tasks =
    sbind (check_that (tasks \<noteq> []) (graph_fault ''ready plan has no tasks'')) (\<lambda>_.
    sbind (check_ids [] tasks) (\<lambda>_.
    sbind (smap (\<lambda>t. check_dependencies (map tk_id tasks) (tk_id t) [] (tk_depends t)) tasks) (\<lambda>_. Inr ())))"

section \<open>The algorithm\<close>

text \<open>The heap of \<open>(casefold, id)\<close> pairs is a list of ids in the order of these pairs.\<close>

definition id_key :: "string \<Rightarrow> string \<times> string" where
  "id_key s = (lower s, s)"

record order_state =
  os_available :: "string list"
  os_indegree :: "(string, nat) dict"
  os_ordered :: "string list"

definition adjacency :: "build_task list \<Rightarrow> string \<Rightarrow> string list" where
  "adjacency tasks d = for_each tasks (\<lambda>t. map (\<lambda>_. tk_id t) (filter (\<lambda>x. x = d) (tk_depends t)))"

definition initial_indegree :: "build_task list \<Rightarrow> (string, nat) dict" where
  "initial_indegree tasks = map (\<lambda>t. (tk_id t, length (tk_depends t))) tasks"

definition order_roots :: "build_task list \<Rightarrow> string list" where
  "order_roots tasks = map fst (filter (\<lambda>e. snd e = 0) (initial_indegree tasks))"

definition release_dependent :: "order_state \<Rightarrow> string \<Rightarrow> order_state" where
  "release_dependent st d =
    (let n = (case map_of (os_indegree st) d of None \<Rightarrow> 0 | Some k \<Rightarrow> k - 1)
     in st\<lparr>os_indegree := AList.update d n (os_indegree st),
           os_available := if n = 0 then insort_key id_key d (os_available st) else os_available st\<rparr>)"

definition order_step :: "build_task list \<Rightarrow> order_state \<Rightarrow> order_state" where
  "order_step tasks st =
    (case os_available st of
       [] \<Rightarrow> st
     | a # rest \<Rightarrow> foldl release_dependent (st\<lparr>os_available := rest, os_ordered := os_ordered st @ [a]\<rparr>)
         (sort_key id_key (adjacency tasks a)))"

text \<open>Every round orders one more task, so as many rounds as there are tasks are enough.\<close>

fun order_loop :: "nat \<Rightarrow> build_task list \<Rightarrow> order_state \<Rightarrow> order_state" where
  "order_loop 0 tasks st = st"
| "order_loop (Suc n) tasks st =
    (if os_available st = [] then st else order_loop n tasks (order_step tasks st))"

definition initial_order :: "build_task list \<Rightarrow> order_state" where
  "initial_order tasks = \<lparr>os_available = sort_key id_key (order_roots tasks), os_indegree = initial_indegree tasks, os_ordered = []\<rparr>"

definition sorted_task :: "build_task list \<Rightarrow> string \<Rightarrow> build_task list" where
  "sorted_task tasks i =
    (case find (\<lambda>t. tk_id t = i) tasks of
       None \<Rightarrow> []
     | Some t \<Rightarrow> [t\<lparr>tk_depends := sort_key id_key (tk_depends t)\<rparr>])"

definition deterministic_topological_order :: "build_task list \<Rightarrow> raised + build_task list" where
  "deterministic_topological_order tasks =
    sbind (check_graph tasks) (\<lambda>_.
    sbind (check_that (order_roots tasks \<noteq> []) (graph_fault ''dependency cycle leaves no root task'')) (\<lambda>_.
      (let ordered = os_ordered (order_loop (length tasks) tasks (initial_order tasks))
       in sbind (check_that (length ordered = length tasks) (graph_fault ''dependency cycle detected'')) (\<lambda>_.
         Inr (for_each ordered (sorted_task tasks))))))"

section \<open>What the validation accepts\<close>

definition depends_of :: "build_task list \<Rightarrow> string \<Rightarrow> string set" where
  "depends_of tasks i = (\<Union>t \<in> set tasks. if tk_id t = i then set (tk_depends t) else {})"

definition sound_graph :: "build_task list \<Rightarrow> bool" where
  "sound_graph tasks \<longleftrightarrow> tasks \<noteq> [] \<and> list_all (\<lambda>t. identifier_ok (tk_id t)) tasks \<and> distinct (map (lower \<circ> tk_id) tasks) \<and>
    list_all (\<lambda>t. list_all identifier_ok (tk_depends t) \<and> distinct (map lower (tk_depends t)) \<and> tk_id t \<notin> set (tk_depends t) \<and>
      set (tk_depends t) \<subseteq> tk_id ` set tasks) tasks"

lemma identifier_field: "(\<exists>u. validate_safe_identifier field s = Inr u) \<longleftrightarrow> identifier_ok s"
  by (auto simp: validate_safe_identifier_def identifier_ok_def accepts_def)

lemma check_ids_Inr:
  "check_ids seen ts = Inr u \<longleftrightarrow> list_all (\<lambda>t. identifier_ok (tk_id t)) ts \<and> distinct (map (lower \<circ> tk_id) ts) \<and>
    (\<forall>t \<in> set ts. lower (tk_id t) \<notin> set seen)"
  by (induction ts arbitrary: seen) (auto simp: sbind_eq_Inr identifier_field image_iff)

lemma check_dependencies_Inr:
  "check_dependencies ids t seen ds = Inr u \<longleftrightarrow> list_all identifier_ok ds \<and> distinct (map lower ds) \<and> t \<notin> set ds \<and>
    set ds \<subseteq> set ids \<and> (\<forall>d \<in> set ds. lower d \<notin> set seen)"
  by (induction ds arbitrary: seen) (auto simp: sbind_eq_Inr identifier_field image_iff)

lemma smap_unit: "(\<exists>us. smap f xs = Inr us) \<longleftrightarrow> (\<forall>x \<in> set xs. \<exists>u. f x = Inr u)"
  by (induction xs) (auto simp: sbind_eq_Inr)

lemma check_graph_Inr: "check_graph tasks = Inr u \<longleftrightarrow> sound_graph tasks"
  by (auto simp: check_graph_def sbind_eq_Inr check_ids_Inr smap_unit check_dependencies_Inr sound_graph_def list_all_iff)


section \<open>The greedy order\<close>

definition ready_ids :: "build_task list \<Rightarrow> string set \<Rightarrow> string list" where
  "ready_ids tasks ordered = sort_key id_key (filter (\<lambda>i. i \<notin> ordered \<and> depends_of tasks i \<subseteq> ordered) (map tk_id tasks))"

fun greedy_order :: "nat \<Rightarrow> build_task list \<Rightarrow> string list \<Rightarrow> string list" where
  "greedy_order 0 tasks ordered = ordered"
| "greedy_order (Suc n) tasks ordered =
    (case ready_ids tasks (set ordered) of [] \<Rightarrow> ordered | a # _ \<Rightarrow> greedy_order n tasks (ordered @ [a]))"

lemma id_key_inject [simp]: "id_key a = id_key b \<longleftrightarrow> a = b"
  by (auto simp: id_key_def)

lemma inj_id_key: "inj_on id_key A"
  by (simp add: inj_on_def)

lemma key_order_unique:
  assumes "sorted (map id_key xs)" "distinct xs" "sorted (map id_key ys)" "distinct ys" "set xs = set ys"
  shows "xs = ys"
  using assms by (intro map_sorted_distinct_set_unique [OF inj_id_key]) (simp_all add: distinct_map inj_id_key)

lemma ready_ids_sorted [simp]: "sorted (map id_key (ready_ids tasks A))"
  by (simp add: ready_ids_def)

lemma set_ready_ids: "set (ready_ids tasks A) = {i \<in> tk_id ` set tasks. i \<notin> A \<and> depends_of tasks i \<subseteq> A}"
  by (auto simp: ready_ids_def)

lemma filter_eq_distinct: "distinct xs \<Longrightarrow> filter (\<lambda>x. x = d) xs = (if d \<in> set xs then [d] else [])"
  by (induction xs) auto

lemma sound_ids:
  assumes "sound_graph tasks"
  shows "distinct (map tk_id tasks)" and "t \<in> set tasks \<Longrightarrow> distinct (tk_depends t)"
    and "t \<in> set tasks \<Longrightarrow> depends_of tasks (tk_id t) = set (tk_depends t)"
    and "t \<in> set tasks \<Longrightarrow> tk_id t \<notin> set (tk_depends t)" and "t \<in> set tasks \<Longrightarrow> set (tk_depends t) \<subseteq> tk_id ` set tasks"
proof -
  from assms have "distinct (map lower (map tk_id tasks))" by (simp add: sound_graph_def)
  then show d: "distinct (map tk_id tasks)" by (auto simp: distinct_map intro: inj_on_imageI2)
  show "distinct (tk_depends t)" if "t \<in> set tasks"
    using assms that by (auto simp: sound_graph_def list_all_iff distinct_map)
  show "depends_of tasks (tk_id t) = set (tk_depends t)" if "t \<in> set tasks"
    using that d by (auto simp: depends_of_def distinct_map dest: inj_onD split: if_split_asm)
  show "tk_id t \<notin> set (tk_depends t)" "set (tk_depends t) \<subseteq> tk_id ` set tasks" if "t \<in> set tasks"
    using assms that by (auto simp: sound_graph_def list_all_iff)
qed

lemma adjacency_eq:
  assumes "sound_graph tasks"
  shows "adjacency tasks a = map tk_id (filter (\<lambda>t. a \<in> set (tk_depends t)) tasks)"
proof -
  have "list_all (\<lambda>t. distinct (tk_depends t)) tasks" using sound_ids(2) [OF assms] by (simp add: list_all_iff)
  then show ?thesis unfolding adjacency_def by (induction tasks) (simp_all add: filter_eq_distinct)
qed

definition lowered :: "order_state \<Rightarrow> string \<Rightarrow> nat" where
  "lowered st i = (case map_of (os_indegree st) i of None \<Rightarrow> 0 | Some k \<Rightarrow> k - 1)"

lemma release_dependent_fields:
  "os_ordered (release_dependent st d) = os_ordered st"
  "map_of (os_indegree (release_dependent st d)) i = (if i = d then Some (lowered st d) else map_of (os_indegree st) i)"
  "os_available (release_dependent st d) = (if lowered st d = 0 then insort_key id_key d (os_available st) else os_available st)"
  by (simp_all add: release_dependent_def lowered_def Let_def map_of_update)

lemma release_all_ordered: "os_ordered (foldl release_dependent st ds) = os_ordered st"
  by (induction ds arbitrary: st) (simp_all add: release_dependent_fields)

lemma release_all_indegree:
  "distinct ds \<Longrightarrow> map_of (os_indegree (foldl release_dependent st ds)) i =
    (if i \<in> set ds then Some (lowered st i) else map_of (os_indegree st) i)"
  by (induction ds arbitrary: st) (auto simp: release_dependent_fields lowered_def)

lemma release_all_available:
  "distinct ds \<Longrightarrow> set (os_available (foldl release_dependent st ds)) = set (os_available st) \<union> {i \<in> set ds. lowered st i = 0}"
proof (induction ds arbitrary: st)
  case (Cons d ds)
  then have "lowered (release_dependent st d) i = lowered st i" if "i \<in> set ds" for i
    using that by (auto simp: lowered_def release_dependent_fields)
  with Cons show ?case by (auto simp: release_dependent_fields set_insort_key split: if_split_asm)
qed simp

lemma release_all_sorted:
  "sorted (map id_key (os_available st)) \<Longrightarrow> sorted (map id_key (os_available (foldl release_dependent st ds)))"
  by (induction ds arbitrary: st) (simp_all add: release_dependent_fields sorted_insort_key)

lemma release_all_distinct:
  "distinct ds \<Longrightarrow> distinct (os_available st) \<Longrightarrow> set ds \<inter> set (os_available st) = {} \<Longrightarrow>
    distinct (os_available (foldl release_dependent st ds))"
  by (induction ds arbitrary: st) (auto simp: release_dependent_fields distinct_insort set_insort_key)

lemmas release_all = release_all_ordered release_all_indegree release_all_available release_all_sorted release_all_distinct

section \<open>The loop computes the greedy order\<close>

definition order_inv :: "build_task list \<Rightarrow> order_state \<Rightarrow> bool" where
  "order_inv tasks st \<longleftrightarrow>
    distinct (os_ordered st) \<and> set (os_ordered st) \<subseteq> tk_id ` set tasks \<and>
    (\<forall>i \<in> set (os_ordered st). depends_of tasks i \<subseteq> set (os_ordered st)) \<and>
    os_available st = ready_ids tasks (set (os_ordered st)) \<and>
    (\<forall>t \<in> set tasks. map_of (os_indegree st) (tk_id t) = Some (card (set (tk_depends t) - set (os_ordered st))))"

lemma distinct_ready: "sound_graph tasks \<Longrightarrow> distinct (ready_ids tasks A)"
  using sound_ids(1) [of tasks] by (simp add: ready_ids_def)

lemma order_inv_initial:
  assumes "sound_graph tasks"
  shows "order_inv tasks (initial_order tasks)"
proof -
  note ids = sound_ids [OF assms]
  have indegree: "map_of (initial_indegree tasks) (tk_id t) = Some (length (tk_depends t))" if "t \<in> set tasks" for t
    using ids(1) that unfolding initial_indegree_def by (intro map_of_is_SomeI) (auto simp: comp_def)
  have roots: "set (order_roots tasks) = {i \<in> tk_id ` set tasks. depends_of tasks i \<subseteq> {}}"
    using ids(3) by (auto simp: order_roots_def initial_indegree_def image_iff)
  have "distinct (order_roots tasks)"
    using ids(1) by (simp add: order_roots_def initial_indegree_def distinct_map_filter comp_def)
  then have "sort_key id_key (order_roots tasks) = ready_ids tasks {}"
    using distinct_ready [OF assms] roots by (intro key_order_unique) (simp_all add: set_ready_ids)
  then show ?thesis using indegree ids(2) by (simp add: order_inv_def initial_order_def distinct_card)
qed

lemma order_inv_step:
  assumes "sound_graph tasks" and inv: "order_inv tasks st" and "os_available st = a # rest"
  shows "order_inv tasks (order_step tasks st)" and "os_ordered (order_step tasks st) = os_ordered st @ [a]"
proof -
  note ids = sound_ids [OF assms(1)]
  let ?ds = "sort_key id_key (adjacency tasks a)"
  let ?start = "st\<lparr>os_available := rest, os_ordered := os_ordered st @ [a]\<rparr>"
  let ?st = "foldl release_dependent ?start ?ds"
  let ?old = "set (os_ordered st)" and ?new = "insert a (set (os_ordered st))"
  have step: "order_step tasks st = ?st" using assms(3) by (simp add: order_step_def)
  have ready: "a # rest = ready_ids tasks ?old" using inv assms(3) by (simp add: order_inv_def)
  then have a: "a \<in> tk_id ` set tasks" "a \<notin> ?old" "depends_of tasks a \<subseteq> ?old"
    using set_ready_ids [of tasks ?old] unfolding ready [symmetric] by auto
  have rest: "set rest = {i \<in> tk_id ` set tasks. i \<noteq> a \<and> i \<notin> ?old \<and> depends_of tasks i \<subseteq> ?old}"
    "distinct rest" "sorted (map id_key rest)"
    using set_ready_ids [of tasks ?old] distinct_ready [OF assms(1), of ?old] ready_ids_sorted [of tasks ?old]
    unfolding ready [symmetric] by auto
  have ds: "set ?ds = {tk_id t |t. t \<in> set tasks \<and> a \<in> set (tk_depends t)}" "distinct ?ds"
    using ids(1) by (auto simp: adjacency_eq [OF assms(1)] distinct_map_filter)
  have closed: "depends_of tasks i \<subseteq> ?old" if "i \<in> ?old" for i using inv that by (simp add: order_inv_def)
  have waiting: "i \<notin> ?new" "i \<notin> set rest" if "i \<in> set ?ds" for i
  proof -
    from that ds obtain t where t: "t \<in> set tasks" "i = tk_id t" "a \<in> set (tk_depends t)" by auto
    then have "a \<in> depends_of tasks i" using ids(3) by simp
    then show "i \<notin> ?new" "i \<notin> set rest" using closed a(2,3) rest(1) by auto
  qed
  have low: "lowered ?start (tk_id t) = card (set (tk_depends t) - ?new)" if "t \<in> set tasks" "a \<in> set (tk_depends t)" for t
  proof -
    have "set (tk_depends t) - ?old = insert a (set (tk_depends t) - ?new)" using that a(2) by auto
    moreover have "card (insert a (set (tk_depends t) - ?new)) = Suc (card (set (tk_depends t) - ?new))"
      by (rule card_insert_disjoint) auto
    ultimately have "card (set (tk_depends t) - ?old) = Suc (card (set (tk_depends t) - ?new))" by (rule ssubst)
    then show ?thesis using inv that by (simp add: lowered_def order_inv_def)
  qed
  have indegree: "map_of (os_indegree ?st) (tk_id t) = Some (card (set (tk_depends t) - ?new))" if "t \<in> set tasks" for t
  proof (cases "a \<in> set (tk_depends t)")
    case True
    then have "tk_id t \<in> set ?ds" using that unfolding ds(1) by blast
    then show ?thesis using release_all_indegree [OF ds(2), of ?start "tk_id t"] low [OF that True] by simp
  next
    case False
    then have "a \<notin> depends_of tasks (tk_id t)" using ids(3) [OF that] by simp
    moreover have "a \<in> depends_of tasks i" if "i \<in> set ?ds" for i using that ids(3) unfolding ds(1) by auto
    ultimately have "tk_id t \<notin> set ?ds" by blast
    then show ?thesis using release_all_indegree [OF ds(2), of ?start "tk_id t"] that inv False by (simp add: order_inv_def)
  qed
  have avail: "set (os_available ?st) = set rest \<union> {i \<in> set ?ds. lowered ?start i = 0}"
    by (simp only: release_all_available [OF ds(2)]) simp
  have zero: "{i \<in> set ?ds. lowered ?start i = 0} = {i \<in> tk_id ` set tasks. a \<in> depends_of tasks i \<and> depends_of tasks i \<subseteq> ?new}"
    using ds(1) low ids(3) by auto
  have "set (os_available ?st) = set (ready_ids tasks ?new)"
    unfolding avail zero rest(1) set_ready_ids using closed a(2,3) by blast
  moreover have "set ?ds \<inter> set (os_available ?start) = {}" using waiting(2) by auto
  then have "distinct (os_available ?st)" using release_all_distinct [OF ds(2), of ?start] rest(2) by simp
  moreover have "sorted (map id_key (os_available ?st))" using release_all_sorted [of ?start ?ds] rest(3) by simp
  ultimately have "os_available ?st = ready_ids tasks ?new"
    using distinct_ready [OF assms(1)] by (intro key_order_unique) simp_all
  then show "os_ordered (order_step tasks st) = os_ordered st @ [a]" and "order_inv tasks (order_step tasks st)"
    using inv a indegree closed unfolding step by (auto simp: order_inv_def release_all_ordered)
qed

lemma order_loop_greedy:
  "sound_graph tasks \<Longrightarrow> order_inv tasks st \<Longrightarrow> os_ordered (order_loop n tasks st) = greedy_order n tasks (os_ordered st)"
proof (induction n arbitrary: st)
  case (Suc n)
  then have ready: "os_available st = ready_ids tasks (set (os_ordered st))" by (simp add: order_inv_def)
  show ?case
  proof (cases "os_available st")
    case Nil
    then show ?thesis using ready by simp
  next
    case (Cons a rest)
    have "ready_ids tasks (set (os_ordered st)) = a # rest" using ready Cons by simp
    with Suc.IH [OF Suc.prems(1) order_inv_step(1) [OF Suc.prems Cons]] order_inv_step(2) [OF Suc.prems Cons] Cons
    show ?thesis by simp
  qed
qed simp

definition topological :: "build_task list \<Rightarrow> string list \<Rightarrow> bool" where
  "topological tasks ids \<longleftrightarrow> distinct ids \<and> set ids \<subseteq> tk_id ` set tasks \<and>
    (\<forall>k < length ids. depends_of tasks (ids ! k) \<subseteq> set (take k ids))"

lemma topological_snoc:
  assumes "topological tasks ids" and "a \<in> tk_id ` set tasks" "a \<notin> set ids" "depends_of tasks a \<subseteq> set ids"
  shows "topological tasks (ids @ [a])"
  using assms by (auto simp: topological_def nth_append less_Suc_eq)

lemma greedy_topological: "topological tasks ids \<Longrightarrow> topological tasks (greedy_order n tasks ids)"
proof (induction n arbitrary: ids)
  case (Suc n)
  show ?case
  proof (cases "ready_ids tasks (set ids)")
    case (Cons a rest)
    then have "a \<in> set (ready_ids tasks (set ids))" by simp
    then have "topological tasks (ids @ [a])" using Suc.prems unfolding set_ready_ids by (intro topological_snoc) auto
    then show ?thesis using Suc.IH Cons by simp
  qed (simp add: Suc.prems)
qed simp

lemma greedy_length: "length ids \<le> length (greedy_order n tasks ids) \<and> length (greedy_order n tasks ids) \<le> length ids + n"
proof (induction n arbitrary: ids)
  case (Suc n)
  show ?case
  proof (cases "ready_ids tasks (set ids)")
    case (Cons a rest)
    then show ?thesis using Suc [of "ids @ [a]"] by simp
  qed simp
qed simp

text \<open>A greedy run that stops early is stuck: every task that is left waits for one that is left.\<close>

lemma greedy_stuck:
  "length (greedy_order n tasks ids) < length ids + n \<Longrightarrow> ready_ids tasks (set (greedy_order n tasks ids)) = []"
  by (induction n arbitrary: ids) (auto split: list.split)

section \<open>The result\<close>

definition acyclic_graph :: "build_task list \<Rightarrow> bool" where
  "acyclic_graph tasks \<longleftrightarrow> acyclic {(d, i). d \<in> depends_of tasks i}"

definition task_order :: "build_task list \<Rightarrow> string list" where
  "task_order tasks = greedy_order (length tasks) tasks []"

lemma depends_known: "sound_graph tasks \<Longrightarrow> depends_of tasks i \<subseteq> tk_id ` set tasks"
  using sound_ids(5) [of tasks] unfolding depends_of_def by (auto split: if_splits)

lemma depends_task: "d \<in> depends_of tasks i \<Longrightarrow> i \<in> tk_id ` set tasks"
  by (auto simp: depends_of_def split: if_splits)

lemma task_order_topological: "topological tasks (task_order tasks)"
  unfolding task_order_def by (rule greedy_topological) (simp add: topological_def)

lemma acyclic_complete:
  assumes "sound_graph tasks" "acyclic_graph tasks"
  shows "set (task_order tasks) = tk_id ` set tasks"
proof (rule ccontr)
  let ?done = "set (task_order tasks)" and ?R = "{(d, i). d \<in> depends_of tasks i}"
  assume "?done \<noteq> tk_id ` set tasks"
  moreover have sub: "?done \<subseteq> tk_id ` set tasks" "distinct (task_order tasks)"
    using task_order_topological [of tasks] by (simp_all add: topological_def)
  ultimately obtain l where l: "l \<in> tk_id ` set tasks - ?done" by blast
  then have "card ?done < card (tk_id ` set tasks)" using sub(1) by (intro psubset_card_mono) auto
  also have "\<dots> \<le> length tasks" using card_image_le [of "set tasks" tk_id] card_length [of tasks] by simp
  finally have "length (task_order tasks) < length tasks" using sub(2) by (simp add: distinct_card)
  then have stuck: "ready_ids tasks ?done = []" using greedy_stuck [of "length tasks" tasks "[]"] by (simp add: task_order_def)
  have "?R \<subseteq> tk_id ` set tasks \<times> tk_id ` set tasks" using depends_known [OF assms(1)] depends_task by auto
  then have "finite ?R" by (rule finite_subset) simp
  then have "wf ?R" using assms(2) by (auto simp: acyclic_graph_def intro: finite_acyclic_wf)
  from wfE_min [OF this l] obtain z where z: "z \<in> tk_id ` set tasks - ?done"
    and least: "\<And>y. (y, z) \<in> ?R \<Longrightarrow> y \<notin> tk_id ` set tasks - ?done" by blast
  have "depends_of tasks z \<subseteq> ?done" using least depends_known [OF assms(1), of z] by blast
  then have "z \<in> set (ready_ids tasks ?done)" using z by (simp add: set_ready_ids)
  then show False using stuck by simp
qed

lemma complete_acyclic:
  assumes "topological tasks ids" "set ids = tk_id ` set tasks"
  shows "acyclic_graph tasks"
  unfolding acyclic_graph_def
proof -
  let ?at = "\<lambda>i. the (map_of (zip ids [0..<length ids]) i)"
  have at: "?at (ids ! k) = k" if "k < length ids" for k
    using that assms(1) by (simp add: topological_def map_of_zip_nth)
  have "?at d < ?at i" if depends: "d \<in> depends_of tasks i" for d i
  proof -
    from depends_task [OF depends] assms(2) have "i \<in> set ids" by simp
    then obtain k where k: "k < length ids" "i = ids ! k" unfolding in_set_conv_nth by blast
    then have "d \<in> set (take k ids)" using assms(1) depends by (auto simp: topological_def)
    then obtain j where "j < k" "d = ids ! j" using k(1) by (auto simp: in_set_conv_nth)
    then show ?thesis using k at by simp
  qed
  then have "acyclic ({(d, i). d \<in> depends_of tasks i}\<inverse>)" by (intro acyclicI_order [where f = ?at]) auto
  then show "acyclic {(d, i). d \<in> depends_of tasks i}" by simp
qed

lemma sorted_task_found:
  assumes "distinct (map tk_id tasks)" "t \<in> set tasks"
  shows "sorted_task tasks (tk_id t) = [t\<lparr>tk_depends := sort_key id_key (tk_depends t)\<rparr>]"
proof -
  have "find (\<lambda>x. tk_id x = tk_id t) tasks = Some t"
    using assms by (induction tasks) (auto simp: image_iff)
  then show ?thesis by (simp add: sorted_task_def)
qed

lemma order_of_Inr:
  "deterministic_topological_order tasks = Inr out \<longleftrightarrow>
    sound_graph tasks \<and> acyclic_graph tasks \<and> out = for_each (task_order tasks) (sorted_task tasks)"
proof (cases "sound_graph tasks")
  case False
  then show ?thesis by (auto simp: deterministic_topological_order_def sbind_eq_Inr check_graph_Inr)
next
  case sound: True
  let ?ordered = "os_ordered (order_loop (length tasks) tasks (initial_order tasks))"
  have ordered: "?ordered = task_order tasks"
    using order_loop_greedy [OF sound order_inv_initial [OF sound]] by (simp add: task_order_def initial_order_def)
  have top: "distinct (task_order tasks)" "set (task_order tasks) \<subseteq> tk_id ` set tasks"
    using task_order_topological [of tasks] by (simp_all add: topological_def)
  have card: "card (tk_id ` set tasks) = length tasks" using sound_ids(1) [OF sound] by (metis distinct_card length_map set_map)
  have full: "length (task_order tasks) = length tasks \<longleftrightarrow> set (task_order tasks) = tk_id ` set tasks"
    using distinct_card [OF top(1)] card card_subset_eq [OF _ top(2)] by auto
  have acyclic: "acyclic_graph tasks \<longleftrightarrow> length (task_order tasks) = length tasks"
    using acyclic_complete [OF sound] complete_acyclic [OF task_order_topological] full by blast
  have "order_roots tasks \<noteq> []" if len: "length (task_order tasks) = length tasks"
  proof
    assume "order_roots tasks = []"
    then have "os_available (initial_order tasks) = []" by (simp add: initial_order_def)
    then have "ready_ids tasks {} = []"
      using order_inv_initial [OF sound] by (simp add: order_inv_def initial_order_def)
    then have "task_order tasks = []" by (cases "length tasks") (simp_all add: task_order_def)
    then show False using len sound by (simp add: sound_graph_def)
  qed
  then show ?thesis using sound acyclic
    by (auto simp: deterministic_topological_order_def sbind_eq_Inr check_graph_Inr ordered Let_def)
qed

lemma for_each_map: "(\<And>x. x \<in> set xs \<Longrightarrow> g x = [h x]) \<Longrightarrow> for_each xs g = map h xs"
  by (induction xs) simp_all

definition with_sorted :: "build_task \<Rightarrow> build_task" where
  "with_sorted t = t\<lparr>tk_depends := sort_key id_key (tk_depends t)\<rparr>"

lemma with_sorted_fields [simp]:
  "tk_id (with_sorted t) = tk_id t" "set (tk_depends (with_sorted t)) = set (tk_depends t)"
  "mset (tk_depends (with_sorted t)) = mset (tk_depends t)" "with_sorted (with_sorted t) = with_sorted t"
  by (simp_all add: with_sorted_def sort_key_id_if_sorted)

lemma order_out:
  assumes "sound_graph tasks" "acyclic_graph tasks"
  shows "map tk_id (for_each (task_order tasks) (sorted_task tasks)) = task_order tasks"
    and "mset (for_each (task_order tasks) (sorted_task tasks)) = image_mset with_sorted (mset tasks)"
proof -
  let ?at = "\<lambda>i. the (map_of (map (\<lambda>t. (tk_id t, with_sorted t)) tasks) i)"
  note ids = sound_ids(1) [OF assms(1)]
  have set: "set (task_order tasks) = tk_id ` set tasks" by (rule acyclic_complete [OF assms])
  have at: "?at (tk_id t) = with_sorted t" if "t \<in> set tasks" for t
    using ids that by (induction tasks) (auto simp: image_iff)
  have each: "for_each (task_order tasks) (sorted_task tasks) = map ?at (task_order tasks)"
  proof (rule for_each_map)
    fix i assume "i \<in> set (task_order tasks)"
    then obtain t where "t \<in> set tasks" "i = tk_id t" using set by auto
    then show "sorted_task tasks i = [?at i]" using sorted_task_found [OF ids] at by (simp add: with_sorted_def)
  qed
  show "map tk_id (for_each (task_order tasks) (sorted_task tasks)) = task_order tasks"
    unfolding each map_map by (rule map_idI) (use set at in auto)
  have "mset (task_order tasks) = mset (map tk_id tasks)"
    using task_order_topological [of tasks] ids set by (intro set_eq_iff_mset_eq_distinct [THEN iffD1]) (simp_all add: topological_def)
  then have "mset (map ?at (task_order tasks)) = mset (map ?at (map tk_id tasks))" by (simp only: mset_map)
  also have "map ?at (map tk_id tasks) = map with_sorted tasks" unfolding map_map comp_def by (rule map_cong [OF refl at])
  also have "mset \<dots> = image_mset with_sorted (mset tasks)" by simp
  finally show "mset (for_each (task_order tasks) (sorted_task tasks)) = image_mset with_sorted (mset tasks)" unfolding each .
qed

text \<open>The order depends only on the ids and the sets of dependencies.\<close>

lemma greedy_order_cong:
  assumes "mset (map tk_id tasks) = mset (map tk_id others)" "distinct (map tk_id tasks)"
    and "\<And>i. depends_of tasks i = depends_of others i"
  shows "greedy_order n tasks ids = greedy_order n others ids"
proof -
  have "set (map tk_id tasks) = set (map tk_id others)" using assms(1) by (rule mset_eq_setD)
  moreover have "distinct (map tk_id others)" using assms(1,2) mset_eq_imp_distinct_iff by blast
  ultimately have "ready_ids tasks A = ready_ids others A" for A
    using assms(2,3) by (intro key_order_unique) (auto simp: set_ready_ids ready_ids_def)
  then show ?thesis by (induction n arbitrary: ids) (simp_all split: list.split)
qed

end
