(* ===== verification/Build_Scheduler.thy ===== *)
theory Build_Scheduler
  imports Build_Order
begin

text \<open>
  The transitions of an execution (\<open>builder/scheduler.py\<close>, and the state of \<open>schemas/execution.py\<close>):
  the first ready task starts, its completion releases the tasks that waited for it alone, its failure
  blocks the tasks downstream of it.  A run of these steps ends, and the final state is the one the
  dependency graph and the outcomes of the tasks determine.
\<close>

section \<open>The state of an execution\<close>

datatype task_status =
  Task_pending | Task_ready | Task_running | Task_completed | Task_failed | Task_blocked | Task_interrupted

datatype execution_status =
  Exec_running | Exec_suspended | Exec_completed | Exec_failed | Exec_interrupted | Exec_not_valid

record task_state =
  ts_id :: string
  ts_status :: task_status

record execution_state =
  xe_build :: string
  xe_execution :: string
  xe_status :: execution_status
  xe_tasks :: "task_state list"
  xe_manifest :: "string option"

definition terminal_task :: "task_status \<Rightarrow> bool" where
  "terminal_task s \<longleftrightarrow> s \<in> {Task_completed, Task_failed, Task_blocked, Task_interrupted}"

text \<open>The validators of \<open>BuildExecutionState\<close>; a digest that is given has 64 digits by its pattern.\<close>

definition state_ok :: "execution_state \<Rightarrow> bool" where
  "state_ok st \<longleftrightarrow>
    (let statuses = map ts_status (xe_tasks st)
     in identifier_ok (xe_build st) \<and> identifier_ok (xe_execution st) \<and> xe_tasks st \<noteq> [] \<and> length (xe_tasks st) \<le> 256 \<and>
        list_all (\<lambda>r. identifier_ok (ts_id r)) (xe_tasks st) \<and> distinct (map (lower \<circ> ts_id) (xe_tasks st)) \<and>
        (xe_status st = Exec_completed \<longrightarrow> list_all (\<lambda>s. s = Task_completed) statuses) \<and>
        (xe_status st = Exec_failed \<longrightarrow> Task_failed \<in> set statuses \<and> list_all terminal_task statuses) \<and>
        (xe_status st = Exec_interrupted \<longrightarrow> Task_interrupted \<in> set statuses \<and> list_all terminal_task statuses) \<and>
        (xe_status st \<in> {Exec_completed, Exec_failed} \<longrightarrow> xe_manifest st \<noteq> None))"

section \<open>The scheduler\<close>

definition scheduler_fault :: "string \<Rightarrow> raised" where
  "scheduler_fault message = plain_error ''SchedulerError'' message"

definition initial_state :: "build_plan \<Rightarrow> string \<Rightarrow> execution_state" where
  "initial_state plan execution =
    \<lparr>xe_build = bp_build plan, xe_execution = execution, xe_status = Exec_running,
     xe_tasks = map (\<lambda>t. \<lparr>ts_id = tk_id t, ts_status = (if tk_depends t = [] then Task_ready else Task_pending)\<rparr>) (bp_tasks plan),
     xe_manifest = None\<rparr>"

text \<open>The dictionary of the statuses: a later entry wins, a missing one is a \<open>KeyError\<close>.\<close>

definition status_map :: "task_state list \<Rightarrow> string \<Rightarrow> task_status option" where
  "status_map records = map_of (rev (map (\<lambda>r. (ts_id r, ts_status r)) records))"

definition task_entry :: "build_plan \<Rightarrow> string \<Rightarrow> raised + build_task" where
  "task_entry plan i =
    (case map_of (rev (map (\<lambda>t. (tk_id t, t)) (bp_tasks plan))) i of
       None \<Rightarrow> Inl (plain_error ''KeyError'' i) | Some t \<Rightarrow> Inr t)"

definition status_entry :: "task_state list \<Rightarrow> string \<Rightarrow> raised + task_status" where
  "status_entry records i = (case status_map records i of None \<Rightarrow> Inl (plain_error ''KeyError'' i) | Some s \<Rightarrow> Inr s)"

definition terminal_status :: "execution_state \<Rightarrow> raised + execution_status" where
  "terminal_status st =
    (let statuses = map ts_status (xe_tasks st)
     in if list_ex (\<lambda>s. s \<in> {Task_pending, Task_ready, Task_running}) statuses
        then Inl (scheduler_fault ''Execution still contains non-terminal tasks'')
        else if Task_failed \<in> set statuses then Inr Exec_failed
        else if Task_interrupted \<in> set statuses then Inr Exec_interrupted
        else if statuses \<noteq> [] \<and> list_all (\<lambda>s. s = Task_completed) statuses then Inr Exec_completed
        else Inl (scheduler_fault ''Execution cannot be terminalized''))"

definition check_task_state :: "task_state list \<Rightarrow> build_task \<Rightarrow> raised + unit" where
  "check_task_state records t =
    sbind (status_entry records (tk_id t)) (\<lambda>s.
    sbind (smap (status_entry records) (tk_depends t)) (\<lambda>ds.
    sbind (check_that (s \<in> {Task_ready, Task_running, Task_completed, Task_failed} \<longrightarrow> list_all (\<lambda>d. d = Task_completed) ds)
      (scheduler_fault ''Runnable or completed task has an incomplete dependency'')) (\<lambda>_.
    sbind (check_that (s = Task_pending \<longrightarrow> ds \<noteq> [] \<and> \<not> list_all (\<lambda>d. d = Task_completed) ds)
      (scheduler_fault ''Pending task should be dependency-ready'')) (\<lambda>_.
      check_that (s = Task_blocked \<longrightarrow> list_ex (\<lambda>d. d = Task_failed \<or> d = Task_blocked) ds)
        (scheduler_fault ''Blocked task is not downstream of a failure'')))))"

definition validate_state :: "build_plan \<Rightarrow> string \<Rightarrow> execution_state \<Rightarrow> raised + unit" where
  "validate_state plan execution st =
    (let actual = map ts_id (xe_tasks st)
     in sbind (check_that (xe_build st = bp_build plan \<and> xe_execution st = execution)
          (scheduler_fault ''Execution identity does not match the prepared plan'')) (\<lambda>_.
        sbind (check_that (distinct (map lower actual)) (scheduler_fault ''Execution state contains duplicate task IDs'')) (\<lambda>_.
        sbind (check_that (actual = map tk_id (bp_tasks plan)) (scheduler_fault ''Execution tasks do not match the prepared plan'')) (\<lambda>_.
        sbind (check_that (length (filter (\<lambda>r. ts_status r = Task_running) (xe_tasks st)) \<le> 1)
          (scheduler_fault ''Sequential execution cannot have multiple running tasks'')) (\<lambda>_.
        sbind (smap (check_task_state (xe_tasks st)) (bp_tasks plan)) (\<lambda>_.
          if xe_status st \<in> {Exec_completed, Exec_failed, Exec_interrupted}
          then sbind (terminal_status st) (\<lambda>terminal.
            check_that (terminal = xe_status st) (scheduler_fault ''Execution terminal status contradicts task state''))
          else check_that (\<not> (xe_status st = Exec_running \<and> xe_manifest st \<noteq> None))
            (scheduler_fault ''Running execution cannot reference a terminal manifest'')))))))"

definition next_ready :: "execution_state \<Rightarrow> string option" where
  "next_ready st = map_option ts_id (find (\<lambda>r. ts_status r = Task_ready) (xe_tasks st))"

definition put_status :: "string \<Rightarrow> task_status \<Rightarrow> task_state list \<Rightarrow> task_state list" where
  "put_status i s = map (\<lambda>r. if ts_id r = i then r\<lparr>ts_status := s\<rparr> else r)"

definition mark_running :: "execution_state \<Rightarrow> string \<Rightarrow> raised + execution_state" where
  "mark_running st i =
    sbind (status_entry (xe_tasks st) i) (\<lambda>s.
    sbind (check_that (s = Task_ready) (scheduler_fault ''Only a ready task can start'')) (\<lambda>_.
      Inr (st\<lparr>xe_tasks := put_status i Task_running (xe_tasks st)\<rparr>)))"

fun all_completed :: "task_state list \<Rightarrow> string list \<Rightarrow> raised + bool" where
  "all_completed records [] = Inr True"
| "all_completed records (d # ds) =
    sbind (status_entry records d) (\<lambda>s. if s = Task_completed then all_completed records ds else Inr False)"

definition release_task :: "build_plan \<Rightarrow> task_state list \<Rightarrow> task_state \<Rightarrow> raised + task_state" where
  "release_task plan updated r =
    sbind (task_entry plan (ts_id r)) (\<lambda>t.
      if ts_status r = Task_pending
      then sbind (all_completed updated (tk_depends t)) (\<lambda>b. Inr (if b then r\<lparr>ts_status := Task_ready\<rparr> else r))
      else Inr r)"

definition mark_completed :: "build_plan \<Rightarrow> execution_state \<Rightarrow> string \<Rightarrow> raised + execution_state" where
  "mark_completed plan st i =
    sbind (status_entry (xe_tasks st) i) (\<lambda>s.
    sbind (check_that (s = Task_running) (scheduler_fault ''Only a running task can complete'')) (\<lambda>_.
      (let updated = put_status i Task_completed (xe_tasks st)
       in sbind (smap (release_task plan updated) updated) (\<lambda>released.
         Inr (st\<lparr>xe_tasks := released, xe_status := Exec_running\<rparr>)))))"

definition block_task :: "string list \<Rightarrow> build_task \<Rightarrow> string list" where
  "block_task blocked t =
    (if tk_id t \<notin> set blocked \<and> list_ex (\<lambda>d. d \<in> set blocked) (tk_depends t) then tk_id t # blocked else blocked)"

text \<open>A pass that changes nothing ends the loop; every other pass blocks one more task of the plan.\<close>

fun block_loop :: "nat \<Rightarrow> build_task list \<Rightarrow> string list \<Rightarrow> string list" where
  "block_loop 0 tasks blocked = blocked"
| "block_loop (Suc n) tasks blocked =
    (let next = foldl block_task blocked tasks in if next = blocked then blocked else block_loop n tasks next)"

definition blocked_by :: "build_task list \<Rightarrow> string \<Rightarrow> string list" where
  "blocked_by tasks i = block_loop (Suc (length tasks)) tasks [i]"

definition mark_failed :: "build_plan \<Rightarrow> execution_state \<Rightarrow> string \<Rightarrow> raised + execution_state" where
  "mark_failed plan st i =
    sbind (status_entry (xe_tasks st) i) (\<lambda>s.
    sbind (check_that (s = Task_running) (scheduler_fault ''Only a running task can fail'')) (\<lambda>_.
      (let blocked = blocked_by (bp_tasks plan) i
       in Inr (st\<lparr>xe_tasks := map (\<lambda>r. if ts_id r = i then r\<lparr>ts_status := Task_failed\<rparr>
            else if ts_id r \<in> set blocked \<and> ts_status r \<in> {Task_pending, Task_ready} then r\<lparr>ts_status := Task_blocked\<rparr>
            else r) (xe_tasks st), xe_status := Exec_running\<rparr>))))"

definition interrupt_running :: "execution_state \<Rightarrow> execution_state" where
  "interrupt_running st =
    (if xe_status st \<noteq> Exec_running \<and> \<not> list_ex (\<lambda>r. ts_status r = Task_running) (xe_tasks st) then st
     else st\<lparr>xe_status := Exec_interrupted,
             xe_tasks := map (\<lambda>r. if ts_status r \<in> {Task_pending, Task_ready, Task_running}
               then r\<lparr>ts_status := Task_interrupted\<rparr> else r) (xe_tasks st)\<rparr>)"

text \<open>
  The loop of \<open>BuildExecutor._run_to_terminal\<close> as the scheduler sees it: a task that starts completes
  or fails.  What the task does is a parameter; every round ends one more task.
\<close>

fun run_tasks :: "nat \<Rightarrow> (string \<Rightarrow> bool) \<Rightarrow> build_plan \<Rightarrow> execution_state \<Rightarrow> raised + execution_state" where
  "run_tasks 0 good plan st = Inr st"
| "run_tasks (Suc n) good plan st =
    (case next_ready st of
       None \<Rightarrow> Inr st
     | Some i \<Rightarrow>
         if xe_status st \<noteq> Exec_running then Inr st
         else sbind (mark_running st i) (\<lambda>started.
              sbind (if good i then mark_completed plan started i else mark_failed plan started i) (\<lambda>ended.
                run_tasks n good plan ended)))"

section \<open>The tasks a failure blocks\<close>

definition depends_rel :: "build_task list \<Rightarrow> (string \<times> string) set" where
  "depends_rel tasks = {(d, i). d \<in> depends_of tasks i}"

lemma block_task_mono: "block_task B t = B \<or> (\<exists>i. block_task B t = i # B)"
  by (simp add: block_task_def)

lemma block_pass_length: "foldl block_task B ts = B \<or> length B < length (foldl block_task B ts)"
proof (induction ts arbitrary: B)
  case (Cons t ts)
  then show ?case using block_task_mono [of B t] by (metis Suc_lessD foldl_Cons length_Cons lessI)
qed simp

lemma block_pass_closed:
  "foldl block_task B ts = B \<Longrightarrow> t \<in> set ts \<Longrightarrow> block_task B t = B"
proof (induction ts arbitrary: B)
  case (Cons x ts)
  have "length (block_task B x) \<le> length (foldl block_task (block_task B x) ts)"
    using block_pass_length [of "block_task B x" ts] by auto
  then have "block_task B x = B" using Cons.prems(1) block_task_mono [of B x] by auto
  then show ?case using Cons by auto
qed simp

lemma block_pass_inv:
  assumes "\<And>B t. t \<in> set ts \<Longrightarrow> P B \<Longrightarrow> P (block_task B t)" and "P B"
  shows "P (foldl block_task B ts)"
  using assms by (induction ts arbitrary: B) simp_all

lemma block_loop_inv:
  "(\<And>B t. t \<in> set ts \<Longrightarrow> P B \<Longrightarrow> P (block_task B t)) \<Longrightarrow> P B \<Longrightarrow> P (block_loop n ts B)"
  by (induction n arbitrary: B) (simp_all add: Let_def block_pass_inv)

lemma block_loop_fixed:
  "length (block_loop n ts B) < length B + n \<Longrightarrow> foldl block_task (block_loop n ts B) ts = block_loop n ts B"
proof (induction n arbitrary: B)
  case (Suc n)
  show ?case
  proof (cases "foldl block_task B ts = B")
    case False
    then have "length B < length (foldl block_task B ts)" using block_pass_length [of B ts] by simp
    then show ?thesis using Suc False by (simp add: Let_def)
  qed simp
qed simp

lemma blocked_by_step:
  assumes "sound_graph tasks" "i \<in> tk_id ` set tasks" "d \<in> depends_of tasks j" "d \<in> set (blocked_by tasks i)"
  shows "j \<in> set (blocked_by tasks i)"
proof -
  let ?B = "blocked_by tasks i"
  let ?P = "\<lambda>B. distinct B \<and> set B \<subseteq> tk_id ` set tasks"
  have "?P ?B" unfolding blocked_by_def
    by (rule block_loop_inv) (use assms(2) in \<open>auto simp: block_task_def\<close>)
  then have "length ?B \<le> card (tk_id ` set tasks)" by (metis card_mono distinct_card finite_imageI List.finite_set)
  also have "\<dots> \<le> length tasks" using card_image_le [of "set tasks" tk_id] card_length [of tasks] by simp
  finally have "foldl block_task ?B tasks = ?B" unfolding blocked_by_def by (intro block_loop_fixed) simp
  moreover from depends_task [OF assms(3)] obtain t where t: "t \<in> set tasks" "j = tk_id t" by auto
  ultimately have "block_task ?B t = ?B" using block_pass_closed by blast
  moreover have "d \<in> set (tk_depends t)" using assms(3) t sound_ids(3) [OF assms(1)] by simp
  ultimately show ?thesis using t assms(4) by (auto simp: block_task_def list_ex_iff split: if_split_asm)
qed

lemma blocked_by_self: "i \<in> set (blocked_by tasks i)"
  unfolding blocked_by_def by (rule block_loop_inv) (auto simp: block_task_def)

lemma blocked_by_sound:
  assumes "sound_graph tasks" "j \<in> set (blocked_by tasks i)"
  shows "(i, j) \<in> (depends_rel tasks)\<^sup>*"
proof -
  have "\<forall>k \<in> set (blocked_by tasks i). (i, k) \<in> (depends_rel tasks)\<^sup>*"
    unfolding blocked_by_def
    by (rule block_loop_inv)
      (auto simp: block_task_def list_ex_iff depends_rel_def sound_ids(3) [OF assms(1)] intro: rtrancl_into_rtrancl)
  then show ?thesis using assms(2) by blast
qed

lemma set_blocked_by:
  assumes "sound_graph tasks" "i \<in> tk_id ` set tasks"
  shows "set (blocked_by tasks i) = {j. (i, j) \<in> (depends_rel tasks)\<^sup>*}"
proof -
  have "j \<in> set (blocked_by tasks i)" if "(i, j) \<in> (depends_rel tasks)\<^sup>*" for j
    using that
  proof induction
    case (step d j)
    then show ?case using blocked_by_step [OF assms, of d j] by (simp add: depends_rel_def)
  qed (rule blocked_by_self)
  then show ?thesis using blocked_by_sound [OF assms(1)] by blast
qed

section \<open>States as functions of the task\<close>

definition records :: "build_task list \<Rightarrow> (string \<Rightarrow> task_status) \<Rightarrow> task_state list" where
  "records tasks f = map (\<lambda>t. \<lparr>ts_id = tk_id t, ts_status = f (tk_id t)\<rparr>) tasks"

definition coherent :: "build_task list \<Rightarrow> (string \<Rightarrow> task_status) \<Rightarrow> bool" where
  "coherent tasks f \<longleftrightarrow> (\<forall>i \<in> tk_id ` set tasks.
    (f i \<in> {Task_ready, Task_running, Task_completed, Task_failed} \<longrightarrow> (\<forall>d \<in> depends_of tasks i. f d = Task_completed)) \<and>
    (f i = Task_pending \<longrightarrow> (\<exists>d \<in> depends_of tasks i. f d \<noteq> Task_completed)) \<and>
    (f i = Task_blocked \<longrightarrow> (\<exists>d \<in> depends_of tasks i. f d = Task_failed \<or> f d = Task_blocked)))"

lemma coherentI:
  assumes "\<And>i d. i \<in> tk_id ` set tasks \<Longrightarrow> f i \<in> {Task_ready, Task_running, Task_completed, Task_failed} \<Longrightarrow>
      d \<in> depends_of tasks i \<Longrightarrow> f d = Task_completed"
    and "\<And>i. i \<in> tk_id ` set tasks \<Longrightarrow> f i = Task_pending \<Longrightarrow> \<exists>d \<in> depends_of tasks i. f d \<noteq> Task_completed"
    and "\<And>i. i \<in> tk_id ` set tasks \<Longrightarrow> f i = Task_blocked \<Longrightarrow> \<exists>d \<in> depends_of tasks i. f d = Task_failed \<or> f d = Task_blocked"
  shows "coherent tasks f"
  using assms unfolding coherent_def by blast

lemma coherentD:
  assumes "coherent tasks f" "i \<in> tk_id ` set tasks"
  shows "f i \<in> {Task_ready, Task_running, Task_completed, Task_failed} \<Longrightarrow> d \<in> depends_of tasks i \<Longrightarrow> f d = Task_completed"
    and "f i = Task_pending \<Longrightarrow> \<exists>d \<in> depends_of tasks i. f d \<noteq> Task_completed"
    and "f i = Task_blocked \<Longrightarrow> \<exists>d \<in> depends_of tasks i. f d = Task_failed \<or> f d = Task_blocked"
  using assms unfolding coherent_def by blast+

lemma records_ids [simp]: "map ts_id (records tasks f) = map tk_id tasks"
  by (simp add: records_def)

lemma set_records: "r \<in> set (records tasks f) \<longleftrightarrow> (\<exists>i \<in> tk_id ` set tasks. r = \<lparr>ts_id = i, ts_status = f i\<rparr>)"
  by (auto simp: records_def)

lemma records_cong: "(\<And>i. i \<in> tk_id ` set tasks \<Longrightarrow> f i = g i) \<Longrightarrow> records tasks f = records tasks g"
  by (simp add: records_def)

lemma map_records: "map (\<lambda>r. F (ts_id r) (ts_status r)) (records tasks f) = map (\<lambda>t. F (tk_id t) (f (tk_id t))) tasks"
  by (simp add: records_def)

lemma status_map_records:
  assumes "sound_graph tasks"
  shows "status_map (records tasks f) i = (if i \<in> tk_id ` set tasks then Some (f i) else None)"
proof (cases "i \<in> tk_id ` set tasks")
  case True
  have "distinct (map fst (rev (map (\<lambda>t. (tk_id t, f (tk_id t))) tasks)))"
    using sound_ids(1) [OF assms] by (simp add: rev_map [symmetric] comp_def)
  then show ?thesis using True
    by (auto simp: status_map_def records_def comp_def intro!: map_of_is_SomeI)
next
  case False
  then have "i \<notin> fst ` set (rev (map (\<lambda>t. (tk_id t, f (tk_id t))) tasks))" by auto
  then show ?thesis using False unfolding status_map_def records_def by (simp add: comp_def map_of_eq_None_iff)
qed

lemma status_entry_records:
  "sound_graph tasks \<Longrightarrow> status_entry (records tasks f) i =
    (if i \<in> tk_id ` set tasks then Inr (f i) else Inl (plain_error ''KeyError'' i))"
  by (simp add: status_entry_def status_map_records)

lemma task_entry_found:
  assumes "sound_graph (bp_tasks plan)" "t \<in> set (bp_tasks plan)"
  shows "task_entry plan (tk_id t) = Inr t"
proof -
  have "distinct (map fst (rev (map (\<lambda>t. (tk_id t, t)) (bp_tasks plan))))"
    using sound_ids(1) [OF assms(1)] by (simp add: rev_map [symmetric] comp_def)
  then have "map_of (rev (map (\<lambda>t. (tk_id t, t)) (bp_tasks plan))) (tk_id t) = Some t"
    using assms(2) by (intro map_of_is_SomeI) auto
  then show ?thesis by (simp add: task_entry_def)
qed

lemma records_unique:
  assumes "sound_graph tasks" "map ts_id rs = map tk_id tasks"
  obtains f where "rs = records tasks f"
proof
  let ?f = "\<lambda>i. ts_status (the (find (\<lambda>r. ts_id r = i) rs))"
  have "distinct (map ts_id rs)" using sound_ids(1) [OF assms(1)] assms(2) by simp
  then have "find (\<lambda>x. ts_id x = ts_id r) rs = Some r" if "r \<in> set rs" for r
    using that by (induction rs) (auto simp: image_iff)
  then have "rs = map (\<lambda>i. \<lparr>ts_id = i, ts_status = ?f i\<rparr>) (map ts_id rs)" by (simp add: map_idI)
  also have "\<dots> = records tasks ?f" unfolding assms(2) by (simp add: records_def)
  finally show "rs = records tasks ?f" .
qed

lemma smap_entries:
  "sound_graph tasks \<Longrightarrow> set ds \<subseteq> tk_id ` set tasks \<Longrightarrow> smap (status_entry (records tasks f)) ds = Inr (map f ds)"
  by (induction ds) (auto simp: status_entry_records)

lemma check_task_state_Inr:
  assumes "sound_graph tasks" "t \<in> set tasks"
  shows "check_task_state (records tasks f) t = Inr u \<longleftrightarrow>
    (f (tk_id t) \<in> {Task_ready, Task_running, Task_completed, Task_failed} \<longrightarrow> (\<forall>d \<in> depends_of tasks (tk_id t). f d = Task_completed)) \<and>
    (f (tk_id t) = Task_pending \<longrightarrow> (\<exists>d \<in> depends_of tasks (tk_id t). f d \<noteq> Task_completed)) \<and>
    (f (tk_id t) = Task_blocked \<longrightarrow> (\<exists>d \<in> depends_of tasks (tk_id t). f d = Task_failed \<or> f d = Task_blocked))"
proof -
  note ids = sound_ids(3,5) [OF assms(1), of t]
  show ?thesis using assms(2) ids
    by (auto simp: check_task_state_def status_entry_records [OF assms(1)] smap_entries [OF assms(1)] sbind_eq_Inr
        list_all_iff list_ex_iff)
qed

lemma check_tasks_Inr:
  assumes "sound_graph tasks"
  shows "(\<exists>us. smap (check_task_state (records tasks f)) tasks = Inr us) \<longleftrightarrow> coherent tasks f"
  unfolding smap_unit coherent_def ball_simps using check_task_state_Inr [OF assms] by (simp cong: ball_cong)

definition running_tasks :: "build_task list \<Rightarrow> (string \<Rightarrow> task_status) \<Rightarrow> nat" where
  "running_tasks tasks f = length (filter (\<lambda>t. f (tk_id t) = Task_running) tasks)"

text \<open>What \<open>validate_state\<close> accepts, apart from the status of the execution.\<close>

definition matches :: "build_plan \<Rightarrow> string \<Rightarrow> (string \<Rightarrow> task_status) \<Rightarrow> execution_state \<Rightarrow> bool" where
  "matches plan execution f st \<longleftrightarrow>
    xe_build st = bp_build plan \<and> xe_execution st = execution \<and> xe_tasks st = records (bp_tasks plan) f \<and>
    coherent (bp_tasks plan) f \<and> running_tasks (bp_tasks plan) f \<le> 1"

definition status_sound :: "execution_state \<Rightarrow> bool" where
  "status_sound st \<longleftrightarrow>
    (if xe_status st \<in> {Exec_completed, Exec_failed, Exec_interrupted} then terminal_status st = Inr (xe_status st)
     else xe_status st = Exec_running \<longrightarrow> xe_manifest st = None)"

lemma running_records: "length (filter (\<lambda>r. ts_status r = Task_running) (records tasks f)) = running_tasks tasks f"
  by (simp add: records_def running_tasks_def filter_map comp_def)

lemma status_check:
  "(if xe_status st \<in> {Exec_completed, Exec_failed, Exec_interrupted}
    then sbind (terminal_status st) (\<lambda>terminal. check_that (terminal = xe_status st) e)
    else check_that (\<not> (xe_status st = Exec_running \<and> xe_manifest st \<noteq> None)) e') = Inr u \<longleftrightarrow> status_sound st"
  unfolding status_sound_def by (cases "terminal_status st") (auto split: if_split_asm)

lemma validate_state_Inr:
  assumes "sound_graph (bp_tasks plan)"
  shows "validate_state plan execution st = Inr u \<longleftrightarrow> (\<exists>f. matches plan execution f st) \<and> status_sound st"
proof (cases "map ts_id (xe_tasks st) = map tk_id (bp_tasks plan)")
  case True
  let ?tasks = "bp_tasks plan"
  obtain f where f: "xe_tasks st = records ?tasks f" by (rule records_unique [OF assms True])
  have low: "distinct (map lower (map tk_id ?tasks))" using assms by (simp add: sound_graph_def)
  have same: "coherent ?tasks g = coherent ?tasks f \<and> running_tasks ?tasks g = running_tasks ?tasks f"
    if "records ?tasks g = records ?tasks f" for g
    using that check_tasks_Inr [OF assms] running_records by metis
  have matches: "(\<exists>g. matches plan execution g st) \<longleftrightarrow>
      xe_build st = bp_build plan \<and> xe_execution st = execution \<and> coherent ?tasks f \<and> running_tasks ?tasks f \<le> 1"
    unfolding matches_def f using same by metis
  have "validate_state plan execution st = Inr u \<longleftrightarrow>
      (xe_build st = bp_build plan \<and> xe_execution st = execution) \<and> running_tasks ?tasks f \<le> 1 \<and>
      (\<exists>us. smap (check_task_state (records ?tasks f)) ?tasks = Inr us) \<and> status_sound st"
    unfolding validate_state_def Let_def True sbind_eq_Inr status_check unfolding f running_records
    by (simp only: check_that_eq_Inr low True) simp
  then show ?thesis unfolding matches check_tasks_Inr [OF assms] by blast
next
  case False
  then have "\<not> matches plan execution f st" for f by (auto simp: matches_def)
  moreover have "validate_state plan execution st \<noteq> Inr u"
    using False unfolding validate_state_def Let_def sbind_eq_Inr check_that_eq_Inr by blast
  ultimately show ?thesis by blast
qed

section \<open>The transitions\<close>

text \<open>The state of a run: nothing is interrupted and no task waits for one that cannot complete.\<close>

definition live :: "(string \<Rightarrow> bool) \<Rightarrow> build_plan \<Rightarrow> string \<Rightarrow> (string \<Rightarrow> task_status) \<Rightarrow> execution_state \<Rightarrow> bool" where
  "live good plan execution f st \<longleftrightarrow>
    xe_build st = bp_build plan \<and> xe_execution st = execution \<and> xe_status st = Exec_running \<and> xe_manifest st = None \<and>
    xe_tasks st = records (bp_tasks plan) f \<and> coherent (bp_tasks plan) f \<and>
    (\<forall>i. f i \<noteq> Task_interrupted \<and> (f i = Task_completed \<longrightarrow> good i) \<and> (f i = Task_failed \<longrightarrow> \<not> good i)) \<and>
    (\<forall>i \<in> tk_id ` set (bp_tasks plan). f i = Task_pending \<longrightarrow>
      (\<forall>d \<in> depends_of (bp_tasks plan) i. f d \<noteq> Task_failed \<and> f d \<noteq> Task_blocked))"

definition idle :: "build_task list \<Rightarrow> (string \<Rightarrow> task_status) \<Rightarrow> bool" where
  "idle tasks f \<longleftrightarrow> (\<forall>i \<in> tk_id ` set tasks. f i \<noteq> Task_running)"

definition open_tasks :: "build_task list \<Rightarrow> (string \<Rightarrow> task_status) \<Rightarrow> string set" where
  "open_tasks tasks f = {i \<in> tk_id ` set tasks. f i = Task_pending \<or> f i = Task_ready}"

lemma live_initial:
  assumes "sound_graph (bp_tasks plan)"
  shows "\<exists>f. live good plan execution f (initial_state plan execution) \<and> idle (bp_tasks plan) f"
proof (intro exI conjI)
  let ?f = "\<lambda>i. if depends_of (bp_tasks plan) i = {} then Task_ready else Task_pending"
  have "xe_tasks (initial_state plan execution) = records (bp_tasks plan) ?f"
    using sound_ids(3) [OF assms] by (simp add: initial_state_def records_def)
  then show "live good plan execution ?f (initial_state plan execution)"
    by (auto simp: live_def initial_state_def coherent_def)
  show "idle (bp_tasks plan) ?f" by (simp add: idle_def)
qed

lemma put_records: "put_status i s (records tasks f) = records tasks (f(i := s))"
  by (simp add: put_status_def records_def)

lemma mark_running_live:
  assumes "sound_graph (bp_tasks plan)" "live good plan execution f st" "i \<in> tk_id ` set (bp_tasks plan)" "f i = Task_ready"
  shows "\<exists>st'. mark_running st i = Inr st' \<and> live good plan execution (f(i := Task_running)) st'"
proof -
  let ?tasks = "bp_tasks plan" and ?f = "f(i := Task_running)"
  have live: "coherent ?tasks f" "xe_tasks st = records ?tasks f" using assms(2) by (simp_all add: live_def)
  note rules = coherentD [OF live(1)]
  have "coherent ?tasks ?f"
  proof (rule coherentI)
    show "?f d = Task_completed"
      if j: "j \<in> tk_id ` set ?tasks" "?f j \<in> {Task_ready, Task_running, Task_completed, Task_failed}" "d \<in> depends_of ?tasks j" for j d
    proof -
      have "f j \<in> {Task_ready, Task_running, Task_completed, Task_failed}" using j(2) assms(4) by (cases "j = i") simp_all
      then have "f d = Task_completed" using rules(1) j(1,3) by blast
      then show ?thesis using assms(4) by (cases "d = i") simp_all
    qed
    show "\<exists>d \<in> depends_of ?tasks j. ?f d \<noteq> Task_completed" if j: "j \<in> tk_id ` set ?tasks" "?f j = Task_pending" for j
    proof -
      have "f j = Task_pending" using j(2) by (cases "j = i") simp_all
      then obtain d where "d \<in> depends_of ?tasks j" "f d \<noteq> Task_completed" using rules(2) j(1) by blast
      then show ?thesis by (intro bexI [of _ d]) simp_all
    qed
    show "\<exists>d \<in> depends_of ?tasks j. ?f d = Task_failed \<or> ?f d = Task_blocked" if j: "j \<in> tk_id ` set ?tasks" "?f j = Task_blocked" for j
    proof -
      have "f j = Task_blocked" using j(2) by (cases "j = i") simp_all
      then obtain d where "d \<in> depends_of ?tasks j" "f d = Task_failed \<or> f d = Task_blocked" using rules(3) j(1) by blast
      then show ?thesis using assms(4) by (intro bexI [of _ d]) auto
    qed
  qed
  moreover have "mark_running st i = Inr (st\<lparr>xe_tasks := records ?tasks ?f\<rparr>)"
    using assms(1,3,4) live(2) by (simp add: mark_running_def status_entry_records put_records)
  moreover have "\<forall>j \<in> tk_id ` set ?tasks. ?f j = Task_pending \<longrightarrow> (\<forall>d \<in> depends_of ?tasks j. ?f d \<noteq> Task_failed \<and> ?f d \<noteq> Task_blocked)"
    using assms(2) by (simp add: live_def)
  ultimately show ?thesis using assms(2) by (simp add: live_def)
qed

lemma all_completed_records:
  "sound_graph tasks \<Longrightarrow> set ds \<subseteq> tk_id ` set tasks \<Longrightarrow>
    all_completed (records tasks f) ds = Inr (list_all (\<lambda>d. f d = Task_completed) ds)"
  by (induction ds) (auto simp: status_entry_records)

definition released :: "build_task list \<Rightarrow> (string \<Rightarrow> task_status) \<Rightarrow> string \<Rightarrow> task_status" where
  "released tasks f i =
    (if f i = Task_pending \<and> (\<forall>d \<in> depends_of tasks i. f d = Task_completed) then Task_ready else f i)"

lemma release_task_records:
  assumes "sound_graph (bp_tasks plan)" "i \<in> tk_id ` set (bp_tasks plan)"
  shows "release_task plan (records (bp_tasks plan) f) \<lparr>ts_id = i, ts_status = f i\<rparr> =
    Inr \<lparr>ts_id = i, ts_status = released (bp_tasks plan) f i\<rparr>"
proof -
  from assms(2) obtain t where t: "t \<in> set (bp_tasks plan)" "i = tk_id t" by auto
  then show ?thesis
    using task_entry_found [OF assms(1) t(1)] sound_ids(3,5) [OF assms(1) t(1)]
    by (auto simp: release_task_def released_def all_completed_records [OF assms(1)] list_all_iff)
qed

lemma smap_over_map: "(\<And>x. x \<in> set xs \<Longrightarrow> f (g x) = Inr (h x)) \<Longrightarrow> smap f (map g xs) = Inr (map h xs)"
  by (induction xs) simp_all

lemma release_all_records:
  assumes "sound_graph (bp_tasks plan)"
  shows "smap (release_task plan (records (bp_tasks plan) f)) (records (bp_tasks plan) f) =
    Inr (records (bp_tasks plan) (released (bp_tasks plan) f))"
proof -
  have "smap (release_task plan (records (bp_tasks plan) f)) (map (\<lambda>t. \<lparr>ts_id = tk_id t, ts_status = f (tk_id t)\<rparr>) (bp_tasks plan)) =
      Inr (map (\<lambda>t. \<lparr>ts_id = tk_id t, ts_status = released (bp_tasks plan) f (tk_id t)\<rparr>) (bp_tasks plan))"
    by (rule smap_over_map) (use release_task_records [OF assms] in simp)
  then show ?thesis by (simp add: records_def)
qed

lemma coherent_released:
  assumes "coherent tasks f" and "f i = Task_running"
  shows "coherent tasks (released tasks (f(i := Task_completed)))" (is "coherent tasks ?g")
proof (rule coherentI)
  note rules = coherentD [OF assms(1)]
  show "?g d = Task_completed"
    if j: "j \<in> tk_id ` set tasks" "?g j \<in> {Task_ready, Task_running, Task_completed, Task_failed}" "d \<in> depends_of tasks j" for j d
  proof (cases "f j = Task_pending")
    case True
    then have "j \<noteq> i" using assms(2) by auto
    then have "(f(i := Task_completed)) d = Task_completed"
      using j True by (simp add: released_def split: if_split_asm) blast
    then show ?thesis by (auto simp: released_def split: if_split_asm)
  next
    case False
    then have "f j \<in> {Task_ready, Task_running, Task_completed, Task_failed}"
      using j(2) assms(2) by (auto simp: released_def split: if_split_asm)
    then have "f d = Task_completed" using rules(1) j by blast
    then show ?thesis by (simp add: released_def)
  qed
  show "\<exists>d \<in> depends_of tasks j. ?g d \<noteq> Task_completed" if "j \<in> tk_id ` set tasks" "?g j = Task_pending" for j
    using that(2) by (auto simp: released_def split: if_split_asm)
  show "\<exists>d \<in> depends_of tasks j. ?g d = Task_failed \<or> ?g d = Task_blocked" if j: "j \<in> tk_id ` set tasks" "?g j = Task_blocked" for j
  proof -
    have "f j = Task_blocked" using j(2) by (auto simp: released_def split: if_split_asm)
    then obtain d where d: "d \<in> depends_of tasks j" "f d = Task_failed \<or> f d = Task_blocked" using rules(3) [OF j(1)] by auto
    then have "d \<noteq> i" using assms(2) by auto
    then show ?thesis using d by (intro bexI [of _ d]) (auto simp: released_def)
  qed
qed

lemma mark_completed_live:
  assumes "sound_graph (bp_tasks plan)" "live good plan execution f st" "i \<in> tk_id ` set (bp_tasks plan)"
    "f i = Task_running" "good i"
  shows "\<exists>st'. mark_completed plan st i = Inr st' \<and>
    live good plan execution (released (bp_tasks plan) (f(i := Task_completed))) st'"
proof -
  let ?tasks = "bp_tasks plan" let ?f = "released ?tasks (f(i := Task_completed))"
  have live: "coherent ?tasks f" "xe_tasks st = records ?tasks f" using assms(2) by (simp_all add: live_def)
  have "coherent ?tasks ?f" using live(1) assms(4) by (rule coherent_released)
  moreover have "mark_completed plan st i = Inr (st\<lparr>xe_tasks := records ?tasks ?f, xe_status := Exec_running\<rparr>)"
    using assms(1,3,4) live(2) by (simp add: mark_completed_def status_entry_records put_records release_all_records Let_def)
  moreover have "\<forall>j. ?f j \<noteq> Task_interrupted \<and> (?f j = Task_completed \<longrightarrow> good j) \<and> (?f j = Task_failed \<longrightarrow> \<not> good j)"
    using assms(2,5) by (simp add: live_def released_def)
  moreover have "\<forall>j \<in> tk_id ` set ?tasks. ?f j = Task_pending \<longrightarrow> (\<forall>d \<in> depends_of ?tasks j. ?f d \<noteq> Task_failed \<and> ?f d \<noteq> Task_blocked)"
    using assms(2) by (simp add: live_def released_def)
  ultimately show ?thesis using assms(2) by (simp add: live_def)
qed

definition failed_at :: "build_task list \<Rightarrow> (string \<Rightarrow> task_status) \<Rightarrow> string \<Rightarrow> string \<Rightarrow> task_status" where
  "failed_at tasks f i j =
    (if j = i then Task_failed
     else if (i, j) \<in> (depends_rel tasks)\<^sup>* \<and> (f j = Task_pending \<or> f j = Task_ready) then Task_blocked else f j)"

text \<open>While a task runs, nothing downstream of it has started.\<close>

lemma downstream_waits:
  assumes "sound_graph tasks" "coherent tasks f" "f i = Task_running" "\<forall>j. f j \<noteq> Task_interrupted"
    and "(i, j) \<in> (depends_rel tasks)\<^sup>+"
  shows "f j = Task_pending \<or> f j = Task_blocked"
  using assms(5)
proof induction
  case (base j)
  then have j: "i \<in> depends_of tasks j" by (simp add: depends_rel_def)
  then show ?case using coherentD(1) [OF assms(2) depends_task [OF j] _ j] assms(3,4) by (cases "f j") auto
next
  case (step k j)
  then have j: "k \<in> depends_of tasks j" by (simp add: depends_rel_def)
  then show ?case using coherentD(1) [OF assms(2) depends_task [OF j] _ j] assms(4) step.IH by (cases "f j") auto
qed

lemma failed_at_other:
  assumes "sound_graph tasks" "coherent tasks f" "f i = Task_running" "\<forall>j. f j \<noteq> Task_interrupted" "j \<noteq> i"
  shows "(i, j) \<in> (depends_rel tasks)\<^sup>* \<Longrightarrow> failed_at tasks f i j = Task_blocked"
    and "(i, j) \<notin> (depends_rel tasks)\<^sup>* \<Longrightarrow> failed_at tasks f i j = f j"
  using downstream_waits [OF assms(1-4)] assms(5) by (auto simp: failed_at_def dest: rtranclD)

lemma coherent_failed:
  assumes "sound_graph tasks" "coherent tasks f" "f i = Task_running" "\<forall>j. f j \<noteq> Task_interrupted" "i \<in> tk_id ` set tasks"
  shows "coherent tasks (failed_at tasks f i)" (is "coherent tasks ?g")
proof (rule coherentI)
  let ?R = "depends_rel tasks"
  note other = failed_at_other [OF assms(1-4)] and rules = coherentD [OF assms(2)]
  have self: "?g i = Task_failed" by (simp add: failed_at_def)
  have down: "(i, j) \<in> ?R\<^sup>*" if "d \<in> depends_of tasks j" "(i, d) \<in> ?R\<^sup>*" for d j
    using that by (auto simp: depends_rel_def intro: rtrancl_into_rtrancl)
  have same: "?g d = Task_completed" if "f d = Task_completed" for d
    using that assms(3) other(1,2) [of d] downstream_waits [OF assms(1-4), of d] by (auto simp: failed_at_def)
  show "?g d = Task_completed"
    if j: "j \<in> tk_id ` set tasks" "?g j \<in> {Task_ready, Task_running, Task_completed, Task_failed}" "d \<in> depends_of tasks j" for j d
  proof (cases "j = i")
    case True
    then show ?thesis using rules(1) [OF j(1) _ j(3)] assms(3) same by simp
  next
    case False
    then have "?g j = f j" using other [OF False] j(2) by (cases "(i, j) \<in> ?R\<^sup>*") auto
    then show ?thesis using rules(1) [OF j(1) _ j(3)] j(2) same by simp
  qed
  show "\<exists>d \<in> depends_of tasks j. ?g d \<noteq> Task_completed" if j: "j \<in> tk_id ` set tasks" "?g j = Task_pending" for j
  proof -
    have "j \<noteq> i" using j(2) self by auto
    then have "f j = Task_pending" using other [of j] j(2) by (cases "(i, j) \<in> ?R\<^sup>*") auto
    then obtain d where d: "d \<in> depends_of tasks j" "f d \<noteq> Task_completed" using rules(2) [OF j(1)] by auto
    then show ?thesis by (intro bexI [of _ d]) (auto simp: failed_at_def)
  qed
  show "\<exists>d \<in> depends_of tasks j. ?g d = Task_failed \<or> ?g d = Task_blocked" if j: "j \<in> tk_id ` set tasks" "?g j = Task_blocked" for j
  proof (cases "(i, j) \<in> ?R\<^sup>*")
    case True
    have "j \<noteq> i" using j(2) self by auto
    then have "(i, j) \<in> ?R\<^sup>+" using True by (simp add: rtrancl_eq_or_trancl)
    then obtain d where d: "(i, d) \<in> ?R\<^sup>*" "(d, j) \<in> ?R" by (auto dest: tranclD2)
    then have "?g d = Task_failed \<or> ?g d = Task_blocked" using self other(1) [of d] by (cases "d = i") auto
    then show ?thesis using d(2) by (auto simp: depends_rel_def)
  next
    case False
    then have "j \<noteq> i" by auto
    then have "f j = Task_blocked" using other(2) [OF _ False] j(2) by simp
    then obtain d where d: "d \<in> depends_of tasks j" "f d = Task_failed \<or> f d = Task_blocked" using rules(3) [OF j(1)] by auto
    then have "(i, d) \<notin> ?R\<^sup>*" using down False by blast
    moreover have "d \<noteq> i" using d(2) assms(3) by auto
    ultimately show ?thesis using d other(2) [of d] by (intro bexI [of _ d]) auto
  qed
qed

lemma block_records:
  assumes "sound_graph tasks" "i \<in> tk_id ` set tasks"
  shows "map (\<lambda>r. if ts_id r = i then r\<lparr>ts_status := Task_failed\<rparr>
      else if ts_id r \<in> set (blocked_by tasks i) \<and> ts_status r \<in> {Task_pending, Task_ready} then r\<lparr>ts_status := Task_blocked\<rparr>
      else r) (records tasks f) = records tasks (failed_at tasks f i)"
  unfolding records_def map_map set_blocked_by [OF assms] by (intro map_cong refl) (auto simp: failed_at_def)

lemma mark_failed_live:
  assumes "sound_graph (bp_tasks plan)" "live good plan execution f st" "i \<in> tk_id ` set (bp_tasks plan)"
    "f i = Task_running" "\<not> good i"
  shows "\<exists>st'. mark_failed plan st i = Inr st' \<and> live good plan execution (failed_at (bp_tasks plan) f i) st'"
proof -
  let ?tasks = "bp_tasks plan" let ?f = "failed_at ?tasks f i" let ?R = "depends_rel ?tasks"
  have live: "coherent ?tasks f" "xe_tasks st = records ?tasks f" "\<forall>j. f j \<noteq> Task_interrupted"
    using assms(2) by (simp_all add: live_def)
  note other = failed_at_other [OF assms(1) live(1) assms(4) live(3)]
  have "coherent ?tasks ?f" using assms(1,3,4) live by (intro coherent_failed)
  moreover have "mark_failed plan st i = Inr (st\<lparr>xe_tasks := records ?tasks ?f, xe_status := Exec_running\<rparr>)"
    using assms(1,3,4) live(2)
    by (simp add: mark_failed_def status_entry_records Let_def block_records [simplified])
  moreover have "\<forall>j. ?f j \<noteq> Task_interrupted \<and> (?f j = Task_completed \<longrightarrow> good j) \<and> (?f j = Task_failed \<longrightarrow> \<not> good j)"
    using assms(2,5) by (simp add: live_def failed_at_def)
  moreover have "?f d \<noteq> Task_failed \<and> ?f d \<noteq> Task_blocked"
    if j: "j \<in> tk_id ` set ?tasks" "?f j = Task_pending" "d \<in> depends_of ?tasks j" for j d
  proof -
    have "j \<noteq> i" using j(2) by (auto simp: failed_at_def)
    then have free: "(i, j) \<notin> ?R\<^sup>*" "f j = Task_pending" using other [of j] j(2) by (cases "(i, j) \<in> ?R\<^sup>*"; auto)+
    then have "(i, d) \<notin> ?R\<^sup>*" using j(3) by (auto simp: depends_rel_def dest: rtrancl_into_rtrancl)
    moreover from this have "d \<noteq> i" by auto
    ultimately have "?f d = f d" using other(2) by simp
    then show ?thesis using assms(2) j(1,3) free(2) by (auto simp: live_def)
  qed
  ultimately show ?thesis using assms(2) by (simp add: live_def)
qed

section \<open>A run\<close>

lemma open_tasks_finite: "finite (open_tasks tasks f)"
  by (simp add: open_tasks_def)

lemma next_ready_records:
  "xe_tasks st = records tasks f \<Longrightarrow> next_ready st = Some i \<Longrightarrow> i \<in> tk_id ` set tasks \<and> f i = Task_ready"
  by (force simp: next_ready_def find_Some_iff set_records dest: nth_mem)

lemma no_ready_records:
  "xe_tasks st = records tasks f \<Longrightarrow> next_ready st = None \<longleftrightarrow> (\<forall>i \<in> tk_id ` set tasks. f i \<noteq> Task_ready)"
  by (auto simp: next_ready_def find_None_iff set_records)

definition end_task :: "(string \<Rightarrow> bool) \<Rightarrow> build_plan \<Rightarrow> execution_state \<Rightarrow> string \<Rightarrow> raised + execution_state" where
  "end_task good plan st i = (if good i then mark_completed plan st i else mark_failed plan st i)"

lemma run_step:
  assumes "sound_graph (bp_tasks plan)" "live good plan execution f st" "idle (bp_tasks plan) f" "next_ready st = Some i"
  obtains started st' g where "mark_running st i = Inr started" "end_task good plan started i = Inr st'"
    "live good plan execution g st'" "idle (bp_tasks plan) g"
    "card (open_tasks (bp_tasks plan) g) < card (open_tasks (bp_tasks plan) f)"
proof -
  let ?tasks = "bp_tasks plan" let ?f = "f(i := Task_running)"
  have "xe_tasks st = records ?tasks f" using assms(2) by (simp add: live_def)
  then have i: "i \<in> tk_id ` set ?tasks" "f i = Task_ready" using next_ready_records assms(4) by blast+
  obtain started where started: "mark_running st i = Inr started" "live good plan execution ?f started"
    using mark_running_live [OF assms(1,2) i] by blast
  have run: "?f i = Task_running" by simp
  let ?g = "if good i then released ?tasks (?f(i := Task_completed)) else failed_at ?tasks ?f i"
  have "\<exists>st'. end_task good plan started i = Inr st' \<and> live good plan execution ?g st'"
    unfolding end_task_def
    using mark_completed_live [OF assms(1) started(2) i(1) run] mark_failed_live [OF assms(1) started(2) i(1) run]
    by (simp only: if_True if_False split: if_split) blast
  then obtain st' where st': "end_task good plan started i = Inr st'" "live good plan execution ?g st'" by blast
  have idle: "idle ?tasks ?g" using assms(3) by (auto simp: idle_def released_def failed_at_def)
  have sub: "open_tasks ?tasks ?g \<subseteq> open_tasks ?tasks f - {i}"
    by (auto simp: open_tasks_def released_def failed_at_def split: if_split_asm)
  have "i \<in> open_tasks ?tasks f" using i by (simp add: open_tasks_def)
  then have "card (open_tasks ?tasks ?g) < card (open_tasks ?tasks f)"
    using sub by (intro psubset_card_mono open_tasks_finite) auto
  then show ?thesis using that started(1) st' idle by blast
qed

lemma run_tasks_live:
  assumes "sound_graph (bp_tasks plan)"
  shows "live good plan execution f st \<Longrightarrow> idle (bp_tasks plan) f \<Longrightarrow> card (open_tasks (bp_tasks plan) f) \<le> n \<Longrightarrow>
    \<exists>st' g. run_tasks n good plan st = Inr st' \<and> live good plan execution g st' \<and> idle (bp_tasks plan) g \<and> next_ready st' = None"
proof (induction n arbitrary: f st)
  case 0
  then have "open_tasks (bp_tasks plan) f = {}" using open_tasks_finite [of "bp_tasks plan" f] by simp
  then have "next_ready st = None"
    using 0(1) no_ready_records [of st "bp_tasks plan" f] by (auto simp: live_def open_tasks_def)
  then show ?case using 0 by auto
next
  case (Suc n)
  show ?case
  proof (cases "next_ready st")
    case None
    then show ?thesis using Suc.prems by auto
  next
    case (Some i)
    have running: "xe_status st = Exec_running" using Suc.prems(1) by (simp add: live_def)
    obtain started st' g where step: "mark_running st i = Inr started" "end_task good plan started i = Inr st'"
      and ended: "live good plan execution g st'" "idle (bp_tasks plan) g"
        "card (open_tasks (bp_tasks plan) g) < card (open_tasks (bp_tasks plan) f)"
      by (rule run_step [OF assms Suc.prems(1,2) Some])
    then show ?thesis using Suc.IH [OF ended(1,2)] Suc.prems(3) Some running
      by (simp add: end_task_def [symmetric])
  qed
qed

text \<open>At the end of a run nothing is pending: a pending task that waits for none would be ready.\<close>

lemma no_pending:
  assumes "sound_graph tasks" "acyclic_graph tasks" "coherent tasks f" "idle tasks f" "\<forall>i \<in> tk_id ` set tasks. f i \<noteq> Task_ready"
    "\<forall>i. f i \<noteq> Task_interrupted"
    "\<forall>i \<in> tk_id ` set tasks. f i = Task_pending \<longrightarrow> (\<forall>d \<in> depends_of tasks i. f d \<noteq> Task_failed \<and> f d \<noteq> Task_blocked)"
    and "i \<in> tk_id ` set tasks"
  shows "f i \<noteq> Task_pending"
proof
  let ?P = "{i \<in> tk_id ` set tasks. f i = Task_pending}"
  assume "f i = Task_pending"
  then have i: "i \<in> ?P" using assms(8) by simp
  have "depends_rel tasks \<subseteq> tk_id ` set tasks \<times> tk_id ` set tasks"
    using depends_known [OF assms(1)] depends_task by (auto simp: depends_rel_def)
  then have "wf (depends_rel tasks)" using assms(2)
    by (intro finite_acyclic_wf) (auto intro: finite_subset simp: acyclic_graph_def depends_rel_def)
  from wfE_min [OF this i] obtain z where z: "z \<in> ?P" and least: "\<And>y. (y, z) \<in> depends_rel tasks \<Longrightarrow> y \<notin> ?P" by blast
  then obtain d where d: "d \<in> depends_of tasks z" "f d \<noteq> Task_completed" using coherentD(2) [OF assms(3)] by blast
  have known: "d \<in> tk_id ` set tasks" using depends_known [OF assms(1)] d(1) by blast
  then have "f d \<noteq> Task_pending" using least [of d] d(1) by (simp add: depends_rel_def)
  moreover have "f d \<noteq> Task_running" "f d \<noteq> Task_ready" using assms(4,5) known by (auto simp: idle_def)
  moreover have "f d \<noteq> Task_failed" "f d \<noteq> Task_blocked" using assms(7) z d(1) by auto
  ultimately show False using d(2) assms(6) by (cases "f d") auto
qed

section \<open>The end of a run\<close>

text \<open>What the graph and the outcomes determine.\<close>

definition final_status :: "build_task list \<Rightarrow> (string \<Rightarrow> bool) \<Rightarrow> string \<Rightarrow> task_status" where
  "final_status tasks good i =
    (if \<forall>j. (j, i) \<in> (depends_rel tasks)\<^sup>* \<longrightarrow> good j then Task_completed
     else if \<forall>j. (j, i) \<in> (depends_rel tasks)\<^sup>+ \<longrightarrow> good j then Task_failed
     else Task_blocked)"

lemma depends_wf:
  assumes "sound_graph tasks" "acyclic_graph tasks"
  shows "wf (depends_rel tasks)"
proof -
  have "depends_rel tasks \<subseteq> tk_id ` set tasks \<times> tk_id ` set tasks"
    using depends_known [OF assms(1)] depends_task by (auto simp: depends_rel_def)
  then show ?thesis using assms(2)
    by (intro finite_acyclic_wf) (auto intro: finite_subset simp: acyclic_graph_def depends_rel_def)
qed

lemma ancestors_good:
  "(\<forall>j. (j, i) \<in> r\<^sup>+ \<longrightarrow> good j) \<longleftrightarrow> (\<forall>d. (d, i) \<in> r \<longrightarrow> (\<forall>j. (j, d) \<in> r\<^sup>* \<longrightarrow> good j))"
  unfolding trancl_unfold_right by blast

lemma run_determined:
  assumes "sound_graph tasks" "acyclic_graph tasks" "coherent tasks f"
    and "\<forall>i. (f i = Task_completed \<longrightarrow> good i) \<and> (f i = Task_failed \<longrightarrow> \<not> good i)"
    and ended: "\<forall>i \<in> tk_id ` set tasks. f i \<in> {Task_completed, Task_failed, Task_blocked}"
  shows "i \<in> tk_id ` set tasks \<Longrightarrow> f i = final_status tasks good i"
proof (induction i rule: wf_induct_rule [OF depends_wf [OF assms(1,2)]])
  case (1 i)
  have known: "d \<in> tk_id ` set tasks" if "d \<in> depends_of tasks i" for d using depends_known [OF assms(1)] that by blast
  have dep: "f d = Task_completed \<longleftrightarrow> (\<forall>j. (j, d) \<in> (depends_rel tasks)\<^sup>* \<longrightarrow> good j)" if "d \<in> depends_of tasks i" for d
    using "1.IH" [of d] known [OF that] that by (simp add: depends_rel_def final_status_def)
  have all: "(\<forall>d \<in> depends_of tasks i. f d = Task_completed) \<longleftrightarrow> (\<forall>j. (j, i) \<in> (depends_rel tasks)\<^sup>+ \<longrightarrow> good j)"
    unfolding ancestors_good using dep by (auto simp: depends_rel_def)
  have star: "(\<forall>j. (j, i) \<in> (depends_rel tasks)\<^sup>* \<longrightarrow> good j) \<longleftrightarrow> good i \<and> (\<forall>j. (j, i) \<in> (depends_rel tasks)\<^sup>+ \<longrightarrow> good j)"
    by (auto simp: rtrancl_eq_or_trancl)
  consider "f i = Task_completed" | "f i = Task_failed" | "f i = Task_blocked" using ended "1.prems" by blast
  then show ?case
  proof cases
    case a: 1
    then have "\<forall>d \<in> depends_of tasks i. f d = Task_completed" using coherentD(1) [OF assms(3) "1.prems"] by simp
    then show ?thesis using a assms(4) unfolding final_status_def star all by simp
  next
    case b: 2
    then have "\<forall>d \<in> depends_of tasks i. f d = Task_completed" using coherentD(1) [OF assms(3) "1.prems"] by simp
    then show ?thesis using b assms(4) unfolding final_status_def star all by simp
  next
    case c: 3
    then obtain d where d: "d \<in> depends_of tasks i" "f d = Task_failed \<or> f d = Task_blocked"
      using coherentD(3) [OF assms(3) "1.prems"] by blast
    then have "f d \<noteq> Task_completed" by auto
    then have "\<not> (\<forall>d \<in> depends_of tasks i. f d = Task_completed)" using d(1) by blast
    then show ?thesis using c unfolding final_status_def star all by simp
  qed
qed

lemma final_all_good:
  assumes "sound_graph tasks" "acyclic_graph tasks" "i \<in> tk_id ` set tasks"
  shows "\<forall>j \<in> tk_id ` set tasks. good j \<Longrightarrow> final_status tasks good i = Task_completed"
proof -
  have "j \<in> tk_id ` set tasks" if "(j, i) \<in> (depends_rel tasks)\<^sup>*" for j
    using that assms(3) depends_known [OF assms(1)]
    by (induction rule: converse_rtrancl_induct) (auto simp: depends_rel_def)
  then show "\<forall>j \<in> tk_id ` set tasks. good j \<Longrightarrow> final_status tasks good i = Task_completed"
    by (auto simp: final_status_def)
qed

lemma final_some_failed:
  assumes "sound_graph tasks" "acyclic_graph tasks" "j \<in> tk_id ` set tasks" "\<not> good j"
  shows "\<exists>i \<in> tk_id ` set tasks. final_status tasks good i = Task_failed"
proof -
  let ?B = "{i \<in> tk_id ` set tasks. \<not> good i}"
  have "j \<in> ?B" using assms(3,4) by simp
  from wfE_min [OF wf_trancl [OF depends_wf [OF assms(1,2)]] this] obtain i where i: "i \<in> ?B"
    and least: "\<And>k. (k, i) \<in> (depends_rel tasks)\<^sup>+ \<Longrightarrow> k \<notin> ?B" by blast
  have "k \<in> tk_id ` set tasks" if "(k, i) \<in> (depends_rel tasks)\<^sup>+" for k
    using tranclD [OF that] depends_known [OF assms(1)] by (auto simp: depends_rel_def)
  then have "good k" if "(k, i) \<in> (depends_rel tasks)\<^sup>+" for k using least [OF that] that by blast
  then have "final_status tasks good i = Task_failed" using i by (auto simp: final_status_def)
  then show ?thesis using i by blast
qed

lemma list_ex_records: "list_ex P (map ts_status (records tasks f)) \<longleftrightarrow> (\<exists>i \<in> tk_id ` set tasks. P (f i))"
  by (simp add: records_def list_ex_iff)

lemma list_all_records: "list_all P (map ts_status (records tasks f)) \<longleftrightarrow> (\<forall>i \<in> tk_id ` set tasks. P (f i))"
  by (simp add: records_def list_all_iff)

lemma set_status_records: "set (map ts_status (records tasks f)) = f ` tk_id ` set tasks"
  by (simp add: records_def image_image)

lemmas status_records = list_ex_records list_all_records set_status_records

text \<open>A validator that the tasks pass looks at the status of the execution only.\<close>

lemma validate_matches:
  assumes "sound_graph (bp_tasks plan)" "matches plan execution f st"
  shows "validate_state plan execution st =
    (if xe_status st \<in> {Exec_completed, Exec_failed, Exec_interrupted}
     then sbind (terminal_status st) (\<lambda>terminal.
       check_that (terminal = xe_status st) (scheduler_fault ''Execution terminal status contradicts task state''))
     else check_that (\<not> (xe_status st = Exec_running \<and> xe_manifest st \<noteq> None))
       (scheduler_fault ''Running execution cannot reference a terminal manifest''))"
proof -
  obtain us where us: "smap (check_task_state (records (bp_tasks plan) f)) (bp_tasks plan) = Inr us"
    using check_tasks_Inr [OF assms(1)] assms(2) by (auto simp: matches_def)
  have low: "distinct (map lower (map tk_id (bp_tasks plan)))" using assms(1) by (simp add: sound_graph_def)
  show ?thesis using assms(2) us low running_records [of "bp_tasks plan" f]
    unfolding validate_state_def Let_def matches_def by (simp del: map_map)
qed

definition interrupted :: "(string \<Rightarrow> task_status) \<Rightarrow> string \<Rightarrow> task_status" where
  "interrupted f i = (if f i \<in> {Task_pending, Task_ready, Task_running} then Task_interrupted else f i)"

lemma interrupt_live:
  assumes "live good plan execution f st"
  shows "xe_status (interrupt_running st) = Exec_interrupted" "matches plan execution (interrupted f) (interrupt_running st)"
proof -
  have live: "coherent (bp_tasks plan) f" "xe_tasks st = records (bp_tasks plan) f" "xe_status st = Exec_running"
    using assms by (simp_all add: live_def)
  then show "xe_status (interrupt_running st) = Exec_interrupted" by (simp add: interrupt_running_def)
  have "xe_tasks (interrupt_running st) = records (bp_tasks plan) (interrupted f)"
    using live(2,3) by (simp add: interrupt_running_def records_def interrupted_def)
  moreover have "coherent (bp_tasks plan) (interrupted f)"
  proof (rule coherentI)
    fix i assume i: "i \<in> tk_id ` set (bp_tasks plan)"
    note rules = coherentD [OF live(1) i]
    show "interrupted f d = Task_completed"
      if "interrupted f i \<in> {Task_ready, Task_running, Task_completed, Task_failed}" "d \<in> depends_of (bp_tasks plan) i" for d
    proof -
      have "f i \<in> {Task_ready, Task_running, Task_completed, Task_failed}" using that(1) by (simp add: interrupted_def split: if_split_asm)
      then have "f d = Task_completed" by (rule rules(1)) (rule that(2))
      then show ?thesis by (simp add: interrupted_def)
    qed
    show "\<exists>d \<in> depends_of (bp_tasks plan) i. interrupted f d \<noteq> Task_completed" if "interrupted f i = Task_pending"
      using that by (simp add: interrupted_def split: if_split_asm)
    show "\<exists>d \<in> depends_of (bp_tasks plan) i. interrupted f d = Task_failed \<or> interrupted f d = Task_blocked"
      if "interrupted f i = Task_blocked"
    proof -
      have "f i = Task_blocked" using that by (simp add: interrupted_def split: if_split_asm)
      then obtain d where "d \<in> depends_of (bp_tasks plan) i" "f d = Task_failed \<or> f d = Task_blocked" using rules(3) by auto
      then show ?thesis by (intro bexI [of _ d]) (auto simp: interrupted_def)
    qed
  qed
  moreover have "running_tasks (bp_tasks plan) (interrupted f) = 0" by (simp add: running_tasks_def interrupted_def)
  ultimately show "matches plan execution (interrupted f) (interrupt_running st)"
    using assms live by (simp add: matches_def live_def interrupt_running_def)
qed

lemma terminal_status_records:
  assumes "xe_tasks st = records tasks f"
  shows "terminal_status st =
    (if \<exists>i \<in> tk_id ` set tasks. f i \<in> {Task_pending, Task_ready, Task_running}
     then Inl (scheduler_fault ''Execution still contains non-terminal tasks'')
     else if \<exists>i \<in> tk_id ` set tasks. f i = Task_failed then Inr Exec_failed
     else if \<exists>i \<in> tk_id ` set tasks. f i = Task_interrupted then Inr Exec_interrupted
     else if tasks \<noteq> [] \<and> (\<forall>i \<in> tk_id ` set tasks. f i = Task_completed) then Inr Exec_completed
     else Inl (scheduler_fault ''Execution cannot be terminalized''))"
proof -
  have in_set: "s \<in> f ` tk_id ` set tasks \<longleftrightarrow> (\<exists>i \<in> tk_id ` set tasks. f i = s)" for s by blast
  show ?thesis unfolding terminal_status_def Let_def assms status_records in_set by (simp add: records_def)
qed

lemma live_ended:
  assumes "sound_graph (bp_tasks plan)" "acyclic_graph (bp_tasks plan)" "live good plan execution f st"
    "idle (bp_tasks plan) f" "next_ready st = None" "i \<in> tk_id ` set (bp_tasks plan)"
  shows "f i \<in> {Task_completed, Task_failed, Task_blocked}"
proof -
  have live: "coherent (bp_tasks plan) f" "xe_tasks st = records (bp_tasks plan) f" "\<forall>i. f i \<noteq> Task_interrupted"
    using assms(3) by (simp_all add: live_def)
  have ready: "\<forall>i \<in> tk_id ` set (bp_tasks plan). f i \<noteq> Task_ready" using no_ready_records [OF live(2)] assms(5) by simp
  have "f i \<noteq> Task_pending"
    by (rule no_pending [OF assms(1,2) live(1) assms(4) ready live(3) _ assms(6)]) (use assms(3) in \<open>simp add: live_def\<close>)
  then show ?thesis using ready assms(4,6) live(3) by (cases "f i") (auto simp: idle_def)
qed

lemma run_result:
  assumes "sound_graph (bp_tasks plan)" "acyclic_graph (bp_tasks plan)"
  obtains st where "run_tasks (length (bp_tasks plan)) good plan (initial_state plan execution) = Inr st"
    "validate_state plan execution st = Inr ()"
    "xe_tasks st = records (bp_tasks plan) (final_status (bp_tasks plan) good)"
    "terminal_status st = Inr (if \<forall>i \<in> tk_id ` set (bp_tasks plan). good i then Exec_completed else Exec_failed)"
proof -
  let ?tasks = "bp_tasks plan"
  obtain f0 where init: "live good plan execution f0 (initial_state plan execution)" "idle ?tasks f0"
    using live_initial [OF assms(1)] by blast
  have "card (open_tasks ?tasks f0) \<le> card (tk_id ` set ?tasks)" by (rule card_mono) (auto simp: open_tasks_def)
  also have "\<dots> \<le> length ?tasks" using card_image_le [of "set ?tasks" tk_id] card_length [of ?tasks] by simp
  finally obtain st f where st: "run_tasks (length ?tasks) good plan (initial_state plan execution) = Inr st"
    and live: "live good plan execution f st" "idle ?tasks f" "next_ready st = None"
    using run_tasks_live [OF assms(1) init] by blast
  have f: "xe_tasks st = records ?tasks f" "coherent ?tasks f" "xe_status st = Exec_running" "xe_manifest st = None"
    using live(1) by (simp_all add: live_def)
  have ended: "\<forall>i \<in> tk_id ` set ?tasks. f i \<in> {Task_completed, Task_failed, Task_blocked}"
    using live_ended [OF assms live] by blast
  have final: "f i = final_status ?tasks good i" if "i \<in> tk_id ` set ?tasks" for i
    using live(1) that ended by (intro run_determined [OF assms f(2)]) (simp_all add: live_def)
  have tasks: "xe_tasks st = records ?tasks (final_status ?tasks good)" unfolding f(1) by (rule records_cong [OF final])
  have "running_tasks ?tasks f = 0" using live(2) by (simp add: running_tasks_def idle_def)
  then have "matches plan execution f st" using f live(1) by (simp add: matches_def live_def)
  then have valid: "validate_state plan execution st = Inr ()"
    using validate_matches [OF assms(1)] f(3,4) by simp
  have good: "f i = Task_completed" if "\<forall>i \<in> tk_id ` set ?tasks. good i" "i \<in> tk_id ` set ?tasks" for i
    using final [OF that(2)] final_all_good [OF assms that(2,1)] by simp
  have bad: "\<exists>i \<in> tk_id ` set ?tasks. f i = Task_failed" if "\<not> (\<forall>i \<in> tk_id ` set ?tasks. good i)"
  proof -
    from that obtain j where "j \<in> tk_id ` set ?tasks" "\<not> good j" by blast
    from final_some_failed [where good = good, OF assms this] obtain i
      where i: "i \<in> tk_id ` set ?tasks" "final_status ?tasks good i = Task_failed" ..
    have "f i = Task_failed" unfolding final [OF i(1)] by (rule i(2))
    then show ?thesis using i(1) by (rule bexI)
  qed
  have none: "(\<exists>i \<in> tk_id ` set ?tasks. f i \<in> {Task_pending, Task_ready, Task_running}) = False"
    using ended by (auto dest: bspec)
  have nonempty: "?tasks \<noteq> []" using assms(1) by (simp add: sound_graph_def)
  have "terminal_status st = Inr (if \<forall>i \<in> tk_id ` set ?tasks. good i then Exec_completed else Exec_failed)"
  proof (cases "\<forall>i \<in> tk_id ` set ?tasks. good i")
    case True
    then have "\<forall>i \<in> tk_id ` set ?tasks. f i = Task_completed" using good by blast
    then show ?thesis using True nonempty unfolding terminal_status_records [OF f(1)] none by simp
  next
    case False
    then show ?thesis using bad unfolding terminal_status_records [OF f(1)] none by simp
  qed
  then show ?thesis using that st valid tasks by blast
qed

lemma blocked_failed:
  assumes "sound_graph tasks" "acyclic_graph tasks" "coherent tasks f"
  shows "i \<in> tk_id ` set tasks \<Longrightarrow> f i = Task_blocked \<Longrightarrow> \<exists>j \<in> tk_id ` set tasks. f j = Task_failed"
proof (induction i rule: wf_induct_rule [OF depends_wf [OF assms(1,2)]])
  case (1 i)
  from coherentD(3) [OF assms(3) "1.prems"] obtain d where d: "d \<in> depends_of tasks i" "f d = Task_failed \<or> f d = Task_blocked" ..
  have known: "d \<in> tk_id ` set tasks" using depends_known [OF assms(1)] d(1) by blast
  show ?case
  proof (cases "f d = Task_failed")
    case True
    then show ?thesis using known by (rule bexI)
  next
    case False
    then show ?thesis using "1.IH" [OF _ known] d by (simp add: depends_rel_def)
  qed
qed

lemma interrupt_validates:
  assumes "sound_graph (bp_tasks plan)" "acyclic_graph (bp_tasks plan)" "live good plan execution f st"
  shows "validate_state plan execution (interrupt_running st) =
    (if (\<exists>i \<in> tk_id ` set (bp_tasks plan). f i \<in> {Task_pending, Task_ready, Task_running}) \<and>
        (\<forall>i \<in> tk_id ` set (bp_tasks plan). f i \<noteq> Task_failed)
     then Inr () else Inl (scheduler_fault ''Execution terminal status contradicts task state''))"
proof -
  let ?tasks = "bp_tasks plan"
  note m = interrupt_live [OF assms(3)]
  have tasks: "xe_tasks (interrupt_running st) = records ?tasks (interrupted f)" using m(2) by (simp add: matches_def)
  have int: "(interrupted f i \<in> {Task_pending, Task_ready, Task_running}) = False"
      "interrupted f i = Task_failed \<longleftrightarrow> f i = Task_failed"
      "interrupted f i = Task_interrupted \<longleftrightarrow> f i \<in> {Task_pending, Task_ready, Task_running}" for i
    using assms(3) by (auto simp: interrupted_def live_def)
  have all_done: "interrupted f i = Task_completed"
    if "i \<in> tk_id ` set ?tasks" "\<forall>i \<in> tk_id ` set ?tasks. f i \<notin> {Task_pending, Task_ready, Task_running}"
      "\<forall>i \<in> tk_id ` set ?tasks. f i \<noteq> Task_failed" for i
    using that blocked_failed [OF assms(1,2), of f i] assms(3) by (cases "f i") (auto simp: interrupted_def live_def)
  have "?tasks \<noteq> []" using assms(1) by (simp add: sound_graph_def)
  show ?thesis
  proof (cases "\<exists>i \<in> tk_id ` set ?tasks. f i = Task_failed")
    case True
    then show ?thesis unfolding validate_matches [OF assms(1) m(2)] m(1) terminal_status_records [OF tasks] int by auto
  next
    case ok: False
    show ?thesis
    proof (cases "\<exists>i \<in> tk_id ` set ?tasks. f i \<in> {Task_pending, Task_ready, Task_running}")
      case True
      then show ?thesis using ok unfolding validate_matches [OF assms(1) m(2)] m(1) terminal_status_records [OF tasks] int by simp
    next
      case False
      then have "\<forall>i \<in> tk_id ` set ?tasks. interrupted f i = Task_completed" using ok all_done by blast
      then show ?thesis using ok False \<open>?tasks \<noteq> []\<close>
        unfolding validate_matches [OF assms(1) m(2)] m(1) terminal_status_records [OF tasks] int by simp
    qed
  qed
qed

end
