(* ===== verification/Build_Actions.thy ===== *)
theory Build_Actions
  imports Build_Plans Fix_Artifacts Json_Parse
begin

text \<open>
  What a worker may ask for (\<open>schemas/execution.py\<close>: paths, execution requests and mutation plans) and
  how its answer is read (\<open>builder/action_parser.py\<close>).
\<close>

section \<open>Paths\<close>

definition path_unsafe :: raised where
  "path_unsafe = value_fault ''path must be a safe relative path''"

definition check_mutation_path :: "bool \<Rightarrow> string \<Rightarrow> raised + string" where
  "check_mutation_path allow_dot value =
    (let parts = path_parts (pure_path (slashes value))
     in if value = [] \<or> value \<noteq> strip value then Inl (value_fault ''path must be a non-empty unpadded string'')
        else if CHR 0x00 \<in> set value \<or> device_prefix value then Inl path_unsafe
        else if allow_dot \<and> value = ''.'' then Inr value
        else if windows_anchored value \<or> startswith (slashes value) ''/'' \<or> CHR '':'' \<in> set value then Inl path_unsafe
        else if parts = [] \<or> list_ex (\<lambda>p. p = ''.'' \<or> p = ''..'') parts then Inl (value_fault ''path must not traverse'')
        else (case find (\<lambda>p. endswith p ''.'' \<or> endswith p '' '' \<or> is_windows_reserved p) parts of
            None \<Rightarrow> Inr value
          | Some p \<Rightarrow> Inl (value_fault
              (if endswith p ''.'' \<or> endswith p '' '' then ''path components must not end with dot or space''
               else ''path contains a reserved Windows name''))))"

definition mutation_path_ok :: "string \<Rightarrow> bool" where
  "mutation_path_ok value \<longleftrightarrow> value \<noteq> [] \<and> py_len value \<le> 4096 \<and> accepts (check_mutation_path False value)"

section \<open>Execution requests\<close>

record execution_request =
  er_execution :: string
  er_key :: string
  er_target :: string
  er_allowed :: "string list"
  er_analysis :: "jdict option"

definition execution_request_ok :: "execution_request \<Rightarrow> bool" where
  "execution_request_ok r \<longleftrightarrow>
    identifier_ok (er_execution r) \<and> identifier_ok (er_key r) \<and>
    py_len (er_target r) \<le> 32767 \<and> has_content (er_target r) \<and> CHR 0x00 \<notin> set (er_target r) \<and>
    er_allowed r \<noteq> [] \<and> length (er_allowed r) \<le> 64 \<and> list_all mutation_path_ok (er_allowed r) \<and> unique_paths (er_allowed r)"

definition execution_request_json :: "execution_request \<Rightarrow> jdict" where
  "execution_request_json r = [(''execution_id'', JStr (er_execution r)), (''idempotency_key'', JStr (er_key r)),
    (''target_root'', JStr (er_target r)), (''allowed_write_paths'', strings_json (er_allowed r)),
    (''aflow_analysis_request'', nullable JObj (er_analysis r))]"

section \<open>Mutation plans\<close>

datatype mutation_kind = Write_file string | Create_directory | Delete_file

record mutation =
  mu_id :: string
  mu_path :: string
  mu_kind :: mutation_kind

record action_plan =
  ap_summary :: string
  ap_mutations :: "mutation list"
  ap_expected :: "string list"

definition mutation_ok :: "mutation \<Rightarrow> bool" where
  "mutation_ok m \<longleftrightarrow> identifier_ok (mu_id m) \<and> mutation_path_ok (mu_path m) \<and>
    (case mu_kind m of Write_file content \<Rightarrow> py_len content \<le> 1000000 | _ \<Rightarrow> True)"

definition action_plan_ok :: "action_plan \<Rightarrow> bool" where
  "action_plan_ok p \<longleftrightarrow>
    py_len (ap_summary p) \<le> 4000 \<and> has_content (ap_summary p) \<and>
    ap_mutations p \<noteq> [] \<and> length (ap_mutations p) \<le> 128 \<and> list_all mutation_ok (ap_mutations p) \<and>
    length (ap_expected p) \<le> 256 \<and> list_all mutation_path_ok (ap_expected p) \<and> unique_paths (ap_expected p) \<and>
    distinct (map (lower \<circ> mu_id) (ap_mutations p))"

definition mutation_type :: "mutation_kind \<Rightarrow> string" where
  "mutation_type k = (case k of Write_file _ \<Rightarrow> ''write_file'' | Create_directory \<Rightarrow> ''create_directory'' | Delete_file \<Rightarrow> ''delete_file'')"

definition mutation_json :: "mutation \<Rightarrow> json" where
  "mutation_json m = JObj ([(''action_id'', JStr (mu_id m)), (''type'', JStr (mutation_type (mu_kind m))), (''path'', JStr (mu_path m))] @
    (case mu_kind m of Write_file content \<Rightarrow> [(''content'', JStr content)] | _ \<Rightarrow> []))"

definition action_plan_json :: "action_plan \<Rightarrow> json" where
  "action_plan_json p = JObj [(''summary'', JStr (ap_summary p)), (''mutations'', JList (map mutation_json (ap_mutations p))),
    (''expected_changed_paths'', strings_json (ap_expected p))]"

text \<open>\<open>model_validate\<close> in strict mode: the declared fields and no others, of the declared types.\<close>

definition exact_fields :: "string list \<Rightarrow> jdict \<Rightarrow> bool" where
  "exact_fields names d \<longleftrightarrow> list_all (\<lambda>e. fst e \<in> set names) d \<and> list_all (\<lambda>n. map_of d n \<noteq> None) names"

definition text_field :: "string \<Rightarrow> jdict \<Rightarrow> string option" where
  "text_field name d = (case map_of d name of Some (JStr s) \<Rightarrow> Some s | _ \<Rightarrow> None)"

definition mutation_of :: "json \<Rightarrow> mutation option" where
  "mutation_of v =
    (case v of
       JObj d \<Rightarrow>
         (case (text_field ''type'' d, text_field ''action_id'' d, text_field ''path'' d) of
            (Some t, Some i, Some p) \<Rightarrow>
              if t = ''write_file'' \<and> exact_fields [''action_id'', ''type'', ''path'', ''content''] d
              then map_option (\<lambda>content. \<lparr>mu_id = i, mu_path = p, mu_kind = Write_file content\<rparr>) (text_field ''content'' d)
              else if t = ''create_directory'' \<and> exact_fields [''action_id'', ''type'', ''path''] d
              then Some \<lparr>mu_id = i, mu_path = p, mu_kind = Create_directory\<rparr>
              else if t = ''delete_file'' \<and> exact_fields [''action_id'', ''type'', ''path''] d
              then Some \<lparr>mu_id = i, mu_path = p, mu_kind = Delete_file\<rparr>
              else None
          | _ \<Rightarrow> None)
     | _ \<Rightarrow> None)"

fun option_each :: "('a \<Rightarrow> 'b option) \<Rightarrow> 'a list \<Rightarrow> 'b list option" where
  "option_each f [] = Some []"
| "option_each f (x # xs) =
    (case f x of None \<Rightarrow> None | Some y \<Rightarrow> map_option (Cons y) (option_each f xs))"

definition text_of :: "json \<Rightarrow> string option" where
  "text_of v = (case v of JStr s \<Rightarrow> Some s | _ \<Rightarrow> None)"

definition list_field :: "string \<Rightarrow> (json \<Rightarrow> 'a option) \<Rightarrow> jdict \<Rightarrow> 'a list option" where
  "list_field name f d = (case map_of d name of Some (JList xs) \<Rightarrow> option_each f xs | _ \<Rightarrow> None)"

definition action_plan_of :: "jdict \<Rightarrow> action_plan option" where
  "action_plan_of d =
    (case (text_field ''summary'' d, list_field ''mutations'' mutation_of d, list_field ''expected_changed_paths'' text_of d) of
       (Some s, Some ms, Some es) \<Rightarrow>
         (let p = \<lparr>ap_summary = s, ap_mutations = ms, ap_expected = es\<rparr>
          in if exact_fields [''summary'', ''mutations'', ''expected_changed_paths''] d \<and> action_plan_ok p then Some p else None)
     | _ \<Rightarrow> None)"

section \<open>Strict JSON\<close>

text \<open>
  \<open>json.loads\<close> with the hook \<open>_reject_duplicate_keys\<close>: the grammar of \<open>json_loads\<close>, and an object with a
  repeated key is an error.
\<close>

fun strict_value :: "nat \<Rightarrow> string \<Rightarrow> (json \<times> string) option"
and strict_items :: "nat \<Rightarrow> string \<Rightarrow> (json list \<times> string) option"
and strict_members :: "nat \<Rightarrow> string \<Rightarrow> ((string \<times> json) list \<times> string) option" where
  "strict_value 0 s = None"
| "strict_value (Suc n) s =
    (case s of
       [] \<Rightarrow> None
     | c # r \<Rightarrow>
         if c = CHR 0x22 then map_option (apfst JStr) (parse_string r)
         else if c = CHR ''[''
         then (let r1 = skip_space r
               in if r1 \<noteq> [] \<and> hd r1 = CHR '']'' then Some (JList [], tl r1)
                  else map_option (apfst JList) (strict_items n r1))
         else if c = CHR ''{''
         then (let r1 = skip_space r
               in if r1 \<noteq> [] \<and> hd r1 = CHR ''}'' then Some (JObj [], tl r1)
                  else (case strict_members n r1 of
                      None \<Rightarrow> None
                    | Some (kvs, rest) \<Rightarrow> if distinct (map fst kvs) then Some (JObj kvs, rest) else None))
         else parse_word s)"
| "strict_items 0 s = None"
| "strict_items (Suc n) s =
    (case strict_value n s of
       None \<Rightarrow> None
     | Some (v, r) \<Rightarrow>
         (case skip_space r of
            [] \<Rightarrow> None
          | c # r1 \<Rightarrow>
              if c = CHR '']'' then Some ([v], r1)
              else if c = CHR '','' then map_option (apfst (Cons v)) (strict_items n (skip_space r1))
              else None))"
| "strict_members 0 s = None"
| "strict_members (Suc n) s =
    (case s of
       [] \<Rightarrow> None
     | q # s1 \<Rightarrow>
         if q \<noteq> CHR 0x22 then None
         else (case parse_string s1 of
             None \<Rightarrow> None
           | Some (k, s2) \<Rightarrow>
               (case skip_space s2 of
                  [] \<Rightarrow> None
                | c # s3 \<Rightarrow>
                    if c \<noteq> CHR '':'' then None
                    else (case strict_value n (skip_space s3) of
                        None \<Rightarrow> None
                      | Some (v, r) \<Rightarrow>
                          (case skip_space r of
                             [] \<Rightarrow> None
                           | d # r1 \<Rightarrow>
                               if d = CHR ''}'' then Some ([(k, v)], r1)
                               else if d = CHR '','' then map_option (apfst (Cons (k, v))) (strict_members n (skip_space r1))
                               else None)))))"

definition strict_loads :: "string \<Rightarrow> json option" where
  "strict_loads s =
    (case strict_value (2 * length s + 2) (skip_space s) of
       Some (v, r) \<Rightarrow> if skip_space r = [] then Some v else None
     | None \<Rightarrow> None)"

text \<open>What the strict reader accepts, \<open>json.loads\<close> reads the same way, and no key is repeated in it.\<close>

lemma strict_reads:
  shows "strict_value n s = Some (v, r) \<Longrightarrow> parse_value n s = Some (v, r) \<and> keys_distinct v"
    and "strict_items n s = Some (vs, r) \<Longrightarrow> parse_items n s = Some (vs, r) \<and> list_all keys_distinct vs"
    and "strict_members n s = Some (kvs, r) \<Longrightarrow> parse_members n s = Some (kvs, r) \<and> list_all (\<lambda>kv. keys_distinct (snd kv)) kvs"
proof (induction n s and n s and n s arbitrary: v r and vs r and kvs r rule: strict_value_strict_items_strict_members.induct)
  case (2 n s)
  have word: "keys_distinct w" if "parse_word t = Some (w, rest)" for t w rest
    using that by (auto simp: parse_word_def parse_number_def Let_def split: if_split_asm option.split_asm prod.split_asm)
  show ?case using 2
    by (cases s) (auto simp: Let_def dict_of_distinct word split: if_split_asm option.split_asm)
next
  case (4 n s)
  then show ?case
    by (auto split: option.split_asm list.split_asm if_split_asm prod.split_asm)
next
  case (6 n s)
  then show ?case
    by (auto split: option.split_asm list.split_asm if_split_asm prod.split_asm)
qed simp_all

lemma strict_loads_sound: "strict_loads s = Some v \<Longrightarrow> json_loads s = Some v \<and> keys_distinct v"
  by (auto simp: strict_loads_def json_loads_def simp del: strict_value.simps parse_value.simps
      split: option.split_asm if_split_asm dest!: strict_reads(1))

section \<open>The answer of a worker\<close>

definition max_answer_bytes :: nat where
  "max_answer_bytes = 1000000"

definition action_fault :: "string \<Rightarrow> raised" where
  "action_fault message = plain_error ''ActionPlanError'' message"

record task_output =
  to_task :: string
  to_answer :: string

datatype worker_result = Task_output task_output | Other_result

record worker_output =
  wo_task :: string
  wo_sha256 :: string
  wo_bytes :: nat
  wo_excerpt :: string
  wo_truncated :: bool

definition worker_output_json :: "worker_output \<Rightarrow> json" where
  "worker_output_json out = JObj [(''task_id'', JStr (wo_task out)), (''answer_sha256'', JStr (wo_sha256 out)),
    (''answer_bytes'', JInt (int (wo_bytes out))), (''answer_excerpt'', JStr (wo_excerpt out)),
    (''excerpt_truncated'', JBool (wo_truncated out))]"

definition contains_environment_secret :: "string list \<Rightarrow> string \<Rightarrow> bool" where
  "contains_environment_secret secrets value \<longleftrightarrow> list_ex (\<lambda>secret. is_substring secret value) secrets"

definition normalize_worker_result :: "worker_result \<Rightarrow> string \<Rightarrow> raised + task_output" where
  "normalize_worker_result raw expected =
    (case raw of
       Other_result \<Rightarrow> Inl (action_fault ''Worker returned an unusable task result'')
     | Task_output out \<Rightarrow>
         if to_task out \<noteq> expected then Inl (action_fault ''Worker returned a mismatched task_id'') else Inr out)"

definition sanitized_output :: "string list \<Rightarrow> string \<Rightarrow> string \<Rightarrow> worker_output" where
  "sanitized_output secrets t answer =
    (let (excerpt, truncated) = sanitize_text secrets 8192 answer
     in \<lparr>wo_task = t, wo_sha256 = sha256_hex answer, wo_bytes = length answer, wo_excerpt = excerpt, wo_truncated = truncated\<rparr>)"

definition parse_action_plan :: "string list \<Rightarrow> task_output \<Rightarrow> raised + (action_plan \<times> worker_output)" where
  "parse_action_plan secrets out =
    (let answer = to_answer out
     in if answer = [] \<or> max_answer_bytes < length answer then Inl (action_fault ''Worker action response has an invalid size'')
        else if contains_environment_secret secrets answer then Inl (action_fault ''Worker action response contains protected data'')
        else (case strict_loads answer of
            None \<Rightarrow> Inl (action_fault ''Worker returned malformed action JSON'')
          | Some (JObj payload) \<Rightarrow>
              (case action_plan_of payload of
                 None \<Rightarrow> Inl (action_fault ''Worker returned an invalid action plan'')
               | Some plan \<Rightarrow> Inr (plan, sanitized_output secrets (to_task out) answer))
          | Some _ \<Rightarrow> Inl (action_fault ''Worker returned an unusable action plan'')))"

definition sanitized_unusable_output :: "string list \<Rightarrow> worker_result \<Rightarrow> string \<Rightarrow> worker_output option" where
  "sanitized_unusable_output secrets raw expected =
    (case raw of
       Other_result \<Rightarrow> None
     | Task_output out \<Rightarrow> Some (sanitized_output secrets (if to_task out = [] then expected else to_task out) (to_answer out)))"

section \<open>What an accepted answer guarantees\<close>

lemma parse_action_plan_Inr:
  assumes "parse_action_plan secrets out = Inr (plan, output)"
  shows "action_plan_ok plan" "to_answer out \<noteq> []" "length (to_answer out) \<le> max_answer_bytes"
    "\<not> contains_environment_secret secrets (to_answer out)"
    "\<exists>d. json_loads (to_answer out) = Some (JObj d) \<and> action_plan_of d = Some plan"
    "output = sanitized_output secrets (to_task out) (to_answer out)"
  using assms
  by (auto simp: parse_action_plan_def action_plan_of_def Let_def dest!: strict_loads_sound
      split: if_split_asm option.split_asm json.split_asm)

text \<open>The reader of documents inverts the writer.\<close>

lemma mutation_of_json: "mutation_of (mutation_json m) = Some m"
  by (cases "mu_kind m") (simp_all add: mutation_of_def mutation_json_def text_field_def exact_fields_def mutation_type_def)

lemma option_each_map: "(\<And>x. x \<in> set xs \<Longrightarrow> f (g x) = Some x) \<Longrightarrow> option_each f (map g xs) = Some xs"
  by (induction xs) simp_all

lemma action_plan_roundtrip:
  assumes "action_plan_ok p"
  shows "\<exists>d. action_plan_json p = JObj d \<and> action_plan_of d = Some p"
proof -
  have "option_each mutation_of (map mutation_json (ap_mutations p)) = Some (ap_mutations p)"
    by (rule option_each_map) (rule mutation_of_json)
  moreover have "option_each text_of (map JStr (ap_expected p)) = Some (ap_expected p)"
    by (rule option_each_map) (simp add: text_of_def)
  ultimately show ?thesis using assms
    by (cases p) (simp add: action_plan_json_def action_plan_of_def text_field_def list_field_def strings_json_def exact_fields_def
      Let_def)
qed

lemma mutation_path_plain:
  assumes "mutation_path_ok p"
  shows "''..'' \<notin> set (path_parts (pure_path (slashes p)))" "path_parts (pure_path (slashes p)) \<noteq> []" "\<not> startswith (slashes p) ''/''"
  using assms
  by (auto simp: mutation_path_ok_def accepts_def check_mutation_path_def Let_def list_ex_iff split: if_split_asm option.split_asm)

end
