(* ===== verification/Build_Disk.thy ===== *)
theory Build_Disk
  imports Build_Actions Build_Order
begin

text \<open>
  The disk of the build engine, the target authority (\<open>builder/authority.py\<close>) and the isolated workspace
  (\<open>builder/workspace.py\<close>).  A disk gives the node at a path of names from the root; there are no links,
  so the reparse checks never fire, and a resolved path is the lexical one.  What Git says of a
  directory (\<open>_git_context\<close>, \<open>dulwich\<close>) is a parameter.
\<close>

section \<open>Nodes\<close>

datatype node = File_node string | Dir_node

type_synonym disk = "(string list, node) dict"

definition is_dir_at :: "disk \<Rightarrow> string list \<Rightarrow> bool" where
  "is_dir_at d p \<longleftrightarrow> p = [] \<or> map_of d p = Some Dir_node"

definition is_file_at :: "disk \<Rightarrow> string list \<Rightarrow> bool" where
  "is_file_at d p \<longleftrightarrow> p \<noteq> [] \<and> (\<exists>c. map_of d p = Some (File_node c))"

lemma is_file_at_code [code]:
  "is_file_at d p \<longleftrightarrow> p \<noteq> [] \<and> (case map_of d p of Some (File_node c) \<Rightarrow> True | _ \<Rightarrow> False)"
  by (auto simp: is_file_at_def split: option.split node.split)

definition exists_at :: "disk \<Rightarrow> string list \<Rightarrow> bool" where
  "exists_at d p \<longleftrightarrow> p = [] \<or> map_of d p \<noteq> None"

definition below :: "string list \<Rightarrow> disk \<Rightarrow> disk" where
  "below base d = map (\<lambda>e. (drop (length base) (fst e), snd e)) (filter (\<lambda>e. strict_prefix base (fst e)) d)"

definition remove_below :: "string list \<Rightarrow> disk \<Rightarrow> disk" where
  "remove_below base d = filter (\<lambda>e. \<not> prefix base (fst e)) d"

text \<open>No path twice, and every node in a directory.\<close>

definition disk_ok :: "disk \<Rightarrow> bool" where
  "disk_ok d \<longleftrightarrow> distinct (map fst d) \<and> list_all (\<lambda>e. fst e \<noteq> [] \<and> is_dir_at d (butlast (fst e))) d"

definition is_within :: "string list \<Rightarrow> string list \<Rightarrow> bool" where
  "is_within path base \<longleftrightarrow> prefix base path"

definition paths_overlap :: "string list \<Rightarrow> string list \<Rightarrow> bool" where
  "paths_overlap first second \<longleftrightarrow> is_within first second \<or> is_within second first"

section \<open>The inventory of a directory\<close>

record file_record =
  bf_path :: string
  bf_directory :: bool
  bf_size :: nat
  bf_sha256 :: "string option"

definition file_record_json :: "file_record \<Rightarrow> json" where
  "file_record_json r = JObj [(''path'', JStr (bf_path r)), (''kind'', JStr (if bf_directory r then ''directory'' else ''file'')),
    (''size'', JInt (int (bf_size r))), (''sha256'', nullable JStr (bf_sha256 r))]"

definition file_record_of :: "string list \<times> node \<Rightarrow> file_record" where
  "file_record_of e =
    (case snd e of
       Dir_node \<Rightarrow> \<lparr>bf_path = join ''/'' (fst e), bf_directory = True, bf_size = 0, bf_sha256 = None\<rparr>
     | File_node c \<Rightarrow> \<lparr>bf_path = join ''/'' (fst e), bf_directory = False, bf_size = length c, bf_sha256 = Some (sha256_hex c)\<rparr>)"

definition file_key :: "file_record \<Rightarrow> (string \<times> string) \<times> string" where
  "file_key r = (id_key (bf_path r), if bf_directory r then ''directory'' else ''file'')"

text \<open>The walk leaves out the directory \<open>.git\<close> at the top, not a file of that name.\<close>

definition without_git :: "disk \<Rightarrow> disk" where
  "without_git t = (if map_of t [''.git''] = Some Dir_node then remove_below [''.git''] t else t)"

definition tree_records :: "disk \<Rightarrow> file_record list" where
  "tree_records t = sort_key file_key (map file_record_of (without_git t))"

definition capture_tree :: "disk \<Rightarrow> string list \<Rightarrow> file_record list \<times> string" where
  "capture_tree d base =
    (let records = tree_records (below base d)
     in (records, sha256_hex (canonical_json_bytes (JList (map file_record_json records)))))"

section \<open>The authority over a target\<close>

definition authority_fault :: "string \<Rightarrow> raised" where
  "authority_fault message = plain_error ''TargetAuthorityError'' message"

text \<open>The Git root, the status lines and the evidence of the inspection.\<close>

record git_context =
  gc_base :: "string option"
  gc_status :: "string list"
  gc_evidence :: "json list"

record target_baseline =
  tb_captured :: string
  tb_inventory :: "file_record list"
  tb_digest :: string
  tb_git :: git_context

record authority_record =
  au_build :: string
  au_execution :: string
  au_key :: string
  au_request_digest :: string
  au_requested :: string
  au_target :: "string list"
  au_allowed :: "string list"
  au_allowed_resolved :: "string list list"
  au_baseline :: target_baseline
  au_plan_hash :: string
  au_integrity :: string
  au_provider :: string
  au_time :: string
  au_workspace :: "string list"

record authority_resolver =
  ar_data :: "string list"
  ar_product :: "string list"
  ar_snapshot :: "string list"
  ar_references :: "string list list"
  ar_approved :: "string list list"

definition target_baseline_json :: "target_baseline \<Rightarrow> json" where
  "target_baseline_json b = JObj [(''captured_at'', JStr (tb_captured b)), (''inventory'', JList (map file_record_json (tb_inventory b))),
    (''tree_digest'', JStr (tb_digest b)), (''git_status'', strings_json (gc_status (tb_git b))),
    (''resolved_git_root'', nullable JStr (gc_base (tb_git b))), (''git_evidence'', JList (gc_evidence (tb_git b)))]"

definition authority_json :: "authority_record \<Rightarrow> json" where
  "authority_json a = JObj [(''build_id'', JStr (au_build a)), (''execution_id'', JStr (au_execution a)),
    (''idempotency_key'', JStr (au_key a)), (''request_digest'', JStr (au_request_digest a)),
    (''requested_target_root'', JStr (au_requested a)), (''resolved_target_root'', JStr (show_path (au_target a))),
    (''resolved_git_root'', nullable JStr (gc_base (tb_git (au_baseline a)))),
    (''allowed_write_paths'', strings_json (au_allowed a)),
    (''allowed_resolved_paths'', strings_json (map show_path (au_allowed_resolved a))),
    (''baseline_file_inventory'', JList (map file_record_json (tb_inventory (au_baseline a)))),
    (''baseline_tree_digest'', JStr (tb_digest (au_baseline a))),
    (''baseline_git_status'', strings_json (gc_status (tb_git (au_baseline a)))),
    (''baseline_git_evidence'', JList (gc_evidence (tb_git (au_baseline a)))),
    (''prepared_plan_hash'', JStr (au_plan_hash a)), (''prepared_integrity_root'', JStr (au_integrity a)),
    (''selected_provider'', JStr (au_provider a)), (''authority_timestamp'', JStr (au_time a)),
    (''isolated_workspace_path'', JStr (show_path (au_workspace a)))]"

definition reject_protected_overlap :: "authority_resolver \<Rightarrow> disk \<Rightarrow> string list \<Rightarrow> raised + unit" where
  "reject_protected_overlap ar d target =
    (let protected = [ar_data ar, ar_product ar, ar_snapshot ar] @ filter (exists_at d) (ar_references ar)
     in sbind (check_that (\<not> list_ex (paths_overlap target) protected)
          (authority_fault ''Target overlaps a protected repository or data root'')) (\<lambda>_.
          check_that (ar_approved ar = [] \<or> list_ex (is_within target) (ar_approved ar))
            (authority_fault ''Target is outside the approved authority roots'')))"

text \<open>The directory a relative path of a request names.\<close>

definition relative_target :: "string list \<Rightarrow> string \<Rightarrow> string list" where
  "relative_target base relative = foldl step_into base (filter (\<lambda>p. p \<noteq> [] \<and> p \<noteq> ''.'') (split_on (CHR ''/'') (slashes relative)))"

definition resolve_allowed :: "disk \<Rightarrow> string list \<Rightarrow> string \<Rightarrow> raised + string list" where
  "resolve_allowed d target supplied =
    (let candidate = relative_target target supplied
     in sbind (check_that (is_within candidate target) (authority_fault ''Allowed path escapes the target root'')) (\<lambda>_.
        sbind (check_that (is_dir_at d candidate) (authority_fault ''Allowed paths must resolve to real directories'')) (\<lambda>_.
          Inr candidate)))"

text \<open>\<open>absolute\<close> gives the directory that \<open>Path(...).expanduser().resolve()\<close> finds for the request.\<close>

definition resolve_authority ::
  "authority_resolver \<Rightarrow> (string \<Rightarrow> string list) \<Rightarrow> (string list \<Rightarrow> git_context) \<Rightarrow> string \<Rightarrow> disk \<Rightarrow>
    string \<Rightarrow> execution_request \<Rightarrow> string \<Rightarrow> string \<Rightarrow> string \<Rightarrow> string list \<Rightarrow> raised + authority_record" where
  "resolve_authority ar absolute git now d build r plan_hash integrity provider workspace =
    (let target = absolute (er_target r)
     in sbind (check_that (exists_at d target) (authority_fault ''Target root does not exist'')) (\<lambda>_.
        sbind (check_that (is_dir_at d target) (authority_fault ''Target root must resolve to a real directory'')) (\<lambda>_.
        sbind (reject_protected_overlap ar d target) (\<lambda>_.
        sbind (smap (resolve_allowed d target) (er_allowed r)) (\<lambda>allowed.
          (let (inventory, digest) = capture_tree d target;
               baseline = \<lparr>tb_captured = now, tb_inventory = inventory, tb_digest = digest, tb_git = git target\<rparr>;
               payload = [(''build_id'', JStr build)] @ execution_request_json r @ [(''prepared_integrity_root'', JStr integrity)]
           in Inr \<lparr>au_build = build, au_execution = er_execution r, au_key = er_key r,
                au_request_digest = sha256_hex (canonical_json_bytes (JObj payload)), au_requested = er_target r, au_target = target,
                au_allowed = er_allowed r, au_allowed_resolved = allowed, au_baseline = baseline, au_plan_hash = plan_hash,
                au_integrity = integrity, au_provider = provider, au_time = now, au_workspace = workspace\<rparr>))))))"

definition target_matches_baseline :: "(string list \<Rightarrow> git_context) \<Rightarrow> disk \<Rightarrow> string list \<Rightarrow> target_baseline \<Rightarrow> bool" where
  "target_matches_baseline git d target b \<longleftrightarrow>
    (let (inventory, digest) = capture_tree d target
     in digest = tb_digest b \<and> inventory = tb_inventory b \<and> git target = tb_git b)"

section \<open>The isolated workspace\<close>

definition workspace_fault :: "string \<Rightarrow> raised" where
  "workspace_fault message = plain_error ''WorkspaceError'' message"

record workspace_record =
  wr_created :: string
  wr_source :: "string list"
  wr_destination :: "string list"
  wr_baseline :: string
  wr_digest :: string

definition workspace_json :: "workspace_record \<Rightarrow> json" where
  "workspace_json w = JObj [(''created_at'', JStr (wr_created w)), (''source_root'', JStr (show_path (wr_source w))),
    (''workspace_root'', JStr (show_path (wr_destination w))), (''baseline_tree_digest'', JStr (wr_baseline w)),
    (''workspace_tree_digest'', JStr (wr_digest w)), (''baseline_verified'', JBool True), (''excluded_paths'', strings_json [''.git''])]"

text \<open>
  The copy leaves out any entry \<open>.git\<close> at the top.  \<open>copytree\<close> makes the missing parents of the
  destination.
\<close>

definition missing_parents :: "disk \<Rightarrow> string list \<Rightarrow> disk" where
  "missing_parents d p = map (\<lambda>k. (take k p, Dir_node)) (filter (\<lambda>k. map_of d (take k p) = None) [1..<length p])"

definition copied :: "disk \<Rightarrow> disk" where
  "copied t = remove_below [''.git''] t"

definition copy_tree :: "disk \<Rightarrow> string list \<Rightarrow> string list \<Rightarrow> disk" where
  "copy_tree d source destination =
    d @ missing_parents d destination @ [(destination, Dir_node)] @
    map (\<lambda>e. (destination @ fst e, snd e)) (copied (below source d))"

definition create_workspace ::
  "string \<Rightarrow> disk \<Rightarrow> string list \<Rightarrow> string list \<Rightarrow> target_baseline \<Rightarrow> (raised + workspace_record) \<times> disk" where
  "create_workspace now d source destination b =
    (if exists_at d destination then (Inl (workspace_fault ''Execution workspace already exists''), d)
     else (let made = copy_tree d source destination; (inventory, digest) = capture_tree made destination
           in if inventory \<noteq> tb_inventory b \<or> digest \<noteq> tb_digest b
              then (Inl (workspace_fault ''Execution workspace baseline does not match''), remove_below destination made)
              else (Inr \<lparr>wr_created = now, wr_source = source, wr_destination = destination, wr_baseline = tb_digest b,
                wr_digest = digest\<rparr>, made)))"

definition cleanup_workspace :: "disk \<Rightarrow> string list \<Rightarrow> disk" where
  "cleanup_workspace d destination = remove_below destination d"

section \<open>The workspace is the target without Git\<close>

lemma disk_parent: "disk_ok d \<Longrightarrow> map_of d p \<noteq> None \<Longrightarrow> p \<noteq> [] \<and> is_dir_at d (butlast p)"
  by (auto simp: disk_ok_def list_all_iff dest!: map_of_SomeD)

lemma below_missing:
  assumes "disk_ok d" "p \<noteq> []" "map_of d p \<noteq> Some Dir_node"
  shows "strict_prefix p q \<Longrightarrow> map_of d q = None"
proof (induction "length q" arbitrary: q rule: less_induct)
  case less
  show ?case
  proof (rule ccontr)
    assume q: "map_of d q \<noteq> None"
    then have dir: "q \<noteq> []" "is_dir_at d (butlast q)" using disk_parent [OF assms(1)] by blast+
    have pre: "prefix p (butlast q)"
      using less.prems dir(1) by (metis append_butlast_last_id prefix_snoc strict_prefix_def)
    have at: "map_of d (butlast q) = Some Dir_node" using dir(2) pre assms(2) by (auto simp: is_dir_at_def)
    then have "butlast q \<noteq> p" using assms(3) by auto
    then have "strict_prefix p (butlast q)" using pre by (simp add: strict_prefix_def)
    moreover have "length (butlast q) < length q" using dir(1) by simp
    ultimately have "map_of d (butlast q) = None" using less.hyps by blast
    then show False using at by simp
  qed
qed

lemma nothing_below:
  assumes "disk_ok d" "p \<noteq> []" "map_of d p \<noteq> Some Dir_node" "e \<in> set d"
  shows "\<not> strict_prefix p (fst e)"
proof
  assume "strict_prefix p (fst e)"
  then have "map_of d (fst e) = None" by (rule below_missing [OF assms(1-3)])
  then show False using assms(4) by (simp add: map_of_eq_None_iff)
qed

lemma take_strict: "k < length p \<Longrightarrow> \<not> strict_prefix p (take k p)"
  by (meson prefix_order.less_asym prefix_order.less_le_trans take_is_prefix prefix_order.less_irrefl)

lemma below_copy:
  assumes "disk_ok d" "\<not> exists_at d destination"
  shows "below destination (copy_tree d source destination) = copied (below source d)"
proof -
  have dest: "destination \<noteq> []" "map_of d destination = None" using assms(2) by (auto simp: exists_at_def)
  have old: "filter (\<lambda>e. strict_prefix destination (fst e)) d = []"
    using nothing_below [OF assms(1) dest(1)] dest(2) by (simp add: filter_empty_conv)
  have parents: "filter (\<lambda>e. strict_prefix destination (fst e)) (missing_parents d destination) = []"
    by (auto simp: missing_parents_def filter_empty_conv take_strict)
  have nonempty: "fst e \<noteq> []" if "e \<in> set (copied (below source d))" for e
    using that by (auto simp: copied_def remove_below_def below_def strict_prefix_def prefix_def)
  let ?new = "map (\<lambda>e. (destination @ fst e, snd e)) (copied (below source d))"
  have "filter (\<lambda>e. strict_prefix destination (fst e)) ?new = ?new"
    using nonempty by (auto simp: filter_id_conv strict_prefix_def)
  then show ?thesis unfolding below_def copy_tree_def filter_append old parents by (simp add: comp_def)
qed

lemma below_lookup: "map_of (below base d) q = (if q = [] then None else map_of d (base @ q))"
  unfolding below_def
proof (induction d)
  case (Cons e d)
  show ?case
  proof (cases "fst e = base @ q")
    case True
    then show ?thesis using Cons by (cases "q = []") (simp_all add: strict_prefix_def)
  next
    case False
    then have "drop (length base) (fst e) \<noteq> q" if "prefix base (fst e)" using that by (auto simp: prefix_def)
    then show ?thesis using Cons False by (auto simp: strict_prefix_def)
  qed
qed simp

lemma below_ok:
  assumes "disk_ok d" "is_dir_at d base"
  shows "disk_ok (below base d)"
proof -
  note lookup = below_lookup [of base d]
  have "inj_on (drop (length base)) (fst ` set (filter (\<lambda>e. strict_prefix base (fst e)) d))"
    by (auto simp: inj_on_def strict_prefix_def prefix_def)
  moreover have "distinct (map fst (filter (\<lambda>e. strict_prefix base (fst e)) d))"
    using assms(1) by (simp add: disk_ok_def distinct_map_filter)
  ultimately have "distinct (map (drop (length base)) (map fst (filter (\<lambda>e. strict_prefix base (fst e)) d)))"
    by (simp only: distinct_map [where f = "drop (length base)"] set_map)
  then have "distinct (map fst (below base d))" by (simp add: below_def comp_def)
  moreover have "fst e \<noteq> [] \<and> is_dir_at (below base d) (butlast (fst e))" if e: "e \<in> set (below base d)" for e
  proof -
    from e obtain x where x: "x \<in> set d" "strict_prefix base (fst x)" "fst e = drop (length base) (fst x)"
      by (auto simp: below_def)
    then obtain r where r: "fst x = base @ r" "r \<noteq> []" by (auto simp: strict_prefix_def prefix_def)
    have "is_dir_at d (butlast (base @ r))" using assms(1) x(1) r(1) by (auto simp: disk_ok_def list_all_iff)
    then have "is_dir_at (below base d) (butlast r)"
      using r(2) assms(2) by (auto simp: is_dir_at_def lookup butlast_append)
    then show ?thesis using x(3) r by simp
  qed
  ultimately show ?thesis by (simp add: disk_ok_def list_all_iff)
qed

text \<open>Copy and inventory leave out the same, except for a file called \<open>.git\<close>.\<close>

lemma copied_without_git:
  assumes "disk_ok t" "\<not> is_file_at t [''.git'']"
  shows "without_git t = copied t" and "without_git (copied t) = copied t"
proof -
  have "remove_below [''.git''] t = t" if "map_of t [''.git''] \<noteq> Some Dir_node"
  proof -
    have none: "map_of t [''.git''] = None"
      using assms(2) that by (cases "map_of t [''.git'']") (auto simp: is_file_at_def intro: node.exhaust)
    have "\<not> prefix [''.git''] (fst e)" if "e \<in> set t" for e
      using nothing_below [OF assms(1) _ _ that, of "[''.git'']"] none that
      by (auto simp: strict_prefix_def map_of_eq_None_iff)
    then show ?thesis by (simp add: remove_below_def filter_id_conv)
  qed
  then show "without_git t = copied t" by (auto simp: without_git_def copied_def)
  have "map_of (copied t) [''.git''] = None" by (auto simp: copied_def remove_below_def map_of_eq_None_iff)
  then show "without_git (copied t) = copied t" by (simp add: without_git_def)
qed

lemma git_file_differs:
  assumes "is_file_at t [''.git'']"
  shows "tree_records (copied t) \<noteq> tree_records t"
proof -
  from assms obtain c where "map_of t [''.git''] = Some (File_node c)" by (auto simp: is_file_at_def)
  then have at: "([''.git''], File_node c) \<in> set t" "without_git t = t"
    by (auto simp: without_git_def dest: map_of_SomeD)
  have "without_git (copied t) = copied t"
    by (auto simp: without_git_def copied_def remove_below_def map_of_eq_None_iff)
  moreover have "length (copied t) < length t"
    unfolding copied_def remove_below_def using at(1) by (intro length_filter_less [where x = "([''.git''], File_node c)"]) simp_all
  ultimately have "length (tree_records (copied t)) < length (tree_records t)" using at(2) by (simp add: tree_records_def)
  then show ?thesis by auto
qed

lemma capture_copied:
  assumes "disk_ok d" "is_dir_at d source" "\<not> exists_at d destination" "capture_tree d source = (tb_inventory b, tb_digest b)"
  shows "capture_tree (copy_tree d source destination) destination = (tb_inventory b, tb_digest b)
      \<longleftrightarrow> \<not> is_file_at d (source @ [''.git''])"
proof -
  let ?t = "below source d"
  have git: "is_file_at ?t [''.git''] \<longleftrightarrow> is_file_at d (source @ [''.git''])"
    by (simp add: is_file_at_def below_lookup)
  show ?thesis
  proof (cases "is_file_at ?t [''.git'']")
    case True
    then show ?thesis using git_file_differs [OF True] assms(4) git
      by (auto simp: capture_tree_def Let_def below_copy [OF assms(1,3)])
  next
    case False
    then have "tree_records (copied ?t) = tree_records ?t"
      using copied_without_git [OF below_ok [OF assms(1,2)]] by (simp add: tree_records_def)
    then show ?thesis using False assms(4) git by (auto simp: capture_tree_def Let_def below_copy [OF assms(1,3)])
  qed
qed

lemma create_workspace_outcome:
  assumes "disk_ok d" "is_dir_at d source" "\<not> exists_at d destination" "capture_tree d source = (tb_inventory b, tb_digest b)"
  shows "create_workspace now d source destination b =
    (if is_file_at d (source @ [''.git''])
     then (Inl (workspace_fault ''Execution workspace baseline does not match''),
           remove_below destination (copy_tree d source destination))
     else (Inr \<lparr>wr_created = now, wr_source = source, wr_destination = destination, wr_baseline = tb_digest b,
             wr_digest = tb_digest b\<rparr>, copy_tree d source destination))"
proof -
  obtain inv dig where cap: "capture_tree (copy_tree d source destination) destination = (inv, dig)" by (rule prod.exhaust)
  then show ?thesis using capture_copied [OF assms] assms(3) by (auto simp: create_workspace_def Let_def)
qed

end
