(* ===== verification/Build_Tools.thy ===== *)
theory Build_Tools
  imports Build_Disk
begin

text \<open>
  Mutations in the isolated workspace (\<open>builder/tool_runtime.py\<close>, with the action and change records of
  \<open>schemas/execution.py\<close>).  A plan changes nothing outside the allowed directories, and a plan that
  succeeds has changed exactly the paths it announced.
\<close>

section \<open>Records\<close>

record action_record =
  xa_id :: string
  xa_type :: string
  xa_status :: string
  xa_start :: string
  xa_end :: "string option"
  xa_path :: string
  xa_bytes :: "nat option"
  xa_sha256 :: "string option"
  xa_message :: "string option"

definition action_record_json :: "action_record \<Rightarrow> json" where
  "action_record_json a = JObj [(''action_id'', JStr (xa_id a)), (''type'', JStr (xa_type a)), (''status'', JStr (xa_status a)),
    (''start_timestamp'', JStr (xa_start a)), (''end_timestamp'', nullable JStr (xa_end a)), (''path'', JStr (xa_path a)),
    (''byte_count'', nullable (\<lambda>n. JInt (int n)) (xa_bytes a)), (''content_sha256'', nullable JStr (xa_sha256 a)),
    (''message'', nullable JStr (xa_message a))]"

record change_record =
  xc_path :: string
  xc_change :: string
  xc_before :: "string option"
  xc_after :: "string option"

definition change_record_json :: "change_record \<Rightarrow> json" where
  "change_record_json c = JObj [(''path'', JStr (xc_path c)), (''change'', JStr (xc_change c)),
    (''sha256_before'', nullable JStr (xc_before c)), (''sha256_after'', nullable JStr (xc_after c))]"

record tool_error =
  te_message :: string
  te_actions :: "action_record list"
  te_changes :: "change_record list"

section \<open>Snapshots\<close>

definition control_names :: "string list" where
  "control_names = [''.audisor'', ''.git'', ''authority.json'', ''baseline.json'', ''evidence'', ''idempotency'', ''request.json'',
    ''results'', ''state.json'', ''terminal-manifest.json'', ''workspace.json'']"

type_synonym tree_state = "(string, string \<times> string option) dict"

definition snapshot_node :: "node \<Rightarrow> string \<times> string option" where
  "snapshot_node n = (case n of Dir_node \<Rightarrow> (''directory'', None) | File_node c \<Rightarrow> (''file'', Some (sha256_hex c)))"

definition tree_snapshot :: "disk \<Rightarrow> string list \<Rightarrow> tree_state" where
  "tree_snapshot d base = map (\<lambda>e. (join ''/'' (fst e), snapshot_node (snd e))) (below base d)"

definition file_digest :: "(string \<times> string option) option \<Rightarrow> string option" where
  "file_digest e = (case e of Some (k, h) \<Rightarrow> if k = ''file'' then h else None | None \<Rightarrow> None)"

definition change_at :: "tree_state \<Rightarrow> tree_state \<Rightarrow> string \<Rightarrow> change_record list" where
  "change_at before after path =
    (let old = map_of before path; new = map_of after path
     in if old = new then []
        else [\<lparr>xc_path = path, xc_change = (if old = None then ''created'' else if new = None then ''deleted'' else ''modified''),
               xc_before = file_digest old, xc_after = file_digest new\<rparr>])"

definition changes_between :: "tree_state \<Rightarrow> tree_state \<Rightarrow> change_record list" where
  "changes_between before after =
    for_each (sort_key id_key (remdups (map fst before @ map fst after))) (change_at before after)"

section \<open>The runtime\<close>

definition tool_fault :: "string \<Rightarrow> raised" where
  "tool_fault message = plain_error ''ToolRuntimeError'' message"

record tool_runtime =
  rt_workspace :: "string list"
  rt_allowed :: "string list list"

definition new_runtime :: "disk \<Rightarrow> string list \<Rightarrow> string list \<Rightarrow> raised + tool_runtime" where
  "new_runtime d workspace allowed =
    (let paths = map (relative_target workspace) allowed
     in sbind (check_that (exists_at d workspace) (plain_error ''FileNotFoundError'' (show_path workspace))) (\<lambda>_.
        sbind (check_that (paths \<noteq> [] \<and> list_all (\<lambda>p. is_within p workspace) paths)
          (tool_fault ''Allowed workspace roots are invalid'')) (\<lambda>_.
          Inr \<lparr>rt_workspace = workspace, rt_allowed = paths\<rparr>)))"

definition resolve_mutation :: "tool_runtime \<Rightarrow> disk \<Rightarrow> bool \<Rightarrow> string \<Rightarrow> string + string list" where
  "resolve_mutation rt d must_exist relative =
    (let resolved = relative_target (rt_workspace rt) relative
     in if list_ex (\<lambda>p. lower p \<in> set control_names) (split_on (CHR ''/'') (slashes relative))
        then Inl ''A mutation targeted execution metadata''
        else if \<not> is_within resolved (rt_workspace rt) then Inl ''A mutation escaped the isolated workspace''
        else if \<not> list_ex (is_within resolved) (rt_allowed rt) then Inl ''A mutation exceeded allowed workspace roots''
        else if must_exist \<and> \<not> exists_at d resolved then Inl ''A mutation target does not exist''
        else Inr resolved)"

definition verify_expected_outputs :: "tool_runtime \<Rightarrow> disk \<Rightarrow> string list \<Rightarrow> raised + unit" where
  "verify_expected_outputs rt d paths =
    sbind (smap (\<lambda>p. case resolve_mutation rt d True p of Inl e \<Rightarrow> Inl (tool_fault e) | Inr q \<Rightarrow> Inr q) paths) (\<lambda>_. Inr ())"

text \<open>The text of an \<open>OSError\<close>.\<close>

definition os_error :: "nat \<Rightarrow> string \<Rightarrow> string list \<Rightarrow> string" where
  "os_error n message p = ''[Errno '' @ str_of_nat n @ ''] '' @ message @ '': '' @ py_repr_str (show_path p)"

definition put_node :: "string list \<Rightarrow> node \<Rightarrow> disk \<Rightarrow> disk" where
  "put_node p n d = AList.update p n d"

text \<open>The node operations: the new disk with the length and the hash of what was written.\<close>

definition apply_mutation :: "mutation_kind \<Rightarrow> string list \<Rightarrow> disk \<Rightarrow> string + (disk \<times> nat option \<times> string option)" where
  "apply_mutation k p d =
    (case k of
       Write_file content \<Rightarrow>
         if \<not> is_dir_at d (butlast p) then Inl ''write_file parent directory does not exist''
         else if is_dir_at d p then Inl (os_error 21 ''Is a directory'' p)
         else Inr (put_node p (File_node content) d, Some (length content), Some (sha256_hex content))
     | Create_directory \<Rightarrow>
         if exists_at d p then Inl (os_error 17 ''File exists'' p)
         else if list_ex (\<lambda>n. is_file_at d (take n p)) [1..<length p] then Inl (os_error 20 ''Not a directory'' p)
         else if \<not> is_dir_at d (butlast p) then Inl (os_error 2 ''No such file or directory'' p)
         else Inr (put_node p Dir_node d, None, None)
     | Delete_file \<Rightarrow>
         if \<not> is_file_at d p then Inl ''delete_file target is not a file''
         else Inr (AList.delete p d, None, None))"

definition running_action :: "string \<Rightarrow> mutation \<Rightarrow> action_record" where
  "running_action start m =
    \<lparr>xa_id = mu_id m, xa_type = mutation_type (mu_kind m), xa_status = ''running'', xa_start = start, xa_end = None,
     xa_path = mu_path m, xa_bytes = None, xa_sha256 = None, xa_message = None\<rparr>"

definition run_mutation :: "tool_runtime \<Rightarrow> disk \<Rightarrow> mutation \<Rightarrow> string + (disk \<times> nat option \<times> string option)" where
  "run_mutation rt d m =
    sbind (resolve_mutation rt d (mu_kind m = Delete_file) (mu_path m)) (\<lambda>p. apply_mutation (mu_kind m) p d)"

text \<open>
  The loop over the mutations: the disk, what \<open>progress\<close> was called with, the actions and the message of
  the failure.  \<open>clock\<close> gives the readings of the time in order.
\<close>

fun run_mutations ::
  "tool_runtime \<Rightarrow> string list \<Rightarrow> (nat \<Rightarrow> string) \<Rightarrow> nat \<Rightarrow> mutation list \<Rightarrow> action_record list \<Rightarrow> disk \<Rightarrow>
    disk \<times> action_record list list \<times> action_record list \<times> string option" where
  "run_mutations rt secrets clock k [] actions d = (d, [], actions, None)"
| "run_mutations rt secrets clock k (m # ms) actions d =
    (let start = running_action (clock k) m
     in case run_mutation rt d m of
          Inl e \<Rightarrow>
            (let message = fst (sanitize_text secrets 1000 e);
                 failed = actions @ [start\<lparr>xa_status := ''failed'', xa_end := Some (clock (Suc k)), xa_message := Some message\<rparr>]
             in (d, [actions @ [start], failed], failed, Some message))
        | Inr (d', bytes, hash) \<Rightarrow>
            (let finished = actions @ [start\<lparr>xa_status := ''completed'', xa_end := Some (clock (Suc k)),
                   xa_bytes := bytes, xa_sha256 := hash\<rparr>];
                 (d'', trace, final, failure) = run_mutations rt secrets clock (k + 2) ms finished d'
             in (d'', [actions @ [start], finished] @ trace, final, failure)))"

definition execute_plan_on ::
  "tool_runtime \<Rightarrow> string list \<Rightarrow> (nat \<Rightarrow> string) \<Rightarrow> action_plan \<Rightarrow> disk \<Rightarrow>
    disk \<times> action_record list list \<times> (tool_error + (action_record list \<times> change_record list))" where
  "execute_plan_on rt secrets clock plan d =
    (let (d', trace, actions, failure) = run_mutations rt secrets clock 0 (ap_mutations plan) [] d;
         changes = changes_between (tree_snapshot d (rt_workspace rt)) (tree_snapshot d' (rt_workspace rt))
     in (d', trace,
         case failure of
           Some message \<Rightarrow> Inl \<lparr>te_message = message, te_actions = actions, te_changes = changes\<rparr>
         | None \<Rightarrow>
             if set (map path_key (ap_expected plan)) \<noteq> set (map (\<lambda>c. lower (xc_path c)) changes)
             then Inl \<lparr>te_message = ''Actual changed paths do not match expected_changed_paths'', te_actions = actions, te_changes = changes\<rparr>
             else Inr (actions, changes)))"

section \<open>Confinement\<close>

text \<open>The paths a runtime may touch.\<close>

definition reachable_path :: "tool_runtime \<Rightarrow> string list \<Rightarrow> bool" where
  "reachable_path rt p \<longleftrightarrow> prefix (rt_workspace rt) p \<and> (\<exists>a \<in> set (rt_allowed rt). prefix a p) \<and>
    (\<forall>n \<in> set (drop (length (rt_workspace rt)) p). lower n \<notin> set control_names)"

lemma step_drop: "set (drop n (step_into p x)) \<subseteq> set (drop n p) \<union> {x}"
  using set_drop_subset [of "n - length p" "[x]"] by (auto simp: step_into_def drop_butlast dest: in_set_butlastD)

lemma foldl_step_drop: "set (drop n (foldl step_into base parts)) \<subseteq> set (drop n base) \<union> set parts"
proof (induction parts arbitrary: base)
  case (Cons x parts)
  then show ?case using step_drop [of n base x] Cons [of "step_into base x"] by auto
qed simp

lemma resolve_mutation_Inr:
  assumes "resolve_mutation rt d e relative = Inr p"
  shows "reachable_path rt p"
proof -
  have p: "p = relative_target (rt_workspace rt) relative" "is_within p (rt_workspace rt)"
    "list_ex (is_within p) (rt_allowed rt)"
    and free: "\<not> list_ex (\<lambda>p. lower p \<in> set control_names) (split_on (CHR ''/'') (slashes relative))"
    using assms by (auto simp: resolve_mutation_def Let_def split: if_split_asm)
  have "set (drop (length (rt_workspace rt)) p) \<subseteq> set (split_on (CHR ''/'') (slashes relative))"
    using foldl_step_drop [of "length (rt_workspace rt)" "rt_workspace rt"
        "filter (\<lambda>p. p \<noteq> [] \<and> p \<noteq> ''.'') (split_on (CHR ''/'') (slashes relative))"]
    unfolding p(1) relative_target_def by auto
  then have "\<forall>n \<in> set (drop (length (rt_workspace rt)) p). lower n \<notin> set control_names"
    using free unfolding list_ex_iff by blast
  then show ?thesis using p(2,3) by (auto simp: reachable_path_def is_within_def list_ex_iff)
qed

lemma apply_mutation_other:
  "apply_mutation k p d = Inr (d', b, h) \<Longrightarrow> q \<noteq> p \<Longrightarrow> map_of d' q = map_of d q"
  by (cases k) (auto simp: apply_mutation_def put_node_def map_of_update delete_conv split: if_split_asm)

lemma run_mutation_other:
  assumes "run_mutation rt d m = Inr (d', b, h)" "map_of d' q \<noteq> map_of d q"
  shows "reachable_path rt q"
proof -
  from assms(1) obtain p where "resolve_mutation rt d (mu_kind m = Delete_file) (mu_path m) = Inr p"
    "apply_mutation (mu_kind m) p d = Inr (d', b, h)" by (auto simp: run_mutation_def sbind_eq_Inr)
  then show ?thesis using assms(2) apply_mutation_other resolve_mutation_Inr by metis
qed

lemma run_mutations_confined:
  "run_mutations rt secrets clock k ms actions d = (d', trace, final, failure) \<Longrightarrow> map_of d' q \<noteq> map_of d q \<Longrightarrow> reachable_path rt q"
proof (induction ms arbitrary: k actions d trace)
  case (Cons m ms)
  show ?case
  proof (cases "run_mutation rt d m")
    case (Inl e)
    then show ?thesis using Cons.prems by (simp add: Let_def)
  next
    case (Inr r)
    then obtain d1 b h where r: "run_mutation rt d m = Inr (d1, b, h)" by (cases r) auto
    then show ?thesis
      using Cons.prems Cons.IH run_mutation_other [OF r]
      by (cases "map_of d1 q = map_of d q") (auto simp: Let_def split: prod.split_asm)
  qed
qed simp

section \<open>The state of the disk\<close>

lemma put_dir_ok:
  assumes "disk_ok d" "p \<noteq> []" "is_dir_at d (butlast p)" "\<not> is_dir_at d p"
  shows "disk_ok (put_node p n d)"
proof -
  have dir: "is_dir_at (put_node p n d) q" if "is_dir_at d q" for q
    using that assms(4) by (auto simp: is_dir_at_def put_node_def map_of_update)
  have "distinct (map fst (put_node p n d))" using assms(1) by (simp add: put_node_def disk_ok_def distinct_update)
  moreover have "fst e \<noteq> [] \<and> is_dir_at (put_node p n d) (butlast (fst e))" if "e \<in> set (put_node p n d)" for e
  proof -
    have "fst e \<in> fst ` set (put_node p n d)" using that by (rule imageI)
    then have "fst e = p \<or> fst e \<in> fst ` set d" by (auto simp: put_node_def dom_update)
    then show ?thesis using assms(1,2,3) dir by (auto simp: disk_ok_def list_all_iff)
  qed
  ultimately show ?thesis by (simp add: disk_ok_def list_all_iff)
qed

lemma delete_file_ok:
  assumes "disk_ok d" "is_file_at d p"
  shows "disk_ok (AList.delete p d)"
proof -
  have "is_dir_at (AList.delete p d) q" if "is_dir_at d q" for q
    using that assms(2) by (auto simp: is_dir_at_def is_file_at_def delete_conv)
  then show ?thesis using assms(1)
    by (auto simp: disk_ok_def list_all_iff AList.delete_eq intro: distinct_map_filter)
qed

lemma run_mutation_ok:
  assumes "disk_ok d" "run_mutation rt d m = Inr (d', b, h)"
  shows "disk_ok d'"
  using assms
  by (auto simp: run_mutation_def sbind_eq_Inr apply_mutation_def exists_at_def is_dir_at_def [of d "[]"]
      intro!: put_dir_ok delete_file_ok split: if_split_asm mutation_kind.split_asm) (simp_all add: is_dir_at_def)

lemma run_mutations_ok:
  "disk_ok d \<Longrightarrow> run_mutations rt secrets clock k ms actions d = (d', trace, final, failure) \<Longrightarrow> disk_ok d'"
proof (induction ms arbitrary: k actions d trace)
  case (Cons m ms)
  show ?case
  proof (cases "run_mutation rt d m")
    case (Inl e)
    then show ?thesis using Cons.prems by (simp add: Let_def)
  next
    case (Inr r)
    then obtain d1 b h where r: "run_mutation rt d m = Inr (d1, b, h)" by (cases r) auto
    then show ?thesis using Cons.prems(2) Cons.IH [OF run_mutation_ok [OF Cons.prems(1) r]]
      by (auto simp: Let_def split: prod.split_asm)
  qed
qed simp

section \<open>The changes\<close>

lemma change_paths_filter:
  "map xc_path (for_each ps (change_at before after)) = filter (\<lambda>p. map_of before p \<noteq> map_of after p) ps"
  by (induction ps) (auto simp: change_at_def Let_def)

lemma changed_paths: "xc_path ` set (changes_between before after) = {p. map_of before p \<noteq> map_of after p}"
proof -
  let ?ps = "sort_key id_key (remdups (map fst before @ map fst after))"
  have "p \<in> set ?ps" if "map_of before p \<noteq> map_of after p" for p
  proof (rule ccontr)
    assume "p \<notin> set ?ps"
    then have "map_of before p = None" "map_of after p = None" by (auto simp: map_of_eq_None_iff)
    then show False using that by simp
  qed
  moreover have "xc_path ` set (changes_between before after) = set (filter (\<lambda>p. map_of before p \<noteq> map_of after p) ?ps)"
    unfolding changes_between_def set_map [symmetric] change_paths_filter ..
  ultimately show ?thesis by auto
qed

lemma changes_sorted:
  "sorted (map id_key (map xc_path (changes_between before after)))" "distinct (map xc_path (changes_between before after))"
  unfolding changes_between_def change_paths_filter by (simp_all add: sorted_filter)

lemma execute_plan_Inr:
  assumes "execute_plan_on rt secrets clock plan d = (d', trace, Inr (actions, changes))"
  shows "changes = changes_between (tree_snapshot d (rt_workspace rt)) (tree_snapshot d' (rt_workspace rt))"
    "lower ` {p. map_of (tree_snapshot d (rt_workspace rt)) p \<noteq> map_of (tree_snapshot d' (rt_workspace rt)) p} = path_key ` set (ap_expected plan)"
proof -
  obtain d1 t1 a1 f1 where run: "run_mutations rt secrets clock 0 (ap_mutations plan) [] d = (d1, t1, a1, f1)"
    by (metis prod.exhaust)
  then have "f1 = None" and ends: "d1 = d'"
      "changes = changes_between (tree_snapshot d (rt_workspace rt)) (tree_snapshot d' (rt_workspace rt))"
      "path_key ` set (ap_expected plan) = (\<lambda>c. lower (xc_path c)) ` set changes"
    using assms by (auto simp: execute_plan_on_def Let_def split: option.split_asm if_split_asm)
  then show "changes = changes_between (tree_snapshot d (rt_workspace rt)) (tree_snapshot d' (rt_workspace rt))" by simp
  show "lower ` {p. map_of (tree_snapshot d (rt_workspace rt)) p \<noteq> map_of (tree_snapshot d' (rt_workspace rt)) p} = path_key ` set (ap_expected plan)"
    unfolding changed_paths [symmetric] ends(3) unfolding ends(2) image_image ..
qed

lemma execute_plan_disk:
  assumes "execute_plan_on rt secrets clock plan d = (d', trace, r)"
  obtains actions failure tr where "run_mutations rt secrets clock 0 (ap_mutations plan) [] d = (d', tr, actions, failure)"
  using assms by (cases "run_mutations rt secrets clock 0 (ap_mutations plan) [] d") (auto simp: execute_plan_on_def Let_def)

end
