(* ===== verification/Build_Properties.thy ===== *)
theory Build_Properties
  imports Build_Scheduler Build_Tools
begin

text \<open>
  The properties of the build engine: the order and the scheduling of the tasks, the answers of a worker, what it
  can change in the workspace, and the workspace itself.
\<close>

section \<open>Order and scheduling\<close>

lemma same_tasks:
  assumes "map tk_id xs = map tk_id ys" "mset xs = mset ys" "distinct (map tk_id xs)"
  shows "xs = ys"
proof (rule map_inj_on)
  have "set ys = set xs" using assms(2) by (metis set_mset_mset)
  then show "inj_on tk_id (set xs \<union> set ys)" using assms(3) by (simp add: distinct_map)
qed (fact assms(1))

lemma order_exact:
  "deterministic_topological_order tasks = Inr out \<longleftrightarrow>
    sound_graph tasks \<and> acyclic_graph tasks \<and>
    map tk_id out = greedy_order (length tasks) tasks [] \<and> mset out = image_mset with_sorted (mset tasks)"
proof (cases "sound_graph tasks \<and> acyclic_graph tasks")
  case True
  then have "distinct (map tk_id (for_each (task_order tasks) (sorted_task tasks)))"
    using order_out(1) task_order_topological [of tasks] by (simp add: topological_def)
  then show ?thesis
    using True order_of_Inr [of tasks out] order_out [of tasks] same_tasks [of "for_each (task_order tasks) (sorted_task tasks)" out]
    by (auto simp: task_order_def)
qed (auto simp: order_of_Inr)

text \<open>
  C19: The order of the tasks exists exactly for a sound graph without a cycle; it is the greedy order, which
  takes the least task (by folded id) whose dependencies are done, and it loses and invents no task: the
  result is the given tasks with their dependencies sorted.
\<close>

theorem task_order_exact:
  "deterministic_topological_order tasks = Inr out \<longleftrightarrow>
    sound_graph tasks \<and> acyclic_graph tasks \<and>
    map tk_id out = greedy_order (length tasks) tasks [] \<and> mset out = image_mset with_sorted (mset tasks)"
  by (rule order_exact)

lemma sound_graph_mset:
  assumes "mset tasks = mset others" "sound_graph tasks"
  shows "sound_graph others"
proof -
  have same: "set tasks = set others" "length tasks = length others"
    using assms(1) mset_eq_setD mset_eq_length by blast+
  have "mset (map (lower \<circ> tk_id) tasks) = mset (map (lower \<circ> tk_id) others)" using assms(1) by simp
  then have "distinct (map (lower \<circ> tk_id) others)"
    using assms(2) mset_eq_imp_distinct_iff unfolding sound_graph_def by blast
  then show ?thesis using assms(2) same unfolding sound_graph_def list_all_iff by (metis length_0_conv)
qed

lemma depends_of_mset: "mset tasks = mset others \<Longrightarrow> depends_of tasks i = depends_of others i"
  using mset_eq_setD [of tasks others] by (simp add: depends_of_def)

text \<open>
  The order is canonical: giving the same tasks in any other order yields the same result, and fails
  when the first one fails.
\<close>

lemma order_is_canonical:
  assumes "mset tasks = mset others"
  shows "deterministic_topological_order tasks = Inr out \<longleftrightarrow> deterministic_topological_order others = Inr out"
proof -
  have sound: "sound_graph tasks = sound_graph others" using assms sound_graph_mset by metis
  have acyclic: "acyclic_graph tasks = acyclic_graph others" using depends_of_mset [OF assms] by (simp add: acyclic_graph_def)
  have "greedy_order (length tasks) tasks [] = greedy_order (length others) others []" if "sound_graph tasks"
    using greedy_order_cong [of tasks others "length tasks" "[]"] sound_ids(1) [OF that] depends_of_mset [OF assms] assms
    by (metis mset_map size_mset)
  then show ?thesis unfolding order_exact using sound acyclic assms by auto
qed

definition sample_task :: "string \<Rightarrow> string list \<Rightarrow> build_task" where
  "sample_task i ds = \<lparr>tk_id = i, tk_title = ''Write '' @ i, tk_depends = ds, tk_prompt = ''Write the file.'',
    tk_outputs = [i @ ''.txt''], tk_validation = []\<rparr>"

lemma order_is_canonical_witness:
  "deterministic_topological_order [sample_task ''b'' [''a''], sample_task ''a'' []] = Inr [sample_task ''a'' [], sample_task ''b'' [''a'']] \<and>
   deterministic_topological_order [sample_task ''a'' [], sample_task ''b'' [''a'']] = Inr [sample_task ''a'' [], sample_task ''b'' [''a'']]"
proof -
  have "deterministic_topological_order [sample_task ''a'' [], sample_task ''b'' [''a'']] = Inr [sample_task ''a'' [], sample_task ''b'' [''a'']]"
    by code_simp
  then show ?thesis
    using order_is_canonical [of "[sample_task ''b'' [''a''], sample_task ''a'' []]" "[sample_task ''a'' [], sample_task ''b'' [''a'']]"
        "[sample_task ''a'' [], sample_task ''b'' [''a'']]"] by simp
qed

text \<open>
  C18: The run of a sound plan without a cycle ends after at most as many rounds as there are tasks, in a state
  that the scheduler accepts: a task is completed when it and everything it needs succeeded, failed when it
  failed itself, blocked when something it needs failed; the execution is completed exactly when all succeed.
\<close>

theorem scheduled_run_ends:
  assumes "sound_graph (bp_tasks plan)" "acyclic_graph (bp_tasks plan)"
  shows "\<exists>st. run_tasks (length (bp_tasks plan)) good plan (initial_state plan execution) = Inr st \<and>
    validate_state plan execution st = Inr () \<and>
    xe_tasks st = records (bp_tasks plan) (final_status (bp_tasks plan) good) \<and>
    terminal_status st = Inr (if \<forall>i \<in> tk_id ` set (bp_tasks plan). good i then Exec_completed else Exec_failed)"
  using run_result [OF assms] by metis

definition sample_plan :: build_plan where
  "sample_plan = \<lparr>bp_build = ''build-1'', bp_status = Ready_plan, bp_gaps = [],
    bp_tasks = [sample_task ''a'' [], sample_task ''b'' [''a''], sample_task ''c'' []]\<rparr>"

lemma sample_plan_sound: "sound_graph (bp_tasks sample_plan)" "acyclic_graph (bp_tasks sample_plan)"
proof -
  have "isl (deterministic_topological_order (bp_tasks sample_plan)) = False" by code_simp
  then obtain out where "deterministic_topological_order (bp_tasks sample_plan) = Inr out"
    by (cases "deterministic_topological_order (bp_tasks sample_plan)") auto
  then show "sound_graph (bp_tasks sample_plan)" "acyclic_graph (bp_tasks sample_plan)" by (auto simp: order_of_Inr)
qed

lemma sample_plan_tasks: "length (bp_tasks sample_plan) = 3" "tk_id ` set (bp_tasks sample_plan) = {''a'', ''b'', ''c''}"
  by (auto simp: sample_plan_def sample_task_def)

lemma scheduled_run_ends_witness:
  "\<exists>st. run_tasks 3 (\<lambda>i. i \<noteq> ''a'') sample_plan (initial_state sample_plan ''e-1'') = Inr st \<and>
    validate_state sample_plan ''e-1'' st = Inr () \<and> terminal_status st = Inr Exec_failed"
proof -
  have "\<not> (\<forall>i \<in> tk_id ` set (bp_tasks sample_plan). i \<noteq> ''a'')" by (simp add: sample_plan_tasks)
  then show ?thesis
    using scheduled_run_ends [OF sample_plan_sound, of "\<lambda>i. i \<noteq> ''a''" "''e-1''"] unfolding sample_plan_tasks(1) by auto
qed

text \<open>
  C29: Reconciling the state of a stopped process: the interrupted state is accepted exactly when some task had
  not ended and none had failed; otherwise the scheduler raises SchedulerError and the state stays running.
\<close>

theorem interrupted_state_accepted:
  assumes "sound_graph (bp_tasks plan)" "acyclic_graph (bp_tasks plan)" "live good plan execution f st"
  shows "validate_state plan execution (interrupt_running st) =
    (if (\<exists>i \<in> tk_id ` set (bp_tasks plan). f i \<in> {Task_pending, Task_ready, Task_running}) \<and>
        (\<forall>i \<in> tk_id ` set (bp_tasks plan). f i \<noteq> Task_failed)
     then Inr () else Inl (scheduler_fault ''Execution terminal status contradicts task state''))"
  by (rule interrupt_validates [OF assms])

definition sample_progress :: "string \<Rightarrow> task_status" where
  "sample_progress i = (if i = ''a'' then Task_failed else if i = ''b'' then Task_blocked else Task_ready)"

definition sample_state :: execution_state where
  "sample_state = \<lparr>xe_build = ''build-1'', xe_execution = ''e-1'', xe_status = Exec_running,
    xe_tasks = [\<lparr>ts_id = ''a'', ts_status = Task_failed\<rparr>, \<lparr>ts_id = ''b'', ts_status = Task_blocked\<rparr>,
      \<lparr>ts_id = ''c'', ts_status = Task_ready\<rparr>], xe_manifest = None\<rparr>"

lemma sample_state_live: "live (\<lambda>i. i \<noteq> ''a'') sample_plan ''e-1'' sample_progress sample_state"
  by (simp add: live_def coherent_def records_def depends_of_def sample_plan_def sample_task_def sample_state_def sample_progress_def)

lemma interrupted_state_accepted_witness:
  "validate_state sample_plan ''e-1'' (interrupt_running sample_state) =
    Inl (scheduler_fault ''Execution terminal status contradicts task state'')"
  using interrupted_state_accepted [OF sample_plan_sound sample_state_live]
  by (simp add: sample_plan_tasks sample_progress_def)

section \<open>Worker answers and the workspace\<close>

text \<open>
  C28: An answer of the worker is accepted only as one JSON object without a repeated key, within the size limit and
  free of protected values; the plan it yields satisfies the schema, and every path in it is relative, names something
  and has no parent reference.
\<close>

theorem accepted_answer_is_strict:
  assumes "parse_action_plan secrets out = Inr (plan, output)"
  shows "action_plan_ok plan \<and> to_answer out \<noteq> [] \<and> length (to_answer out) \<le> max_answer_bytes \<and>
    \<not> contains_environment_secret secrets (to_answer out) \<and>
    (\<exists>d. json_loads (to_answer out) = Some (JObj d) \<and> keys_distinct (JObj d) \<and> action_plan_of d = Some plan) \<and>
    (\<forall>m \<in> set (ap_mutations plan). ''..'' \<notin> set (path_parts (pure_path (slashes (mu_path m)))) \<and>
      path_parts (pure_path (slashes (mu_path m))) \<noteq> [] \<and> \<not> startswith (slashes (mu_path m)) ''/'')"
proof -
  have ok: "action_plan_ok plan" by (rule parse_action_plan_Inr(1) [OF assms])
  have "\<exists>d. json_loads (to_answer out) = Some (JObj d) \<and> keys_distinct (JObj d) \<and> action_plan_of d = Some plan"
    using assms by (auto simp: parse_action_plan_def Let_def dest!: strict_loads_sound
        split: if_split_asm option.split_asm json.split_asm)
  moreover have "mutation_path_ok (mu_path m)" if "m \<in> set (ap_mutations plan)" for m
    using ok that by (auto simp: action_plan_ok_def mutation_ok_def list_all_iff)
  ultimately show ?thesis using ok parse_action_plan_Inr(2-4) [OF assms] mutation_path_plain by blast
qed

definition sample_action_plan :: action_plan where
  "sample_action_plan = \<lparr>ap_summary = ''Add a directory'',
    ap_mutations = [\<lparr>mu_id = ''m1'', mu_path = ''src/a'', mu_kind = Create_directory\<rparr>], ap_expected = [''src/a'']\<rparr>"

definition sample_output :: task_output where
  "sample_output = \<lparr>to_task = ''a'', to_answer = json_dumps (action_plan_json sample_action_plan)\<rparr>"

lemma accepted_answer_is_strict_witness:
  "parse_action_plan [''secret''] sample_output =
      Inr (sample_action_plan, sanitized_output [''secret''] ''a'' (to_answer sample_output)) \<and>
    action_plan_ok sample_action_plan"
proof -
  have "strict_loads (to_answer sample_output) = Some (action_plan_json sample_action_plan)" by code_simp
  moreover have "to_answer sample_output \<noteq> [] \<and> length (to_answer sample_output) \<le> 1000 \<and>
      \<not> contains_environment_secret [''secret''] (to_answer sample_output)" by code_simp
  moreover have "(case action_plan_json sample_action_plan of JObj d \<Rightarrow> action_plan_of d = Some sample_action_plan | _ \<Rightarrow> False)"
    by code_simp
  ultimately have parsed: "parse_action_plan [''secret''] sample_output =
      Inr (sample_action_plan, sanitized_output [''secret''] ''a'' (to_answer sample_output))"
    by (auto simp: parse_action_plan_def Let_def max_answer_bytes_def sample_output_def split: json.split_asm)
  then show ?thesis using accepted_answer_is_strict [OF parsed] by simp
qed

text \<open>
  C23: Whatever a plan of the worker asks for, and whether it fails or not, it changes only nodes inside of the
  workspace and of an allowed root of it, never a control file, and the disk stays well formed.
\<close>

theorem worker_stays_in_workspace:
  assumes "execute_plan_on rt secrets clock plan d = (d', trace, r)"
  shows "(\<forall>q. map_of d' q = map_of d q \<or> reachable_path rt q) \<and> (disk_ok d' \<or> \<not> disk_ok d)"
proof -
  obtain actions failure tr where run: "run_mutations rt secrets clock 0 (ap_mutations plan) [] d = (d', tr, actions, failure)"
    by (rule execute_plan_disk [OF assms])
  then show ?thesis using run_mutations_confined [OF run] run_mutations_ok [OF _ run] by blast
qed

definition sample_runtime :: tool_runtime where
  "sample_runtime = \<lparr>rt_workspace = [''ws''], rt_allowed = [[''ws'', ''src'']]\<rparr>"

definition sample_disk :: disk where
  "sample_disk = [([''ws''], Dir_node), ([''ws'', ''src''], Dir_node)]"

lemma sample_execution:
  "\<exists>trace actions changes. execute_plan_on sample_runtime [] (\<lambda>_. ''t'') sample_action_plan sample_disk =
    (sample_disk @ [([''ws'', ''src'', ''a''], Dir_node)], trace, Inr (actions, changes))"
proof -
  have "(case execute_plan_on sample_runtime [] (\<lambda>_. ''t'') sample_action_plan sample_disk of
      (d', _, r) \<Rightarrow> d' = sample_disk @ [([''ws'', ''src'', ''a''], Dir_node)] \<and> \<not> isl r)" by code_simp
  then show ?thesis
    by (cases "execute_plan_on sample_runtime [] (\<lambda>_. ''t'') sample_action_plan sample_disk"; cases "snd (snd (execute_plan_on sample_runtime [] (\<lambda>_. ''t'') sample_action_plan sample_disk))") auto
qed

lemma worker_stays_in_workspace_witness: "reachable_path sample_runtime [''ws'', ''src'', ''a'']"
proof -
  obtain trace actions changes where run: "execute_plan_on sample_runtime [] (\<lambda>_. ''t'') sample_action_plan sample_disk =
      (sample_disk @ [([''ws'', ''src'', ''a''], Dir_node)], trace, Inr (actions, changes))" using sample_execution by blast
  have "map_of (sample_disk @ [([''ws'', ''src'', ''a''], Dir_node)]) [''ws'', ''src'', ''a''] \<noteq> map_of sample_disk [''ws'', ''src'', ''a'']"
    by (simp add: sample_disk_def)
  then show ?thesis using worker_stays_in_workspace [OF run] by blast
qed

text \<open>
  A plan that is carried out has changed in the workspace exactly the paths it announced (compared without
  case), and the reported changes are the difference of the two snapshots.
\<close>

lemma announced_changes_only:
  assumes "execute_plan_on rt secrets clock plan d = (d', trace, Inr (actions, changes))"
  shows "changes = changes_between (tree_snapshot d (rt_workspace rt)) (tree_snapshot d' (rt_workspace rt)) \<and>
    lower ` {p. map_of (tree_snapshot d (rt_workspace rt)) p \<noteq> map_of (tree_snapshot d' (rt_workspace rt)) p} =
      path_key ` set (ap_expected plan)"
  using execute_plan_Inr [OF assms] by blast

lemma announced_changes_only_witness:
  "lower ` {p. map_of (tree_snapshot sample_disk [''ws'']) p \<noteq>
      map_of (tree_snapshot (sample_disk @ [([''ws'', ''src'', ''a''], Dir_node)]) [''ws'']) p} = {''src/a''}"
proof -
  obtain trace actions changes where run: "execute_plan_on sample_runtime [] (\<lambda>_. ''t'') sample_action_plan sample_disk =
      (sample_disk @ [([''ws'', ''src'', ''a''], Dir_node)], trace, Inr (actions, changes))" using sample_execution by blast
  have "path_key ` set (ap_expected sample_action_plan) = {''src/a''}" by code_simp
  then show ?thesis using announced_changes_only [OF run] by (simp add: sample_runtime_def)
qed






end
