(* ===== verification/Build_Registry.thy ===== *)
theory Build_Registry
  imports Build_Disk Op_Adapters
begin

text \<open>
  Durable claims: the registry of authorities over targets (\<open>builder/global_authority.py\<close>) and the index
  of idempotency keys (\<open>builder/idempotency.py\<close>).  The files of the data directory hold documents or
  other bytes; a call under its mutex is one step, so a file that appears between the test and
  \<open>os.link\<close> is not modelled.  The time and the random claim id are arguments.
\<close>

section \<open>Files\<close>

datatype stored = Json_file json | Raw_bytes string

type_synonym data_files = "(string list, stored) dict"

text \<open>\<open>json_safe_bytes(value, indent=2)\<close>.\<close>

definition json_safe_bytes :: "json \<Rightarrow> string" where
  "json_safe_bytes value = json_dumps_indented (copy_value (normalize_json_safe 0 value)) @ [CHR 0x0A]"

fun stored_bytes :: "stored \<Rightarrow> string" where
  "stored_bytes (Json_file value) = json_safe_bytes value"
| "stored_bytes (Raw_bytes s) = s"

fun read_stored :: "stored \<Rightarrow> json option" where
  "read_stored (Json_file value) = Some (copy_value (normalize_json_safe 0 value))"
| "read_stored (Raw_bytes s) = json_loads s"

text \<open>\<open>json_safe_bytes(value, trailing_newline=False)\<close> under SHA-256.\<close>

definition fingerprint_request :: "json \<Rightarrow> string" where
  "fingerprint_request value = sha256_hex (json_dumps_canonical (normalize_json_safe 0 value))"

definition sha_text :: "string \<Rightarrow> bool" where
  "sha_text s \<longleftrightarrow> length s = 64 \<and> list_all (\<lambda>c. c \<in> set ''0123456789abcdef'') s"

section \<open>Scopes\<close>

definition registry_fault :: "string \<Rightarrow> raised" where
  "registry_fault message = plain_error ''GlobalAuthorityError'' message"

definition validate_sha256 :: "string \<Rightarrow> string \<Rightarrow> raised + string" where
  "validate_sha256 value field =
    (if sha_text value then Inr value else Inl (registry_fault (field @ '' must be a lowercase SHA-256 digest'')))"

definition lexical_parts :: "string \<Rightarrow> string list" where
  "lexical_parts s = foldl step_into [] (path_parts (pure_path s))"

definition normalized_resolved_path :: "string \<Rightarrow> raised + string" where
  "normalized_resolved_path value =
    (if startswith value ''/'' then Inr (show_path (lexical_parts value))
     else Inl (registry_fault ''Authority paths must be absolute''))"

definition normalized_authority_scope :: "string \<Rightarrow> string list \<Rightarrow> raised + (string \<times> string list)" where
  "normalized_authority_scope target_path paths =
    sbind (normalized_resolved_path target_path) (\<lambda>target.
    sbind (check_that (paths \<noteq> []) (registry_fault ''At least one allowed path is required'')) (\<lambda>_.
    sbind (smap normalized_resolved_path paths) (\<lambda>resolved.
      (let allowed = sorted_set resolved
       in sbind (check_that (list_all (\<lambda>p. is_within (lexical_parts p) (lexical_parts target)) allowed)
            (registry_fault ''Allowed authority path escapes the target root'')) (\<lambda>_.
            Inr (target, allowed))))))"

definition derive_authority_key :: "string \<Rightarrow> string list \<Rightarrow> raised + string" where
  "derive_authority_key target_path paths =
    sbind (normalized_authority_scope target_path paths) (\<lambda>(target, allowed).
      Inr (fingerprint_request (JObj [(''target_root'', JStr target), (''allowed_paths'', strings_json allowed)])))"

section \<open>Claims and release evidence\<close>

record claim_record =
  kr_key :: string
  kr_claim :: string
  kr_build :: string
  kr_execution :: string
  kr_idempotency :: string
  kr_fingerprint :: string
  kr_target :: string
  kr_allowed :: "string list"
  kr_acquired :: string

record authority_claim =
  kc_path :: "string list"
  kc_record :: claim_record

record release_record =
  lr_key :: string
  lr_claim :: string
  lr_build :: string
  lr_execution :: string
  lr_status :: string
  lr_claim_sha256 :: string
  lr_prepared :: string

record release_evidence =
  le_path :: "string list"
  le_sha256 :: string
  le_record :: release_record

definition claim_record_json :: "claim_record \<Rightarrow> json" where
  "claim_record_json r = JObj [(''schema_version'', JInt 1), (''authority_key'', JStr (kr_key r)), (''claim_id'', JStr (kr_claim r)),
    (''build_id'', JStr (kr_build r)), (''execution_id'', JStr (kr_execution r)), (''idempotency_key'', JStr (kr_idempotency r)),
    (''request_fingerprint'', JStr (kr_fingerprint r)), (''normalized_target_root'', JStr (kr_target r)),
    (''normalized_allowed_paths'', strings_json (kr_allowed r)), (''acquired_at'', JStr (kr_acquired r)), (''status'', JStr ''active'')]"

definition release_json :: "release_record \<Rightarrow> json" where
  "release_json r = JObj [(''schema_version'', JInt 1), (''authority_key'', JStr (lr_key r)), (''claim_id'', JStr (lr_claim r)),
    (''build_id'', JStr (lr_build r)), (''execution_id'', JStr (lr_execution r)), (''terminal_status'', JStr (lr_status r)),
    (''claim_sha256'', JStr (lr_claim_sha256 r)), (''prepared_at'', JStr (lr_prepared r)),
    (''release_condition'', JStr ''verified_terminal_manifest'')]"

definition claim_text_fields :: "string list" where
  "claim_text_fields = [''authority_key'', ''claim_id'', ''build_id'', ''execution_id'', ''idempotency_key'', ''request_fingerprint'',
    ''normalized_target_root'', ''acquired_at'', ''status'']"

definition release_text_fields :: "string list" where
  "release_text_fields = [''authority_key'', ''claim_id'', ''build_id'', ''execution_id'', ''terminal_status'', ''claim_sha256'',
    ''prepared_at'', ''release_condition'']"

text \<open>The text of a field; the callers have tested its type before.\<close>

definition text_or_empty :: "string \<Rightarrow> jdict \<Rightarrow> string" where
  "text_or_empty name d = (case text_field name d of Some s \<Rightarrow> s | None \<Rightarrow> [])"

definition version_one :: "jdict \<Rightarrow> bool" where
  "version_one d \<longleftrightarrow> py_eq (dget ''schema_version'' JNull d) (JInt 1)"

definition all_text :: "string list \<Rightarrow> jdict \<Rightarrow> bool" where
  "all_text names d \<longleftrightarrow> list_all (\<lambda>n. text_field n d \<noteq> None) names"

definition claim_of_json :: "json \<Rightarrow> raised + claim_record" where
  "claim_of_json payload =
    (case payload of
       JObj d \<Rightarrow>
         (let r = \<lparr>kr_key = text_or_empty ''authority_key'' d, kr_claim = text_or_empty ''claim_id'' d, kr_build = text_or_empty ''build_id'' d,
              kr_execution = text_or_empty ''execution_id'' d, kr_idempotency = text_or_empty ''idempotency_key'' d,
              kr_fingerprint = text_or_empty ''request_fingerprint'' d, kr_target = text_or_empty ''normalized_target_root'' d,
              kr_allowed = (case list_field ''normalized_allowed_paths'' text_of d of Some xs \<Rightarrow> xs | None \<Rightarrow> []),
              kr_acquired = text_or_empty ''acquired_at'' d\<rparr>
          in sbind (check_that (exact_fields ([''schema_version'', ''normalized_allowed_paths''] @ claim_text_fields) d)
               (registry_fault ''Authority claim fields are invalid'')) (\<lambda>_.
             sbind (check_that (list_field ''normalized_allowed_paths'' text_of d \<noteq> None)
               (registry_fault ''Authority allowed paths are invalid'')) (\<lambda>_.
             sbind (check_that (all_text claim_text_fields d) (registry_fault ''Authority claim field types are invalid'')) (\<lambda>_.
             sbind (check_that (version_one d \<and> text_or_empty ''status'' d = ''active'')
               (registry_fault ''Authority claim version or status is invalid'')) (\<lambda>_.
             sbind (check_that (kr_claim r \<noteq> [] \<and> kr_build r \<noteq> [] \<and> kr_execution r \<noteq> [] \<and> kr_idempotency r \<noteq> [])
               (registry_fault ''Authority claim identity is invalid'')) (\<lambda>_.
             sbind (validate_sha256 (kr_key r) ''authority_key'') (\<lambda>_.
             sbind (validate_sha256 (kr_fingerprint r) ''request_fingerprint'') (\<lambda>_.
             sbind (normalized_authority_scope (kr_target r) (kr_allowed r)) (\<lambda>scope.
             sbind (check_that (scope = (kr_target r, kr_allowed r)) (registry_fault ''Authority claim scope is not normalized'')) (\<lambda>_.
             sbind (derive_authority_key (kr_target r) (kr_allowed r)) (\<lambda>expected.
             sbind (check_that (expected = kr_key r) (registry_fault ''Authority claim scope hash is invalid'')) (\<lambda>_.
               Inr r))))))))))))
     | _ \<Rightarrow> Inl (registry_fault ''Authority claim is invalid''))"

definition release_statuses :: "string list" where
  "release_statuses = [''completed'', ''failed'']"

definition release_of_json :: "json \<Rightarrow> raised + release_record" where
  "release_of_json payload =
    (case payload of
       JObj d \<Rightarrow>
         sbind (check_that (exact_fields (''schema_version'' # release_text_fields) d)
           (registry_fault ''Authority release evidence fields are invalid'')) (\<lambda>_.
         sbind (check_that (version_one d \<and> all_text release_text_fields d)
           (registry_fault ''Authority release evidence is invalid'')) (\<lambda>_.
         sbind (check_that (text_or_empty ''terminal_status'' d \<in> set release_statuses)
           (registry_fault ''Authority release terminal status is invalid'')) (\<lambda>_.
         sbind (check_that (text_or_empty ''release_condition'' d = ''verified_terminal_manifest'')
           (registry_fault ''Authority release condition is invalid'')) (\<lambda>_.
         sbind (validate_sha256 (text_or_empty ''authority_key'' d) ''authority_key'') (\<lambda>_.
         sbind (validate_sha256 (text_or_empty ''claim_sha256'' d) ''claim_sha256'') (\<lambda>_.
           Inr \<lparr>lr_key = text_or_empty ''authority_key'' d, lr_claim = text_or_empty ''claim_id'' d, lr_build = text_or_empty ''build_id'' d,
             lr_execution = text_or_empty ''execution_id'' d, lr_status = text_or_empty ''terminal_status'' d,
             lr_claim_sha256 = text_or_empty ''claim_sha256'' d, lr_prepared = text_or_empty ''prepared_at'' d\<rparr>))))))
     | _ \<Rightarrow> Inl (registry_fault ''Authority release evidence fields are invalid''))"

section \<open>The registry\<close>

definition registry_root :: "string list \<Rightarrow> string list" where
  "registry_root data = data @ [''authority-locks'']"

definition json_name :: "string \<Rightarrow> string" where
  "json_name s = s @ ''.json''"

definition active_path :: "string list \<Rightarrow> string \<Rightarrow> raised + string list" where
  "active_path data key =
    sbind (validate_sha256 key ''authority_key'') (\<lambda>_. Inr (registry_root data @ [''active'', json_name key]))"

definition history_path :: "string list \<Rightarrow> claim_record \<Rightarrow> string \<Rightarrow> string list" where
  "history_path data r outcome = registry_root data @ [''history'', kr_key r, kr_claim r @ ''.'' @ outcome @ ''.json'']"

definition release_evidence_path :: "string list \<Rightarrow> claim_record \<Rightarrow> string list" where
  "release_evidence_path data r = registry_root data @ [''release-evidence'', kr_key r, json_name (kr_claim r)]"

definition load_claim :: "data_files \<Rightarrow> string list \<Rightarrow> raised + claim_record" where
  "load_claim files path =
    (case map_of files path of
       None \<Rightarrow> Inl (registry_fault ''Authority claim path is unsafe'')
     | Some content \<Rightarrow>
         (case read_stored content of
            None \<Rightarrow> Inl (registry_fault ''Authority claim is unreadable'')
          | Some payload \<Rightarrow> claim_of_json payload))"

definition load_active :: "string list \<Rightarrow> data_files \<Rightarrow> string \<Rightarrow> raised + claim_record option" where
  "load_active data files key =
    sbind (active_path data key) (\<lambda>path.
      if map_of files path = None then Inr None else sbind (load_claim files path) (\<lambda>r. Inr (Some r)))"

definition claim_conflict :: raised where
  "claim_conflict = plain_error ''GlobalAuthorityConflictError'' ''The target authority is already claimed''"

definition acquire_authority ::
  "string list \<Rightarrow> string \<Rightarrow> string \<Rightarrow> string \<Rightarrow> string \<Rightarrow> string \<Rightarrow> string \<Rightarrow> string \<Rightarrow> string list \<Rightarrow> data_files \<Rightarrow>
    (raised + authority_claim) \<times> data_files" where
  "acquire_authority data uuid now build execution idempotency fingerprint target_path paths files =
    (case sbind (validate_sha256 fingerprint ''request_fingerprint'') (\<lambda>_.
          sbind (normalized_authority_scope target_path paths) (\<lambda>(target, allowed).
          sbind (derive_authority_key target allowed) (\<lambda>key.
          sbind (active_path data key) (\<lambda>path. Inr (target, allowed, key, path))))) of
       Inl e \<Rightarrow> (Inl e, files)
     | Inr (target, allowed, key, path) \<Rightarrow>
         if map_of files path \<noteq> None
         then (sbind (load_claim files path) (\<lambda>_. Inl claim_conflict), files)
         else (let r = \<lparr>kr_key = key, kr_claim = uuid, kr_build = build, kr_execution = execution, kr_idempotency = idempotency,
                   kr_fingerprint = fingerprint, kr_target = target, kr_allowed = allowed, kr_acquired = now\<rparr>
               in (Inr \<lparr>kc_path = path, kc_record = r\<rparr>, AList.update path (Json_file (claim_record_json r)) files)))"

text \<open>Under the lock: the active claim must be the given one.\<close>

definition current_claim :: "string list \<Rightarrow> data_files \<Rightarrow> authority_claim \<Rightarrow> raised + (string list \<times> stored)" where
  "current_claim data files claim =
    sbind (active_path data (kr_key (kc_record claim))) (\<lambda>path.
      (case map_of files path of
         None \<Rightarrow> Inl (registry_fault ''Active authority claim is missing'')
       | Some content \<Rightarrow>
           sbind (load_claim files path) (\<lambda>current.
           sbind (check_that (current = kc_record claim) (registry_fault ''Authority claim identity changed'')) (\<lambda>_.
             Inr (path, content)))))"

definition evidence_from :: "string list \<Rightarrow> stored \<Rightarrow> raised + release_evidence" where
  "evidence_from path content =
    (case read_stored content of
       None \<Rightarrow> Inl (registry_fault ''Authority release evidence is unreadable'')
     | Some payload \<Rightarrow>
         sbind (release_of_json payload) (\<lambda>r.
           Inr \<lparr>le_path = path, le_sha256 = sha256_hex (stored_bytes content), le_record = r\<rparr>))"

definition same_release :: "release_record \<Rightarrow> release_record \<Rightarrow> bool" where
  "same_release a b \<longleftrightarrow> lr_key a = lr_key b \<and> lr_claim a = lr_claim b \<and> lr_build a = lr_build b \<and>
    lr_execution a = lr_execution b \<and> lr_status a = lr_status b \<and> lr_claim_sha256 a = lr_claim_sha256 b"

definition prepare_release_evidence ::
  "string list \<Rightarrow> string \<Rightarrow> authority_claim \<Rightarrow> string \<Rightarrow> data_files \<Rightarrow> (raised + release_evidence) \<times> data_files" where
  "prepare_release_evidence data now claim status files =
    (case sbind (check_that (status \<in> set release_statuses) (registry_fault ''Authority release terminal status is invalid'')) (\<lambda>_.
          current_claim data files claim) of
       Inl e \<Rightarrow> (Inl e, files)
     | Inr (path, content) \<Rightarrow>
         (let current = kc_record claim;
              r = \<lparr>lr_key = kr_key current, lr_claim = kr_claim current, lr_build = kr_build current, lr_execution = kr_execution current,
                lr_status = status, lr_claim_sha256 = sha256_hex (stored_bytes content), lr_prepared = now\<rparr>;
              evidence_path = release_evidence_path data current
          in case map_of files evidence_path of
               Some old \<Rightarrow>
                 (sbind (evidence_from evidence_path old) (\<lambda>e.
                  sbind (check_that (same_release (le_record e) r) (registry_fault ''Authority release evidence conflicts'')) (\<lambda>_.
                    Inr e)), files)
             | None \<Rightarrow>
                 (evidence_from evidence_path (Json_file (release_json r)),
                  AList.update evidence_path (Json_file (release_json r)) files)))"

definition finalize_claim ::
  "string list \<Rightarrow> authority_claim \<Rightarrow> string \<Rightarrow> jdict \<Rightarrow> data_files \<Rightarrow> (raised + string list) \<times> data_files" where
  "finalize_claim data claim outcome evidence files =
    (let history = history_path data (kc_record claim) outcome
     in case active_path data (kr_key (kc_record claim)) of
          Inl e \<Rightarrow> (Inl e, files)
        | Inr path \<Rightarrow>
            if map_of files history \<noteq> None
            then (if map_of files path = None then (Inr history, files)
                  else case sbind (load_claim files path) (\<lambda>current.
                      check_that (kr_claim current = kr_claim (kc_record claim)) (registry_fault ''Authority claim identity changed'')) of
                    Inl e \<Rightarrow> (Inl e, files)
                  | Inr _ \<Rightarrow> (Inr history, AList.delete path files))
            else case current_claim data files claim of
                Inl e \<Rightarrow> (Inl e, files)
              | Inr _ \<Rightarrow>
                  (Inr history, AList.delete path (AList.update history
                    (Json_file (JObj ([(''schema_version'', JInt 1), (''outcome'', JStr outcome),
                      (''claim'', claim_record_json (kc_record claim))] @ evidence))) files)))"

definition release_authority ::
  "string list \<Rightarrow> string \<Rightarrow> authority_claim \<Rightarrow> string \<Rightarrow> string \<Rightarrow> string \<Rightarrow> bool \<Rightarrow> data_files \<Rightarrow> (raised + string list) \<times> data_files" where
  "release_authority data now claim status manifest_sha evidence_sha verified files =
    (case sbind (check_that verified (registry_fault ''Authority release requires verified reconciliation'')) (\<lambda>_.
          sbind (check_that (status \<in> set release_statuses)
            (registry_fault ''Interrupted or invalid execution authority must be retained'')) (\<lambda>_.
          sbind (validate_sha256 manifest_sha ''terminal_manifest_sha256'') (\<lambda>_.
            validate_sha256 evidence_sha ''release_evidence_sha256''))) of
       Inl e \<Rightarrow> (Inl e, files)
     | Inr _ \<Rightarrow>
         (case prepare_release_evidence data now claim status files of
            (Inl e, files') \<Rightarrow> (Inl e, files')
          | (Inr evidence, files') \<Rightarrow>
              if le_sha256 evidence \<noteq> evidence_sha then (Inl (registry_fault ''Authority release evidence hash does not match''), files')
              else finalize_claim data claim ''released''
                [(''released_at'', JStr now), (''terminal_status'', JStr status), (''terminal_manifest_sha256'', JStr manifest_sha),
                 (''release_evidence_sha256'', JStr (le_sha256 evidence)), (''claim_sha256'', JStr (lr_claim_sha256 (le_record evidence))),
                 (''reconciliation_verified'', JBool True)] files'))"

definition recoverable_claim :: "string list \<Rightarrow> string \<Rightarrow> string \<Rightarrow> string \<Rightarrow> bool \<Rightarrow> string \<Rightarrow> data_files \<Rightarrow> raised + authority_claim" where
  "recoverable_claim data key expected_claim evidence_sha safe reason files =
    sbind (check_that safe (registry_fault ''Recovery did not establish safe release'')) (\<lambda>_.
    sbind (check_that (has_content reason) (registry_fault ''Recovery requires a reason'')) (\<lambda>_.
    sbind (validate_sha256 evidence_sha ''recovery_evidence_sha256'') (\<lambda>_.
    sbind (load_active data files key) (\<lambda>active.
      (case active of
         None \<Rightarrow> Inl (registry_fault ''Active authority claim is missing'')
       | Some r \<Rightarrow>
           sbind (check_that (kr_claim r = expected_claim) (registry_fault ''Authority recovery identity does not match'')) (\<lambda>_.
           sbind (active_path data key) (\<lambda>path. Inr \<lparr>kc_path = path, kc_record = r\<rparr>)))))))"

definition recover_authority ::
  "string list \<Rightarrow> string \<Rightarrow> string \<Rightarrow> string \<Rightarrow> string \<Rightarrow> bool \<Rightarrow> string \<Rightarrow> data_files \<Rightarrow> (raised + string list) \<times> data_files" where
  "recover_authority data now key expected_claim evidence_sha safe reason files =
    (case recoverable_claim data key expected_claim evidence_sha safe reason files of
       Inl e \<Rightarrow> (Inl e, files)
     | Inr claim \<Rightarrow>
         finalize_claim data claim ''recovered''
           [(''recovered_at'', JStr now), (''recovery_evidence_sha256'', JStr evidence_sha), (''safe_to_release'', JBool True),
            (''reason'', JStr (strip reason))] files)"

text \<open>What a history entry must say of a claim whose evidence is \<open>e\<close>.\<close>

definition history_matches :: "claim_record \<Rightarrow> release_evidence \<Rightarrow> string \<Rightarrow> jdict \<Rightarrow> bool" where
  "history_matches claim e manifest_sha h \<longleftrightarrow>
    version_one h \<and> dget ''outcome'' JNull h = JStr ''released'' \<and>
    py_eq (dget ''claim'' JNull h) (claim_record_json claim) \<and>
    dget ''terminal_status'' JNull h = JStr (lr_status (le_record e)) \<and>
    dget ''terminal_manifest_sha256'' JNull h = JStr manifest_sha \<and>
    dget ''release_evidence_sha256'' JNull h = JStr (le_sha256 e) \<and>
    dget ''claim_sha256'' JNull h = JStr (lr_claim_sha256 (le_record e)) \<and>
    dget ''reconciliation_verified'' JNull h = JBool True"

definition read_complete_file :: "data_files \<Rightarrow> string list \<Rightarrow> string \<Rightarrow> raised + stored" where
  "read_complete_file files path description =
    (case map_of files path of None \<Rightarrow> Inl (registry_fault (description @ '' path is unsafe'')) | Some content \<Rightarrow> Inr content)"

definition require_released_evidence ::
  "string list \<Rightarrow> data_files \<Rightarrow> string list \<Rightarrow> string list \<Rightarrow> string \<Rightarrow> raised + unit" where
  "require_released_evidence data files claim_path release_path manifest_sha =
    sbind (validate_sha256 manifest_sha ''terminal_manifest_sha256'') (\<lambda>_.
    sbind (read_complete_file files claim_path ''Terminal authority claim evidence'') (\<lambda>claim_content.
    sbind (read_complete_file files release_path ''Terminal authority release evidence'') (\<lambda>release_content.
    sbind (case read_stored claim_content of
        None \<Rightarrow> Inl (registry_fault ''Terminal authority claim evidence is invalid'') | Some payload \<Rightarrow> claim_of_json payload) (\<lambda>claim.
    sbind (evidence_from release_path release_content) (\<lambda>release.
    sbind (check_that (lr_key (le_record release) = kr_key claim \<and> lr_claim (le_record release) = kr_claim claim \<and>
        lr_build (le_record release) = kr_build claim \<and> lr_execution (le_record release) = kr_execution claim \<and>
        lr_claim_sha256 (le_record release) = sha256_hex (stored_bytes claim_content))
      (registry_fault ''Terminal authority evidence identity is invalid'')) (\<lambda>_.
    sbind (read_complete_file files (release_evidence_path data claim) ''Global authority release evidence'') (\<lambda>global_content.
    sbind (check_that (stored_bytes global_content = stored_bytes release_content)
      (registry_fault ''Global authority release evidence does not match'')) (\<lambda>_.
    sbind (read_complete_file files (history_path data claim ''released'') ''Global authority release history'') (\<lambda>history_content.
    (case read_stored history_content of
       None \<Rightarrow> Inl (registry_fault ''Global authority release history is invalid'')
     | Some (JObj h) \<Rightarrow> check_that (history_matches claim release manifest_sha h)
         (registry_fault ''Global authority release history does not match'')
     | Some _ \<Rightarrow> Inl (registry_fault ''Global authority release history does not match'')))))))))))"

section \<open>Stored documents\<close>

text \<open>The members of an object as they are read back.\<close>

definition read_members :: "jdict \<Rightarrow> jdict" where
  "read_members d = stored_keys (map (\<lambda>(k, v). (k, normalize_json_safe 1 v)) d)"

lemma read_stored_object [simp]: "read_stored (Json_file (JObj d)) = Some (JObj (read_members d))"
  by (simp add: copy_object read_members_def max_depth_def del: copy_value.simps)

declare read_stored.simps(1) [simp del]

lemma map_of_read: "map_of (read_members d) k = map_option (\<lambda>v. copy_value (normalize_json_safe 1 v)) (map_of d k)"
proof -
  have "map_of (map (\<lambda>(k, v). (k, normalize_json_safe 1 v)) d) k = map_option (normalize_json_safe 1) (map_of d k)"
    by (induction d) auto
  then show ?thesis by (simp add: read_members_def map_of_stored option.map_comp comp_def)
qed

lemma keys_read: "fst ` set (read_members d) = fst ` set d"
  by (force simp: read_members_def stored_keys_def)

lemma exact_fields_keys: "exact_fields names d \<longleftrightarrow> fst ` set d = set names"
  by (auto simp: exact_fields_def list_all_iff map_of_eq_None_iff)

lemma exact_fields_read [simp]: "exact_fields names (read_members d) = exact_fields names d"
  by (simp add: exact_fields_keys keys_read)

lemma text_field_read [simp]: "text_field k (read_members d) = text_field k d"
  by (auto simp: text_field_def map_of_read max_depth_def split: option.split json.split)

lemma text_or_empty_read [simp]: "text_or_empty k (read_members d) = text_or_empty k d"
  by (simp add: text_or_empty_def)

lemma all_text_read [simp]: "all_text names (read_members d) = all_text names d"
  by (simp add: all_text_def)

lemma version_one_read [simp]: "map_of d ''schema_version'' = Some (JInt 1) \<Longrightarrow> version_one (read_members d)"
  by (simp add: version_one_def dget_def map_of_read max_depth_def)

lemma read_strings: "copy_value (normalize_json_safe 1 (strings_json xs)) = strings_json xs"
  by (simp add: strings_json_def max_depth_def)

lemma list_field_strings:
  assumes "map_of d k = Some (strings_json xs)"
  shows "list_field k text_of (read_members d) = Some xs"
proof -
  have "option_each text_of (map JStr xs) = Some xs" by (induction xs) (simp_all add: text_of_def)
  then have "(case strings_json xs of JList ys \<Rightarrow> option_each text_of ys | _ \<Rightarrow> None) = Some xs" by (simp add: strings_json_def)
  then show ?thesis
    unfolding list_field_def map_of_read assms by (simp only: option.map read_strings option.case)
qed

lemma sha_text_sha256 [simp]: "sha_text (sha256_hex s)"
proof -
  have "c \<in> set ''0123456789abcdef''" if c: "c \<in> set (sha256_hex s)" for c
  proof -
    obtain n where n: "n < 16" "c = hex_digit n" using sha256_hex_digits [OF c] by blast
    then show ?thesis using hex_digit_ok [OF n(1)] by blast
  qed
  then show ?thesis unfolding sha_text_def list_all_iff using length_sha256_hex by blast
qed

lemma sha_text_fingerprint [simp]: "sha_text (fingerprint_request v)"
  by (simp add: fingerprint_request_def)

section \<open>Records read back\<close>

definition claim_ok :: "claim_record \<Rightarrow> bool" where
  "claim_ok r \<longleftrightarrow> kr_claim r \<noteq> [] \<and> kr_build r \<noteq> [] \<and> kr_execution r \<noteq> [] \<and> kr_idempotency r \<noteq> [] \<and>
    sha_text (kr_key r) \<and> sha_text (kr_fingerprint r) \<and>
    normalized_authority_scope (kr_target r) (kr_allowed r) = Inr (kr_target r, kr_allowed r) \<and>
    derive_authority_key (kr_target r) (kr_allowed r) = Inr (kr_key r)"

definition stored_claim :: "claim_record \<Rightarrow> stored" where
  "stored_claim r = Json_file (claim_record_json r)"

lemma claim_roundtrip:
  assumes "claim_ok r"
  shows "\<exists>payload. read_stored (stored_claim r) = Some payload \<and> claim_of_json payload = Inr r"
proof -
  obtain d where d: "claim_record_json r = JObj d" "map_of d ''schema_version'' = Some (JInt 1)"
    "map_of d ''normalized_allowed_paths'' = Some (strings_json (kr_allowed r))"
    "exact_fields ([''schema_version'', ''normalized_allowed_paths''] @ claim_text_fields) d"
    "all_text claim_text_fields d" "text_or_empty ''status'' d = ''active''"
    "text_or_empty ''authority_key'' d = kr_key r" "text_or_empty ''claim_id'' d = kr_claim r" "text_or_empty ''build_id'' d = kr_build r"
    "text_or_empty ''execution_id'' d = kr_execution r" "text_or_empty ''idempotency_key'' d = kr_idempotency r"
    "text_or_empty ''request_fingerprint'' d = kr_fingerprint r" "text_or_empty ''normalized_target_root'' d = kr_target r"
    "text_or_empty ''acquired_at'' d = kr_acquired r"
    by (simp add: claim_record_json_def exact_fields_def claim_text_fields_def all_text_def text_field_def text_or_empty_def)
  have "claim_of_json (JObj (read_members d)) = Inr r"
    using assms list_field_strings [OF d(3)] d(2,4-14)
    by (simp add: claim_of_json_def claim_ok_def Let_def validate_sha256_def)
  then show ?thesis using d(1) by (simp add: stored_claim_def)
qed

definition release_ok :: "release_record \<Rightarrow> bool" where
  "release_ok r \<longleftrightarrow> lr_status r \<in> set release_statuses \<and> sha_text (lr_key r) \<and> sha_text (lr_claim_sha256 r)"

lemma release_roundtrip:
  assumes "release_ok r"
  shows "evidence_from path (Json_file (release_json r)) =
    Inr \<lparr>le_path = path, le_sha256 = sha256_hex (json_safe_bytes (release_json r)), le_record = r\<rparr>"
proof -
  obtain d where d: "release_json r = JObj d" "map_of d ''schema_version'' = Some (JInt 1)"
    "exact_fields (''schema_version'' # release_text_fields) d"
    "all_text release_text_fields d" "text_or_empty ''release_condition'' d = ''verified_terminal_manifest''"
    "text_or_empty ''authority_key'' d = lr_key r" "text_or_empty ''claim_id'' d = lr_claim r" "text_or_empty ''build_id'' d = lr_build r"
    "text_or_empty ''execution_id'' d = lr_execution r" "text_or_empty ''terminal_status'' d = lr_status r"
    "text_or_empty ''claim_sha256'' d = lr_claim_sha256 r" "text_or_empty ''prepared_at'' d = lr_prepared r"
    by (simp add: release_json_def exact_fields_def release_text_fields_def all_text_def text_field_def text_or_empty_def)
  have "release_of_json (JObj (read_members d)) = Inr r"
    using assms d(2-12) by (simp add: release_of_json_def release_ok_def validate_sha256_def)
  then show ?thesis using d(1) by (simp add: evidence_from_def)
qed

section \<open>Normal paths\<close>

definition plain_name :: "string \<Rightarrow> bool" where
  "plain_name p \<longleftrightarrow> p \<noteq> [] \<and> p \<noteq> ''.'' \<and> p \<noteq> ''..'' \<and> CHR ''/'' \<notin> set p"

lemma split_on_pieces: "p \<in> set (split_on c s) \<Longrightarrow> c \<notin> set p"
proof (induction s arbitrary: p)
  case (Cons a s)
  then show ?case by (cases "split_on c s") (auto split: if_split_asm)
qed simp

lemma path_parts_plain: "p \<in> set (path_parts (pure_path s)) \<Longrightarrow> p \<noteq> ''..'' \<Longrightarrow> plain_name p"
  by (auto simp: pure_path_def plain_name_def dest: split_on_pieces)

lemma foldl_step_plain:
  "list_all plain_name base \<Longrightarrow> (\<And>p. p \<in> set parts \<Longrightarrow> p \<noteq> ''..'' \<Longrightarrow> plain_name p) \<Longrightarrow> list_all plain_name (foldl step_into base parts)"
proof (induction parts arbitrary: base)
  case (Cons p parts)
  have "list_all plain_name (step_into base p)"
    using Cons.prems by (auto simp: step_into_def list_all_iff dest: in_set_butlastD)
  then show ?case using Cons by simp
qed simp

lemma lexical_plain: "list_all plain_name (lexical_parts s)"
  unfolding lexical_parts_def by (rule foldl_step_plain) (auto intro: path_parts_plain)

lemma foldl_step_append: "list_all plain_name ps \<Longrightarrow> foldl step_into base ps = base @ ps"
  by (induction ps arbitrary: base) (simp_all add: step_into_def plain_name_def)

lemma parts_show:
  assumes "list_all plain_name ps"
  shows "path_parts (pure_path (show_path ps)) = ps"
proof (cases ps)
  case Nil
  then show ?thesis by (simp add: show_path_def pure_path_def)
next
  case (Cons q qs)
  have "split_on CHR ''/'' (join ''/'' ps) = ps"
    using assms Cons by (intro split_on_join) (auto simp: plain_name_def list_all_iff)
  moreover have "filter (\<lambda>p. p \<noteq> [] \<and> p \<noteq> ''.'') ps = ps" using assms by (auto simp: plain_name_def list_all_iff filter_id_conv)
  ultimately show ?thesis by (simp add: show_path_def pure_path_def split_on_append_sep [of _ "[]", simplified])
qed

lemma lexical_show [simp]: "list_all plain_name ps \<Longrightarrow> lexical_parts (show_path ps) = ps"
  by (simp add: lexical_parts_def parts_show foldl_step_append)

lemma normalized_idem: "normalized_resolved_path s = Inr t \<Longrightarrow> normalized_resolved_path t = Inr t"
  by (auto simp: normalized_resolved_path_def lexical_plain split: if_split_asm) (simp add: show_path_def startswith_def)

lemma smap_same: "(\<And>x. x \<in> set xs \<Longrightarrow> f x = Inr x) \<Longrightarrow> smap f xs = Inr xs"
  by (induction xs) simp_all

lemma sorted_set_idem [simp]: "sorted_set (sorted_set xs) = sorted_set xs"
  by (simp add: sorted_set_def sort_key_id_if_sorted distinct_remdups_id)

lemma scope_normal:
  assumes "normalized_authority_scope t paths = Inr (target, allowed)"
  shows "normalized_authority_scope target allowed = Inr (target, allowed)"
proof -
  obtain resolved where r: "normalized_resolved_path t = Inr target" "paths \<noteq> []" "smap normalized_resolved_path paths = Inr resolved"
    "allowed = sorted_set resolved" "list_all (\<lambda>p. is_within (lexical_parts p) (lexical_parts target)) allowed"
    using assms by (auto simp: normalized_authority_scope_def sbind_eq_Inr Let_def)
  have "normalized_resolved_path p = Inr p" if "p \<in> set allowed" for p
    using that r(3,4) by (auto dest!: smap_set intro: normalized_idem)
  then have "smap normalized_resolved_path allowed = Inr allowed" by (rule smap_same)
  moreover have "allowed \<noteq> []" using r(2,3,4) smap_length [OF r(3)] by auto
  ultimately show ?thesis using r(4,5) normalized_idem [OF r(1)] by (simp add: normalized_authority_scope_def)
qed

section \<open>Claims\<close>

lemma active_path_Inr: "sha_text key \<Longrightarrow> active_path data key = Inr (registry_root data @ [''active'', json_name key])"
  by (simp add: active_path_def validate_sha256_def)

lemma load_stored_claim: "claim_ok r \<Longrightarrow> map_of files path = Some (stored_claim r) \<Longrightarrow> load_claim files path = Inr r"
  using claim_roundtrip [of r] by (auto simp: load_claim_def)

text \<open>The claim of \<open>r\<close> is in force.\<close>

definition holds_claim :: "string list \<Rightarrow> data_files \<Rightarrow> claim_record \<Rightarrow> bool" where
  "holds_claim data files r \<longleftrightarrow>
    claim_ok r \<and> map_of files (registry_root data @ [''active'', json_name (kr_key r)]) = Some (stored_claim r)"

lemma holds_claim_sha: "holds_claim data files r \<Longrightarrow> sha_text (kr_key r)"
  by (simp add: holds_claim_def claim_ok_def)

lemma acquire_Inr:
  assumes "acquire_authority data uuid now build execution idem fp t paths files = (Inr claim, files')"
    and "uuid \<noteq> []" "build \<noteq> []" "execution \<noteq> []" "idem \<noteq> []"
  shows "holds_claim data files' (kc_record claim)" "kr_claim (kc_record claim) = uuid" "kr_execution (kc_record claim) = execution"
    "derive_authority_key t paths = Inr (kr_key (kc_record claim))"
    "\<And>p. p \<noteq> kc_path claim \<Longrightarrow> map_of files' p = map_of files p" "map_of files (kc_path claim) = None"
    "kc_path claim = registry_root data @ [''active'', json_name (kr_key (kc_record claim))]"
proof -
  obtain target allowed key where scope: "normalized_authority_scope t paths = Inr (target, allowed)" "sha_text fp"
    and key: "derive_authority_key target allowed = Inr key"
    and at: "map_of files (registry_root data @ [''active'', json_name key]) = None" "sha_text key"
    and claim: "claim = \<lparr>kc_path = registry_root data @ [''active'', json_name key], kc_record =
        \<lparr>kr_key = key, kr_claim = uuid, kr_build = build, kr_execution = execution, kr_idempotency = idem, kr_fingerprint = fp,
         kr_target = target, kr_allowed = allowed, kr_acquired = now\<rparr>\<rparr>"
      "files' = AList.update (kc_path claim) (stored_claim (kc_record claim)) files"
    using assms(1)
    by (auto simp: acquire_authority_def sbind_eq_Inr sbind_eq_Inl validate_sha256_def active_path_def stored_claim_def Let_def
        split: sum.split_asm if_split_asm)
  have "claim_ok (kc_record claim)"
    using assms(2-) scope scope_normal [OF scope(1)] key at(2) claim(1) by (simp add: claim_ok_def)
  then show "holds_claim data files' (kc_record claim)" using claim by (simp add: holds_claim_def map_of_update)
  have "derive_authority_key t paths = derive_authority_key target allowed"
    unfolding derive_authority_key_def scope(1) scope_normal [OF scope(1)] ..
  then show "derive_authority_key t paths = Inr (kr_key (kc_record claim))" using key claim(1) by simp
  show "kr_claim (kc_record claim) = uuid" "kr_execution (kc_record claim) = execution"
    "\<And>p. p \<noteq> kc_path claim \<Longrightarrow> map_of files' p = map_of files p" "map_of files (kc_path claim) = None"
    "kc_path claim = registry_root data @ [''active'', json_name (kr_key (kc_record claim))]"
    using claim at(1) by (simp_all add: map_of_update)
qed

lemma derive_normal:
  "normalized_authority_scope t paths = Inr (target, allowed) \<Longrightarrow> derive_authority_key t paths = derive_authority_key target allowed"
  unfolding derive_authority_key_def by (simp add: scope_normal)

text \<open>While a claim is in force no claim for the same scope succeeds.\<close>

lemma acquire_conflict:
  assumes "holds_claim data files r" "derive_authority_key t paths = Inr (kr_key r)" "sha_text fp"
  shows "acquire_authority data uuid now build execution idem fp t paths files = (Inl claim_conflict, files)"
proof -
  obtain target allowed where scope: "normalized_authority_scope t paths = Inr (target, allowed)"
    using assms(2) by (auto simp: derive_authority_key_def sbind_eq_Inr)
  have "load_claim files (registry_root data @ [''active'', json_name (kr_key r)]) = Inr r"
    using assms(1) by (auto simp: holds_claim_def intro: load_stored_claim)
  then show ?thesis using assms scope derive_normal [OF scope] holds_claim_sha [OF assms(1)]
    by (simp add: acquire_authority_def validate_sha256_def active_path_Inr holds_claim_def)
qed

section \<open>The end of a claim\<close>

definition claim_path :: "string list \<Rightarrow> string \<Rightarrow> string list" where
  "claim_path data key = registry_root data @ [''active'', json_name key]"

lemma claim_path_inject [simp]: "claim_path data a = claim_path data b \<longleftrightarrow> a = b"
  by (simp add: claim_path_def json_name_def)

lemma other_paths [simp]:
  "release_evidence_path data r \<noteq> claim_path data key" "claim_path data key \<noteq> release_evidence_path data r"
  "history_path data r outcome \<noteq> claim_path data key" "claim_path data key \<noteq> history_path data r outcome"
  "release_evidence_path data r \<noteq> history_path data r' outcome" "history_path data r' outcome \<noteq> release_evidence_path data r"
  by (simp_all add: claim_path_def release_evidence_path_def history_path_def)

lemma active_path_eq: "active_path data key = Inr p \<longleftrightarrow> sha_text key \<and> p = claim_path data key"
  by (auto simp: active_path_def validate_sha256_def claim_path_def)

lemma holds_claim_at: "holds_claim data files r \<longleftrightarrow> claim_ok r \<and> map_of files (claim_path data (kr_key r)) = Some (stored_claim r)"
  by (simp add: holds_claim_def claim_path_def)

lemma holds_claim_keep:
  "map_of files' (claim_path data (kr_key r)) = map_of files (claim_path data (kr_key r)) \<Longrightarrow> holds_claim data files r \<Longrightarrow> holds_claim data files' r"
  by (simp add: holds_claim_at)

lemma load_held: "holds_claim data files r \<Longrightarrow> load_claim files (claim_path data (kr_key r)) = Inr r"
  by (simp add: holds_claim_at load_stored_claim)

lemma current_claim_Inr:
  "current_claim data files claim = Inr (path, content) \<longleftrightarrow>
    sha_text (kr_key (kc_record claim)) \<and> path = claim_path data (kr_key (kc_record claim)) \<and>
    map_of files path = Some content \<and> load_claim files path = Inr (kc_record claim)"
  by (auto simp: current_claim_def sbind_eq_Inr active_path_eq split: option.split_asm option.split)

lemma current_held:
  "holds_claim data files (kc_record claim) \<Longrightarrow>
    current_claim data files claim = Inr (claim_path data (kr_key (kc_record claim)), stored_claim (kc_record claim))"
  using load_held [of data files "kc_record claim"] by (simp add: current_claim_Inr holds_claim_sha) (simp add: holds_claim_at)

lemma prepare_files:
  assumes "prepare_release_evidence data now claim status files = (res, files')"
  shows "\<And>p. p \<noteq> release_evidence_path data (kc_record claim) \<Longrightarrow> map_of files' p = map_of files p"
  using assms by (auto simp: prepare_release_evidence_def Let_def map_of_update split: sum.split_asm option.split_asm)

lemma finalize_files:
  assumes "finalize_claim data claim outcome evidence files = (res, files')" "holds_claim data files r"
  shows "holds_claim data files' r \<or> kr_key (kc_record claim) = kr_key r \<and> kr_claim (kc_record claim) = kr_claim r"
proof (cases "kr_key (kc_record claim) = kr_key r")
  case True
  have held: "load_claim files (claim_path data (kr_key r)) = Inr r" "map_of files (claim_path data (kr_key r)) \<noteq> None"
    "active_path data (kr_key r) = Inr (claim_path data (kr_key r))"
    using assms(2) load_held by (simp_all add: active_path_eq holds_claim_sha) (simp add: holds_claim_at)
  have "files' = files" if other: "kr_claim (kc_record claim) \<noteq> kr_claim r"
  proof -
    have "r \<noteq> kc_record claim" using other by auto
    then have "\<exists>e. current_claim data files claim = Inl e"
      using True held(1)
      by (cases "current_claim data files claim") (auto simp: current_claim_Inr)
    then obtain e where "current_claim data files claim = Inl e" ..
    then show ?thesis using assms(1) True held other by (auto simp: finalize_claim_def Let_def split: if_split_asm)
  qed
  then show ?thesis using assms(2) True by blast
next
  case False
  then have "map_of files' (claim_path data (kr_key r)) = map_of files (claim_path data (kr_key r))" using assms(1)
    by (auto simp: finalize_claim_def Let_def active_path_eq delete_conv map_of_update split: sum.split_asm if_split_asm)
  then show ?thesis using holds_claim_keep assms(2) by blast
qed

datatype registry_op =
    Acquire_op string string string string string string string "string list"
  | Prepare_op string authority_claim string
  | Release_op string authority_claim string string string bool
  | Recover_op string string string string bool string

fun run_registry_op :: "string list \<Rightarrow> registry_op \<Rightarrow> data_files \<Rightarrow> data_files" where
  "run_registry_op data (Acquire_op uuid now build execution idem fp t paths) files =
    snd (acquire_authority data uuid now build execution idem fp t paths files)"
| "run_registry_op data (Prepare_op now claim status) files = snd (prepare_release_evidence data now claim status files)"
| "run_registry_op data (Release_op now claim status msha esha verified) files =
    snd (release_authority data now claim status msha esha verified files)"
| "run_registry_op data (Recover_op now key cid sha safe reason) files = snd (recover_authority data now key cid sha safe reason files)"

text \<open>The calls that name the claim \<open>r\<close> as the one to end.\<close>

fun names_claim :: "claim_record \<Rightarrow> registry_op \<Rightarrow> bool" where
  "names_claim r (Release_op now claim status msha esha verified) \<longleftrightarrow>
    kr_key (kc_record claim) = kr_key r \<and> kr_claim (kc_record claim) = kr_claim r"
| "names_claim r (Recover_op now key cid sha safe reason) \<longleftrightarrow> cid = kr_claim r"
| "names_claim r other = False"

lemma acquire_keeps:
  assumes "holds_claim data files r"
  shows "holds_claim data (snd (acquire_authority data uuid now build execution idem fp t paths files)) r"
proof -
  have "map_of (snd (acquire_authority data uuid now build execution idem fp t paths files)) (claim_path data (kr_key r)) =
      map_of files (claim_path data (kr_key r))"
    using assms
    by (auto simp: acquire_authority_def Let_def sbind_eq_Inr active_path_eq holds_claim_at map_of_update split: sum.split if_split)
  then show ?thesis using holds_claim_keep assms by blast
qed

lemma registry_op_keeps:
  assumes "holds_claim data files r" "\<not> names_claim r op"
  shows "holds_claim data (run_registry_op data op files) r"
proof (cases op)
  case (Acquire_op uuid now build execution idem fp t paths)
  then show ?thesis using acquire_keeps [OF assms(1)] by simp
next
  case (Prepare_op now claim status)
  then show ?thesis using prepare_files [of data now claim status files] assms(1)
    by (cases "prepare_release_evidence data now claim status files") (auto intro: holds_claim_keep)
next
  case (Release_op now claim status msha esha verified)
  obtain res files1 where prep: "prepare_release_evidence data now claim status files = (res, files1)" by (rule prod.exhaust)
  have mid: "holds_claim data files1 r" using prepare_files [OF prep] assms(1) by (auto intro: holds_claim_keep)
  show ?thesis
  proof (cases "run_registry_op data op files = files \<or> run_registry_op data op files = files1")
    case True
    then show ?thesis using assms(1) mid by auto
  next
    case False
    then obtain evidence where "run_registry_op data op files = snd (finalize_claim data claim ''released'' evidence files1)"
      using Release_op prep by (auto simp: release_authority_def split: sum.split_asm if_split_asm)
    then show ?thesis using finalize_files [OF _ mid, of claim "''released''" evidence] assms(2) Release_op
      by (metis names_claim.simps(1) prod.collapse)
  qed
next
  case (Recover_op now key cid sha safe reason)
  show ?thesis
  proof (cases "recoverable_claim data key cid sha safe reason files")
    case (Inl e)
    then show ?thesis using Recover_op assms(1) by (simp add: recover_authority_def)
  next
    case (Inr claim)
    then have named: "kr_claim (kc_record claim) = cid"
      by (auto simp: recoverable_claim_def sbind_eq_Inr split: option.split_asm)
    define evidence where "evidence = [(''recovered_at'', JStr now), (''recovery_evidence_sha256'', JStr sha),
      (''safe_to_release'', JBool True), (''reason'', JStr (strip reason))]"
    obtain res files' where fin: "finalize_claim data claim ''recovered'' evidence files = (res, files')" by (rule prod.exhaust)
    then have "run_registry_op data op files = files'" using Inr Recover_op by (simp add: recover_authority_def evidence_def)
    then show ?thesis using finalize_files [OF fin assms(1)] named assms(2) Recover_op by auto
  qed
qed

section \<open>The protocol of a release\<close>

lemma py_eq_copy [simp]: "py_eq (copy_value v) v"
  by (simp add: py_eq_def copy_value_idem)

definition release_record_of :: "claim_record \<Rightarrow> string \<Rightarrow> string \<Rightarrow> release_record" where
  "release_record_of r status now =
    \<lparr>lr_key = kr_key r, lr_claim = kr_claim r, lr_build = kr_build r, lr_execution = kr_execution r,
     lr_status = status, lr_claim_sha256 = sha256_hex (stored_bytes (stored_claim r)), lr_prepared = now\<rparr>"

definition stored_release :: "release_record \<Rightarrow> stored" where
  "stored_release l = Json_file (release_json l)"

definition release_evidence_of :: "string list \<Rightarrow> release_record \<Rightarrow> release_evidence" where
  "release_evidence_of path l = \<lparr>le_path = path, le_sha256 = sha256_hex (stored_bytes (stored_release l)), le_record = l\<rparr>"

lemma release_record_ok: "claim_ok r \<Longrightarrow> status \<in> set release_statuses \<Longrightarrow> release_ok (release_record_of r status now)"
  by (simp add: release_ok_def release_record_of_def claim_ok_def)

lemma evidence_from_stored:
  "release_ok l \<Longrightarrow> evidence_from path (stored_release l) = Inr (release_evidence_of path l)"
  using release_roundtrip [of l path] by (simp add: stored_release_def release_evidence_of_def)

lemma prepare_new:
  assumes "holds_claim data files (kc_record claim)" "status \<in> set release_statuses"
    and "map_of files (release_evidence_path data (kc_record claim)) = None"
  shows "prepare_release_evidence data now claim status files =
    (Inr (release_evidence_of (release_evidence_path data (kc_record claim)) (release_record_of (kc_record claim) status now)),
     AList.update (release_evidence_path data (kc_record claim)) (stored_release (release_record_of (kc_record claim) status now)) files)"
proof -
  have "release_ok (release_record_of (kc_record claim) status now)"
    using assms(1,2) by (auto simp: holds_claim_def intro: release_record_ok)
  from evidence_from_stored [OF this] show ?thesis using assms current_held [OF assms(1)]
    by (simp add: prepare_release_evidence_def Let_def release_record_of_def stored_release_def)
qed

lemma prepare_again:
  assumes "holds_claim data files (kc_record claim)" "status \<in> set release_statuses"
    and "map_of files (release_evidence_path data (kc_record claim)) = Some (stored_release (release_record_of (kc_record claim) status before))"
  shows "prepare_release_evidence data now claim status files =
    (Inr (release_evidence_of (release_evidence_path data (kc_record claim)) (release_record_of (kc_record claim) status before)), files)"
proof -
  have "release_ok (release_record_of (kc_record claim) status before)"
    using assms(1,2) by (auto simp: holds_claim_def intro: release_record_ok)
  from evidence_from_stored [OF this] show ?thesis using assms current_held [OF assms(1)]
    by (simp add: prepare_release_evidence_def Let_def same_release_def release_evidence_of_def release_record_of_def)
qed

definition release_history :: "string \<Rightarrow> string \<Rightarrow> release_record \<Rightarrow> claim_record \<Rightarrow> json" where
  "release_history now msha l r = JObj ([(''schema_version'', JInt 1), (''outcome'', JStr ''released''), (''claim'', claim_record_json r)] @
    [(''released_at'', JStr now), (''terminal_status'', JStr (lr_status l)), (''terminal_manifest_sha256'', JStr msha),
     (''release_evidence_sha256'', JStr (sha256_hex (stored_bytes (stored_release l)))), (''claim_sha256'', JStr (lr_claim_sha256 l)),
     (''reconciliation_verified'', JBool True)])"

lemma release_held:
  assumes "holds_claim data files (kc_record claim)" "status \<in> set release_statuses" "sha_text msha"
    and "l = release_record_of (kc_record claim) status before"
    and "map_of files (release_evidence_path data (kc_record claim)) = Some (stored_release l)"
    and "map_of files (history_path data (kc_record claim) ''released'') = None"
  shows "release_authority data now claim status msha (sha256_hex (stored_bytes (stored_release l))) True files =
    (Inr (history_path data (kc_record claim) ''released''),
     AList.delete (claim_path data (kr_key (kc_record claim)))
       (AList.update (history_path data (kc_record claim) ''released'') (Json_file (release_history now msha l (kc_record claim))) files))"
proof -
  let ?e = "release_evidence_of (release_evidence_path data (kc_record claim)) l"
  have prep: "prepare_release_evidence data now claim status files = (Inr ?e, files)"
    using prepare_again [OF assms(1,2)] assms(4,5) by simp
  have e: "le_sha256 ?e = sha256_hex (stored_bytes (stored_release l))" "le_record ?e = l" by (simp_all add: release_evidence_of_def)
  have status: "lr_status l = status" using assms(4) by (simp add: release_record_of_def)
  have path: "active_path data (kr_key (kc_record claim)) = Inr (claim_path data (kr_key (kc_record claim)))"
    using assms(1) by (simp add: active_path_eq holds_claim_sha)
  show ?thesis using assms(2,3,6) current_held [OF assms(1)] path
    by (simp add: release_authority_def prep e status validate_sha256_def finalize_claim_def release_history_def Let_def)
qed

text \<open>After a release the local copies of claim and evidence agree with the registry.\<close>

lemma released_evidence:
  assumes "claim_ok r" "status \<in> set release_statuses" "sha_text msha" "l = release_record_of r status before"
    and "map_of files claim_file = Some (stored_claim r)" "map_of files release_file = Some (stored_release l)"
    and "map_of files (release_evidence_path data r) = Some (stored_release l)"
    and "map_of files (history_path data r ''released'') = Some (Json_file (release_history now msha l r))"
  shows "require_released_evidence data files claim_file release_file msha = Inr ()"
proof -
  obtain payload where claim: "read_stored (stored_claim r) = Some payload" "claim_of_json payload = Inr r"
    using claim_roundtrip [OF assms(1)] by blast
  have rel: "evidence_from release_file (stored_release l) = Inr (release_evidence_of release_file l)"
    using assms(1,2,4) by (auto intro: evidence_from_stored release_record_ok)
  have same: "lr_key l = kr_key r" "lr_claim l = kr_claim r" "lr_build l = kr_build r" "lr_execution l = kr_execution r"
    "lr_claim_sha256 l = sha256_hex (stored_bytes (stored_claim r))"
    using assms(4) by (simp_all add: release_record_of_def)
  obtain h where h: "release_history now msha l r = JObj h" by (simp add: release_history_def)
  have plain: "normalize_json_safe 1 (claim_record_json r) = claim_record_json r"
    by (simp add: claim_record_json_def strings_json_def max_depth_def)
  have members: "map_of h ''schema_version'' = Some (JInt 1)" "map_of h ''outcome'' = Some (JStr ''released'')"
    "map_of h ''claim'' = Some (claim_record_json r)" "map_of h ''terminal_status'' = Some (JStr (lr_status l))"
    "map_of h ''terminal_manifest_sha256'' = Some (JStr msha)"
    "map_of h ''release_evidence_sha256'' = Some (JStr (sha256_hex (stored_bytes (stored_release l))))"
    "map_of h ''claim_sha256'' = Some (JStr (lr_claim_sha256 l))" "map_of h ''reconciliation_verified'' = Some (JBool True)"
    using h by (auto simp: release_history_def)
  have "history_matches r (release_evidence_of release_file l) msha (read_members h)"
    using members plain
    by (simp add: history_matches_def dget_def map_of_read release_evidence_of_def max_depth_def)
  then show ?thesis using assms(3,5-8) claim rel same h
    by (simp add: require_released_evidence_def validate_sha256_def read_complete_file_def release_evidence_of_def)
qed

text \<open>A scope with another key is free, however the directories overlap.\<close>

lemma acquire_other_scope:
  assumes "derive_authority_key t paths = Inr key" "sha_text fp" "map_of files (claim_path data key) = None"
  shows "\<exists>claim files'. acquire_authority data uuid now build execution idem fp t paths files = (Inr claim, files')"
proof -
  obtain target allowed where scope: "normalized_authority_scope t paths = Inr (target, allowed)"
    using assms(1) by (auto simp: derive_authority_key_def sbind_eq_Inr)
  have "sha_text key" using assms(1) by (auto simp: derive_authority_key_def sbind_eq_Inr)
  then show ?thesis using assms scope derive_normal [OF scope]
    by (simp add: acquire_authority_def validate_sha256_def active_path_Inr claim_path_def Let_def)
qed

end
