(* ===== verification/Build_Idempotency.thy ===== *)
theory Build_Idempotency
  imports Build_Registry
begin

text \<open>
  The index of idempotency keys (\<open>builder/idempotency.py\<close>): a key is bound to one request for ever, and a
  second request under it is refused.  Keys are ASCII, so their normal form (NFKC) is the key itself.
\<close>

section \<open>Records\<close>

definition index_fault :: "string \<Rightarrow> raised" where
  "index_fault message = plain_error ''IdempotencyIndexError'' message"

definition key_conflict :: raised where
  "key_conflict = plain_error ''IdempotencyConflictError'' ''Idempotency key is already bound to different input''"

record index_record =
  ir_key_hash :: string
  ir_fingerprint :: string
  ir_build :: string
  ir_execution :: string
  ir_path :: string
  ir_state :: string
  ir_created :: string

definition index_json :: "index_record \<Rightarrow> json" where
  "index_json r = JObj [(''schema_version'', JInt 1), (''key_hash'', JStr (ir_key_hash r)),
    (''request_fingerprint'', JStr (ir_fingerprint r)), (''build_id'', JStr (ir_build r)), (''execution_id'', JStr (ir_execution r)),
    (''execution_path'', JStr (ir_path r)), (''state_path'', JStr (ir_state r)), (''created_at'', JStr (ir_created r))]"

definition index_text_fields :: "string list" where
  "index_text_fields = [''key_hash'', ''request_fingerprint'', ''build_id'', ''execution_id'', ''execution_path'', ''state_path'',
    ''created_at'']"

definition index_sha256 :: "string \<Rightarrow> string \<Rightarrow> raised + string" where
  "index_sha256 value field =
    (if sha_text value then Inr value else Inl (index_fault (field @ '' must be a lowercase SHA-256 digest'')))"

definition path_inside :: "string \<Rightarrow> string \<Rightarrow> bool" where
  "path_inside inner outer \<longleftrightarrow> is_within (path_parts (pure_path inner)) (path_parts (pure_path outer))"

definition index_of_json :: "json \<Rightarrow> raised + index_record" where
  "index_of_json payload =
    (case payload of
       JObj d \<Rightarrow>
         (let r = \<lparr>ir_key_hash = text_or_empty ''key_hash'' d, ir_fingerprint = text_or_empty ''request_fingerprint'' d,
              ir_build = text_or_empty ''build_id'' d, ir_execution = text_or_empty ''execution_id'' d,
              ir_path = text_or_empty ''execution_path'' d, ir_state = text_or_empty ''state_path'' d,
              ir_created = text_or_empty ''created_at'' d\<rparr>
          in sbind (check_that (exact_fields (''schema_version'' # index_text_fields) d)
               (index_fault ''Idempotency record fields are invalid'')) (\<lambda>_.
             sbind (check_that (all_text index_text_fields d) (index_fault ''Idempotency record field types are invalid'')) (\<lambda>_.
             sbind (check_that (version_one d) (index_fault ''Idempotency record version is invalid'')) (\<lambda>_.
             sbind (index_sha256 (ir_key_hash r) ''key_hash'') (\<lambda>_.
             sbind (index_sha256 (ir_fingerprint r) ''request_fingerprint'') (\<lambda>_.
             sbind (check_that (ir_build r \<noteq> [] \<and> ir_execution r \<noteq> []) (index_fault ''Idempotency execution identity is invalid'')) (\<lambda>_.
             sbind (check_that (startswith (ir_path r) ''/'' \<and> startswith (ir_state r) ''/'')
               (index_fault ''Idempotency execution references are invalid'')) (\<lambda>_.
             sbind (check_that (path_inside (ir_state r) (ir_path r)) (index_fault ''Idempotency state reference escapes execution'')) (\<lambda>_.
               Inr r)))))))))
     | _ \<Rightarrow> Inl (index_fault ''Idempotency record fields are invalid''))"

section \<open>The index\<close>

definition normalize_idempotency_key :: "string \<Rightarrow> raised + string" where
  "normalize_idempotency_key value =
    (if value = [] \<or> value \<noteq> strip value \<or> CHR 0x00 \<in> set value \<or> 512 < py_len value
     then Inl (index_fault ''Idempotency key is invalid'') else Inr value)"

definition index_path :: "string list \<Rightarrow> string \<Rightarrow> raised + (string \<times> string list)" where
  "index_path data key =
    sbind (normalize_idempotency_key key) (\<lambda>normal.
      (let hash = sha256_hex normal in Inr (hash, data @ [''idempotency'', json_name hash])))"

definition lookup_key :: "string list \<Rightarrow> data_files \<Rightarrow> string \<Rightarrow> string \<Rightarrow> raised + index_record option" where
  "lookup_key data files key fingerprint =
    sbind (index_path data key) (\<lambda>(hash, path).
      (case map_of files path of
         None \<Rightarrow> Inr None
       | Some content \<Rightarrow>
           (case read_stored content of
              None \<Rightarrow> Inl (index_fault ''Idempotency record is unreadable'')
            | Some payload \<Rightarrow>
                sbind (index_of_json payload) (\<lambda>r.
                sbind (check_that (ir_key_hash r = hash) (index_fault ''Idempotency record key hash is invalid'')) (\<lambda>_.
                sbind (index_sha256 fingerprint ''request_fingerprint'') (\<lambda>_.
                sbind (check_that (ir_fingerprint r = fingerprint) key_conflict) (\<lambda>_. Inr (Some r))))))))"

definition lookup_before_resolution :: "string list \<Rightarrow> data_files \<Rightarrow> string \<Rightarrow> json \<Rightarrow> raised + index_record option" where
  "lookup_before_resolution data files key payload = lookup_key data files key (fingerprint_request payload)"

text \<open>The execution path is absolute and resolved; the state path is the default.\<close>

definition bind_key ::
  "string list \<Rightarrow> string \<Rightarrow> string \<Rightarrow> string \<Rightarrow> string \<Rightarrow> string \<Rightarrow> string list \<Rightarrow> data_files \<Rightarrow>
    (raised + (index_record \<times> bool)) \<times> data_files" where
  "bind_key data now key fingerprint build execution path files =
    (case sbind (index_path data key) (\<lambda>hp. sbind (index_sha256 fingerprint ''request_fingerprint'') (\<lambda>_.
          sbind (lookup_key data files key fingerprint) (\<lambda>old. Inr (hp, old)))) of
       Inl e \<Rightarrow> (Inl e, files)
     | Inr (_, Some r) \<Rightarrow> (Inr (r, False), files)
     | Inr ((hash, place), None) \<Rightarrow>
         (let r = \<lparr>ir_key_hash = hash, ir_fingerprint = fingerprint, ir_build = build, ir_execution = execution,
                ir_path = show_path path, ir_state = show_path (path @ [''state.json'']), ir_created = now\<rparr>
          in (Inr (r, True), AList.update place (Json_file (index_json r)) files)))"

section \<open>A key stays bound\<close>

definition index_ok :: "index_record \<Rightarrow> bool" where
  "index_ok r \<longleftrightarrow> sha_text (ir_key_hash r) \<and> sha_text (ir_fingerprint r) \<and> ir_build r \<noteq> [] \<and> ir_execution r \<noteq> [] \<and>
    startswith (ir_path r) ''/'' \<and> startswith (ir_state r) ''/'' \<and> path_inside (ir_state r) (ir_path r)"

lemma index_roundtrip:
  assumes "index_ok r"
  shows "\<exists>payload. read_stored (Json_file (index_json r)) = Some payload \<and> index_of_json payload = Inr r"
proof -
  obtain d where d: "index_json r = JObj d" "map_of d ''schema_version'' = Some (JInt 1)"
    "exact_fields (''schema_version'' # index_text_fields) d" "all_text index_text_fields d"
    "text_or_empty ''key_hash'' d = ir_key_hash r" "text_or_empty ''request_fingerprint'' d = ir_fingerprint r"
    "text_or_empty ''build_id'' d = ir_build r" "text_or_empty ''execution_id'' d = ir_execution r"
    "text_or_empty ''execution_path'' d = ir_path r" "text_or_empty ''state_path'' d = ir_state r"
    "text_or_empty ''created_at'' d = ir_created r"
    by (simp add: index_json_def exact_fields_def index_text_fields_def all_text_def text_field_def text_or_empty_def)
  have "index_of_json (JObj (read_members d)) = Inr r"
    using assms d(2-11) by (simp add: index_of_json_def index_ok_def index_sha256_def Let_def)
  then show ?thesis using d(1) by simp
qed

definition bound_key :: "string list \<Rightarrow> data_files \<Rightarrow> string \<Rightarrow> index_record \<Rightarrow> bool" where
  "bound_key data files key r \<longleftrightarrow>
    index_ok r \<and> (\<exists>path. index_path data key = Inr (ir_key_hash r, path) \<and> map_of files path = Some (Json_file (index_json r)))"

lemma lookup_bound:
  assumes "bound_key data files key r" "sha_text fingerprint"
  shows "lookup_key data files key fingerprint = (if ir_fingerprint r = fingerprint then Inr (Some r) else Inl key_conflict)"
  using assms index_roundtrip [of r] by (auto simp: bound_key_def lookup_key_def index_sha256_def)

lemma path_inside_child: "list_all plain_name p \<Longrightarrow> plain_name n \<Longrightarrow> path_inside (show_path (p @ [n])) (show_path p)"
  by (simp add: path_inside_def is_within_def parts_show)

lemma bind_outcome:
  assumes "index_path data key = Inr (hash, place)" "sha_text fingerprint" "map_of files place = None"
    and "build \<noteq> []" "execution \<noteq> []" "list_all plain_name path"
    and "bind_key data now key fingerprint build execution path files = (res, files')"
  obtains r where "res = Inr (r, True)" "ir_fingerprint r = fingerprint" "ir_execution r = execution" "ir_path r = show_path path"
    "bound_key data files' key r"
proof -
  define r where "r = \<lparr>ir_key_hash = hash, ir_fingerprint = fingerprint, ir_build = build, ir_execution = execution,
    ir_path = show_path path, ir_state = show_path (path @ [''state.json'']), ir_created = now\<rparr>"
  have res: "res = Inr (r, True)" "files' = AList.update place (Json_file (index_json r)) files"
    using assms(1-3,7) by (simp_all add: bind_key_def lookup_key_def index_sha256_def r_def Let_def)
  have hash: "sha_text hash" using assms(1) by (auto simp: index_path_def sbind_eq_Inr Let_def)
  have "path_inside (show_path (path @ [''state.json''])) (show_path path)"
    using assms(6) by (rule path_inside_child) (simp add: plain_name_def)
  then have "index_ok r" using assms(2,4,5) hash by (simp add: index_ok_def r_def show_path_def startswith_def)
  then have "bound_key data files' key r" using assms(1) res(2) by (simp add: bound_key_def map_of_update) (simp add: r_def)
  then show thesis using that [of r] res(1) by (simp add: r_def)
qed

text \<open>Whatever is bound later, the binding of a key does not change.\<close>

lemma bind_keeps:
  assumes "bound_key data files key r"
  shows "bound_key data (snd (bind_key data now other fingerprint build execution path files)) key r"
proof -
  obtain place where place: "index_path data key = Inr (ir_key_hash r, place)" "map_of files place = Some (Json_file (index_json r))"
    using assms by (auto simp: bound_key_def)
  have "map_of (snd (bind_key data now other fingerprint build execution path files)) place = map_of files place"
    using place(2)
    by (auto simp: bind_key_def lookup_key_def sbind_eq_Inr sbind_eq_Inl map_of_update Let_def
        split: sum.split prod.split option.split option.split_asm)
  then show ?thesis using assms place by (auto simp: bound_key_def)
qed

end
