(* ===== verification/Build_Manifest.thy ===== *)
theory Build_Manifest
  imports Build_Registry
begin

text \<open>
  Terminal manifests (\<open>builder/terminal_manifest.py\<close>): the files of an execution are hashed into one
  document, and a terminal state counts only while every listed file still has its size and hash.
  Directories are the prefixes of file paths, so an empty directory counts as missing.
\<close>

section \<open>Paths of artifacts\<close>

definition manifest_fault :: "string \<Rightarrow> raised" where
  "manifest_fault message = plain_error ''TerminalManifestError'' message"

definition manifest_name :: string where
  "manifest_name = ''terminal-manifest.json''"

definition manifest_task_id :: "string \<Rightarrow> raised + string" where
  "manifest_task_id value = (if safe_identifier value then Inr value else Inl (manifest_fault ''Expected task ID is unsafe''))"

definition task_id_of_json :: "json \<Rightarrow> raised + string" where
  "task_id_of_json v = (case v of JStr s \<Rightarrow> manifest_task_id s | _ \<Rightarrow> Inl (manifest_fault ''Expected task ID is unsafe''))"

definition relative_text :: "string \<Rightarrow> raised + string" where
  "relative_text value =
    (let supplied = slashes value; parts = path_parts (pure_path supplied);
         normalized = (if parts = [] then ''.'' else join ''/'' parts)
     in if supplied = [] \<or> supplied \<noteq> strip supplied \<or> CHR 0x00 \<in> set supplied \<or> startswith supplied ''/'' \<or>
           windows_anchored value \<or> CHR '':'' \<in> set supplied \<or> ''..'' \<in> set parts \<or>
           list_ex (\<lambda>p. endswith p ''.'' \<or> endswith p '' '' \<or> is_windows_reserved p) parts
        then Inl (manifest_fault ''Manifest artifact path is unsafe'')
        else if normalized = manifest_name \<or> normalized = ''state.json''
        then Inl (manifest_fault ''Manifest cannot hash itself or terminal state'')
        else Inr normalized)"

definition artifact_path :: "string list \<Rightarrow> string \<Rightarrow> string list" where
  "artifact_path base relative = base @ path_parts (pure_path relative)"

definition stored_below :: "data_files \<Rightarrow> string list \<Rightarrow> string list list" where
  "stored_below files p = filter (strict_prefix p) (map fst files)"

definition expand_artifact :: "data_files \<Rightarrow> string list \<Rightarrow> string \<Rightarrow> raised + string list" where
  "expand_artifact files base supplied =
    sbind (relative_text supplied) (\<lambda>relative.
      (let p = artifact_path base relative
       in if map_of files p \<noteq> None then Inr [relative]
          else if stored_below files p = [] then Inl (manifest_fault ''Required terminal artifact is missing'')
          else Inr (sort (map (\<lambda>q. join ''/'' (drop (length base) q)) (stored_below files p)))))"

section \<open>Records\<close>

record artifact_paths =
  tp_result :: string
  tp_evidence :: "string list"

record artifact_entry =
  ma_path :: string
  ma_size :: nat
  ma_sha256 :: string

record task_artifacts =
  mt_task :: string
  mt_result :: string
  mt_evidence :: "string list"

record terminal_manifest =
  mf_build :: string
  mf_execution :: string
  mf_created :: string
  mf_expected :: "string list"
  mf_authority :: "string list"
  mf_tasks :: "task_artifacts list"
  mf_artifacts :: "artifact_entry list"

definition task_artifacts_json :: "task_artifacts \<Rightarrow> json" where
  "task_artifacts_json t = JObj [(''task_id'', JStr (mt_task t)), (''result_path'', JStr (mt_result t)),
    (''evidence_paths'', strings_json (mt_evidence t))]"

definition artifact_entry_json :: "artifact_entry \<Rightarrow> json" where
  "artifact_entry_json a = JObj [(''path'', JStr (ma_path a)), (''size'', JInt (int (ma_size a))), (''sha256'', JStr (ma_sha256 a))]"

definition terminal_manifest_json :: "terminal_manifest \<Rightarrow> json" where
  "terminal_manifest_json m = JObj [(''schema_version'', JInt 1), (''build_id'', JStr (mf_build m)),
    (''execution_id'', JStr (mf_execution m)), (''created_at'', JStr (mf_created m)),
    (''expected_task_ids'', strings_json (mf_expected m)), (''authority_artifacts'', strings_json (mf_authority m)),
    (''tasks'', JList (map task_artifacts_json (mf_tasks m))), (''artifacts'', JList (map artifact_entry_json (mf_artifacts m)))]"

section \<open>Reading a manifest\<close>

definition result_path_of :: "string \<Rightarrow> string" where
  "result_path_of t = ''results/'' @ t @ ''.json''"

definition evidence_prefix :: "string \<Rightarrow> string" where
  "evidence_prefix t = ''evidence/'' @ t @ ''/''"

definition list_at :: "string \<Rightarrow> jdict \<Rightarrow> json list option" where
  "list_at name d = (case map_of d name of Some (JList xs) \<Rightarrow> Some xs | _ \<Rightarrow> None)"

definition task_artifacts_of :: "json \<Rightarrow> raised + task_artifacts" where
  "task_artifacts_of item =
    (case item of
       JObj d \<Rightarrow>
         sbind (check_that (exact_fields [''task_id'', ''result_path'', ''evidence_paths''] d)
           (manifest_fault ''Terminal manifest task record is invalid'')) (\<lambda>_.
         (case list_at ''evidence_paths'' d of
            None \<Rightarrow> Inl (manifest_fault ''Terminal task evidence list is invalid'')
          | Some [] \<Rightarrow> Inl (manifest_fault ''Terminal task evidence list is invalid'')
          | Some es \<Rightarrow>
              sbind (task_id_of_json (dget ''task_id'' JNull d)) (\<lambda>t.
              sbind (relative_text (py_str (dget ''result_path'' JNull d))) (\<lambda>r.
              sbind (smap (\<lambda>e. relative_text (py_str e)) es) (\<lambda>paths.
              sbind (check_that (r = result_path_of t) (manifest_fault ''Terminal task result path is invalid'')) (\<lambda>_.
              sbind (check_that (list_all (\<lambda>p. startswith p (evidence_prefix t)) paths)
                (manifest_fault ''Terminal task evidence path is invalid'')) (\<lambda>_.
                Inr \<lparr>mt_task = t, mt_result = r, mt_evidence = paths\<rparr>)))))))
     | _ \<Rightarrow> Inl (manifest_fault ''Terminal manifest task record is invalid''))"

fun artifacts_of :: "string list \<Rightarrow> json list \<Rightarrow> raised + artifact_entry list" where
  "artifacts_of seen [] = Inr []"
| "artifacts_of seen (item # items) =
    (case item of
       JObj d \<Rightarrow>
         sbind (check_that (exact_fields [''path'', ''size'', ''sha256''] d)
           (manifest_fault ''Terminal manifest artifact record is invalid'')) (\<lambda>_.
         sbind (relative_text (py_str (dget ''path'' JNull d))) (\<lambda>p.
         sbind (check_that (p \<notin> set seen) (manifest_fault ''Terminal manifest artifact paths are duplicated'')) (\<lambda>_.
           (case (dget ''size'' JNull d, dget ''sha256'' JNull d) of
              (JInt n, JStr h) \<Rightarrow>
                if n < 0 then Inl (manifest_fault ''Terminal artifact size is invalid'')
                else if \<not> sha_text h then Inl (manifest_fault ''Terminal artifact hash is invalid'')
                else sbind (artifacts_of (p # seen) items) (\<lambda>rest. Inr (\<lparr>ma_path = p, ma_size = nat n, ma_sha256 = h\<rparr> # rest))
            | (JInt n, _) \<Rightarrow> Inl (manifest_fault (if n < 0 then ''Terminal artifact size is invalid'' else ''Terminal artifact hash is invalid''))
            | _ \<Rightarrow> Inl (manifest_fault ''Terminal artifact size is invalid'')))))
     | _ \<Rightarrow> Inl (manifest_fault ''Terminal manifest artifact record is invalid''))"

definition manifest_fields :: "string list" where
  "manifest_fields = [''schema_version'', ''build_id'', ''execution_id'', ''created_at'', ''expected_task_ids'',
    ''authority_artifacts'', ''tasks'', ''artifacts'']"

definition manifest_of_json :: "json \<Rightarrow> raised + terminal_manifest" where
  "manifest_of_json payload =
    (case payload of
       JObj d \<Rightarrow>
         sbind (check_that (exact_fields manifest_fields d) (manifest_fault ''Terminal manifest fields are invalid'')) (\<lambda>_.
         sbind (check_that (version_one d) (manifest_fault ''Terminal manifest version is invalid'')) (\<lambda>_.
         sbind (check_that (list_all (\<lambda>n. text_or_empty n d \<noteq> []) [''build_id'', ''execution_id'', ''created_at''])
           (manifest_fault ''Terminal manifest identity is invalid'')) (\<lambda>_.
         (case (list_at ''expected_task_ids'' d, list_at ''authority_artifacts'' d, list_at ''tasks'' d) of
            (Some ids, Some authority, Some tasks) \<Rightarrow>
              (case list_at ''artifacts'' d of
                 None \<Rightarrow> Inl (manifest_fault ''Terminal manifest artifact data is invalid'')
               | Some artifacts \<Rightarrow>
                   sbind (smap task_id_of_json ids) (\<lambda>expected.
                   sbind (check_that (distinct expected \<and> expected \<noteq> [])
                     (manifest_fault ''Terminal manifest expected task IDs are invalid'')) (\<lambda>_.
                   sbind (smap (\<lambda>p. relative_text (py_str p)) authority) (\<lambda>authority_paths.
                   sbind (check_that (distinct authority_paths) (manifest_fault ''Terminal authority artifacts are duplicated'')) (\<lambda>_.
                   sbind (smap task_artifacts_of tasks) (\<lambda>records.
                   sbind (check_that (map mt_task records = expected)
                     (manifest_fault ''Terminal task records do not match expected tasks'')) (\<lambda>_.
                   sbind (artifacts_of [] artifacts) (\<lambda>entries.
                   sbind (check_that (entries \<noteq> []) (manifest_fault ''Terminal manifest has no artifacts'')) (\<lambda>_.
                     Inr \<lparr>mf_build = text_or_empty ''build_id'' d, mf_execution = text_or_empty ''execution_id'' d,
                       mf_created = text_or_empty ''created_at'' d, mf_expected = expected, mf_authority = authority_paths,
                       mf_tasks = records, mf_artifacts = entries\<rparr>)))))))))
          | _ \<Rightarrow> Inl (manifest_fault ''Terminal manifest task data is invalid'')))))
     | _ \<Rightarrow> Inl (manifest_fault ''Terminal manifest fields are invalid''))"

section \<open>Writing\<close>

definition write_task :: "data_files \<Rightarrow> string list \<Rightarrow> (string, artifact_paths) dict \<Rightarrow> string \<Rightarrow> raised + task_artifacts" where
  "write_task files base paths t =
    (case map_of paths t of
       None \<Rightarrow> Inl (plain_error ''KeyError'' t)
     | Some given \<Rightarrow>
         sbind (relative_text (tp_result given)) (\<lambda>r.
         sbind (check_that (r = result_path_of t) (manifest_fault ''Task result path does not match its task ID'')) (\<lambda>_.
         sbind (expand_artifact files base r) (\<lambda>expanded.
         sbind (check_that (expanded = [r]) (manifest_fault ''Task result must be one file'')) (\<lambda>_.
         sbind (check_that (tp_evidence given \<noteq> []) (manifest_fault ''Every expected task must have evidence'')) (\<lambda>_.
         sbind (smap (\<lambda>e. sbind (expand_artifact files base e) (\<lambda>es.
             sbind (check_that (list_all (\<lambda>x. startswith x (evidence_prefix t)) es)
               (manifest_fault ''Task evidence path does not match its task ID'')) (\<lambda>_. Inr es))) (tp_evidence given)) (\<lambda>found.
           Inr \<lparr>mt_task = t, mt_result = r, mt_evidence = sorted_set (concat found)\<rparr>)))))))"

definition hash_artifact :: "data_files \<Rightarrow> string list \<Rightarrow> string \<Rightarrow> raised + artifact_entry" where
  "hash_artifact files base relative =
    (case map_of files (artifact_path base relative) of
       None \<Rightarrow> Inl (manifest_fault (if stored_below files (artifact_path base relative) = []
         then ''Required terminal artifact is missing'' else ''Terminal manifest artifacts must be files''))
     | Some content \<Rightarrow> Inr \<lparr>ma_path = relative, ma_size = length (stored_bytes content), ma_sha256 = sha256_hex (stored_bytes content)\<rparr>)"

definition execution_exists :: "data_files \<Rightarrow> string list \<Rightarrow> bool" where
  "execution_exists files base \<longleftrightarrow> stored_below files base \<noteq> []"

definition collect_manifest ::
  "string \<Rightarrow> data_files \<Rightarrow> string list \<Rightarrow> string \<Rightarrow> string \<Rightarrow> string list \<Rightarrow> (string, artifact_paths) dict \<Rightarrow> string list \<Rightarrow>
    string list \<Rightarrow> raised + terminal_manifest" where
  "collect_manifest now files base build execution ids paths required authority =
    sbind (check_that (execution_exists files base) (manifest_fault ''Execution root is unsafe'')) (\<lambda>_.
    sbind (smap manifest_task_id ids) (\<lambda>expected.
    sbind (check_that (expected \<noteq> [] \<and> distinct expected) (manifest_fault ''Expected task IDs must be non-empty and unique'')) (\<lambda>_.
    sbind (check_that (set (map fst paths) = set expected)
      (manifest_fault ''Every expected task must have result and evidence paths'')) (\<lambda>_.
    sbind (smap (write_task files base paths) expected) (\<lambda>tasks.
    sbind (smap (expand_artifact files base) required) (\<lambda>needed.
    sbind (smap (expand_artifact files base) authority) (\<lambda>expanded.
    sbind (check_that (distinct (concat expanded)) (manifest_fault ''Terminal authority artifacts are duplicated'')) (\<lambda>_.
      (let all = sorted_set (map mt_result tasks @ concat (map mt_evidence tasks) @ concat needed @ concat expanded)
       in sbind (smap (hash_artifact files base) all) (\<lambda>entries.
            Inr \<lparr>mf_build = build, mf_execution = execution, mf_created = now, mf_expected = expected,
              mf_authority = concat expanded, mf_tasks = tasks, mf_artifacts = entries\<rparr>))))))))))"

definition stored_manifest :: "terminal_manifest \<Rightarrow> stored" where
  "stored_manifest m = Json_file (terminal_manifest_json m)"

definition write_terminal_manifest ::
  "string \<Rightarrow> data_files \<Rightarrow> string list \<Rightarrow> string \<Rightarrow> string \<Rightarrow> string list \<Rightarrow> (string, artifact_paths) dict \<Rightarrow> string list \<Rightarrow>
    string list \<Rightarrow> (raised + (string \<times> terminal_manifest)) \<times> data_files" where
  "write_terminal_manifest now files base build execution ids paths required authority =
    (case collect_manifest now files base build execution ids paths required authority of
       Inl e \<Rightarrow> (Inl e, files)
     | Inr m \<Rightarrow> (Inr (sha256_hex (stored_bytes (stored_manifest m)), m),
         AList.update (base @ [manifest_name]) (stored_manifest m) files))"

section \<open>Verifying\<close>

definition artifact_errors :: "data_files \<Rightarrow> string list \<Rightarrow> artifact_entry \<Rightarrow> string list" where
  "artifact_errors files base a =
    (case map_of files (artifact_path base (ma_path a)) of
       None \<Rightarrow> [''terminal artifact is missing or unsafe: '' @ ma_path a]
     | Some content \<Rightarrow>
         emit (length (stored_bytes content) \<noteq> ma_size a) (''terminal artifact size mismatch: '' @ ma_path a) @
         emit (sha256_hex (stored_bytes content) \<noteq> ma_sha256 a) (''terminal artifact hash mismatch: '' @ ma_path a))"

definition task_errors :: "string list \<Rightarrow> task_artifacts \<Rightarrow> string list" where
  "task_errors hashed t =
    emit (mt_result t \<notin> set hashed) (''task result is not hashed: '' @ mt_task t) @
    emit (mt_evidence t = [] \<or> \<not> set (mt_evidence t) \<subseteq> set hashed) (''task evidence is not fully hashed: '' @ mt_task t)"

definition record_errors :: "data_files \<Rightarrow> string list \<Rightarrow> terminal_manifest \<Rightarrow> string list" where
  "record_errors files base m =
    (let hashed = map ma_path (mf_artifacts m)
     in emit (\<not> set (mf_authority m) \<subseteq> set hashed) ''terminal authority evidence is not fully hashed'' @
        for_each (mf_tasks m) (task_errors hashed) @ for_each (mf_artifacts m) (artifact_errors files base))"

definition expected_errors :: "string list option \<Rightarrow> terminal_manifest \<Rightarrow> raised + string list" where
  "expected_errors ids m =
    (case ids of
       None \<Rightarrow> Inr []
     | Some xs \<Rightarrow> sbind (smap manifest_task_id xs) (\<lambda>expected.
         Inr (emit (mf_expected m \<noteq> expected) ''terminal manifest expected task mismatch'')))"

text \<open>The errors in the order of the code, and the record as far as it could be read.\<close>

definition verify_terminal_manifest ::
  "data_files \<Rightarrow> string list \<Rightarrow> string \<Rightarrow> string list option \<Rightarrow> string list \<times> terminal_manifest option" where
  "verify_terminal_manifest files base expected_sha ids =
    (if \<not> sha_text expected_sha then ([''Expected terminal manifest hash is invalid''], None)
     else if \<not> execution_exists files base then ([''Execution root is unsafe''], None)
     else (case map_of files (base @ [manifest_name]) of
         None \<Rightarrow> ([''Terminal manifest is missing or unsafe''], None)
       | Some content \<Rightarrow>
           (let changed = emit (sha256_hex (stored_bytes content) \<noteq> expected_sha) ''terminal manifest hash mismatch''
            in case read_stored content of
                 None \<Rightarrow> (changed @ [''Terminal manifest JSON is invalid''], None)
               | Some payload \<Rightarrow>
                   (case manifest_of_json payload of
                      Inl e \<Rightarrow> (changed @ [ex_text e], None)
                    | Inr m \<Rightarrow>
                        (case expected_errors ids m of
                           Inl e \<Rightarrow> (changed @ [ex_text e], Some m)
                         | Inr mismatch \<Rightarrow> (changed @ mismatch @ record_errors files base m, Some m))))))"

definition require_valid_manifest :: "data_files \<Rightarrow> string list \<Rightarrow> string \<Rightarrow> string list option \<Rightarrow> raised + terminal_manifest" where
  "require_valid_manifest files base expected_sha ids =
    (case verify_terminal_manifest files base expected_sha ids of
       ([], Some m) \<Rightarrow> Inr m
     | (errors, _) \<Rightarrow> Inl (manifest_fault (''Terminal manifest reconciliation failed: '' @
         (if errors = [] then ''unknown verification failure'' else join ''; '' errors))))"

section \<open>A manifest read back\<close>

lemma read_object:
  assumes "n \<le> max_depth"
  obtains d' where "copy_value (normalize_json_safe n (JObj d)) = JObj d'"
    "\<And>k. map_of d' k = map_option (\<lambda>v. copy_value (normalize_json_safe (Suc n) v)) (map_of d k)" "fst ` set d' = fst ` set d"
proof
  let ?d = "map (\<lambda>(k, v). (k, normalize_json_safe (Suc n) v)) d"
  show "copy_value (normalize_json_safe n (JObj d)) = JObj (stored_keys ?d)"
    using assms by (simp add: copy_object del: copy_value.simps)
  have "map_of ?d k = map_option (normalize_json_safe (Suc n)) (map_of d k)" for k by (induction d) auto
  then show "map_of (stored_keys ?d) k = map_option (\<lambda>v. copy_value (normalize_json_safe (Suc n) v)) (map_of d k)" for k
    by (simp add: map_of_stored option.map_comp comp_def)
  show "fst ` set (stored_keys ?d) = fst ` set d" by (force simp: stored_keys_def)
qed

lemma exact_fields_same: "fst ` set d' = fst ` set d \<Longrightarrow> exact_fields names d' = exact_fields names d"
  by (simp add: exact_fields_keys)

lemma read_atoms:
  "n \<le> max_depth \<Longrightarrow> copy_value (normalize_json_safe n (JStr s)) = JStr s"
  "n \<le> max_depth \<Longrightarrow> copy_value (normalize_json_safe n (JInt i)) = JInt i"
  "n < max_depth \<Longrightarrow> copy_value (normalize_json_safe n (strings_json xs)) = strings_json xs"
  "n \<le> max_depth \<Longrightarrow> copy_value (normalize_json_safe n (JList (map f ys))) =
    JList (map (\<lambda>y. copy_value (normalize_json_safe (Suc n) (f y))) ys)"
  by (simp_all add: strings_json_def)

definition stable_path :: "string \<Rightarrow> bool" where
  "stable_path s \<longleftrightarrow> relative_text s = Inr s"

definition task_artifacts_ok :: "task_artifacts \<Rightarrow> bool" where
  "task_artifacts_ok t \<longleftrightarrow> safe_identifier (mt_task t) \<and> mt_result t = result_path_of (mt_task t) \<and> stable_path (mt_result t) \<and>
    mt_evidence t \<noteq> [] \<and> list_all (\<lambda>p. stable_path p \<and> startswith p (evidence_prefix (mt_task t))) (mt_evidence t)"

definition artifact_ok :: "artifact_entry \<Rightarrow> bool" where
  "artifact_ok a \<longleftrightarrow> stable_path (ma_path a) \<and> sha_text (ma_sha256 a)"

definition terminal_manifest_ok :: "terminal_manifest \<Rightarrow> bool" where
  "terminal_manifest_ok m \<longleftrightarrow> mf_build m \<noteq> [] \<and> mf_execution m \<noteq> [] \<and> mf_created m \<noteq> [] \<and>
    distinct (mf_expected m) \<and> mf_expected m \<noteq> [] \<and> list_all safe_identifier (mf_expected m) \<and>
    list_all stable_path (mf_authority m) \<and> distinct (mf_authority m) \<and>
    map mt_task (mf_tasks m) = mf_expected m \<and> list_all task_artifacts_ok (mf_tasks m) \<and>
    mf_artifacts m \<noteq> [] \<and> distinct (map ma_path (mf_artifacts m)) \<and> list_all artifact_ok (mf_artifacts m)"

lemma stable_smap: "list_all stable_path ps \<Longrightarrow> smap (\<lambda>e. relative_text (py_str e)) (map JStr ps) = Inr ps"
  by (induction ps) (simp_all add: stable_path_def py_str_def)

lemma task_artifacts_read:
  assumes "task_artifacts_ok t" "Suc (Suc n) \<le> max_depth"
  shows "task_artifacts_of (copy_value (normalize_json_safe n (task_artifacts_json t))) = Inr t"
proof -
  obtain d where d: "task_artifacts_json t = JObj d" "map_of d ''task_id'' = Some (JStr (mt_task t))"
    "map_of d ''result_path'' = Some (JStr (mt_result t))" "map_of d ''evidence_paths'' = Some (strings_json (mt_evidence t))"
    "exact_fields [''task_id'', ''result_path'', ''evidence_paths''] d"
    by (simp add: task_artifacts_json_def exact_fields_def)
  have n: "n \<le> max_depth" "Suc n \<le> max_depth" "Suc n < max_depth" using assms(2) by simp_all
  obtain d' where d': "copy_value (normalize_json_safe n (JObj d)) = JObj d'"
    "\<And>k. map_of d' k = map_option (\<lambda>v. copy_value (normalize_json_safe (Suc n) v)) (map_of d k)" "fst ` set d' = fst ` set d"
    using read_object [OF n(1)] by blast
  have at: "map_of d' ''task_id'' = Some (JStr (mt_task t))" "map_of d' ''result_path'' = Some (JStr (mt_result t))"
    "map_of d' ''evidence_paths'' = Some (strings_json (mt_evidence t))"
    unfolding d'(2) d(2-4) option.map read_atoms(1) [OF n(2)] read_atoms(3) [OF n(3)] by (rule refl)+
  obtain e es where es: "mt_evidence t = e # es" using assms(1) by (cases "mt_evidence t") (simp_all add: task_artifacts_ok_def)
  have "smap (\<lambda>e. relative_text (py_str e)) (map JStr (mt_evidence t)) = Inr (mt_evidence t)"
    using assms(1) by (intro stable_smap) (simp add: task_artifacts_ok_def list_all_iff)
  then have paths: "smap (\<lambda>e. relative_text (py_str e)) (JStr e # map JStr es) = Inr (mt_evidence t)"
    using es by simp
  have "list_at ''evidence_paths'' d' = Some (JStr e # map JStr es)"
    using at(3) es by (simp add: list_at_def strings_json_def)
  then have "task_artifacts_of (JObj d') = Inr t"
    using assms(1) paths exact_fields_same [OF d'(3)] d(5) at(1,2)
    by (cases t) (simp add: task_artifacts_of_def dget_def task_id_of_json_def manifest_task_id_def py_str_def task_artifacts_ok_def
      stable_path_def list_all_iff del: smap.simps)
  then show ?thesis unfolding d(1) d'(1) .
qed

lemma artifact_read:
  assumes "Suc (Suc n) \<le> max_depth"
  obtains d' where "copy_value (normalize_json_safe n (artifact_entry_json a)) = JObj d'" "exact_fields [''path'', ''size'', ''sha256''] d'"
    "dget ''path'' JNull d' = JStr (ma_path a)" "dget ''size'' JNull d' = JInt (int (ma_size a))" "dget ''sha256'' JNull d' = JStr (ma_sha256 a)"
proof -
  obtain d where d: "artifact_entry_json a = JObj d" "map_of d ''path'' = Some (JStr (ma_path a))"
    "map_of d ''size'' = Some (JInt (int (ma_size a)))" "map_of d ''sha256'' = Some (JStr (ma_sha256 a))"
    "exact_fields [''path'', ''size'', ''sha256''] d"
    by (simp add: artifact_entry_json_def exact_fields_def)
  have n: "n \<le> max_depth" "Suc n \<le> max_depth" using assms by simp_all
  obtain d' where d': "copy_value (normalize_json_safe n (JObj d)) = JObj d'"
    "\<And>k. map_of d' k = map_option (\<lambda>v. copy_value (normalize_json_safe (Suc n) v)) (map_of d k)" "fst ` set d' = fst ` set d"
    using read_object [OF n(1)] by blast
  show thesis
  proof (rule that [of d'])
    show "copy_value (normalize_json_safe n (artifact_entry_json a)) = JObj d'" unfolding d(1) by (rule d'(1))
    show "exact_fields [''path'', ''size'', ''sha256''] d'" using exact_fields_same [OF d'(3)] d(5) by simp
    show "dget ''path'' JNull d' = JStr (ma_path a)" "dget ''size'' JNull d' = JInt (int (ma_size a))"
      "dget ''sha256'' JNull d' = JStr (ma_sha256 a)"
      using read_atoms(1,2) [OF n(2)] by (simp_all add: dget_def d'(2) d(2-4))
  qed
qed

lemma artifacts_read:
  assumes "Suc (Suc n) \<le> max_depth"
  shows "list_all artifact_ok as \<Longrightarrow> distinct (map ma_path as) \<Longrightarrow> set seen \<inter> ma_path ` set as = {} \<Longrightarrow>
    artifacts_of seen (map (\<lambda>a. copy_value (normalize_json_safe n (artifact_entry_json a))) as) = Inr as"
proof (induction as arbitrary: seen)
  case (Cons a as)
  obtain d' where d': "copy_value (normalize_json_safe n (artifact_entry_json a)) = JObj d'" "exact_fields [''path'', ''size'', ''sha256''] d'"
    "dget ''path'' JNull d' = JStr (ma_path a)" "dget ''size'' JNull d' = JInt (int (ma_size a))" "dget ''sha256'' JNull d' = JStr (ma_sha256 a)"
    by (rule artifact_read [OF assms])
  have "artifacts_of (ma_path a # seen) (map (\<lambda>a. copy_value (normalize_json_safe n (artifact_entry_json a))) as) = Inr as"
    using Cons.prems by (intro Cons.IH) auto
  moreover have "relative_text (ma_path a) = Inr (ma_path a)" "sha_text (ma_sha256 a)" "ma_path a \<notin> set seen"
    using Cons.prems by (auto simp: artifact_ok_def stable_path_def)
  ultimately show ?case using d' by (simp add: py_str_def del: copy_value.simps)
qed simp

lemma manifest_roundtrip:
  assumes "terminal_manifest_ok m"
  shows "\<exists>payload. read_stored (stored_manifest m) = Some payload \<and> manifest_of_json payload = Inr m"
proof -
  have n: "1 \<le> max_depth" "1 < max_depth" "Suc (Suc (Suc 1)) \<le> max_depth" by (simp_all add: max_depth_def)
  obtain d where d: "terminal_manifest_json m = JObj d" "map_of d ''schema_version'' = Some (JInt 1)" "exact_fields manifest_fields d"
    "text_or_empty ''build_id'' d = mf_build m" "text_or_empty ''execution_id'' d = mf_execution m" "text_or_empty ''created_at'' d = mf_created m"
    "map_of d ''expected_task_ids'' = Some (strings_json (mf_expected m))"
    "map_of d ''authority_artifacts'' = Some (strings_json (mf_authority m))"
    "map_of d ''tasks'' = Some (JList (map task_artifacts_json (mf_tasks m)))"
    "map_of d ''artifacts'' = Some (JList (map artifact_entry_json (mf_artifacts m)))"
    by (simp add: terminal_manifest_json_def exact_fields_def manifest_fields_def text_or_empty_def text_field_def)
  let ?read = "\<lambda>v. copy_value (normalize_json_safe (Suc 1) v)"
  have lists: "list_at ''expected_task_ids'' (read_members d) = Some (map JStr (mf_expected m))"
    "list_at ''authority_artifacts'' (read_members d) = Some (map JStr (mf_authority m))"
    "list_at ''tasks'' (read_members d) = Some (map (\<lambda>t. ?read (task_artifacts_json t)) (mf_tasks m))"
    "list_at ''artifacts'' (read_members d) = Some (map (\<lambda>a. ?read (artifact_entry_json a)) (mf_artifacts m))"
    unfolding list_at_def map_of_read d(7-10) option.map read_atoms(3) [OF n(2)] read_atoms(4) [OF n(1)]
    by (simp_all add: strings_json_def del: copy_value.simps)
  have ids: "smap task_id_of_json (map JStr xs) = Inr xs" if "list_all safe_identifier xs" for xs
    using that by (induction xs) (simp_all add: task_id_of_json_def manifest_task_id_def)
  have tasks: "smap task_artifacts_of (map (\<lambda>t. ?read (task_artifacts_json t)) (mf_tasks m)) = Inr (mf_tasks m)"
  proof -
    have "smap task_artifacts_of (map (\<lambda>t. ?read (task_artifacts_json t)) ts) = Inr ts" if "list_all task_artifacts_ok ts" for ts
      using that task_artifacts_read [OF _ n(3)] by (induction ts) (simp_all del: copy_value.simps)
    then show ?thesis using assms by (simp add: terminal_manifest_ok_def del: copy_value.simps)
  qed
  have entries: "artifacts_of [] (map (\<lambda>a. ?read (artifact_entry_json a)) (mf_artifacts m)) = Inr (mf_artifacts m)"
    using assms by (intro artifacts_read [OF n(3)]) (simp_all add: terminal_manifest_ok_def)
  have authority: "smap (\<lambda>p. relative_text (py_str p)) (map JStr (mf_authority m)) = Inr (mf_authority m)"
    using assms by (intro stable_smap) (simp add: terminal_manifest_ok_def)
  have "manifest_of_json (JObj (read_members d)) = Inr m"
    unfolding manifest_of_json_def json.case lists option.case prod.case tasks entries authority
    using assms d(2-6) ids
    by (cases m) (simp add: terminal_manifest_ok_def text_or_empty_read tasks entries authority del: copy_value.simps)
  then show ?thesis using d(1) by (simp add: stored_manifest_def)
qed

section \<open>What is written verifies\<close>

definition safe_files :: "data_files \<Rightarrow> string list \<Rightarrow> bool" where
  "safe_files files base \<longleftrightarrow> (\<forall>p \<in> fst ` set files. strict_prefix base p \<longrightarrow>
    p \<notin> {base @ [manifest_name], base @ [''state.json'']} \<longrightarrow> stable_path (join ''/'' (drop (length base) p)))"

text \<open>The paths a manifest is asked to cover.\<close>

definition asked_paths :: "(string, artifact_paths) dict \<Rightarrow> string list \<Rightarrow> string list \<Rightarrow> string list" where
  "asked_paths paths required authority =
    concat (map (\<lambda>e. tp_result (snd e) # tp_evidence (snd e)) paths) @ required @ authority"

definition covering :: "data_files \<Rightarrow> string list \<Rightarrow> string \<Rightarrow> bool" where
  "covering files base s \<longleftrightarrow> stable_path s \<and> \<not> prefix (artifact_path base s) base"

lemma strict_prefix_parts: "strict_prefix (base @ ps) p \<Longrightarrow> strict_prefix base p"
  by (auto simp: strict_prefix_def prefix_def)

lemma expand_stable:
  assumes "expand_artifact files base s = Inr es" "covering files base s" "safe_files files base" "e \<in> set es"
  shows "stable_path e"
proof -
  have rel: "relative_text s = Inr s" using assms(2) by (simp add: covering_def stable_path_def)
  show ?thesis
  proof (cases "map_of files (artifact_path base s)")
    case (Some c)
    then show ?thesis using assms rel by (auto simp: expand_artifact_def covering_def)
  next
    case None
    then obtain q where q: "q \<in> set (stored_below files (artifact_path base s))" "e = join ''/'' (drop (length base) q)"
      using assms(1,4) rel by (auto simp: expand_artifact_def Let_def split: if_split_asm)
    then have "q \<in> fst ` set files" "strict_prefix (artifact_path base s) q" by (auto simp: stored_below_def)
    moreover have "path_parts (pure_path s) \<noteq> []" using assms(2) by (auto simp: covering_def artifact_path_def)
    moreover have "q \<noteq> base @ [n]" for n
      using calculation(2,3) by (auto simp: artifact_path_def strict_prefix_def prefix_def append_eq_Cons_conv Cons_eq_append_conv)
    ultimately show ?thesis using assms(3) q(2) strict_prefix_parts [of base "path_parts (pure_path s)" q]
      by (auto simp: safe_files_def artifact_path_def)
  qed
qed

lemma smap_in: "smap f xs = Inr ys \<Longrightarrow> x \<in> set xs \<Longrightarrow> \<exists>y \<in> set ys. f x = Inr y"
  by (induction xs arbitrary: ys) (auto simp: sbind_eq_Inr)

lemma expand_nonempty: "expand_artifact files base s = Inr es \<Longrightarrow> es \<noteq> []"
  by (auto simp: expand_artifact_def sbind_eq_Inr Let_def split: if_split_asm)

lemma write_task_ok:
  assumes "write_task files base paths t = Inr r" "safe_identifier t" "safe_files files base"
    and "\<And>s. s \<in> set (asked_paths paths required authority) \<Longrightarrow> covering files base s"
  shows "task_artifacts_ok r" "mt_task r = t"
proof -
  obtain given found where g: "map_of paths t = Some given" "relative_text (tp_result given) = Inr (mt_result r)"
    "mt_result r = result_path_of t" "tp_evidence given \<noteq> []" "r = \<lparr>mt_task = t, mt_result = mt_result r, mt_evidence = sorted_set (concat found)\<rparr>"
    and found: "smap (\<lambda>e. sbind (expand_artifact files base e) (\<lambda>es. sbind (check_that (list_all (\<lambda>x. startswith x (evidence_prefix t)) es)
               (manifest_fault ''Task evidence path does not match its task ID'')) (\<lambda>_. Inr es))) (tp_evidence given) = Inr found"
    using assms(1) by (auto simp: write_task_def sbind_eq_Inr split: option.split_asm)
  have "(t, given) \<in> set paths" using g(1) by (rule map_of_SomeD)
  then have asked: "tp_result given \<in> set (asked_paths paths required authority)" "set (tp_evidence given) \<subseteq> set (asked_paths paths required authority)"
    by (force simp: asked_paths_def)+
  show "mt_task r = t" using g(5) by (metis task_artifacts.select_convs(1))
  have result: "stable_path (mt_result r)"
    using assms(4) [OF asked(1)] g(2) by (simp add: covering_def stable_path_def)
  have ev: "stable_path p \<and> startswith p (evidence_prefix t)" if p: "p \<in> set (concat found)" for p
  proof -
    from p obtain es where es: "es \<in> set found" "p \<in> set es" by auto
    from smap_set [OF found es(1)] obtain e where e: "e \<in> set (tp_evidence given)" "expand_artifact files base e = Inr es"
      "list_all (\<lambda>x. startswith x (evidence_prefix t)) es" by (auto simp: sbind_eq_Inr)
    then show ?thesis using expand_stable [OF e(2) _ assms(3) es(2)] assms(4) asked(2) es(2) by (auto simp: list_all_iff)
  qed
  obtain e where "e \<in> set (tp_evidence given)" using g(4) by (cases "tp_evidence given") auto
  from smap_in [OF found this] obtain es where "es \<in> set found" "expand_artifact files base e = Inr es" by (auto simp: sbind_eq_Inr)
  then have "concat found \<noteq> []" using expand_nonempty by fastforce
  moreover have evidence: "mt_evidence r = sorted_set (concat found)" using g(5) by (metis task_artifacts.select_convs(3))
  ultimately show "task_artifacts_ok r"
    using assms(2) g(3) result ev \<open>mt_task r = t\<close> by (simp add: task_artifacts_ok_def list_all_iff)
qed

lemma for_each_empty: "for_each xs f = [] \<longleftrightarrow> (\<forall>x \<in> set xs. f x = [])"
  by (induction xs) auto

lemma collect_manifest_ok:
  assumes "collect_manifest now files base build execution ids paths required authority = Inr m"
    and "safe_files files base" "\<And>s. s \<in> set (asked_paths paths required authority) \<Longrightarrow> covering files base s"
    and "now \<noteq> []" "build \<noteq> []" "execution \<noteq> []"
  shows "terminal_manifest_ok m" "mf_expected m = ids" "smap manifest_task_id ids = Inr ids" "record_errors files base m = []"
proof -
  obtain expected tasks needed expanded entries where c:
    "smap manifest_task_id ids = Inr expected" "expected \<noteq> []" "distinct expected"
    "smap (write_task files base paths) expected = Inr tasks" "smap (expand_artifact files base) required = Inr needed"
    "smap (expand_artifact files base) authority = Inr expanded" "distinct (concat expanded)"
    "smap (hash_artifact files base) (sorted_set (map mt_result tasks @ concat (map mt_evidence tasks) @ concat needed @ concat expanded)) = Inr entries"
    and m: "m = \<lparr>mf_build = build, mf_execution = execution, mf_created = now, mf_expected = expected,
              mf_authority = concat expanded, mf_tasks = tasks, mf_artifacts = entries\<rparr>"
    using assms(1) by (auto simp: collect_manifest_def sbind_eq_Inr Let_def)
  let ?all = "sorted_set (map mt_result tasks @ concat (map mt_evidence tasks) @ concat needed @ concat expanded)"
  have ids: "expected = ids \<and> list_all safe_identifier ids"
    using c(1) by (induction ids arbitrary: expected) (auto simp: sbind_eq_Inr manifest_task_id_def split: if_split_asm)
  then show "mf_expected m = ids" "smap manifest_task_id ids = Inr ids" using c(1) m by simp_all
  have each: "list_all2 (\<lambda>t r. write_task files base paths t = Inr r) expected tasks" using c(4) by (simp add: smap_eq_Inr)
  have tasks: "list_all2 (\<lambda>t r. task_artifacts_ok r \<and> mt_task r = t) expected tasks"
    using each
  proof (rule list.rel_mono_strong)
    fix t r assume "t \<in> set expected" "r \<in> set tasks" "write_task files base paths t = Inr r"
    then show "task_artifacts_ok r \<and> mt_task r = t"
      using write_task_ok [OF _ _ assms(2) assms(3)] ids by (auto simp: list_all_iff)
  qed
  have names: "map mt_task tasks = expected" using tasks by (induction rule: list_all2_induct) auto
  have tasks_ok: "list_all task_artifacts_ok tasks" using tasks by (induction rule: list_all2_induct) auto
  have stable: "stable_path e" if "smap (expand_artifact files base) ss = Inr ess" "set ss \<subseteq> set (asked_paths paths required authority)"
    "e \<in> set (concat ess)" for ss ess e
    using that expand_stable [OF _ _ assms(2)] assms(3) by (fastforce dest: smap_set)
  have subs: "set required \<subseteq> set (asked_paths paths required authority)" "set authority \<subseteq> set (asked_paths paths required authority)"
    by (auto simp: asked_paths_def)
  have hashes: "list_all2 (\<lambda>p a. hash_artifact files base p = Inr a) ?all entries" using c(8) by (simp add: smap_eq_Inr)
  have entries: "map ma_path entries = ?all" "list_all (\<lambda>a. sha_text (ma_sha256 a) \<and> artifact_errors files base a = []) entries"
    using hashes
    by (induction rule: list_all2_induct) (auto simp: hash_artifact_def artifact_errors_def emit_def split: option.split_asm)
  have "stable_path p" if "p \<in> set ?all" for p
  proof -
    have "set ?all = set (map mt_result tasks @ concat (map mt_evidence tasks)) \<union> set (concat needed) \<union> set (concat expanded)"
      by (simp only: set_sorted_set set_append Un_assoc)
    with that consider "p \<in> set (map mt_result tasks @ concat (map mt_evidence tasks))" | "p \<in> set (concat needed)"
      | "p \<in> set (concat expanded)" by blast
    then show ?thesis
      using tasks_ok stable [OF c(5) subs(1), of p] stable [OF c(6) subs(2), of p]
      by cases (auto simp: task_artifacts_ok_def list_all_iff)
  qed
  then have "stable_path (ma_path a)" if "a \<in> set entries" for a
    using that unfolding entries(1) [symmetric] by simp
  then have all: "list_all artifact_ok entries" using entries(2) by (auto simp: artifact_ok_def list_all_iff)
  have "tasks \<noteq> []" using names c(2) by auto
  then have "set ?all \<noteq> {}" by (simp only: set_sorted_set) (cases tasks; simp)
  then have "set entries \<noteq> {}" using arg_cong [OF entries(1), of set] by auto
  then have "entries \<noteq> []" by simp
  then show "terminal_manifest_ok m"
    using assms(4-6) c(2,3,7) ids names tasks_ok all entries(1) stable [OF c(6) subs(2)] m
    by (simp add: terminal_manifest_ok_def distinct_sorted_set) (simp add: list_all_iff)
  have hashed: "set (map ma_path entries) = set ?all" using entries(1) by simp
  have "for_each tasks (task_errors (map ma_path entries)) = []"
  proof -
    have "task_errors (map ma_path entries) t = []" if "t \<in> set tasks" for t
      using that tasks_ok unfolding task_errors_def hashed by (auto simp: emit_def task_artifacts_ok_def list_all_iff)
    then show ?thesis unfolding for_each_empty by blast
  qed
  moreover have "for_each entries (artifact_errors files base) = []"
    using entries(2) unfolding for_each_empty list_all_iff by blast
  ultimately show "record_errors files base m = []"
    unfolding record_errors_def m Let_def terminal_manifest.simps hashed by (auto simp: emit_def)
qed

lemma set_join: "c \<in> set (join sep ws) \<Longrightarrow> c \<in> set sep \<or> (\<exists>w \<in> set ws. c \<in> set w)"
  by (induction sep ws rule: join.induct) auto

lemma set_split_on: "w \<in> set (split_on c s) \<Longrightarrow> set w \<subseteq> set s"
  using split_on_infix [of w c s] by auto

lemma slashes_same: "CHR 0x5C \<notin> set s \<Longrightarrow> slashes s = s"
  unfolding slashes_def by (rule map_idI) auto

lemma relative_text_slashes:
  assumes "relative_text s = Inr r"
  shows "slashes r = r" "r = (if path_parts (pure_path (slashes s)) = [] then ''.'' else join ''/'' (path_parts (pure_path (slashes s))))"
    "r \<noteq> manifest_name" "r \<noteq> ''state.json''"
proof -
  show r: "r = (if path_parts (pure_path (slashes s)) = [] then ''.'' else join ''/'' (path_parts (pure_path (slashes s))))"
    and "r \<noteq> manifest_name" "r \<noteq> ''state.json''"
    using assms by (auto simp: relative_text_def Let_def split: if_split_asm)
  have "CHR 0x5C \<notin> set (slashes s)" by (auto simp: slashes_def)
  then have "CHR 0x5C \<notin> set w" if "w \<in> set (path_parts (pure_path (slashes s)))" for w
    using that set_split_on by (fastforce simp: pure_path_def)
  then have "CHR 0x5C \<notin> set r" unfolding r by (auto dest: set_join)
  then show "slashes r = r" by (rule slashes_same)
qed

lemma stable_not_manifest:
  assumes "stable_path p"
  shows "artifact_path base p \<noteq> base @ [manifest_name]" "artifact_path base p \<noteq> base @ [''state.json'']"
proof -
  have rel: "relative_text p = Inr p" using assms by (simp add: stable_path_def)
  note r = relative_text_slashes [OF rel]
  show "artifact_path base p \<noteq> base @ [manifest_name]" "artifact_path base p \<noteq> base @ [''state.json'']"
    using r(2,3,4) unfolding r(1) by (auto simp: artifact_path_def)
qed

lemma record_errors_other:
  assumes "terminal_manifest_ok m"
    and "\<And>p. p \<noteq> base @ [manifest_name] \<Longrightarrow> p \<noteq> base @ [''state.json''] \<Longrightarrow> map_of files' p = map_of files p"
  shows "record_errors files' base m = record_errors files base m"
proof -
  have "artifact_errors files' base a = artifact_errors files base a" if "a \<in> set (mf_artifacts m)" for a
  proof -
    have "stable_path (ma_path a)" using assms(1) that by (auto simp: terminal_manifest_ok_def artifact_ok_def list_all_iff)
    from assms(2) [OF stable_not_manifest [OF this]] show ?thesis by (simp add: artifact_errors_def)
  qed
  then have "for_each (mf_artifacts m) (artifact_errors files' base) = for_each (mf_artifacts m) (artifact_errors files base)"
    unfolding for_each_def by (simp cong: map_cong)
  then show ?thesis by (simp add: record_errors_def)
qed

text \<open>A manifest that was written verifies, also after the terminal state is saved.\<close>

lemma written_verifies:
  assumes "write_terminal_manifest now files base build execution ids paths required authority = (Inr (sha, m), files')"
    and "safe_files files base" "\<And>s. s \<in> set (asked_paths paths required authority) \<Longrightarrow> covering files base s"
    and "now \<noteq> []" "build \<noteq> []" "execution \<noteq> []"
    and "\<And>p. p \<noteq> base @ [''state.json''] \<Longrightarrow> map_of files'' p = map_of files' p"
  shows "verify_terminal_manifest files'' base sha (Some ids) = ([], Some m)"
proof -
  have c: "collect_manifest now files base build execution ids paths required authority = Inr m"
    and sha: "sha = sha256_hex (stored_bytes (stored_manifest m))"
    and files': "files' = AList.update (base @ [manifest_name]) (stored_manifest m) files"
    using assms(1) by (auto simp: write_terminal_manifest_def split: sum.split_asm)
  note ok = collect_manifest_ok [OF c assms(2-6)]
  have at: "map_of files'' (base @ [manifest_name]) = Some (stored_manifest m)"
    using assms(7) [of "base @ [manifest_name]"] files' by (simp add: map_of_update manifest_name_def)
  have "(base @ [manifest_name], stored_manifest m) \<in> set files''" using at by (rule map_of_SomeD)
  then have exists: "execution_exists files'' base"
    by (force simp: execution_exists_def stored_below_def filter_empty_conv strict_prefix_def)
  have "record_errors files'' base m = record_errors files base m"
  proof (rule record_errors_other [OF ok(1)])
    fix p assume "p \<noteq> base @ [manifest_name]" "p \<noteq> base @ [''state.json'']"
    then show "map_of files'' p = map_of files p" using assms(7) [of p] files' by (simp add: map_of_update)
  qed
  moreover obtain payload where "read_stored (stored_manifest m) = Some payload" "manifest_of_json payload = Inr m"
    using manifest_roundtrip [OF ok(1)] by blast
  ultimately show ?thesis using at exists sha ok(2-4)
    by (simp add: verify_terminal_manifest_def expected_errors_def emit_def)
qed

section \<open>What verification proves\<close>

lemma emit_Nil [simp]: "emit b x = [] \<longleftrightarrow> \<not> b"
  by (simp add: emit_def)

lemma verified_manifest:
  assumes "verify_terminal_manifest files base sha ids = ([], r)"
  obtains m content payload where "r = Some m" "map_of files (base @ [manifest_name]) = Some content"
    "sha256_hex (stored_bytes content) = sha" "read_stored content = Some payload" "manifest_of_json payload = Inr m"
    "\<And>xs. ids = Some xs \<Longrightarrow> mf_expected m = xs" "record_errors files base m = []"
proof -
  have ids: "expected = xs" if "smap manifest_task_id xs = Inr expected" for xs expected
    using that by (induction xs arbitrary: expected) (auto simp: sbind_eq_Inr manifest_task_id_def split: if_split_asm)
  show thesis using assms that
    by (auto simp: verify_terminal_manifest_def expected_errors_def Let_def sbind_eq_Inr ids
        split: if_split_asm option.split_asm sum.split_asm)
qed

lemma no_record_errors:
  "record_errors files base m = [] \<longleftrightarrow>
    set (mf_authority m) \<subseteq> ma_path ` set (mf_artifacts m) \<and>
    (\<forall>t \<in> set (mf_tasks m). mt_result t \<in> ma_path ` set (mf_artifacts m) \<and> mt_evidence t \<noteq> [] \<and>
      set (mt_evidence t) \<subseteq> ma_path ` set (mf_artifacts m)) \<and>
    (\<forall>a \<in> set (mf_artifacts m). \<exists>c. map_of files (artifact_path base (ma_path a)) = Some c \<and>
      length (stored_bytes c) = ma_size a \<and> sha256_hex (stored_bytes c) = ma_sha256 a)"
  by (auto simp: record_errors_def Let_def for_each_empty task_errors_def artifact_errors_def split: option.split option.split_asm)

end
