(* ===== verification/Registry_Properties.thy ===== *)
theory Registry_Properties
  imports Build_Idempotency Build_Manifest
begin

text \<open>
  The properties of what the build engine keeps on disk: the claims of the authority registry and their release,
  the idempotency index and the terminal manifest.
\<close>

section \<open>Claims\<close>

lemma registry_ops_keep:
  "holds_claim data files r \<Longrightarrow> list_all (\<lambda>op. \<not> names_claim r op) ops \<Longrightarrow>
    holds_claim data (fold (run_registry_op data) ops files) r"
  by (induction ops arbitrary: files) (simp_all add: registry_op_keeps)

text \<open>
  C22: An acquired claim stays in force through every sequence of registry operations that does not release or
  recover it, whoever runs them, and all the while an attempt to acquire the same scope is refused and changes
  nothing.
\<close>

theorem claim_excludes_others:
  assumes "acquire_authority data uuid now build execution idem fp t paths files = (Inr claim, files')"
    and "uuid \<noteq> []" "build \<noteq> []" "execution \<noteq> []" "idem \<noteq> []"
    and "list_all (\<lambda>op. \<not> names_claim (kc_record claim) op) ops"
    and "derive_authority_key t2 paths2 = derive_authority_key t paths" "sha_text fp2"
  shows "acquire_authority data uuid2 now2 build2 execution2 idem2 fp2 t2 paths2 (fold (run_registry_op data) ops files') =
    (Inl claim_conflict, fold (run_registry_op data) ops files')"
proof -
  note acquired = acquire_Inr [OF assms(1-5)]
  have "holds_claim data (fold (run_registry_op data) ops files') (kc_record claim)"
    using acquired(1) assms(6) by (rule registry_ops_keep)
  moreover have "derive_authority_key t2 paths2 = Inr (kr_key (kc_record claim))" using acquired(4) assms(7) by simp
  ultimately show ?thesis using assms(8) by (rule acquire_conflict)
qed

definition sample_digest :: string where
  "sample_digest = replicate 64 (CHR ''a'')"

lemma sample_digest_sha: "sha_text sample_digest"
  by code_simp

lemma sample_scope: "normalized_authority_scope ''/t'' [''/t/src''] = Inr (''/t'', [''/t/src''])"
  by code_simp

lemma sample_key:
  "derive_authority_key ''/t'' [''/t/src''] =
    Inr (fingerprint_request (JObj [(''target_root'', JStr ''/t''), (''allowed_paths'', strings_json [''/t/src''])]))"
  by (simp add: derive_authority_key_def sample_scope)

lemma claim_excludes_others_witness:
  "\<exists>claim files. acquire_authority [''data''] ''u1'' ''now'' ''b1'' ''e1'' ''k1'' sample_digest ''/t'' [''/t/src''] [] = (Inr claim, files) \<and>
    acquire_authority [''data''] ''u2'' ''now'' ''b2'' ''e2'' ''k2'' sample_digest ''/t'' [''/t/src'']
      (run_registry_op [''data''] (Prepare_op ''now'' claim ''completed'') files) =
    (Inl claim_conflict, run_registry_op [''data''] (Prepare_op ''now'' claim ''completed'') files)"
proof -
  obtain claim files where acquired:
    "acquire_authority [''data''] ''u1'' ''now'' ''b1'' ''e1'' ''k1'' sample_digest ''/t'' [''/t/src''] [] = (Inr claim, files)"
    using acquire_other_scope [OF sample_key sample_digest_sha, of "[]" "[''data'']" "''u1''" "''now''" "''b1''" "''e1''" "''k1''"] by auto
  have "acquire_authority [''data''] ''u2'' ''now'' ''b2'' ''e2'' ''k2'' sample_digest ''/t'' [''/t/src'']
      (fold (run_registry_op [''data'']) [Prepare_op ''now'' claim ''completed''] files) =
    (Inl claim_conflict, fold (run_registry_op [''data'']) [Prepare_op ''now'' claim ''completed''] files)"
    by (rule claim_excludes_others [OF acquired]) (simp_all add: sample_digest_sha)
  then show ?thesis using acquired by auto
qed

text \<open>
  C26: The release protocol: with the release evidence prepared and copied, the release succeeds, frees the scope and
  leaves a history with which the copies are accepted as evidence of the terminal state; preparing again before
  it changes nothing.
\<close>

theorem release_leaves_evidence:
  assumes "holds_claim data files (kc_record claim)" "status \<in> set release_statuses" "sha_text msha"
    and "l = release_record_of (kc_record claim) status before"
    and "map_of files (release_evidence_path data (kc_record claim)) = Some (stored_release l)"
    and "map_of files (history_path data (kc_record claim) ''released'') = None"
    and "map_of files claim_file = Some (stored_claim (kc_record claim))" "map_of files release_file = Some (stored_release l)"
    and "claim_path data (kr_key (kc_record claim)) \<notin> {claim_file, release_file}"
  shows "snd (prepare_release_evidence data now claim status files) = files \<and>
    (case release_authority data now claim status msha (sha256_hex (stored_bytes (stored_release l))) True files of
       (res, files') \<Rightarrow> res = Inr (history_path data (kc_record claim) ''released'') \<and>
         load_active data files' (kr_key (kc_record claim)) = Inr None \<and>
         require_released_evidence data files' claim_file release_file msha = Inr ())"
proof -
  let ?r = "kc_record claim" let ?h = "history_path data ?r ''released''" let ?p = "claim_path data (kr_key ?r)"
  define files' where
    "files' = AList.delete ?p (AList.update ?h (Json_file (release_history now msha l ?r)) files)"
  have at: "map_of files' q = (if q = ?p then None else if q = ?h then Some (Json_file (release_history now msha l ?r)) else map_of files q)" for q
    by (simp add: files'_def delete_conv map_of_update)
  have ok: "claim_ok ?r" using assms(1) by (simp add: holds_claim_def)
  have differ: "claim_file \<noteq> ?h" "release_file \<noteq> ?h" "release_evidence_path data ?r \<noteq> ?h" using assms(5-8) by auto
  have "require_released_evidence data files' claim_file release_file msha = Inr ()"
    using assms(5-9) differ
    by (intro released_evidence [OF ok assms(2-4)]) (auto simp: at claim_path_def history_path_def release_evidence_path_def)
  moreover have "load_active data files' (kr_key ?r) = Inr None"
  proof -
    have "active_path data (kr_key ?r) = Inr ?p" using holds_claim_sha [OF assms(1)] by (simp add: active_path_eq)
    then show ?thesis by (simp add: load_active_def at)
  qed
  moreover have "release_authority data now claim status msha (sha256_hex (stored_bytes (stored_release l))) True files = (Inr ?h, files')"
    unfolding files'_def by (rule release_held [OF assms(1-6)])
  ultimately show ?thesis using prepare_again [OF assms(1,2)] assms(4,5) by simp
qed

definition sample_claim :: claim_record where
  "sample_claim = \<lparr>kr_key = fingerprint_request (JObj [(''target_root'', JStr ''/t''), (''allowed_paths'', strings_json [''/t/src''])]),
    kr_claim = ''u1'', kr_build = ''b1'', kr_execution = ''e1'', kr_idempotency = ''k1'', kr_fingerprint = sample_digest,
    kr_target = ''/t'', kr_allowed = [''/t/src''], kr_acquired = ''now''\<rparr>"

lemma sample_claim_ok: "claim_ok sample_claim"
  using sample_digest_sha by (simp add: claim_ok_def sample_claim_def sample_scope sample_key)

definition sample_release :: release_record where
  "sample_release = release_record_of sample_claim ''completed'' ''now''"

definition sample_registry :: data_files where
  "sample_registry = [(claim_path [''data''] (kr_key sample_claim), stored_claim sample_claim),
    (release_evidence_path [''data''] sample_claim, stored_release sample_release),
    ([''e'', ''claim.json''], stored_claim sample_claim), ([''e'', ''release.json''], stored_release sample_release)]"

lemma release_leaves_evidence_witness:
  "\<exists>files. release_authority [''data''] ''later'' \<lparr>kc_path = [], kc_record = sample_claim\<rparr> ''completed'' sample_digest
      (sha256_hex (stored_bytes (stored_release sample_release))) True sample_registry =
      (Inr (history_path [''data''] sample_claim ''released''), files) \<and>
    load_active [''data''] files (kr_key sample_claim) = Inr None \<and>
    require_released_evidence [''data''] files [''e'', ''claim.json''] [''e'', ''release.json''] sample_digest = Inr ()"
proof -
  let ?c = "\<lparr>kc_path = [], kc_record = sample_claim\<rparr>"
  have "holds_claim [''data''] sample_registry sample_claim"
    by (simp add: holds_claim_def sample_claim_ok sample_registry_def claim_path_def)
  then have "holds_claim [''data''] sample_registry (kc_record ?c)" by simp
  from release_leaves_evidence [OF this, of "''completed''" sample_digest sample_release "''now''" "[''e'', ''claim.json'']"
      "[''e'', ''release.json'']" "''later''"]
  show ?thesis
    by (auto simp: sample_digest_sha release_statuses_def sample_release_def sample_registry_def claim_path_def registry_root_def
        release_evidence_path_def history_path_def split: prod.split_asm)
qed

section \<open>Idempotency\<close>

type_synonym binding = "string \<times> string \<times> string \<times> string \<times> string \<times> string list"

definition run_binding :: "string list \<Rightarrow> binding \<Rightarrow> data_files \<Rightarrow> data_files" where
  "run_binding data b files = (case b of (now, key, fp, build, execution, path) \<Rightarrow> snd (bind_key data now key fp build execution path files))"

lemma run_bindings_keep:
  "bound_key data files key r \<Longrightarrow> bound_key data (fold (run_binding data) bs files) key r"
  by (induction bs arbitrary: files) (auto simp: run_binding_def intro: bind_keeps split: prod.split)

text \<open>
  C27: The first binding of an idempotency key wins: whatever is bound afterwards, the same request finds the
  execution recorded first and a different request under the key is a conflict.
\<close>

theorem first_binding_wins:
  assumes "index_path data key = Inr (hash, place)" "sha_text fp" "map_of files place = None"
    and "build \<noteq> []" "execution \<noteq> []" "list_all plain_name path"
    and "bind_key data now key fp build execution path files = (res, files')"
  shows "\<exists>r. res = Inr (r, True) \<and> ir_execution r = execution \<and> ir_path r = show_path path \<and>
    lookup_key data (fold (run_binding data) bs files') key fp = Inr (Some r) \<and>
    (\<forall>other \<in> {x. sha_text x} - {fp}. lookup_key data (fold (run_binding data) bs files') key other = Inl key_conflict)"
proof -
  obtain r where r: "res = Inr (r, True)" "ir_fingerprint r = fp" "ir_execution r = execution" "ir_path r = show_path path"
    "bound_key data files' key r" by (rule bind_outcome [OF assms])
  have "bound_key data (fold (run_binding data) bs files') key r" using r(5) by (rule run_bindings_keep)
  then show ?thesis using r(1-4) assms(2) by (auto simp: lookup_bound)
qed

lemma first_binding_wins_witness:
  "\<exists>r files. bind_key [''data''] ''now'' ''k1'' sample_digest ''b1'' ''e1'' [''x''] [] = (Inr (r, True), files) \<and>
    lookup_key [''data''] files ''k1'' sample_digest = Inr (Some r)"
proof -
  have "index_path [''data''] ''k1'' = Inr (sha256_hex ''k1'', [''data'', ''idempotency'', json_name (sha256_hex ''k1'')])"
  proof -
    have "normalize_idempotency_key ''k1'' = Inr ''k1''" by code_simp
    then show ?thesis by (simp add: index_path_def Let_def)
  qed
  moreover obtain res files where bound: "bind_key [''data''] ''now'' ''k1'' sample_digest ''b1'' ''e1'' [''x''] [] = (res, files)"
    by (rule prod.exhaust)
  ultimately show ?thesis
    using first_binding_wins [of "[''data'']" "''k1''" _ _ sample_digest "[]" "''b1''" "''e1''" "[''x'']" "''now''" res files "[]"]
    by (auto simp: sample_digest_sha plain_name_def)
qed

section \<open>Terminal manifests\<close>

text \<open>
  C25: A terminal manifest that was written verifies under the digest that was returned and for the expected tasks,
  as long as only the state file of the execution changes, and it reads back as the record that was collected.
\<close>

theorem written_manifest_verifies:
  assumes "write_terminal_manifest now files base build execution ids paths required authority = (Inr (sha, m), files')"
    and "safe_files files base" "list_all (covering files base) (asked_paths paths required authority)"
    and "now \<noteq> []" "build \<noteq> []" "execution \<noteq> []"
  shows "verify_terminal_manifest (AList.update (base @ [''state.json'']) state files') base sha (Some ids) = ([], Some m)"
  using assms by (intro written_verifies [OF assms(1,2) _ assms(4-6)]) (auto simp: list_all_iff map_of_update)

definition sample_files :: data_files where
  "sample_files = [([''e'', ''results'', ''a.json''], Json_file (JObj [])), ([''e'', ''evidence'', ''a'', ''actions.json''], Json_file (JObj [])),
    ([''e'', ''request.json''], Json_file (JObj []))]"

definition sample_paths :: "(string, artifact_paths) dict" where
  "sample_paths = [(''a'', \<lparr>tp_result = ''results/a.json'', tp_evidence = [''evidence/a'']\<rparr>)]"

lemma sample_written:
  "\<exists>sha m files'. write_terminal_manifest ''now'' sample_files [''e''] ''b1'' ''e1'' [''a''] sample_paths [''request.json''] [''request.json''] =
    (Inr (sha, m), files')"
proof -
  have parts: "execution_exists sample_files [''e'']" "smap manifest_task_id [''a''] = Inr [''a'']"
    "smap (write_task sample_files [''e''] sample_paths) [''a''] =
      Inr [\<lparr>mt_task = ''a'', mt_result = ''results/a.json'', mt_evidence = [''evidence/a/actions.json'']\<rparr>]"
    "smap (expand_artifact sample_files [''e'']) [''request.json''] = Inr [[''request.json'']]"
    "map fst sample_paths = [''a'']"
    "sorted_set [''results/a.json'', ''evidence/a/actions.json'', ''request.json'', ''request.json''] =
      [''evidence/a/actions.json'', ''request.json'', ''results/a.json'']"
    by code_simp+
  have "list_all (\<lambda>p. map_of sample_files (artifact_path [''e''] p) \<noteq> None) [''evidence/a/actions.json'', ''request.json'', ''results/a.json'']"
    by code_simp
  then have "\<exists>entries. smap (hash_artifact sample_files [''e'']) [''evidence/a/actions.json'', ''request.json'', ''results/a.json''] = Inr entries"
    unfolding smap_unit list_all_iff by (auto simp: hash_artifact_def)
  then obtain entries where
    "smap (hash_artifact sample_files [''e'']) [''evidence/a/actions.json'', ''request.json'', ''results/a.json''] = Inr entries" ..
  then have "\<exists>m. collect_manifest ''now'' sample_files [''e''] ''b1'' ''e1'' [''a''] sample_paths [''request.json''] [''request.json''] = Inr m"
    by (simp add: collect_manifest_def parts(1-4,6) parts(5) [unfolded map_map] Let_def del: smap.simps list.map)
      (simp add: parts(5) [symmetric] parts(6) del: smap.simps)
  then show ?thesis by (auto simp: write_terminal_manifest_def)
qed

lemma sample_covered:
  "safe_files sample_files [''e'']" "list_all (covering sample_files [''e'']) (asked_paths sample_paths [''request.json''] [''request.json''])"
  by code_simp+

lemma written_manifest_verifies_witness:
  "\<exists>sha m files'. verify_terminal_manifest (AList.update [''e'', ''state.json''] (Json_file (JObj [])) files') [''e''] sha (Some [''a'']) =
    ([], Some m)"
proof -
  obtain sha m files' where
    "write_terminal_manifest ''now'' sample_files [''e''] ''b1'' ''e1'' [''a''] sample_paths [''request.json''] [''request.json''] = (Inr (sha, m), files')"
    using sample_written by blast
  from written_manifest_verifies [OF this sample_covered, of "Json_file (JObj [])"] show ?thesis by auto
qed

text \<open>
  C24: A manifest that verifies anchors everything: under the expected digest it names exactly the expected tasks,
  lists the result and the evidence of each task and the authority evidence among its artifacts, and every artifact is on
  disk with the listed size and digest.
\<close>

theorem verified_manifest_anchors:
  assumes "verify_terminal_manifest files base sha (Some ids) = ([], r)"
  shows "\<exists>m content. r = Some m \<and> map_of files (base @ [manifest_name]) = Some content \<and>
    sha256_hex (stored_bytes content) = sha \<and> mf_expected m = ids \<and>
    set (mf_authority m) \<subseteq> ma_path ` set (mf_artifacts m) \<and>
    (\<forall>t \<in> set (mf_tasks m). {mt_result t} \<union> set (mt_evidence t) \<subseteq> ma_path ` set (mf_artifacts m) \<and> mt_evidence t \<noteq> []) \<and>
    (\<forall>a \<in> set (mf_artifacts m). \<exists>c. map_of files (artifact_path base (ma_path a)) = Some c \<and>
      length (stored_bytes c) = ma_size a \<and> sha256_hex (stored_bytes c) = ma_sha256 a)"
proof -
  obtain m content where "r = Some m" "map_of files (base @ [manifest_name]) = Some content"
    "sha256_hex (stored_bytes content) = sha" "mf_expected m = ids" "record_errors files base m = []"
    by (rule verified_manifest [OF assms]) blast
  then show ?thesis unfolding no_record_errors by blast
qed

lemma verified_manifest_anchors_witness:
  "\<exists>(m :: terminal_manifest) (files' :: data_files). mf_expected m = [''a''] \<and>
    list_all (\<lambda>a. map_of files' (artifact_path [''e''] (ma_path a)) \<noteq> None) (mf_artifacts m)"
proof -
  obtain sha m files' where w:
    "write_terminal_manifest ''now'' sample_files [''e''] ''b1'' ''e1'' [''a''] sample_paths [''request.json''] [''request.json''] = (Inr (sha, m), files')"
    using sample_written by blast
  have "verify_terminal_manifest files' [''e''] sha (Some [''a'']) = ([], Some m)"
    using sample_covered(2) by (intro written_verifies [OF w sample_covered(1)]) (auto simp: list_all_iff)
  from verified_manifest_anchors [OF this]
  have "mf_expected m = [''a'']" "\<forall>a \<in> set (mf_artifacts m). map_of files' (artifact_path [''e''] (ma_path a)) \<noteq> None" by auto
  then have "mf_expected m = [''a''] \<and> list_all (\<lambda>a. map_of files' (artifact_path [''e''] (ma_path a)) \<noteq> None) (mf_artifacts m)"
    by (simp add: list_all_iff)
  then show ?thesis by blast
qed

end
