(* ===== verification/Build_Coverage.thy ===== *)
theory Build_Coverage
  imports Build_Order Op_Adapters
begin

text \<open>
  The structure of task prompts (\<open>builder/coverage.py\<close>) and the skills rendered from them
  (\<open>builder/skill_renderer.py\<close>).  Prompts are normalised, so a line ends at a line feed.  What
  \<open>unicodedata\<close> makes of a text before it is cut to ASCII is the parameter \<open>ascii\<close>.
\<close>

section \<open>Coverage of a prompt\<close>

definition coverage_fault :: "string \<Rightarrow> raised" where
  "coverage_fault message = plain_error ''CoverageValidationError'' message"

definition required_sections :: "string list" where
  "required_sections = [''Objective'', ''Inputs and repository paths'', ''Required work'', ''Ordered steps'',
    ''Expected output'', ''Validation'', ''Evidence to return'']"

definition placeholder_text :: "string list" where
  "placeholder_text = [''fill me in'', ''insert content'', ''n a'', ''none'', ''not specified'', ''placeholder'', ''tbd'',
    ''todo'', ''unknown'']"

definition slug_char :: "char \<Rightarrow> bool" where
  "slug_char c \<longleftrightarrow> is_digit c \<or> 97 \<le> (of_char c :: nat) \<and> (of_char c :: nat) \<le> 122"

text \<open>\<open>re.sub("[^a-z0-9]+", sep, s)\<close>: every run of other characters becomes one \<open>sep\<close>.\<close>

fun squeeze :: "char \<Rightarrow> string \<Rightarrow> string" where
  "squeeze sep [] = []"
| "squeeze sep (c # s) =
    (if slug_char c then c # squeeze sep s
     else (case s of
         [] \<Rightarrow> [sep]
       | d # _ \<Rightarrow> if slug_char d then sep # squeeze sep s else squeeze sep s))"

definition placeholder_normal_form :: "string \<Rightarrow> string" where
  "placeholder_normal_form s = strip (squeeze (CHR '' '') (lower s))"

definition placeholder_content :: "string \<Rightarrow> bool" where
  "placeholder_content value =
    (let s = strip value
     in s = ''...'' \<or> s = [CHR 0xE2, CHR 0x80, CHR 0xA6] \<or>
        startswith s ''<'' \<and> endswith s ''>'' \<or> startswith s ''{{'' \<and> endswith s ''}}'' \<or>
        startswith (lower s) ''[insert '' \<or> placeholder_normal_form s \<in> set placeholder_text)"

definition blank :: "char \<Rightarrow> bool" where
  "blank c \<longleftrightarrow> c = CHR '' '' \<or> c = CHR 0x09"

text \<open>\<open>^#{1,6}[ \\t]+section[ \\t]*$\<close>, without case.\<close>

definition heading_of :: "string \<Rightarrow> string \<Rightarrow> bool" where
  "heading_of section line =
    (let marks = takeWhile (\<lambda>c. c = CHR ''#'') line; rest = dropWhile (\<lambda>c. c = CHR ''#'') line;
         name = rev (dropWhile blank (rev (dropWhile blank rest)))
     in 1 \<le> length marks \<and> length marks \<le> 6 \<and> rest \<noteq> [] \<and> blank (hd rest) \<and> lower name = lower section)"

definition heading_lines :: "string \<Rightarrow> string list \<Rightarrow> nat list" where
  "heading_lines section lines = filter (\<lambda>k. heading_of section (lines ! k)) [0..<length lines]"

text \<open>\<open>^\\s*\\d+[.)]\\s+\\S\<close> at the start of some line.\<close>

definition line_starts :: "string \<Rightarrow> string list" where
  "line_starts s = s # map (\<lambda>k. drop (Suc k) s) (filter (\<lambda>k. s ! k = CHR 0x0A) [0..<length s])"

definition step_here :: "string \<Rightarrow> bool" where
  "step_here s =
    (let digits = dropWhile is_space s; rest = dropWhile is_digit digits; after = tl rest
     in digits \<noteq> rest \<and> rest \<noteq> [] \<and> hd rest \<in> set ''.)'' \<and> after \<noteq> [] \<and> is_space (hd after) \<and> dropWhile is_space after \<noteq> [])"

definition enumerated_step :: "string \<Rightarrow> bool" where
  "enumerated_step s = list_ex step_here (line_starts s)"

definition section_content :: "string list \<Rightarrow> nat \<Rightarrow> nat \<Rightarrow> string" where
  "section_content lines k next_start = strip (join [CHR 0x0A] (drop (Suc k) (take next_start lines)))"

text \<open>Each section with the line of its heading and the line of the next one.\<close>

fun check_sections :: "string \<Rightarrow> string list \<Rightarrow> (string \<times> nat) list \<Rightarrow> raised + unit" where
  "check_sections i lines [] = Inr ()"
| "check_sections i lines ((section, k) # rest) =
    (let content = section_content lines k (case rest of [] \<Rightarrow> length lines | (_, n) # _ \<Rightarrow> n)
     in sbind (check_that (content \<noteq> [] \<and> \<not> placeholder_content content)
          (coverage_fault (''task '' @ i @ '' has an incomplete '' @ section @ '' section''))) (\<lambda>_.
        sbind (check_that (section \<noteq> ''Ordered steps'' \<or> enumerated_step content)
          (coverage_fault (''task '' @ i @ '' must contain an enumerated ordered step''))) (\<lambda>_.
          check_sections i lines rest)))"

definition section_line :: "string \<Rightarrow> string list \<Rightarrow> string \<Rightarrow> raised + nat" where
  "section_line i lines section =
    (case heading_lines section lines of
       [k] \<Rightarrow> Inr k
     | _ \<Rightarrow> Inl (coverage_fault (''task '' @ i @ '' must contain exactly one '' @ section @ '' section'')))"

definition validate_task_coverage :: "build_task \<Rightarrow> raised + unit" where
  "validate_task_coverage t =
    (let lines = split_on (CHR 0x0A) (tk_prompt t)
     in sbind (check_that (\<not> placeholder_content (tk_title t)) (coverage_fault (''task '' @ tk_id t @ '' has a placeholder title''))) (\<lambda>_.
        sbind (smap (section_line (tk_id t) lines) required_sections) (\<lambda>starts.
        sbind (check_that (sorted starts) (coverage_fault (''task '' @ tk_id t @ '' sections are not in the required order''))) (\<lambda>_.
          check_sections (tk_id t) lines (zip required_sections starts)))))"

definition validate_plan_coverage :: "build_task list \<Rightarrow> raised + unit" where
  "validate_plan_coverage tasks = sbind (smap validate_task_coverage tasks) (\<lambda>_. Inr ())"

section \<open>Skills\<close>

definition rendering_fault :: "string \<Rightarrow> raised" where
  "rendering_fault message = plain_error ''SkillRenderingError'' message"

record rendered_skill =
  rs_task :: string
  rs_directory :: string
  rs_content :: string

definition max_directory_length :: nat where
  "max_directory_length = 120"

definition trim_dashes :: "string \<Rightarrow> string" where
  "trim_dashes s = rev (dropWhile (\<lambda>c. c = CHR ''-'') (rev s))"

definition slugify :: "(string \<Rightarrow> string) \<Rightarrow> string \<Rightarrow> nat \<Rightarrow> string" where
  "slugify ascii value n =
    (let slug = trim_dashes (dropWhile (\<lambda>c. c = CHR ''-'') (squeeze (CHR ''-'') (lower (ascii value))));
         cut = trim_dashes (take n slug)
     in if cut = [] then ''task'' else cut)"

text \<open>\<open>SAFE_SKILL_DIRECTORY_RE\<close>.\<close>

definition safe_directory :: "string \<Rightarrow> bool" where
  "safe_directory s \<longleftrightarrow> s \<noteq> [] \<and> length s \<le> max_directory_length \<and> slug_char (hd s) \<and> slug_char (last s) \<and>
    list_all (\<lambda>c. slug_char c \<or> c = CHR ''-'') s"

definition skill_directory :: "(string \<Rightarrow> string) \<Rightarrow> build_task \<Rightarrow> string" where
  "skill_directory ascii t =
    (let task_slug = slugify ascii (tk_id t) 64;
         title_slug = slugify ascii (tk_title t) (max 1 (min 48 (max_directory_length - length task_slug - 1)))
     in task_slug @ ''-'' @ title_slug)"

definition skill_content :: "string \<Rightarrow> string \<Rightarrow> build_task \<Rightarrow> string" where
  "skill_content build name t = join [CHR 0x0A]
    [''---'', ''name: '' @ name, ''description: One-time generated task for Audisor build '' @ build @ ''.'', ''---'', [],
     ''# '' @ tk_title t, [], strip (unix_lines (tk_prompt t)), [],
     ''## Trusted expected outputs'', ''```json'', indented 0 (strings_json (tk_outputs t)), ''```'', [],
     ''## Deferred executable validation metadata'', ''```json'',
     indented 0 (copy_value (JList (map command_json (tk_validation t)))), ''```'', []]"

definition render_skill :: "(string \<Rightarrow> string) \<Rightarrow> string \<Rightarrow> build_task \<Rightarrow> raised + rendered_skill" where
  "render_skill ascii build t =
    sbind (validate_safe_identifier ''build_id'' build) (\<lambda>_.
    sbind (validate_task_coverage t) (\<lambda>_.
      (let name = skill_directory ascii t; content = skill_content build name t
       in sbind (check_that (safe_directory name) (rendering_fault ''generated skill directory is unsafe'')) (\<lambda>_.
          sbind (check_that (skill_ok \<lparr>sk_task = tk_id t, sk_prompt = content\<rparr>) validation_fault) (\<lambda>_.
            Inr \<lparr>rs_task = tk_id t, rs_directory = name, rs_content = content\<rparr>)))))"

fun render_each :: "(string \<Rightarrow> string) \<Rightarrow> string \<Rightarrow> string list \<Rightarrow> build_task list \<Rightarrow> raised + rendered_skill list" where
  "render_each ascii build seen [] = Inr []"
| "render_each ascii build seen (t # ts) =
    sbind (render_skill ascii build t) (\<lambda>s.
    sbind (check_that (lower (rs_directory s) \<notin> set seen) (rendering_fault ''generated skill directories collide'')) (\<lambda>_.
    sbind (render_each ascii build (lower (rs_directory s) # seen) ts) (\<lambda>others. Inr (s # others))))"

definition render_skills :: "(string \<Rightarrow> string) \<Rightarrow> string \<Rightarrow> build_task list \<Rightarrow> raised + rendered_skill list" where
  "render_skills ascii build tasks = render_each ascii build [] tasks"

section \<open>Directories are always safe\<close>

lemma set_squeeze: "c \<in> set (squeeze sep s) \<Longrightarrow> slug_char c \<or> c = sep"
  by (induction sep s rule: squeeze.induct) (auto split: if_split_asm list.split_asm)

lemma set_trim: "c \<in> set (trim_dashes s) \<Longrightarrow> c \<in> set s"
  by (auto simp: trim_dashes_def dest: set_dropWhileD)

lemma last_trim: "trim_dashes s \<noteq> [] \<Longrightarrow> last (trim_dashes s) \<noteq> CHR ''-''"
  using hd_dropWhile [of "\<lambda>c. c = CHR ''-''" "rev s"] by (simp add: trim_dashes_def last_rev)

lemma trim_prefix: "prefix (trim_dashes s) s"
proof -
  have "s = trim_dashes s @ rev (takeWhile (\<lambda>c. c = CHR ''-'') (rev s))"
    by (simp add: trim_dashes_def flip: rev_append)
  then show ?thesis by (rule prefixI)
qed

lemma length_trim: "length (trim_dashes s) \<le> length s"
  using trim_prefix by (rule prefix_length_le)

lemma hd_prefix: "prefix a b \<Longrightarrow> a \<noteq> [] \<Longrightarrow> hd a = hd b"
  by (auto simp: prefix_def)

lemma prefix_nonempty: "prefix a b \<Longrightarrow> a \<noteq> [] \<Longrightarrow> b \<noteq> []"
  by auto

definition slug_ok :: "string \<Rightarrow> bool" where
  "slug_ok s \<longleftrightarrow> s \<noteq> [] \<and> slug_char (hd s) \<and> slug_char (last s) \<and> list_all (\<lambda>c. slug_char c \<or> c = CHR ''-'') s"

lemma slugify_ok:
  assumes "4 \<le> n"
  shows "slug_ok (slugify ascii value n)" "length (slugify ascii value n) \<le> n"
proof -
  let ?lead = "dropWhile (\<lambda>c. c = CHR ''-'') (squeeze (CHR ''-'') (lower (ascii value)))"
  let ?slug = "trim_dashes ?lead" let ?cut = "trim_dashes (take n ?slug)"
  have chars: "slug_char c \<or> c = CHR ''-''" if "c \<in> set ?lead" for c
    using set_squeeze [of c "CHR ''-''"] set_dropWhileD [OF that] by blast
  have cut: "prefix ?cut ?lead" using trim_prefix take_is_prefix by (meson prefix_order.trans)
  have "slug_ok ?cut" if ne: "?cut \<noteq> []"
  proof -
    have "?lead \<noteq> []" using cut ne by (rule prefix_nonempty)
    from hd_dropWhile [OF this] have "hd ?lead \<noteq> CHR ''-''" .
    moreover have "hd ?cut = hd ?lead" using cut ne by (rule hd_prefix)
    ultimately have first: "hd ?cut \<noteq> CHR ''-''" by simp
    have each: "slug_char c \<or> c = CHR ''-''" if "c \<in> set ?cut" for c using chars cut that by (meson set_mono_prefix subsetD)
    have "slug_char (hd ?cut)" using each [OF hd_in_set [OF ne]] first by blast
    moreover have "slug_char (last ?cut)" using each [OF last_in_set [OF ne]] last_trim [OF ne] by blast
    moreover have "list_all (\<lambda>c. slug_char c \<or> c = CHR ''-'') ?cut" using each unfolding list_all_iff by blast
    ultimately show ?thesis using ne unfolding slug_ok_def by blast
  qed
  moreover have "slug_ok ''task''" by code_simp
  ultimately show "slug_ok (slugify ascii value n)" by (simp add: slugify_def Let_def)
  have "length ?cut \<le> n" using length_trim [of "take n ?slug"] by simp
  then show "length (slugify ascii value n) \<le> n" using assms by (simp add: slugify_def Let_def)
qed

lemma directory_safe: "safe_directory (skill_directory ascii t)"
proof -
  let ?a = "slugify ascii (tk_id t) 64" let ?n = "max 1 (min 48 (max_directory_length - length ?a - 1))"
  let ?b = "slugify ascii (tk_title t) ?n"
  have a: "slug_ok ?a" "length ?a \<le> 64" by (rule slugify_ok; simp)+
  then have n: "?n = 48" by (simp add: max_directory_length_def)
  then have b: "slug_ok ?b" "length ?b \<le> 48" using slugify_ok [of ?n ascii "tk_title t"] by simp_all
  show ?thesis using a b unfolding skill_directory_def Let_def safe_directory_def
    by (auto simp: slug_ok_def max_directory_length_def)
qed

lemma render_skill_Inr:
  "render_skill ascii build t = Inr s \<longleftrightarrow>
    identifier_ok build \<and> validate_task_coverage t = Inr () \<and>
    skill_ok \<lparr>sk_task = tk_id t, sk_prompt = skill_content build (skill_directory ascii t) t\<rparr> \<and>
    s = \<lparr>rs_task = tk_id t, rs_directory = skill_directory ascii t, rs_content = skill_content build (skill_directory ascii t) t\<rparr>"
  using identifier_field [of "''build_id''" build] directory_safe [of ascii t]
  by (auto simp: render_skill_def sbind_eq_Inr Let_def)

lemma render_each_Inr:
  "render_each ascii build seen ts = Inr out \<longleftrightarrow>
    list_all2 (\<lambda>t s. render_skill ascii build t = Inr s) ts out \<and> distinct (map (lower \<circ> rs_directory) out) \<and>
    (\<forall>s \<in> set out. lower (rs_directory s) \<notin> set seen)"
  by (induction ts arbitrary: seen out) (auto simp: sbind_eq_Inr list_all2_Cons1 image_iff, metis+)

lemma render_skills_Inr:
  "render_skills ascii build ts = Inr out \<longleftrightarrow>
    list_all2 (\<lambda>t s. render_skill ascii build t = Inr s) ts out \<and> distinct (map (lower \<circ> rs_directory) out)"
  by (simp add: render_skills_def render_each_Inr)

end
