(* ===== verification/Build_Loader.thy ===== *)
theory Build_Loader
  imports Build_Coverage Build_Registry
begin

text \<open>
  The integrity manifest of a prepared build and the loader that checks it before an execution
  (\<open>builder/task_loader.py\<close>), with the reading of plans and requests from JSON (\<open>schemas/build.py\<close>).  Build
  ids are safe identifiers, and there are no links, so the path of a build is one name below the root.
\<close>

section \<open>Reading plans and requests\<close>

definition int_value :: "json \<Rightarrow> int option" where
  "int_value v = (case v of JInt n \<Rightarrow> Some n | _ \<Rightarrow> None)"

definition field_or :: "string \<Rightarrow> 'a \<Rightarrow> (json \<Rightarrow> 'a option) \<Rightarrow> jdict \<Rightarrow> 'a option" where
  "field_or name fallback f d = (case map_of d name of None \<Rightarrow> Some fallback | Some v \<Rightarrow> f v)"

definition list_of :: "(json \<Rightarrow> 'a option) \<Rightarrow> json \<Rightarrow> 'a list option" where
  "list_of f v = (case v of JList xs \<Rightarrow> option_each f xs | _ \<Rightarrow> None)"

definition only_fields :: "string list \<Rightarrow> jdict \<Rightarrow> bool" where
  "only_fields names d \<longleftrightarrow> list_all (\<lambda>e. fst e \<in> set names) d"

definition command_of :: "json \<Rightarrow> task_command option" where
  "command_of v =
    (case v of
       JObj d \<Rightarrow>
         if only_fields [''argv'', ''working_directory'', ''acceptable_exit_codes'', ''timeout_seconds''] d
         then (case (list_field ''argv'' text_of d, field_or ''working_directory'' ''.'' text_of d,
                  field_or ''acceptable_exit_codes'' [0] (list_of int_value) d, field_or ''timeout_seconds'' 60 int_value d) of
             (Some a, Some w, Some c, Some n) \<Rightarrow> Some \<lparr>tv_argv = a, tv_directory = w, tv_codes = c, tv_timeout = n\<rparr>
           | _ \<Rightarrow> None)
         else None
     | _ \<Rightarrow> None)"

definition task_of :: "json \<Rightarrow> build_task option" where
  "task_of v =
    (case v of
       JObj d \<Rightarrow>
         if only_fields [''task_id'', ''title'', ''depends_on'', ''prompt'', ''expected_outputs'', ''validation''] d
         then (case (text_field ''task_id'' d, text_field ''title'' d, list_field ''depends_on'' text_of d, text_field ''prompt'' d,
                  list_field ''expected_outputs'' text_of d, list_field ''validation'' command_of d) of
             (Some i, Some t, Some ds, Some p, Some es, Some vs) \<Rightarrow>
               Some \<lparr>tk_id = i, tk_title = t, tk_depends = ds, tk_prompt = p, tk_outputs = es, tk_validation = vs\<rparr>
           | _ \<Rightarrow> None)
         else None
     | _ \<Rightarrow> None)"

definition status_of :: "string \<Rightarrow> plan_status option" where
  "status_of s = (if s = ''ready'' then Some Ready_plan else if s = ''blocked'' then Some Blocked_plan else None)"

definition plan_fields_of :: "json \<Rightarrow> build_plan option" where
  "plan_fields_of v =
    (case v of
       JObj d \<Rightarrow>
         if only_fields [''build_id'', ''status'', ''gaps'', ''tasks''] d
         then (case (text_field ''build_id'' d, Option.bind (text_field ''status'' d) status_of, list_field ''gaps'' text_of d,
                  list_field ''tasks'' task_of d) of
             (Some b, Some s, Some gs, Some ts) \<Rightarrow> Some \<lparr>bp_build = b, bp_status = s, bp_gaps = gs, bp_tasks = ts\<rparr>
           | _ \<Rightarrow> None)
         else None
     | _ \<Rightarrow> None)"

definition build_plan_of :: "json \<Rightarrow> raised + build_plan" where
  "build_plan_of v = (case plan_fields_of v of None \<Rightarrow> Inl validation_fault | Some p \<Rightarrow> validate_plan p)"

text \<open>
  \<open>BuildExecutionContext\<close>: the fields, their shapes and the hash over all fields but itself.  A home directory in
  the target is expanded for the own user only.
\<close>

definition absolute_target :: "string \<Rightarrow> bool" where
  "absolute_target s \<longleftrightarrow> strip s \<noteq> [] \<and> CHR 0x00 \<notin> set s \<and> (startswith s ''/'' \<or> s = ''~'' \<or> startswith s ''~/'')"

definition dict_field :: "string \<Rightarrow> (json \<Rightarrow> bool) \<Rightarrow> string list \<Rightarrow> jdict \<Rightarrow> bool" where
  "dict_field name ok needed d =
    (case map_of d name of
       Some (JObj e) \<Rightarrow> list_all (\<lambda>kv. ok (snd kv)) e \<and> list_all (\<lambda>n. map_of e n \<noteq> None) needed
     | _ \<Rightarrow> False)"

definition is_text :: "json \<Rightarrow> bool" where
  "is_text v = (case v of JStr _ \<Rightarrow> True | _ \<Rightarrow> False)"

definition is_bool :: "json \<Rightarrow> bool" where
  "is_bool v = (case v of JBool _ \<Rightarrow> True | _ \<Rightarrow> False)"

definition is_object :: "json \<Rightarrow> bool" where
  "is_object v = (case v of JObj _ \<Rightarrow> True | _ \<Rightarrow> False)"

definition context_fields :: "string list" where
  "context_fields = [''schema_version'', ''target_root'', ''repository_identity'', ''allowed_write_paths'', ''authority_limits'',
    ''workspace_identity'', ''success_definition'', ''validation_requirements'', ''execution_context_sha256'']"

definition clean_or_dirty :: "jdict \<Rightarrow> bool" where
  "clean_or_dirty d = (case map_of d ''repository_identity'' of
     Some (JObj e) \<Rightarrow> map_of e ''dirty_state'' \<in> {Some (JStr ''clean''), Some (JStr ''dirty'')} | _ \<Rightarrow> False)"

definition write_paths_ok :: "string list \<Rightarrow> bool" where
  "write_paths_ok paths \<longleftrightarrow>
    paths \<noteq> [] \<and> length paths \<le> 256 \<and>
    list_all (\<lambda>p. p \<noteq> [] \<and> py_len p \<le> 4096 \<and> accepts (validate_task_relative_path ''allowed_write_paths'' p)) paths \<and> unique_paths paths"

definition context_hash :: "jdict \<Rightarrow> string" where
  "context_hash d = sha256_hex (render (copy_value (JObj (filter (\<lambda>e. fst e \<noteq> ''execution_context_sha256'') d))))"

definition context_ok :: "jdict \<Rightarrow> bool" where
  "context_ok d \<longleftrightarrow> only_fields context_fields d \<and> map_of d ''schema_version'' = Some (JInt 1) \<and>
    (case text_field ''target_root'' d of Some s \<Rightarrow> py_len s \<le> 32767 \<and> absolute_target s | None \<Rightarrow> False) \<and>
    dict_field ''repository_identity'' is_text [''root_reference'', ''revision'', ''dirty_state''] d \<and> clean_or_dirty d \<and>
    (case list_field ''allowed_write_paths'' text_of d of Some ps \<Rightarrow> write_paths_ok ps | None \<Rightarrow> False) \<and>
    dict_field ''authority_limits'' is_bool
      [''mutation_authorized'', ''execution_authorized'', ''apply_authorized'', ''completion_claimed''] d \<and>
    dict_field ''workspace_identity'' is_text [''workspace_id'', ''root_reference''] d \<and>
    (case map_of d ''success_definition'' of Some (JObj e) \<Rightarrow> e \<noteq> [] | _ \<Rightarrow> False) \<and>
    (case map_of d ''validation_requirements'' of Some (JList xs) \<Rightarrow> xs \<noteq> [] \<and> list_all is_object xs | _ \<Rightarrow> False) \<and>
    (case text_field ''execution_context_sha256'' d of Some h \<Rightarrow> sha_text h \<and> h = context_hash d | None \<Rightarrow> False)"

definition context_of :: "json \<Rightarrow> json option" where
  "context_of v =
    (case v of
       JObj given \<Rightarrow>
         (let d = (if map_of given ''schema_version'' = None then (''schema_version'', JInt 1) # given else given)
          in if context_ok d then Some (JObj d) else None)
     | _ \<Rightarrow> None)"

definition build_request_of :: "json \<Rightarrow> raised + build_request" where
  "build_request_of v =
    (case v of
       JObj d \<Rightarrow>
         (case (text_field ''build_id'' d, text_field ''instruction'' d,
              field_or ''execution_context'' JNull (\<lambda>c. if c = JNull then Some JNull else context_of c) d) of
            (Some b, Some i, Some c) \<Rightarrow>
              (let r = \<lparr>bq_build = b, bq_instruction = i, bq_context = c\<rparr>
               in if only_fields [''build_id'', ''instruction'', ''execution_context''] d \<and> request_ok r then Inr r else Inl validation_fault)
          | _ \<Rightarrow> Inl validation_fault)
     | _ \<Rightarrow> Inl validation_fault)"

section \<open>Files of a prepared build\<close>

text \<open>A file that the store wrote as JSON, or one with any other text.\<close>

datatype prepared_file = Json_text json | Plain_text string

type_synonym prepared_files = "(string list, prepared_file) dict"

definition json_text :: "json \<Rightarrow> string" where
  "json_text v = indented 0 (copy_value v) @ [CHR 0x0A]"

fun prepared_bytes :: "prepared_file \<Rightarrow> string" where
  "prepared_bytes (Json_text v) = json_text v"
| "prepared_bytes (Plain_text s) = s"

fun read_prepared :: "prepared_file \<Rightarrow> json option" where
  "read_prepared (Json_text v) = Some (copy_value v)"
| "read_prepared (Plain_text s) = strict_loads s"

section \<open>The integrity manifest\<close>

record integrity_file =
  if_path :: string
  if_length :: nat
  if_sha256 :: string

record integrity_task =
  it_task :: string
  it_record :: string
  it_path :: string
  it_sha256 :: string

record integrity_manifest =
  im_build :: string
  im_files :: "integrity_file list"
  im_tasks :: "integrity_task list"
  im_digest :: string

definition integrity_file_json :: "integrity_file \<Rightarrow> json" where
  "integrity_file_json f = JObj [(''path'', JStr (if_path f)), (''byte_length'', JInt (int (if_length f))), (''sha256'', JStr (if_sha256 f))]"

definition integrity_task_json :: "integrity_task \<Rightarrow> json" where
  "integrity_task_json t = JObj [(''task_id'', JStr (it_task t)), (''task_record_sha256'', JStr (it_record t)),
    (''skill_path'', JStr (it_path t)), (''skill_sha256'', JStr (it_sha256 t))]"

definition manifest_body :: "string \<Rightarrow> integrity_file list \<Rightarrow> integrity_task list \<Rightarrow> jdict" where
  "manifest_body build files tasks = [(''schema_version'', JInt 1), (''algorithm'', JStr ''sha256''), (''build_id'', JStr build),
    (''files'', JList (map integrity_file_json (sort_key if_path files))), (''tasks'', JList (map integrity_task_json tasks))]"

definition body_digest :: "string \<Rightarrow> integrity_file list \<Rightarrow> integrity_task list \<Rightarrow> string" where
  "body_digest build files tasks = sha256_hex (canonical_json_bytes (JObj (manifest_body build files tasks)))"

definition skill_path :: "rendered_skill \<Rightarrow> string" where
  "skill_path s = ''skills/'' @ rs_directory s @ ''/SKILL.md''"

definition task_digest :: "build_task \<Rightarrow> string" where
  "task_digest t = sha256_hex (canonical_json_bytes (task_json t))"

definition anchored_task :: "build_task \<Rightarrow> rendered_skill \<Rightarrow> integrity_task" where
  "anchored_task t s = \<lparr>it_task = tk_id t, it_record = task_digest t, it_path = skill_path s, it_sha256 = sha256_hex (rs_content s)\<rparr>"

definition anchored_file :: "string \<times> string \<Rightarrow> integrity_file" where
  "anchored_file e = \<lparr>if_path = fst e, if_length = length (snd e), if_sha256 = sha256_hex (snd e)\<rparr>"

definition create_integrity_manifest :: "string \<Rightarrow> string \<Rightarrow> build_plan \<Rightarrow> rendered_skill list \<Rightarrow> jdict" where
  "create_integrity_manifest instruction document plan skills =
    (let payloads = dict_of ([(''instruction.json'', instruction), (''plan.json'', document)] @ map (\<lambda>s. (skill_path s, rs_content s)) skills);
         files = map anchored_file payloads; tasks = map2 anchored_task (bp_tasks plan) skills
     in manifest_body (bp_build plan) files tasks @ [(''root_digest'', JStr (body_digest (bp_build plan) files tasks))])"

text \<open>\<open>PreparedIntegrityManifest.model_validate\<close>.\<close>

definition digest_of :: "json \<Rightarrow> string option" where
  "digest_of v = (case v of JStr s \<Rightarrow> if sha_text s then Some s else None | _ \<Rightarrow> None)"

definition integrity_file_of :: "json \<Rightarrow> integrity_file option" where
  "integrity_file_of v =
    (case v of
       JObj d \<Rightarrow>
         if only_fields [''path'', ''byte_length'', ''sha256''] d
         then (case (text_field ''path'' d, Option.bind (map_of d ''byte_length'') int_value, Option.bind (map_of d ''sha256'') digest_of) of
             (Some p, Some n, Some h) \<Rightarrow> if 0 \<le> n then Some \<lparr>if_path = p, if_length = nat n, if_sha256 = h\<rparr> else None
           | _ \<Rightarrow> None)
         else None
     | _ \<Rightarrow> None)"

definition integrity_task_of :: "json \<Rightarrow> integrity_task option" where
  "integrity_task_of v =
    (case v of
       JObj d \<Rightarrow>
         if only_fields [''task_id'', ''task_record_sha256'', ''skill_path'', ''skill_sha256''] d
         then (case (text_field ''task_id'' d, Option.bind (map_of d ''task_record_sha256'') digest_of, text_field ''skill_path'' d,
                  Option.bind (map_of d ''skill_sha256'') digest_of) of
             (Some i, Some r, Some p, Some h) \<Rightarrow>
               if safe_identifier i then Some \<lparr>it_task = i, it_record = r, it_path = p, it_sha256 = h\<rparr> else None
           | _ \<Rightarrow> None)
         else None
     | _ \<Rightarrow> None)"

definition integrity_of :: "json \<Rightarrow> integrity_manifest option" where
  "integrity_of v =
    (case v of
       JObj d \<Rightarrow>
         if only_fields [''schema_version'', ''algorithm'', ''build_id'', ''files'', ''tasks'', ''root_digest''] d \<and>
           map_of d ''schema_version'' = Some (JInt 1) \<and> map_of d ''algorithm'' = Some (JStr ''sha256'')
         then (case (text_field ''build_id'' d, list_field ''files'' integrity_file_of d, list_field ''tasks'' integrity_task_of d,
                  Option.bind (map_of d ''root_digest'') digest_of) of
             (Some b, Some fs, Some ts, Some r) \<Rightarrow>
               if safe_identifier b then Some \<lparr>im_build = b, im_files = fs, im_tasks = ts, im_digest = r\<rparr> else None
           | _ \<Rightarrow> None)
         else None
     | _ \<Rightarrow> None)"

section \<open>The loader\<close>

definition integrity_fault :: "string \<Rightarrow> raised" where
  "integrity_fault message = plain_error ''PreparedBuildIntegrityError'' message"

record loaded_build =
  lb_instruction :: build_request
  lb_plan :: build_plan
  lb_skills :: "(string, rendered_skill) dict"
  lb_instruction_hash :: string
  lb_plan_hash :: string
  lb_task_hashes :: "(string, string) dict"
  lb_skill_hashes :: "(string, string) dict"
  lb_integrity :: string

text \<open>The files of a build as the walk lists them.\<close>

definition inventory_paths :: "prepared_files \<Rightarrow> string \<Rightarrow> string list" where
  "inventory_paths files build =
    map (\<lambda>p. join ''/'' (tl p))
      (filter (\<lambda>p. p \<noteq> [build, ''integrity.json''] \<and> take 2 p \<noteq> [build, ''executions'']) (filter (strict_prefix [build]) (map fst files)))"

definition read_anchored :: "prepared_files \<Rightarrow> string \<Rightarrow> integrity_file \<Rightarrow> raised + (string \<times> prepared_file)" where
  "read_anchored files build f =
    (case map_of files (build # split_on (CHR ''/'') (if_path f)) of
       None \<Rightarrow> Inl (integrity_fault ''Prepared build artifact is missing'')
     | Some content \<Rightarrow>
         sbind (check_that (length (prepared_bytes content) = if_length f \<and> sha256_hex (prepared_bytes content) = if_sha256 f)
           (integrity_fault ''Prepared build artifact hash does not match'')) (\<lambda>_. Inr (if_path f, content)))"

definition read_document :: "(json \<Rightarrow> raised + 'a) \<Rightarrow> string \<Rightarrow> (string, prepared_file) dict \<Rightarrow> raised + 'a" where
  "read_document f name payloads =
    (case Option.bind (map_of payloads name) read_prepared of
       None \<Rightarrow> Inl (integrity_fault ''Prepared build schema does not match'')
     | Some v \<Rightarrow> (case f v of Inl _ \<Rightarrow> Inl (integrity_fault ''Prepared build schema does not match'') | Inr x \<Rightarrow> Inr x))"

definition check_skill :: "(string, prepared_file) dict \<Rightarrow> (build_task \<times> rendered_skill) \<times> integrity_task \<Rightarrow> raised + unit" where
  "check_skill payloads e =
    (case e of ((t, s), a) \<Rightarrow>
      check_that (a = anchored_task t s \<and> map_option prepared_bytes (map_of payloads (skill_path s)) = Some (rs_content s))
        (integrity_fault ''Prepared task skill does not match''))"

text \<open>\<open>load_manifest\<close> checks the anchor itself, \<open>load_payloads\<close> the files against it.\<close>

definition load_manifest :: "prepared_files \<Rightarrow> string \<Rightarrow> raised + integrity_manifest" where
  "load_manifest files build =
    (if map_of files [build] \<noteq> None then Inl (integrity_fault ''Prepared build root is outside storage'')
     else if filter (strict_prefix [build]) (map fst files) = [] then Inl (plain_error ''PreparedBuildNotFoundError'' ''Prepared build not found'')
     else if map_of files [build, ''executions''] \<noteq> None then Inl (integrity_fault ''Execution storage root is unsafe'')
     else (case map_of files [build, ''integrity.json''] of
         None \<Rightarrow> Inl (integrity_fault ''Prepared build integrity is unavailable'')
       | Some content \<Rightarrow>
           (case Option.bind (read_prepared content) integrity_of of
              None \<Rightarrow> Inl (integrity_fault ''Prepared build integrity is invalid'')
            | Some m \<Rightarrow>
                sbind (check_that (im_build m = build) (integrity_fault ''Prepared build identity does not match'')) (\<lambda>_.
                sbind (check_that (body_digest (im_build m) (im_files m) (im_tasks m) = im_digest m)
                  (integrity_fault ''Prepared build integrity root does not match'')) (\<lambda>_. Inr m)))))"

definition load_payloads :: "prepared_files \<Rightarrow> string \<Rightarrow> integrity_manifest \<Rightarrow> raised + (string, prepared_file) dict" where
  "load_payloads files build m =
    (let expected = map if_path (im_files m)
     in sbind (check_that (distinct expected) (integrity_fault ''Prepared build file inventory is duplicated'')) (\<lambda>_.
        sbind (check_that (sort (inventory_paths files build) = sort expected)
          (integrity_fault ''Prepared build file inventory does not match'')) (\<lambda>_.
          smap (read_anchored files build) (im_files m))))"

definition load_prepared :: "(string \<Rightarrow> string) \<Rightarrow> prepared_files \<Rightarrow> string \<Rightarrow> raised + loaded_build" where
  "load_prepared ascii files build =
    sbind (load_manifest files build) (\<lambda>m.
    sbind (load_payloads files build m) (\<lambda>payloads.
    sbind (read_document build_request_of ''instruction.json'' payloads) (\<lambda>instruction.
    sbind (read_document build_plan_of ''plan.json'' payloads) (\<lambda>plan.
    sbind (check_that (bq_build instruction = build \<and> bp_build plan = build) (integrity_fault ''Prepared build identity does not match'')) (\<lambda>_.
    sbind (check_that (bp_status plan = Ready_plan \<and> bp_gaps plan = [])
      (plain_error ''PreparedBuildBlockedError'' ''Blocked prepared builds cannot execute'')) (\<lambda>_.
    sbind (deterministic_topological_order (bp_tasks plan)) (\<lambda>ordered.
    sbind (check_that (ordered = bp_tasks plan) (integrity_fault ''Prepared task order is not canonical'')) (\<lambda>_.
    sbind (validate_plan_coverage (bp_tasks plan)) (\<lambda>_.
    sbind (render_skills ascii build (bp_tasks plan)) (\<lambda>rendered.
    sbind (check_that (length rendered = length (im_tasks m)) (integrity_fault ''Prepared task inventory does not match'')) (\<lambda>_.
    sbind (smap (check_skill payloads) (zip (zip (bp_tasks plan) rendered) (im_tasks m))) (\<lambda>_.
      Inr \<lparr>lb_instruction = instruction, lb_plan = plan,
        lb_skills = map2 (\<lambda>t s. (tk_id t, s)) (bp_tasks plan) rendered,
        lb_instruction_hash = (case map_of payloads ''instruction.json'' of Some c \<Rightarrow> sha256_hex (prepared_bytes c) | None \<Rightarrow> []),
        lb_plan_hash = (case map_of payloads ''plan.json'' of Some c \<Rightarrow> sha256_hex (prepared_bytes c) | None \<Rightarrow> []),
        lb_task_hashes = map (\<lambda>t. (tk_id t, task_digest t)) (bp_tasks plan),
        lb_skill_hashes = map2 (\<lambda>t s. (tk_id t, sha256_hex (rs_content s))) (bp_tasks plan) rendered,
        lb_integrity = im_digest m\<rparr>))))))))))))"

end
