(* ===== verification/Build_Preparer.thy ===== *)
theory Build_Preparer
  imports Build_Loader Event_Store
begin

text \<open>
  Preparing a build (\<open>builder/preparer.py\<close>) and publishing it (\<open>builder/store.py\<close>).  The worker is a parameter.  A
  publication appears at once: the staging directory and its renaming into place are one step, and the lock
  file matters only when an earlier process left it behind.  What a later load finds is the plan that was published.
\<close>

section \<open>The store\<close>

definition store_fault :: raised where
  "store_fault = plain_error ''BuildStoreError'' ''Build storage failed''"

definition exists_fault :: "string \<Rightarrow> raised" where
  "exists_fault message = plain_error ''BuildAlreadyExistsError'' message"

definition build_exists :: "prepared_files \<Rightarrow> string \<Rightarrow> bool" where
  "build_exists files build \<longleftrightarrow> filter (prefix [build]) (map fst files) \<noteq> []"

definition assert_available :: "prepared_files \<Rightarrow> string \<Rightarrow> raised + unit" where
  "assert_available files build =
    sbind (validate_safe_identifier ''build_id'' build) (\<lambda>_.
      check_that (\<not> build_exists files build) (exists_fault ''Build already exists''))"

definition publication_ok :: "build_request \<Rightarrow> build_plan \<Rightarrow> rendered_skill list \<Rightarrow> bool" where
  "publication_ok r p skills \<longleftrightarrow>
    identifier_ok (bq_build r) \<and> identifier_ok (bp_build p) \<and> bq_build r = bp_build p \<and>
    map tk_id (bp_tasks p) = map rs_task skills \<and> (bp_status p = Blocked_plan \<longrightarrow> skills = []) \<and>
    list_all (\<lambda>s. skill_ok \<lparr>sk_task = rs_task s, sk_prompt = rs_content s\<rparr> \<and> safe_directory (rs_directory s)) skills \<and>
    distinct (map (lower \<circ> rs_directory) skills)"

definition lock_file :: "string \<Rightarrow> string list" where
  "lock_file build = [''.'' @ build @ ''.lock'']"

definition published_files :: "build_request \<Rightarrow> build_plan \<Rightarrow> rendered_skill list \<Rightarrow> prepared_files" where
  "published_files r p skills =
    (let b = bq_build r; integrity = create_integrity_manifest (json_text (build_request_json r)) (json_text (build_plan_json p)) p skills
     in [([b, ''instruction.json''], Json_text (build_request_json r)), ([b, ''plan.json''], Json_text (build_plan_json p))] @
        map (\<lambda>s. ([b, ''skills'', rs_directory s, ''SKILL.md''], Plain_text (rs_content s))) skills @
        [([b, ''integrity.json''], Json_text (JObj integrity))])"

definition publish ::
  "build_request \<Rightarrow> build_plan \<Rightarrow> rendered_skill list \<Rightarrow> prepared_files \<Rightarrow> (raised + string list) \<times> prepared_files" where
  "publish r p skills files =
    (if \<not> publication_ok r p skills then (Inl store_fault, files)
     else if build_exists files (bq_build r) then (Inl (exists_fault ''Build already exists''), files)
     else if map_of files (lock_file (bq_build r)) \<noteq> None
     then (Inl (exists_fault ''Build already exists or is being prepared''), files)
     else (Inr [bq_build r], files @ published_files r p skills))"

section \<open>Preparing\<close>

definition planning_prompt :: "build_request \<Rightarrow> string" where
  "planning_prompt r = join [CHR 0x0A]
    [''Prepare an Audisor build plan as one strict JSON object.'',
     ''Return JSON only: no Markdown fences, commentary, duplicate keys, NaN, or Infinity.'',
     ''build_id must be exactly '' @ ensure_ascii (quote (bq_build r)) @ ''.'',
     ''The build instruction is the JSON string '' @ quote (bq_instruction r) @ ''.'',
     ''Use exactly these top-level fields: build_id, status, gaps, tasks.'',
     ''status must be ready or blocked.'',
     ''A ready plan has zero gaps and at least one task.'',
     ''A blocked plan has at least one specific gap and zero tasks.'',
     ''Every task has exactly task_id, title, depends_on, prompt, expected_outputs, and validation.'',
     ''Task IDs and dependencies must be safe identifiers.'',
     ''expected_outputs must be a non-empty list of unique safe relative paths the task must create or modify.'',
     ''validation must be a non-empty list of deferred executable validation metadata.'',
     ''Each validation object has exactly argv, working_directory, acceptable_exit_codes, and timeout_seconds.'',
     ''argv is a non-empty argument list; working_directory is a safe relative path or '' @ [CHR 0x27] @ ''.'' @ [CHR 0x27] @ ''.'',
     ''acceptable_exit_codes is a non-empty list of unique integers from 0 through 255; timeout_seconds is 1 through 300.'',
     ''Validation commands are recorded and hashed but are not executed in this phase.'',
     ''Each ready task prompt must contain these Markdown headings exactly once and in order:'',
     ''## Objective'', ''## Inputs and repository paths'', ''## Required work'', ''## Ordered steps'', ''## Expected output'',
     ''## Validation'', ''## Evidence to return'',
     ''Every section must be specific and non-placeholder.'',
     ''Ordered steps must contain at least one numbered step.'',
     ''If no external path is needed, say that explicitly instead of inventing one.'']"

definition provider_fault :: raised where
  "provider_fault = plain_error ''ProviderInvalidResponseError'' ''Selected provider returned an invalid build plan''"

definition unfenced :: "string \<Rightarrow> raised + string" where
  "unfenced raw =
    (let cleaned = strip raw
     in if startswith cleaned fence \<and> endswith cleaned fence
        then (let lines = splitlines cleaned
              in if length lines < 3 \<or> lower (strip (hd lines)) \<notin> {fence, fence @ ''json''} then Inl provider_fault
                 else Inr (strip (join [CHR 0x0A] (butlast (tl lines)))))
        else Inr cleaned)"

definition parse_build_plan :: "string \<Rightarrow> raised + build_plan" where
  "parse_build_plan raw =
    sbind (unfenced raw) (\<lambda>cleaned.
      (case strict_loads cleaned of
         Some (JObj d) \<Rightarrow> (case build_plan_of (JObj d) of Inl _ \<Rightarrow> Inl provider_fault | Inr p \<Rightarrow> Inr p)
       | _ \<Rightarrow> Inl provider_fault))"

text \<open>The three classes that \<open>prepare\<close> catches; any other exception passes.\<close>

definition planning_error :: "raised \<Rightarrow> raised" where
  "planning_error e =
    (if ex_class e \<in> {''DependencyValidationError'', ''CoverageValidationError'', ''SkillRenderingError''} then provider_fault else e)"

definition finished_plan :: "(string \<Rightarrow> string) \<Rightarrow> build_plan \<Rightarrow> raised + (build_plan \<times> rendered_skill list)" where
  "finished_plan ascii p =
    (if bp_status p = Ready_plan
     then (case sbind (deterministic_topological_order (bp_tasks p)) (\<lambda>ordered.
              sbind (validate_plan_coverage ordered) (\<lambda>_.
              sbind (render_skills ascii (bp_build p) ordered) (\<lambda>skills. Inr (p\<lparr>bp_tasks := ordered\<rparr>, skills)))) of
         Inl e \<Rightarrow> Inl (planning_error e)
       | Inr r \<Rightarrow> Inr r)
     else Inr (p, []))"

record planning_provider =
  pp_text :: bool
  pp_execute :: "string \<Rightarrow> string \<Rightarrow> raised + worker_result"

definition prepare_build ::
  "(string \<Rightarrow> string) \<Rightarrow> planning_provider \<Rightarrow> build_request \<Rightarrow> prepared_files \<Rightarrow> (raised + build_plan) \<times> prepared_files" where
  "prepare_build ascii provider r files =
    (case
       sbind (check_that (pp_text provider)
         (plain_error ''ProviderCapabilityError'' ''Selected provider does not support text tasks'')) (\<lambda>_.
       sbind (assert_available files (bq_build r)) (\<lambda>_.
       sbind (pp_execute provider (bq_build r) (planning_prompt r)) (\<lambda>out.
       sbind (case out of
           Task_output t \<Rightarrow> if to_task t = bq_build r then Inr (to_answer t) else Inl provider_fault
         | Other_result \<Rightarrow> Inl provider_fault) (\<lambda>answer.
       sbind (parse_build_plan answer) (\<lambda>p.
       sbind (check_that (bp_build p = bq_build r) provider_fault) (\<lambda>_.
         finished_plan ascii p)))))) of
       Inl e \<Rightarrow> (Inl e, files)
     | Inr (p, skills) \<Rightarrow>
         (case publish r p skills files of
            (Inl e, files') \<Rightarrow> (Inl e, files')
          | (Inr _, files') \<Rightarrow> (Inr p, files')))"

end
