(* ===== verification/Prepared_Plans.thy ===== *)
theory Prepared_Plans
  imports Build_Preparer Build_Properties
begin

text \<open>
  What a prepared build keeps when it is written and read back: plans, requests and their sealed contexts are read
  as they were written, validation does not change what it accepted, and an ordered plan is ordered as it is.
\<close>

section \<open>Documents read back\<close>

lemma text_field_stored [simp]: "text_field k (stored_keys d) = text_field k d"
  by (auto simp: text_field_def map_of_stored split: option.split json.split)

lemma keys_stored: "fst ` set (stored_keys d) = fst ` set d"
  by (force simp: stored_keys_def)

lemma only_fields_keys: "only_fields names d \<longleftrightarrow> fst ` set d \<subseteq> set names"
  by (auto simp: only_fields_def list_all_iff)

lemma only_fields_stored [simp]: "only_fields names (stored_keys d) = only_fields names d"
  by (simp add: only_fields_keys keys_stored)

lemma list_field_stored:
  "map_of d k = Some (JList xs) \<Longrightarrow> list_field k f (stored_keys d) = option_each f (map copy_value xs)"
  by (simp add: list_field_def map_of_stored)

lemma option_each_comp: "(\<And>x. f (h (g x)) = Some x) \<Longrightarrow> option_each f (map (h \<circ> g) xs) = Some xs"
  by (induction xs) simp_all

lemma option_each_atoms [simp]:
  "option_each text_of (map (copy_value \<circ> JStr) ts) = Some ts" "option_each int_value (map (copy_value \<circ> JInt) ns) = Some ns"
  by (rule option_each_comp; simp add: text_of_def int_value_def)+

lemma command_read: "command_of (copy_value (command_json c)) = Some c"
proof -
  obtain d where d: "command_json c = JObj d" "map_of d ''argv'' = Some (JList (map JStr (tv_argv c)))"
    "map_of d ''working_directory'' = Some (JStr (tv_directory c))"
    "map_of d ''acceptable_exit_codes'' = Some (JList (map JInt (tv_codes c)))" "map_of d ''timeout_seconds'' = Some (JInt (tv_timeout c))"
    "only_fields [''argv'', ''working_directory'', ''acceptable_exit_codes'', ''timeout_seconds''] d"
    by (simp add: command_json_def strings_json_def only_fields_def)
  show ?thesis
    unfolding d(1) copy_object command_of_def json.case only_fields_stored
    using d(3-6) list_field_stored [OF d(2), of text_of]
    by (simp add: field_or_def map_of_stored text_of_def int_value_def list_of_def)
qed

lemma task_read: "task_of (copy_value (task_json t)) = Some t"
proof -
  obtain d where d: "task_json t = JObj d" "map_of d ''depends_on'' = Some (JList (map JStr (tk_depends t)))"
    "map_of d ''expected_outputs'' = Some (JList (map JStr (tk_outputs t)))"
    "map_of d ''validation'' = Some (JList (map command_json (tk_validation t)))"
    "text_field ''task_id'' d = Some (tk_id t)" "text_field ''title'' d = Some (tk_title t)" "text_field ''prompt'' d = Some (tk_prompt t)"
    "only_fields [''task_id'', ''title'', ''depends_on'', ''prompt'', ''expected_outputs'', ''validation''] d"
    by (simp add: task_json_def strings_json_def only_fields_def text_field_def)
  have "option_each command_of (map (copy_value \<circ> command_json) (tk_validation t)) = Some (tk_validation t)"
    by (rule option_each_comp) (rule command_read)
  then show ?thesis
    unfolding d(1) copy_object task_of_def json.case only_fields_stored
    using d(5-8) list_field_stored [OF d(2), of text_of] list_field_stored [OF d(3), of text_of] list_field_stored [OF d(4), of command_of]
    by simp
qed

lemma plan_read: "build_plan_of (copy_value (build_plan_json p)) = validate_plan p"
proof -
  obtain d where d: "build_plan_json p = JObj d" "map_of d ''gaps'' = Some (JList (map JStr (bp_gaps p)))"
    "map_of d ''tasks'' = Some (JList (map task_json (bp_tasks p)))" "text_field ''build_id'' d = Some (bp_build p)"
    "Option.bind (text_field ''status'' d) status_of = Some (bp_status p)"
    "only_fields [''build_id'', ''status'', ''gaps'', ''tasks''] d"
    by (cases "bp_status p") (simp_all add: build_plan_json_def strings_json_def only_fields_def text_field_def status_of_def)
  have "option_each task_of (map (copy_value \<circ> task_json) (bp_tasks p)) = Some (bp_tasks p)"
    by (rule option_each_comp) (rule task_read)
  then have "plan_fields_of (JObj (stored_keys d)) = Some p"
    unfolding plan_fields_of_def json.case only_fields_stored
    using d(4-6) list_field_stored [OF d(2), of text_of] list_field_stored [OF d(3), of task_of] by simp
  then show ?thesis unfolding build_plan_of_def d(1) copy_object by simp
qed

section \<open>A validated plan is a fixed point\<close>

lemma strip_idem [simp]: "strip (strip s) = strip s"
proof -
  have "dropWhile is_space (strip s) = strip s"
  proof (cases "strip s")
    case (Cons c t)
    obtain rest where "dropWhile is_space s = strip s @ rest"
      using takeWhile_dropWhile_id [of is_space "rev (dropWhile is_space s)"] unfolding strip_def
      by (metis rev_append rev_rev_ident)
    then have "\<not> is_space c" using hd_dropWhile [of is_space s] Cons by auto
    then show ?thesis using Cons by simp
  qed simp
  moreover have "dropWhile is_space (rev (strip s)) = rev (strip s)" by (simp add: strip_def dropWhile_idem)
  ultimately show ?thesis by (simp add: strip_def)
qed

lemma py_len_append [simp]: "py_len (a @ b) = py_len a + py_len b"
  by (simp add: py_len_def)

lemma py_len_strip: "py_len (strip s) \<le> py_len s"
proof -
  have "py_len (dropWhile p t) \<le> py_len t" for p t
    using py_len_append [of "takeWhile p t" "dropWhile p t"] by simp
  moreover have "py_len (rev t) = py_len t" for t by (simp add: py_len_def rev_filter [symmetric])
  ultimately show ?thesis unfolding strip_def by (metis le_trans)
qed

lemma strip_Nil: "strip s = [] \<longleftrightarrow> list_all is_space s"
proof -
  let ?d = "dropWhile is_space s"
  have "strip s = [] \<longleftrightarrow> (\<forall>c \<in> set ?d. is_space c)"
    unfolding strip_def rev_is_Nil_conv dropWhile_eq_Nil_conv set_rev ..
  also have "\<dots> \<longleftrightarrow> ?d = []"
  proof
    assume "\<forall>c \<in> set ?d. is_space c"
    then show "?d = []" using hd_dropWhile [of is_space s] hd_in_set [of ?d] by blast
  next
    assume "?d = []"
    then show "\<forall>c \<in> set ?d. is_space c" by (simp only: list.set ball_empty)
  qed
  also have "\<dots> \<longleftrightarrow> list_all is_space s" unfolding dropWhile_eq_Nil_conv list_all_iff ..
  finally show ?thesis .
qed

lemma replace_crlf:
  "py_len (replace_fuel n [CHR 0x0D, CHR 0x0A] [CHR 0x0A] s) \<le> py_len s"
  "set (replace_fuel n [CHR 0x0D, CHR 0x0A] [CHR 0x0A] s) - {CHR 0x0D, CHR 0x0A} = set s - {CHR 0x0D, CHR 0x0A}"
proof (induction n arbitrary: s)
  case (Suc n)
  {
    case 1
    show ?case
    proof (cases s)
      case (Cons c t)
      then show ?thesis using Suc(1) [of t] Suc(1) [of "drop 1 t"]
        by (cases t) (auto simp: startswith_def py_len_def)
    qed simp
  next
    case 2
    show ?case
    proof (cases s)
      case (Cons c t)
      then show ?thesis using Suc(2) [of t] Suc(2) [of "drop 1 t"]
        by (cases t) (auto simp: startswith_def)
    qed simp
  }
qed simp_all

lemma replace_cr:
  "py_len (replace_fuel n [CHR 0x0D] [CHR 0x0A] s) \<le> py_len s"
  "set (replace_fuel n [CHR 0x0D] [CHR 0x0A] s) - {CHR 0x0D, CHR 0x0A} = set s - {CHR 0x0D, CHR 0x0A}"
  "length s < n \<Longrightarrow> CHR 0x0D \<notin> set (replace_fuel n [CHR 0x0D] [CHR 0x0A] s)"
  "CHR 0x0D \<notin> set s \<Longrightarrow> replace_fuel n [CHR 0x0D] [CHR 0x0A] s = s"
proof (induction n arbitrary: s)
  case (Suc n)
  { case 1 then show ?case using Suc(1) [of "tl s"] by (cases s) (auto simp: startswith_def py_len_def)
  next case 2 then show ?case using Suc(2) [of "tl s"] by (cases s) (auto simp: startswith_def)
  next case 3 then show ?case using Suc(3) [of "tl s"] by (cases s) (auto simp: startswith_def)
  next case 4 then show ?case using Suc(4) [of "tl s"] by (cases s) (auto simp: startswith_def) }
qed simp_all

lemma no_crlf: "CHR 0x0D \<notin> set s \<Longrightarrow> replace_fuel n [CHR 0x0D, CHR 0x0A] [CHR 0x0A] s = s"
proof (induction n arbitrary: s)
  case (Suc n)
  then show ?case by (cases s) (auto simp: startswith_def)
qed simp

lemma unix_lines_facts:
  "py_len (unix_lines s) \<le> py_len s" "CHR 0x0D \<notin> set (unix_lines s)"
  "set (unix_lines s) - {CHR 0x0D, CHR 0x0A} = set s - {CHR 0x0D, CHR 0x0A}"
  "CHR 0x0D \<notin> set s \<Longrightarrow> unix_lines s = s"
proof -
  let ?a = "replace_fuel (Suc (length s)) [CHR 0x0D, CHR 0x0A] [CHR 0x0A] s"
  have u: "unix_lines s = replace_fuel (Suc (length ?a)) [CHR 0x0D] [CHR 0x0A] ?a" by (simp only: unix_lines_def replace_def)
  show "py_len (unix_lines s) \<le> py_len s" unfolding u by (rule le_trans [OF replace_cr(1) replace_crlf(1)])
  show "CHR 0x0D \<notin> set (unix_lines s)" unfolding u by (rule replace_cr(3)) (rule lessI)
  show "set (unix_lines s) - {CHR 0x0D, CHR 0x0A} = set s - {CHR 0x0D, CHR 0x0A}"
    unfolding u by (rule trans [OF replace_cr(2) replace_crlf(2)])
  show "unix_lines s = s" if "CHR 0x0D \<notin> set s"
    unfolding u no_crlf [OF that] by (rule replace_cr(4) [OF that])
qed

lemma set_strip: "set (strip s) \<subseteq> set s"
proof -
  have "set (dropWhile p t) \<subseteq> set t" for p and t :: string by (blast dest: set_dropWhileD)
  then show ?thesis unfolding strip_def set_rev by (metis set_rev subset_trans)
qed

lemma prompt_content: "has_content s \<Longrightarrow> strip (unix_lines s) \<noteq> []"
proof -
  assume "has_content s"
  then obtain c where "c \<in> set s" "\<not> is_space c" by (auto simp: has_content_def strip_Nil list_all_iff)
  moreover have "is_space (CHR 0x0D)" "is_space (CHR 0x0A)" by (simp_all add: is_space_def)
  ultimately have "c \<in> set (unix_lines s)" using unix_lines_facts(3) [of s] by auto
  with \<open>\<not> is_space c\<close> show ?thesis by (auto simp: strip_Nil list_all_iff)
qed

lemma validated_task:
  assumes "validate_task t = Inr u"
  shows "validate_task u = Inr u" "validate_task (with_sorted u) = Inr (with_sorted u)"
proof -
  let ?prompt = "strip (unix_lines (tk_prompt t))"
  have u: "u = t\<lparr>tk_title := strip (tk_title t), tk_prompt := ?prompt\<rparr>"
    using assms by (auto simp: validate_task_def Let_def split: if_split_asm)
  have "CHR 0x0D \<notin> set ?prompt" using unix_lines_facts(2) [of "tk_prompt t"] set_strip [of "unix_lines (tk_prompt t)"] by blast
  then have fixed: "unix_lines ?prompt = ?prompt" by (rule unix_lines_facts(4))
  have lengths: "py_len (strip (tk_title t)) \<le> py_len (tk_title t)" "py_len ?prompt \<le> py_len (tk_prompt t)"
    using py_len_strip [of "tk_title t"] py_len_strip [of "unix_lines (tk_prompt t)"] unix_lines_facts(1) [of "tk_prompt t"]
    by simp_all
  show first: "validate_task u = Inr u"
    using assms fixed lengths prompt_content [of "tk_prompt t"] unfolding u
    by (auto simp: validate_task_def Let_def has_content_def split: if_split_asm)
  have "strip (tk_title u) = tk_title u" "strip (unix_lines (tk_prompt u)) = tk_prompt u" using fixed unfolding u by simp_all
  with first show "validate_task (with_sorted u) = Inr (with_sorted u)"
    unfolding validate_task_def with_sorted_def Let_def by (simp add: list_all_iff split: if_split_asm)
qed

section \<open>The order of an ordered plan\<close>

lemma sound_with_sorted: "sound_graph tasks \<Longrightarrow> sound_graph (map with_sorted tasks)"
proof -
  assume sound: "sound_graph tasks"
  have "distinct (map lower (tk_depends (with_sorted t))) = distinct (map lower (tk_depends t))" for t
    using mset_eq_imp_distinct_iff [of "map lower (tk_depends (with_sorted t))" "map lower (tk_depends t)"] by simp
  then show "sound_graph (map with_sorted tasks)"
    using sound by (simp add: sound_graph_def list_all_iff comp_def image_image)
qed

lemma depends_with_sorted: "depends_of (map with_sorted tasks) i = depends_of tasks i"
  unfolding depends_of_def set_map image_image by (simp only: image_image with_sorted_fields)

lemma order_fixed:
  assumes "deterministic_topological_order tasks = Inr out"
  shows "deterministic_topological_order out = Inr out"
proof -
  note out = assms [unfolded order_exact]
  have same: "mset out = mset (map with_sorted tasks)" using out by simp
  have sound: "sound_graph out" using sound_graph_mset [OF same [symmetric]] sound_with_sorted out by blast
  have depends: "depends_of out i = depends_of tasks i" for i using depends_of_mset [OF same] depends_with_sorted by simp
  have len: "length out = length tasks" using same by (metis length_map size_mset)
  have ids: "mset (map tk_id out) = mset (map tk_id tasks)"
    using arg_cong [OF same, of "image_mset tk_id"] by (simp add: image_mset.compositionality comp_def)
  have "greedy_order (length out) out [] = map tk_id out"
    using greedy_order_cong [OF ids sound_ids(1) [OF sound] depends] out len by simp
  moreover have "mset out = image_mset with_sorted (mset out)"
    using same by (simp add: image_mset.compositionality comp_def)
  ultimately show ?thesis using out sound depends unfolding order_exact by (simp add: acyclic_graph_def)
qed

lemma validated_plan_tasks:
  assumes "validate_plan p0 = Inr p" "bp_status p = Ready_plan" "mset tasks = image_mset with_sorted (mset (bp_tasks p))"
  shows "validate_plan (p\<lparr>bp_tasks := tasks\<rparr>) = Inr (p\<lparr>bp_tasks := tasks\<rparr>)"
proof -
  note p = validate_plan_Inr [OF assms(1)]
  have each: "set tasks = with_sorted ` set (bp_tasks p)" using arg_cong [OF assms(3), of set_mset] by simp
  have "validate_task t = Inr t" if "t \<in> set tasks" for t
    using that p(6) validated_task(2) unfolding each by blast
  then have "smap validate_task tasks = Inr tasks" by (rule smap_same)
  moreover have "length tasks = length (bp_tasks p)" using arg_cong [OF assms(3), of size] by simp
  moreover have "length (bp_tasks p) \<le> 256"
    using assms(1) by (auto simp: validate_plan_def sbind_eq_Inr Let_def split: if_split_asm)
  moreover have "bp_gaps p = []" "bp_tasks p \<noteq> []" using p(4,5) assms(2) by simp_all
  ultimately show ?thesis using p(2) assms(2) unfolding validate_plan_def by (auto simp: Let_def)
qed

section \<open>A sealed context read back\<close>

lemma text_of_copy: "text_of (copy_value v) = text_of v"
  by (cases v) (simp_all add: text_of_def)

lemma option_each_copy: "(\<And>v. f (copy_value v) = f v) \<Longrightarrow> option_each f (map copy_value xs) = option_each f xs"
  by (induction xs) (simp_all split: option.split)

lemma texts_stored: "list_field k text_of (stored_keys d) = list_field k text_of d"
  by (auto simp: list_field_def map_of_stored text_of_copy option_each_copy split: option.split json.split)

lemma shape_copy [simp]: "is_text (copy_value v) = is_text v" "is_bool (copy_value v) = is_bool v" "is_object (copy_value v) = is_object v"
  by (cases v; simp add: is_text_def is_bool_def is_object_def)+

lemma stored_keys_Nil [simp]: "stored_keys d = [] \<longleftrightarrow> d = []"
proof -
  have "length (stored_keys d) = length d" by (simp add: stored_keys_def)
  then show ?thesis by (metis length_0_conv)
qed

lemma set_stored: "set (stored_keys d) = (\<lambda>(k, v). (k, copy_value v)) ` set d"
  by (simp add: stored_keys_def)

lemma dict_field_stored:
  "(\<And>v. ok (copy_value v) = ok v) \<Longrightarrow> dict_field name ok needed (stored_keys d) = dict_field name ok needed d"
  by (auto simp: dict_field_def map_of_stored list_all_iff set_stored copy_object simp del: copy_value.simps(1) split: option.split json.split)

lemma copy_text: "copy_value v = JStr s \<longleftrightarrow> v = JStr s"
  by (cases v) auto

lemma copy_int: "copy_value v = JInt n \<longleftrightarrow> v = JInt n"
  by (cases v) auto

lemma clean_stored: "clean_or_dirty (stored_keys d) = clean_or_dirty d"
  by (auto simp: clean_or_dirty_def map_of_stored copy_object copy_text simp del: copy_value.simps(1) split: option.split json.split)

lemma without_stored: "filter (\<lambda>e. fst e \<noteq> k) (stored_keys d) = stored_keys (filter (\<lambda>e. fst e \<noteq> k) d)"
proof -
  have "filter (\<lambda>e. fst e \<noteq> k) (map (\<lambda>(k, v). (k, copy_value v)) d) = map (\<lambda>(k, v). (k, copy_value v)) (filter (\<lambda>e. fst e \<noteq> k) d)"
    by (induction d) auto
  then show ?thesis by (simp add: stored_keys_def filter_sort)
qed

lemma hash_stored: "context_hash (stored_keys d) = context_hash d"
  unfolding context_hash_def without_stored by (simp only: copy_object [symmetric] copy_value_idem)

lemma context_of_eq:
  "context_of v = Some w \<longleftrightarrow> (\<exists>given d. v = JObj given \<and> w = JObj d \<and> context_ok d \<and>
    d = (if map_of given ''schema_version'' = None then (''schema_version'', JInt 1) # given else given))"
  by (auto simp: context_of_def Let_def split: json.split if_split_asm)

lemma context_ok_stored: "context_ok (stored_keys d) = context_ok d"
proof -
  have "map_of (stored_keys d) ''schema_version'' = Some (JInt 1) \<longleftrightarrow> map_of d ''schema_version'' = Some (JInt 1)"
    using copy_value.simps by (auto simp: map_of_stored copy_int)
  moreover have "(case map_of (stored_keys d) ''success_definition'' of Some (JObj e) \<Rightarrow> e \<noteq> [] | _ \<Rightarrow> False) =
      (case map_of d ''success_definition'' of Some (JObj e) \<Rightarrow> e \<noteq> [] | _ \<Rightarrow> False)"
    by (auto simp: map_of_stored copy_object simp del: copy_value.simps(1) split: option.split json.split)
  moreover have "(case map_of (stored_keys d) ''validation_requirements'' of Some (JList xs) \<Rightarrow> xs \<noteq> [] \<and> list_all is_object xs | _ \<Rightarrow> False) =
      (case map_of d ''validation_requirements'' of Some (JList xs) \<Rightarrow> xs \<noteq> [] \<and> list_all is_object xs | _ \<Rightarrow> False)"
    by (auto simp: map_of_stored copy_object list_all_iff simp del: copy_value.simps(1) split: option.split json.split)
  ultimately show ?thesis
    unfolding context_ok_def by (simp only: only_fields_stored text_field_stored dict_field_stored shape_copy clean_stored texts_stored hash_stored)
qed

lemma context_read:
  assumes "context_of v = Some w"
  shows "context_of (copy_value w) = Some (copy_value w)"
proof -
  from assms obtain d where d: "w = JObj d" "context_ok (stored_keys d)" by (auto simp: context_of_eq context_ok_stored)
  then have "map_of (stored_keys d) ''schema_version'' = Some (JInt 1)" by (simp add: context_ok_def)
  then show ?thesis using d(2) unfolding d(1) copy_object context_of_eq by simp
qed

text \<open>A request as \<open>BuildRequest\<close> accepts it.\<close>

definition valid_request :: "build_request \<Rightarrow> bool" where
  "valid_request r \<longleftrightarrow> request_ok r \<and> (bq_context r = JNull \<or> (\<exists>v. context_of v = Some (bq_context r)))"

lemma valid_request_of: "build_request_of v = Inr r \<Longrightarrow> valid_request r"
  by (auto simp: build_request_of_def valid_request_def field_or_def Let_def split: json.split_asm option.split_asm if_split_asm)

definition stored_request :: "build_request \<Rightarrow> build_request" where
  "stored_request r = r\<lparr>bq_context := copy_value (bq_context r)\<rparr>"

lemma request_read:
  assumes "valid_request r"
  shows "build_request_of (copy_value (build_request_json r)) = Inr (stored_request r)"
proof -
  obtain d where d: "build_request_json r = JObj d" "text_field ''build_id'' d = Some (bq_build r)"
    "text_field ''instruction'' d = Some (bq_instruction r)" "map_of d ''execution_context'' = Some (bq_context r)"
    "only_fields [''build_id'', ''instruction'', ''execution_context''] d"
    by (simp add: build_request_json_def only_fields_def text_field_def)
  have "(if copy_value (bq_context r) = JNull then Some JNull else context_of (copy_value (bq_context r))) = Some (copy_value (bq_context r))"
    using assms context_read unfolding valid_request_def by auto
  then show ?thesis
    unfolding d(1) copy_object build_request_of_def json.case only_fields_stored text_field_stored d(2,3)
    using assms d(4,5) by (auto simp: field_or_def map_of_stored valid_request_def request_ok_def stored_request_def Let_def)
qed

end
