(* ===== verification/Prepared_Properties.thy ===== *)
theory Prepared_Properties
  imports Prepared_Plans
begin

text \<open>
  What preparing, publishing and loading guarantee together: a published plan is loaded as it was published, and
  whatever is loaded is a sound ordered plan that is anchored file by file.
\<close>

section \<open>Names of prepared files\<close>

lemma join_split: "join [c] (split_on c s) = s"
proof (induction s)
  case (Cons x s)
  obtain w ws where "split_on c s = w # ws" using split_on_nonempty [of c s] by (cases "split_on c s") auto
  then show ?case using Cons by (cases ws) auto
qed simp

lemma split_skill_path:
  assumes "CHR ''/'' \<notin> set (rs_directory s)"
  shows "split_on (CHR ''/'') (skill_path s) = [''skills'', rs_directory s, ''SKILL.md'']"
proof -
  have "skill_path s = ''skills'' @ CHR ''/'' # rs_directory s @ CHR ''/'' # ''SKILL.md''" by (simp add: skill_path_def)
  then show ?thesis using assms by (simp add: split_on_append_sep split_on_no_sep)
qed

lemma safe_directory_slash: "safe_directory s \<Longrightarrow> CHR ''/'' \<notin> set s"
  by (auto simp: safe_directory_def list_all_iff slug_char_def is_digit_def)

lemma sort_key_map: "sort_key f (map g xs) = map g (sort_key (\<lambda>x. f (g x)) xs)"
proof -
  have "insort_key f (g x) (map g ys) = map g (insort_key (\<lambda>x. f (g x)) x ys)" for x ys
    by (induction ys) simp_all
  then show ?thesis by (induction xs) (simp_all add: sort_key_def)
qed

lemma option_each_read:
  "(\<And>x. x \<in> set xs \<Longrightarrow> f (copy_value (g x)) = Some x) \<Longrightarrow> option_each f (map copy_value (map g xs)) = Some xs"
  by (induction xs) simp_all

section \<open>The integrity manifest read back\<close>

lemma integrity_file_read:
  "sha_text (if_sha256 f) \<Longrightarrow> integrity_file_of (copy_value (integrity_file_json f)) = Some f"
proof -
  assume sha: "sha_text (if_sha256 f)"
  obtain d where d: "integrity_file_json f = JObj d" "text_field ''path'' d = Some (if_path f)"
    "map_of d ''byte_length'' = Some (JInt (int (if_length f)))" "map_of d ''sha256'' = Some (JStr (if_sha256 f))"
    "only_fields [''path'', ''byte_length'', ''sha256''] d"
    by (simp add: integrity_file_json_def only_fields_def text_field_def)
  then show ?thesis
    unfolding d(1) copy_object integrity_file_of_def json.case only_fields_stored text_field_stored d(2)
    using d(3-5) sha by (simp add: map_of_stored int_value_def digest_of_def)
qed

lemma integrity_task_read:
  "sha_text (it_record t) \<Longrightarrow> sha_text (it_sha256 t) \<Longrightarrow> safe_identifier (it_task t) \<Longrightarrow>
    integrity_task_of (copy_value (integrity_task_json t)) = Some t"
proof -
  assume sha: "sha_text (it_record t)" "sha_text (it_sha256 t)" "safe_identifier (it_task t)"
  obtain d where d: "integrity_task_json t = JObj d" "text_field ''task_id'' d = Some (it_task t)"
    "text_field ''skill_path'' d = Some (it_path t)" "map_of d ''task_record_sha256'' = Some (JStr (it_record t))"
    "map_of d ''skill_sha256'' = Some (JStr (it_sha256 t))"
    "only_fields [''task_id'', ''task_record_sha256'', ''skill_path'', ''skill_sha256''] d"
    by (simp add: integrity_task_json_def only_fields_def text_field_def)
  then show ?thesis
    unfolding d(1) copy_object integrity_task_of_def json.case only_fields_stored text_field_stored d(2,3)
    using d(4-6) sha by (simp add: map_of_stored digest_of_def)
qed

lemma integrity_read:
  assumes "list_all (\<lambda>f. sha_text (if_sha256 f)) fs" "safe_identifier b"
    "list_all (\<lambda>t. sha_text (it_record t) \<and> sha_text (it_sha256 t) \<and> safe_identifier (it_task t)) ts"
  shows "integrity_of (copy_value (JObj (manifest_body b fs ts @ [(''root_digest'', JStr (body_digest b fs ts))]))) =
    Some \<lparr>im_build = b, im_files = sort_key if_path fs, im_tasks = ts, im_digest = body_digest b fs ts\<rparr>"
proof -
  let ?d = "manifest_body b fs ts @ [(''root_digest'', JStr (body_digest b fs ts))]"
  have d: "text_field ''build_id'' ?d = Some b" "map_of ?d ''schema_version'' = Some (JInt 1)" "map_of ?d ''algorithm'' = Some (JStr ''sha256'')"
    "map_of ?d ''files'' = Some (JList (map integrity_file_json (sort_key if_path fs)))"
    "map_of ?d ''tasks'' = Some (JList (map integrity_task_json ts))" "map_of ?d ''root_digest'' = Some (JStr (body_digest b fs ts))"
    "only_fields [''schema_version'', ''algorithm'', ''build_id'', ''files'', ''tasks'', ''root_digest''] ?d"
    by (simp_all add: manifest_body_def only_fields_def text_field_def)
  have "option_each integrity_file_of (map copy_value (map integrity_file_json (sort_key if_path fs))) = Some (sort_key if_path fs)"
    using assms(1) integrity_file_read by (intro option_each_read) (auto simp: list_all_iff)
  moreover have "option_each integrity_task_of (map copy_value (map integrity_task_json ts)) = Some ts"
    using assms(3) integrity_task_read by (intro option_each_read) (auto simp: list_all_iff)
  moreover have "sha_text (body_digest b fs ts)" by (simp add: body_digest_def)
  ultimately show ?thesis
    unfolding copy_object integrity_of_def json.case only_fields_stored text_field_stored d(1)
    using d(2,3,6,7) list_field_stored [OF d(4), of integrity_file_of] list_field_stored [OF d(5), of integrity_task_of] assms(2)
    by (simp add: map_of_stored digest_of_def)
qed

section \<open>Loading what was published\<close>

text \<open>The files of a build by their names.\<close>

definition named_files :: "build_request \<Rightarrow> build_plan \<Rightarrow> rendered_skill list \<Rightarrow> (string, prepared_file) dict" where
  "named_files r p skills =
    [(''instruction.json'', Json_text (build_request_json r)), (''plan.json'', Json_text (build_plan_json p))] @
    map (\<lambda>s. (skill_path s, Plain_text (rs_content s))) skills"

definition anchor :: "string \<times> prepared_file \<Rightarrow> integrity_file" where
  "anchor e = anchored_file (fst e, prepared_bytes (snd e))"

definition published_manifest :: "build_request \<Rightarrow> build_plan \<Rightarrow> rendered_skill list \<Rightarrow> integrity_manifest" where
  "published_manifest r p skills =
    (let fs = map anchor (named_files r p skills); ts = map2 anchored_task (bp_tasks p) skills
     in \<lparr>im_build = bp_build p, im_files = sort_key if_path fs, im_tasks = ts, im_digest = body_digest (bp_build p) fs ts\<rparr>)"

lemma skills_safe:
  assumes "publication_ok r p skills"
  shows "s \<in> set skills \<Longrightarrow> CHR ''/'' \<notin> set (rs_directory s)" "distinct (map skill_path skills)"
proof -
  show slash: "CHR ''/'' \<notin> set (rs_directory s)" if "s \<in> set skills" for s
    using assms that safe_directory_slash by (auto simp: publication_ok_def list_all_iff)
  have "distinct (map lower (map rs_directory skills))" using assms by (simp add: publication_ok_def)
  then have "distinct (map rs_directory skills)" unfolding distinct_map [of lower] ..
  then show "distinct (map skill_path skills)" by (simp add: skill_path_def distinct_map inj_on_def)
qed

lemma skill_path_parts: "s \<in> set skills \<Longrightarrow> publication_ok r p skills \<Longrightarrow>
    split_on (CHR ''/'') (skill_path s) = [''skills'', rs_directory s, ''SKILL.md'']"
  using skills_safe(1) by (intro split_skill_path) blast

lemma named_facts:
  assumes "publication_ok r p skills"
  shows "distinct (map fst (named_files r p skills))"
    "e \<in> set (named_files r p skills) \<Longrightarrow>
      split_on (CHR ''/'') (fst e) \<in> {[''instruction.json''], [''plan.json'']} \<union> {[''skills'', d, ''SKILL.md''] |d. True}"
proof -
  have "\<forall>s. skill_path s \<noteq> ''instruction.json'' \<and> skill_path s \<noteq> ''plan.json''" by (simp add: skill_path_def)
  then show "distinct (map fst (named_files r p skills))"
    using skills_safe(2) [OF assms] by (force simp: named_files_def comp_def)
  show "split_on (CHR ''/'') (fst e) \<in> {[''instruction.json''], [''plan.json'']} \<union> {[''skills'', d, ''SKILL.md''] |d. True}"
    if "e \<in> set (named_files r p skills)"
    using that skill_path_parts [OF _ assms] by (auto simp: named_files_def)
qed

lemma published_files_eq:
  assumes "publication_ok r p skills"
  shows "published_files r p skills =
    map (\<lambda>e. (bq_build r # split_on (CHR ''/'') (fst e), snd e)) (named_files r p skills) @
    [([bq_build r, ''integrity.json''], Json_text (JObj (create_integrity_manifest (json_text (build_request_json r))
      (json_text (build_plan_json p)) p skills)))]"
  using skill_path_parts [OF _ assms] by (auto simp: published_files_def named_files_def Let_def)

lemma published_integrity:
  assumes "publication_ok r p skills"
  shows "integrity_of (copy_value (JObj (create_integrity_manifest (json_text (build_request_json r)) (json_text (build_plan_json p)) p skills))) =
    Some (published_manifest r p skills)"
proof -
  let ?given = "[(''instruction.json'', json_text (build_request_json r)), (''plan.json'', json_text (build_plan_json p))] @
    map (\<lambda>s. (skill_path s, rs_content s)) skills"
  have given: "?given = map (\<lambda>e. (fst e, prepared_bytes (snd e))) (named_files r p skills)" by (simp add: named_files_def)
  have "distinct (map fst ?given)" unfolding given using named_facts(1) [OF assms] by (simp add: comp_def)
  then have fs: "map anchored_file (dict_of ?given) = map anchor (named_files r p skills)"
    using dict_of_distinct [of ?given] unfolding given by (simp add: anchor_def)
  have ids: "map tk_id (bp_tasks p) = map rs_task skills" "list_all (\<lambda>s. identifier_ok (rs_task s)) skills" "identifier_ok (bp_build p)"
    using assms by (auto simp: publication_ok_def skill_ok_def list_all_iff)
  have safe: "safe_identifier s" if "identifier_ok s" for s
    using that by (auto simp: identifier_ok_def validate_safe_identifier_def accepts_def split: if_split_asm)
  have "list_all (\<lambda>t. identifier_ok (tk_id t)) (bp_tasks p)"
    using ids(1,2) by (metis (no_types, lifting) list.pred_map list.map_comp comp_def list.pred_cong)
  then have "list_all (\<lambda>t. sha_text (it_record t) \<and> sha_text (it_sha256 t) \<and> safe_identifier (it_task t)) (map2 anchored_task (bp_tasks p) skills)"
    using safe by (auto simp: list_all_iff anchored_task_def task_digest_def dest: set_zip_leftD)
  moreover have "list_all (\<lambda>f. sha_text (if_sha256 f)) (map anchor (named_files r p skills))"
    by (auto simp: list_all_iff anchor_def anchored_file_def)
  ultimately show ?thesis
    unfolding create_integrity_manifest_def Let_def fs published_manifest_def using integrity_read safe [OF ids(3)] by blast
qed

lemma map_of_after: "\<forall>e \<in> set old. fst e \<noteq> k \<Longrightarrow> map_of (old @ d) k = map_of d k"
  by (induction old) auto

lemma no_old_paths: "\<not> build_exists old b \<Longrightarrow> e \<in> set old \<Longrightarrow> \<not> prefix [b] (fst e)"
  by (auto simp: build_exists_def filter_empty_conv)

lemma old_silent: "\<not> build_exists old b \<Longrightarrow> map_of (old @ d) (b # path) = map_of d (b # path)"
  using no_old_paths [of old b] by (intro map_of_after) force

lemma new_paths:
  "\<not> build_exists old b \<Longrightarrow> filter (strict_prefix [b]) (map fst (old @ d)) = filter (strict_prefix [b]) (map fst d)"
  using no_old_paths [of old b] by (auto simp: filter_empty_conv strict_prefix_def)

lemma published_manifest_loads:
  assumes ok: "publication_ok r p skills" and new: "\<not> build_exists old (bq_build r)"
  shows "load_manifest (old @ published_files r p skills) (bq_build r) = Inr (published_manifest r p skills)"
proof -
  let ?files = "old @ published_files r p skills" and ?b = "bq_build r"
  have parts: "split_on (CHR ''/'') (fst e) \<noteq> [n]" if "e \<in> set (named_files r p skills)" "n \<in> {''integrity.json'', ''executions''}" for e n
    using named_facts(2) [OF ok that(1)] that(2) by auto
  have "map_of ?files [?b, ''executions''] = None"
    using parts unfolding old_silent [OF new] published_files_eq [OF ok] by (fastforce simp: map_of_eq_None_iff)
  moreover have "map_of ?files [?b] = None"
    unfolding old_silent [OF new] published_files_eq [OF ok] by (auto simp: map_of_eq_None_iff split_on_nonempty dest!: sym [of "[]"])
  moreover have "map_of ?files [?b, ''integrity.json''] = Some (Json_text (JObj (create_integrity_manifest
      (json_text (build_request_json r)) (json_text (build_plan_json p)) p skills)))"
    unfolding old_silent [OF new] published_files_eq [OF ok] by (subst map_of_after) (use parts in auto)
  moreover have "filter (strict_prefix [?b]) (map fst ?files) \<noteq> []"
    unfolding new_paths [OF new] published_files_eq [OF ok] by (simp add: strict_prefix_def)
  ultimately show ?thesis
    using published_integrity [OF ok] ok unfolding load_manifest_def
    by (simp add: published_manifest_def Let_def body_digest_def manifest_body_def publication_ok_def sort_key_id_if_sorted
        del: copy_value.simps)
qed

lemma published_inventory:
  assumes ok: "publication_ok r p skills" and new: "\<not> build_exists old (bq_build r)"
  shows "inventory_paths (old @ published_files r p skills) (bq_build r) = map fst (named_files r p skills)"
proof -
  let ?path = "\<lambda>e. bq_build r # split_on (CHR ''/'') (fst e)" and ?es = "named_files r p skills"
  have parts: "split_on (CHR ''/'') (fst e) \<noteq> [''integrity.json''] \<and> take 1 (split_on (CHR ''/'') (fst e)) \<noteq> [''executions'']"
    if "e \<in> set ?es" for e using named_facts(2) [OF ok that] by auto
  have keys: "map fst (published_files r p skills) = map ?path ?es @ [[bq_build r, ''integrity.json'']]"
    unfolding published_files_eq [OF ok] by simp
  have "filter (strict_prefix [bq_build r]) (map ?path ?es) = map ?path ?es"
    by (intro filter_True) (auto simp: strict_prefix_def split_on_nonempty [symmetric])
  moreover have "filter (\<lambda>q. q \<noteq> [bq_build r, ''integrity.json''] \<and> take 2 q \<noteq> [bq_build r, ''executions'']) (map ?path ?es) = map ?path ?es"
    using parts by (intro filter_True) (auto simp: take_Cons')
  ultimately show ?thesis
    unfolding inventory_paths_def new_paths [OF new] unfolding keys filter_append map_append map_map
    by (simp add: strict_prefix_def join_split comp_def)
qed

lemma published_payloads:
  assumes ok: "publication_ok r p skills" and new: "\<not> build_exists old (bq_build r)"
  shows "load_payloads (old @ published_files r p skills) (bq_build r) (published_manifest r p skills) = Inr (sort_key fst (named_files r p skills))"
proof -
  let ?es = "named_files r p skills" let ?files = "old @ published_files r p skills"
  let ?path = "\<lambda>e. bq_build r # split_on (CHR ''/'') (fst e)"
  have anchors: "im_files (published_manifest r p skills) = map anchor (sort_key fst ?es)"
    by (simp add: published_manifest_def Let_def sort_key_map anchor_def anchored_file_def)
  have names: "map if_path (map anchor (sort_key fst ?es)) = map fst (sort_key fst ?es)"
    by (simp add: anchor_def anchored_file_def)
  have "distinct (map fst (sort_key fst ?es))"
    using named_facts(1) [OF ok] mset_eq_imp_distinct_iff [of "map fst (sort_key fst ?es)" "map fst ?es"] by simp
  moreover have "sort (map fst ?es) = sort (map fst (sort_key fst ?es))" by (rule properties_for_sort) simp_all
  moreover have "read_anchored ?files (bq_build r) (anchor e) = Inr e" if "e \<in> set (sort_key fst ?es)" for e
  proof -
    have "inj (split_on (CHR ''/''))" by (metis injI join_split)
    then have "inj (\<lambda>n. bq_build r # split_on (CHR ''/'') n)" by (simp add: inj_def)
    then have "distinct (map (\<lambda>n. bq_build r # split_on (CHR ''/'') n) (map fst ?es))"
      using named_facts(1) [OF ok] by (simp only: distinct_map inj_on_subset [OF _ subset_UNIV])
    then have "distinct (map ?path ?es)" by (simp add: comp_def)
    then have "map_of (map (\<lambda>e. (?path e, snd e)) ?es) (?path e) = Some (snd e)"
      using that by (intro map_of_is_SomeI) (auto simp: comp_def)
    then have "map_of ?files (?path e) = Some (snd e)" unfolding old_silent [OF new] published_files_eq [OF ok] by (simp add: map_add_Some_iff)
    then show ?thesis by (simp add: read_anchored_def anchor_def anchored_file_def)
  qed
  then have "smap (read_anchored ?files (bq_build r)) (map anchor (sort_key fst ?es)) = Inr (map (\<lambda>e. e) (sort_key fst ?es))"
    by (intro smap_over_map)
  ultimately show ?thesis unfolding load_payloads_def anchors names published_inventory [OF ok new] Let_def by simp
qed

lemma published_payload:
  "publication_ok r p skills \<Longrightarrow> e \<in> set (named_files r p skills) \<Longrightarrow> map_of (sort_key fst (named_files r p skills)) (fst e) = Some (snd e)"
proof -
  let ?es = "named_files r p skills"
  assume ok: "publication_ok r p skills" and e: "e \<in> set ?es"
  have "distinct (map fst (sort_key fst ?es))"
    using named_facts(1) [OF ok] mset_eq_imp_distinct_iff [of "map fst (sort_key fst ?es)" "map fst ?es"] by simp
  then show ?thesis using e by (intro map_of_is_SomeI) auto
qed

section \<open>Round trip\<close>

lemma publish_Inr:
  assumes "publish r p skills files = (Inr x, files')"
  shows "publication_ok r p skills" "\<not> build_exists files (bq_build r)" "files' = files @ published_files r p skills"
  using assms by (auto simp: publish_def split: if_split_asm)

lemma prepared_parts:
  assumes "prepare_build ascii provider r files = (Inr plan, files')" "bp_status plan = Ready_plan"
  obtains skills where "publication_ok r plan skills" "\<not> build_exists files (bq_build r)" "files' = files @ published_files r plan skills"
    "validate_plan plan = Inr plan" "deterministic_topological_order (bp_tasks plan) = Inr (bp_tasks plan)"
    "validate_plan_coverage (bp_tasks plan) = Inr ()" "render_skills ascii (bp_build plan) (bp_tasks plan) = Inr skills"
proof -
  from assms(1) obtain p0 v p skills x where parts: "build_plan_of v = Inr p" "finished_plan ascii p = Inr (plan, skills)"
    and out: "publish r plan skills files = (Inr x, files')"
    by (auto simp: prepare_build_def parse_build_plan_def sbind_eq_Inr split: sum.split_asm prod.split_asm option.split_asm json.split_asm)
  obtain p1 where valid: "validate_plan p1 = Inr p" using parts(1) by (auto simp: build_plan_of_def split: option.split_asm)
  have ready: "bp_status p = Ready_plan" using parts(2) assms(2) by (auto simp: finished_plan_def split: if_split_asm sum.split_asm)
  then obtain tasks where tasks: "deterministic_topological_order (bp_tasks p) = Inr tasks" "validate_plan_coverage tasks = Inr ()"
    "render_skills ascii (bp_build p) tasks = Inr skills" "plan = p\<lparr>bp_tasks := tasks\<rparr>"
    using parts(2) by (auto simp: finished_plan_def sbind_eq_Inr split: sum.split_asm)
  have "validate_plan plan = Inr plan"
    using validated_plan_tasks [OF valid ready, of tasks] tasks(1) unfolding tasks(4) order_exact by blast
  then show thesis using that [of skills] publish_Inr [OF out] tasks order_fixed [OF tasks(1)] by simp
qed

lemma published_skills_check:
  assumes "publication_ok r p skills"
  shows "smap (check_skill (sort_key fst (named_files r p skills))) (zip (zip (bp_tasks p) skills) (map2 anchored_task (bp_tasks p) skills)) =
    Inr (replicate (length skills) ())"
proof -
  have len: "length (bp_tasks p) = length skills" using assms by (metis publication_ok_def length_map)
  have "check_skill (sort_key fst (named_files r p skills)) ((t, s), anchored_task t s) = Inr ()" if "s \<in> set skills" for t s
    using published_payload [OF assms, of "(skill_path s, Plain_text (rs_content s))"] that
    by (simp add: check_skill_def named_files_def)
  then have "smap (check_skill (sort_key fst (named_files r p skills))) (map (\<lambda>(t, s). ((t, s), anchored_task t s)) (zip (bp_tasks p) skills)) =
      Inr (map (\<lambda>_. ()) (zip (bp_tasks p) skills))"
    by (intro smap_over_map) (auto dest: set_zip_rightD)
  moreover have "zip (zip (bp_tasks p) skills) (map2 anchored_task (bp_tasks p) skills) =
      map (\<lambda>(t, s). ((t, s), anchored_task t s)) (zip (bp_tasks p) skills)"
    by (intro nth_equalityI) (auto simp: len)
  ultimately show ?thesis by (simp add: len map_replicate_const)
qed

lemma prepared_loads:
  assumes "valid_request r" "prepare_build ascii provider r files = (Inr plan, files')" "bp_status plan = Ready_plan"
  shows "\<exists>l skills. load_prepared ascii files' (bq_build r) = Inr l \<and> lb_plan l = plan \<and> lb_instruction l = stored_request r \<and>
    render_skills ascii (bq_build r) (bp_tasks plan) = Inr skills \<and> map snd (lb_skills l) = skills"
proof -
  from assms(2,3) obtain skills where parts: "publication_ok r plan skills" "\<not> build_exists files (bq_build r)"
    "files' = files @ published_files r plan skills" "validate_plan plan = Inr plan"
    "deterministic_topological_order (bp_tasks plan) = Inr (bp_tasks plan)" "validate_plan_coverage (bp_tasks plan) = Inr ()"
    "render_skills ascii (bp_build plan) (bp_tasks plan) = Inr skills" by (rule prepared_parts)
  let ?payloads = "sort_key fst (named_files r plan skills)"
  have same: "bp_build plan = bq_build r" "length (bp_tasks plan) = length skills"
    using parts(1) unfolding publication_ok_def by (metis length_map)+
  have "map_of ?payloads ''instruction.json'' = Some (Json_text (build_request_json r))"
    "map_of ?payloads ''plan.json'' = Some (Json_text (build_plan_json plan))"
    using published_payload [OF parts(1), of "(''instruction.json'', Json_text (build_request_json r))"]
      published_payload [OF parts(1), of "(''plan.json'', Json_text (build_plan_json plan))"] by (simp_all add: named_files_def)
  then have documents: "read_document build_request_of ''instruction.json'' ?payloads = Inr (stored_request r)"
    "read_document build_plan_of ''plan.json'' ?payloads = Inr plan"
    using request_read [OF assms(1)] plan_read [of plan] parts(4) by (simp_all add: read_document_def del: copy_value.simps)
  have gaps: "bp_gaps plan = []" using validate_plan_Inr(5) [OF parts(4)] assms(3) by simp
  have "snd \<circ> (\<lambda>(t :: build_task, s :: rendered_skill). (tk_id t, s)) = snd" by auto
  then have pairs: "map (snd \<circ> (\<lambda>(t, s). (tk_id t, s))) (zip (bp_tasks plan) skills) = skills"
    using same(2) by (simp only: map_snd_zip)
  show ?thesis
    unfolding load_prepared_def parts(3) published_manifest_loads [OF parts(1,2)] sbind_simps published_payloads [OF parts(1,2)] documents
    using published_skills_check [OF parts(1)] parts(5-7) same gaps assms(3)
    by (simp add: stored_request_def published_manifest_def Let_def pairs)
qed

text \<open>
  C20: A ready plan that was prepared is loaded again exactly as it was published, with the request and the skills,
  whatever other builds are there: every hash matches, the inventory is complete, the order is canonical and the skills
  are the ones that rendering gives.
\<close>

theorem prepared_build_loads:
  assumes "valid_request r" "prepare_build ascii provider r files = (Inr plan, files')" "bp_status plan = Ready_plan"
  shows "\<exists>l skills. load_prepared ascii files' (bq_build r) = Inr l \<and> lb_plan l = plan \<and> lb_instruction l = stored_request r \<and>
    render_skills ascii (bq_build r) (bp_tasks plan) = Inr skills \<and> map snd (lb_skills l) = skills"
  using assms by (rule prepared_loads)

definition sample_prompt :: string where
  "sample_prompt = join [CHR 0x0A] [''## Objective'', ''Write x.'', ''## Inputs and repository paths'', ''No path.'', ''## Required work'',
    ''Write it.'', ''## Ordered steps'', ''1. Write x.'', ''## Expected output'', ''The file x.'', ''## Validation'', ''Run it.'',
    ''## Evidence to return'', ''The diff.'']"

definition ready_plan :: build_plan where
  "ready_plan = \<lparr>bp_build = ''b'', bp_status = Ready_plan, bp_gaps = [],
    bp_tasks = [\<lparr>tk_id = ''t'', tk_title = ''Write x'', tk_depends = [], tk_prompt = sample_prompt, tk_outputs = [''x''],
      tk_validation = [\<lparr>tv_argv = [''true''], tv_directory = ''.'', tv_codes = [0], tv_timeout = 60\<rparr>]\<rparr>]\<rparr>"

definition ready_request :: build_request where
  "ready_request = \<lparr>bq_build = ''b'', bq_instruction = ''Write x.'', bq_context = JNull\<rparr>"

definition ready_answer :: string where
  "ready_answer = render (copy_value (build_plan_json ready_plan))"

definition ready_planner :: planning_provider where
  "ready_planner = \<lparr>pp_text = True, pp_execute = \<lambda>t _. Inr (Task_output \<lparr>to_task = t, to_answer = ready_answer\<rparr>)\<rparr>"

definition ready_skill :: rendered_skill where
  "ready_skill = \<lparr>rs_task = ''t'', rs_directory = ''t-write-x'', rs_content = skill_content ''b'' ''t-write-x'' (hd (bp_tasks ready_plan))\<rparr>"

lemma ready_prompt: "strip (unix_lines sample_prompt) = sample_prompt" "py_len sample_prompt \<le> 300" "has_content sample_prompt"
    "\<not> is_placeholder sample_prompt"
  by code_simp+

lemma ready_task:
  "identifier_ok ''t'' \<and> strip ''Write x'' = ''Write x'' \<and> py_len ''Write x'' = 7 \<and> outputs_ok [''x''] \<and> \<not> is_placeholder ''Write x'' \<and>
    command_ok \<lparr>tv_argv = [''true''], tv_directory = ''.'', tv_codes = [0], tv_timeout = 60\<rparr>"
  by code_simp

lemma ready_valid: "validate_plan ready_plan = Inr ready_plan"
proof -
  have "identifier_ok ''b''" by code_simp
  then show ?thesis
    using ready_task ready_prompt by (simp add: validate_plan_def ready_plan_def validate_task_def Let_def)
qed

lemma ready_unfenced: "unfenced ready_answer = Inr ready_answer"
  by code_simp

lemma ready_loads: "strict_loads ready_answer = Some (copy_value (build_plan_json ready_plan))"
  by code_simp

lemma ready_ordered: "deterministic_topological_order (bp_tasks ready_plan) = Inr (bp_tasks ready_plan)"
  by code_simp

lemma ready_covered: "validate_plan_coverage (bp_tasks ready_plan) = Inr ()"
  by code_simp

lemma ready_content: "py_len (rs_content ready_skill) \<le> 1000" "has_content (rs_content ready_skill)"
  by code_simp+

lemma ready_directory: "skill_directory (\<lambda>s. s) (hd (bp_tasks ready_plan)) = ''t-write-x''"
  by code_simp

lemma ready_rendered: "render_skills (\<lambda>s. s) ''b'' (bp_tasks ready_plan) = Inr [ready_skill]"
proof -
  have "identifier_ok ''b''" by code_simp
  moreover have "validate_task_coverage (hd (bp_tasks ready_plan)) = Inr ()"
    using ready_covered by (simp add: validate_plan_coverage_def ready_plan_def sbind_eq_Inr)
  ultimately have "render_skill (\<lambda>s. s) ''b'' (hd (bp_tasks ready_plan)) = Inr ready_skill"
    using ready_content ready_directory ready_task
    by (auto simp: render_skill_Inr skill_ok_def ready_skill_def ready_plan_def)
  then show ?thesis by (simp add: render_skills_Inr ready_plan_def)
qed

lemma ready_prepared:
  "prepare_build (\<lambda>s. s) ready_planner ready_request [] = (Inr ready_plan, published_files ready_request ready_plan [ready_skill])"
proof -
  have object: "\<exists>d. copy_value (build_plan_json ready_plan) = JObj d" by (simp add: build_plan_json_def)
  have parsed: "parse_build_plan ready_answer = Inr ready_plan"
    using object plan_read [of ready_plan] ready_valid
    by (auto simp: parse_build_plan_def ready_unfenced ready_loads simp del: copy_value.simps)
  have "bp_tasks ready_plan \<noteq> []" "bp_status ready_plan = Ready_plan" "bp_build ready_plan = ''b''" "bp_gaps ready_plan = []"
    "ready_plan\<lparr>bp_tasks := bp_tasks ready_plan\<rparr> = ready_plan"
    by (simp_all add: ready_plan_def)
  then have finished: "finished_plan (\<lambda>s. s) ready_plan = Inr (ready_plan, [ready_skill])"
    by (simp add: finished_plan_def ready_ordered ready_covered ready_rendered)
  have names: "identifier_ok ''b''" "validate_safe_identifier ''build_id'' ''b'' = Inr ''b''" by code_simp+
  have "safe_directory ''t-write-x''" by code_simp
  then have "publication_ok ready_request ready_plan [ready_skill]"
    using names(1) ready_task ready_content
    by (simp add: publication_ok_def ready_request_def ready_plan_def ready_skill_def skill_ok_def)
  then have "publish ready_request ready_plan [ready_skill] [] = (Inr [''b''], published_files ready_request ready_plan [ready_skill])"
    by (simp add: publish_def build_exists_def ready_request_def)
  then show ?thesis
    using names(2) parsed finished
    by (simp add: prepare_build_def ready_planner_def assert_available_def build_exists_def ready_request_def ready_plan_def)
qed

lemma ready_request_valid: "valid_request ready_request"
proof -
  have "identifier_ok ''b''" "py_len ''Write x.'' = 8" "has_content ''Write x.''" by code_simp+
  then show ?thesis by (simp add: valid_request_def request_ok_def ready_request_def)
qed

lemma prepared_build_loads_witness:
  "\<exists>l. load_prepared (\<lambda>s. s) (published_files ready_request ready_plan [ready_skill]) ''b'' = Inr l \<and> lb_plan l = ready_plan \<and>
    map snd (lb_skills l) = [ready_skill]"
proof -
  have "bp_status ready_plan = Ready_plan" "bq_build ready_request = ''b''" by (simp_all add: ready_plan_def ready_request_def)
  then show ?thesis
    using prepared_build_loads [OF ready_request_valid ready_prepared] ready_rendered by auto
qed

section \<open>What is loaded is anchored\<close>

lemma read_anchored_Inr:
  "read_anchored files b f = Inr e \<longleftrightarrow> (\<exists>c. e = (if_path f, c) \<and> map_of files (b # split_on (CHR ''/'') (if_path f)) = Some c \<and>
    length (prepared_bytes c) = if_length f \<and> sha256_hex (prepared_bytes c) = if_sha256 f)"
  by (auto simp: read_anchored_def sbind_eq_Inr split: option.split)

lemma load_payloads_Inr:
  assumes "load_payloads files b m = Inr payloads"
  shows "set (inventory_paths files b) = if_path ` set (im_files m)" "smap (read_anchored files b) (im_files m) = Inr payloads"
    "map_of payloads n = Some c \<Longrightarrow> map_of files (b # split_on (CHR ''/'') n) = Some c"
proof -
  have parts: "sort (inventory_paths files b) = sort (map if_path (im_files m))" "smap (read_anchored files b) (im_files m) = Inr payloads"
    using assms by (auto simp: load_payloads_def Let_def sbind_eq_Inr)
  then show "set (inventory_paths files b) = if_path ` set (im_files m)" by (metis set_map set_sort)
  show "smap (read_anchored files b) (im_files m) = Inr payloads" by (rule parts(2))
  show "map_of files (b # split_on (CHR ''/'') n) = Some c" if "map_of payloads n = Some c"
    using smap_set [OF parts(2) map_of_SomeD [OF that]] by (auto simp: read_anchored_Inr)
qed

lemma load_manifest_Inr: "load_manifest files b = Inr m \<Longrightarrow> im_build m = b \<and> body_digest b (im_files m) (im_tasks m) = im_digest m"
  by (auto simp: load_manifest_def sbind_eq_Inr split: if_split_asm option.split_asm)

lemma checked_skills:
  "smap (check_skill payloads) (zip (zip ts ss) ms) = Inr us \<Longrightarrow> length ts = length ss \<Longrightarrow> length ms = length ss \<Longrightarrow>
    ms = map2 anchored_task ts ss \<and> (\<forall>s \<in> set ss. map_option prepared_bytes (map_of payloads (skill_path s)) = Some (rs_content s))"
proof (induction ts arbitrary: ss ms us)
  case (Cons t ts)
  then show ?case by (cases ss; cases ms) (auto simp: sbind_eq_Inr check_skill_def)
qed simp

lemma rendered_length: "render_skills ascii b ts = Inr ss \<Longrightarrow> length ss = length ts"
  by (auto simp: render_skills_Inr dest: list_all2_lengthD)

lemma rendered_directories: "render_skills ascii b ts = Inr ss \<Longrightarrow> s \<in> set ss \<Longrightarrow> safe_directory (rs_directory s)"
  by (auto simp: render_skills_Inr render_skill_Inr list_all2_conv_all_nth in_set_conv_nth directory_safe)

text \<open>
  C21: A build that the loader accepts is sound and is all there is: its tasks are a sound acyclic graph in canonical
  order, its skills are exactly what rendering these tasks gives and lie in the files as rendered, the files of the
  build are exactly those of the integrity manifest, each with the length and the hash that it names, and the
  manifest has the digest of its body.
\<close>

theorem loaded_build_is_anchored:
  assumes "load_prepared ascii files build = Inr l"
  shows "sound_graph (bp_tasks (lb_plan l)) \<and> acyclic_graph (bp_tasks (lb_plan l)) \<and>
    deterministic_topological_order (bp_tasks (lb_plan l)) = Inr (bp_tasks (lb_plan l)) \<and>
    render_skills ascii build (bp_tasks (lb_plan l)) = Inr (map snd (lb_skills l)) \<and>
    (\<forall>s \<in> set (map snd (lb_skills l)). \<exists>c. map_of files [build, ''skills'', rs_directory s, ''SKILL.md''] = Some c \<and>
      prepared_bytes c = rs_content s) \<and>
    (\<exists>m. load_manifest files build = Inr m \<and> body_digest build (im_files m) (im_tasks m) = lb_integrity l \<and>
      im_tasks m = map2 anchored_task (bp_tasks (lb_plan l)) (map snd (lb_skills l)) \<and>
      set (inventory_paths files build) = if_path ` set (im_files m) \<and>
      (\<forall>f \<in> set (im_files m). \<exists>c. map_of files (build # split_on (CHR ''/'') (if_path f)) = Some c \<and>
        length (prepared_bytes c) = if_length f \<and> sha256_hex (prepared_bytes c) = if_sha256 f))"
proof -
  from assms obtain m payloads skills us where m: "load_manifest files build = Inr m" and payloads: "load_payloads files build m = Inr payloads"
    and order: "deterministic_topological_order (bp_tasks (lb_plan l)) = Inr (bp_tasks (lb_plan l))"
    and skills: "render_skills ascii build (bp_tasks (lb_plan l)) = Inr skills" "length skills = length (im_tasks m)"
      "smap (check_skill payloads) (zip (zip (bp_tasks (lb_plan l)) skills) (im_tasks m)) = Inr us"
    and l: "lb_skills l = map2 (\<lambda>t s. (tk_id t, s)) (bp_tasks (lb_plan l)) skills" "lb_integrity l = im_digest m"
    by (auto simp: load_prepared_def sbind_eq_Inr)
  have len: "length (bp_tasks (lb_plan l)) = length skills" using rendered_length [OF skills(1)] by simp
  have "snd \<circ> (\<lambda>(t :: build_task, s :: rendered_skill). (tk_id t, s)) = snd" by auto
  then have snds: "map snd (lb_skills l) = skills" unfolding l(1) map_map using len by (simp only: map_snd_zip)
  have checked: "im_tasks m = map2 anchored_task (bp_tasks (lb_plan l)) skills"
    "\<forall>s \<in> set skills. map_option prepared_bytes (map_of payloads (skill_path s)) = Some (rs_content s)"
    using checked_skills [OF skills(3) len] skills(2) by auto
  have files: "\<exists>c. map_of files [build, ''skills'', rs_directory s, ''SKILL.md''] = Some c \<and> prepared_bytes c = rs_content s"
    if s: "s \<in> set skills" for s
  proof -
    from checked(2) s obtain c where "map_of payloads (skill_path s) = Some c" "prepared_bytes c = rs_content s" by auto
    moreover have "split_on (CHR ''/'') (skill_path s) = [''skills'', rs_directory s, ''SKILL.md'']"
      by (rule split_skill_path) (rule safe_directory_slash [OF rendered_directories [OF skills(1) s]])
    ultimately show ?thesis using load_payloads_Inr(3) [OF payloads] by fastforce
  qed
  have "\<exists>e. read_anchored files build f = Inr e" if "f \<in> set (im_files m)" for f
    using load_payloads_Inr(2) [OF payloads] that smap_unit [of "read_anchored files build"] by blast
  then show ?thesis
    using m load_manifest_Inr [OF m] order skills(1) checked(1) files load_payloads_Inr(1) [OF payloads]
    unfolding snds l(2) read_anchored_Inr order_exact by blast
qed

lemma loaded_build_is_anchored_witness:
  "sound_graph (bp_tasks ready_plan) \<and> acyclic_graph (bp_tasks ready_plan) \<and>
    (\<exists>m. load_manifest (published_files ready_request ready_plan [ready_skill]) ''b'' = Inr m \<and>
      set (inventory_paths (published_files ready_request ready_plan [ready_skill]) ''b'') = if_path ` set (im_files m))"
proof -
  have "bp_status ready_plan = Ready_plan" "bq_build ready_request = ''b''" by (simp_all add: ready_plan_def ready_request_def)
  then obtain l where l: "load_prepared (\<lambda>s. s) (published_files ready_request ready_plan [ready_skill]) ''b'' = Inr l" "lb_plan l = ready_plan"
    using prepared_loads [OF ready_request_valid ready_prepared] by auto
  show ?thesis using loaded_build_is_anchored [OF l(1)] unfolding l(2) by blast
qed

end
