(* ===== verification/Spec2Isabelle.thy ===== *)
theory Spec2Isabelle
  imports Analysis_Properties Lifecycle_Properties Evaluation_Properties Fulfilment Operation_Properties Fix_Properties Verification_Properties
    Build_Properties Registry_Properties Prepared_Properties
begin

text \<open>
  A verification library for four Python products of the repository: A-Flow
  (\<open>openai_project/aflow/src/aflow\<close>), which analyses a plan, locks it, watches for drift and evaluates
  the build; the operation controller (\<open>openai_project/operation_controller\<close>), which takes an
  operation through planning, review, approval and execution by a tool-calling model; the OneShot
  Fix engine (\<open>audisor_backend\<close> with the modules of \<open>openai_project/runtime/src/audisor\<close> that it
  uses), which turns scanner findings into a repair plan, a handoff and one launch of an executor; and the
  build engine (\<open>openai_project/runtime/src/audisor/builder\<close>), which runs a prepared plan of tasks through a
  worker in an isolated copy of the target.

  \<^bold>\<open>How the parts of A-Flow interact.\<close>  A request bundles a success definition, a plan, evidence,
  authority and a baseline.  \<open>analyze\<close> admits it through the schemas and the domain invariants, runs six
  deterministic checks, and only when they find nothing lets a reviewer add findings, each of which is
  substantiated.  Its decision is what \<open>lock_plan\<close> locks.  \<open>compare_baselines\<close> and \<open>classify\<close> decide
  about drift, \<open>close_findings\<close> about a revision, and \<open>evaluate_result\<close> about the build.

  \<^item> \<open>Prelude\<close>: errors as values (\<open>py_error\<close>, \<open>result\<close>, \<open>rbind\<close>), dictionaries as association lists, the
    string functions of Python that the code uses.  \<open>Json\<close>, \<open>Sha256\<close>, \<open>Canonical\<close>: documents, the hash,
    canonical bytes (\<open>storage/hashing.py\<close>) and that they determine the document.
  \<^item> \<open>Enums\<close>, \<open>Artifacts\<close>, \<open>Bundles\<close>: one record per object of \<open>schemas/v1\<close> with its document; an optional
    field is an option.  \<open>Hashing\<close>: sealing and verification of these records.
  \<^item> \<open>Pointer\<close>, \<open>Validator\<close>, \<open>Domain\<close>: JSON pointers, \<open>schemas/validator.py\<close> and \<open>domain/models.py\<close>.
  \<^item> \<open>Findings\<close>, \<open>Coverage\<close>, \<open>Dependencies\<close>, \<open>Authority\<close>: the checkers of \<open>analysis/\<close>, each with an
    equivalence to a readable statement of what it checks; the search of \<open>Dependencies\<close> terminates.
  \<^item> \<open>Substantiation\<close>, \<open>Decision\<close>: \<open>semantic_checks.py\<close>, \<open>substantiation.py\<close>, \<open>decision_engine.py\<close>.
  \<^item> \<open>Drift\<close>, \<open>Lifecycle\<close>: \<open>drift/\<close> and \<open>lifecycle/\<close>.  \<open>Quality\<close>, \<open>Evaluation\<close>, \<open>Verdicts\<close>: \<open>evaluation/\<close>.
  \<^item> \<open>Fixtures\<close>, \<open>Build_Fixtures\<close>: bundles of \<open>fixtures/factory.py\<close>, on which the witnesses run.
  \<^item> \<open>Analysis_Properties\<close> (C1 to C4), \<open>Lifecycle_Properties\<close> (C5 to C7) and \<open>Evaluation_Properties\<close>
    (C8 to C9) state what these parts guarantee, errors included.
  \<^item> \<open>Fulfilment\<close>: \<open>fulfilment/\<close>, the routing of findings to participants, with C10.

  \<^bold>\<open>How the parts of the operation controller interact.\<close>  \<open>OperationController\<close> keeps one record per
  operation in a store and calls adapters; the planning and the execution adapter run the tool loop,
  which asks a provider, executes backend tools and suspends for tools of the frontend and for
  approval.  What it suspends with is saved in the record, and \<open>resume\<close> continues from there.

  \<^item> \<open>Json_Text\<close>, \<open>Json_Parse\<close>: \<open>json.dumps\<close> and \<open>json.loads\<close>; what is printed is parsed back.
  \<^item> \<open>Op_States\<close>: \<open>states.py\<close>.  \<open>Op_Store\<close>: \<open>FileOperationStore\<close> and \<open>approval.py\<close>, with the interface
    \<open>record_store\<close>.  \<open>Event_Store\<close>: \<open>event_store.py\<close>, with the interface \<open>append_log\<close>.
  \<^item> \<open>Tool_Contracts\<close>: \<open>tool_contracts.py\<close>.  \<open>Tool_Loop\<close>, \<open>Tool_Resume\<close>: \<open>tool_loop.py\<close>; the loop
    terminates since every round raises the iteration counter.
  \<^item> \<open>Op_Controller\<close>, \<open>Op_Resume\<close>: \<open>controller.py\<close>.  An action maps the controller's state to a result or
    an exception and the state that is left, so that what was saved before an exception stays saved.
  \<^item> \<open>Op_Adapters\<close>: \<open>adapters/planning.py\<close> and \<open>adapters/execution.py\<close> on top of the loop.
  \<^item> \<open>Op_Provider\<close>: \<open>providers/ollama.py\<close>, the client that the loop calls.
  \<^item> \<open>Op_Invariants\<close>: the locale \<open>controller_invariant\<close>, in which every operation is walked once, and its
    interpretations: histories, and moves along transitions with all other records untouched.
  \<^item> \<open>Op_Calls\<close>: the public methods as one type of calls, runs of them in any order, and the board of
    states that they refine.  \<open>Operation_Properties\<close> (C11 to C17) states the guarantees and errors.

  \<^bold>\<open>How the parts of the Fix engine interact.\<close>  A scan gives findings; \<open>scan_and_prepare\<close> follows the
  imports of their files, copies the closure into a snapshot and makes the manifest and the statements
  that bind everything by hashes.  \<open>run_fix\<close> qualifies a plan, asks an advisory agent once, scores
  the result and releases or withholds it.  The accepted path goes through \<open>dispatch_fix\<close>: guard, plan,
  dependency evidence, authority decisions, one question to the model, completeness, and a sealed
  handoff.  \<open>run_continuation\<close> checks a handoff again, writes an envelope, launches the executor and, when
  that exited with 0, calls \<open>verify_fix\<close>, which rescans the repository and judges the contract.

  \<^item> \<open>Fix_Models\<close>: \<open>schemas/fix\<close> and the two validators with their readable conditions.  \<open>Fix_Policies\<close>:
    \<open>policies/fix\<close>, completeness score and authority decisions, each with the exact condition of a pass.
  \<^item> \<open>Fix_Snapshot\<close>: \<open>scanning/dependency_closure.py\<close>, \<open>phases/fix/snapshot.py\<close> and \<open>schemas/shared.py\<close> over a
    tree of files, with the invariant of the closure.  \<open>Fix_Controller\<close>: \<open>phases/fix/phases.py\<close>,
    \<open>AFlowFixAdapter\<close> and \<open>FixController\<close>.
  \<^item> \<open>Fix_Grounding\<close>: \<open>policies/fix/validation_grounding.py\<close>; where grounded paths and commands come from.
    \<open>Fix_Invoke\<close>: the prompt and the reading of the answer in \<open>adapters/aflow_fix.py\<close>.
  \<^item> \<open>Fix_Artifacts\<close>: what the host takes from \<open>audisor_lifecycle\<close> and \<open>builder\<close>: context, frozen package,
    artifact, redaction.  \<open>Fix_Host\<close>: \<open>controllers/fix_host.py\<close>, with the interface \<open>single_flight\<close>.
  \<^item> \<open>Path_Security\<close>: \<open>security/path_security.py\<close> and what an authorised path is.  \<open>Fix_Continuation\<close>:
    \<open>codex/fix_continuation.py\<close>.  \<open>Fix_Properties\<close> (C31 to C37) states the guarantees and errors.
  \<^item> \<open>Fix_Verification\<close>: \<open>codex/fix_verification.py\<close>, the rescan, the assertions, the authorised commands and
    the stored result.  \<open>Verification_Properties\<close> (C38 to C40) says what a claimed completion rests on.

  \<^bold>\<open>How the parts of the build engine interact.\<close>  A plan is asked of a worker, validated, ordered
  (\<open>deterministic_topological_order\<close>), rendered into skills and published (\<open>prepare_build\<close>); \<open>load_prepared\<close> checks all
  of it again.  An execution resolves its target, acquires a claim on the scope, copies the target into a workspace and
  lets the scheduler release one task after the other; the answer of the worker is parsed into mutations,
  which the tool runtime carries out.  When all tasks have ended, release evidence is prepared, a terminal manifest
  hashes all artifacts, and the claim is released.

  \<^item> \<open>Build_Plans\<close>: \<open>schemas/build.py\<close>.  \<open>Build_Order\<close>: \<open>dependencies.py\<close> and the greedy order it computes.
    \<open>Build_Scheduler\<close>: \<open>scheduler.py\<close>, with the invariant \<open>live\<close> of a run and the final statuses.
  \<^item> \<open>Build_Actions\<close>: \<open>action_parser.py\<close> and the actions of \<open>schemas/execution.py\<close>.  \<open>Build_Disk\<close>: \<open>authority.py\<close>
    and \<open>workspace.py\<close> over a disk of nodes.  \<open>Build_Tools\<close>: \<open>tool_runtime.py\<close>.
  \<^item> \<open>Build_Registry\<close>: \<open>global_authority.py\<close>.  \<open>Build_Idempotency\<close>: \<open>idempotency.py\<close>.  \<open>Build_Manifest\<close>:
    \<open>terminal_manifest.py\<close>.  Each shows that its records read back and what an operation leaves in force.
  \<^item> \<open>Build_Coverage\<close>: \<open>coverage.py\<close> and \<open>skill_renderer.py\<close>, with the proof that a generated directory
    is always safe.  \<open>Build_Loader\<close>: \<open>task_loader.py\<close> and the reading of plans, requests and their sealed
    contexts.  \<open>Build_Preparer\<close>: \<open>store.py\<close> and \<open>preparer.py\<close>.  \<open>Prepared_Plans\<close> shows that these documents
    read back, that validation is idempotent and that an ordered plan is ordered as it is.
  \<^item> \<open>Build_Properties\<close> (C18 to C19, C23, C28 to C30), \<open>Registry_Properties\<close> (C22, C24 to C27) and
    \<open>Prepared_Properties\<close> (C20 to C21) state the guarantees and errors.

  \<^bold>\<open>Parameters and hypotheses.\<close>  The errors of the \<open>jsonschema\<close> package are the parameter \<open>iter\<close>, the
  reviewer, the adapters, the provider, the executor, clocks and fresh identifiers are functions.  So are
  the advisory agent, the model, the policy reader, the igniter, the callbacks, the launcher and the
  verifier of the Fix engine, the parser that lists the imports of a file, and what Git says of the target of a
  build.  The witnesses use concrete ones.

  \<^bold>\<open>Bounds and fuel.\<close>  SHA-256 works on 32-bit words with wrap-around, its fuel is the number of blocks
  of the padded message.  \<open>json_loads\<close> has fuel linear in the length of the text; it parses everything
  that is printed.  \<open>do_review\<close> counts the reviews that Python's stack has room for; C15 holds for every
  number.  The loops of the task order and of the scheduler have the number of tasks as fuel, which
  \<open>order_of_Inr\<close> and \<open>run_result\<close> show to be enough.  Times are whole milliseconds.

  \<^bold>\<open>Conventions.\<close>  Strings are UTF-8 bytes; regular expressions, lower case and white space are those of
  ASCII.  Documents have no floating-point numbers (the timeout of a config snapshot is a whole
  number).  A document with fields of other types than the code writes counts as a \<open>TypeError\<close>.
  Identifiers of operations are plain file names (C34 states it where it matters).  A method is one
  step: locks are not modelled.  Paths are POSIX paths without symbolic links.  Scores are exact
  rationals.  Where the code iterates over a set, the model takes the sorted order.

  \<^bold>\<open>Not modelled.\<close>  A-Flow: the command line, file access, most fixtures.
  Operation controller: the review adapter; the HTTP client of the provider is a parameter.  Fix engine: the
  scanner, which works on the Python syntax tree and on regular expressions, and the command line.  Build engine:
  the store of executions, the service that drives an execution and the envelopes of suspended operations
  (\<open>execution_store.py\<close>, \<open>executor.py\<close>, \<open>operation_envelope.py\<close>), the choice of the data directory from the
  environment, the renaming of directories into place and the file locks.  The assistant
  backend and the rest of the tombstoned runtime (operations, providers, management) are not modelled; front ends,
  packaging and tests are not the program.
\<close>

end
